(* ===== verification/Go_Prelude.thy ===== *)
theory Go_Prelude
  imports Main
begin

text \<open>
  The part of the Go language and its standard library that every component shares: error
  values and \<open>errors.Is\<close>, the sentinel errors of the four \<open>errs\<close> packages, actions that
  thread the outside world and may return an error, fixed-width conversions, and
  \<open>strings.Contains\<close>.

  Conventions of the whole development.
  \<^item> A Go function \<open>func (ctx, x) (T, error)\<close> that talks to the outside world is an action
    of type \<open>('a, 's) io\<close>: it takes the world \<open>'s\<close> and returns either \<open>Inl\<close> the error or
    \<open>Inr\<close> the value, and the world afterwards. An error does not undo the effects before it.
  \<^item> \<open>bind_io m f\<close> is \<open>x, err := m; if err != nil { return err }; f(x)\<close>;
    \<open>try_io m f\<close> hands the whole result to \<open>f\<close> where the code inspects \<open>err\<close>.
  \<^item> A pointer result \<open>*T\<close> that comes with an error is modelled by \<open>T\<close>: it is non-nil
    exactly when the error is nil, as every DAO of the source makes it. A pointer field
    (\<open>*string\<close>, \<open>*time.Time\<close>) is an \<open>option\<close>.
  \<^item> \<open>time.Time\<close> is the number of nanoseconds since the Unix epoch, \<open>time.Duration\<close> a number
    of nanoseconds; Go integers are HOL integers, with the wrap-around of their width written
    out (\<open>i64\<close>, \<open>i32\<close>) where the code computes or converts.
\<close>

section \<open>Error values\<close>

datatype identity_errs =
    ErrTenantNotFound | ErrTenantAlreadyExists | ErrTenantInvalidStatus
  | ErrUserNotFound | ErrUserAlreadyExists | ErrUserInvalidStatus | ErrUserFrozen
  | ErrPasswordIncorrect | ErrPasswordTooShort | ErrInvalidRole
  | ErrInvalidCredentials | ErrRefreshTokenInvalid | ErrRefreshTokenRevoked

datatype parking_errs =
    ErrParkingLotNotFound | ErrParkingLotAlreadyExists | ErrParkingLotInvalidStatus
  | ErrParkingLotInvalidCapacity | ErrParkingLotNameDuplicate
  | ErrLaneNotFound | ErrLaneNameDuplicate

datatype iot_errs =
    ErrDeviceNotFound | ErrDeviceIDDuplicate | ErrDeviceNotBound | ErrDeviceMustUnbind
  | ErrDeviceOffline | ErrInvalidCommand

datatype sms_errs =
    ErrCodeNotFound | ErrCodeExpired | ErrCodeUsed | ErrCodeMismatch
  | ErrPhoneRateLimit | ErrInvalidPhone | ErrInvalidPurpose

text \<open>
  A sentinel is a package-level \<open>var Err... = errors.New(...)\<close>; sentinels are compared by
  identity. The two library sentinels the code compares with are \<open>gorm.ErrRecordNotFound\<close>
  and \<open>redis.Nil\<close>.
\<close>

datatype sentinel =
    IdentityErr identity_errs
  | ParkingErr parking_errs
  | IotErr iot_errs
  | SmsErr sms_errs
  | GormErrRecordNotFound
  | RedisNil

datatype grpc_code =
    OK | Canceled | Unknown | InvalidArgument | DeadlineExceeded | NotFound | AlreadyExists
  | PermissionDenied | ResourceExhausted | FailedPrecondition | Aborted | OutOfRange
  | Unimplemented | Internal | Unavailable | DataLoss | Unauthenticated

text \<open>
  \<open>Opaque m\<close> is an error made on the spot (\<open>errors.New(m)\<close> inside a function, or an error of
  a driver with text \<open>m\<close>), \<open>Wrap p e\<close> is \<open>fmt.Errorf(p + "%w", e)\<close>, and
  \<open>StatusErr c m\<close> is \<open>status.Error(c, m)\<close>.
\<close>

datatype go_error =
    Sentinel sentinel
  | Opaque string
  | Wrap string go_error
  | StatusErr grpc_code string

abbreviation "ident e \<equiv> Sentinel (IdentityErr e)"
abbreviation "parking e \<equiv> Sentinel (ParkingErr e)"
abbreviation "iot e \<equiv> Sentinel (IotErr e)"
abbreviation "sms e \<equiv> Sentinel (SmsErr e)"
abbreviation "record_not_found \<equiv> Sentinel GormErrRecordNotFound"
abbreviation "redis_nil \<equiv> Sentinel RedisNil"

text \<open>\<open>errors.Is\<close> walks the chain of wrapped errors.\<close>

fun errors_Is :: "go_error \<Rightarrow> sentinel \<Rightarrow> bool" where
  "errors_Is (Sentinel s) t = (s = t)"
| "errors_Is (Opaque m) t = False"
| "errors_Is (Wrap p e) t = errors_Is e t"
| "errors_Is (StatusErr c m) t = False"

section \<open>Error texts\<close>

text \<open>Texts that are not ASCII are written as their UTF-8 bytes.\<close>

definition utf8 :: "nat list \<Rightarrow> string" where
  "utf8 bs = map char_of bs"

fun identity_text :: "identity_errs \<Rightarrow> string" where
  "identity_text ErrTenantNotFound = ''tenant not found''"
| "identity_text ErrTenantAlreadyExists = ''tenant already exists''"
| "identity_text ErrTenantInvalidStatus = ''invalid tenant status transition''"
| "identity_text ErrUserNotFound = ''user not found''"
| "identity_text ErrUserAlreadyExists = ''user already exists''"
| "identity_text ErrUserInvalidStatus = ''invalid user status transition''"
| "identity_text ErrUserFrozen = ''user is frozen''"
| "identity_text ErrPasswordIncorrect = ''incorrect password''"
| "identity_text ErrPasswordTooShort = ''password must be at least 8 characters''"
| "identity_text ErrInvalidRole = ''invalid user role''"
| "identity_text ErrInvalidCredentials = ''invalid username or password''"
| "identity_text ErrRefreshTokenInvalid = ''refresh token invalid or expired''"
| "identity_text ErrRefreshTokenRevoked = ''refresh token revoked''"

fun parking_text :: "parking_errs \<Rightarrow> string" where
  "parking_text ErrParkingLotNotFound = ''parking lot not found''"
| "parking_text ErrParkingLotAlreadyExists = ''parking lot already exists''"
| "parking_text ErrParkingLotInvalidStatus = ''invalid parking lot status transition''"
| "parking_text ErrParkingLotInvalidCapacity = ''invalid parking lot capacity''"
| "parking_text ErrParkingLotNameDuplicate =
     ''parking lot name already exists under this tenant''"
| "parking_text ErrLaneNotFound = ''lane not found''"
| "parking_text ErrLaneNameDuplicate = ''lane name already exists in this parking lot''"

fun iot_text :: "iot_errs \<Rightarrow> string" where
  "iot_text ErrDeviceNotFound = utf8
     [0xE8, 0xAE, 0xBE, 0xE5, 0xA4, 0x87, 0xE4, 0xB8, 0x8D, 0xE5, 0xAD, 0x98, 0xE5, 0x9C,
      0xA8]"
| "iot_text ErrDeviceIDDuplicate = utf8
     [0xE8, 0xAE, 0xBE, 0xE5, 0xA4, 0x87, 0xE5, 0xBA, 0x8F, 0xE5, 0x88, 0x97, 0xE5, 0x8F,
      0xB7, 0xE5, 0xB7, 0xB2, 0xE5, 0xAD, 0x98, 0xE5, 0x9C, 0xA8]"
| "iot_text ErrDeviceNotBound = utf8
     [0xE8, 0xAE, 0xBE, 0xE5, 0xA4, 0x87, 0xE5, 0xBD, 0x93, 0xE5, 0x89, 0x8D, 0xE6, 0x9C,
      0xAA, 0xE7, 0xBB, 0x91, 0xE5, 0xAE, 0x9A]"
| "iot_text ErrDeviceMustUnbind = utf8
     [0xE8, 0xAE, 0xBE, 0xE5, 0xA4, 0x87, 0xE5, 0xB7, 0xB2, 0xE7, 0xBB, 0x91, 0xE5, 0xAE,
      0x9A, 0xEF, 0xBC, 0x8C, 0xE8, 0xAF, 0xB7, 0xE5, 0x85, 0x88, 0xE8, 0xA7, 0xA3, 0xE7,
      0xBB, 0x91, 0xE5, 0x90, 0x8E, 0xE5, 0x88, 0xA0, 0xE9, 0x99, 0xA4]"
| "iot_text ErrDeviceOffline = utf8
     [0xE8, 0xAE, 0xBE, 0xE5, 0xA4, 0x87, 0xE7, 0xA6, 0xBB, 0xE7, 0xBA, 0xBF, 0xE8, 0xAF,
      0xB7, 0xE6, 0xA3, 0x80, 0xE6, 0x9F, 0xA5, 0xE5, 0xBF, 0x83, 0xE8, 0xB7, 0xB3]"
| "iot_text ErrInvalidCommand = utf8
     [0xE6, 0x97, 0xA0, 0xE6, 0x95, 0x88, 0xE7, 0x9A, 0x84, 0xE6, 0x8E, 0xA7, 0xE5, 0x88,
      0xB6, 0xE6, 0x8C, 0x87, 0xE4, 0xBB, 0xA4]"

fun sms_text :: "sms_errs \<Rightarrow> string" where
  "sms_text ErrCodeNotFound = ''sms code not found''"
| "sms_text ErrCodeExpired = ''sms code expired''"
| "sms_text ErrCodeUsed = ''sms code already used''"
| "sms_text ErrCodeMismatch = ''sms code mismatch''"
| "sms_text ErrPhoneRateLimit = ''phone rate limit exceeded''"
| "sms_text ErrInvalidPhone = ''invalid phone number''"
| "sms_text ErrInvalidPurpose = ''invalid sms purpose''"

fun sentinel_text :: "sentinel \<Rightarrow> string" where
  "sentinel_text (IdentityErr e) = identity_text e"
| "sentinel_text (ParkingErr e) = parking_text e"
| "sentinel_text (IotErr e) = iot_text e"
| "sentinel_text (SmsErr e) = sms_text e"
| "sentinel_text GormErrRecordNotFound = ''record not found''"
| "sentinel_text RedisNil = ''redis: nil''"

text \<open>The name \<open>codes.Code.String()\<close> gives a code.\<close>

fun code_string :: "grpc_code \<Rightarrow> string" where
  "code_string OK = ''OK''"
| "code_string Canceled = ''Canceled''"
| "code_string Unknown = ''Unknown''"
| "code_string InvalidArgument = ''InvalidArgument''"
| "code_string DeadlineExceeded = ''DeadlineExceeded''"
| "code_string NotFound = ''NotFound''"
| "code_string AlreadyExists = ''AlreadyExists''"
| "code_string PermissionDenied = ''PermissionDenied''"
| "code_string ResourceExhausted = ''ResourceExhausted''"
| "code_string FailedPrecondition = ''FailedPrecondition''"
| "code_string Aborted = ''Aborted''"
| "code_string OutOfRange = ''OutOfRange''"
| "code_string Unimplemented = ''Unimplemented''"
| "code_string Internal = ''Internal''"
| "code_string Unavailable = ''Unavailable''"
| "code_string DataLoss = ''DataLoss''"
| "code_string Unauthenticated = ''Unauthenticated''"

text \<open>\<open>err.Error()\<close>.\<close>

fun error_text :: "go_error \<Rightarrow> string" where
  "error_text (Sentinel s) = sentinel_text s"
| "error_text (Opaque m) = m"
| "error_text (Wrap p e) = p @ error_text e"
| "error_text (StatusErr c m) = ''rpc error: code = '' @ code_string c @ '' desc = '' @ m"

section \<open>Actions on the world\<close>

type_synonym ('a, 's) io = "'s \<Rightarrow> (go_error + 'a) \<times> 's"

definition return_io :: "'a \<Rightarrow> ('a, 's) io" where
  "return_io x = (\<lambda>s. (Inr x, s))"

definition fail_io :: "go_error \<Rightarrow> ('a, 's) io" where
  "fail_io e = (\<lambda>s. (Inl e, s))"

definition lift_io :: "go_error + 'a \<Rightarrow> ('a, 's) io" where
  "lift_io r = (\<lambda>s. (r, s))"

definition ask_io :: "('s \<Rightarrow> 'a \<times> 's) \<Rightarrow> ('a, 's) io" where
  "ask_io f = (\<lambda>s. case f s of (x, s') \<Rightarrow> (Inr x, s'))"

definition bind_io :: "('a, 's) io \<Rightarrow> ('a \<Rightarrow> ('b, 's) io) \<Rightarrow> ('b, 's) io" where
  "bind_io m f = (\<lambda>s. case m s of (Inl e, s') \<Rightarrow> (Inl e, s') | (Inr x, s') \<Rightarrow> f x s')"

definition try_io :: "('a, 's) io \<Rightarrow> (go_error + 'a \<Rightarrow> ('b, 's) io) \<Rightarrow> ('b, 's) io" where
  "try_io m f = (\<lambda>s. case m s of (r, s') \<Rightarrow> f r s')"

text \<open>\<open>_ = m\<close>: the code drops the error.\<close>

definition ignore_io :: "('a, 's) io \<Rightarrow> (unit, 's) io" where
  "ignore_io m = try_io m (\<lambda>_. return_io ())"

text \<open>\<open>if err != nil { return f(err) }\<close>.\<close>

definition map_err_io :: "(go_error \<Rightarrow> go_error) \<Rightarrow> ('a, 's) io \<Rightarrow> ('a, 's) io" where
  "map_err_io h m = (\<lambda>s. case m s of (Inl e, s') \<Rightarrow> (Inl (h e), s') | (Inr x, s') \<Rightarrow> (Inr x, s'))"

named_theorems io_simps \<open>rules that run actions on a given world\<close>

lemma return_io_run [io_simps, simp]: "return_io x s = (Inr x, s)"
  by (simp add: return_io_def)

lemma fail_io_run [io_simps, simp]: "fail_io e s = (Inl e, s)"
  by (simp add: fail_io_def)

lemma lift_io_run [io_simps, simp]: "lift_io r s = (r, s)"
  by (simp add: lift_io_def)

lemma ask_io_run [io_simps]: "ask_io f s = (Inr (fst (f s)), snd (f s))"
  by (simp add: ask_io_def split: prod.split)

lemma bind_io_run [io_simps]:
  "bind_io m f s = (case m s of (Inl e, s') \<Rightarrow> (Inl e, s') | (Inr x, s') \<Rightarrow> f x s')"
  by (simp add: bind_io_def)

lemma try_io_run [io_simps]: "try_io m f s = (case m s of (r, s') \<Rightarrow> f r s')"
  by (simp add: try_io_def)

lemma ignore_io_run [io_simps]: "ignore_io m s = (Inr (), snd (m s))"
  by (simp add: ignore_io_def try_io_run split: prod.split)

lemma map_err_io_run [io_simps]:
  "map_err_io h m s =
     (case m s of (Inl e, s') \<Rightarrow> (Inl (h e), s') | (Inr x, s') \<Rightarrow> (Inr x, s'))"
  by (simp add: map_err_io_def)

lemma bind_lift_io [simp]:
  "bind_io (lift_io (Inr x)) f = f x" "bind_io (lift_io (Inl e)) f = fail_io e"
  "bind_io (return_io x) f = f x" "bind_io (fail_io e) f = fail_io e"
  by (rule ext, simp add: bind_io_run)+

lemma bind_io_Inr: "m s = (Inr x, s') \<Longrightarrow> bind_io m f s = f x s'"
  by (simp add: bind_io_run)

lemma bind_io_Inl: "m s = (Inl e, s') \<Longrightarrow> bind_io m f s = (Inl e, s')"
  by (simp add: bind_io_run)

lemma bind_io_InrD:
  assumes "bind_io m f s = (Inr y, s'')"
  obtains x s' where "m s = (Inr x, s')" and "f x s' = (Inr y, s'')"
  using assms by (auto simp: bind_io_run split: prod.splits sum.splits)

lemma bind_io_assoc: "bind_io (bind_io m f) g = bind_io m (\<lambda>x. bind_io (f x) g)"
  by (rule ext) (simp add: bind_io_run split: prod.split sum.split)

lemma bind_return_io [simp]: "bind_io m return_io = m"
  by (rule ext) (simp add: bind_io_run split: prod.split sum.split)

text \<open>The world after a composed action.\<close>

lemma snd_map_err_io [simp]: "snd (map_err_io h m s) = snd (m s)"
  by (simp add: map_err_io_run split: prod.split sum.split)

lemma snd_bind_return [simp]: "snd (bind_io m (\<lambda>x. return_io (f x)) s) = snd (m s)"
  by (simp add: bind_io_run split: prod.split sum.split)

lemma bind_io_keeps:
  assumes "I (snd (m s))" and "\<And>x s'. m s = (Inr x, s') \<Longrightarrow> I s' \<Longrightarrow> I (snd (f x s'))"
  shows "I (snd (bind_io m f s))"
  using assms by (auto simp: bind_io_run split: prod.split sum.split)

text \<open>
  \<open>io_inv I m Q\<close>: the action \<open>m\<close> keeps \<open>I\<close> of the world, and its values satisfy \<open>Q\<close>.
\<close>

definition io_inv :: "('s \<Rightarrow> bool) \<Rightarrow> ('a, 's) io \<Rightarrow> ('a \<Rightarrow> bool) \<Rightarrow> bool" where
  "io_inv I m Q = (\<forall>s. I s \<longrightarrow> I (snd (m s)) \<and> (\<forall>x. fst (m s) = Inr x \<longrightarrow> Q x))"

lemma io_invD: "io_inv I m Q \<Longrightarrow> I s \<Longrightarrow> I (snd (m s))"
  by (simp add: io_inv_def)

lemma io_inv_bind:
  assumes "io_inv I m P" and "\<And>x. P x \<Longrightarrow> io_inv I (f x) Q"
  shows "io_inv I (bind_io m f) Q"
  unfolding io_inv_def
proof (intro allI impI)
  fix s
  assume "I s"
  obtain r s' where m: "m s = (r, s')" by fastforce
  with assms(1) \<open>I s\<close> have "I s'" "\<And>x. r = Inr x \<Longrightarrow> P x" by (auto simp: io_inv_def)
  with assms(2) show "I (snd (bind_io m f s)) \<and> (\<forall>x. fst (bind_io m f s) = Inr x \<longrightarrow> Q x)"
    by (cases r) (auto simp: bind_io_run m io_inv_def)
qed

lemma io_inv_try:
  assumes "io_inv I m P" and "\<And>r. (\<And>x. r = Inr x \<Longrightarrow> P x) \<Longrightarrow> io_inv I (f r) Q"
  shows "io_inv I (try_io m f) Q"
  unfolding io_inv_def
proof (intro allI impI)
  fix s
  assume "I s"
  obtain r s' where m: "m s = (r, s')" by fastforce
  with assms(1) \<open>I s\<close> have "I s'" "\<And>x. r = Inr x \<Longrightarrow> P x" by (auto simp: io_inv_def)
  with assms(2) [of r] show "I (snd (try_io m f s)) \<and> (\<forall>x. fst (try_io m f s) = Inr x \<longrightarrow> Q x)"
    by (auto simp: try_io_run m io_inv_def)
qed

lemma io_inv_map_err: "io_inv I m Q \<Longrightarrow> io_inv I (map_err_io h m) Q"
  by (auto simp: io_inv_def map_err_io_run split: prod.splits sum.splits)

lemma io_inv_ignore: "io_inv I m P \<Longrightarrow> Q () \<Longrightarrow> io_inv I (ignore_io m) Q"
  by (simp add: io_inv_def ignore_io_run)

lemma io_inv_simps [simp]:
  "io_inv I (fail_io e) Q" "Q x \<Longrightarrow> io_inv I (return_io x) Q"
  "(\<And>x. r = Inr x \<Longrightarrow> Q x) \<Longrightarrow> io_inv I (lift_io r) Q"
  by (auto simp: io_inv_def)

lemma io_inv_if:
  "(b \<Longrightarrow> io_inv I m Q) \<Longrightarrow> (\<not> b \<Longrightarrow> io_inv I m' Q) \<Longrightarrow> io_inv I (if b then m else m') Q"
  by simp

section \<open>Loops and larger worlds\<close>

text \<open>\<open>for _, x := range xs { if err := body(x); err != nil { return err } }\<close>.\<close>

fun for_io :: "('x \<Rightarrow> (unit, 's) io) \<Rightarrow> 'x list \<Rightarrow> (unit, 's) io" where
  "for_io body [] = return_io ()"
| "for_io body (x # xs) = bind_io (body x) (\<lambda>_. for_io body xs)"

lemma io_inv_for:
  "(\<And>x. x \<in> set xs \<Longrightarrow> io_inv I (body x) (\<lambda>_. True)) \<Longrightarrow> io_inv I (for_io body xs) (\<lambda>_. True)"
  by (induction xs) (auto intro: io_inv_bind)

text \<open>
  An action on a world, run in that world with a second component beside it: a variable that
  a closure captures, or another part of the system.
\<close>

definition on_fst :: "('a, 's) io \<Rightarrow> ('a, 's \<times> 'w) io" where
  "on_fst m = (\<lambda>(s, w). case m s of (r, s') \<Rightarrow> (r, (s', w)))"

lemma on_fst_run: "on_fst m s = (fst (m (fst s)), (snd (m (fst s)), snd s))"
  by (simp add: on_fst_def split: prod.split)

lemma on_fst_iff: "on_fst m s = (r, s') \<longleftrightarrow> m (fst s) = (r, fst s') \<and> snd s' = snd s"
  by (cases s'; cases "m (fst s)") (auto simp: on_fst_run)


lemma io_inv_on_fst: "io_inv I m Q \<Longrightarrow> io_inv (\<lambda>s. I (fst s)) (on_fst m) Q"
  by (simp add: io_inv_def on_fst_run)

section \<open>Fixed-width integers\<close>

definition i64 :: "int \<Rightarrow> int" where
  "i64 x = signed_take_bit 63 x"

definition i32 :: "int \<Rightarrow> int" where
  "i32 x = signed_take_bit 31 x"

lemma i64_id: "- (2 ^ 63) \<le> x \<Longrightarrow> x < 2 ^ 63 \<Longrightarrow> i64 x = x"
  unfolding i64_def by (rule signed_take_bit_int_eq_self) simp_all

lemma i32_id: "- (2 ^ 31) \<le> x \<Longrightarrow> x < 2 ^ 31 \<Longrightarrow> i32 x = x"
  unfolding i32_def by (rule signed_take_bit_int_eq_self) simp_all

lemma i64_range: "- (2 ^ 63) \<le> i64 x \<and> i64 x < 2 ^ 63"
  unfolding i64_def
  using signed_take_bit_int_greater_eq_minus_exp [of 63 x] signed_take_bit_int_less_exp [of 63 x]
  by simp

lemma i32_range: "- (2 ^ 31) \<le> i32 x \<and> i32 x < 2 ^ 31"
  unfolding i32_def
  using signed_take_bit_int_greater_eq_minus_exp [of 31 x] signed_take_bit_int_less_exp [of 31 x]
  by simp

lemma i64_add_left [simp]: "i64 (i64 x + y) = i64 (x + y)"
  unfolding i64_def by (metis signed_take_bit_add signed_take_bit_signed_take_bit min.idem)

lemma i32_i64 [simp]: "i32 (i64 x) = i32 x"
  by (simp add: i32_def i64_def signed_take_bit_signed_take_bit)

text \<open>Go's \<open>/\<close> and \<open>%\<close> truncate towards zero.\<close>

definition go_div :: "int \<Rightarrow> int \<Rightarrow> int" where
  "go_div a b = sgn a * sgn b * (\<bar>a\<bar> div \<bar>b\<bar>)"

definition go_mod :: "int \<Rightarrow> int \<Rightarrow> int" where
  "go_mod a b = a - b * go_div a b"

lemma go_div_nonneg: "0 \<le> a \<Longrightarrow> 0 < b \<Longrightarrow> go_div a b = a div b"
  by (cases "a = 0") (simp_all add: go_div_def)

lemma go_mod_nonneg: "0 \<le> a \<Longrightarrow> 0 < b \<Longrightarrow> go_mod a b = a mod b"
  by (simp add: go_mod_def go_div_nonneg minus_mult_div_eq_mod)

lemma go_mod_bound: "0 < b \<Longrightarrow> \<bar>go_mod a b\<bar> < b"
proof (cases "0 \<le> a")
  case True
  moreover assume "0 < b"
  ultimately show ?thesis by (simp add: go_mod_nonneg)
next
  case False
  moreover assume "0 < b"
  ultimately have "go_mod a b = - (\<bar>a\<bar> mod b)"
    by (simp add: go_mod_def go_div_def sgn_if minus_mult_div_eq_mod [symmetric])
  with \<open>0 < b\<close> show ?thesis by simp
qed

section \<open>Strings and time\<close>

text \<open>\<open>strings.Contains(s, sub)\<close>.\<close>

fun strings_Contains :: "string \<Rightarrow> string \<Rightarrow> bool" where
  "strings_Contains [] sub = (sub = [])"
| "strings_Contains (c # cs) sub =
     (take (length sub) (c # cs) = sub \<or> strings_Contains cs sub)"

lemma strings_Contains_append:
  "strings_Contains s sub \<Longrightarrow> strings_Contains (p @ s) sub"
  by (induction p) simp_all

lemma strings_Contains_prefix: "strings_Contains (sub @ s) sub"
proof (cases "sub @ s")
  case Nil
  then show ?thesis by simp
next
  case (Cons c cs)
  moreover from Cons have "take (length sub) (c # cs) = sub"
    by (metis append_eq_conv_conj)
  ultimately show ?thesis by simp
qed

abbreviation (input) time_second :: int where "time_second \<equiv> 1000000000"
abbreviation (input) time_minute :: int where "time_minute \<equiv> 60 * time_second"

text \<open>
  The zero \<open>time.Time\<close> is January 1 of year 1; \<open>UnixMilli\<close> rounds down, \<open>time.UnixMilli\<close>
  builds a time from milliseconds.
\<close>

definition time_zero :: int where
  "time_zero = - 62135596800 * 1000000000"

definition time_IsZero :: "int \<Rightarrow> bool" where
  "time_IsZero t = (t = time_zero)"

definition UnixMilli :: "int \<Rightarrow> int" where
  "UnixMilli t = t div 1000000"

definition time_UnixMilli :: "int \<Rightarrow> int" where
  "time_UnixMilli ms = ms * 1000000"

lemma UnixMilli_time_UnixMilli [simp]: "UnixMilli (time_UnixMilli ms) = ms"
  by (simp add: UnixMilli_def time_UnixMilli_def)

text \<open>
  What a request handler reads of the machine it runs on: the clock, \<open>uuid.New()\<close>, the
  hashing of \<open>golang.org/x/crypto/bcrypt\<close> (whose salt is random) and
  \<open>rand.Int(rand.Reader, max)\<close> of \<open>crypto/rand\<close>.
\<close>

record 's go_env =
  time_Now :: "'s \<Rightarrow> int \<times> 's"
  uuid_New :: "'s \<Rightarrow> string \<times> 's"
  bcrypt_Generate :: "string \<Rightarrow> ('s \<Rightarrow> (go_error + string) \<times> 's)"
  bcrypt_Compare :: "string \<Rightarrow> string \<Rightarrow> bool"
  rand_Int :: "int \<Rightarrow> ('s \<Rightarrow> (go_error + int) \<times> 's)"

end
