(* ===== verification/Gorm.thy ===== *)
theory Gorm
  imports Go_Prelude "HOL-Library.Multiset"
begin

text \<open>
  The interface of the GORM handle that the DAOs call (GORM and the MySQL server are not part
  of the repository, so a handle is a parameter of every DAO), the code idioms that all DAOs
  share, the documented behaviour of a handle as the locale \<open>gorm_table\<close>, and a reference
  table that satisfies it. \<open>gorm_entity\<close> adds what a DAO with a primary key relies on; it
  implements the contract \<open>entity_store\<close> against which the services are verified.
\<close>

section \<open>Queries and handles\<close>

text \<open>
  A query is the text and the arguments the DAO hands to GORM: the \<open>Where\<close> conditions in
  order, the columns of \<open>Select\<close>, and \<open>Group\<close>, \<open>Order\<close>, \<open>Offset\<close> and \<open>Limit\<close>.
\<close>

datatype sql_val = SqlStr string | SqlInt int | SqlStrs "string list" | SqlNull

type_synonym sql_cond = "string \<times> sql_val list"

record gquery =
  q_where :: "sql_cond list"
  q_select :: "string list"
  q_group :: string
  q_order :: string
  q_offset :: int
  q_limit :: "int option"

definition Model :: gquery where
  "Model = \<lparr>q_where = [], q_select = [], q_group = [], q_order = [], q_offset = 0, q_limit = None\<rparr>"

definition Where :: "string \<Rightarrow> sql_val list \<Rightarrow> gquery \<Rightarrow> gquery" where
  "Where c args q = q\<lparr>q_where := q_where q @ [(c, args)]\<rparr>"

text \<open>\<open>if b { query = query.Where(...) }\<close>.\<close>

definition Where_if :: "bool \<Rightarrow> string \<Rightarrow> sql_val list \<Rightarrow> gquery \<Rightarrow> gquery" where
  "Where_if b c args q = (if b then Where c args q else q)"

definition Select :: "string list \<Rightarrow> gquery \<Rightarrow> gquery" where
  "Select cols q = q\<lparr>q_select := cols\<rparr>"

definition Group :: "string \<Rightarrow> gquery \<Rightarrow> gquery" where
  "Group c q = q\<lparr>q_group := c\<rparr>"

definition Order :: "string \<Rightarrow> gquery \<Rightarrow> gquery" where
  "Order c q = q\<lparr>q_order := c\<rparr>"

definition Page :: "int \<Rightarrow> int \<Rightarrow> gquery \<Rightarrow> gquery" where
  "Page off lim q = q\<lparr>q_offset := off, q_limit := Some lim\<rparr>"

lemmas query_simps = Model_def Where_def Where_if_def Select_def Group_def Order_def Page_def

text \<open>
  One operation per way the DAOs end a query. The updates and \<open>Delete\<close> return
  \<open>RowsAffected\<close>; \<open>g_ScanCounts\<close> is \<open>Select("cols, count(*) as count").Group(cols).Scan\<close>
  and returns the group's columns with its count; \<open>g_ScanSums\<close> scans a row of sums.
\<close>

record ('s, 'row) gorm =
  g_Create :: "'row \<Rightarrow> (unit, 's) io"
  g_CreateAll :: "'row list \<Rightarrow> (unit, 's) io"
  g_First :: "gquery \<Rightarrow> ('row, 's) io"
  g_Find :: "gquery \<Rightarrow> ('row list, 's) io"
  g_Count :: "gquery \<Rightarrow> (int, 's) io"
  g_Updates :: "gquery \<Rightarrow> 'row \<Rightarrow> (int, 's) io"
  g_UpdateCols :: "gquery \<Rightarrow> (string \<times> sql_val) list \<Rightarrow> (int, 's) io"
  g_Delete :: "gquery \<Rightarrow> (int, 's) io"
  g_ScanCounts :: "gquery \<Rightarrow> ((string list \<times> int) list, 's) io"
  g_ScanSums :: "gquery \<Rightarrow> (int list, 's) io"

section \<open>Idioms of the DAOs\<close>

text \<open>
  \<open>err := db.First(&x).Error; if err == gorm.ErrRecordNotFound { return nil, notFound }\<close>, any
  other error as it is.
\<close>

definition first_or :: "('s, 'row) gorm \<Rightarrow> gquery \<Rightarrow> go_error \<Rightarrow> ('row, 's) io" where
  "first_or db q notFound =
     map_err_io (\<lambda>err. if err = record_not_found then notFound else err) (g_First db q)"

text \<open>\<open>if result.Error != nil {return it}; if result.RowsAffected == 0 {return notFound}\<close>.\<close>

definition affected_or :: "(int, 's) io \<Rightarrow> go_error \<Rightarrow> (unit, 's) io" where
  "affected_or m notFound = bind_io m (\<lambda>n. if n = 0 then fail_io notFound else return_io ())"

text \<open>
  \<open>err := db.Create(x).Error\<close>, and the test of the error's text for a duplicate key:
  \<open>strings.Contains(err.Error(), m)\<close> for one of the \<open>marks\<close>.
\<close>

definition create_or ::
  "('s, 'row) gorm \<Rightarrow> string list \<Rightarrow> go_error \<Rightarrow> 'row \<Rightarrow> (unit, 's) io" where
  "create_or db marks duplicate row =
     map_err_io (\<lambda>err. if list_ex (strings_Contains (error_text err)) marks
                       then duplicate else err) (g_Create db row)"

text \<open>
  \<open>query.Count(&total)\<close>, then one page with \<open>offset := (page - 1) * pageSize\<close>, newest first.
\<close>

definition count_and_page ::
  "('s, 'row) gorm \<Rightarrow> gquery \<Rightarrow> int \<Rightarrow> int \<Rightarrow> ('row list \<times> int, 's) io" where
  "count_and_page db query page pageSize =
     bind_io (g_Count db query) (\<lambda>n.
     bind_io (g_Find db (Order ''created_at DESC''
                (Page (i64 (i64 (page - 1) * pageSize)) pageSize query))) (\<lambda>xs.
     return_io (xs, n)))"

definition like_pattern :: "string \<Rightarrow> sql_val" where
  "like_pattern kw = SqlStr (''%'' @ kw @ ''%'')"

lemma snd_first_or [simp]: "snd (first_or db q nf s) = snd (g_First db q s)"
  by (simp add: first_or_def)

lemma snd_create_or [simp]: "snd (create_or db marks dup row s) = snd (g_Create db row s)"
  by (simp add: create_or_def)

lemma snd_affected_or [simp]: "snd (affected_or m nf s) = snd (m s)"
  by (simp add: affected_or_def bind_io_run split: prod.split sum.split)

lemma first_or_Inr: "g_First db q s = (Inr r, s') \<Longrightarrow> first_or db q nf s = (Inr r, s')"
  by (simp add: first_or_def map_err_io_run)

lemma first_or_none:
  "g_First db q s = (Inl record_not_found, s') \<Longrightarrow> first_or db q nf s = (Inl nf, s')"
  by (simp add: first_or_def map_err_io_run)

section \<open>Documented behaviour of a table\<close>

definition matches :: "(sql_cond \<Rightarrow> 'row \<Rightarrow> bool) \<Rightarrow> gquery \<Rightarrow> 'row \<Rightarrow> bool" where
  "matches holds q r = list_all (\<lambda>c. holds c r) (q_where q)"

definition unclashing :: "('row \<Rightarrow> 'row \<Rightarrow> bool) \<Rightarrow> 'row list \<Rightarrow> bool" where
  "unclashing clash xs = sorted_wrt (\<lambda>r r'. \<not> clash r' r) xs"

definition page_of :: "gquery \<Rightarrow> 'row list \<Rightarrow> 'row list" where
  "page_of q xs =
     (let ys = drop (nat (q_offset q)) xs
      in case q_limit q of None \<Rightarrow> ys | Some l \<Rightarrow> take (nat l) ys)"

text \<open>
  The table behind a handle. \<open>rows\<close> reads it from the world and \<open>set_rows\<close> writes it.
  \<open>holds c r\<close> is the meaning of a condition on a row; \<open>clash r' r\<close> says that \<open>r'\<close> cannot be
  stored beside \<open>r\<close> (primary key and unique indexes); \<open>stamp\<close> fills \<open>autoCreateTime\<close> and
  \<open>autoUpdateTime\<close>; \<open>assign now cols new old\<close> is what \<open>Updates(new)\<close> makes of the row
  \<open>old\<close> (the selected columns, or the non-zero fields, and \<open>autoUpdateTime\<close>);
  \<open>group_key\<close> gives the grouped columns; \<open>order_key\<close> the rank of a row in an ordering;
  \<open>dup\<close> is the driver's text for a violated unique index. \<open>RowsAffected\<close> of an update lies
  between the rows it changes (MySQL) and the rows it matches (SQLite, or MySQL with
  \<open>clientFoundRows\<close>).
\<close>

locale gorm_table =
  fixes db :: "('s, 'row) gorm"
    and rows :: "'s \<Rightarrow> 'row list"
    and set_rows :: "'row list \<Rightarrow> 's \<Rightarrow> 's"
    and holds :: "sql_cond \<Rightarrow> 'row \<Rightarrow> bool"
    and clash :: "'row \<Rightarrow> 'row \<Rightarrow> bool"
    and now :: "'s \<Rightarrow> int"
    and stamp :: "int \<Rightarrow> 'row \<Rightarrow> 'row"
    and assign :: "int \<Rightarrow> string list \<Rightarrow> 'row \<Rightarrow> 'row \<Rightarrow> 'row"
    and assign_cols :: "int \<Rightarrow> (string \<times> sql_val) list \<Rightarrow> 'row \<Rightarrow> 'row"
    and group_key :: "string \<Rightarrow> 'row \<Rightarrow> string list"
    and order_key :: "string \<Rightarrow> 'row \<Rightarrow> int"
    and dup :: string
  assumes rows_set_rows: "rows (set_rows xs s) = xs"
    and set_rows_rows: "set_rows (rows s) s = s"
    and Create_fits:
      "\<not> (\<exists>r \<in> set (rows s). clash row r) \<Longrightarrow>
         g_Create db row s = (Inr (), set_rows (rows s @ [stamp (now s) row]) s)"
    and Create_clash:
      "\<exists>r \<in> set (rows s). clash row r \<Longrightarrow> g_Create db row s = (Inl (Opaque dup), s)"
    and First_some:
      "\<exists>r \<in> set (rows s). matches holds q r \<Longrightarrow>
         \<exists>r \<in> set (rows s). matches holds q r \<and> g_First db q s = (Inr r, s)"
    and First_none:
      "\<not> (\<exists>r \<in> set (rows s). matches holds q r) \<Longrightarrow>
         g_First db q s = (Inl record_not_found, s)"
    and Find_page:
      "\<exists>xs. mset xs = mset (filter (matches holds q) (rows s)) \<and>
            sorted (map (order_key (q_order q)) xs) \<and>
            g_Find db q s = (Inr (page_of q xs), s)"
    and Count_matching:
      "g_Count db q s = (Inr (int (length (filter (matches holds q) (rows s)))), s)"
    and Updates_fits:
      "unclashing clash
         (map (\<lambda>r. if matches holds q r then assign (now s) (q_select q) new r else r) (rows s))
       \<Longrightarrow>
       \<exists>n. g_Updates db q new s =
             (Inr n, set_rows (map (\<lambda>r. if matches holds q r
                                        then assign (now s) (q_select q) new r else r)
                                   (rows s)) s) \<and>
           int (length (filter (\<lambda>r. matches holds q r \<and> assign (now s) (q_select q) new r \<noteq> r)
                               (rows s))) \<le> n \<and>
           n \<le> int (length (filter (matches holds q) (rows s)))"
    and Updates_clash:
      "\<not> unclashing clash
         (map (\<lambda>r. if matches holds q r then assign (now s) (q_select q) new r else r) (rows s))
       \<Longrightarrow> g_Updates db q new s = (Inl (Opaque dup), s)"
    and UpdateCols_fits:
      "unclashing clash
         (map (\<lambda>r. if matches holds q r then assign_cols (now s) cols r else r) (rows s))
       \<Longrightarrow>
       \<exists>n. g_UpdateCols db q cols s =
             (Inr n, set_rows (map (\<lambda>r. if matches holds q r
                                        then assign_cols (now s) cols r else r) (rows s)) s) \<and>
           int (length (filter (\<lambda>r. matches holds q r \<and> assign_cols (now s) cols r \<noteq> r)
                               (rows s))) \<le> n \<and>
           n \<le> int (length (filter (matches holds q) (rows s)))"
    and Delete_matching:
      "g_Delete db q s =
         (Inr (int (length (filter (matches holds q) (rows s)))),
          set_rows (filter (\<lambda>r. \<not> matches holds q r) (rows s)) s)"
    and ScanCounts_groups:
      "\<exists>ks. distinct ks \<and>
            set ks = group_key (q_group q) ` set (filter (matches holds q) (rows s)) \<and>
            g_ScanCounts db q s =
              (Inr (map (\<lambda>k. (k, int (length (filter
                 (\<lambda>r. matches holds q r \<and> group_key (q_group q) r = k) (rows s))))) ks), s)"

text \<open>
  What \<open>LIKE\<close> matches is up to the collation of the columns: \<open>utf8mb4_unicode_ci\<close>, which
  \<open>docker-compose.yml\<close> configures, ignores case and accents, SQLite ignores the case of ASCII
  letters. So the tables have it as a parameter \<open>like\<close> (pattern, text), of which nothing is
  assumed. \<open>sql_like\<close> is the one the reference tables have, that of a binary collation: a percent
  sign stands for any text, an underscore for one character, and a backslash escapes the character
  after it. Comparisons with \<open>=\<close> and unique indexes are those of a binary collation throughout.
\<close>

fun sql_like :: "string \<Rightarrow> string \<Rightarrow> bool" where
  "sql_like [] t = (t = [])"
| "sql_like (p # ps) [] = (p = CHR ''%'' \<and> sql_like ps [])"
| "sql_like (p # ps) (c # cs) =
     (if p = CHR ''%'' then sql_like ps (c # cs) \<or> sql_like (p # ps) cs
      else if p = CHR ''_'' then sql_like ps cs
      else if p = CHR 0x5C then
        (case ps of [] \<Rightarrow> c = p \<and> cs = [] | q # qs \<Rightarrow> c = q \<and> sql_like qs cs)
      else c = p \<and> sql_like ps cs)"

section \<open>A reference table\<close>

text \<open>
  A table held in memory with a clock beside it. It shows that the laws above can hold
  together, and the witnesses run on it.
\<close>

definition ref_update ::
  "('row \<Rightarrow> 'row \<Rightarrow> bool) \<Rightarrow> string \<Rightarrow> ('row \<Rightarrow> bool) \<Rightarrow> ('row \<Rightarrow> 'row) \<Rightarrow>
   (int, 'row list \<times> int) io" where
  "ref_update clash dup hit upd = (\<lambda>(xs, t).
     let ys = map (\<lambda>r. if hit r then upd r else r) xs
     in if unclashing clash ys
        then (Inr (int (length (filter (\<lambda>r. hit r \<and> upd r \<noteq> r) xs))), (ys, t))
        else (Inl (Opaque dup), (xs, t)))"

definition ref_gorm ::
  "(sql_cond \<Rightarrow> 'row \<Rightarrow> bool) \<Rightarrow> ('row \<Rightarrow> 'row \<Rightarrow> bool) \<Rightarrow> (int \<Rightarrow> 'row \<Rightarrow> 'row) \<Rightarrow>
   (int \<Rightarrow> string list \<Rightarrow> 'row \<Rightarrow> 'row \<Rightarrow> 'row) \<Rightarrow>
   (int \<Rightarrow> (string \<times> sql_val) list \<Rightarrow> 'row \<Rightarrow> 'row) \<Rightarrow>
   (string \<Rightarrow> 'row \<Rightarrow> string list) \<Rightarrow> (string \<Rightarrow> 'row \<Rightarrow> int) \<Rightarrow>
   (string list \<Rightarrow> 'row \<Rightarrow> int list) \<Rightarrow> string \<Rightarrow>
   ('row list \<times> int, 'row) gorm" where
  "ref_gorm holds clash stamp assign assign_cols group_key order_key sum_cols dup =
    \<lparr>g_Create = (\<lambda>row (xs, t).
        if list_ex (clash row) xs then (Inl (Opaque dup), (xs, t))
        else (Inr (), (xs @ [stamp t row], t))),
     g_CreateAll = (\<lambda>new (xs, t).
        if unclashing clash (xs @ map (stamp t) new)
        then (Inr (), (xs @ map (stamp t) new, t)) else (Inl (Opaque dup), (xs, t))),
     g_First = (\<lambda>q (xs, t).
        (case filter (matches holds q) xs of [] \<Rightarrow> Inl record_not_found | r # _ \<Rightarrow> Inr r, (xs, t))),
     g_Find = (\<lambda>q (xs, t).
        (Inr (page_of q (sort_key (order_key (q_order q)) (filter (matches holds q) xs))), (xs, t))),
     g_Count = (\<lambda>q (xs, t). (Inr (int (length (filter (matches holds q) xs))), (xs, t))),
     g_Updates = (\<lambda>q new (xs, t).
        ref_update clash dup (matches holds q) (assign t (q_select q) new) (xs, t)),
     g_UpdateCols = (\<lambda>q cols (xs, t).
        ref_update clash dup (matches holds q) (assign_cols t cols) (xs, t)),
     g_Delete = (\<lambda>q (xs, t).
        (Inr (int (length (filter (matches holds q) xs))),
         (filter (\<lambda>r. \<not> matches holds q r) xs, t))),
     g_ScanCounts = (\<lambda>q (xs, t).
        (Inr (map (\<lambda>k. (k, int (length (filter
           (\<lambda>r. matches holds q r \<and> group_key (q_group q) r = k) xs))))
           (remdups (map (group_key (q_group q)) (filter (matches holds q) xs)))), (xs, t))),
     g_ScanSums = (\<lambda>q (xs, t).
        (Inr (foldr (\<lambda>r acc. map2 (+) (sum_cols (q_select q) r) acc)
           (filter (matches holds q) xs) (map (\<lambda>_. 0) (q_select q))), (xs, t)))\<rparr>"

definition ref_set :: "'row list \<Rightarrow> 'row list \<times> int \<Rightarrow> 'row list \<times> int" where
  "ref_set xs s = (xs, snd s)"

lemma length_filter_and_le: "length (filter (\<lambda>r. P r \<and> Q r) xs) \<le> length (filter P xs)"
  by (induction xs) auto

lemma ref_gorm_table:
  "gorm_table (ref_gorm holds clash stamp assign assign_cols group_key order_key sum_cols dup)
     fst ref_set holds clash snd stamp assign assign_cols group_key order_key dup"
proof (unfold_locales, goal_cases)
  case (5 s q)
  then obtain r rs where "filter (matches holds q) (fst s) = r # rs"
    by (cases "filter (matches holds q) (fst s)") (auto simp: filter_empty_conv)
  moreover from this have "r \<in> set (filter (matches holds q) (fst s))" by simp
  then have "r \<in> set (fst s)" and "matches holds q r" by simp_all
  ultimately show ?case by (cases s) (auto simp: ref_gorm_def)
next
  case (6 s q)
  then have "filter (matches holds q) (fst s) = []" by (simp add: filter_empty_conv)
  then show ?case by (cases s) (simp add: ref_gorm_def)
next
  case (7 q s)
  show ?case
    by (rule exI [of _ "sort_key (order_key (q_order q)) (filter (matches holds q) (fst s))"])
      (cases s, simp add: ref_gorm_def)
next
  case (9 q s new)
  then show ?case
  proof (cases s)
    case (Pair a b)
    show ?thesis
      using "9" unfolding Pair fst_conv snd_conv
      by (simp add: ref_gorm_def ref_update_def ref_set_def Let_def length_filter_and_le)
  qed
next
  case (10 q s new)
  then show ?case
  proof (cases s)
    case (Pair a b)
    show ?thesis
      using "10" unfolding Pair fst_conv snd_conv
      by (simp add: ref_gorm_def ref_update_def Let_def)
  qed
next
  case (11 q s cols)
  then show ?case
  proof (cases s)
    case (Pair a b)
    show ?thesis
      using "11" unfolding Pair fst_conv snd_conv
      by (simp add: ref_gorm_def ref_update_def ref_set_def Let_def length_filter_and_le)
  qed
next
  case (13 q s)
  show ?case
    by (rule exI [of _ "remdups (map (group_key (q_group q)) (filter (matches holds q) (fst s)))"])
      (cases s, simp add: ref_gorm_def)
qed (auto simp: ref_gorm_def ref_update_def ref_set_def list_ex_iff Let_def split: prod.split)

interpretation ref: gorm_table
  "ref_gorm holds clash stamp assign assign_cols group_key order_key sum_cols dup"
  fst ref_set holds clash snd stamp assign assign_cols group_key order_key dup
  for holds clash stamp assign assign_cols group_key order_key sum_cols dup
  by (rule ref_gorm_table)

text \<open>A page changes nothing, and a first page that is large enough holds every matching row.\<close>

context gorm_table
begin

lemma page_same: "snd (count_and_page db q p n s) = s"
  using Count_matching [of q s] Find_page [of "Order ''created_at DESC'' (Page (i64 (i64 (p - 1) * n)) n q)" s]
  by (auto simp: count_and_page_def bind_io_run)

lemma first_page_all:
  assumes "int (length (filter (matches holds q) (rows s))) \<le> n"
  shows "\<exists>xs. mset xs = mset (filter (matches holds q) (rows s)) \<and>
           sorted (map (order_key ''created_at DESC'') xs) \<and>
           count_and_page db q 1 n s = (Inr (xs, int (length (filter (matches holds q) (rows s)))), s)"
proof -
  define page where "page = Order ''created_at DESC'' (Page (i64 (i64 (1 - 1) * n)) n q)"
  have m: "matches holds page = matches holds q"
    by (rule ext) (simp add: page_def matches_def query_simps)
  have o: "order_key (q_order page) = order_key ''created_at DESC''" by (simp add: page_def query_simps)
  obtain xs where xs: "mset xs = mset (filter (matches holds q) (rows s))"
      "sorted (map (order_key ''created_at DESC'') xs)" "g_Find db page s = (Inr (page_of page xs), s)"
    using Find_page [of page s] unfolding m o by blast
  have "int (length xs) \<le> n" using assms xs(1) by (metis size_mset)
  moreover have "i64 0 = 0" by (rule i64_id) simp_all
  ultimately have "page_of page xs = xs" by (simp add: page_of_def page_def query_simps)
  then have "count_and_page db q 1 n s = (Inr (xs, int (length (filter (matches holds q) (rows s)))), s)"
    using xs(3) Count_matching [of q s] by (simp add: count_and_page_def bind_io_run page_def)
  then show ?thesis using xs(1,2) by blast
qed

end

end
