(* ===== verification/Entity_Store.thy ===== *)
theory Entity_Store
  imports Gorm
begin

text \<open>
  The contract between the services and the repositories: what a repository promises about
  reading, updating, inserting and deleting the entities it stores. The services' handlers
  that load an entity, change it and save it are instances of \<open>modify\<close>, whose behaviour on
  every branch is proved here once. \<open>gorm_entity\<close> shows that a DAO over a GORM table with a
  primary key implements the contract.
\<close>

section \<open>The contract\<close>

text \<open>
  \<open>find s k\<close> is the entity stored under \<open>k\<close> in world \<open>s\<close>, \<open>ok\<close> the integrity of the
  table (no two rows violate a unique index), \<open>fits s e\<close> and \<open>fresh s e\<close> say that saving or
  inserting \<open>e\<close> violates none, \<open>patch s e old\<close> is what is stored after \<open>e\<close> is saved over
  \<open>old\<close>, and \<open>born s e\<close> what is stored after \<open>e\<close> is inserted.
\<close>

locale entity_store =
  fixes get :: "'k \<Rightarrow> ('e, 's) io"
    and upd :: "'e \<Rightarrow> (unit, 's) io"
    and crt :: "'e \<Rightarrow> (unit, 's) io"
    and key :: "'e \<Rightarrow> 'k"
    and find :: "'s \<Rightarrow> 'k \<Rightarrow> 'e option"
    and ok :: "'s \<Rightarrow> bool"
    and fits :: "'s \<Rightarrow> 'e \<Rightarrow> bool"
    and fresh :: "'s \<Rightarrow> 'e \<Rightarrow> bool"
    and patch :: "'s \<Rightarrow> 'e \<Rightarrow> 'e \<Rightarrow> 'e"
    and born :: "'s \<Rightarrow> 'e \<Rightarrow> 'e"
    and missing :: go_error
  assumes get_found: "ok s \<Longrightarrow> find s k = Some e \<Longrightarrow> get k s = (Inr e, s)"
    and get_missing: "ok s \<Longrightarrow> find s k = None \<Longrightarrow> get k s = (Inl missing, s)"
    and found_key: "find s k = Some e \<Longrightarrow> key e = k"
    and upd_found:
      "ok s \<Longrightarrow> find s (key e) = Some old \<Longrightarrow> fits s e \<Longrightarrow> patch s e old \<noteq> old \<Longrightarrow>
         \<exists>s'. upd e s = (Inr (), s') \<and> ok s' \<and> find s' = (find s)(key e \<mapsto> patch s e old)"
    and upd_missing: "ok s \<Longrightarrow> find s (key e) = None \<Longrightarrow> upd e s = (Inl missing, s)"
    and crt_fresh:
      "ok s \<Longrightarrow> fresh s e \<Longrightarrow>
         \<exists>s'. crt e s = (Inr (), s') \<and> ok s' \<and> find s' = (find s)(key e \<mapsto> born s e)"
    and crt_stale: "ok s \<Longrightarrow> \<not> fresh s e \<Longrightarrow> \<exists>err. crt e s = (Inl err, s)"
    and fresh_key: "ok s \<Longrightarrow> fresh s e \<Longrightarrow> find s (key e) = None"

locale entity_store_del = entity_store +
  fixes del :: "'k \<Rightarrow> (unit, 's) io"
  assumes del_found:
      "ok s \<Longrightarrow> find s k \<noteq> None \<Longrightarrow>
         \<exists>s'. del k s = (Inr (), s') \<and> ok s' \<and> find s' = (find s)(k := None)"
    and del_missing: "ok s \<Longrightarrow> find s k = None \<Longrightarrow> del k s = (Inl missing, s)"

section \<open>Load, change, save\<close>

text \<open>
  \<open>e, err := repo.GetByID(k); if err ...; if err := e.Change(); err ...;
   if err := repo.Update(e); err ...; return e, nil\<close>.
\<close>

definition modify ::
  "('k \<Rightarrow> ('e, 's) io) \<Rightarrow> ('e \<Rightarrow> (unit, 's) io) \<Rightarrow> 'k \<Rightarrow> ('e \<Rightarrow> ('e, 's) io) \<Rightarrow> ('e, 's) io" where
  "modify get upd k change =
     bind_io (get k) (\<lambda>e. bind_io (change e) (\<lambda>e'. bind_io (upd e') (\<lambda>_. return_io e')))"

text \<open>The same handler when it returns only an error.\<close>

definition modify_unit ::
  "('k \<Rightarrow> ('e, 's) io) \<Rightarrow> ('e \<Rightarrow> (unit, 's) io) \<Rightarrow> 'k \<Rightarrow> ('e \<Rightarrow> ('e, 's) io) \<Rightarrow> (unit, 's) io" where
  "modify_unit get upd k change =
     bind_io (get k) (\<lambda>e. bind_io (change e) (\<lambda>e'. upd e'))"

lemma modify_get_fails: "get k s = (Inl err, s1) \<Longrightarrow> modify get upd k change s = (Inl err, s1)"
  by (simp add: modify_def bind_io_run)

lemma modify_change_fails:
  "get k s = (Inr e, s1) \<Longrightarrow> change e s1 = (Inl err, s2) \<Longrightarrow>
     modify get upd k change s = (Inl err, s2)"
  by (simp add: modify_def bind_io_run)

context entity_store
begin

lemma modify_missing:
  "ok s \<Longrightarrow> find s k = None \<Longrightarrow> modify get upd k change s = (Inl missing, s)"
  by (rule modify_get_fails) (rule get_missing)

lemma modify_refused:
  "ok s \<Longrightarrow> find s k = Some e \<Longrightarrow> change e s = (Inl err, s1) \<Longrightarrow>
     modify get upd k change s = (Inl err, s1)"
  by (rule modify_change_fails) (rule get_found)

lemma modify_done:
  assumes "ok s" and "find s k = Some e" and "change e s = (Inr e', s1)"
    and "ok s1" and "find s1 = find s" and "key e' = k"
    and "fits s1 e'" and "patch s1 e' e \<noteq> e"
  shows "\<exists>s'. modify get upd k change s = (Inr e', s') \<and> ok s' \<and>
              find s' = (find s)(k \<mapsto> patch s1 e' e)"
proof -
  have "get k s = (Inr e, s)" using assms(1,2) by (rule get_found)
  moreover obtain s' where "upd e' s1 = (Inr (), s')" "ok s'"
      "find s' = (find s1)(key e' \<mapsto> patch s1 e' e)"
    using upd_found [of s1 e' e] assms by auto
  ultimately show ?thesis using assms by (simp add: modify_def bind_io_run)
qed

lemma modify_unit_missing:
  "ok s \<Longrightarrow> find s k = None \<Longrightarrow> modify_unit get upd k change s = (Inl missing, s)"
  by (simp add: modify_unit_def bind_io_run get_missing)

lemma modify_unit_refused:
  "ok s \<Longrightarrow> find s k = Some e \<Longrightarrow> change e s = (Inl err, s1) \<Longrightarrow>
     modify_unit get upd k change s = (Inl err, s1)"
  by (simp add: modify_unit_def bind_io_run get_found)

lemma modify_unit_done:
  assumes "ok s" and "find s k = Some e" and "change e s = (Inr e', s1)"
    and "ok s1" and "find s1 = find s" and "key e' = k"
    and "fits s1 e'" and "patch s1 e' e \<noteq> e"
  shows "\<exists>s'. modify_unit get upd k change s = (Inr (), s') \<and> ok s' \<and>
              find s' = (find s)(k \<mapsto> patch s1 e' e)"
proof -
  have "get k s = (Inr e, s)" using assms(1,2) by (rule get_found)
  moreover obtain s' where "upd e' s1 = (Inr (), s')" "ok s'"
      "find s' = (find s1)(key e' \<mapsto> patch s1 e' e)"
    using upd_found [of s1 e' e] assms by auto
  ultimately show ?thesis using assms by (simp add: modify_unit_def bind_io_run)
qed

lemma crt_then_get:
  assumes "ok s" and "fresh s e"
  shows "\<exists>s'. crt e s = (Inr (), s') \<and> get (key e) s' = (Inr (born s e), s')"
  using crt_fresh [OF assms] get_found by fastforce

end

section \<open>Reading a table\<close>

text \<open>
  \<open>row_at\<close> is the row with a key and \<open>entity_at\<close> the entity it holds; \<open>table_intact\<close> says
  that no two rows violate a unique index, \<open>row_fits\<close> and \<open>row_fresh\<close> that updating to, or
  inserting, a row keeps it so.
\<close>

definition row_at :: "('s \<Rightarrow> 'row list) \<Rightarrow> ('row \<Rightarrow> 'k) \<Rightarrow> 's \<Rightarrow> 'k \<Rightarrow> 'row option" where
  "row_at rows rkey s k = List.find (\<lambda>r. rkey r = k) (rows s)"

definition entity_at ::
  "('s \<Rightarrow> 'row list) \<Rightarrow> ('row \<Rightarrow> 'k) \<Rightarrow> ('row \<Rightarrow> 'e) \<Rightarrow> 's \<Rightarrow> 'k \<Rightarrow> 'e option" where
  "entity_at rows rkey toD s k = map_option toD (row_at rows rkey s k)"

definition table_intact :: "('row \<Rightarrow> 'row \<Rightarrow> bool) \<Rightarrow> ('s \<Rightarrow> 'row list) \<Rightarrow> 's \<Rightarrow> bool" where
  "table_intact clash rows s = unclashing clash (rows s)"

definition row_fits ::
  "('row \<Rightarrow> 'row \<Rightarrow> bool) \<Rightarrow> ('s \<Rightarrow> 'row list) \<Rightarrow> ('row \<Rightarrow> 'k) \<Rightarrow> ('row \<Rightarrow> 'row \<Rightarrow> 'row) \<Rightarrow>
   's \<Rightarrow> 'row \<Rightarrow> bool" where
  "row_fits clash rows rkey assign s new =
     unclashing clash (map (\<lambda>r. if rkey r = rkey new then assign new r else r) (rows s))"

definition row_fresh :: "('row \<Rightarrow> 'row \<Rightarrow> bool) \<Rightarrow> ('s \<Rightarrow> 'row list) \<Rightarrow> 's \<Rightarrow> 'row \<Rightarrow> bool" where
  "row_fresh clash rows s new = (\<not> (\<exists>r \<in> set (rows s). clash new r))"

lemma unclashing_map:
  assumes "unclashing clash xs"
    and "\<And>r r'. r \<in> set xs \<Longrightarrow> r' \<in> set xs \<Longrightarrow> clash (f r') (f r) \<longleftrightarrow> clash r' r"
  shows "unclashing clash (map f xs)"
  using assms by (simp add: unclashing_def sorted_wrt_map sorted_wrt_mono_rel [rotated])

section \<open>A DAO with a primary key\<close>

text \<open>
  \<open>keyq k\<close> is the condition the DAO selects with, \<open>rkey\<close> reads the key of a row, \<open>toD\<close> and
  \<open>toE\<close> convert between rows and entities, \<open>sel\<close> are the columns the DAO's \<open>Update\<close>
  selects, \<open>marks\<close> the texts its \<open>Insert\<close> takes for a duplicate.
\<close>

locale gorm_entity = gorm_table +
  fixes keyq :: "'k \<Rightarrow> gquery"
    and rkey :: "'b \<Rightarrow> 'k"
    and toD :: "'b \<Rightarrow> 'e"
    and toE :: "'e \<Rightarrow> 'b"
    and sel :: "string list"
    and overlay :: "int \<Rightarrow> 'e \<Rightarrow> 'e \<Rightarrow> 'e"
    and notFound :: go_error
    and marks :: "string list"
    and duplicate :: go_error
  assumes keyq_matches: "matches holds (keyq k) r \<longleftrightarrow> rkey r = k"
    and key_clash: "rkey r = rkey r' \<Longrightarrow> clash r r'"
    and key_toD: "rkey (toE (toD r)) = rkey r"
    and key_stamp: "rkey (stamp t r) = rkey r"
    and clash_stamp: "clash (stamp t r') r \<longleftrightarrow> clash r' r"
    and key_assign: "rkey (toE e) = rkey r \<Longrightarrow> rkey (assign t sel (toE e) r) = rkey r"
    and toD_assign:
      "rkey (toE e) = rkey r \<Longrightarrow> toD (assign t sel (toE e) r) = overlay t e (toD r)"
begin

abbreviation "find_row \<equiv> row_at rows rkey"
abbreviation "find_entity \<equiv> entity_at rows rkey toD"
abbreviation "intact \<equiv> table_intact clash rows"
abbreviation "fits_row s e \<equiv> row_fits clash rows rkey (assign (now s) sel) s (toE e)"
abbreviation "fresh_row s e \<equiv> row_fresh clash rows s (toE e)"

lemma find_row_Some:
  "find_row s k = Some r \<Longrightarrow> r \<in> set (rows s) \<and> rkey r = k"
  by (auto simp: row_at_def find_Some_iff)

lemma find_row_None: "find_row s k = None \<longleftrightarrow> (\<forall>r \<in> set (rows s). rkey r \<noteq> k)"
  by (auto simp: row_at_def find_None_iff)

lemma unclashing_unique:
  assumes "unclashing clash xs" and "r \<in> set xs" and "r' \<in> set xs" and "rkey r = rkey r'"
  shows "r = r'"
  using assms
proof (induction xs)
  case (Cons x xs)
  then show ?case using key_clash by (auto simp: unclashing_def)
qed simp

lemma First_found:
  assumes "intact s" and "find_row s k = Some r"
  shows "g_First db (keyq k) s = (Inr r, s)"
proof -
  have r: "r \<in> set (rows s)" "rkey r = k" using find_row_Some assms(2) by blast+
  then obtain r' where r': "r' \<in> set (rows s)" "rkey r' = k" "g_First db (keyq k) s = (Inr r', s)"
    using First_some [where s = s and q = "keyq k"] keyq_matches by blast
  have "r' = r"
    using assms(1) r r' by (auto simp: table_intact_def intro: unclashing_unique)
  with r' show ?thesis by simp
qed

lemma First_missing:
  "find_row s k = None \<Longrightarrow> g_First db (keyq k) s = (Inl record_not_found, s)"
  by (rule First_none) (simp add: find_row_None keyq_matches)

lemma matches_keyq: "matches holds (keyq k) = (\<lambda>r. rkey r = k)"
  by (rule ext) (rule keyq_matches)

lemma matches_select: "matches holds (Select sel (keyq k)) r \<longleftrightarrow> rkey r = k"
  using keyq_matches by (simp add: matches_def Select_def)

lemma find_map_row:
  assumes "\<And>r. r \<in> set xs \<Longrightarrow> rkey (f r) = rkey r"
  shows "List.find (\<lambda>r. rkey r = k) (map f xs) = map_option f (List.find (\<lambda>r. rkey r = k) xs)"
  using assms by (induction xs) auto

lemma unclashing_filter:
  "unclashing clash xs \<Longrightarrow> r \<in> set xs \<Longrightarrow> filter (\<lambda>x. rkey x = rkey r) xs = [r]"
proof (induction xs)
  case (Cons x xs)
  show ?case
  proof (cases "rkey x = rkey r")
    case True
    then have "\<forall>y \<in> set xs. rkey y \<noteq> rkey r" using Cons.prems(1) key_clash by (auto simp: unclashing_def)
    then show ?thesis using True Cons.prems(2) by (auto simp: filter_empty_conv)
  next
    case False
    then show ?thesis using Cons by (auto simp: unclashing_def)
  qed
qed simp

text \<open>
  A save reaches the one row with the key. It counts 1 when it changes the row; when the row is
  already what is saved, down to the time of the update, MySQL counts 0 and SQLite 1.
\<close>

lemma Updates_counted:
  assumes "intact s" and r: "find_row s (rkey (toE e)) = Some r" and fits: "fits_row s e"
  shows "\<exists>n s'. g_Updates db (Select sel (keyq (rkey (toE e)))) (toE e) s = (Inr n, s') \<and>
           0 \<le> n \<and> n \<le> 1 \<and> (overlay (now s) e (toD r) \<noteq> toD r \<longrightarrow> n = 1) \<and> intact s' \<and>
           find_entity s' = (find_entity s)(rkey (toE e) \<mapsto> overlay (now s) e (toD r))"
proof -
  define q where "q = Select sel (keyq (rkey (toE e)))"
  define f where "f = (\<lambda>r. if rkey r = rkey (toE e) then assign (now s) sel (toE e) r else r)"
  have sel: "q_select q = sel" by (simp add: q_def Select_def)
  have m: "matches holds q x \<longleftrightarrow> rkey x = rkey (toE e)" for x
    by (simp add: q_def matches_select)
  have f: "(\<lambda>r. if matches holds q r then assign (now s) sel (toE e) r else r) = f"
    by (rule ext) (simp add: m f_def)
  have uf: "unclashing clash (map f (rows s))" using fits by (simp add: row_fits_def f_def)
  have rr: "r \<in> set (rows s)" "rkey r = rkey (toE e)" using find_row_Some [OF r] by simp_all
  have one: "filter (matches holds q) (rows s) = [r]"
    using unclashing_filter [OF _ rr(1)] assms(1) by (simp add: m [abs_def] rr(2) table_intact_def)
  obtain n where n: "g_Updates db q (toE e) s = (Inr n, set_rows (map f (rows s)) s)"
    and ln: "int (length (filter (\<lambda>r. matches holds q r \<and> assign (now s) sel (toE e) r \<noteq> r) (rows s))) \<le> n"
    and n1: "n \<le> 1"
    using Updates_fits [where s = s and q = q and new = "toE e", unfolded sel f, OF uf] one by auto
  have n0: "0 \<le> n" using ln by simp
  have "n = 1" if ne: "overlay (now s) e (toD r) \<noteq> toD r"
  proof -
    have "assign (now s) sel (toE e) r \<noteq> r" using rr toD_assign [of e r "now s"] ne by auto
    then have "filter (\<lambda>r. matches holds q r \<and> assign (now s) sel (toE e) r \<noteq> r) (rows s) \<noteq> []"
      using rr m by (auto simp: filter_empty_conv)
    then have "n \<noteq> 0" using ln by (metis length_greater_0_conv of_nat_0_less_iff not_less)
    then show ?thesis using n0 n1 by simp
  qed
  moreover have keys: "rkey (f x) = rkey x" for x by (simp add: f_def key_assign)
  have find: "find_row (set_rows (map f (rows s)) s) k = map_option f (find_row s k)" for k
    unfolding row_at_def rows_set_rows by (rule find_map_row) (rule keys)
  have "find_entity (set_rows (map f (rows s)) s) k =
          ((find_entity s)(rkey (toE e) \<mapsto> overlay (now s) e (toD r))) k" for k
  proof (cases "k = rkey (toE e)")
    case True
    have "f r = assign (now s) sel (toE e) r" using rr by (simp add: f_def)
    with True show ?thesis using r rr
      by (simp add: entity_at_def find toD_assign)
  next
    case False
    have "map_option (toD \<circ> f) (find_row s k) = map_option toD (find_row s k)"
      using False by (cases "find_row s k") (auto simp: f_def dest: find_row_Some)
    with False show ?thesis by (simp add: entity_at_def find option.map_comp)
  qed
  moreover have "intact (set_rows (map f (rows s)) s)" using uf by (simp add: table_intact_def rows_set_rows)
  ultimately show ?thesis using n n0 n1 unfolding q_def by blast
qed

lemma Updates_stores:
  assumes "intact s" and "find_row s (rkey (toE e)) = Some r"
    and "fits_row s e" and "overlay (now s) e (toD r) \<noteq> toD r"
  shows "\<exists>n s'. g_Updates db (Select sel (keyq (rkey (toE e)))) (toE e) s = (Inr n, s') \<and> n \<noteq> 0 \<and>
           intact s' \<and>
           find_entity s' = (find_entity s)(rkey (toE e) \<mapsto> overlay (now s) e (toD r))"
  using Updates_counted [OF assms(1-3)] assms(4) by (metis zero_neq_one)

text \<open>An update that changes no column of a unique index fits.\<close>

lemma fits_same_index:
  assumes ok: "intact s" and r: "find_row s (rkey (toE e)) = Some r"
    and "\<And>x. clash (assign (now s) sel (toE e) r) x \<longleftrightarrow> clash r x"
    and "\<And>x. clash x (assign (now s) sel (toE e) r) \<longleftrightarrow> clash x r"
  shows "fits_row s e"
proof -
  define f where "f = (\<lambda>x. if rkey x = rkey (toE e) then assign (now s) sel (toE e) x else x)"
  have "x = r" if "x \<in> set (rows s)" "rkey x = rkey (toE e)" for x
    using that find_row_Some [OF r] ok by (auto simp: table_intact_def intro: unclashing_unique)
  then have "clash (f x') (f x) \<longleftrightarrow> clash x' x" if "x \<in> set (rows s)" "x' \<in> set (rows s)" for x x'
    using that assms(3,4) by (auto simp: f_def)
  then show ?thesis
    using ok unclashing_map [of clash "rows s" f] by (simp add: row_fits_def f_def table_intact_def)
qed

text \<open>An update fits when the changed row clashes with no other row.\<close>

lemma fits_no_clash:
  assumes ok: "intact s" and r: "find_row s (rkey (toE e)) = Some r"
    and free: "\<And>x. x \<in> set (rows s) \<Longrightarrow> rkey x \<noteq> rkey (toE e) \<Longrightarrow>
      \<not> clash (assign (now s) sel (toE e) r) x \<and> \<not> clash x (assign (now s) sel (toE e) r)"
  shows "fits_row s e"
proof -
  define f where "f = (\<lambda>x. if rkey x = rkey (toE e) then assign (now s) sel (toE e) x else x)"
  have rr: "r \<in> set (rows s)" "rkey r = rkey (toE e)" using find_row_Some [OF r] by simp_all
  have one: "x = r" if "x \<in> set (rows s)" "rkey x = rkey (toE e)" for x
    using that rr ok by (auto simp: table_intact_def intro: unclashing_unique)
  have "unclashing clash (map f (rows s))"
    unfolding unclashing_def sorted_wrt_map
  proof (rule sorted_wrt_mono_rel)
    show "sorted_wrt (\<lambda>x y. \<not> clash y x) (rows s)"
      using ok by (simp add: table_intact_def unclashing_def)
  next
    fix x y
    assume xy: "x \<in> set (rows s)" "y \<in> set (rows s)" "\<not> clash y x"
    consider "rkey x = rkey (toE e)" "rkey y = rkey (toE e)"
      | "rkey x = rkey (toE e)" "rkey y \<noteq> rkey (toE e)"
      | "rkey x \<noteq> rkey (toE e)" "rkey y = rkey (toE e)"
      | "rkey x \<noteq> rkey (toE e)" "rkey y \<noteq> rkey (toE e)" by blast
    then show "\<not> clash (f y) (f x)"
    proof cases
      case 1
      with xy key_clash [of y x] show ?thesis by simp
    next
      case 2
      with one [OF xy(1)] free [OF xy(2)] show ?thesis by (simp add: f_def)
    next
      case 3
      with one [OF xy(2)] free [OF xy(1)] show ?thesis by (simp add: f_def)
    next
      case 4
      with xy show ?thesis by (simp add: f_def)
    qed
  qed
  then show ?thesis by (simp add: row_fits_def f_def)
qed

text \<open>
  Whatever is written, the indexes stay intact, and a property of single rows that writes
  establish is an invariant of the table.
\<close>

lemma Create_keeps:
  assumes "intact s" and "\<forall>r \<in> set (rows s). P r" and "P (stamp (now s) row)"
  shows "intact (snd (g_Create db row s)) \<and> (\<forall>r \<in> set (rows (snd (g_Create db row s))). P r)"
proof (cases "\<exists>r \<in> set (rows s). clash row r")
  case True
  then show ?thesis using assms Create_clash by simp
next
  case False
  with assms show ?thesis
    by (auto simp: Create_fits table_intact_def unclashing_def sorted_wrt_append rows_set_rows
        clash_stamp)
qed

lemma Updates_keeps:
  assumes "intact s" and "\<forall>r \<in> set (rows s). P r"
    and "\<And>r. P r \<Longrightarrow> matches holds q r \<Longrightarrow> P (assign (now s) (q_select q) new r)"
  shows "intact (snd (g_Updates db q new s)) \<and> (\<forall>r \<in> set (rows (snd (g_Updates db q new s))). P r)"
proof -
  let ?xs = "map (\<lambda>r. if matches holds q r then assign (now s) (q_select q) new r else r) (rows s)"
  show ?thesis
  proof (cases "unclashing clash ?xs")
    case True
    then obtain n where "g_Updates db q new s = (Inr n, set_rows ?xs s)"
      using Updates_fits by blast
    then show ?thesis using True assms by (auto simp: table_intact_def rows_set_rows)
  next
    case False
    then show ?thesis using Updates_clash assms by simp
  qed
qed

lemma Delete_keeps:
  assumes "intact s" and "\<forall>r \<in> set (rows s). P r"
  shows "intact (snd (g_Delete db q s)) \<and> (\<forall>r \<in> set (rows (snd (g_Delete db q s))). P r)"
  using assms by (auto simp: Delete_matching table_intact_def rows_set_rows unclashing_def sorted_wrt_filter)

lemma First_run:
  obtains r where "r \<in> set (rows s)" "matches holds q r" "g_First db q s = (Inr r, s)"
  | "\<forall>r \<in> set (rows s). \<not> matches holds q r" "g_First db q s = (Inl record_not_found, s)"
  using First_some [of s q] First_none [of s q] by blast

lemma Updates_misses:
  assumes "intact s" and none: "find_row s (rkey (toE e)) = None"
  shows "g_Updates db (Select sel (keyq (rkey (toE e)))) (toE e) s = (Inr 0, s)"
proof -
  define q where "q = Select sel (keyq (rkey (toE e)))"
  have m: "\<not> matches holds q x" if "x \<in> set (rows s)" for x
    using that none by (simp add: q_def matches_select find_row_None)
  then have id: "map (\<lambda>r. if matches holds q r then assign (now s) (q_select q) (toE e) r else r)
      (rows s) = rows s"
    by (simp add: map_idI)
  have "filter (matches holds q) (rows s) = []" using m by (simp add: filter_empty_conv)
  moreover have "unclashing clash (rows s)" using assms(1) by (simp add: table_intact_def)
  ultimately show ?thesis
    using Updates_fits [where s = s and q = q and new = "toE e"] unfolding id q_def [symmetric]
    by (auto simp: set_rows_rows)
qed

lemma Create_stores:
  assumes "intact s" and "fresh_row s e"
  shows "\<exists>s'. g_Create db (toE e) s = (Inr (), s') \<and> intact s' \<and>
           find_entity s' = (find_entity s)(rkey (toE e) \<mapsto> toD (stamp (now s) (toE e)))"
proof -
  define s' where "s' = set_rows (rows s @ [stamp (now s) (toE e)]) s"
  have rows': "rows s' = rows s @ [stamp (now s) (toE e)]" by (simp add: s'_def rows_set_rows)
  have cr: "g_Create db (toE e) s = (Inr (), s')"
    using assms(2) unfolding s'_def by (intro Create_fits) (simp add: row_fresh_def)
  have "intact s'"
    using assms by (simp add: table_intact_def rows' unclashing_def sorted_wrt_append row_fresh_def clash_stamp)
  moreover have none: "rkey x \<noteq> rkey (toE e)" if "x \<in> set (rows s)" for x
    using that assms(2) key_clash [of "toE e" x] by (auto simp: row_fresh_def)
  have app: "List.find P (xs @ [x]) =
      (case List.find P xs of None \<Rightarrow> if P x then Some x else None | Some y \<Rightarrow> Some y)"
    for P :: "'b \<Rightarrow> bool" and xs x by (induction xs) auto
  have "find_row s (rkey (toE e)) = None" using none by (simp add: find_row_None)
  then have "find_entity s' k =
          ((find_entity s)(rkey (toE e) \<mapsto> toD (stamp (now s) (toE e)))) k" for k
    by (cases "find_row s k")
      (auto simp: entity_at_def row_at_def rows' app key_stamp split: option.split)
  ultimately show ?thesis using cr by blast
qed

lemma Delete_removes:
  assumes "intact s" and "find_row s k = Some r"
  shows "\<exists>n s'. g_Delete db (keyq k) s = (Inr n, s') \<and> n \<noteq> 0 \<and> intact s' \<and>
           find_entity s' = (find_entity s)(k := None)"
proof -
  define s' where "s' = set_rows (filter (\<lambda>r. rkey r \<noteq> k) (rows s)) s"
  have rows': "rows s' = filter (\<lambda>r. rkey r \<noteq> k) (rows s)" by (simp add: s'_def rows_set_rows)
  have "g_Delete db (keyq k) s = (Inr (int (length (filter (\<lambda>r. rkey r = k) (rows s)))), s')"
    using Delete_matching [of "keyq k" s] by (simp add: matches_keyq s'_def)
  moreover have "filter (\<lambda>r. rkey r = k) (rows s) \<noteq> []"
    using find_row_Some [OF assms(2)] by (auto simp: filter_empty_conv)
  moreover have "intact s'"
    using assms(1) by (simp add: table_intact_def unclashing_def rows' sorted_wrt_filter)
  moreover have "List.find (\<lambda>r. rkey r = j) (filter (\<lambda>r. rkey r \<noteq> k) xs) =
      (if j = k then None else List.find (\<lambda>r. rkey r = j) xs)" for j and xs :: "'b list"
    by (induction xs) auto
  then have "find_entity s' = (find_entity s)(k := None)"
    by (auto simp: entity_at_def row_at_def rows')
  ultimately show ?thesis by auto
qed

lemma Delete_misses:
  assumes "find_row s k = None"
  shows "g_Delete db (keyq k) s = (Inr 0, s)"
proof -
  have "filter (\<lambda>r. rkey r = k) (rows s) = []" "filter (\<lambda>r. rkey r \<noteq> k) (rows s) = rows s"
    using assms by (auto simp: filter_empty_conv find_row_None)
  then show ?thesis using Delete_matching [of "keyq k" s] by (simp add: matches_keyq set_rows_rows)
qed

end

text \<open>The DAO and its repository implement the contract.\<close>

sublocale gorm_entity < store: entity_store_del
  "\<lambda>k. bind_io (first_or db (keyq k) notFound) (\<lambda>r. return_io (toD r))"
  "\<lambda>e. affected_or (g_Updates db (Select sel (keyq (rkey (toE e)))) (toE e)) notFound"
  "\<lambda>e. create_or db marks duplicate (toE e)"
  "\<lambda>e. rkey (toE e)" "entity_at rows rkey toD" "table_intact clash rows"
  "\<lambda>s e. row_fits clash rows rkey (assign (now s) sel) s (toE e)"
  "\<lambda>s e. row_fresh clash rows s (toE e)"
  "\<lambda>s. overlay (now s)" "\<lambda>s e. toD (stamp (now s) (toE e))" notFound
  "\<lambda>k. affected_or (g_Delete db (keyq k)) notFound"
proof (unfold_locales, goal_cases)
  case (1 s k e)
  then show ?case using First_found by (auto simp: entity_at_def bind_io_run first_or_Inr)
next
  case (2 s k)
  then show ?case
    by (simp add: entity_at_def bind_io_run first_or_none [OF First_missing])
next
  case (3 s k e)
  then show ?case by (auto simp: entity_at_def key_toD dest: find_row_Some)
next
  case (4 s e old)
  then obtain r where r: "find_row s (rkey (toE e)) = Some r" "old = toD r"
    by (auto simp: entity_at_def)
  with 4 show ?case using Updates_stores [OF 4(1) r(1)]
    by (auto simp: affected_or_def bind_io_run)
next
  case (5 s e)
  then show ?case
    by (simp add: entity_at_def affected_or_def bind_io_run Updates_misses)
next
  case (6 s e)
  then obtain s' where "g_Create db (toE e) s = (Inr (), s')" "intact s'"
      "find_entity s' = (find_entity s)(rkey (toE e) \<mapsto> toD (stamp (now s) (toE e)))"
    using Create_stores [OF 6] by blast
  then show ?case by (simp add: create_or_def map_err_io_run)
next
  case (7 s e)
  then show ?case using Create_clash [of s "toE e"]
    by (simp add: row_fresh_def create_or_def map_err_io_run)
next
  case (8 s e)
  then show ?case using key_clash [of "toE e"]
    by (auto simp: entity_at_def find_row_None row_fresh_def)
next
  case (9 s k)
  then obtain r where "find_row s k = Some r" by (auto simp: entity_at_def)
  with 9 obtain n s' where "g_Delete db (keyq k) s = (Inr n, s')" "n \<noteq> 0" "intact s'"
      "find_entity s' = (find_entity s)(k := None)"
    using Delete_removes by blast
  then show ?case by (simp add: affected_or_def bind_io_run)
next
  case (10 s k)
  then show ?case
    by (simp add: entity_at_def affected_or_def bind_io_run Delete_misses)
qed

text \<open>
  Load, change and save for any change: what the DAO answers is the count the handle reports.
\<close>

context gorm_entity
begin

abbreviation "load_entity \<equiv> \<lambda>k. bind_io (first_or db (keyq k) notFound) (\<lambda>r. return_io (toD r))"
abbreviation "save_entity \<equiv> \<lambda>e. affected_or (g_Updates db (Select sel (keyq (rkey (toE e)))) (toE e)) notFound"

lemma modify_counted:
  assumes ok: "intact s" and e: "find_entity s k = Some e" and change: "change e s = (Inr e', s1)"
    and s1: "rows s1 = rows s" and key: "rkey (toE e') = k" and fits: "fits_row s1 e'"
  shows "\<exists>n s'. g_Updates db (Select sel (keyq k)) (toE e') s1 = (Inr n, s') \<and> 0 \<le> n \<and> n \<le> 1 \<and>
           (overlay (now s1) e' e \<noteq> e \<longrightarrow> n = 1) \<and>
           modify load_entity save_entity k change s = (if n = 0 then Inl notFound else Inr e', s') \<and>
           modify_unit load_entity save_entity k change s = (if n = 0 then Inl notFound else Inr (), s') \<and>
           intact s' \<and> find_entity s' = (find_entity s)(k \<mapsto> overlay (now s1) e' e)"
proof -
  have same: "find_entity s1 = find_entity s" "intact s1"
    using ok s1 by (simp_all add: entity_at_def row_at_def table_intact_def fun_eq_iff)
  obtain r where r: "find_row s1 (rkey (toE e')) = Some r" "e = toD r"
    using e unfolding key same(1) [symmetric] by (auto simp: entity_at_def)
  obtain n s' where "g_Updates db (Select sel (keyq k)) (toE e') s1 = (Inr n, s')" "0 \<le> n" "n \<le> 1"
      "overlay (now s1) e' e \<noteq> e \<longrightarrow> n = 1" "intact s'"
      "find_entity s' = (find_entity s)(k \<mapsto> overlay (now s1) e' e)"
    using Updates_counted [OF same(2) r(1) fits] unfolding key r(2) same(1) by blast
  moreover have "load_entity k s = (Inr e, s)" by (rule store.get_found [OF ok e])
  ultimately show ?thesis
    by (intro exI [of _ n] exI [of _ s'])
      (simp add: modify_def modify_unit_def change key affected_or_def bind_io_run)
qed

end

section \<open>Updates with a struct\<close>

text \<open>GORM skips the zero fields of the struct: an empty text, 0, a nil pointer.\<close>

definition set_text :: "string \<Rightarrow> string \<Rightarrow> string" where
  "set_text new old = (if new = [] then old else new)"

definition set_int :: "int \<Rightarrow> int \<Rightarrow> int" where
  "set_int new old = (if new = 0 then old else new)"

definition set_ptr :: "'x option \<Rightarrow> 'x option \<Rightarrow> 'x option" where
  "set_ptr new old = (if new = None then old else new)"

text \<open>\<open>if p != nil { x = *p }\<close> and \<open>if p != nil { x = p }\<close>.\<close>

definition assign_if :: "'x option \<Rightarrow> 'x \<Rightarrow> 'x" where
  "assign_if p x = (case p of None \<Rightarrow> x | Some v \<Rightarrow> v)"

definition assign_ptr :: "'x option \<Rightarrow> 'x option \<Rightarrow> 'x option" where
  "assign_ptr p x = (case p of None \<Rightarrow> x | Some v \<Rightarrow> p)"

section \<open>The machine around a handler\<close>

text \<open>
  What the handlers rely on besides the table: drawing a UUID, hashing a password and reading
  the clock leave the table alone, and a bcrypt hash matches the password it was made from.
\<close>

locale go_world =
  fixes env :: "'s go_env" and rows :: "'s \<Rightarrow> 'row list"
  assumes uuid_rows: "rows (snd (uuid_New env s)) = rows s"
    and hash_rows: "rows (snd (bcrypt_Generate env pw s)) = rows s"
    and clock_rows: "rows (snd (time_Now env s)) = rows s"
    and hash_compare:
      "bcrypt_Generate env pw s = (Inr h, s') \<Longrightarrow> bcrypt_Compare env h pw \<and> h \<noteq> []"

definition ref_env :: "('row list \<times> int) go_env" where
  "ref_env =
     \<lparr>time_Now = (\<lambda>(xs, t). (t * 1000000, (xs, t))), uuid_New = (\<lambda>(xs, t). (''u1'', (xs, t))),
      bcrypt_Generate = (\<lambda>pw s. (Inr (''h:'' @ pw), s)),
      bcrypt_Compare = (\<lambda>h pw. h = ''h:'' @ pw), rand_Int = (\<lambda>n s. (Inr (7 mod n), s))\<rparr>"

lemma ref_env_world: "go_world ref_env fst"
  by unfold_locales (auto simp: ref_env_def split: prod.split)

interpretation ref_world: go_world ref_env fst
  by (rule ref_env_world)

end
