(* ===== verification/Go_Float.thy ===== *)
theory Go_Float
  imports Complex_Main "HOL-Library.Log_Nat" Go_Prelude
begin

text \<open>
  IEEE 754 binary64 as the list operations use it: \<open>float64(n)\<close>, the quotient of two such
  values and \<open>math.Ceil\<close>. A finite float64 is the rational number it denotes; an operation
  computes the exact result and rounds it to 53 significant bits, ties to even. The values
  here lie between \<open>2^-63\<close> and \<open>2^63\<close>, so neither subnormals nor overflow arise.
\<close>

section \<open>Rounding to 53 bits\<close>

definition round_half_even :: "int \<Rightarrow> int \<Rightarrow> int" where
  "round_half_even n d =
     (let q = n div d; r = n mod d
      in if 2 * r < d then q else if d < 2 * r then q + 1 else if even q then q else q + 1)"

text \<open>The power of two that brings \<open>a / b\<close> between \<open>2^52\<close> and \<open>2^53\<close>.\<close>

definition f64_scale :: "int \<Rightarrow> int \<Rightarrow> int" where
  "f64_scale a b =
     (if b \<le> a then 53 - int (floorlog 2 (nat (a div b)))
      else 52 + int (floorlog 2 (nat (b div a))))"

definition f64_of_quot :: "int \<Rightarrow> int \<Rightarrow> rat" where
  "f64_of_quot a b =
     (let k = f64_scale a b
      in if 0 \<le> k then Fract (round_half_even (a * 2 ^ nat k) b) (2 ^ nat k)
         else of_int (round_half_even a (b * 2 ^ nat (- k)) * 2 ^ nat (- k)))"

definition f64_round :: "rat \<Rightarrow> rat" where
  "f64_round x =
     (case quotient_of x of (a, b) \<Rightarrow>
        if a = 0 then 0 else if 0 < a then f64_of_quot a b else - f64_of_quot (- a) b)"

definition f64_of_int :: "int \<Rightarrow> rat" where
  "f64_of_int n = f64_round (of_int n)"

definition f64_div :: "rat \<Rightarrow> rat \<Rightarrow> rat" where
  "f64_div x y = f64_round (x / y)"

definition math_Ceil :: "rat \<Rightarrow> int" where
  "math_Ceil x = \<lceil>x\<rceil>"

text \<open>
  \<open>int(math.Ceil(float64(total) / float64(pageSize)))\<close>, the page count that the list
  operations of all four services compute.
\<close>

definition total_pages :: "int \<Rightarrow> int \<Rightarrow> int" where
  "total_pages n pageSize =
     math_Ceil (f64_div (f64_of_int n) (f64_of_int pageSize))"

section \<open>Rounding is monotone on integers\<close>

lemma round_half_even_le:
  assumes "0 < d" and "n \<le> z * d"
  shows "round_half_even n d \<le> z"
proof -
  from assms have le: "n div d \<le> z"
    by (metis nonzero_mult_div_cancel_right zdiv_mono1 less_irrefl)
  show ?thesis
  proof (cases "n div d = z")
    case True
    then have "n mod d = n - z * d"
      by (simp add: minus_div_mult_eq_mod [symmetric])
    with assms have "n mod d \<le> 0" by simp
    with assms(1) have "n mod d = 0" using pos_mod_sign [of d n] by linarith
    with True assms(1) show ?thesis by (simp add: round_half_even_def Let_def)
  next
    case False
    with le show ?thesis by (simp add: round_half_even_def Let_def)
  qed
qed

lemma round_half_even_ge:
  assumes "0 < d" and "z * d \<le> n"
  shows "z \<le> round_half_even n d"
proof -
  from assms have "z \<le> n div d"
    by (metis nonzero_mult_div_cancel_right zdiv_mono1 less_irrefl)
  then show ?thesis by (simp add: round_half_even_def Let_def)
qed

lemma round_half_even_exact: "0 < d \<Longrightarrow> round_half_even (z * d) d = z"
  by (rule antisym) (simp_all add: round_half_even_le round_half_even_ge)

lemma floorlog_le:
  assumes "0 \<le> x" and "x < 2 ^ n"
  shows "floorlog 2 (nat x) \<le> n"
proof -
  from assms have "nat x < 2 ^ n" by (simp add: nat_less_iff)
  then show ?thesis by (simp add: floorlog_le_iff)
qed

section \<open>Integers below \<open>2^53\<close> are exact\<close>

lemma f64_of_quot_int:
  assumes "0 < x" and "x < 2 ^ 53"
  shows "f64_of_quot x 1 = of_int x"
proof -
  have k: "0 \<le> f64_scale x 1"
    using floorlog_le [of x 53] assms by (simp add: f64_scale_def)
  have "round_half_even (x * 2 ^ nat (f64_scale x 1)) 1 = x * 2 ^ nat (f64_scale x 1)"
    using round_half_even_exact [of 1] by simp
  then show ?thesis using k
    by (simp add: f64_of_quot_def Let_def Fract_of_int_quotient)
qed

lemma f64_of_int_exact: "0 \<le> x \<Longrightarrow> x < 2 ^ 53 \<Longrightarrow> f64_of_int x = of_int x"
  by (simp add: f64_of_int_def f64_round_def f64_of_quot_int)

section \<open>The page count\<close>

lemma f64_scale_ge:
  assumes "0 < a" and "0 < b" and "a div b < 2 ^ 46"
  shows "7 \<le> f64_scale a b"
  using assms floorlog_le [of "a div b" 46]
  by (auto simp: f64_scale_def pos_imp_zdiv_nonneg_iff)

lemma ceiling_f64_of_quot:
  assumes a: "0 < a" and b: "0 < b" "b \<le> 100" and q: "a div b < 2 ^ 46"
    and c: "a \<le> c * b" "(c - 1) * b < a"
  shows "\<lceil>f64_of_quot a b\<rceil> = c"
proof -
  define D :: int where "D = 2 ^ nat (f64_scale a b)"
  define m where "m = round_half_even (a * D) b"
  have k: "7 \<le> f64_scale a b" using f64_scale_ge a b(1) q by blast
  have "(2::int) ^ 7 \<le> D"
    unfolding D_def using k by (intro power_increasing) auto
  then have D: "0 < D" "b < D" using b by auto
  have "a * D \<le> (c * D) * b"
    using mult_right_mono [OF c(1), of D] D by (simp add: ac_simps)
  then have up: "m \<le> c * D" unfolding m_def by (rule round_half_even_le [OF b(1)])
  have "((c - 1) * b + 1) * D \<le> a * D" using c(2) D by (intro mult_right_mono) auto
  then have "((c - 1) * D + 1) * b \<le> a * D" using D by (simp add: algebra_simps)
  then have lo: "(c - 1) * D + 1 \<le> m" unfolding m_def by (rule round_half_even_ge [OF b(1)])
  have x: "f64_of_quot a b = of_int m / of_int D"
    using k by (simp add: f64_of_quot_def Let_def m_def D_def Fract_of_int_quotient)
  have "(of_int m :: rat) \<le> of_int (c * D)" using up by (simp only: of_int_le_iff)
  moreover have "(of_int ((c - 1) * D) :: rat) < of_int m"
    using lo by (simp only: of_int_less_iff)
  ultimately have "of_int c - 1 < f64_of_quot a b \<and> f64_of_quot a b \<le> of_int c"
    using D by (simp add: x field_simps)
  then show ?thesis by (intro ceiling_unique) auto
qed

lemma ceiling_div_bounds:
  assumes "0 < (b::int)" and "c = (a + b - 1) div b"
  shows "a \<le> c * b \<and> (c - 1) * b < a"
proof -
  have "a + b - 1 = c * b + (a + b - 1) mod b" using assms by simp
  with pos_mod_bound [OF assms(1), of "a + b - 1"] pos_mod_sign [OF assms(1), of "a + b - 1"]
  show ?thesis by (auto simp: algebra_simps)
qed

lemma quotient_of_quot:
  assumes "0 < b" and "quotient_of (of_int a / of_int b) = (p, q)"
  shows "0 < q \<and> p * b = a * q \<and> q \<le> b"
proof -
  have q: "0 < q" using quotient_of_denom_pos [OF assms(2)] .
  have "(of_int a / of_int b :: rat) = of_int p / of_int q"
    using quotient_of_div [OF assms(2)] .
  then have "(of_int (a * q) :: rat) = of_int (p * b)"
    using q assms(1) by (simp add: field_simps)
  then have eq: "p * b = a * q" by (simp only: of_int_eq_iff)
  have "coprime p q" using quotient_of_coprime [OF assms(2)] .
  moreover have "q dvd p * b" using eq by simp
  ultimately have "q dvd b" by (simp add: coprime_commute coprime_dvd_mult_right_iff)
  then show ?thesis using q eq assms(1) by (simp add: zdvd_imp_le)
qed

lemma total_pages_exact:
  assumes n: "0 \<le> n" "n < 2 ^ 46" and p: "1 \<le> pageSize" "pageSize \<le> 100"
  shows "total_pages n pageSize = (n + pageSize - 1) div pageSize"
proof -
  define c where "c = (n + pageSize - 1) div pageSize"
  obtain a b where ab: "quotient_of (of_int n / of_int pageSize) = (a, b)"
    by (cases "quotient_of (of_int n / of_int pageSize :: rat)")
  have eq: "0 < b" "a * pageSize = n * b" "b \<le> pageSize"
    using quotient_of_quot [OF _ ab] p by auto
  have pages: "total_pages n pageSize = \<lceil>f64_round (of_int n / of_int pageSize)\<rceil>"
    using n p by (simp add: total_pages_def math_Ceil_def f64_div_def f64_of_int_exact)
  show ?thesis
  proof (cases "n = 0")
    case True
    then show ?thesis using p pages by (simp add: f64_round_def)
  next
    case False
    then have "0 < a * pageSize" using eq n by simp
    then have a: "0 < a" using p by (simp add: zero_less_mult_iff)
    have "a \<le> a * pageSize" using a p by simp
    have c: "n \<le> c * pageSize" "(c - 1) * pageSize < n"
      using ceiling_div_bounds [of pageSize c n] p by (auto simp: c_def)
    have "a * pageSize \<le> (c * b) * pageSize"
      using mult_right_mono [OF c(1), of b] eq by (simp add: ac_simps)
    then have up: "a \<le> c * b" using p by (simp add: mult_le_cancel_right)
    have "((c - 1) * b) * pageSize < a * pageSize"
      using mult_strict_right_mono [OF c(2) eq(1)] eq by (simp add: ac_simps)
    then have lo: "(c - 1) * b < a" using p by (simp add: mult_less_cancel_right)
    have "a div b * pageSize \<le> n"
    proof -
      have "(a div b * b) * pageSize \<le> a * pageSize"
        using p eq div_mult_mod_eq [of a b] pos_mod_sign [of b a]
        by (intro mult_right_mono) linarith+
      then have "(a div b * pageSize) * b \<le> n * b" using eq by (simp add: ac_simps)
      then show ?thesis using eq by (simp add: mult_le_cancel_right)
    qed
    moreover have "a div b \<le> a div b * pageSize"
      using p a eq mult_left_mono [of 1 pageSize "a div b"]
      by (simp add: pos_imp_zdiv_nonneg_iff)
    ultimately have "a div b < 2 ^ 46" using n by linarith
    then have "\<lceil>f64_of_quot a b\<rceil> = c"
      using ceiling_f64_of_quot a eq p up lo by simp
    then show ?thesis using a by (simp add: pages f64_round_def ab c_def)
  qed
qed

end
