(* ===== verification/Grpc_Util.thy ===== *)
theory Grpc_Util
  imports Go_Float
begin

text \<open>
  What all gRPC servers share: the mapping of domain errors to status codes
  (\<open>pkg/grpcutil\<close>), the identity a request carries in its context (\<open>pkg/identityctx\<close>), the
  pagination messages of \<open>api/proto/common/v1\<close>, and the normalisation of page and page size
  that every list operation repeats.

  A protobuf message with several fields is a record; a message with one field is that field,
  and a message without fields is \<open>unit\<close>. An \<open>optional\<close> scalar and a message field are
  options, since a protobuf getter distinguishes nil. Protobuf enumerations are open: the last
  constructor of each datatype holds a number outside the \<open>.proto\<close> file.
\<close>

section \<open>Errors\<close>

record ErrorMapping =
  em_Target :: sentinel
  em_Code :: grpc_code

fun ToGRPCError :: "go_error \<Rightarrow> ErrorMapping list \<Rightarrow> go_error" where
  "ToGRPCError err [] = StatusErr Internal (error_text err)"
| "ToGRPCError err (m # ms) =
     (if errors_Is err (em_Target m) then StatusErr (em_Code m) (error_text err)
      else ToGRPCError err ms)"

text \<open>\<open>status.Code\<close> reads the code back; it is \<open>Unknown\<close> for an error without a status.\<close>

fun status_Code :: "go_error \<Rightarrow> grpc_code" where
  "status_Code (StatusErr c m) = c"
| "status_Code (Sentinel s) = Unknown"
| "status_Code (Opaque m) = Unknown"
| "status_Code (Wrap p e) = status_Code e"

definition mapping_code :: "sentinel \<Rightarrow> ErrorMapping list \<Rightarrow> grpc_code" where
  "mapping_code t ms =
     (case List.find (\<lambda>m. em_Target m = t) ms of None \<Rightarrow> Internal | Some m \<Rightarrow> em_Code m)"

lemma ToGRPCError_sentinel:
  "ToGRPCError (Sentinel t) ms = StatusErr (mapping_code t ms) (sentinel_text t)"
  by (induction ms) (auto simp: mapping_code_def)

lemma ToGRPCError_Wrap:
  "status_Code (ToGRPCError (Wrap p e) ms) = status_Code (ToGRPCError e ms)"
  by (induction ms) auto

lemma ToGRPCError_unmapped:
  "list_all (\<lambda>m. \<not> errors_Is err (em_Target m)) ms \<Longrightarrow>
     ToGRPCError err ms = StatusErr Internal (error_text err)"
  by (induction ms) auto

lemma ToGRPCError_status:
  "\<exists>c. ToGRPCError err ms = StatusErr c (error_text err) \<and> (c = Internal \<or> c \<in> em_Code ` set ms)"
  by (induction ms) auto

text \<open>
  A handler that calls a service, answers \<open>nil, toGRPCError(err)\<close> when it fails, and builds
  the response from its result otherwise.
\<close>

definition grpc_reply ::
  "(go_error \<Rightarrow> go_error) \<Rightarrow> ('a, 's) io \<Rightarrow> ('a \<Rightarrow> 'b) \<Rightarrow> ('b, 's) io" where
  "grpc_reply toErr m f = bind_io (map_err_io toErr m) (\<lambda>x. return_io (f x))"

lemma snd_grpc_reply [simp]: "snd (grpc_reply toErr m f s) = snd (m s)"
  by (simp add: grpc_reply_def)

lemma grpc_reply_run [io_simps]:
  "grpc_reply toErr m f s =
     (case m s of (Inl e, s') \<Rightarrow> (Inl (toErr e), s') | (Inr x, s') \<Rightarrow> (Inr (f x), s'))"
  by (simp add: grpc_reply_def bind_io_run map_err_io_run split: prod.split sum.split)

lemma io_inv_reply: "io_inv I m P \<Longrightarrow> io_inv I (grpc_reply h m f) (\<lambda>_. True)"
  unfolding grpc_reply_def by (rule io_inv_bind [OF io_inv_map_err]) auto

lemma grpc_reply_Inr: "m s = (Inr x, s') \<Longrightarrow> grpc_reply toErr m f s = (Inr (f x), s')"
  by (simp add: grpc_reply_run)

lemma grpc_reply_Inl: "m s = (Inl e, s') \<Longrightarrow> grpc_reply toErr m f s = (Inl (toErr e), s')"
  by (simp add: grpc_reply_run)

section \<open>The caller's identity\<close>

text \<open>The three values the interceptor stores in \<open>context.Context\<close>; an absent one is \<open>None\<close>.\<close>

record go_ctx =
  ctx_user_id :: "string option"
  ctx_tenant_id :: "string option"
  ctx_user_role :: "string option"

definition context_Background :: go_ctx where
  "context_Background = \<lparr>ctx_user_id = None, ctx_tenant_id = None, ctx_user_role = None\<rparr>"

definition WithUserID :: "go_ctx \<Rightarrow> string \<Rightarrow> go_ctx" where
  "WithUserID ctx userID = ctx\<lparr>ctx_user_id := Some userID\<rparr>"

definition WithTenantID :: "go_ctx \<Rightarrow> string \<Rightarrow> go_ctx" where
  "WithTenantID ctx tenantID = ctx\<lparr>ctx_tenant_id := Some tenantID\<rparr>"

definition WithRole :: "go_ctx \<Rightarrow> string \<Rightarrow> go_ctx" where
  "WithRole ctx role = ctx\<lparr>ctx_user_role := Some role\<rparr>"

definition UserID :: "go_ctx \<Rightarrow> string" where
  "UserID ctx = (case ctx_user_id ctx of None \<Rightarrow> [] | Some v \<Rightarrow> v)"

definition TenantID :: "go_ctx \<Rightarrow> string" where
  "TenantID ctx = (case ctx_tenant_id ctx of None \<Rightarrow> [] | Some v \<Rightarrow> v)"

definition Role :: "go_ctx \<Rightarrow> string" where
  "Role ctx = (case ctx_user_role ctx of None \<Rightarrow> [] | Some v \<Rightarrow> v)"

named_theorems ctx_simps \<open>what a context says after the setters\<close>

lemma ctx_get_set [ctx_simps]:
  "UserID (WithUserID ctx u) = u" "UserID (WithTenantID ctx t) = UserID ctx"
  "UserID (WithRole ctx r) = UserID ctx" "TenantID (WithUserID ctx u) = TenantID ctx"
  "TenantID (WithTenantID ctx t) = t" "TenantID (WithRole ctx r) = TenantID ctx"
  "Role (WithUserID ctx u) = Role ctx" "Role (WithTenantID ctx t) = Role ctx"
  "Role (WithRole ctx r) = r"
  by (simp_all add: UserID_def TenantID_def Role_def WithUserID_def WithTenantID_def WithRole_def)

section \<open>Messages\<close>

record PaginationRequest =
  pq_Page :: int
  pq_PageSize :: int

record PaginationResponse =
  pr_Page :: int
  pr_PageSize :: int
  pr_Total :: int
  pr_TotalPages :: int

record Timestamp =
  ts_Seconds :: int
  ts_Nanos :: int

text \<open>\<open>toTimestamp\<close>: milliseconds since the epoch as a protobuf timestamp, nil for 0.\<close>

definition toTimestamp :: "int \<Rightarrow> Timestamp option" where
  "toTimestamp millis =
     (if millis = 0 then None
      else Some \<lparr>ts_Seconds = go_div millis 1000,
                 ts_Nanos = i32 (i64 (go_mod millis 1000 * 1000000))\<rparr>)"

lemma nanos_exact: "i32 (i64 (go_mod millis 1000 * 1000000)) = go_mod millis 1000 * 1000000"
proof -
  have "\<bar>go_mod millis 1000\<bar> < 1000" by (rule go_mod_bound) simp
  then show ?thesis by (simp add: i64_id i32_id)
qed

text \<open>
  The defaults of the gRPC handlers: page 1 and 20 entries, each replaced by the request's
  value when that is positive.
\<close>

definition pagination_or_default :: "PaginationRequest option \<Rightarrow> int \<times> int" where
  "pagination_or_default p =
     (case p of
        None \<Rightarrow> (1, 20)
      | Some q \<Rightarrow> (if 0 < pq_Page q then pq_Page q else 1,
                   if 0 < pq_PageSize q then pq_PageSize q else 20))"

text \<open>
  The services' normalisation: \<open>page <= 0\<close> becomes 1, \<open>pageSize <= 0\<close> becomes 20, and
  \<open>pageSize > 100\<close> becomes 100.
\<close>

definition normal_page :: "int \<Rightarrow> int" where
  "normal_page page = (if page \<le> 0 then 1 else page)"

definition normal_pageSize :: "int \<Rightarrow> int" where
  "normal_pageSize pageSize =
     (let pageSize = (if pageSize \<le> 0 then 20 else pageSize)
      in if 100 < pageSize then 100 else pageSize)"

lemma normal_page_ge [simp]: "1 \<le> normal_page page"
  by (simp add: normal_page_def)

lemma normal_pageSize_bounds [simp]:
  "1 \<le> normal_pageSize n" "0 < normal_pageSize n" "0 \<le> normal_pageSize n"
  "normal_pageSize n \<le> 100"
  by (simp_all add: normal_pageSize_def Let_def)

text \<open>A 32-bit page number and the page-size cap keep the offset far from overflow.\<close>

lemma page_offset_exact:
  assumes "page < 2 ^ 31"
  shows "i64 (i64 (normal_page page - 1) * normal_pageSize n) =
           (normal_page page - 1) * normal_pageSize n"
    and "0 \<le> (normal_page page - 1) * normal_pageSize n"
proof -
  have p: "0 \<le> normal_page page - 1" "normal_page page - 1 < 2 ^ 31"
    using assms by (auto simp: normal_page_def)
  have "(normal_page page - 1) * normal_pageSize n \<le> 2 ^ 31 * 100"
    using p by (intro mult_mono) auto
  moreover show nn: "0 \<le> (normal_page page - 1) * normal_pageSize n"
    using p by (intro mult_nonneg_nonneg) (simp_all add: order_less_imp_le)
  ultimately have "i64 ((normal_page page - 1) * normal_pageSize n) =
      (normal_page page - 1) * normal_pageSize n"
    by (intro i64_id) simp_all
  moreover have "i64 (normal_page page - 1) = normal_page page - 1"
    using p by (intro i64_id) simp_all
  ultimately show "i64 (i64 (normal_page page - 1) * normal_pageSize n) =
      (normal_page page - 1) * normal_pageSize n" by simp
qed

text \<open>The number of pages is at most the number of entries.\<close>

lemma page_count_bounds:
  assumes "0 \<le> n" and "1 \<le> (k::int)"
  shows "0 \<le> (n + k - 1) div k \<and> (n + k - 1) div k \<le> n"
proof
  have "0 \<le> n + k - 1" using assms by linarith
  then show "0 \<le> (n + k - 1) div k" using assms by (simp add: pos_imp_zdiv_nonneg_iff)
  show "(n + k - 1) div k \<le> n"
  proof (cases "n = 0")
    case True
    then show ?thesis using assms by (simp add: div_pos_pos_trivial)
  next
    case False
    then have "1 * (k - 1) \<le> n * (k - 1)" using assms by (intro mult_right_mono) linarith+
    then have "n + k - 1 \<le> n * k" by (simp add: algebra_simps)
    then have "(n + k - 1) div k \<le> (n * k) div k" using assms by (intro zdiv_mono1) linarith+
    then show ?thesis using assms by simp
  qed
qed

end
