(* ===== verification/Go_Text.thy ===== *)
theory Go_Text
  imports Go_Prelude Go_Float
begin

text \<open>
  The parts of \<open>strconv\<close> and \<open>time\<close> that the configuration and the token lifetimes use:
  \<open>strconv.Atoi\<close>, the verb \<open>%d\<close>, \<open>strconv.ParseBool\<close>, \<open>time.ParseDuration\<close> and
  \<open>Duration.Seconds\<close>.
\<close>

section \<open>Decimal digits\<close>

definition is_digit :: "char \<Rightarrow> bool" where
  "is_digit c = (c \<in> set ''0123456789'')"

definition digit_value :: "char \<Rightarrow> int" where
  "digit_value c = of_char c - 48"

fun dec_value :: "int \<Rightarrow> string \<Rightarrow> int" where
  "dec_value x [] = x"
| "dec_value x (c # cs) = dec_value (x * 10 + digit_value c) cs"

lemma digit_value_range: "is_digit c \<Longrightarrow> 0 \<le> digit_value c \<and> digit_value c < 10"
  by (auto simp: is_digit_def digit_value_def)

lemma dec_value_ge: "0 \<le> x \<Longrightarrow> list_all is_digit cs \<Longrightarrow> x \<le> dec_value x cs"
proof (induction cs arbitrary: x)
  case (Cons c cs)
  then have "0 \<le> digit_value c" using digit_value_range [of c] by simp
  with Cons have "x * 10 + digit_value c \<le> dec_value (x * 10 + digit_value c) cs" by simp
  with Cons.prems \<open>0 \<le> digit_value c\<close> show ?case by simp
qed simp

lemma dec_value_append: "dec_value x (cs @ [c]) = dec_value x cs * 10 + digit_value c"
  by (induction cs arbitrary: x) simp_all

text \<open>The digits of a natural number, as \<open>%d\<close> prints it.\<close>

fun dec_digits :: "nat \<Rightarrow> string" where
  "dec_digits n = (if n < 10 then [char_of (48 + n)] else dec_digits (n div 10) @ [char_of (48 + n mod 10)])"

declare dec_digits.simps [simp del]

definition fmt_d :: "int \<Rightarrow> string" where
  "fmt_d x = (if x < 0 then CHR ''-'' # dec_digits (nat (- x)) else dec_digits (nat x))"

lemma digit_char_nat: "n < 10 \<Longrightarrow> is_digit (char_of (48 + n :: nat)) \<and> digit_value (char_of (48 + n)) = int n"
proof -
  assume "n < 10"
  then have "n \<in> {0, 1, 2, 3, 4, 5, 6, 7, 8, 9}" by simp presburger
  then show ?thesis
    by (elim insertE) (simp_all add: is_digit_def digit_value_def char_of_def bit_0)
qed

lemma dec_digits_value:
  "list_all is_digit (dec_digits n) \<and> dec_digits n \<noteq> [] \<and> dec_value 0 (dec_digits n) = int n"
proof (induction n rule: dec_digits.induct)
  case (1 n)
  show ?case
  proof (cases "n < 10")
    case True
    then show ?thesis using digit_char_nat [of n] by (simp add: dec_digits.simps [of n])
  next
    case False
    have "int n = int (n div 10) * 10 + int (n mod 10)"
      using div_mult_mod_eq [of n 10] by (metis of_nat_add of_nat_mult of_nat_numeral)
    with False show ?thesis
      using 1 digit_char_nat [of "n mod 10"] by (simp add: dec_digits.simps [of n] dec_value_append)
  qed
qed

text \<open>
  \<open>strconv.Atoi\<close>: an optional sign and at least one digit, in the range of a 64-bit integer;
  anything else is an error.
\<close>

definition strconv_Atoi :: "string \<Rightarrow> int option" where
  "strconv_Atoi s =
     (let (neg, ds) = (case s of [] \<Rightarrow> (False, [])
                       | c # cs \<Rightarrow> if c = CHR ''-'' then (True, cs)
                                   else if c = CHR ''+'' then (False, cs) else (False, c # cs));
          v = (if neg then - dec_value 0 ds else dec_value 0 ds)
      in if ds = [] \<or> \<not> list_all is_digit ds \<or> v < - (2 ^ 63) \<or> 2 ^ 63 \<le> v then None else Some v)"

lemma Atoi_fmt_d:
  assumes "- (2 ^ 63) \<le> x" and "x < 2 ^ 63"
  shows "strconv_Atoi (fmt_d x) = Some x"
proof -
  have d: "list_all is_digit (dec_digits n)" "dec_digits n \<noteq> []" "dec_value 0 (dec_digits n) = int n" for n
    using dec_digits_value by blast+
  show ?thesis
  proof (cases "x < 0")
    case True
    then show ?thesis using assms d [of "nat (- x)"] by (simp add: strconv_Atoi_def fmt_d_def)
  next
    case False
    obtain c cs where c: "dec_digits (nat x) = c # cs" using d(2) by (cases "dec_digits (nat x)") auto
    then have "c \<noteq> CHR ''-''" "c \<noteq> CHR ''+''" using d(1) [of "nat x"] by (auto simp: is_digit_def)
    with False c show ?thesis using assms d [of "nat x"] by (simp add: strconv_Atoi_def fmt_d_def)
  qed
qed

definition strconv_ParseBool :: "string \<Rightarrow> bool option" where
  "strconv_ParseBool s =
     (if s \<in> {''1'', ''t'', ''T'', ''true'', ''TRUE'', ''True''} then Some True
      else if s \<in> {''0'', ''f'', ''F'', ''false'', ''FALSE'', ''False''} then Some False
      else None)"

section \<open>Durations\<close>

text \<open>
  \<open>time.ParseDuration\<close>: a sign and a sequence of decimal numbers with units. \<open>leadingInt\<close>
  fails beyond \<open>1<<63\<close>; \<open>leadingFraction\<close> drops the digits that do not fit.
\<close>

fun leadingInt :: "int \<Rightarrow> string \<Rightarrow> (int \<times> string) option" where
  "leadingInt x [] = Some (x, [])"
| "leadingInt x (c # cs) =
     (if \<not> is_digit c then Some (x, c # cs)
      else if 2 ^ 63 div 10 < x then None
      else let y = x * 10 + digit_value c
           in if 2 ^ 63 < y then None else leadingInt y cs)"

fun leadingFraction :: "int \<Rightarrow> int \<Rightarrow> bool \<Rightarrow> string \<Rightarrow> int \<times> int \<times> string" where
  "leadingFraction x scale overflow [] = (x, scale, [])"
| "leadingFraction x scale overflow (c # cs) =
     (if \<not> is_digit c then (x, scale, c # cs)
      else if overflow \<or> (2 ^ 63 - 1) div 10 < x then leadingFraction x scale True cs
      else let y = x * 10 + digit_value c
           in if 2 ^ 63 < y then leadingFraction x scale True cs
              else leadingFraction y (scale * 10) False cs)"

text \<open>The micro sign and the Greek letter mu are spelt out in UTF-8.\<close>

definition duration_unit :: "string \<Rightarrow> int option" where
  "duration_unit u =
     map_of [(''ns'', 1), (''us'', 1000), ([CHR 0xC2, CHR 0xB5, CHR ''s''], 1000), ([CHR 0xCE, CHR 0xBC, CHR ''s''], 1000),
             (''ms'', 1000000), (''s'', time_second), (''m'', time_minute), (''h'', 60 * time_minute)] u"

definition unit_end :: "char \<Rightarrow> bool" where
  "unit_end c = (c = CHR ''.'' \<or> is_digit c)"

lemma leadingInt_shorter: "leadingInt x s = Some (v, s') \<Longrightarrow> length s' \<le> length s"
  by (induction x s rule: leadingInt.induct) (auto simp: Let_def split: if_splits)

lemma leadingFraction_shorter: "leadingFraction x k b s = (f, k', s') \<Longrightarrow> length s' \<le> length s"
  by (induction x k b s rule: leadingFraction.induct) (auto simp: Let_def split: if_splits)

definition fraction_part :: "string \<Rightarrow> int \<times> int \<times> bool \<times> string" where
  "fraction_part s =
     (case s of
        [] \<Rightarrow> (0, 1, False, [])
      | c # cs \<Rightarrow>
          if c = CHR ''.''
          then case leadingFraction 0 1 False cs of (f, scale, s') \<Rightarrow> (f, scale, s' \<noteq> cs, s')
          else (0, 1, False, s))"

lemma fraction_part_shorter: "fraction_part s = (f, k, p, s') \<Longrightarrow> length s' \<le> length s"
  by (auto simp: fraction_part_def dest!: leadingFraction_shorter split: list.splits if_splits prod.splits)

text \<open>One number with its unit, and what is left of the text.\<close>

definition duration_group :: "string \<Rightarrow> (int \<times> string) option" where
  "duration_group s =
     (if s = [] \<or> \<not> unit_end (hd s) then None
      else case leadingInt 0 s of
             None \<Rightarrow> None
           | Some (v, s1) \<Rightarrow>
               (case fraction_part s1 of (f, scale, post, s2) \<Rightarrow>
                  let u = takeWhile (\<lambda>c. \<not> unit_end c) s2; s3 = dropWhile (\<lambda>c. \<not> unit_end c) s2
                  in if s1 = s \<and> \<not> post \<or> u = [] then None
                     else case duration_unit u of
                            None \<Rightarrow> None
                          | Some m \<Rightarrow>
                              let v' = v * m + (if 0 < f
                                    then \<lfloor>f64_round (f64_of_int f * f64_div (of_int m) (of_int scale))\<rfloor>
                                    else 0)
                              in if 2 ^ 63 div m < v \<or> 2 ^ 63 < v' then None else Some (v', s3)))"

lemma duration_group_shorter:
  assumes "duration_group s = Some (v, s3)"
  shows "length s3 < length s"
proof -
  obtain i s1 f k p s2 where s: "leadingInt 0 s = Some (i, s1)" "fraction_part s1 = (f, k, p, s2)"
      "takeWhile (\<lambda>c. \<not> unit_end c) s2 \<noteq> []" "s3 = dropWhile (\<lambda>c. \<not> unit_end c) s2"
    using assms by (auto simp: duration_group_def Let_def split: if_splits option.splits prod.splits)
  then have "length s3 < length s2"
    by (metis length_append length_greater_0_conv less_add_same_cancel2 takeWhile_dropWhile_id)
  with s show ?thesis using leadingInt_shorter [OF s(1)] fraction_part_shorter [OF s(2)] by simp
qed

text \<open>The sum is unsigned and wraps before it is compared with \<open>1<<63\<close>.\<close>

function duration_groups :: "int \<Rightarrow> string \<Rightarrow> int option" where
  "duration_groups d s =
     (if s = [] then Some d
      else case duration_group s of
             None \<Rightarrow> None
           | Some (v, s') \<Rightarrow>
               let d' = (d + v) mod 2 ^ 64 in if 2 ^ 63 < d' then None else duration_groups d' s')"
  by pat_completeness auto

termination
  by (relation "measure (\<lambda>(d, s). length s)") (auto dest: duration_group_shorter)

declare duration_groups.simps [simp del]

definition time_ParseDuration :: "string \<Rightarrow> int option" where
  "time_ParseDuration str =
     (let (neg, s) = (case str of [] \<Rightarrow> (False, [])
                      | c # cs \<Rightarrow> if c = CHR ''-'' then (True, cs)
                                  else if c = CHR ''+'' then (False, cs) else (False, c # cs))
      in if s = ''0'' then Some 0
         else if s = [] then None
         else case duration_groups 0 s of
                None \<Rightarrow> None
              | Some d \<Rightarrow> if neg then Some (- d) else if 2 ^ 63 - 1 < d then None else Some d)"

text \<open>\<open>Duration.Seconds\<close>, and the conversion of a float to \<open>int32\<close>, which drops the fraction.\<close>

definition Duration_Seconds :: "int \<Rightarrow> rat" where
  "Duration_Seconds d =
     f64_round (f64_of_int (go_div d time_second) + f64_div (f64_of_int (go_mod d time_second)) 1000000000)"

definition go_trunc :: "rat \<Rightarrow> int" where
  "go_trunc x = (if x < 0 then \<lceil>x\<rceil> else \<lfloor>x\<rfloor>)"

section \<open>A number with one unit\<close>

lemma int_div_less_iff: "0 < (m::int) \<Longrightarrow> a div m < v \<longleftrightarrow> a < v * m"
proof -
  assume m: "0 < m"
  have "v \<le> a div m \<longleftrightarrow> v * m \<le> a"
  proof
    assume "v \<le> a div m"
    then have "v * m \<le> a div m * m" using m by simp
    also have "\<dots> \<le> a" using minus_mod_eq_div_mult [of a m] pos_mod_sign [OF m, of a] by linarith
    finally show "v * m \<le> a" .
  next
    assume "v * m \<le> a"
    then show "v \<le> a div m" using zdiv_mono1 [of "v * m" a m] m by simp
  qed
  then show ?thesis by linarith
qed

lemma leadingInt_digits:
  assumes "list_all is_digit ds" and "rest = [] \<or> \<not> is_digit (hd rest)" and "0 \<le> x" and "x \<le> 2 ^ 63"
  shows "leadingInt x (ds @ rest) = (if dec_value x ds \<le> 2 ^ 63 then Some (dec_value x ds, rest) else None)"
  using assms
proof (induction ds arbitrary: x)
  case Nil
  then show ?case by (cases rest) simp_all
next
  case (Cons c cs)
  have c: "is_digit c" "0 \<le> digit_value c" "digit_value c < 10"
    using Cons.prems digit_value_range [of c] by simp_all
  have ge: "x * 10 + digit_value c \<le> dec_value (x * 10 + digit_value c) cs"
    using Cons.prems c by (intro dec_value_ge) simp_all
  show ?case
  proof (cases "2 ^ 63 div 10 < x \<or> 2 ^ 63 < x * 10 + digit_value c")
    case True
    then have "2 ^ 63 < dec_value (x * 10 + digit_value c) cs" using ge c(2) by auto
    with True c show ?thesis by (auto simp: Let_def)
  next
    case False
    with Cons c show ?thesis by (simp add: Let_def)
  qed
qed

lemma unit_chars:
  assumes "duration_unit u = Some m"
  shows "u \<noteq> []" "takeWhile (\<lambda>c. \<not> unit_end c) u = u" "dropWhile (\<lambda>c. \<not> unit_end c) u = []"
    "\<not> is_digit (hd u)" "hd u \<noteq> CHR ''.''" "0 < m" "2 ^ 63 mod m < 2 ^ 62"
  using assms
  by (auto simp: duration_unit_def utf8_def unit_end_def is_digit_def split: if_splits)

lemma duration_one_unit:
  assumes ds: "list_all is_digit ds" "ds \<noteq> []" and u: "duration_unit u = Some m"
  shows "time_ParseDuration (ds @ u) =
           (if dec_value 0 ds * m < 2 ^ 63 then Some (dec_value 0 ds * m) else None)"
proof -
  note u = u unit_chars [OF u]
  let ?v = "dec_value 0 ds"
  obtain c cs where c: "ds = c # cs" "is_digit c" using ds by (cases ds) auto
  have sign: "c \<noteq> CHR ''-''" "c \<noteq> CHR ''+''" using c by (auto simp: is_digit_def)
  have v: "0 \<le> ?v" using dec_value_ge [OF _ ds(1), of 0] by simp
  have ne: "ds @ u \<noteq> ''0''" using c u(2,5) ds by (cases u) (auto simp: is_digit_def append_eq_Cons_conv)
  have frac: "fraction_part u = (0, 1, False, u)"
    using u(2,6) by (cases u) (simp_all add: fraction_part_def)
  have int: "leadingInt 0 (ds @ u) = (if ?v \<le> 2 ^ 63 then Some (?v, u) else None)"
    using leadingInt_digits [OF ds(1), of u 0] u(5) by simp
  have le: "2 ^ 63 div m < ?v \<longleftrightarrow> 2 ^ 63 < ?v * m"
    using u(7) by (rule int_div_less_iff)
  have grow: "?v \<le> ?v * m" using v u(7) by (simp add: mult_le_cancel_left1)
  have group: "duration_group (ds @ u) = (if ?v * m \<le> 2 ^ 63 then Some (?v * m, []) else None)"
  proof -
    have w: "ds @ u \<noteq> []" "unit_end (hd (ds @ u))" "u \<noteq> ds @ u" using c by (simp_all add: unit_end_def)
    have "duration_group (ds @ u) =
        (if ?v \<le> 2 ^ 63 then if 2 ^ 63 div m < ?v \<or> 2 ^ 63 < ?v * m then None else Some (?v * m, []) else None)"
      unfolding duration_group_def int by (simp only: w u(1-4) frac prod.case option.case if_True if_False
        Let_def simp_thms split: if_split) simp
    also have "\<dots> = (if ?v * m \<le> 2 ^ 63 then Some (?v * m, []) else None)"
    proof (cases "?v * m \<le> 2 ^ 63")
      case True
      then have "?v \<le> 2 ^ 63" using grow by (rule order.trans [rotated])
      with True le show ?thesis by (simp only: not_less [symmetric] if_True if_False simp_thms)
    next
      case False
      then have "2 ^ 63 < ?v * m" by (rule not_le_imp_less)
      with le have "2 ^ 63 div m < ?v" by (simp only:)
      with False show ?thesis by (simp only: simp_thms if_True if_False if_cancel)
    qed
    finally show ?thesis .
  qed
  have groups: "duration_groups 0 (ds @ u) = (if ?v * m \<le> 2 ^ 63 then Some (?v * m) else None)"
  proof (cases "?v * m \<le> 2 ^ 63")
    case True
    moreover have "(?v * m) mod 2 ^ 64 = ?v * m" using True v u(7) by (intro mod_pos_pos_trivial) auto
    ultimately show ?thesis
      using c group by (simp add: duration_groups.simps [of 0] duration_groups.simps [of _ "[]"] Let_def)
  next
    case False
    then show ?thesis using c group by (simp add: duration_groups.simps [of 0])
  qed
  show ?thesis
    using groups ne sign c by (auto simp: time_ParseDuration_def)
qed

lemma duration_bad_unit:
  assumes ds: "list_all is_digit ds" "ds \<noteq> []"
  shows "time_ParseDuration (ds @ ''d'') = None"
proof -
  obtain c cs where c: "ds = c # cs" "is_digit c" using ds by (cases ds) auto
  have sign: "c \<noteq> CHR ''-''" "c \<noteq> CHR ''+''" using c by (auto simp: is_digit_def)
  have w: "ds @ ''d'' \<noteq> []" "unit_end (hd (ds @ ''d''))" "''d'' \<noteq> ds @ ''d''" "ds @ ''d'' \<noteq> ''0''"
    using c by (auto simp: unit_end_def append_eq_Cons_conv)
  have u: "takeWhile (\<lambda>c. \<not> unit_end c) ''d'' = ''d''" "duration_unit ''d'' = None"
    "fraction_part ''d'' = (0, 1, False, ''d'')"
    by (simp_all add: unit_end_def is_digit_def duration_unit_def fraction_part_def)
  have "leadingInt 0 (ds @ ''d'') = (if dec_value 0 ds \<le> 2 ^ 63 then Some (dec_value 0 ds, ''d'') else None)"
    by (rule leadingInt_digits [OF ds(1)]) (simp_all add: is_digit_def)
  then have "duration_group (ds @ ''d'') = None"
    by (simp add: duration_group_def w u Let_def)
  with w show ?thesis
    using c sign by (simp add: time_ParseDuration_def duration_groups.simps [of 0])
qed

end
