(* ===== verification/Redis.thy ===== *)
theory Redis
  imports Go_Prelude
begin

text \<open>
  The Redis commands the caches use. The client and the server are not part of the repository:
  a client is a parameter, and \<open>redis_db\<close> states what its commands do to the unexpired keys.
  A value is a text, or a JSON document, represented by the value that was marshalled. Keys
  vanish when their time to live has passed, which is a step of the environment and never
  happens inside a command.
\<close>

datatype 'j redis_val = RText string | RJson 'j

record ('j, 's) redis =
  rd_SET :: "string \<Rightarrow> 'j redis_val \<Rightarrow> int \<Rightarrow> (unit, 's) io"
  rd_GET :: "string \<Rightarrow> ('j redis_val option, 's) io"
  rd_DEL :: "string \<Rightarrow> (unit, 's) io"
  rd_SETNX :: "string \<Rightarrow> 'j redis_val \<Rightarrow> int \<Rightarrow> (bool, 's) io"

text \<open>
  \<open>kv s\<close> is the map of unexpired keys, \<open>set_kv\<close> replaces it and leaves the rest of the world
  as it is.
\<close>

locale redis_db =
  fixes rd :: "('j, 's) redis"
    and kv :: "'s \<Rightarrow> string \<Rightarrow> 'j redis_val option"
    and set_kv :: "(string \<Rightarrow> 'j redis_val option) \<Rightarrow> 's \<Rightarrow> 's"
  assumes kv_set [simp]: "kv (set_kv m s) = m"
    and set_set [simp]: "set_kv m (set_kv m' s) = set_kv m s"
    and SET: "rd_SET rd k v ttl s = (Inr (), set_kv ((kv s)(k \<mapsto> v)) s)"
    and GET: "rd_GET rd k s = (Inr (kv s k), s)"
    and DEL: "rd_DEL rd k s = (Inr (), set_kv ((kv s)(k := None)) s)"
    and SETNX: "rd_SETNX rd k v ttl s =
      (if kv s k = None then (Inr True, set_kv ((kv s)(k \<mapsto> v)) s) else (Inr False, s))"
begin

lemmas commands = SET GET DEL SETNX

end

text \<open>A server in memory, for any world that has a place for the map.\<close>

definition ref_redis ::
  "('s \<Rightarrow> string \<Rightarrow> 'j redis_val option) \<Rightarrow> ((string \<Rightarrow> 'j redis_val option) \<Rightarrow> 's \<Rightarrow> 's) \<Rightarrow>
   ('j, 's) redis" where
  "ref_redis kv set_kv =
     \<lparr>rd_SET = (\<lambda>k v ttl s. (Inr (), set_kv ((kv s)(k \<mapsto> v)) s)),
      rd_GET = (\<lambda>k s. (Inr (kv s k), s)),
      rd_DEL = (\<lambda>k s. (Inr (), set_kv ((kv s)(k := None)) s)),
      rd_SETNX = (\<lambda>k v ttl s.
        if kv s k = None then (Inr True, set_kv ((kv s)(k \<mapsto> v)) s) else (Inr False, s))\<rparr>"

lemma ref_redis_db:
  assumes "\<And>m s. kv (set_kv m s) = m" and "\<And>m m' s. set_kv m (set_kv m' s) = set_kv m s"
  shows "redis_db (ref_redis kv set_kv) kv set_kv"
  by unfold_locales (simp_all add: ref_redis_def assms)

interpretation ref_redis: redis_db "ref_redis fst (\<lambda>m s. (m, snd s))" fst "\<lambda>m s. (m, snd s)"
  by (rule ref_redis_db) simp_all

end
