(* ===== verification/Sms.thy ===== *)
theory Sms
  imports Entity_Store Grpc_Util Go_Text Redis
begin

text \<open>
  The SMS domain: codes (\<open>domain/sms_code.go\<close>), the record DAO, the Redis cache with its Lua
  script, the repository, the service with its rate limit, the gRPC server, and the mock
  gateway that \<open>grpc/register.go\<close> installs. A Lua script runs atomically on the server, so it
  is the sequence of its commands.
\<close>

section \<open>Domain\<close>

definition SmsPurposeLogin :: string where [simp]: "SmsPurposeLogin = ''login''"
definition SmsPurposeRegister :: string where [simp]: "SmsPurposeRegister = ''register''"
definition SmsPurposeResetPassword :: string where
  [simp]: "SmsPurposeResetPassword = ''reset_password''"

record sms_code =
  sc_ID :: string
  sc_Phone :: string
  sc_Code :: string
  sc_Purpose :: string
  sc_ExpiresAt :: int
  sc_Used :: bool
  sc_CreatedAt :: int

definition isValidPurpose :: "string \<Rightarrow> bool" where
  "isValidPurpose p = (p \<in> {SmsPurposeLogin, SmsPurposeRegister, SmsPurposeResetPassword})"

fun generateCode :: "'s go_env \<Rightarrow> nat \<Rightarrow> (string, 's) io" where
  "generateCode env 0 = return_io []"
| "generateCode env (Suc n) =
     bind_io (rand_Int env 10) (\<lambda>d.
     bind_io (generateCode env n) (\<lambda>rest.
     return_io (char_of (48 + d) # rest)))"

definition NewSmsCode ::
  "'s go_env \<Rightarrow> string \<Rightarrow> string \<Rightarrow> int \<Rightarrow> (sms_code, 's) io" where
  "NewSmsCode env phone purpose ttl =
     (if phone = [] then fail_io (sms ErrInvalidPhone)
      else if \<not> isValidPurpose purpose then fail_io (sms ErrInvalidPurpose)
      else bind_io (generateCode env 6) (\<lambda>code.
           bind_io (ask_io (time_Now env)) (\<lambda>now.
           return_io \<lparr>sc_ID = [], sc_Phone = phone, sc_Code = code, sc_Purpose = purpose,
                      sc_ExpiresAt = now + ttl, sc_Used = False, sc_CreatedAt = now\<rparr>)))"

definition SmsCode_IsExpired :: "sms_code \<Rightarrow> int \<Rightarrow> bool" where
  "SmsCode_IsExpired c now = (sc_ExpiresAt c < now)"

definition SmsCode_Verify :: "sms_code \<Rightarrow> int \<Rightarrow> string \<Rightarrow> go_error + unit" where
  "SmsCode_Verify c now input =
     (if sc_Used c then Inl (sms ErrCodeUsed)
      else if SmsCode_IsExpired c now then Inl (sms ErrCodeExpired)
      else if sc_Code c \<noteq> input then Inl (sms ErrCodeMismatch)
      else Inr ())"

definition SmsCode_MarkUsed :: "sms_code \<Rightarrow> sms_code" where
  "SmsCode_MarkUsed c = c\<lparr>sc_Used := True\<rparr>"

section \<open>Record DAO\<close>

record sms_record =
  sr_ID :: string
  sr_Phone :: string
  sr_Purpose :: string
  sr_Code :: string
  sr_Status :: string
  sr_ProviderErr :: "string option"
  sr_CreatedAt :: int

record sms_record_filter =
  srf_Phone :: string
  srf_Purpose :: string
  srf_Status :: string
  srf_StartTime :: "int option"
  srf_EndTime :: "int option"

record 's sms_dao =
  sd_Insert :: "sms_record \<Rightarrow> (unit, 's) io"
  sd_FindByID :: "string \<Rightarrow> (sms_record, 's) io"
  sd_FindByPhone :: "string \<Rightarrow> int \<Rightarrow> int \<Rightarrow> (sms_record list \<times> int, 's) io"
  sd_List :: "sms_record_filter \<Rightarrow> int \<Rightarrow> int \<Rightarrow> (sms_record list \<times> int, 's) io"

type_synonym 's sms_gorm = "('s, sms_record) gorm"

definition GORMSmsRecordDAO_Insert :: "'s sms_gorm \<Rightarrow> sms_record \<Rightarrow> (unit, 's) io" where
  "GORMSmsRecordDAO_Insert db record = g_Create db record"

definition GORMSmsRecordDAO_FindByID :: "'s sms_gorm \<Rightarrow> string \<Rightarrow> (sms_record, 's) io" where
  "GORMSmsRecordDAO_FindByID db recordID = g_First db (Where ''id = ?'' [SqlStr recordID] Model)"

definition GORMSmsRecordDAO_FindByPhone ::
  "'s sms_gorm \<Rightarrow> string \<Rightarrow> int \<Rightarrow> int \<Rightarrow> (sms_record list \<times> int, 's) io" where
  "GORMSmsRecordDAO_FindByPhone db phone page pageSize =
     count_and_page db (Where ''phone = ?'' [SqlStr phone] Model) page pageSize"

definition sms_record_query :: "sms_record_filter \<Rightarrow> gquery" where
  "sms_record_query f =
     Where_if (srf_EndTime f \<noteq> None) ''created_at <= ?'' [SqlInt (the (srf_EndTime f))]
     (Where_if (srf_StartTime f \<noteq> None) ''created_at >= ?'' [SqlInt (the (srf_StartTime f))]
     (Where_if (srf_Status f \<noteq> []) ''status = ?'' [SqlStr (srf_Status f)]
     (Where_if (srf_Purpose f \<noteq> []) ''purpose = ?'' [SqlStr (srf_Purpose f)]
     (Where_if (srf_Phone f \<noteq> []) ''phone = ?'' [SqlStr (srf_Phone f)] Model))))"

definition GORMSmsRecordDAO_List ::
  "'s sms_gorm \<Rightarrow> sms_record_filter \<Rightarrow> int \<Rightarrow> int \<Rightarrow> (sms_record list \<times> int, 's) io" where
  "GORMSmsRecordDAO_List db f page pageSize = count_and_page db (sms_record_query f) page pageSize"

definition NewSmsRecordDAO :: "'s sms_gorm \<Rightarrow> 's sms_dao" where
  "NewSmsRecordDAO db =
     \<lparr>sd_Insert = GORMSmsRecordDAO_Insert db, sd_FindByID = GORMSmsRecordDAO_FindByID db,
      sd_FindByPhone = GORMSmsRecordDAO_FindByPhone db, sd_List = GORMSmsRecordDAO_List db\<rparr>"

text \<open>
  The table \<open>sms_records\<close>. Its only unique index is the primary key, and \<open>autoCreateTime\<close> fills a
  creation time that is zero. \<open>now\<close> is the clock in milliseconds.
\<close>

fun sms_record_holds :: "sql_cond \<Rightarrow> sms_record \<Rightarrow> bool" where
  "sms_record_holds (c, [SqlStr v]) r =
     (if c = ''id = ?'' then sr_ID r = v
      else if c = ''phone = ?'' then sr_Phone r = v
      else if c = ''purpose = ?'' then sr_Purpose r = v
      else if c = ''status = ?'' then sr_Status r = v else False)"
| "sms_record_holds (c, [SqlInt t]) r =
     (if c = ''created_at >= ?'' then t \<le> sr_CreatedAt r
      else if c = ''created_at <= ?'' then sr_CreatedAt r \<le> t else False)"
| "sms_record_holds _ r = False"

definition sms_record_clash :: "sms_record \<Rightarrow> sms_record \<Rightarrow> bool" where
  "sms_record_clash r' r = (sr_ID r' = sr_ID r)"

definition sms_record_stamp :: "int \<Rightarrow> sms_record \<Rightarrow> sms_record" where
  "sms_record_stamp now r = r\<lparr>sr_CreatedAt := (if sr_CreatedAt r = 0 then now else sr_CreatedAt r)\<rparr>"

definition sms_record_assign :: "int \<Rightarrow> string list \<Rightarrow> sms_record \<Rightarrow> sms_record \<Rightarrow> sms_record" where
  "sms_record_assign now cols new old =
     \<lparr>sr_ID = set_text (sr_ID new) (sr_ID old),
      sr_Phone = set_text (sr_Phone new) (sr_Phone old),
      sr_Purpose = set_text (sr_Purpose new) (sr_Purpose old),
      sr_Code = set_text (sr_Code new) (sr_Code old),
      sr_Status = set_text (sr_Status new) (sr_Status old),
      sr_ProviderErr = (case sr_ProviderErr new of None \<Rightarrow> sr_ProviderErr old | Some e \<Rightarrow> Some e),
      sr_CreatedAt = (if sr_CreatedAt new = 0 then sr_CreatedAt old else sr_CreatedAt new)\<rparr>"

definition sms_record_order :: "string \<Rightarrow> sms_record \<Rightarrow> int" where
  "sms_record_order c r = (if c = ''created_at DESC'' then - sr_CreatedAt r else 0)"

section \<open>Cache\<close>

record 's sms_cache =
  sca_Store :: "sms_code \<Rightarrow> (unit, 's) io"
  sca_Retrieve :: "string \<Rightarrow> string \<Rightarrow> (sms_code, 's) io"
  sca_VerifyAndConsume :: "string \<Rightarrow> string \<Rightarrow> string \<Rightarrow> (unit, 's) io"
  sca_TryReserveRateLimit :: "string \<Rightarrow> int \<Rightarrow> (bool, 's) io"
  sca_ReleaseRateLimit :: "string \<Rightarrow> (unit, 's) io"

type_synonym 's sms_redis = "(sms_code, 's) redis"

definition smsKey :: "string \<Rightarrow> string \<Rightarrow> string" where
  "smsKey phone purpose = ''sms:code:'' @ purpose @ '':'' @ phone"

definition smsTokenKey :: "string \<Rightarrow> string \<Rightarrow> string" where
  "smsTokenKey phone purpose = ''sms:code:'' @ purpose @ '':'' @ phone @ '':token''"

definition rateLimitKey :: "string \<Rightarrow> string" where
  "rateLimitKey phone = ''sms:ratelimit:'' @ phone"

text \<open>The pipeline sends both commands and reports the first error.\<close>

definition RedisSmsCache_Store :: "'s go_env \<Rightarrow> 's sms_redis \<Rightarrow> sms_code \<Rightarrow> (unit, 's) io" where
  "RedisSmsCache_Store env rd code =
     bind_io (ask_io (time_Now env)) (\<lambda>now.
     let ttl = sc_ExpiresAt code - now;
         ttl = (if ttl \<le> 0 then time_minute else ttl)
     in try_io (rd_SET rd (smsKey (sc_Phone code) (sc_Purpose code)) (RJson code) ttl) (\<lambda>r1.
        try_io (rd_SET rd (smsTokenKey (sc_Phone code) (sc_Purpose code))
                  (RText (sc_Code code)) ttl) (\<lambda>r2.
        lift_io (case r1 of Inl e \<Rightarrow> Inl e | Inr _ \<Rightarrow> r2))))"

definition RedisSmsCache_Retrieve ::
  "'s sms_redis \<Rightarrow> string \<Rightarrow> string \<Rightarrow> (sms_code, 's) io" where
  "RedisSmsCache_Retrieve rd phone purpose =
     bind_io (rd_GET rd (smsKey phone purpose)) (\<lambda>data.
       case data of
         None \<Rightarrow> fail_io (sms ErrCodeNotFound)
       | Some (RJson code) \<Rightarrow> return_io code
       | Some (RText t) \<Rightarrow> fail_io (Opaque ''json: cannot unmarshal''))"

definition verifyAndConsumeScript :: "'s sms_redis \<Rightarrow> string \<Rightarrow> string \<Rightarrow> (string, 's) io" where
  "verifyAndConsumeScript rd key input =
     bind_io (rd_GET rd key) (\<lambda>token.
       case token of
         None \<Rightarrow> return_io ''not_found''
       | Some t \<Rightarrow>
           bind_io (rd_DEL rd key) (\<lambda>_.
           if t \<noteq> RText input then return_io ''mismatch'' else return_io ''ok''))"

definition RedisSmsCache_VerifyAndConsume ::
  "'s sms_redis \<Rightarrow> string \<Rightarrow> string \<Rightarrow> string \<Rightarrow> (unit, 's) io" where
  "RedisSmsCache_VerifyAndConsume rd phone purpose input =
     bind_io (verifyAndConsumeScript rd (smsTokenKey phone purpose) input) (\<lambda>result.
       if result = ''ok'' then return_io ()
       else if result = ''mismatch'' then fail_io (sms ErrCodeMismatch)
       else fail_io (sms ErrCodeNotFound))"

definition RedisSmsCache_TryReserveRateLimit ::
  "'s sms_redis \<Rightarrow> string \<Rightarrow> int \<Rightarrow> (bool, 's) io" where
  "RedisSmsCache_TryReserveRateLimit rd phone ttl = rd_SETNX rd (rateLimitKey phone) (RText ''1'') ttl"

definition RedisSmsCache_ReleaseRateLimit :: "'s sms_redis \<Rightarrow> string \<Rightarrow> (unit, 's) io" where
  "RedisSmsCache_ReleaseRateLimit rd phone = rd_DEL rd (rateLimitKey phone)"

definition NewRedisSmsCache :: "'s go_env \<Rightarrow> 's sms_redis \<Rightarrow> 's sms_cache" where
  "NewRedisSmsCache env rd =
     \<lparr>sca_Store = RedisSmsCache_Store env rd, sca_Retrieve = RedisSmsCache_Retrieve rd,
      sca_VerifyAndConsume = RedisSmsCache_VerifyAndConsume rd,
      sca_TryReserveRateLimit = RedisSmsCache_TryReserveRateLimit rd,
      sca_ReleaseRateLimit = RedisSmsCache_ReleaseRateLimit rd\<rparr>"

section \<open>Repository\<close>

record 's sms_repo =
  srp_SaveCode :: "sms_code \<Rightarrow> (unit, 's) io"
  srp_SaveSendFailure :: "string \<Rightarrow> string \<Rightarrow> string \<Rightarrow> (unit, 's) io"
  srp_GetCode :: "string \<Rightarrow> string \<Rightarrow> (sms_code, 's) io"
  srp_VerifyAndConsume :: "string \<Rightarrow> string \<Rightarrow> string \<Rightarrow> (unit, 's) io"
  srp_TryReserveRateLimit :: "string \<Rightarrow> int \<Rightarrow> (bool, 's) io"
  srp_ReleaseRateLimit :: "string \<Rightarrow> (unit, 's) io"

definition smsRepository_SaveCode ::
  "'s go_env \<Rightarrow> 's sms_dao \<Rightarrow> 's sms_cache \<Rightarrow> sms_code \<Rightarrow> (unit, 's) io" where
  "smsRepository_SaveCode env d c code =
     bind_io (sca_Store c code) (\<lambda>_.
     bind_io (ask_io (uuid_New env)) (\<lambda>uid.
     sd_Insert d \<lparr>sr_ID = uid, sr_Phone = sc_Phone code, sr_Purpose = sc_Purpose code,
                  sr_Code = sc_Code code, sr_Status = ''success'', sr_ProviderErr = None,
                  sr_CreatedAt = 0\<rparr>))"

definition smsRepository_SaveSendFailure ::
  "'s go_env \<Rightarrow> 's sms_dao \<Rightarrow> string \<Rightarrow> string \<Rightarrow> string \<Rightarrow> (unit, 's) io" where
  "smsRepository_SaveSendFailure env d phone purpose providerErr =
     bind_io (ask_io (uuid_New env)) (\<lambda>uid.
     sd_Insert d \<lparr>sr_ID = uid, sr_Phone = phone, sr_Purpose = purpose, sr_Code = [],
                  sr_Status = ''failed'', sr_ProviderErr = Some providerErr, sr_CreatedAt = 0\<rparr>)"

definition smsRepository_GetCode :: "'s sms_cache \<Rightarrow> string \<Rightarrow> string \<Rightarrow> (sms_code, 's) io" where
  "smsRepository_GetCode c phone purpose = sca_Retrieve c phone purpose"

definition smsRepository_MarkCodeUsed :: "'s sms_cache \<Rightarrow> string \<Rightarrow> string \<Rightarrow> (unit, 's) io" where
  "smsRepository_MarkCodeUsed c phone purpose = sca_VerifyAndConsume c phone purpose []"

definition smsRepository_VerifyAndConsume ::
  "'s sms_cache \<Rightarrow> string \<Rightarrow> string \<Rightarrow> string \<Rightarrow> (unit, 's) io" where
  "smsRepository_VerifyAndConsume c phone purpose input = sca_VerifyAndConsume c phone purpose input"

definition smsRepository_TryReserveRateLimit ::
  "'s sms_cache \<Rightarrow> string \<Rightarrow> int \<Rightarrow> (bool, 's) io" where
  "smsRepository_TryReserveRateLimit c phone ttl = sca_TryReserveRateLimit c phone ttl"

definition smsRepository_ReleaseRateLimit :: "'s sms_cache \<Rightarrow> string \<Rightarrow> (unit, 's) io" where
  "smsRepository_ReleaseRateLimit c phone = sca_ReleaseRateLimit c phone"

definition NewSmsRepository :: "'s go_env \<Rightarrow> 's sms_dao \<Rightarrow> 's sms_cache \<Rightarrow> 's sms_repo" where
  "NewSmsRepository env d c =
     \<lparr>srp_SaveCode = smsRepository_SaveCode env d c,
      srp_SaveSendFailure = smsRepository_SaveSendFailure env d,
      srp_GetCode = smsRepository_GetCode c,
      srp_VerifyAndConsume = smsRepository_VerifyAndConsume c,
      srp_TryReserveRateLimit = smsRepository_TryReserveRateLimit c,
      srp_ReleaseRateLimit = smsRepository_ReleaseRateLimit c\<rparr>"

section \<open>Service\<close>

text \<open>The gateway: \<open>Send(ctx, phone, code, purpose)\<close>.\<close>

type_synonym 's sms_gateway = "string \<Rightarrow> string \<Rightarrow> string \<Rightarrow> (unit, 's) io"

record CallRecord =
  cr_Phone :: string
  cr_Code :: string
  cr_Purpose :: string

record MockSmsGateway =
  mg_Calls :: "CallRecord list"
  mg_Err :: "go_error option"

definition NewMockSmsGateway :: MockSmsGateway where
  "NewMockSmsGateway = \<lparr>mg_Calls = [], mg_Err = None\<rparr>"

definition MockSmsGateway_Send :: "string \<Rightarrow> string \<Rightarrow> string \<Rightarrow> (unit, MockSmsGateway) io" where
  "MockSmsGateway_Send phone code purpose = (\<lambda>m.
     (case mg_Err m of None \<Rightarrow> Inr () | Some e \<Rightarrow> Inl e,
      m\<lparr>mg_Calls := mg_Calls m @ [\<lparr>cr_Phone = phone, cr_Code = code, cr_Purpose = purpose\<rparr>]\<rparr>))"

record SendCodeRequest =
  scr_Phone :: string
  scr_Purpose :: string

record VerifyCodeRequest =
  vcr_Phone :: string
  vcr_Code :: string
  vcr_Purpose :: string

record 's sms_service =
  ss_SendCode :: "SendCodeRequest \<Rightarrow> (unit, 's) io"
  ss_VerifyCode :: "VerifyCodeRequest \<Rightarrow> (unit, 's) io"

definition codeTTL :: int where "codeTTL = 5 * time_minute"
definition rateLimitTTL :: int where "rateLimitTTL = 60 * time_second"

text \<open>The regular expression \<open>^1[3-9]\d{9}$\<close>.\<close>

fun isValidPhone :: "string \<Rightarrow> bool" where
  "isValidPhone (c1 # c2 # rest) =
     (c1 = CHR ''1'' \<and> c2 \<in> set ''3456789'' \<and> length rest = 9 \<and> list_all is_digit rest)"
| "isValidPhone _ = False"

definition smsService_SendCode ::
  "'s go_env \<Rightarrow> 's sms_repo \<Rightarrow> 's sms_gateway \<Rightarrow> SendCodeRequest \<Rightarrow> (unit, 's) io" where
  "smsService_SendCode env repo send req =
     (if \<not> isValidPhone (scr_Phone req) then fail_io (sms ErrInvalidPhone)
      else bind_io (srp_TryReserveRateLimit repo (scr_Phone req) rateLimitTTL) (\<lambda>reserved.
      if \<not> reserved then fail_io (sms ErrPhoneRateLimit)
      else try_io (NewSmsCode env (scr_Phone req) (scr_Purpose req) codeTTL) (\<lambda>r.
      case r of
        Inl err \<Rightarrow>
          bind_io (ignore_io (srp_ReleaseRateLimit repo (scr_Phone req))) (\<lambda>_. fail_io err)
      | Inr code \<Rightarrow>
          bind_io (ask_io (uuid_New env)) (\<lambda>uid.
          let code = code\<lparr>sc_ID := uid\<rparr>
          in try_io (send (sc_Phone code) (sc_Code code) (sc_Purpose code)) (\<lambda>sent.
             case sent of
               Inl err \<Rightarrow>
                 bind_io (ignore_io (srp_ReleaseRateLimit repo (scr_Phone req))) (\<lambda>_.
                 srp_SaveSendFailure repo (scr_Phone req) (scr_Purpose req) (error_text err))
             | Inr _ \<Rightarrow> srp_SaveCode repo code)))))"

definition smsService_VerifyCode :: "'s sms_repo \<Rightarrow> VerifyCodeRequest \<Rightarrow> (unit, 's) io" where
  "smsService_VerifyCode repo req =
     srp_VerifyAndConsume repo (vcr_Phone req) (vcr_Purpose req) (vcr_Code req)"

definition NewSmsService :: "'s go_env \<Rightarrow> 's sms_repo \<Rightarrow> 's sms_gateway \<Rightarrow> 's sms_service" where
  "NewSmsService env repo send =
     \<lparr>ss_SendCode = smsService_SendCode env repo send, ss_VerifyCode = smsService_VerifyCode repo\<rparr>"

section \<open>gRPC server\<close>

datatype pb_SmsPurpose =
    SMS_PURPOSE_UNSPECIFIED | SMS_PURPOSE_LOGIN | SMS_PURPOSE_REGISTER
  | SMS_PURPOSE_RESET_PASSWORD | SMS_PURPOSE_unrecognized int

record pb_SendCodeRequest =
  psc_Phone :: string
  psc_Purpose :: pb_SmsPurpose

record pb_VerifyCodeRequest =
  pvc_Phone :: string
  pvc_Code :: string
  pvc_Purpose :: pb_SmsPurpose

fun purposeFromProto :: "pb_SmsPurpose \<Rightarrow> string" where
  "purposeFromProto SMS_PURPOSE_LOGIN = SmsPurposeLogin"
| "purposeFromProto SMS_PURPOSE_REGISTER = SmsPurposeRegister"
| "purposeFromProto SMS_PURPOSE_RESET_PASSWORD = SmsPurposeResetPassword"
| "purposeFromProto _ = []"

definition purposeToProto :: "string \<Rightarrow> pb_SmsPurpose" where
  "purposeToProto p =
     (if p = SmsPurposeLogin then SMS_PURPOSE_LOGIN
      else if p = SmsPurposeRegister then SMS_PURPOSE_REGISTER
      else if p = SmsPurposeResetPassword then SMS_PURPOSE_RESET_PASSWORD
      else SMS_PURPOSE_UNSPECIFIED)"

definition smsErrorMappings :: "ErrorMapping list" where
  "smsErrorMappings =
     [\<lparr>em_Target = SmsErr ErrCodeNotFound, em_Code = NotFound\<rparr>,
      \<lparr>em_Target = SmsErr ErrCodeExpired, em_Code = DeadlineExceeded\<rparr>,
      \<lparr>em_Target = SmsErr ErrCodeUsed, em_Code = FailedPrecondition\<rparr>,
      \<lparr>em_Target = SmsErr ErrCodeMismatch, em_Code = Unauthenticated\<rparr>,
      \<lparr>em_Target = SmsErr ErrPhoneRateLimit, em_Code = ResourceExhausted\<rparr>,
      \<lparr>em_Target = SmsErr ErrInvalidPhone, em_Code = InvalidArgument\<rparr>,
      \<lparr>em_Target = SmsErr ErrInvalidPurpose, em_Code = InvalidArgument\<rparr>]"

definition toSmsGRPCError :: "go_error \<Rightarrow> go_error" where
  "toSmsGRPCError err = ToGRPCError err smsErrorMappings"

definition SmsGRPCServer_SendCode :: "'s sms_service \<Rightarrow> pb_SendCodeRequest \<Rightarrow> (unit, 's) io" where
  "SmsGRPCServer_SendCode svc req =
     (let purpose = purposeFromProto (psc_Purpose req) in
      if purpose = [] then fail_io (toSmsGRPCError (sms ErrInvalidPurpose))
      else grpc_reply toSmsGRPCError
             (ss_SendCode svc \<lparr>scr_Phone = psc_Phone req, scr_Purpose = purpose\<rparr>) (\<lambda>_. ()))"

definition SmsGRPCServer_VerifyCode ::
  "'s sms_service \<Rightarrow> pb_VerifyCodeRequest \<Rightarrow> (unit, 's) io" where
  "SmsGRPCServer_VerifyCode svc req =
     (let purpose = purposeFromProto (pvc_Purpose req) in
      if purpose = [] then fail_io (toSmsGRPCError (sms ErrInvalidPurpose))
      else grpc_reply toSmsGRPCError
             (ss_VerifyCode svc \<lparr>vcr_Phone = pvc_Phone req, vcr_Code = pvc_Code req,
                                 vcr_Purpose = purpose\<rparr>) (\<lambda>_. ()))"

text \<open>\<open>RegisterServices\<close> of \<open>grpc/register.go\<close>, for a gateway of any kind.\<close>

definition sms_server ::
  "'s go_env \<Rightarrow> 's sms_gorm \<Rightarrow> 's sms_redis \<Rightarrow> 's sms_gateway \<Rightarrow> 's sms_service" where
  "sms_server env db rd send =
     NewSmsService env (NewSmsRepository env (NewSmsRecordDAO db) (NewRedisSmsCache env rd)) send"

end
