(* ===== verification/Scoped_Store.thy ===== *)
theory Scoped_Store
  imports Entity_Store
begin

text \<open>
  Tables whose rows belong to someone: a tenant, or a tenant's parking lot. The operations of
  a DAO that reads and writes under a key of the owner keep the rows of all other owners as
  they were, keep the unique indexes, and keep every property of single rows that the written
  entities have. The components' isolation and invariant theorems are instances.
\<close>

section \<open>Actions that keep an invariant\<close>

lemma io_inv_weaken: "io_inv I m P \<Longrightarrow> (\<And>x. P x \<Longrightarrow> Q x) \<Longrightarrow> io_inv I m Q"
  by (auto simp: io_inv_def)

lemma io_inv_same: "(\<And>s. snd (m s) = s) \<Longrightarrow> io_inv I m (\<lambda>_. True)"
  by (simp add: io_inv_def)

lemma filter_inner:
  assumes "filter Q xs = filter Q ys" and "\<And>x. P x \<Longrightarrow> Q x"
  shows "filter P xs = filter P ys"
proof -
  have inner: "filter P zs = filter P (filter Q zs)" for zs
    using assms(2) by (induction zs) auto
  show ?thesis unfolding inner [of xs] inner [of ys] assms(1) ..
qed

lemma filter_map_keeps:
  "(\<And>x. P (f x) = P x) \<Longrightarrow> (\<And>x. x \<in> set xs \<Longrightarrow> P x \<Longrightarrow> f x = x) \<Longrightarrow> filter P (map f xs) = filter P xs"
  by (induction xs) auto

section \<open>Rows of one owner\<close>

text \<open>
  \<open>scope_inv\<close>: no unique index is violated, every row is valid, and the rows outside the
  scope \<open>c\<close> are exactly \<open>others\<close>, in this order.
\<close>

definition scope_inv ::
  "('row \<Rightarrow> 'row \<Rightarrow> bool) \<Rightarrow> ('s \<Rightarrow> 'row list) \<Rightarrow> ('row \<Rightarrow> 'c) \<Rightarrow> ('row \<Rightarrow> bool) \<Rightarrow> 'c \<Rightarrow> 'row list \<Rightarrow>
   's \<Rightarrow> bool" where
  "scope_inv clash rows scope valid c others s \<longleftrightarrow>
     table_intact clash rows s \<and> (\<forall>r \<in> set (rows s). valid r) \<and>
     filter (\<lambda>r. scope r \<noteq> c) (rows s) = others"

lemma scope_inv_rows:
  "rows s' = rows s \<Longrightarrow> scope_inv clash rows scope valid c others s' = scope_inv clash rows scope valid c others s"
  by (simp add: scope_inv_def table_intact_def)

lemma scope_inv_start:
  "table_intact clash rows s \<Longrightarrow> \<forall>r \<in> set (rows s). valid r \<Longrightarrow>
     scope_inv clash rows scope valid c (filter (\<lambda>r. scope r \<noteq> c) (rows s)) s"
  by (simp add: scope_inv_def)

lemma scope_io_rows:
  assumes "\<And>s. rows (snd (m s)) = rows s" and "\<And>x s s'. m s = (Inr x, s') \<Longrightarrow> Q x"
  shows "io_inv (scope_inv clash rows scope valid c others) m Q"
  using assms scope_inv_rows [where rows = rows] unfolding io_inv_def by (metis prod.collapse)

text \<open>
  An owner's rows are untouched by calls in the scope of others: what one step in the scope
  \<open>c\<close> keeps fixed contains all rows of any \<open>d\<close> other than \<open>c\<close>.
\<close>

lemma scope_inv_others:
  assumes "scope_inv clash rows scope valid c (filter (\<lambda>r. scope r \<noteq> c) (rows s)) s'" and "c \<noteq> d"
  shows "filter (\<lambda>r. scope r = d) (rows s') = filter (\<lambda>r. scope r = d) (rows s)"
proof -
  have "filter (\<lambda>r. scope r = d) xs = filter (\<lambda>r. scope r = d) (filter (\<lambda>r. scope r \<noteq> c) xs)" for xs
    unfolding filter_filter using assms(2) by (intro filter_cong) auto
  then show ?thesis using assms(1) unfolding scope_inv_def by metis
qed

locale scoped_entity = gorm_entity +
  fixes scope :: "'b \<Rightarrow> 'owner" and valid :: "'b \<Rightarrow> bool"
  assumes scope_stamp: "scope (stamp t r) = scope r"
    and scope_assign: "scope (assign t cols new r) = scope r"
begin

abbreviation "sinv \<equiv> scope_inv clash rows scope valid"

lemma other_key:
  assumes "sinv c others s" and "k \<notin> rkey ` set others" and "r \<in> set (rows s)" and "rkey r = k"
  shows "scope r = c"
  using assms by (auto simp: scope_inv_def)

lemma find_inv:
  assumes "sinv c others s" and "find_row s k = Some r"
  shows "valid r" "rkey r = k" "r \<in> set (rows s)"
  using assms find_row_Some [OF assms(2)] by (auto simp: scope_inv_def)

lemma First_inv:
  "io_inv (sinv c others) (g_First db q) (\<lambda>r. valid r \<and> matches holds q r)"
  unfolding io_inv_def
proof (intro allI impI)
  fix s
  assume inv: "sinv c others s"
  show "sinv c others (snd (g_First db q s)) \<and>
      (\<forall>x. fst (g_First db q s) = Inr x \<longrightarrow> valid x \<and> matches holds q x)"
    by (cases rule: First_run [where s = s and q = q]) (use inv in \<open>auto simp: scope_inv_def\<close>)
qed

lemma get_inv:
  "io_inv (sinv c others)
     (bind_io (first_or db (keyq k) nf) (\<lambda>r. return_io (toD r)))
     (\<lambda>e. \<exists>r. e = toD r \<and> valid r \<and> rkey r = k)"
  unfolding first_or_def
  by (rule io_inv_bind [OF io_inv_map_err [OF First_inv]], rule io_inv_simps) (auto simp: keyq_matches)

lemma update_inv:
  assumes "\<And>t r. valid r \<Longrightarrow> rkey r = rkey (toE e) \<Longrightarrow> valid (assign t sel (toE e) r)"
    and other: "rkey (toE e) \<notin> rkey ` set others"
  shows "io_inv (sinv c others)
     (affected_or (g_Updates db (Select sel (keyq (rkey (toE e)))) (toE e)) nf) (\<lambda>_. True)"
  unfolding io_inv_def
proof (intro allI impI conjI TrueI)
  fix s
  assume inv: "sinv c others s"
  let ?q = "Select sel (keyq (rkey (toE e)))"
  let ?f = "\<lambda>r. if matches holds ?q r then assign (now s) (q_select ?q) (toE e) r else r"
  have sel: "q_select ?q = sel" by (simp add: Select_def)
  have m: "matches holds ?q r \<longleftrightarrow> rkey r = rkey (toE e)" for r by (rule matches_select)
  have "table_intact clash rows (snd (g_Updates db ?q (toE e) s)) \<and>
      (\<forall>r \<in> set (rows (snd (g_Updates db ?q (toE e) s))). valid r)"
    using inv assms(1) by (intro Updates_keeps) (auto simp: scope_inv_def sel m)
  moreover have "rows (snd (g_Updates db ?q (toE e) s)) \<in> {rows s, map ?f (rows s)}"
    using Updates_fits [where s = s and q = ?q and new = "toE e"]
      Updates_clash [where s = s and q = ?q and new = "toE e"] rows_set_rows
    by (cases "unclashing clash (map ?f (rows s))") auto
  moreover have "filter (\<lambda>r. scope r \<noteq> c) (map ?f (rows s)) = filter (\<lambda>r. scope r \<noteq> c) (rows s)"
    by (rule filter_map_keeps) (use other_key [OF inv other] in \<open>auto simp: m scope_assign\<close>)
  ultimately show "sinv c others (snd (affected_or (g_Updates db ?q (toE e)) nf s))"
    using inv by (auto simp: scope_inv_def)
qed

lemma create_inv:
  assumes "\<And>t. valid (stamp t (toE e))" and "scope (toE e) = c"
  shows "io_inv (sinv c others) (create_or db marks dupErr (toE e)) (\<lambda>_. True)"
  unfolding io_inv_def
proof (intro allI impI conjI TrueI)
  fix s
  assume inv: "sinv c others s"
  have "table_intact clash rows (snd (g_Create db (toE e) s)) \<and>
      (\<forall>r \<in> set (rows (snd (g_Create db (toE e) s))). valid r)"
    using inv assms(1) by (intro Create_keeps) (auto simp: scope_inv_def)
  moreover have "filter (\<lambda>r. scope r \<noteq> c) (rows (snd (g_Create db (toE e) s))) =
      filter (\<lambda>r. scope r \<noteq> c) (rows s)"
    using assms(2) Create_fits [of s "toE e"] Create_clash [of s "toE e"]
    by (cases "\<exists>r\<in>set (rows s). clash (toE e) r") (simp_all add: rows_set_rows scope_stamp)
  ultimately show "sinv c others (snd (create_or db marks dupErr (toE e) s))"
    using inv by (simp add: scope_inv_def)
qed

lemma delete_inv:
  assumes "k \<notin> rkey ` set others"
  shows "io_inv (sinv c others) (affected_or (g_Delete db (keyq k)) nf) (\<lambda>_. True)"
  unfolding io_inv_def
proof (intro allI impI conjI TrueI)
  fix s
  assume inv: "sinv c others s"
  have "filter (\<lambda>r. scope r \<noteq> c) (filter (\<lambda>r. \<not> matches holds (keyq k) r) (rows s)) =
      filter (\<lambda>r. scope r \<noteq> c) (rows s)"
    unfolding filter_filter
    by (rule filter_cong) (use other_key [OF inv assms] in \<open>auto simp: keyq_matches\<close>)
  then show "sinv c others (snd (affected_or (g_Delete db (keyq k)) nf s))"
    using inv Delete_keeps [of s valid "keyq k"]
    by (simp add: scope_inv_def Delete_matching rows_set_rows)
qed

end

end
