(* ===== verification/Part_World.thy ===== *)
theory Part_World
  imports Scoped_Store
begin

text \<open>
  Worlds that hold several tables: a table that lives in one part of a larger world, reached by
  a reader \<open>get\<close> and a writer \<open>put\<close> of that part; what the operations on one table leave alone
  in the rest of the world; and invariants that speak of two parts.
\<close>

section \<open>A part of a world\<close>

definition at_part :: "('w \<Rightarrow> 's) \<Rightarrow> ('s \<Rightarrow> 'w \<Rightarrow> 'w) \<Rightarrow> ('a, 's) io \<Rightarrow> ('a, 'w) io" where
  "at_part get put m = (\<lambda>w. case m (get w) of (r, s') \<Rightarrow> (r, put s' w))"

lemma at_part_run: "at_part get put m w = (fst (m (get w)), put (snd (m (get w))) w)"
  by (simp add: at_part_def split: prod.split)

definition gorm_part :: "('w \<Rightarrow> 's) \<Rightarrow> ('s \<Rightarrow> 'w \<Rightarrow> 'w) \<Rightarrow> ('s, 'row) gorm \<Rightarrow> ('w, 'row) gorm" where
  "gorm_part get put db =
     \<lparr>g_Create = (\<lambda>r. at_part get put (g_Create db r)),
      g_CreateAll = (\<lambda>rs. at_part get put (g_CreateAll db rs)),
      g_First = (\<lambda>q. at_part get put (g_First db q)), g_Find = (\<lambda>q. at_part get put (g_Find db q)),
      g_Count = (\<lambda>q. at_part get put (g_Count db q)),
      g_Updates = (\<lambda>q r. at_part get put (g_Updates db q r)),
      g_UpdateCols = (\<lambda>q c. at_part get put (g_UpdateCols db q c)),
      g_Delete = (\<lambda>q. at_part get put (g_Delete db q)),
      g_ScanCounts = (\<lambda>q. at_part get put (g_ScanCounts db q)),
      g_ScanSums = (\<lambda>q. at_part get put (g_ScanSums db q))\<rparr>"

definition set_part :: "('w \<Rightarrow> 's) \<Rightarrow> ('s \<Rightarrow> 'w \<Rightarrow> 'w) \<Rightarrow> ('x \<Rightarrow> 's \<Rightarrow> 's) \<Rightarrow> 'x \<Rightarrow> 'w \<Rightarrow> 'w" where
  "set_part get put set_rows xs w = put (set_rows xs (get w)) w"

lemma gorm_part_table:
  assumes get_put: "\<And>s w. get (put s w) = s" and put_get: "\<And>w. put (get w) w = w"
    and table: "gorm_table db rows set_rows holds clash now stamp assign assign_cols group_key order_key dup"
  shows "gorm_table (gorm_part get put db) (rows \<circ> get) (set_part get put set_rows) holds clash
           (now \<circ> get) stamp assign assign_cols group_key order_key dup"
proof -
  note t = gorm_table.rows_set_rows [OF table] gorm_table.set_rows_rows [OF table]
    gorm_table.Create_fits [OF table] gorm_table.Create_clash [OF table] gorm_table.First_none [OF table]
    gorm_table.Count_matching [OF table] gorm_table.Delete_matching [OF table]
  show ?thesis
  proof (unfold_locales, goal_cases)
    case (5 s q)
    then show ?case
      using gorm_table.First_some [OF table, of "get s" q]
      by (auto simp: gorm_part_def at_part_run put_get)
  next
    case (7 q s)
    show ?case using gorm_table.Find_page [OF table, of q "get s"]
      by (auto simp: gorm_part_def at_part_run put_get)
  next
    case (9 q s new)
    then obtain n where "g_Updates db q new (get s) = (Inr n, set_rows (map (\<lambda>r. if matches holds q r
          then assign (now (get s)) (q_select q) new r else r) (rows (get s))) (get s))"
        "int (length (filter (\<lambda>r. matches holds q r \<and> assign (now (get s)) (q_select q) new r \<noteq> r)
           (rows (get s)))) \<le> n"
        "n \<le> int (length (filter (matches holds q) (rows (get s))))"
      using gorm_table.Updates_fits [OF table, of q "get s" new] unfolding comp_def by blast
    then show ?case unfolding comp_def
      by (intro exI [of _ n]) (simp add: gorm_part_def at_part_run set_part_def)
  next
    case (11 q s cols)
    then obtain n where "g_UpdateCols db q cols (get s) = (Inr n, set_rows (map (\<lambda>r. if matches holds q r
          then assign_cols (now (get s)) cols r else r) (rows (get s))) (get s))"
        "int (length (filter (\<lambda>r. matches holds q r \<and> assign_cols (now (get s)) cols r \<noteq> r)
           (rows (get s)))) \<le> n"
        "n \<le> int (length (filter (matches holds q) (rows (get s))))"
      using gorm_table.UpdateCols_fits [OF table, of q "get s" cols] unfolding comp_def by blast
    then show ?case unfolding comp_def
      by (intro exI [of _ n]) (simp add: gorm_part_def at_part_run set_part_def)
  next
    case (13 q s)
    show ?case using gorm_table.ScanCounts_groups [OF table, of q "get s"]
      by (auto simp: gorm_part_def at_part_run put_get)
  next
    case (10 q s new)
    then have "g_Updates db q new (get s) = (Inl (Opaque dup), get s)"
      unfolding comp_def by (rule gorm_table.Updates_clash [OF table])
    then show ?case by (simp add: gorm_part_def at_part_run put_get)
  qed (simp_all add: gorm_part_def at_part_run set_part_def t get_put put_get)
qed

section \<open>The rest of the world\<close>

text \<open>What \<open>set_rows\<close> does not touch, no operation on the table touches.\<close>

context gorm_table
begin

lemma table_frame:
  assumes "\<And>xs s. f (set_rows xs s) = f s"
  shows "f (snd (g_Create db row s)) = f s" and "f (snd (g_First db q s)) = f s"
    and "f (snd (g_Find db q s)) = f s" and "f (snd (g_Count db q s)) = f s"
    and "f (snd (g_Updates db q row s)) = f s" and "f (snd (g_Delete db q s)) = f s"
proof -
  show "f (snd (g_Create db row s)) = f s"
    using Create_fits [of s row] Create_clash [of s row] assms
    by (cases "\<exists>r \<in> set (rows s). clash row r") simp_all
  show "f (snd (g_First db q s)) = f s"
    using First_some [of s q] First_none [of s q]
    by (cases "\<exists>r \<in> set (rows s). matches holds q r") auto
  show "f (snd (g_Find db q s)) = f s" using Find_page [of q s] by auto
  show "f (snd (g_Updates db q row s)) = f s"
    using Updates_fits [of q s row] Updates_clash [of q s row] assms
    by (cases "unclashing clash (map (\<lambda>r. if matches holds q r
        then assign (now s) (q_select q) row r else r) (rows s))") auto
qed (simp_all add: Count_matching Delete_matching assms)

end

lemma io_inv_conj:
  "io_inv I m P \<Longrightarrow> io_inv J m Q \<Longrightarrow> io_inv (\<lambda>s. I s \<and> J s) m (\<lambda>x. P x \<and> Q x)"
  by (auto simp: io_inv_def)

lemma io_inv_frame:
  "(\<And>s. f (snd (m s)) = f s) \<Longrightarrow> (\<And>s s'. f s = f s' \<Longrightarrow> I s = I s') \<Longrightarrow> io_inv I m (\<lambda>_. True)"
  unfolding io_inv_def by blast

end
