(* ===== verification/Sms_Props.thy ===== *)
theory Sms_Props
  imports Sms Part_World
begin

text \<open>
  The properties of the SMS RPCs over Redis. \<open>sms_world\<close> adds to \<open>redis_db\<close> that the clock, the
  random source, the gateway and the record table leave the Redis keys alone; \<open>sms_store\<close> adds
  the table of records and the list of messages handed to the gateway, which everything but the
  operations on them leaves alone.
\<close>

locale sms_world =
  redis_db rd kv set_kv
  for rd :: "'s sms_redis" and kv and set_kv +
  fixes env :: "'s go_env" and db :: "'s sms_gorm" and send :: "'s sms_gateway"
  assumes clock_kv: "kv (snd (time_Now env s)) = kv s"
    and uuid_kv: "kv (snd (uuid_New env s)) = kv s"
    and rand_kv: "kv (snd (rand_Int env n s)) = kv s"
    and create_kv: "kv (snd (g_Create db r s)) = kv s"
    and send_kv: "kv (snd (send ph c p s)) = kv s"
    and rand_range: "rand_Int env 10 s = (Inr d, s') \<Longrightarrow> 0 \<le> d \<and> d < 10"

locale sms_store =
  sms_world rd kv set_kv env db send +
  records: gorm_table db rows set_rows sms_record_holds sms_record_clash now sms_record_stamp
    sms_record_assign "\<lambda>t cols r. r" "\<lambda>c r. []" sms_record_order dup
  for rd :: "'s sms_redis" and kv and set_kv and env and db :: "'s sms_gorm" and send
    and rows and set_rows and now and dup +
  fixes sent :: "'s \<Rightarrow> CallRecord list"
  assumes clock_rows: "rows (snd (time_Now env s)) = rows s \<and> sent (snd (time_Now env s)) = sent s"
    and uuid_rows: "rows (snd (uuid_New env s)) = rows s \<and> sent (snd (uuid_New env s)) = sent s"
    and rand_rows: "rows (snd (rand_Int env n s)) = rows s \<and> sent (snd (rand_Int env n s)) = sent s"
    and redis_rows: "rows (set_kv m s) = rows s \<and> sent (set_kv m s) = sent s"
    and table_sent: "sent (set_rows xs s) = sent s"
    and send_rows: "rows (snd (send ph c p s)) = rows s \<and>
      sent (snd (send ph c p s)) = sent s @ [\<lparr>cr_Phone = ph, cr_Code = c, cr_Purpose = p\<rparr>]"

lemmas sms_defs =
  sms_server_def NewSmsService_def smsService_VerifyCode_def NewSmsRepository_def
  smsRepository_SaveCode_def smsRepository_SaveSendFailure_def smsRepository_VerifyAndConsume_def
  smsRepository_TryReserveRateLimit_def smsRepository_ReleaseRateLimit_def NewRedisSmsCache_def
  RedisSmsCache_VerifyAndConsume_def RedisSmsCache_TryReserveRateLimit_def
  RedisSmsCache_ReleaseRateLimit_def verifyAndConsumeScript_def NewSmsRecordDAO_def
  GORMSmsRecordDAO_Insert_def

lemma sms_codes [simp]:
  "toSmsGRPCError (sms ErrCodeNotFound) = StatusErr NotFound ''sms code not found''"
  "toSmsGRPCError (sms ErrCodeMismatch) = StatusErr Unauthenticated ''sms code mismatch''"
  "toSmsGRPCError (sms ErrPhoneRateLimit) =
     StatusErr ResourceExhausted ''phone rate limit exceeded''"
  "toSmsGRPCError (sms ErrInvalidPhone) = StatusErr InvalidArgument ''invalid phone number''"
  "toSmsGRPCError (sms ErrInvalidPurpose) = StatusErr InvalidArgument ''invalid sms purpose''"
  by (simp_all add: toSmsGRPCError_def smsErrorMappings_def)

lemma sms_unmapped: "toSmsGRPCError (Opaque m) = StatusErr Internal m"
  by (simp add: toSmsGRPCError_def smsErrorMappings_def)

text \<open>The keys of a phone never collide.\<close>

lemma sms_keys_distinct [simp]:
  "smsKey p q \<noteq> smsTokenKey p q" "smsTokenKey p q \<noteq> smsKey p q"
  "smsKey p q \<noteq> rateLimitKey p'" "smsTokenKey p q \<noteq> rateLimitKey p'"
  "rateLimitKey p' \<noteq> smsKey p q" "rateLimitKey p' \<noteq> smsTokenKey p q"
  by (simp_all add: smsKey_def smsTokenKey_def rateLimitKey_def)

lemma sms_cache_fields [simp]:
  "sca_Store (NewRedisSmsCache env rd) = RedisSmsCache_Store env rd"
  "sca_TryReserveRateLimit (NewRedisSmsCache env rd) = RedisSmsCache_TryReserveRateLimit rd"
  "sca_ReleaseRateLimit (NewRedisSmsCache env rd) = RedisSmsCache_ReleaseRateLimit rd"
  by (simp_all add: NewRedisSmsCache_def)

lemma proto_purpose:
  "purposeFromProto p = [] \<or> isValidPurpose (purposeFromProto p)"
  by (cases p) (simp_all add: isValidPurpose_def)

lemma digit_char: "0 \<le> d \<Longrightarrow> d < 10 \<Longrightarrow> is_digit (char_of (48 + d :: int))"
proof -
  assume "0 \<le> d" "d < 10"
  then have "d \<in> {0, 1, 2, 3, 4, 5, 6, 7, 8, 9}" by simp presburger
  then show ?thesis
    by (elim insertE) (simp_all add: is_digit_def char_of_def)
qed

context sms_world
begin

lemma generateCode_digits:
  "generateCode env n s = (Inr code, s') \<Longrightarrow>
     length code = n \<and> list_all is_digit code \<and> kv s' = kv s"
proof (induction n arbitrary: s code)
  case (Suc n)
  then obtain d s1 rest where "rand_Int env 10 s = (Inr d, s1)"
      "generateCode env n s1 = (Inr rest, s')" "code = char_of (48 + d) # rest"
    by (auto elim!: bind_io_InrD)
  then show ?case
    using Suc.IH rand_range rand_kv [of 10 s] by (auto intro: digit_char)
qed simp

lemma generateCode_total:
  "(\<And>s. \<exists>d. fst (rand_Int env 10 s) = Inr d) \<Longrightarrow>
     \<exists>code s'. generateCode env n s = (Inr code, s')"
proof (induction n arbitrary: s)
  case (Suc n)
  obtain d s1 where d: "rand_Int env 10 s = (Inr d, s1)" using Suc.prems by (metis prod.collapse)
  obtain code s' where "generateCode env n s1 = (Inr code, s')" using Suc by blast
  with d show ?case by (simp add: bind_io_run)
qed simp

lemma VerifyCode_run:
  "ss_VerifyCode (sms_server env db rd send)
     \<lparr>vcr_Phone = phone, vcr_Code = code, vcr_Purpose = purpose\<rparr> s =
     (case kv s (smsTokenKey phone purpose) of
        None \<Rightarrow> (Inl (sms ErrCodeNotFound), s)
      | Some t \<Rightarrow> (if t = RText code then Inr () else Inl (sms ErrCodeMismatch),
                   set_kv ((kv s)(smsTokenKey phone purpose := None)) s))"
  by (simp add: sms_defs bind_io_run commands split: option.split)

lemma SendCode_limited:
  "isValidPhone phone \<Longrightarrow> kv s (rateLimitKey phone) \<noteq> None \<Longrightarrow>
     ss_SendCode (sms_server env db rd send) \<lparr>scr_Phone = phone, scr_Purpose = purpose\<rparr> s =
       (Inl (sms ErrPhoneRateLimit), s)"
  by (auto simp: sms_defs smsService_SendCode_def bind_io_run commands)

end

text \<open>The reservation, the code and its send.\<close>

context sms_store
begin

lemma generateCode_rows:
  "rows (snd (generateCode env n s)) = rows s \<and> sent (snd (generateCode env n s)) = sent s"
proof (induction n arbitrary: s)
  case (Suc n)
  obtain r s1 where d: "rand_Int env 10 s = (r, s1)" by fastforce
  moreover obtain r' s2 where "generateCode env n s1 = (r', s2)" by fastforce
  ultimately show ?case
    using Suc.IH [of s1] rand_rows [of 10 s] by (auto simp: bind_io_run split: sum.split)
qed simp

lemma SendCode_reserved:
  assumes phone: "isValidPhone phone" and purpose: "isValidPurpose purpose"
    and free: "kv s (rateLimitKey phone) = None"
    and rand: "\<And>s. \<exists>d. fst (rand_Int env 10 s) = Inr d"
  shows "\<exists>code s1. length (sc_Code code) = 6 \<and> list_all is_digit (sc_Code code) \<and>
           sc_Phone code = phone \<and> sc_Purpose code = purpose \<and>
           kv s1 = (kv s)(rateLimitKey phone \<mapsto> RText ''1'') \<and> rows s1 = rows s \<and> sent s1 = sent s \<and>
           ss_SendCode (sms_server env db rd send) \<lparr>scr_Phone = phone, scr_Purpose = purpose\<rparr> s =
             try_io (send phone (sc_Code code) purpose) (\<lambda>sent.
               case sent of
                 Inl err \<Rightarrow>
                   bind_io (ignore_io (rd_DEL rd (rateLimitKey phone))) (\<lambda>_.
                   smsRepository_SaveSendFailure env (NewSmsRecordDAO db) phone purpose (error_text err))
               | Inr _ \<Rightarrow> smsRepository_SaveCode env (NewSmsRecordDAO db) (NewRedisSmsCache env rd) code) s1"
proof -
  let ?s0 = "set_kv ((kv s)(rateLimitKey phone \<mapsto> RText ''1'')) s"
  obtain c s1 where c: "generateCode env 6 ?s0 = (Inr c, s1)" using generateCode_total rand by blast
  obtain t s2 where t: "time_Now env s1 = (t, s2)" by (cases "time_Now env s1")
  obtain u s3 where u: "uuid_New env s2 = (u, s3)" by (cases "uuid_New env s2")
  define code where "code = \<lparr>sc_ID = u, sc_Phone = phone, sc_Code = c, sc_Purpose = purpose,
      sc_ExpiresAt = t + codeTTL, sc_Used = False, sc_CreatedAt = t\<rparr>"
  have cf: "sc_Phone code = phone" "sc_Purpose code = purpose" "code\<lparr>sc_ID := u\<rparr> = code"
    by (simp_all add: code_def)
  have "phone \<noteq> []" using phone by auto
  then have "NewSmsCode env phone purpose codeTTL ?s0 = (Inr (code\<lparr>sc_ID := []\<rparr>), s2)"
    using purpose c t by (simp add: NewSmsCode_def bind_io_run ask_io_run code_def)
  then have "ss_SendCode (sms_server env db rd send) \<lparr>scr_Phone = phone, scr_Purpose = purpose\<rparr> s =
      try_io (send phone (sc_Code code) purpose) (\<lambda>sent.
        case sent of
          Inl err \<Rightarrow>
            bind_io (ignore_io (rd_DEL rd (rateLimitKey phone))) (\<lambda>_.
            smsRepository_SaveSendFailure env (NewSmsRecordDAO db) phone purpose (error_text err))
        | Inr _ \<Rightarrow> smsRepository_SaveCode env (NewSmsRecordDAO db) (NewRedisSmsCache env rd) code) s3"
    using phone free u
    by (simp add: sms_server_def NewSmsService_def smsService_SendCode_def NewSmsRepository_def
        smsRepository_TryReserveRateLimit_def smsRepository_ReleaseRateLimit_def
        RedisSmsCache_TryReserveRateLimit_def RedisSmsCache_ReleaseRateLimit_def
        bind_io_run [of "rd_SETNX _ _ _ _"] commands try_io_run [of "NewSmsCode _ _ _ _"]
        bind_io_run [of "ask_io _"] ask_io_run Let_def cf)
  moreover have "kv s3 = (kv s)(rateLimitKey phone \<mapsto> RText ''1'')"
    using generateCode_digits [OF c] clock_kv [of s1] uuid_kv [of s2] t u by simp
  moreover have "rows s3 = rows s" "sent s3 = sent s"
    using generateCode_rows [of 6 ?s0] c clock_rows [of s1] uuid_rows [of s2] t u redis_rows by simp_all
  moreover have "length (sc_Code code) = 6 \<and> list_all is_digit (sc_Code code)"
    using generateCode_digits [OF c] by (simp add: code_def)
  ultimately show ?thesis by (intro exI [of _ code] exI [of _ s3]) (simp add: code_def)
qed

text \<open>A record goes in unless a row has its id.\<close>

lemma record_run:
  "\<exists>t s'. g_Create db row s =
     (if sr_ID row \<in> sr_ID ` set (rows s) then Inl (Opaque dup) else Inr (), s') \<and> kv s' = kv s \<and> sent s' = sent s \<and>
     rows s' = (if sr_ID row \<in> sr_ID ` set (rows s) then rows s else rows s @ [sms_record_stamp t row])"
proof (cases "\<exists>r \<in> set (rows s). sms_record_clash row r")
  case True
  then have "sr_ID row \<in> sr_ID ` set (rows s)" by (auto simp: sms_record_clash_def)
  with records.Create_clash [OF True] show ?thesis by simp
next
  case False
  then have "sr_ID row \<notin> sr_ID ` set (rows s)" by (auto simp: sms_record_clash_def)
  with records.Create_fits [OF False] create_kv [of row s] show ?thesis
    by (auto simp: records.rows_set_rows table_sent)
qed

lemma SaveCode_run:
  "\<exists>uid s1. (\<exists>s0. uid = fst (uuid_New env s0)) \<and> rows s1 = rows s \<and> sent s1 = sent s \<and>
     kv s1 = (kv s)(smsKey (sc_Phone code) (sc_Purpose code) \<mapsto> RJson code,
                    smsTokenKey (sc_Phone code) (sc_Purpose code) \<mapsto> RText (sc_Code code)) \<and>
     smsRepository_SaveCode env (NewSmsRecordDAO db) (NewRedisSmsCache env rd) code s =
       g_Create db \<lparr>sr_ID = uid, sr_Phone = sc_Phone code, sr_Purpose = sc_Purpose code,
         sr_Code = sc_Code code, sr_Status = ''success'', sr_ProviderErr = None, sr_CreatedAt = 0\<rparr> s1"
proof -
  let ?m = "(kv s)(smsKey (sc_Phone code) (sc_Purpose code) \<mapsto> RJson code,
                   smsTokenKey (sc_Phone code) (sc_Purpose code) \<mapsto> RText (sc_Code code))"
  obtain t s1 where t: "time_Now env s = (t, s1)" by (cases "time_Now env s")
  have k1: "kv s1 = kv s" "rows s1 = rows s" "sent s1 = sent s" using clock_kv [of s] clock_rows [of s] t by simp_all
  have st: "RedisSmsCache_Store env rd code s = (Inr (), set_kv ?m s1)"
    by (simp add: RedisSmsCache_Store_def bind_io_run ask_io_run t try_io_run commands Let_def k1)
  obtain u s2 where u: "uuid_New env (set_kv ?m s1) = (u, s2)" by (cases "uuid_New env (set_kv ?m s1)")
  have "kv s2 = ?m" "rows s2 = rows s" "sent s2 = sent s"
    using uuid_kv [of "set_kv ?m s1"] uuid_rows [of "set_kv ?m s1"] u redis_rows k1 by simp_all
  moreover have "\<exists>s0. u = fst (uuid_New env s0)" using u by (metis fst_conv)
  ultimately show ?thesis
    using st u by (intro exI [of _ u] exI [of _ s2])
      (auto simp: smsRepository_SaveCode_def NewRedisSmsCache_def bind_io_run ask_io_run
        NewSmsRecordDAO_def GORMSmsRecordDAO_Insert_def)
qed

lemma SaveSendFailure_run:
  "\<exists>uid s1. (\<exists>s0. uid = fst (uuid_New env s0)) \<and> rows s1 = rows s \<and> sent s1 = sent s \<and>
     kv s1 = (kv s)(rateLimitKey phone := None) \<and>
     bind_io (ignore_io (rd_DEL rd (rateLimitKey phone))) (\<lambda>_.
       smsRepository_SaveSendFailure env (NewSmsRecordDAO db) phone purpose reason) s =
     g_Create db \<lparr>sr_ID = uid, sr_Phone = phone, sr_Purpose = purpose, sr_Code = [],
       sr_Status = ''failed'', sr_ProviderErr = Some reason, sr_CreatedAt = 0\<rparr> s1"
proof -
  let ?s = "set_kv ((kv s)(rateLimitKey phone := None)) s"
  obtain u s1 where u: "uuid_New env ?s = (u, s1)" by (cases "uuid_New env ?s")
  have "kv s1 = kv ?s" "rows s1 = rows s" "sent s1 = sent s" using uuid_kv [of ?s] uuid_rows [of ?s] u redis_rows by simp_all
  moreover have "\<exists>s0. u = fst (uuid_New env s0)" using u by (metis fst_conv)
  ultimately show ?thesis
    using u by (intro exI [of _ u] exI [of _ s1])
      (auto simp: smsRepository_SaveSendFailure_def NewSmsRecordDAO_def GORMSmsRecordDAO_Insert_def
        bind_io_run ask_io_run ignore_io_run commands)
qed

end

section \<open>A world to run in\<close>

type_synonym sms_ref = "(string \<Rightarrow> sms_code redis_val option) \<times> (sms_record list \<times> int) \<times> CallRecord list"

definition sms_ref_env :: "sms_ref go_env" where
  "sms_ref_env =
     \<lparr>time_Now = (\<lambda>s. (0, s)), uuid_New = (\<lambda>s. (''u1'', s)),
      bcrypt_Generate = (\<lambda>pw s. (Inr pw, s)), bcrypt_Compare = (=),
      rand_Int = (\<lambda>n s. (Inr (7 mod n), s))\<rparr>"

definition sms_ref_redis :: "sms_ref sms_redis" where
  "sms_ref_redis = ref_redis fst (\<lambda>m s. (m, snd s))"

definition sms_ref_put :: "sms_record list \<times> int \<Rightarrow> sms_ref \<Rightarrow> sms_ref" where
  "sms_ref_put t s = (fst s, t, snd (snd s))"

definition sms_ref_gorm :: "sms_ref sms_gorm" where
  "sms_ref_gorm = gorm_part (fst \<circ> snd) sms_ref_put
     (ref_gorm sms_record_holds sms_record_clash sms_record_stamp sms_record_assign
        (\<lambda>t cols r. r) (\<lambda>c r. []) sms_record_order (\<lambda>cols r. []) ''dup'')"

definition sms_ref_send :: "go_error + unit \<Rightarrow> sms_ref sms_gateway" where
  "sms_ref_send r = (\<lambda>ph c p (m, t, cs). (r, (m, t, cs @ [\<lparr>cr_Phone = ph, cr_Code = c, cr_Purpose = p\<rparr>])))"

lemma sms_ref_world:
  "sms_world sms_ref_redis fst (\<lambda>m s. (m, snd s)) sms_ref_env sms_ref_gorm (sms_ref_send r)"
  unfolding sms_world_def sms_world_axioms_def sms_ref_redis_def
  by (auto simp: sms_ref_env_def sms_ref_gorm_def sms_ref_send_def gorm_part_def at_part_run
      sms_ref_put_def split: prod.split intro: ref_redis_db)

interpretation sms_ref: sms_store sms_ref_redis fst "\<lambda>m s. (m, snd s)" sms_ref_env sms_ref_gorm
  "sms_ref_send r" "fst \<circ> (fst \<circ> snd)" "set_part (fst \<circ> snd) sms_ref_put ref_set"
  "snd \<circ> (fst \<circ> snd)" "''dup''" "snd \<circ> snd" for r
proof -
  have "gorm_table sms_ref_gorm (fst \<circ> (fst \<circ> snd)) (set_part (fst \<circ> snd) sms_ref_put ref_set)
      sms_record_holds sms_record_clash (snd \<circ> (fst \<circ> snd)) sms_record_stamp sms_record_assign (\<lambda>t cols r. r) (\<lambda>c r. []) sms_record_order ''dup''"
    unfolding sms_ref_gorm_def by (rule gorm_part_table [OF _ _ ref_gorm_table]) (simp_all add: sms_ref_put_def)
  then show "sms_store sms_ref_redis fst (\<lambda>m s. (m, snd s)) sms_ref_env sms_ref_gorm (sms_ref_send r)
      (fst \<circ> (fst \<circ> snd)) (set_part (fst \<circ> snd) sms_ref_put ref_set) (snd \<circ> (fst \<circ> snd)) ''dup'' (snd \<circ> snd)"
    unfolding sms_store_def sms_store_axioms_def using sms_ref_world
    by (auto simp: sms_ref_env_def sms_ref_send_def set_part_def sms_ref_put_def split: prod.split)
qed

lemma sms_ref_answers:
  "\<exists>d. fst (rand_Int sms_ref_env 10 s) = Inr d"
  "fst (sms_ref_send r ph c p s) = r"
  by (auto simp: sms_ref_env_def sms_ref_send_def split: prod.split)

section \<open>The properties\<close>

text \<open>
  C14: an SMS code can be verified once. VerifyCode answers InvalidArgument for an unspecified or
  unknown purpose and then touches nothing. Otherwise it answers NotFound when no code is stored
  for the phone and purpose, Unauthenticated for another code and success for the stored one;
  after any attempt, right or wrong, the code is gone and every other key is as it was, so a
  second attempt answers NotFound whatever it sends.
\<close>

theorem verify_code_single_use:
  assumes "sms_world rd kv set_kv env db send"
  shows "let verify = (\<lambda>code. SmsGRPCServer_VerifyCode (sms_server env db rd send)
               \<lparr>pvc_Phone = phone, pvc_Code = code, pvc_Purpose = purpose\<rparr>);
             key = smsTokenKey phone (purposeFromProto purpose)
         in if purposeFromProto purpose = []
            then verify code s = (Inl (StatusErr InvalidArgument ''invalid sms purpose''), s)
            else \<exists>s'. verify code s =
                  (case kv s key of
                     None \<Rightarrow> Inl (StatusErr NotFound ''sms code not found'')
                   | Some token \<Rightarrow> if token = RText code then Inr ()
                                   else Inl (StatusErr Unauthenticated ''sms code mismatch''), s') \<and>
                 kv s' = (kv s)(key := None) \<and>
                 verify again s' = (Inl (StatusErr NotFound ''sms code not found''), s')"
proof -
  note run = sms_world.VerifyCode_run [OF assms(1)]
  note kv_set = redis_db.kv_set [OF sms_world.axioms(1) [OF assms(1)]]
  show ?thesis
    by (cases "kv s (smsTokenKey phone (purposeFromProto purpose))")
      (auto simp: SmsGRPCServer_VerifyCode_def run kv_set grpc_reply_run Let_def)
qed

lemma verify_code_single_use_witness:
  "SmsGRPCServer_VerifyCode (sms_server sms_ref_env sms_ref_gorm sms_ref_redis (sms_ref_send (Inr ())))
     \<lparr>pvc_Phone = ''13800000000'', pvc_Code = ''123456'', pvc_Purpose = SMS_PURPOSE_LOGIN\<rparr>
     ([smsTokenKey ''13800000000'' ''login'' \<mapsto> RText ''123456''], ([], 0), []) = (Inr (), (Map.empty, ([], 0), []))"
  using verify_code_single_use [OF sms_ref_world [where r = "Inr ()"], where purpose = SMS_PURPOSE_LOGIN and phone = "''13800000000''"
      and s = "([smsTokenKey ''13800000000'' ''login'' \<mapsto> RText ''123456''], ([], 0), [])"]
  by (auto simp: SmsGRPCServer_VerifyCode_def grpc_reply_run sms_ref.VerifyCode_run Let_def)

text \<open>
  C28: SendCode refuses, in this order and without touching anything, an unspecified or unknown
  purpose and an invalid phone number with InvalidArgument, and a phone number whose rate key
  is still there with ResourceExhausted.
\<close>

theorem send_code_refusals:
  assumes "sms_world rd kv set_kv env db send"
    and "purposeFromProto purpose = [] \<or> \<not> isValidPhone phone \<or> kv s (rateLimitKey phone) \<noteq> None"
  shows "SmsGRPCServer_SendCode (sms_server env db rd send)
           \<lparr>psc_Phone = phone, psc_Purpose = purpose\<rparr> s =
         (Inl (if purposeFromProto purpose = []
               then StatusErr InvalidArgument ''invalid sms purpose''
               else if \<not> isValidPhone phone then StatusErr InvalidArgument ''invalid phone number''
               else StatusErr ResourceExhausted ''phone rate limit exceeded''), s)"
proof -
  have "\<not> isValidPhone phone \<Longrightarrow> ss_SendCode (sms_server env db rd send)
      \<lparr>scr_Phone = phone, scr_Purpose = purposeFromProto purpose\<rparr> s = (Inl (sms ErrInvalidPhone), s)"
    by (simp add: sms_server_def NewSmsService_def smsService_SendCode_def)
  then show ?thesis
    using assms(2) sms_world.SendCode_limited [OF assms(1), of phone s]
    by (auto simp: SmsGRPCServer_SendCode_def grpc_reply_run Let_def)
qed

lemma send_code_refusals_witness:
  "SmsGRPCServer_SendCode (sms_server sms_ref_env sms_ref_gorm sms_ref_redis (sms_ref_send (Inr ())))
     \<lparr>psc_Phone = ''13800000000'', psc_Purpose = SMS_PURPOSE_LOGIN\<rparr>
     ([rateLimitKey ''13800000000'' \<mapsto> RText ''1''], ([], 0), []) =
   (Inl (StatusErr ResourceExhausted ''phone rate limit exceeded''),
    ([rateLimitKey ''13800000000'' \<mapsto> RText ''1''], ([], 0), []))"
  using send_code_refusals [OF sms_ref_world, of SMS_PURPOSE_LOGIN "''13800000000''"
      "([rateLimitKey ''13800000000'' \<mapsto> RText ''1''], ([], 0), [])" "Inr ()"]
  by (simp add: is_digit_def)

text \<open>
  C29: a code that was sent verifies. When the random source and the gateway answer, SendCode for
  a phone that is not limited draws a code of six digits, sends it, stores it in Redis and then
  inserts a record of it under a new uuid; it touches only the three keys of the phone and
  purpose. It succeeds unless a record already has that uuid; then it answers Internal, although
  the code is stored and was sent. Either way every further SendCode to the phone is limited, and
  of all attempts VerifyCode accepts exactly the code that was sent.
\<close>

theorem send_then_verify:
  assumes "sms_store rd kv set_kv env db send rows set_rows now dup sent"
    and "purposeFromProto purpose \<noteq> []" and "isValidPhone phone" and "kv s (rateLimitKey phone) = None"
    and "\<And>s. \<exists>d. fst (rand_Int env 10 s) = Inr d" and "\<And>ph c p s. fst (send ph c p s) = Inr ()"
  shows "\<exists>code uid s1. length code = 6 \<and> list_all is_digit code \<and> (\<exists>s0. uid = fst (uuid_New env s0)) \<and>
           SmsGRPCServer_SendCode (sms_server env db rd send)
             \<lparr>psc_Phone = phone, psc_Purpose = purpose\<rparr> s =
             (if uid \<in> sr_ID ` set (rows s) then Inl (StatusErr Internal dup) else Inr (), s1) \<and>
           sent s1 = sent s @ [\<lparr>cr_Phone = phone, cr_Code = code, cr_Purpose = purposeFromProto purpose\<rparr>] \<and>
           (\<exists>t. rows s1 = (if uid \<in> sr_ID ` set (rows s) then rows s
              else rows s @ [sms_record_stamp t \<lparr>sr_ID = uid, sr_Phone = phone,
                sr_Purpose = purposeFromProto purpose, sr_Code = code, sr_Status = ''success'',
                sr_ProviderErr = None, sr_CreatedAt = 0\<rparr>])) \<and>
           (\<forall>k. k \<notin> {rateLimitKey phone, smsKey phone (purposeFromProto purpose),
                     smsTokenKey phone (purposeFromProto purpose)} \<longrightarrow> kv s1 k = kv s k) \<and>
           (\<forall>any. SmsGRPCServer_SendCode (sms_server env db rd send)
             \<lparr>psc_Phone = phone, psc_Purpose = any\<rparr> s1 =
             (if purposeFromProto any = [] then Inl (StatusErr InvalidArgument ''invalid sms purpose'')
              else Inl (StatusErr ResourceExhausted ''phone rate limit exceeded''), s1)) \<and>
           (\<forall>attempt. fst (SmsGRPCServer_VerifyCode (sms_server env db rd send)
             \<lparr>pvc_Phone = phone, pvc_Code = attempt, pvc_Purpose = purpose\<rparr> s1) =
             (if attempt = code then Inr () else Inl (StatusErr Unauthenticated ''sms code mismatch'')))"
proof -
  let ?p = "purposeFromProto purpose"
  note world = sms_store.axioms(1) [OF assms(1)]
  have "isValidPurpose ?p" using proto_purpose assms(2) by blast
  then obtain code s2 where code: "length (sc_Code code) = 6" "list_all is_digit (sc_Code code)"
      "sc_Phone code = phone" "sc_Purpose code = ?p"
      and s2: "kv s2 = (kv s)(rateLimitKey phone \<mapsto> RText ''1'')" "rows s2 = rows s" "sent s2 = sent s"
      and run: "ss_SendCode (sms_server env db rd send) \<lparr>scr_Phone = phone, scr_Purpose = ?p\<rparr> s =
             try_io (send phone (sc_Code code) ?p) (\<lambda>sent.
               case sent of
                 Inl err \<Rightarrow>
                   bind_io (ignore_io (rd_DEL rd (rateLimitKey phone))) (\<lambda>_.
                   smsRepository_SaveSendFailure env (NewSmsRecordDAO db) phone ?p (error_text err))
               | Inr _ \<Rightarrow> smsRepository_SaveCode env (NewSmsRecordDAO db) (NewRedisSmsCache env rd) code) s2"
    using sms_store.SendCode_reserved [OF assms(1,3) _ assms(4,5)] by blast
  obtain s3 where s3: "send phone (sc_Code code) ?p s2 = (Inr (), s3)"
    using assms(6) by (metis prod.collapse)
  have "kv s3 = kv s2" "rows s3 = rows s2"
      "sent s3 = sent s2 @ [\<lparr>cr_Phone = phone, cr_Code = sc_Code code, cr_Purpose = ?p\<rparr>]"
    using sms_world.send_kv [OF world] sms_store.send_rows [OF assms(1)] s3 by (metis snd_conv)+
  with s2 obtain uid s4 where uid: "\<exists>s0. uid = fst (uuid_New env s0)" and s4: "rows s4 = rows s"
      "sent s4 = sent s @ [\<lparr>cr_Phone = phone, cr_Code = sc_Code code, cr_Purpose = ?p\<rparr>]"
      "kv s4 = (kv s)(rateLimitKey phone \<mapsto> RText ''1'', smsKey phone ?p \<mapsto> RJson code,
                     smsTokenKey phone ?p \<mapsto> RText (sc_Code code))"
    and save: "smsRepository_SaveCode env (NewSmsRecordDAO db) (NewRedisSmsCache env rd) code s3 =
       g_Create db \<lparr>sr_ID = uid, sr_Phone = phone, sr_Purpose = ?p, sr_Code = sc_Code code,
         sr_Status = ''success'', sr_ProviderErr = None, sr_CreatedAt = 0\<rparr> s4"
    using sms_store.SaveCode_run [OF assms(1), of s3 code] unfolding code(3,4) by metis
  obtain t s1 where create: "g_Create db \<lparr>sr_ID = uid, sr_Phone = phone, sr_Purpose = ?p, sr_Code = sc_Code code,
         sr_Status = ''success'', sr_ProviderErr = None, sr_CreatedAt = 0\<rparr> s4 =
       (if uid \<in> sr_ID ` set (rows s) then Inl (Opaque dup) else Inr (), s1)"
    and s1: "kv s1 = kv s4" "sent s1 = sent s4"
      "rows s1 = (if uid \<in> sr_ID ` set (rows s) then rows s else rows s @ [sms_record_stamp t
         \<lparr>sr_ID = uid, sr_Phone = phone, sr_Purpose = ?p, sr_Code = sc_Code code,
          sr_Status = ''success'', sr_ProviderErr = None, sr_CreatedAt = 0\<rparr>])"
    using sms_store.record_run [OF assms(1), of _ s4] unfolding s4(1)
    by (metis (no_types, lifting) sms_record.select_convs(1))
  have send: "SmsGRPCServer_SendCode (sms_server env db rd send)
      \<lparr>psc_Phone = phone, psc_Purpose = purpose\<rparr> s =
      (if uid \<in> sr_ID ` set (rows s) then Inl (StatusErr Internal dup) else Inr (), s1)"
    using run s3 save create assms(2)
    by (simp add: SmsGRPCServer_SendCode_def grpc_reply_run try_io_run Let_def sms_unmapped)
  have limited: "kv s1 (rateLimitKey phone) \<noteq> None" using s1 s4 by simp
  show ?thesis
    by (rule exI [of _ "sc_Code code"], rule exI [of _ uid], rule exI [of _ s1],
        intro conjI code(1,2) uid send exI [of _ t] s1(3) s1(2) [unfolded s4(2)])
      (auto simp: s1(1) s4(3) SmsGRPCServer_SendCode_def SmsGRPCServer_VerifyCode_def grpc_reply_run Let_def
        sms_world.SendCode_limited [OF world assms(3) limited] sms_world.VerifyCode_run [OF world] assms(2))
qed

lemma send_then_verify_witness:
  "fst (SmsGRPCServer_SendCode (sms_server sms_ref_env sms_ref_gorm sms_ref_redis (sms_ref_send (Inr ())))
     \<lparr>psc_Phone = ''13800000000'', psc_Purpose = SMS_PURPOSE_LOGIN\<rparr> (Map.empty, ([], 0), [])) = Inr ()"
  using send_then_verify [OF sms_ref.sms_store_axioms _ _ _ sms_ref_answers(1) sms_ref_answers(2),
      of SMS_PURPOSE_LOGIN "''13800000000''" "(Map.empty, ([], 0), [])"]
  by (simp add: is_digit_def) (metis fst_conv)

text \<open>
  C30: a gateway that fails leaves no trace in Redis: the reservation is given back and no code is
  stored. The failure is recorded under a new uuid with the gateway's error text, and SendCode
  answers what the insertion of that record answers: success, unless a record already has the
  uuid. So the caller does not learn that nothing was sent.
\<close>

theorem failed_send:
  assumes "sms_store rd kv set_kv env db send rows set_rows now dup sent"
    and "purposeFromProto purpose \<noteq> []" and "isValidPhone phone" and "kv s (rateLimitKey phone) = None"
    and "\<And>s. \<exists>d. fst (rand_Int env 10 s) = Inr d" and "\<And>ph c p s. fst (send ph c p s) = Inl err"
  shows "\<exists>uid s1. (\<exists>s0. uid = fst (uuid_New env s0)) \<and>
           SmsGRPCServer_SendCode (sms_server env db rd send)
             \<lparr>psc_Phone = phone, psc_Purpose = purpose\<rparr> s =
             (if uid \<in> sr_ID ` set (rows s) then Inl (StatusErr Internal dup) else Inr (), s1) \<and>
           kv s1 = kv s \<and> (\<exists>code. sent s1 = sent s @
             [\<lparr>cr_Phone = phone, cr_Code = code, cr_Purpose = purposeFromProto purpose\<rparr>]) \<and>
           (\<exists>t. rows s1 = (if uid \<in> sr_ID ` set (rows s) then rows s
              else rows s @ [sms_record_stamp t \<lparr>sr_ID = uid, sr_Phone = phone,
                sr_Purpose = purposeFromProto purpose, sr_Code = [], sr_Status = ''failed'',
                sr_ProviderErr = Some (error_text err), sr_CreatedAt = 0\<rparr>]))"
proof -
  let ?p = "purposeFromProto purpose"
  note world = sms_store.axioms(1) [OF assms(1)]
  have "isValidPurpose ?p" using proto_purpose assms(2) by blast
  then obtain code s2 where s2: "kv s2 = (kv s)(rateLimitKey phone \<mapsto> RText ''1'')" "rows s2 = rows s" "sent s2 = sent s"
      and run: "ss_SendCode (sms_server env db rd send) \<lparr>scr_Phone = phone, scr_Purpose = ?p\<rparr> s =
             try_io (send phone (sc_Code code) ?p) (\<lambda>sent.
               case sent of
                 Inl err \<Rightarrow>
                   bind_io (ignore_io (rd_DEL rd (rateLimitKey phone))) (\<lambda>_.
                   smsRepository_SaveSendFailure env (NewSmsRecordDAO db) phone ?p (error_text err))
               | Inr _ \<Rightarrow> smsRepository_SaveCode env (NewSmsRecordDAO db) (NewRedisSmsCache env rd) code) s2"
    using sms_store.SendCode_reserved [OF assms(1,3) _ assms(4,5)] by blast
  obtain s3 where s3: "send phone (sc_Code code) ?p s2 = (Inl err, s3)"
    using assms(6) by (metis prod.collapse)
  have "kv s3 = kv s2" "rows s3 = rows s2"
      "sent s3 = sent s2 @ [\<lparr>cr_Phone = phone, cr_Code = sc_Code code, cr_Purpose = ?p\<rparr>]"
    using sms_world.send_kv [OF world] sms_store.send_rows [OF assms(1)] s3 by (metis snd_conv)+
  with s2 obtain uid s4 where uid: "\<exists>s0. uid = fst (uuid_New env s0)" and s4: "rows s4 = rows s"
      "sent s4 = sent s @ [\<lparr>cr_Phone = phone, cr_Code = sc_Code code, cr_Purpose = ?p\<rparr>]"
      "kv s4 = (kv s)(rateLimitKey phone := None)"
    and fail: "bind_io (ignore_io (rd_DEL rd (rateLimitKey phone))) (\<lambda>_.
        smsRepository_SaveSendFailure env (NewSmsRecordDAO db) phone ?p (error_text err)) s3 =
        g_Create db \<lparr>sr_ID = uid, sr_Phone = phone, sr_Purpose = ?p, sr_Code = [], sr_Status = ''failed'',
          sr_ProviderErr = Some (error_text err), sr_CreatedAt = 0\<rparr> s4"
    using sms_store.SaveSendFailure_run [OF assms(1), where s = s3 and phone = phone and purpose = ?p
        and reason = "error_text err"] by (metis fun_upd_upd)
  obtain t s1 where create: "g_Create db \<lparr>sr_ID = uid, sr_Phone = phone, sr_Purpose = ?p, sr_Code = [],
         sr_Status = ''failed'', sr_ProviderErr = Some (error_text err), sr_CreatedAt = 0\<rparr> s4 =
       (if uid \<in> sr_ID ` set (rows s) then Inl (Opaque dup) else Inr (), s1)"
    and s1: "kv s1 = kv s4" "sent s1 = sent s4"
      "rows s1 = (if uid \<in> sr_ID ` set (rows s) then rows s else rows s @ [sms_record_stamp t
         \<lparr>sr_ID = uid, sr_Phone = phone, sr_Purpose = ?p, sr_Code = [], sr_Status = ''failed'',
          sr_ProviderErr = Some (error_text err), sr_CreatedAt = 0\<rparr>])"
    using sms_store.record_run [OF assms(1), of _ s4] unfolding s4(1)
    by (metis (no_types, lifting) sms_record.select_convs(1))
  have "kv s1 = kv s" using s1(1) s4(3) assms(4) by auto
  moreover have "SmsGRPCServer_SendCode (sms_server env db rd send)
      \<lparr>psc_Phone = phone, psc_Purpose = purpose\<rparr> s =
      (if uid \<in> sr_ID ` set (rows s) then Inl (StatusErr Internal dup) else Inr (), s1)"
    using run s3 fail create assms(2)
    by (simp add: SmsGRPCServer_SendCode_def grpc_reply_run try_io_run Let_def sms_unmapped)
  ultimately show ?thesis using uid s1(3) s1(2) [unfolded s4(2)] by blast
qed

lemma failed_send_witness:
  "fst (SmsGRPCServer_SendCode
     (sms_server sms_ref_env sms_ref_gorm sms_ref_redis (sms_ref_send (Inl (Opaque ''timeout''))))
     \<lparr>psc_Phone = ''13800000000'', psc_Purpose = SMS_PURPOSE_LOGIN\<rparr> (Map.empty, ([], 0), [])) = Inr ()"
  using failed_send [OF sms_ref.sms_store_axioms _ _ _ sms_ref_answers(1) sms_ref_answers(2),
      of SMS_PURPOSE_LOGIN "''13800000000''" "(Map.empty, ([], 0), [])" "Opaque ''timeout''"]
  by (auto simp: is_digit_def)

end
