(* ===== verification/User_Store.thy ===== *)
theory User_Store
  imports Entity_Store Grpc_Util
begin

text \<open>
  Users: the domain entity (\<open>domain/user.go\<close>), the GORM DAO (\<open>repository/dao/user.go\<close>) and
  the repository (\<open>repository/user_repo.go\<close>). Usernames are unique within a tenant and phone
  numbers everywhere, where MySQL lets rows with a NULL tenant or phone stand side by side.
\<close>

section \<open>Domain\<close>

definition RolePlatformAdmin :: string where [simp]: "RolePlatformAdmin = ''platform_admin''"
definition RoleTenantAdmin :: string where [simp]: "RoleTenantAdmin = ''tenant_admin''"
definition RoleOperator :: string where [simp]: "RoleOperator = ''operator''"

definition UserStatusActive :: string where [simp]: "UserStatusActive = ''active''"
definition UserStatusFrozen :: string where [simp]: "UserStatusFrozen = ''frozen''"

record user =
  u_ID :: string
  u_TenantID :: "string option"
  u_Username :: string
  u_Email :: "string option"
  u_Phone :: "string option"
  u_PasswordHash :: string
  u_RealName :: string
  u_Role :: string
  u_Status :: string
  u_LastLoginAt :: "int option"
  u_CreatedAt :: int
  u_UpdatedAt :: int

definition NewUser :: "string \<Rightarrow> string \<Rightarrow> string \<Rightarrow> string \<Rightarrow> string option \<Rightarrow> user" where
  "NewUser username passwordHash realName role tenantID =
     \<lparr>u_ID = [], u_TenantID = tenantID, u_Username = username, u_Email = None, u_Phone = None,
      u_PasswordHash = passwordHash, u_RealName = realName, u_Role = role,
      u_Status = UserStatusActive, u_LastLoginAt = None, u_CreatedAt = time_zero,
      u_UpdatedAt = time_zero\<rparr>"

definition User_IsActive :: "user \<Rightarrow> bool" where
  "User_IsActive u = (u_Status u = UserStatusActive)"

definition User_IsPlatformAdmin :: "user \<Rightarrow> bool" where
  "User_IsPlatformAdmin u = (u_Role u = RolePlatformAdmin)"

definition User_Freeze :: "user \<Rightarrow> go_error + user" where
  "User_Freeze u =
     (if u_Status u \<noteq> UserStatusActive then Inl (ident ErrUserInvalidStatus)
      else Inr (u\<lparr>u_Status := UserStatusFrozen\<rparr>))"

definition User_Unfreeze :: "user \<Rightarrow> go_error + user" where
  "User_Unfreeze u =
     (if u_Status u \<noteq> UserStatusFrozen then Inl (ident ErrUserInvalidStatus)
      else Inr (u\<lparr>u_Status := UserStatusActive\<rparr>))"

section \<open>DAO\<close>

record user_row =
  ur_ID :: string
  ur_TenantID :: "string option"
  ur_Username :: string
  ur_Email :: "string option"
  ur_Phone :: "string option"
  ur_PasswordHash :: string
  ur_RealName :: string
  ur_Role :: string
  ur_Status :: string
  ur_LastLoginAt :: "int option"
  ur_CreatedAt :: int
  ur_UpdatedAt :: int

record user_filter =
  uf_TenantID :: string
  uf_Role :: string
  uf_Status :: string
  uf_Keyword :: string

record 's user_dao =
  ud_Insert :: "user_row \<Rightarrow> (unit, 's) io"
  ud_FindByID :: "string \<Rightarrow> (user_row, 's) io"
  ud_FindByUsername :: "string \<Rightarrow> (user_row, 's) io"
  ud_FindByPhone :: "string \<Rightarrow> (user_row, 's) io"
  ud_FindAll :: "user_filter \<Rightarrow> int \<Rightarrow> int \<Rightarrow> (user_row list \<times> int, 's) io"
  ud_Update :: "user_row \<Rightarrow> (unit, 's) io"
  ud_BatchInsert :: "user_row list \<Rightarrow> (unit, 's) io"

type_synonym 's user_gorm = "('s, user_row) gorm"

definition GORMUserDAO_Insert :: "'s user_gorm \<Rightarrow> user_row \<Rightarrow> (unit, 's) io" where
  "GORMUserDAO_Insert db user =
     create_or db [''duplicate'', ''UNIQUE''] (ident ErrUserAlreadyExists) user"

definition GORMUserDAO_FindByID :: "'s user_gorm \<Rightarrow> string \<Rightarrow> (user_row, 's) io" where
  "GORMUserDAO_FindByID db userID =
     first_or db (Where ''id = ?'' [SqlStr userID] Model) (ident ErrUserNotFound)"

definition GORMUserDAO_FindByUsername :: "'s user_gorm \<Rightarrow> string \<Rightarrow> (user_row, 's) io" where
  "GORMUserDAO_FindByUsername db username =
     first_or db (Where ''username = ?'' [SqlStr username] Model) (ident ErrUserNotFound)"

definition GORMUserDAO_FindByPhone :: "'s user_gorm \<Rightarrow> string \<Rightarrow> (user_row, 's) io" where
  "GORMUserDAO_FindByPhone db phone =
     first_or db (Where ''phone = ?'' [SqlStr phone] Model) (ident ErrUserNotFound)"

definition user_query :: "user_filter \<Rightarrow> gquery" where
  "user_query f =
     (let like = like_pattern (uf_Keyword f) in
      Where_if (uf_Keyword f \<noteq> [])
        ''username LIKE ? OR real_name LIKE ? OR email LIKE ?'' [like, like, like]
      (Where_if (uf_Status f \<noteq> []) ''status = ?'' [SqlStr (uf_Status f)]
      (Where_if (uf_Role f \<noteq> []) ''role = ?'' [SqlStr (uf_Role f)]
      (Where_if (uf_TenantID f \<noteq> []) ''tenant_id = ?'' [SqlStr (uf_TenantID f)] Model))))"

definition GORMUserDAO_FindAll ::
  "'s user_gorm \<Rightarrow> user_filter \<Rightarrow> int \<Rightarrow> int \<Rightarrow> (user_row list \<times> int, 's) io" where
  "GORMUserDAO_FindAll db f page pageSize = count_and_page db (user_query f) page pageSize"

definition GORMUserDAO_Update :: "'s user_gorm \<Rightarrow> user_row \<Rightarrow> (unit, 's) io" where
  "GORMUserDAO_Update db user =
     affected_or (g_Updates db (Where ''id = ?'' [SqlStr (ur_ID user)] Model) user)
       (ident ErrUserNotFound)"

definition GORMUserDAO_BatchInsert :: "'s user_gorm \<Rightarrow> user_row list \<Rightarrow> (unit, 's) io" where
  "GORMUserDAO_BatchInsert db users = g_CreateAll db users"

definition NewUserDAO :: "'s user_gorm \<Rightarrow> 's user_dao" where
  "NewUserDAO db =
     \<lparr>ud_Insert = GORMUserDAO_Insert db, ud_FindByID = GORMUserDAO_FindByID db,
      ud_FindByUsername = GORMUserDAO_FindByUsername db,
      ud_FindByPhone = GORMUserDAO_FindByPhone db, ud_FindAll = GORMUserDAO_FindAll db,
      ud_Update = GORMUserDAO_Update db, ud_BatchInsert = GORMUserDAO_BatchInsert db\<rparr>"

section \<open>Repository\<close>

record 's user_repo =
  urp_Create :: "user \<Rightarrow> (unit, 's) io"
  urp_GetByID :: "string \<Rightarrow> (user, 's) io"
  urp_GetByUsername :: "string \<Rightarrow> (user, 's) io"
  urp_GetByPhone :: "string \<Rightarrow> (user, 's) io"
  urp_List :: "user_filter \<Rightarrow> int \<Rightarrow> int \<Rightarrow> (user list \<times> int, 's) io"
  urp_Update :: "user \<Rightarrow> (unit, 's) io"
  urp_BatchCreate :: "user list \<Rightarrow> (unit, 's) io"

definition toDomainUser :: "user_row \<Rightarrow> user" where
  "toDomainUser d =
     \<lparr>u_ID = ur_ID d, u_TenantID = ur_TenantID d, u_Username = ur_Username d,
      u_Email = ur_Email d, u_Phone = ur_Phone d, u_PasswordHash = ur_PasswordHash d,
      u_RealName = ur_RealName d, u_Role = ur_Role d, u_Status = ur_Status d,
      u_LastLoginAt = map_option time_UnixMilli (ur_LastLoginAt d),
      u_CreatedAt = time_UnixMilli (ur_CreatedAt d),
      u_UpdatedAt = time_UnixMilli (ur_UpdatedAt d)\<rparr>"

definition toUserEntity :: "user \<Rightarrow> user_row" where
  "toUserEntity u =
     \<lparr>ur_ID = u_ID u, ur_TenantID = u_TenantID u, ur_Username = u_Username u,
      ur_Email = u_Email u, ur_Phone = u_Phone u, ur_PasswordHash = u_PasswordHash u,
      ur_RealName = u_RealName u, ur_Role = u_Role u, ur_Status = u_Status u,
      ur_LastLoginAt = map_option UnixMilli (u_LastLoginAt u),
      ur_CreatedAt = (if \<not> time_IsZero (u_CreatedAt u) then UnixMilli (u_CreatedAt u) else 0),
      ur_UpdatedAt = (if \<not> time_IsZero (u_UpdatedAt u) then UnixMilli (u_UpdatedAt u) else 0)\<rparr>"

definition userRepo_Create :: "'s user_dao \<Rightarrow> user \<Rightarrow> (unit, 's) io" where
  "userRepo_Create d user = ud_Insert d (toUserEntity user)"

definition userRepo_GetByID :: "'s user_dao \<Rightarrow> string \<Rightarrow> (user, 's) io" where
  "userRepo_GetByID d userID = bind_io (ud_FindByID d userID) (\<lambda>r. return_io (toDomainUser r))"

definition userRepo_GetByUsername :: "'s user_dao \<Rightarrow> string \<Rightarrow> (user, 's) io" where
  "userRepo_GetByUsername d username =
     bind_io (ud_FindByUsername d username) (\<lambda>r. return_io (toDomainUser r))"

definition userRepo_GetByPhone :: "'s user_dao \<Rightarrow> string \<Rightarrow> (user, 's) io" where
  "userRepo_GetByPhone d phone =
     bind_io (ud_FindByPhone d phone) (\<lambda>r. return_io (toDomainUser r))"

definition userRepo_List ::
  "'s user_dao \<Rightarrow> user_filter \<Rightarrow> int \<Rightarrow> int \<Rightarrow> (user list \<times> int, 's) io" where
  "userRepo_List d f page pageSize =
     bind_io (ud_FindAll d \<lparr>uf_TenantID = uf_TenantID f, uf_Role = uf_Role f,
                           uf_Status = uf_Status f, uf_Keyword = uf_Keyword f\<rparr> page pageSize)
       (\<lambda>(records, n). return_io (map toDomainUser records, n))"

definition userRepo_Update :: "'s user_dao \<Rightarrow> user \<Rightarrow> (unit, 's) io" where
  "userRepo_Update d user = ud_Update d (toUserEntity user)"

definition userRepo_BatchCreate :: "'s user_dao \<Rightarrow> user list \<Rightarrow> (unit, 's) io" where
  "userRepo_BatchCreate d users = ud_BatchInsert d (map toUserEntity users)"

definition NewUserRepo :: "'s user_dao \<Rightarrow> 's user_repo" where
  "NewUserRepo d =
     \<lparr>urp_Create = userRepo_Create d, urp_GetByID = userRepo_GetByID d,
      urp_GetByUsername = userRepo_GetByUsername d, urp_GetByPhone = userRepo_GetByPhone d,
      urp_List = userRepo_List d, urp_Update = userRepo_Update d,
      urp_BatchCreate = userRepo_BatchCreate d\<rparr>"

lemmas user_store_defs =
  NewUserRepo_def userRepo_Create_def userRepo_GetByID_def userRepo_GetByUsername_def
  userRepo_GetByPhone_def userRepo_List_def userRepo_Update_def userRepo_BatchCreate_def
  NewUserDAO_def GORMUserDAO_Insert_def GORMUserDAO_FindByID_def GORMUserDAO_FindByUsername_def
  GORMUserDAO_FindByPhone_def GORMUserDAO_FindAll_def GORMUserDAO_Update_def
  GORMUserDAO_BatchInsert_def

section \<open>The table\<close>

fun user_holds :: "(string \<Rightarrow> string \<Rightarrow> bool) \<Rightarrow> sql_cond \<Rightarrow> user_row \<Rightarrow> bool" where
  "user_holds like (c, [SqlStr v]) r =
     (if c = ''id = ?'' then ur_ID r = v
      else if c = ''username = ?'' then ur_Username r = v
      else if c = ''phone = ?'' then ur_Phone r = Some v
      else if c = ''tenant_id = ?'' then ur_TenantID r = Some v
      else if c = ''role = ?'' then ur_Role r = v
      else if c = ''status = ?'' then ur_Status r = v else False)"
| "user_holds like (c, [SqlStr p, SqlStr q, SqlStr u]) r =
     (c = ''username LIKE ? OR real_name LIKE ? OR email LIKE ?'' \<and>
      (like p (ur_Username r) \<or> like q (ur_RealName r) \<or>
       (\<exists>e \<in> set_option (ur_Email r). like u e)))"
| "user_holds like _ r = False"

definition user_clash :: "user_row \<Rightarrow> user_row \<Rightarrow> bool" where
  "user_clash r' r =
     (ur_ID r' = ur_ID r \<or>
      (ur_TenantID r \<noteq> None \<and> ur_TenantID r' = ur_TenantID r \<and> ur_Username r' = ur_Username r) \<or>
      (ur_Phone r \<noteq> None \<and> ur_Phone r' = ur_Phone r))"

definition user_stamp :: "int \<Rightarrow> user_row \<Rightarrow> user_row" where
  "user_stamp now r =
     r\<lparr>ur_CreatedAt := (if ur_CreatedAt r = 0 then now else ur_CreatedAt r),
       ur_UpdatedAt := (if ur_UpdatedAt r = 0 then now else ur_UpdatedAt r)\<rparr>"

definition user_assign :: "int \<Rightarrow> string list \<Rightarrow> user_row \<Rightarrow> user_row \<Rightarrow> user_row" where
  "user_assign now cols new old =
     \<lparr>ur_ID = set_text (ur_ID new) (ur_ID old),
      ur_TenantID = set_ptr (ur_TenantID new) (ur_TenantID old),
      ur_Username = set_text (ur_Username new) (ur_Username old),
      ur_Email = set_ptr (ur_Email new) (ur_Email old),
      ur_Phone = set_ptr (ur_Phone new) (ur_Phone old),
      ur_PasswordHash = set_text (ur_PasswordHash new) (ur_PasswordHash old),
      ur_RealName = set_text (ur_RealName new) (ur_RealName old),
      ur_Role = set_text (ur_Role new) (ur_Role old),
      ur_Status = set_text (ur_Status new) (ur_Status old),
      ur_LastLoginAt = set_ptr (ur_LastLoginAt new) (ur_LastLoginAt old),
      ur_CreatedAt = set_int (ur_CreatedAt new) (ur_CreatedAt old),
      ur_UpdatedAt = now\<rparr>"

fun user_order :: "string \<Rightarrow> user_row \<Rightarrow> int" where
  "user_order c r = (if c = ''created_at DESC'' then - ur_CreatedAt r else 0)"

text \<open>
  What saving \<open>new\<close> over the stored user \<open>old\<close> leaves in the table; a stored user has times of
  whole milliseconds.
\<close>

definition user_overlay :: "int \<Rightarrow> user \<Rightarrow> user \<Rightarrow> user" where
  "user_overlay now new old =
     (let e = toUserEntity new in
      \<lparr>u_ID = set_text (ur_ID e) (u_ID old),
       u_TenantID = set_ptr (ur_TenantID e) (u_TenantID old),
       u_Username = set_text (ur_Username e) (u_Username old),
       u_Email = set_ptr (ur_Email e) (u_Email old),
       u_Phone = set_ptr (ur_Phone e) (u_Phone old),
       u_PasswordHash = set_text (ur_PasswordHash e) (u_PasswordHash old),
       u_RealName = set_text (ur_RealName e) (u_RealName old),
       u_Role = set_text (ur_Role e) (u_Role old),
       u_Status = set_text (ur_Status e) (u_Status old),
       u_LastLoginAt = set_ptr (map_option time_UnixMilli (ur_LastLoginAt e)) (u_LastLoginAt old),
       u_CreatedAt = (if ur_CreatedAt e = 0 then u_CreatedAt old
                      else time_UnixMilli (ur_CreatedAt e)),
       u_UpdatedAt = time_UnixMilli now\<rparr>)"

locale user_db =
  gorm_table db rows set_rows "user_holds like" user_clash now user_stamp user_assign
    "\<lambda>t cols r. r" "\<lambda>c r. []" user_order dup
  for like :: "string \<Rightarrow> string \<Rightarrow> bool" and db :: "'s user_gorm" and rows and set_rows and now and dup

sublocale user_db < users: gorm_entity db rows set_rows "user_holds like" user_clash now
  user_stamp user_assign "\<lambda>t cols r. r" "\<lambda>c r. []" user_order dup
  "\<lambda>id. Where ''id = ?'' [SqlStr id] Model" ur_ID toDomainUser toUserEntity "[]"
  user_overlay "ident ErrUserNotFound" "[''duplicate'', ''UNIQUE'']"
  "ident ErrUserAlreadyExists"
  by unfold_locales
    (auto simp: matches_def query_simps user_clash_def user_stamp_def user_assign_def set_int_def
      set_text_def set_ptr_def user_overlay_def toDomainUser_def toUserEntity_def Let_def)

abbreviation "user_at rows \<equiv> entity_at rows ur_ID toDomainUser"
abbreviation "users_ok rows \<equiv> table_intact user_clash rows"

definition user_ref :: "string \<Rightarrow> (user_row list \<times> int) user_gorm" where
  "user_ref dup = ref_gorm (user_holds sql_like) user_clash user_stamp user_assign
     (\<lambda>t cols r. r) (\<lambda>c r. []) user_order (\<lambda>cols r. []) dup"

lemma user_ref_db: "user_db sql_like (user_ref dup) fst ref_set snd dup"
  unfolding user_ref_def user_db_def by (rule ref_gorm_table)

interpretation user_ref: user_db sql_like "user_ref dup" fst ref_set snd dup for dup
  by (rule user_ref_db)

end
