(* ===== verification/User_Service.thy ===== *)
theory User_Service
  imports User_Store
begin

text \<open>
  The user service (\<open>service/user_service.go\<close>) and its gRPC server (\<open>grpc/user_server.go\<close>,
  \<open>grpc/user_helpers.go\<close>). Passwords are byte strings, so \<open>length\<close> is Go's \<open>len\<close>.
\<close>

section \<open>Service\<close>

record CreateUserRequest =
  cur_TenantID :: "string option"
  cur_Username :: string
  cur_Password :: string
  cur_Email :: "string option"
  cur_Phone :: "string option"
  cur_RealName :: string
  cur_Role :: string

record ListUsersRequest =
  lur_TenantID :: string
  lur_Role :: string
  lur_Status :: string
  lur_Keyword :: string
  lur_Page :: int
  lur_PageSize :: int

record UserListResponse =
  ulr_Users :: "user list"
  ulr_Total :: int
  ulr_Page :: int
  ulr_PageSize :: int
  ulr_TotalPages :: int

record UpdateUserRequest =
  uur_UserID :: string
  uur_Username :: "string option"
  uur_Email :: "string option"
  uur_Phone :: "string option"
  uur_RealName :: "string option"
  uur_Role :: "string option"

record ResetPasswordRequest =
  rpr_UserID :: string
  rpr_NewPassword :: string

record UpdateProfileRequest =
  upr_RealName :: "string option"
  upr_Email :: "string option"
  upr_Phone :: "string option"

record ChangePasswordRequest =
  cpr_OldPassword :: string
  cpr_NewPassword :: string

record ImportUserItem =
  iui_TenantID :: "string option"
  iui_Username :: string
  iui_Password :: string
  iui_Email :: "string option"
  iui_Phone :: "string option"
  iui_RealName :: string
  iui_Role :: string

record ImportError =
  ie_Index :: int
  ie_Message :: string

record ImportResult =
  ir_Total :: int
  ir_Success :: int
  ir_Failed :: int
  ir_Errors :: "ImportError list"

record 's user_service =
  us_Create :: "CreateUserRequest \<Rightarrow> (user, 's) io"
  us_GetByID :: "string \<Rightarrow> (user, 's) io"
  us_List :: "ListUsersRequest \<Rightarrow> (UserListResponse, 's) io"
  us_Update :: "UpdateUserRequest \<Rightarrow> (user, 's) io"
  us_Freeze :: "string \<Rightarrow> (unit, 's) io"
  us_Unfreeze :: "string \<Rightarrow> (unit, 's) io"
  us_ResetPassword :: "ResetPasswordRequest \<Rightarrow> (unit, 's) io"
  us_UpdateProfile :: "string \<Rightarrow> UpdateProfileRequest \<Rightarrow> (user, 's) io"
  us_ChangePassword :: "string \<Rightarrow> ChangePasswordRequest \<Rightarrow> (unit, 's) io"
  us_ImportUsers :: "ImportUserItem list \<Rightarrow> (ImportResult, 's) io"

definition userService_Create ::
  "'s go_env \<Rightarrow> 's user_repo \<Rightarrow> CreateUserRequest \<Rightarrow> (user, 's) io" where
  "userService_Create env repo req =
     (if length (cur_Password req) < 8 then fail_io (ident ErrPasswordTooShort)
      else if cur_Role req = [] then fail_io (ident ErrInvalidRole)
      else try_io (urp_GetByUsername repo (cur_Username req)) (\<lambda>r.
        case r of
          Inr existing \<Rightarrow> fail_io (ident ErrUserAlreadyExists)
        | Inl err \<Rightarrow>
            if \<not> errors_Is err (IdentityErr ErrUserNotFound) then fail_io err
            else bind_io (bcrypt_Generate env (cur_Password req)) (\<lambda>hash.
                 bind_io (ask_io (uuid_New env)) (\<lambda>uid.
                 let user = (NewUser (cur_Username req) hash (cur_RealName req) (cur_Role req)
                              (cur_TenantID req))
                              \<lparr>u_ID := uid, u_Email := cur_Email req, u_Phone := cur_Phone req\<rparr>
                 in bind_io (urp_Create repo user) (\<lambda>_. return_io user)))))"

definition userService_GetByID :: "'s user_repo \<Rightarrow> string \<Rightarrow> (user, 's) io" where
  "userService_GetByID repo userID = urp_GetByID repo userID"

definition userService_List ::
  "'s user_repo \<Rightarrow> ListUsersRequest \<Rightarrow> (UserListResponse, 's) io" where
  "userService_List repo req =
     (let page = normal_page (lur_Page req);
          pageSize = normal_pageSize (lur_PageSize req);
          ufilter = \<lparr>uf_TenantID = lur_TenantID req, uf_Role = lur_Role req,
                     uf_Status = lur_Status req, uf_Keyword = lur_Keyword req\<rparr>
      in bind_io (urp_List repo ufilter page pageSize) (\<lambda>(users, n).
         return_io \<lparr>ulr_Users = users, ulr_Total = n, ulr_Page = page, ulr_PageSize = pageSize,
                    ulr_TotalPages = total_pages n pageSize\<rparr>))"

definition user_changes :: "UpdateUserRequest \<Rightarrow> user \<Rightarrow> user" where
  "user_changes req u =
     u\<lparr>u_Username := assign_if (uur_Username req) (u_Username u),
       u_Email := assign_ptr (uur_Email req) (u_Email u),
       u_Phone := assign_ptr (uur_Phone req) (u_Phone u),
       u_RealName := assign_if (uur_RealName req) (u_RealName u),
       u_Role := assign_if (uur_Role req) (u_Role u)\<rparr>"

definition userService_Update ::
  "'s user_repo \<Rightarrow> UpdateUserRequest \<Rightarrow> (user, 's) io" where
  "userService_Update repo req =
     bind_io (urp_GetByID repo (uur_UserID req)) (\<lambda>user.
     let user = user_changes req user
     in bind_io (urp_Update repo user) (\<lambda>_. return_io user))"

definition userService_Freeze :: "'s user_repo \<Rightarrow> string \<Rightarrow> (unit, 's) io" where
  "userService_Freeze repo userID =
     bind_io (urp_GetByID repo userID) (\<lambda>user.
     bind_io (lift_io (User_Freeze user)) (\<lambda>user. urp_Update repo user))"

definition userService_Unfreeze :: "'s user_repo \<Rightarrow> string \<Rightarrow> (unit, 's) io" where
  "userService_Unfreeze repo userID =
     bind_io (urp_GetByID repo userID) (\<lambda>user.
     bind_io (lift_io (User_Unfreeze user)) (\<lambda>user. urp_Update repo user))"

definition userService_ResetPassword ::
  "'s go_env \<Rightarrow> 's user_repo \<Rightarrow> ResetPasswordRequest \<Rightarrow> (unit, 's) io" where
  "userService_ResetPassword env repo req =
     (if length (rpr_NewPassword req) < 8 then fail_io (ident ErrPasswordTooShort)
      else bind_io (urp_GetByID repo (rpr_UserID req)) (\<lambda>user.
           bind_io (bcrypt_Generate env (rpr_NewPassword req)) (\<lambda>hash.
           urp_Update repo (user\<lparr>u_PasswordHash := hash\<rparr>))))"

definition profile_changes :: "UpdateProfileRequest \<Rightarrow> user \<Rightarrow> user" where
  "profile_changes req u =
     u\<lparr>u_RealName := assign_if (upr_RealName req) (u_RealName u),
       u_Email := assign_ptr (upr_Email req) (u_Email u),
       u_Phone := assign_ptr (upr_Phone req) (u_Phone u)\<rparr>"

definition userService_UpdateProfile ::
  "'s user_repo \<Rightarrow> string \<Rightarrow> UpdateProfileRequest \<Rightarrow> (user, 's) io" where
  "userService_UpdateProfile repo userID req =
     bind_io (urp_GetByID repo userID) (\<lambda>user.
     let user = profile_changes req user
     in bind_io (urp_Update repo user) (\<lambda>_. return_io user))"

definition userService_ChangePassword ::
  "'s go_env \<Rightarrow> 's user_repo \<Rightarrow> string \<Rightarrow> ChangePasswordRequest \<Rightarrow> (unit, 's) io" where
  "userService_ChangePassword env repo userID req =
     (if length (cpr_NewPassword req) < 8 then fail_io (ident ErrPasswordTooShort)
      else bind_io (urp_GetByID repo userID) (\<lambda>user.
           if \<not> bcrypt_Compare env (u_PasswordHash user) (cpr_OldPassword req)
           then fail_io (ident ErrPasswordIncorrect)
           else bind_io (bcrypt_Generate env (cpr_NewPassword req)) (\<lambda>hash.
                urp_Update repo (user\<lparr>u_PasswordHash := hash\<rparr>))))"

text \<open>The loop of \<open>ImportUsers\<close>: \<open>i\<close> is the index of the next item.\<close>

fun importUsers_loop ::
  "(CreateUserRequest \<Rightarrow> (user, 's) io) \<Rightarrow> int \<Rightarrow> ImportUserItem list \<Rightarrow> ImportResult \<Rightarrow>
   (ImportResult, 's) io" where
  "importUsers_loop create i [] result = return_io result"
| "importUsers_loop create i (item # items) result =
     try_io (create \<lparr>cur_TenantID = iui_TenantID item, cur_Username = iui_Username item,
                     cur_Password = iui_Password item, cur_Email = iui_Email item,
                     cur_Phone = iui_Phone item, cur_RealName = iui_RealName item,
                     cur_Role = iui_Role item\<rparr>) (\<lambda>r.
       importUsers_loop create (i + 1) items
         (case r of
            Inl err \<Rightarrow> result\<lparr>ir_Failed := ir_Failed result + 1,
                              ir_Errors := ir_Errors result @
                                [\<lparr>ie_Index = i, ie_Message = error_text err\<rparr>]\<rparr>
          | Inr _ \<Rightarrow> result\<lparr>ir_Success := ir_Success result + 1\<rparr>))"

definition userService_ImportUsers ::
  "'s go_env \<Rightarrow> 's user_repo \<Rightarrow> ImportUserItem list \<Rightarrow> (ImportResult, 's) io" where
  "userService_ImportUsers env repo users =
     importUsers_loop (userService_Create env repo) 0 users
       \<lparr>ir_Total = int (length users), ir_Success = 0, ir_Failed = 0, ir_Errors = []\<rparr>"

definition NewUserService :: "'s go_env \<Rightarrow> 's user_repo \<Rightarrow> 's user_service" where
  "NewUserService env repo =
     \<lparr>us_Create = userService_Create env repo, us_GetByID = userService_GetByID repo,
      us_List = userService_List repo, us_Update = userService_Update repo,
      us_Freeze = userService_Freeze repo, us_Unfreeze = userService_Unfreeze repo,
      us_ResetPassword = userService_ResetPassword env repo,
      us_UpdateProfile = userService_UpdateProfile repo,
      us_ChangePassword = userService_ChangePassword env repo,
      us_ImportUsers = userService_ImportUsers env repo\<rparr>"

section \<open>gRPC server\<close>

datatype pb_UserRole =
    USER_ROLE_UNSPECIFIED | USER_ROLE_PLATFORM_ADMIN | USER_ROLE_TENANT_ADMIN
  | USER_ROLE_OPERATOR | USER_ROLE_unrecognized int

datatype pb_UserStatus =
    USER_STATUS_UNSPECIFIED | USER_STATUS_ACTIVE | USER_STATUS_FROZEN
  | USER_STATUS_unrecognized int

record pb_User =
  pu_UserId :: string
  pu_TenantId :: "string option"
  pu_Username :: string
  pu_Email :: "string option"
  pu_Phone :: "string option"
  pu_RealName :: string
  pu_Role :: pb_UserRole
  pu_Status :: pb_UserStatus
  pu_LastLoginAt :: "Timestamp option"
  pu_CreatedAt :: Timestamp
  pu_UpdatedAt :: Timestamp

record pb_CreateUserRequest =
  pcu_TenantId :: "string option"
  pcu_Username :: string
  pcu_Password :: string
  pcu_Email :: "string option"
  pcu_Phone :: "string option"
  pcu_RealName :: string
  pcu_Role :: pb_UserRole

record pb_ListUsersRequest =
  plu_TenantId :: string
  plu_Role :: pb_UserRole
  plu_Status :: pb_UserStatus
  plu_Keyword :: string
  plu_Pagination :: "PaginationRequest option"

record pb_ListUsersResponse =
  plu_Users :: "pb_User list"
  plu_PaginationResponse :: PaginationResponse

record pb_UpdateUserRequest =
  puu_UserId :: string
  puu_Username :: "string option"
  puu_Email :: "string option"
  puu_Phone :: "string option"
  puu_RealName :: "string option"
  puu_Role :: "pb_UserRole option"

record pb_UpdateProfileRequest =
  pup_UserId :: string
  pup_RealName :: "string option"
  pup_Email :: "string option"
  pup_Phone :: "string option"

record pb_ChangePasswordRequest =
  pcp_UserId :: string
  pcp_OldPassword :: string
  pcp_NewPassword :: string

record pb_ImportUsersResponse =
  piu_Total :: int
  piu_Success :: int
  piu_Failed :: int
  piu_Errors :: "ImportError list"

definition userErrorMappings :: "ErrorMapping list" where
  "userErrorMappings =
     [\<lparr>em_Target = IdentityErr ErrUserNotFound, em_Code = NotFound\<rparr>,
      \<lparr>em_Target = IdentityErr ErrUserAlreadyExists, em_Code = AlreadyExists\<rparr>,
      \<lparr>em_Target = IdentityErr ErrUserInvalidStatus, em_Code = InvalidArgument\<rparr>,
      \<lparr>em_Target = IdentityErr ErrUserFrozen, em_Code = FailedPrecondition\<rparr>,
      \<lparr>em_Target = IdentityErr ErrPasswordIncorrect, em_Code = InvalidArgument\<rparr>,
      \<lparr>em_Target = IdentityErr ErrPasswordTooShort, em_Code = InvalidArgument\<rparr>,
      \<lparr>em_Target = IdentityErr ErrInvalidRole, em_Code = InvalidArgument\<rparr>]"

definition toUserGRPCError :: "go_error \<Rightarrow> go_error" where
  "toUserGRPCError err = ToGRPCError err userErrorMappings"

definition domainRoleToProto :: "string \<Rightarrow> pb_UserRole" where
  "domainRoleToProto r =
     (if r = RolePlatformAdmin then USER_ROLE_PLATFORM_ADMIN
      else if r = RoleTenantAdmin then USER_ROLE_TENANT_ADMIN
      else if r = RoleOperator then USER_ROLE_OPERATOR
      else USER_ROLE_UNSPECIFIED)"

fun domainRoleFromProto :: "pb_UserRole \<Rightarrow> string" where
  "domainRoleFromProto USER_ROLE_PLATFORM_ADMIN = RolePlatformAdmin"
| "domainRoleFromProto USER_ROLE_TENANT_ADMIN = RoleTenantAdmin"
| "domainRoleFromProto USER_ROLE_OPERATOR = RoleOperator"
| "domainRoleFromProto _ = []"

definition domainUserStatusToProto :: "string \<Rightarrow> pb_UserStatus" where
  "domainUserStatusToProto s =
     (if s = UserStatusActive then USER_STATUS_ACTIVE
      else if s = UserStatusFrozen then USER_STATUS_FROZEN
      else USER_STATUS_UNSPECIFIED)"

fun domainUserStatusFromProto :: "pb_UserStatus \<Rightarrow> string" where
  "domainUserStatusFromProto USER_STATUS_ACTIVE = UserStatusActive"
| "domainUserStatusFromProto USER_STATUS_FROZEN = UserStatusFrozen"
| "domainUserStatusFromProto _ = []"

text \<open>\<open>timestamppb.New(t)\<close>: whole seconds rounded down, and the nanoseconds above them.\<close>

definition timestamppb_New :: "int \<Rightarrow> Timestamp" where
  "timestamppb_New t = \<lparr>ts_Seconds = t div 1000000000, ts_Nanos = t mod 1000000000\<rparr>"

definition toProtoUser :: "user \<Rightarrow> pb_User" where
  "toProtoUser u =
     \<lparr>pu_UserId = u_ID u, pu_TenantId = u_TenantID u, pu_Username = u_Username u,
      pu_Email = u_Email u, pu_Phone = u_Phone u, pu_RealName = u_RealName u,
      pu_Role = domainRoleToProto (u_Role u), pu_Status = domainUserStatusToProto (u_Status u),
      pu_LastLoginAt = map_option timestamppb_New (u_LastLoginAt u),
      pu_CreatedAt = timestamppb_New (u_CreatedAt u),
      pu_UpdatedAt = timestamppb_New (u_UpdatedAt u)\<rparr>"

definition UserGRPCServer_CreateUser ::
  "'s user_service \<Rightarrow> pb_CreateUserRequest \<Rightarrow> (pb_User, 's) io" where
  "UserGRPCServer_CreateUser svc req =
     (let role = domainRoleFromProto (pcu_Role req) in
      if role = [] then fail_io (toUserGRPCError (ident ErrInvalidRole))
      else grpc_reply toUserGRPCError (us_Create svc
             \<lparr>cur_TenantID = pcu_TenantId req, cur_Username = pcu_Username req,
              cur_Password = pcu_Password req, cur_Email = pcu_Email req,
              cur_Phone = pcu_Phone req, cur_RealName = pcu_RealName req, cur_Role = role\<rparr>)
             toProtoUser)"

definition UserGRPCServer_GetUser :: "'s user_service \<Rightarrow> string \<Rightarrow> (pb_User, 's) io" where
  "UserGRPCServer_GetUser svc userId = grpc_reply toUserGRPCError (us_GetByID svc userId) toProtoUser"

definition UserGRPCServer_GetCurrentUser ::
  "'s user_service \<Rightarrow> go_ctx \<Rightarrow> (pb_User, 's) io" where
  "UserGRPCServer_GetCurrentUser svc ctx =
     (let userID = UserID ctx in
      if userID = [] then fail_io (ToGRPCError (ident ErrUserNotFound) userErrorMappings)
      else grpc_reply toUserGRPCError (us_GetByID svc userID) toProtoUser)"

definition UserGRPCServer_ListUsers ::
  "'s user_service \<Rightarrow> pb_ListUsersRequest \<Rightarrow> (pb_ListUsersResponse, 's) io" where
  "UserGRPCServer_ListUsers svc req =
     (case pagination_or_default (plu_Pagination req) of (page, pageSize) \<Rightarrow>
      grpc_reply toUserGRPCError (us_List svc
        \<lparr>lur_TenantID = plu_TenantId req, lur_Role = domainRoleFromProto (plu_Role req),
         lur_Status = domainUserStatusFromProto (plu_Status req),
         lur_Keyword = plu_Keyword req, lur_Page = page, lur_PageSize = pageSize\<rparr>)
        (\<lambda>resp. \<lparr>plu_Users = map toProtoUser (ulr_Users resp),
                 plu_PaginationResponse =
                   \<lparr>pr_Page = page, pr_PageSize = pageSize, pr_Total = ulr_Total resp,
                    pr_TotalPages = i32 (ulr_TotalPages resp)\<rparr>\<rparr>))"

definition UserGRPCServer_UpdateUser ::
  "'s user_service \<Rightarrow> pb_UpdateUserRequest \<Rightarrow> (pb_User, 's) io" where
  "UserGRPCServer_UpdateUser svc req =
     grpc_reply toUserGRPCError (us_Update svc
       \<lparr>uur_UserID = puu_UserId req, uur_Username = puu_Username req, uur_Email = puu_Email req,
        uur_Phone = puu_Phone req, uur_RealName = puu_RealName req,
        uur_Role = map_option domainRoleFromProto (puu_Role req)\<rparr>) toProtoUser"

definition UserGRPCServer_FreezeUser :: "'s user_service \<Rightarrow> string \<Rightarrow> (unit, 's) io" where
  "UserGRPCServer_FreezeUser svc userId = grpc_reply toUserGRPCError (us_Freeze svc userId) (\<lambda>_. ())"

definition UserGRPCServer_UnfreezeUser :: "'s user_service \<Rightarrow> string \<Rightarrow> (unit, 's) io" where
  "UserGRPCServer_UnfreezeUser svc userId =
     grpc_reply toUserGRPCError (us_Unfreeze svc userId) (\<lambda>_. ())"

definition UserGRPCServer_ResetPassword ::
  "'s user_service \<Rightarrow> ResetPasswordRequest \<Rightarrow> (unit, 's) io" where
  "UserGRPCServer_ResetPassword svc req =
     grpc_reply toUserGRPCError (us_ResetPassword svc
       \<lparr>rpr_UserID = rpr_UserID req, rpr_NewPassword = rpr_NewPassword req\<rparr>) (\<lambda>_. ())"

definition UserGRPCServer_UpdateProfile ::
  "'s user_service \<Rightarrow> pb_UpdateProfileRequest \<Rightarrow> (pb_User, 's) io" where
  "UserGRPCServer_UpdateProfile svc req =
     grpc_reply toUserGRPCError (us_UpdateProfile svc (pup_UserId req)
       \<lparr>upr_RealName = pup_RealName req, upr_Email = pup_Email req, upr_Phone = pup_Phone req\<rparr>)
       toProtoUser"

definition UserGRPCServer_ChangePassword ::
  "'s user_service \<Rightarrow> pb_ChangePasswordRequest \<Rightarrow> (unit, 's) io" where
  "UserGRPCServer_ChangePassword svc req =
     grpc_reply toUserGRPCError (us_ChangePassword svc (pcp_UserId req)
       \<lparr>cpr_OldPassword = pcp_OldPassword req, cpr_NewPassword = pcp_NewPassword req\<rparr>) (\<lambda>_. ())"

definition UserGRPCServer_ImportUsers ::
  "'s user_service \<Rightarrow> pb_CreateUserRequest list \<Rightarrow> (pb_ImportUsersResponse, 's) io" where
  "UserGRPCServer_ImportUsers svc users =
     grpc_reply toUserGRPCError (us_ImportUsers svc
       (map (\<lambda>u. \<lparr>iui_TenantID = pcu_TenantId u, iui_Username = pcu_Username u,
                  iui_Password = pcu_Password u, iui_Email = pcu_Email u,
                  iui_Phone = pcu_Phone u, iui_RealName = pcu_RealName u,
                  iui_Role = domainRoleFromProto (pcu_Role u)\<rparr>) users))
       (\<lambda>result. \<lparr>piu_Total = i32 (ir_Total result), piu_Success = i32 (ir_Success result),
                  piu_Failed = i32 (ir_Failed result),
                  piu_Errors = map (\<lambda>e. \<lparr>ie_Index = i32 (ie_Index e),
                                         ie_Message = ie_Message e\<rparr>) (ir_Errors result)\<rparr>)"

end
