(* ===== verification/Jwt.thy ===== *)
theory Jwt
  imports Go_Prelude "HOL-Library.Word"
begin

text \<open>
  Tokens: the claims (\<open>domain/token.go\<close>), the signer interface (\<open>domain/signer.go\<close>) with the
  contract the authentication service relies on, and the RS256 signer
  (\<open>domain/rs256_signer.go\<close>) over the JWT library, with the key set it publishes.
\<close>

unbundle bit_operations_syntax

section \<open>Claims and the signer interface\<close>

definition TokenUseAccess :: string where [simp]: "TokenUseAccess = ''access''"
definition TokenUseRefresh :: string where [simp]: "TokenUseRefresh = ''refresh''"

record TokenPair =
  tp_AccessToken :: string
  tp_RefreshToken :: string
  tp_AccessExpiresAt :: int
  tp_RefreshExpiresAt :: int

text \<open>\<open>jwt.RegisteredClaims\<close>, as far as the code fills it in, and the claims around it.\<close>

record RegisteredClaims =
  rcl_Subject :: string
  rcl_Issuer :: string
  rcl_ID :: string
  rcl_IssuedAt :: int
  rcl_ExpiresAt :: int

record Claims =
  cl_TokenUse :: string
  cl_UserID :: string
  cl_TenantID :: string
  cl_Role :: string
  cl_Key :: string
  cl_Registered :: RegisteredClaims

datatype json = JStr string | JArr "json list" | JObj "(string \<times> json) list"

record 's TokenSigner =
  ts_Sign :: "Claims \<Rightarrow> (string, 's) io"
  ts_Verify :: "string \<Rightarrow> (Claims, 's) io"
  ts_JWKS :: "go_error + json"

text \<open>
  The contract: \<open>issued s\<close> remembers the claims of the tokens signed so far, \<open>live s c\<close> says
  that the verifier takes claims \<open>c\<close> now (issuer and expiry). \<open>Verify\<close> answers the claims of a
  live token and an error for any other text. Signing may fail, and then issues nothing.
\<close>

locale token_signer =
  fixes sg :: "'s TokenSigner"
    and issued :: "'s \<Rightarrow> string \<Rightarrow> Claims option"
    and live :: "'s \<Rightarrow> Claims \<Rightarrow> bool"
  assumes Sign_ok: "ts_Sign sg c s = (Inr tok, s') \<Longrightarrow>
      (issued s tok = None \<or> issued s tok = Some c) \<and> issued s' = (issued s)(tok \<mapsto> c)"
    and Sign_err: "ts_Sign sg c s = (Inl e, s') \<Longrightarrow> issued s' = issued s"
    and Verify_issued: "issued s tok = Some c \<Longrightarrow> live s c \<Longrightarrow> fst (ts_Verify sg tok s) = Inr c"
    and Verify_other: "(\<And>c. issued s tok = Some c \<Longrightarrow> \<not> live s c) \<Longrightarrow>
      \<exists>e. fst (ts_Verify sg tok s) = Inl e"
    and Verify_issues: "issued (snd (ts_Verify sg tok s)) = issued s"
begin

lemma Verify_Inr: "ts_Verify sg tok s = (Inr c, s') \<Longrightarrow> issued s tok = Some c \<and> live s c"
  using Verify_issued [of s tok] Verify_other [of s tok] by (metis Inl_Inr_False Inr_inject fst_conv)

lemma issued_grows: "issued s t = Some c \<Longrightarrow> issued (snd (ts_Sign sg c' s)) t = Some c"
  using Sign_ok [of c' s] Sign_err [of c' s]
  by (cases "ts_Sign sg c' s"; cases "fst (ts_Sign sg c' s)") fastforce+

end

section \<open>The RS256 signer\<close>

text \<open>
  \<open>github.com/golang-jwt/jwt\<close> is a parameter: \<open>SignedString\<close> of a token with the given
  \<open>alg\<close> and further header entries, \<open>ParseWithClaims\<close> with a key function of the token's
  \<open>alg\<close> and the expected issuer, and the PEM parsers.
\<close>

record rsa_public_key =
  pk_N :: nat
  pk_E :: int

record jwt_token =
  jt_Claims :: Claims
  jt_Valid :: bool

record ('priv, 's) jwt_lib =
  jwt_ParsePrivateKey :: "string \<Rightarrow> go_error + 'priv"
  jwt_ParsePublicKey :: "string \<Rightarrow> go_error + rsa_public_key"
  jwt_SignedString :: "string \<Rightarrow> (string \<times> string) list \<Rightarrow> Claims \<Rightarrow> 'priv \<Rightarrow> (string, 's) io"
  jwt_ParseWithClaims ::
    "string \<Rightarrow> (string \<Rightarrow> go_error + rsa_public_key) \<Rightarrow> string \<Rightarrow> (jwt_token, 's) io"
  jwt_NewNumericDate :: "int \<Rightarrow> int"

record 'priv RS256Signer =
  rs_privateKey :: 'priv
  rs_publicKey :: rsa_public_key
  rs_kid :: string
  rs_issuer :: string

definition NewRS256Signer ::
  "('priv, 's) jwt_lib \<Rightarrow> string \<Rightarrow> string \<Rightarrow> string \<Rightarrow> string \<Rightarrow> go_error + 'priv RS256Signer" where
  "NewRS256Signer lib privateKeyPEM publicKeyPEM kid iss =
     (case jwt_ParsePrivateKey lib privateKeyPEM of
        Inl err \<Rightarrow> Inl (Wrap ''parse private key: '' err)
      | Inr privKey \<Rightarrow>
          (case jwt_ParsePublicKey lib publicKeyPEM of
             Inl err \<Rightarrow> Inl (Wrap ''parse public key: '' err)
           | Inr pubKey \<Rightarrow> Inr \<lparr>rs_privateKey = privKey, rs_publicKey = pubKey, rs_kid = kid,
                                rs_issuer = iss\<rparr>))"

definition LoadRS256Signer ::
  "(string \<Rightarrow> go_error + string) \<Rightarrow> ('priv, 's) jwt_lib \<Rightarrow> string \<Rightarrow> string \<Rightarrow> string \<Rightarrow> string \<Rightarrow>
   go_error + 'priv RS256Signer" where
  "LoadRS256Signer readFile lib privateKeyPath publicKeyPath kid iss =
     (case readFile privateKeyPath of
        Inl err \<Rightarrow> Inl (Wrap ''read private key: '' err)
      | Inr privPEM \<Rightarrow>
          (case readFile publicKeyPath of
             Inl err \<Rightarrow> Inl (Wrap ''read public key: '' err)
           | Inr pubPEM \<Rightarrow> NewRS256Signer lib privPEM pubPEM kid iss))"

definition RS256Signer_Sign :: "('priv, 's) jwt_lib \<Rightarrow> 'priv RS256Signer \<Rightarrow> Claims \<Rightarrow> (string, 's) io" where
  "RS256Signer_Sign lib s claims =
     jwt_SignedString lib ''RS256'' [(''kid'', rs_kid s)] claims (rs_privateKey s)"

text \<open>\<open>token.Method.(*jwt.SigningMethodRSA)\<close> holds of the three RSA PKCS1 methods.\<close>

definition SigningMethodRSA :: "string \<Rightarrow> bool" where
  "SigningMethodRSA alg = (alg \<in> {''RS256'', ''RS384'', ''RS512''})"

definition rs256_keyfunc :: "'priv RS256Signer \<Rightarrow> string \<Rightarrow> go_error + rsa_public_key" where
  "rs256_keyfunc s alg =
     (if \<not> SigningMethodRSA alg then Inl (Opaque (''unexpected signing method: '' @ alg))
      else Inr (rs_publicKey s))"

definition RS256Signer_Verify :: "('priv, 's) jwt_lib \<Rightarrow> 'priv RS256Signer \<Rightarrow> string \<Rightarrow> (Claims, 's) io" where
  "RS256Signer_Verify lib s tokenString =
     bind_io (jwt_ParseWithClaims lib tokenString (rs256_keyfunc s) (rs_issuer s)) (\<lambda>token.
       if \<not> jt_Valid token then fail_io (Opaque ''invalid token claims'')
       else return_io (jt_Claims token))"

section \<open>The key set\<close>

text \<open>\<open>big.Int.Bytes\<close>: big-endian, without leading zero bytes.\<close>

function big_Bytes :: "nat \<Rightarrow> 8 word list" where
  "big_Bytes n = (if n = 0 then [] else big_Bytes (n div 256) @ [word_of_nat n])"
  by pat_completeness auto

termination
  by (relation "measure (\<lambda>n. n)") auto

declare big_Bytes.simps [simp del]

definition bytes_value :: "8 word list \<Rightarrow> nat" where
  "bytes_value bs = foldl (\<lambda>n b. n * 256 + unat b) 0 bs"

text \<open>The loop that skips leading zero bytes stops at the last byte.\<close>

fun trim_exponent :: "8 word list \<Rightarrow> 8 word list" where
  "trim_exponent (b # c # bs) = (if b \<noteq> 0 then b # c # bs else trim_exponent (c # bs))"
| "trim_exponent bs = bs"

definition exponent_bytes :: "int \<Rightarrow> 8 word list" where
  "exponent_bytes e =
     trim_exponent [word_of_int (drop_bit 24 e), word_of_int (drop_bit 16 e),
                    word_of_int (drop_bit 8 e), word_of_int e]"

text \<open>\<open>base64.RawURLEncoding\<close>: three bytes are four characters, without padding.\<close>

definition base64_alphabet :: string where
  "base64_alphabet = ''ABCDEFGHIJKLMNOPQRSTUVWXYZabcdefghijklmnopqrstuvwxyz0123456789-_''"

definition base64_char :: "nat \<Rightarrow> char" where
  "base64_char n = base64_alphabet ! n"

fun encodeBase64URL :: "8 word list \<Rightarrow> string" where
  "encodeBase64URL (a # b # c # bs) =
     [base64_char (unat a div 4), base64_char (unat a mod 4 * 16 + unat b div 16),
      base64_char (unat b mod 16 * 4 + unat c div 64), base64_char (unat c mod 64)] @ encodeBase64URL bs"
| "encodeBase64URL [a, b] =
     [base64_char (unat a div 4), base64_char (unat a mod 4 * 16 + unat b div 16),
      base64_char (unat b mod 16 * 4)]"
| "encodeBase64URL [a] = [base64_char (unat a div 4), base64_char (unat a mod 4 * 16)]"
| "encodeBase64URL [] = []"

definition RS256Signer_JWKS :: "'priv RS256Signer \<Rightarrow> go_error + json" where
  "RS256Signer_JWKS s =
     Inr (JObj [(''keys'', JArr [JObj
       [(''alg'', JStr ''RS256''), (''e'', JStr (encodeBase64URL (exponent_bytes (pk_E (rs_publicKey s))))),
        (''kid'', JStr (rs_kid s)), (''kty'', JStr ''RSA''),
        (''n'', JStr (encodeBase64URL (big_Bytes (pk_N (rs_publicKey s))))), (''use'', JStr ''sig'')]])])"

definition rs256_signer :: "('priv, 's) jwt_lib \<Rightarrow> 'priv RS256Signer \<Rightarrow> 's TokenSigner" where
  "rs256_signer lib s =
     \<lparr>ts_Sign = RS256Signer_Sign lib s, ts_Verify = RS256Signer_Verify lib s, ts_JWKS = RS256Signer_JWKS s\<rparr>"

section \<open>The signer keeps the contract\<close>

text \<open>
  What the code relies on of the library. A signature can be made with the private key only: a
  text that was not issued for the key parses only if the key function hands out another key or
  takes another method. \<open>fresh s c\<close> says that the claims have not expired.
\<close>

locale jwt_rs256 =
  fixes lib :: "('priv, 's) jwt_lib"
    and s0 :: "'priv RS256Signer"
    and issued :: "'s \<Rightarrow> string \<Rightarrow> Claims option"
    and unexpired :: "'s \<Rightarrow> Claims \<Rightarrow> bool"
  assumes SignedString_ok:
      "jwt_SignedString lib ''RS256'' hdr c (rs_privateKey s0) s = (Inr tok, s') \<Longrightarrow>
       (issued s tok = None \<or> issued s tok = Some c) \<and> issued s' = (issued s)(tok \<mapsto> c)"
    and SignedString_err:
      "jwt_SignedString lib ''RS256'' hdr c (rs_privateKey s0) s = (Inl e, s') \<Longrightarrow> issued s' = issued s"
    and Parse_issued:
      "issued s tok = Some c \<Longrightarrow> keyf ''RS256'' = Inr (rs_publicKey s0) \<Longrightarrow>
       unexpired s c \<Longrightarrow> rcl_Issuer (cl_Registered c) = iss \<Longrightarrow>
       fst (jwt_ParseWithClaims lib tok keyf iss s) = Inr \<lparr>jt_Claims = c, jt_Valid = True\<rparr>"
    and Parse_stale:
      "issued s tok = Some c \<Longrightarrow> \<not> (unexpired s c \<and> rcl_Issuer (cl_Registered c) = iss) \<Longrightarrow>
       \<exists>e. fst (jwt_ParseWithClaims lib tok keyf iss s) = Inl e"
    and Parse_forged:
      "issued s tok = None \<Longrightarrow>
       (\<And>alg k. keyf alg = Inr k \<Longrightarrow> alg \<in> {''RS256'', ''RS384'', ''RS512''} \<and> k = rs_publicKey s0) \<Longrightarrow>
       \<exists>e. fst (jwt_ParseWithClaims lib tok keyf iss s) = Inl e"
    and Parse_issues: "issued (snd (jwt_ParseWithClaims lib tok keyf iss s)) = issued s"

sublocale jwt_rs256 < signer: token_signer "rs256_signer lib s0" issued
  "\<lambda>s c. unexpired s c \<and> rcl_Issuer (cl_Registered c) = rs_issuer s0"
proof (unfold_locales, goal_cases)
  case (1 c s tok s')
  then show ?case by (simp add: rs256_signer_def RS256Signer_Sign_def SignedString_ok)
next
  case (2 c s e s')
  then show ?case by (simp add: rs256_signer_def RS256Signer_Sign_def SignedString_err)
next
  case (3 s tok c)
  have "rs256_keyfunc s0 ''RS256'' = Inr (rs_publicKey s0)"
    by (simp add: rs256_keyfunc_def SigningMethodRSA_def)
  from Parse_issued [where keyf = "rs256_keyfunc s0" and iss = "rs_issuer s0", OF 3(1) this] 3(2)
  show ?case
    by (auto simp: rs256_signer_def RS256Signer_Verify_def bind_io_run split: prod.split)
next
  case (4 s tok)
  have "\<exists>e. fst (jwt_ParseWithClaims lib tok (rs256_keyfunc s0) (rs_issuer s0) s) = Inl e"
  proof (cases "issued s tok")
    case None
    then show ?thesis
      by (rule Parse_forged) (auto simp: rs256_keyfunc_def SigningMethodRSA_def split: if_splits)
  next
    case (Some c)
    with 4 show ?thesis by (intro Parse_stale) auto
  qed
  then show ?case by (auto simp: rs256_signer_def RS256Signer_Verify_def bind_io_run split: prod.split)
next
  case (5 tok s)
  show ?case
    using Parse_issues [of tok "rs256_keyfunc s0" "rs_issuer s0" s]
    by (auto simp: rs256_signer_def RS256Signer_Verify_def bind_io_run split: prod.split sum.split)
qed

section \<open>Reading the key set back\<close>

text \<open>A reader of the published set: the base64url alphabet, without padding.\<close>

definition base64_index :: "char \<Rightarrow> nat" where
  "base64_index c = length (takeWhile (\<lambda>x. x \<noteq> c) base64_alphabet)"

definition byte_of :: "nat \<Rightarrow> 8 word" where
  "byte_of n = word_of_nat n"

fun decodeBase64URL :: "string \<Rightarrow> 8 word list" where
  "decodeBase64URL (a # b # c # d # cs) =
     [byte_of (base64_index a * 4 + base64_index b div 16),
      byte_of (base64_index b mod 16 * 16 + base64_index c div 4),
      byte_of (base64_index c mod 4 * 64 + base64_index d)] @ decodeBase64URL cs"
| "decodeBase64URL [a, b, c] =
     [byte_of (base64_index a * 4 + base64_index b div 16),
      byte_of (base64_index b mod 16 * 16 + base64_index c div 4)]"
| "decodeBase64URL [a, b] = [byte_of (base64_index a * 4 + base64_index b div 16)]"
| "decodeBase64URL _ = []"

lemma base64_index_char: "n < 64 \<Longrightarrow> base64_index (base64_char n) = n"
proof -
  have "list_all (\<lambda>n. base64_index (base64_char n) = n) [0..<64]" by code_simp
  moreover assume "n < 64"
  ultimately show ?thesis by (simp add: list_all_iff)
qed

lemma byte_lt: "unat (b :: 8 word) < 256"
  using unsigned_less [of b] by simp

lemma byte_of_unat: "byte_of (unat b) = b"
  by (simp add: byte_of_def)

lemma join_parts: "q < d \<Longrightarrow> (p * d + q) div d = p \<and> (p * d + q) mod d = (q :: nat)"
  by simp

lemma byte_parts:
  fixes a b c :: "8 word"
  shows "unat a div 4 < 64" "unat a div 16 < 16" "unat a div 64 < 4"
  using byte_lt [of a] by (simp_all add: less_mult_imp_div_less)

lemma byte_chars:
  fixes a b c :: "8 word"
  shows "unat a mod 4 * 16 + unat b div 16 < 64" "unat b mod 16 * 4 + unat c div 64 < 64"
    "unat c mod 64 < 64" "unat a mod 4 * 16 < 64" "unat b mod 16 * 4 < 64"
proof -
  have "unat a mod 4 < 4" "unat b mod 16 < 16" by simp_all
  then show "unat a mod 4 * 16 + unat b div 16 < 64" "unat b mod 16 * 4 + unat c div 64 < 64"
    "unat c mod 64 < 64" "unat a mod 4 * 16 < 64" "unat b mod 16 * 4 < 64"
    using byte_parts(2) [of b] byte_parts(3) [of c] by linarith+
qed

lemma byte_joins:
  fixes a b c :: "8 word"
  shows "unat a div 4 * 4 + (unat a mod 4 * 16 + unat b div 16) div 16 = unat a"
    "(unat a mod 4 * 16 + unat b div 16) mod 16 * 16 + (unat b mod 16 * 4 + unat c div 64) div 4 = unat b"
    "(unat b mod 16 * 4 + unat c div 64) mod 4 * 64 + unat c mod 64 = unat c"
    "unat a div 4 * 4 + unat a mod 4 * 16 div 16 = unat a"
    "(unat a mod 4 * 16 + unat b div 16) mod 16 * 16 + unat b mod 16 * 4 div 4 = unat b"
  using join_parts [OF byte_parts(2) [of b], of "unat a mod 4"]
    join_parts [OF byte_parts(3) [of c], of "unat b mod 16"] div_mult_mod_eq
  by simp_all

lemma decode_encode: "decodeBase64URL (encodeBase64URL bs) = bs"
  by (induction bs rule: encodeBase64URL.induct)
    (simp_all only: encodeBase64URL.simps decodeBase64URL.simps append.simps
      base64_index_char byte_parts byte_chars byte_joins byte_of_unat)

lemma bytes_value_snoc: "bytes_value (bs @ [b]) = bytes_value bs * 256 + unat b"
  by (simp add: bytes_value_def)

lemma big_Bytes_value: "bytes_value (big_Bytes n) = n"
proof (induction n rule: big_Bytes.induct)
  case (1 n)
  have "unat (word_of_nat n :: 8 word) = n mod 256" by (simp add: unat_of_nat)
  with 1 show ?case
    by (cases "n = 0") (simp_all add: big_Bytes.simps [of n] bytes_value_snoc,
      simp add: bytes_value_def big_Bytes.simps [of 0])
qed

lemma big_Bytes_leading: "big_Bytes n = [] \<or> hd (big_Bytes n) \<noteq> 0"
proof (induction n rule: big_Bytes.induct)
  case (1 n)
  show ?case
  proof (cases "n div 256 = 0")
    case True
    then have "n < 256" by simp
    then show ?thesis using True
      by (simp add: big_Bytes.simps [of n] big_Bytes.simps [of 0] word_of_nat_eq_0_iff nat_dvd_not_less)
  next
    case False
    then have "big_Bytes (n div 256) \<noteq> []" by (simp add: big_Bytes.simps [of "n div 256"])
    with 1 False show ?thesis by (auto simp: big_Bytes.simps [of n])
  qed
qed

lemma bytes_value_zero: "bytes_value (0 # bs) = bytes_value bs"
  by (simp add: bytes_value_def)

lemma trim_value: "bytes_value (trim_exponent bs) = bytes_value bs"
  by (induction bs rule: trim_exponent.induct) (auto simp: bytes_value_zero)

lemma trim_leading: "trim_exponent bs \<noteq> [] \<Longrightarrow> hd (trim_exponent bs) \<noteq> 0 \<or> length (trim_exponent bs) = 1"
  by (induction bs rule: trim_exponent.induct) auto

lemma byte_of_int: "unat (word_of_int k :: 8 word) = nat (k mod 256)"
  by (simp add: unat_eq_nat_uint uint_word_of_int_eq take_bit_eq_mod)

lemma exponent_bytes_value:
  assumes "0 \<le> e" and "e < 2 ^ 32"
  shows "bytes_value (exponent_bytes e) = nat e"
proof -
  let ?b = "\<lambda>k. int (unat (word_of_int (drop_bit k e) :: 8 word))"
  have b: "?b k = drop_bit k e mod 256" for k by (simp add: byte_of_int)
  have dv: "x div 256 = drop_bit 8 x" for x :: int by (simp add: drop_bit_eq_div)
  have "drop_bit 32 e = 0" using assms by (simp add: drop_bit_eq_div div_pos_pos_trivial)
  then have d: "drop_bit 24 e div 256 = 0" "drop_bit 16 e div 256 = drop_bit 24 e"
    "drop_bit 8 e div 256 = drop_bit 16 e" "e div 256 = drop_bit 8 e"
    by (simp_all only: dv drop_bit_drop_bit) simp_all
  have "int (bytes_value (exponent_bytes e)) = ((?b 24 * 256 + ?b 16) * 256 + ?b 8) * 256 + ?b 0"
    unfolding exponent_bytes_def trim_value by (simp add: bytes_value_def)
  also have "\<dots> = e"
  proof -
    have m: "x mod 256 = x - x div 256 * 256" for x :: int by (simp add: minus_div_mult_eq_mod)
    show ?thesis unfolding b m d by (simp add: algebra_simps d)
  qed
  finally show ?thesis by simp
qed

end
