(* ===== verification/Config.thy ===== *)
theory Config
  imports Go_Text
begin

text \<open>
  The configuration of the monolith (\<open>internal/config/config.go\<close>): defaults, the YAML file, and
  the environment variables that override both. The YAML parser and \<open>strconv.ParseFloat\<close> are
  parameters, as are the file system and the environment of the process.
\<close>

record ServerConfig =
  GRPCPort :: int
  MetricsPort :: int
  HTTPHealthPort :: int

record DatabaseConfig =
  db_URL :: string
  db_Host :: string
  db_Port :: int
  db_User :: string
  db_Password :: string
  db_DBName :: string

record RedisConfig =
  rc_Addr :: string
  rc_Password :: string
  rc_DB :: int

record AuthConfig =
  Issuer :: string
  AccessTTL :: string
  RefreshTTL :: string
  PrivateKeyPath :: string
  PublicKeyPath :: string
  KeyID :: string

record LogConfig =
  lc_Level :: string
  lc_Format :: string

record TraceConfig =
  Endpoint :: string
  Insecure :: bool
  SamplingRatio :: rat

record MetricsConfig =
  mc_Path :: string

record TelemetryConfig =
  ServiceName :: string
  Environment :: string
  tc_Log :: LogConfig
  tc_Trace :: TraceConfig
  tc_Metrics :: MetricsConfig

record Config =
  cfg_Server :: ServerConfig
  cfg_Database :: DatabaseConfig
  cfg_ParkingDatabase :: DatabaseConfig
  cfg_IoTDatabase :: DatabaseConfig
  cfg_Redis :: RedisConfig
  cfg_Auth :: AuthConfig
  cfg_Telemetry :: TelemetryConfig

definition DefaultPath :: string where
  "DefaultPath = ''configs/config.yaml''"

definition default_db :: "string \<Rightarrow> DatabaseConfig" where
  "default_db name =
     \<lparr>db_URL = [], db_Host = ''localhost'', db_Port = 3306, db_User = ''parkhub'',
      db_Password = ''parkhub'', db_DBName = name\<rparr>"

definition Default :: Config where
  "Default =
     \<lparr>cfg_Server = \<lparr>GRPCPort = 50051, MetricsPort = 9090, HTTPHealthPort = 8080\<rparr>,
      cfg_Database = default_db ''parkhub_identity'',
      cfg_ParkingDatabase = default_db ''parkhub_parking'',
      cfg_IoTDatabase = default_db ''parkhub_iot'',
      cfg_Redis = \<lparr>rc_Addr = ''localhost:6379'', rc_Password = [], rc_DB = 0\<rparr>,
      cfg_Auth = \<lparr>Issuer = ''parkhub'', AccessTTL = ''15m'', RefreshTTL = ''168h'',
                  PrivateKeyPath = ''configs/keys/jwt_private.pem'',
                  PublicKeyPath = ''configs/keys/jwt_public.pem'', KeyID = ''parkhub-2026-04''\<rparr>,
      cfg_Telemetry =
        \<lparr>ServiceName = ''parkhub-monolith'', Environment = ''development'',
         tc_Log = \<lparr>lc_Level = ''info'', lc_Format = ''json''\<rparr>,
         tc_Trace = \<lparr>Endpoint = ''localhost:4317'', Insecure = True, SamplingRatio = 1\<rparr>,
         tc_Metrics = \<lparr>mc_Path = ''/metrics''\<rparr>\<rparr>\<rparr>"

text \<open>
  \<open>DSN\<close>: the URL when one is set, the MySQL data source name of the parts otherwise.
\<close>

definition DSN :: "DatabaseConfig \<Rightarrow> string" where
  "DSN c =
     (if db_URL c \<noteq> [] then db_URL c
      else db_User c @ '':'' @ db_Password c @ ''@tcp('' @ db_Host c @ '':'' @ fmt_d (db_Port c) @
           '')/'' @ db_DBName c @ ''?charset=utf8mb4&parseTime=True&loc=Local'')"

definition mustInt :: "string \<Rightarrow> int \<Rightarrow> int" where
  "mustInt v fallback = (case strconv_Atoi v of None \<Rightarrow> fallback | Some parsed \<Rightarrow> parsed)"

definition mustBool :: "string \<Rightarrow> bool \<Rightarrow> bool" where
  "mustBool v fallback = (case strconv_ParseBool v of None \<Rightarrow> fallback | Some parsed \<Rightarrow> parsed)"

definition mustFloat :: "(string \<Rightarrow> rat option) \<Rightarrow> string \<Rightarrow> rat \<Rightarrow> rat" where
  "mustFloat parseFloat v fallback = (case parseFloat v of None \<Rightarrow> fallback | Some parsed \<Rightarrow> parsed)"

text \<open>
  \<open>if v := os.Getenv(name); v != "" { set(v) }\<close>: an unset variable reads as the empty text.
\<close>

definition override :: "(string \<Rightarrow> string) \<Rightarrow> string \<Rightarrow> (string \<Rightarrow> 'c \<Rightarrow> 'c) \<Rightarrow> 'c \<Rightarrow> 'c" where
  "override getenv name upd c = (if getenv name \<noteq> [] then upd (getenv name) c else c)"

definition override_db :: "(string \<Rightarrow> string) \<Rightarrow> string \<Rightarrow> string \<Rightarrow> DatabaseConfig \<Rightarrow> DatabaseConfig" where
  "override_db getenv url_prefix prefix c =
     override getenv (prefix @ ''NAME'') (\<lambda>v c. c\<lparr>db_DBName := v\<rparr>)
     (override getenv (prefix @ ''PASSWORD'') (\<lambda>v c. c\<lparr>db_Password := v\<rparr>)
     (override getenv (prefix @ ''USER'') (\<lambda>v c. c\<lparr>db_User := v\<rparr>)
     (override getenv (prefix @ ''PORT'') (\<lambda>v c. c\<lparr>db_Port := mustInt v (db_Port c)\<rparr>)
     (override getenv (prefix @ ''HOST'') (\<lambda>v c. c\<lparr>db_Host := v\<rparr>)
     (override getenv (url_prefix @ ''DATABASE_URL'') (\<lambda>v c. c\<lparr>db_URL := v\<rparr>) c)))))"

definition override_server :: "(string \<Rightarrow> string) \<Rightarrow> ServerConfig \<Rightarrow> ServerConfig" where
  "override_server getenv c =
     override getenv ''HTTP_HEALTH_PORT'' (\<lambda>v c. c\<lparr>HTTPHealthPort := mustInt v (HTTPHealthPort c)\<rparr>)
     (override getenv ''METRICS_PORT'' (\<lambda>v c. c\<lparr>MetricsPort := mustInt v (MetricsPort c)\<rparr>)
     (override getenv ''GRPC_PORT'' (\<lambda>v c. c\<lparr>GRPCPort := mustInt v (GRPCPort c)\<rparr>) c))"

definition override_redis :: "(string \<Rightarrow> string) \<Rightarrow> RedisConfig \<Rightarrow> RedisConfig" where
  "override_redis getenv c =
     override getenv ''REDIS_DB'' (\<lambda>v c. c\<lparr>rc_DB := mustInt v (rc_DB c)\<rparr>)
     (override getenv ''REDIS_PASSWORD'' (\<lambda>v c. c\<lparr>rc_Password := v\<rparr>)
     (override getenv ''REDIS_ADDR'' (\<lambda>v c. c\<lparr>rc_Addr := v\<rparr>) c))"

definition override_auth :: "(string \<Rightarrow> string) \<Rightarrow> AuthConfig \<Rightarrow> AuthConfig" where
  "override_auth getenv c =
     override getenv ''AUTH_KEY_ID'' (\<lambda>v c. c\<lparr>KeyID := v\<rparr>)
     (override getenv ''AUTH_PUBLIC_KEY_PATH'' (\<lambda>v c. c\<lparr>PublicKeyPath := v\<rparr>)
     (override getenv ''AUTH_PRIVATE_KEY_PATH'' (\<lambda>v c. c\<lparr>PrivateKeyPath := v\<rparr>)
     (override getenv ''AUTH_REFRESH_TTL'' (\<lambda>v c. c\<lparr>RefreshTTL := v\<rparr>)
     (override getenv ''AUTH_ACCESS_TTL'' (\<lambda>v c. c\<lparr>AccessTTL := v\<rparr>)
     (override getenv ''AUTH_ISSUER'' (\<lambda>v c. c\<lparr>Issuer := v\<rparr>) c)))))"

definition override_telemetry ::
  "(string \<Rightarrow> rat option) \<Rightarrow> (string \<Rightarrow> string) \<Rightarrow> TelemetryConfig \<Rightarrow> TelemetryConfig" where
  "override_telemetry parseFloat getenv c =
     override getenv ''METRICS_PATH'' (\<lambda>v c. c\<lparr>tc_Metrics := (tc_Metrics c)\<lparr>mc_Path := v\<rparr>\<rparr>)
     (override getenv ''OTEL_TRACE_SAMPLING_RATIO''
        (\<lambda>v c. c\<lparr>tc_Trace := (tc_Trace c)\<lparr>SamplingRatio := mustFloat parseFloat v (SamplingRatio (tc_Trace c))\<rparr>\<rparr>)
     (override getenv ''OTEL_TRACE_INSECURE''
        (\<lambda>v c. c\<lparr>tc_Trace := (tc_Trace c)\<lparr>Insecure := mustBool v (Insecure (tc_Trace c))\<rparr>\<rparr>)
     (override getenv ''OTEL_TRACE_ENDPOINT'' (\<lambda>v c. c\<lparr>tc_Trace := (tc_Trace c)\<lparr>Endpoint := v\<rparr>\<rparr>)
     (override getenv ''LOG_FORMAT'' (\<lambda>v c. c\<lparr>tc_Log := (tc_Log c)\<lparr>lc_Format := v\<rparr>\<rparr>)
     (override getenv ''LOG_LEVEL'' (\<lambda>v c. c\<lparr>tc_Log := (tc_Log c)\<lparr>lc_Level := v\<rparr>\<rparr>)
     (override getenv ''OTEL_ENVIRONMENT'' (\<lambda>v c. c\<lparr>Environment := v\<rparr>)
     (override getenv ''OTEL_SERVICE_NAME'' (\<lambda>v c. c\<lparr>ServiceName := v\<rparr>) c)))))))"

definition applyEnvOverrides ::
  "(string \<Rightarrow> rat option) \<Rightarrow> (string \<Rightarrow> string) \<Rightarrow> Config \<Rightarrow> Config" where
  "applyEnvOverrides parseFloat getenv cfg =
     cfg\<lparr>cfg_Server := override_server getenv (cfg_Server cfg),
         cfg_Database := override_db getenv [] ''DB_'' (cfg_Database cfg),
         cfg_ParkingDatabase := override_db getenv ''PARKING_'' ''PARKING_DB_'' (cfg_ParkingDatabase cfg),
         cfg_IoTDatabase := override_db getenv ''IOT_'' ''IOT_DB_'' (cfg_IoTDatabase cfg),
         cfg_Redis := override_redis getenv (cfg_Redis cfg),
         cfg_Auth := override_auth getenv (cfg_Auth cfg),
         cfg_Telemetry := override_telemetry parseFloat getenv (cfg_Telemetry cfg)\<rparr>"

text \<open>
  The operating system: a file is there, is not there, or cannot be read. \<open>yaml\<close> is
  \<open>yaml.Unmarshal(data, &cfg)\<close> on a configuration already filled in.
\<close>

datatype file_read = ReadOk string | NotExist | ReadErr go_error

record sys_env =
  sys_ReadFile :: "string \<Rightarrow> file_read"
  sys_Getenv :: "string \<Rightarrow> string"
  sys_yaml :: "string \<Rightarrow> Config \<Rightarrow> go_error + Config"
  sys_ParseFloat :: "string \<Rightarrow> rat option"

definition Load :: "sys_env \<Rightarrow> string \<Rightarrow> go_error + Config" where
  "Load sys path0 =
     (let path = (if path0 = [] then DefaultPath else path0);
          finish = applyEnvOverrides (sys_ParseFloat sys) (sys_Getenv sys)
      in case sys_ReadFile sys path of
           ReadErr e \<Rightarrow> Inl (Wrap ''read config file: '' e)
         | NotExist \<Rightarrow> Inr (finish Default)
         | ReadOk data \<Rightarrow>
             (case sys_yaml sys data Default of
                Inl e \<Rightarrow> Inl (Wrap ''unmarshal config file: '' e)
              | Inr cfg \<Rightarrow> Inr (finish cfg)))"

text \<open>\<open>ParseTTL\<close> of the identity service, on the lifetimes of the configuration.\<close>

definition ParseTTL :: "string \<Rightarrow> int" where
  "ParseTTL s = (case time_ParseDuration s of None \<Rightarrow> 15 * time_minute | Some d \<Rightarrow> d)"

section \<open>Which value wins\<close>

definition env_text :: "(string \<Rightarrow> string) \<Rightarrow> string \<Rightarrow> string \<Rightarrow> string" where
  "env_text env n old = (if env n = [] then old else env n)"

definition env_num :: "(string \<Rightarrow> string) \<Rightarrow> string \<Rightarrow> int \<Rightarrow> int" where
  "env_num env n old = (case strconv_Atoi (env n) of None \<Rightarrow> old | Some v \<Rightarrow> v)"

definition env_flag :: "(string \<Rightarrow> string) \<Rightarrow> string \<Rightarrow> bool \<Rightarrow> bool" where
  "env_flag env n old = (case strconv_ParseBool (env n) of None \<Rightarrow> old | Some v \<Rightarrow> v)"

definition env_ratio ::
  "(string \<Rightarrow> rat option) \<Rightarrow> (string \<Rightarrow> string) \<Rightarrow> string \<Rightarrow> rat \<Rightarrow> rat" where
  "env_ratio parseFloat env n old =
     (if env n = [] then old else case parseFloat (env n) of None \<Rightarrow> old | Some v \<Rightarrow> v)"

lemma env_num_override: "(if env n \<noteq> [] then mustInt (env n) old else old) = env_num env n old"
  by (simp add: env_num_def mustInt_def strconv_Atoi_def)

lemma override_db_fields:
  "override_db env u p c =
     \<lparr>db_URL = env_text env (u @ ''DATABASE_URL'') (db_URL c),
      db_Host = env_text env (p @ ''HOST'') (db_Host c),
      db_Port = env_num env (p @ ''PORT'') (db_Port c),
      db_User = env_text env (p @ ''USER'') (db_User c),
      db_Password = env_text env (p @ ''PASSWORD'') (db_Password c),
      db_DBName = env_text env (p @ ''NAME'') (db_DBName c)\<rparr>"
proof -
  have i: "override env n (\<lambda>v c. c\<lparr>db_URL := v\<rparr>) c = c\<lparr>db_URL := env_text env n (db_URL c)\<rparr>"
    "override env n (\<lambda>v c. c\<lparr>db_Host := v\<rparr>) c = c\<lparr>db_Host := env_text env n (db_Host c)\<rparr>"
    "override env n (\<lambda>v c. c\<lparr>db_Port := mustInt v (db_Port c)\<rparr>) c = c\<lparr>db_Port := env_num env n (db_Port c)\<rparr>"
    "override env n (\<lambda>v c. c\<lparr>db_User := v\<rparr>) c = c\<lparr>db_User := env_text env n (db_User c)\<rparr>"
    "override env n (\<lambda>v c. c\<lparr>db_Password := v\<rparr>) c = c\<lparr>db_Password := env_text env n (db_Password c)\<rparr>"
    "override env n (\<lambda>v c. c\<lparr>db_DBName := v\<rparr>) c = c\<lparr>db_DBName := env_text env n (db_DBName c)\<rparr>"
    for n and c :: DatabaseConfig
    by (simp_all add: override_def env_text_def flip: env_num_override)
  show ?thesis by (cases c) (simp add: override_db_def i)
qed

lemma override_auth_fields:
  "override_auth env c =
     \<lparr>Issuer = env_text env ''AUTH_ISSUER'' (Issuer c),
      AccessTTL = env_text env ''AUTH_ACCESS_TTL'' (AccessTTL c),
      RefreshTTL = env_text env ''AUTH_REFRESH_TTL'' (RefreshTTL c),
      PrivateKeyPath = env_text env ''AUTH_PRIVATE_KEY_PATH'' (PrivateKeyPath c),
      PublicKeyPath = env_text env ''AUTH_PUBLIC_KEY_PATH'' (PublicKeyPath c),
      KeyID = env_text env ''AUTH_KEY_ID'' (KeyID c)\<rparr>"
proof -
  have i: "override env n (\<lambda>v c. c\<lparr>Issuer := v\<rparr>) c = c\<lparr>Issuer := env_text env n (Issuer c)\<rparr>"
    "override env n (\<lambda>v c. c\<lparr>AccessTTL := v\<rparr>) c = c\<lparr>AccessTTL := env_text env n (AccessTTL c)\<rparr>"
    "override env n (\<lambda>v c. c\<lparr>RefreshTTL := v\<rparr>) c = c\<lparr>RefreshTTL := env_text env n (RefreshTTL c)\<rparr>"
    "override env n (\<lambda>v c. c\<lparr>PrivateKeyPath := v\<rparr>) c = c\<lparr>PrivateKeyPath := env_text env n (PrivateKeyPath c)\<rparr>"
    "override env n (\<lambda>v c. c\<lparr>PublicKeyPath := v\<rparr>) c = c\<lparr>PublicKeyPath := env_text env n (PublicKeyPath c)\<rparr>"
    "override env n (\<lambda>v c. c\<lparr>KeyID := v\<rparr>) c = c\<lparr>KeyID := env_text env n (KeyID c)\<rparr>"
    for n and c :: AuthConfig
    by (simp_all add: override_def env_text_def)
  show ?thesis by (cases c) (simp add: override_auth_def i)
qed

lemma override_server_fields:
  "override_server env c =
     \<lparr>GRPCPort = env_num env ''GRPC_PORT'' (GRPCPort c),
      MetricsPort = env_num env ''METRICS_PORT'' (MetricsPort c),
      HTTPHealthPort = env_num env ''HTTP_HEALTH_PORT'' (HTTPHealthPort c)\<rparr>"
proof -
  have i: "override env n (\<lambda>v c. c\<lparr>GRPCPort := mustInt v (GRPCPort c)\<rparr>) c = c\<lparr>GRPCPort := env_num env n (GRPCPort c)\<rparr>"
    "override env n (\<lambda>v c. c\<lparr>MetricsPort := mustInt v (MetricsPort c)\<rparr>) c = c\<lparr>MetricsPort := env_num env n (MetricsPort c)\<rparr>"
    "override env n (\<lambda>v c. c\<lparr>HTTPHealthPort := mustInt v (HTTPHealthPort c)\<rparr>) c = c\<lparr>HTTPHealthPort := env_num env n (HTTPHealthPort c)\<rparr>"
    for n and c :: ServerConfig
    by (simp_all add: override_def flip: env_num_override)
  show ?thesis by (cases c) (simp add: override_server_def i)
qed

lemma override_redis_fields:
  "override_redis env c =
     \<lparr>rc_Addr = env_text env ''REDIS_ADDR'' (rc_Addr c),
      rc_Password = env_text env ''REDIS_PASSWORD'' (rc_Password c),
      rc_DB = env_num env ''REDIS_DB'' (rc_DB c)\<rparr>"
proof -
  have i: "override env n (\<lambda>v c. c\<lparr>rc_Addr := v\<rparr>) c = c\<lparr>rc_Addr := env_text env n (rc_Addr c)\<rparr>"
    "override env n (\<lambda>v c. c\<lparr>rc_Password := v\<rparr>) c = c\<lparr>rc_Password := env_text env n (rc_Password c)\<rparr>"
    "override env n (\<lambda>v c. c\<lparr>rc_DB := mustInt v (rc_DB c)\<rparr>) c = c\<lparr>rc_DB := env_num env n (rc_DB c)\<rparr>"
    for n and c :: RedisConfig
    by (simp_all add: override_def env_text_def flip: env_num_override)
  show ?thesis by (cases c) (simp add: override_redis_def i)
qed

lemma env_flag_override: "(if env n \<noteq> [] then mustBool (env n) old else old) = env_flag env n old"
  by (simp add: env_flag_def mustBool_def strconv_ParseBool_def)

lemma override_telemetry_fields:
  "override_telemetry pf env c =
     \<lparr>ServiceName = env_text env ''OTEL_SERVICE_NAME'' (ServiceName c),
      Environment = env_text env ''OTEL_ENVIRONMENT'' (Environment c),
      tc_Log = \<lparr>lc_Level = env_text env ''LOG_LEVEL'' (lc_Level (tc_Log c)),
                lc_Format = env_text env ''LOG_FORMAT'' (lc_Format (tc_Log c))\<rparr>,
      tc_Trace = \<lparr>Endpoint = env_text env ''OTEL_TRACE_ENDPOINT'' (Endpoint (tc_Trace c)),
                  Insecure = env_flag env ''OTEL_TRACE_INSECURE'' (Insecure (tc_Trace c)),
                  SamplingRatio = env_ratio pf env ''OTEL_TRACE_SAMPLING_RATIO'' (SamplingRatio (tc_Trace c))\<rparr>,
      tc_Metrics = \<lparr>mc_Path = env_text env ''METRICS_PATH'' (mc_Path (tc_Metrics c))\<rparr>\<rparr>"
proof -
  have i: "override env n (\<lambda>v c. c\<lparr>ServiceName := v\<rparr>) c = c\<lparr>ServiceName := env_text env n (ServiceName c)\<rparr>"
    "override env n (\<lambda>v c. c\<lparr>Environment := v\<rparr>) c = c\<lparr>Environment := env_text env n (Environment c)\<rparr>"
    "override env n (\<lambda>v c. c\<lparr>tc_Log := (tc_Log c)\<lparr>lc_Level := v\<rparr>\<rparr>) c =
       c\<lparr>tc_Log := (tc_Log c)\<lparr>lc_Level := env_text env n (lc_Level (tc_Log c))\<rparr>\<rparr>"
    "override env n (\<lambda>v c. c\<lparr>tc_Log := (tc_Log c)\<lparr>lc_Format := v\<rparr>\<rparr>) c =
       c\<lparr>tc_Log := (tc_Log c)\<lparr>lc_Format := env_text env n (lc_Format (tc_Log c))\<rparr>\<rparr>"
    "override env n (\<lambda>v c. c\<lparr>tc_Trace := (tc_Trace c)\<lparr>Endpoint := v\<rparr>\<rparr>) c =
       c\<lparr>tc_Trace := (tc_Trace c)\<lparr>Endpoint := env_text env n (Endpoint (tc_Trace c))\<rparr>\<rparr>"
    "override env n (\<lambda>v c. c\<lparr>tc_Trace := (tc_Trace c)\<lparr>Insecure := mustBool v (Insecure (tc_Trace c))\<rparr>\<rparr>) c =
       c\<lparr>tc_Trace := (tc_Trace c)\<lparr>Insecure := env_flag env n (Insecure (tc_Trace c))\<rparr>\<rparr>"
    "override env n (\<lambda>v c. c\<lparr>tc_Trace := (tc_Trace c)\<lparr>SamplingRatio := mustFloat pf v (SamplingRatio (tc_Trace c))\<rparr>\<rparr>) c =
       c\<lparr>tc_Trace := (tc_Trace c)\<lparr>SamplingRatio := env_ratio pf env n (SamplingRatio (tc_Trace c))\<rparr>\<rparr>"
    "override env n (\<lambda>v c. c\<lparr>tc_Metrics := (tc_Metrics c)\<lparr>mc_Path := v\<rparr>\<rparr>) c =
       c\<lparr>tc_Metrics := (tc_Metrics c)\<lparr>mc_Path := env_text env n (mc_Path (tc_Metrics c))\<rparr>\<rparr>"
    for n and c :: TelemetryConfig
    by (simp_all add: override_def env_text_def env_ratio_def mustFloat_def flip: env_flag_override)
  show ?thesis
    by (cases c; cases "tc_Log c"; cases "tc_Trace c"; cases "tc_Metrics c") (simp add: override_telemetry_def i)
qed

text \<open>
  C35: every field of the configuration that \<open>Load\<close> answers. Each is overridden by one environment
  variable, named here: when the variable is set, a text is taken as it is, and a number, a
  Boolean or a ratio is taken when it parses and ignored when it does not. Otherwise the field is
  what the YAML parser made of the file, which it reads on top of the defaults, or the default
  itself when the file is not there. A file that cannot be read, and one that the parser
  refuses, is an error that wraps the cause.
\<close>

theorem env_overrides:
  "let text = env_text (sys_Getenv sys); num = env_num (sys_Getenv sys);
       flag = env_flag (sys_Getenv sys); ratio = env_ratio (sys_ParseFloat sys) (sys_Getenv sys);
       db = (\<lambda>u p c. \<lparr>db_URL = text (u @ ''DATABASE_URL'') (db_URL c),
         db_Host = text (p @ ''HOST'') (db_Host c), db_Port = num (p @ ''PORT'') (db_Port c),
         db_User = text (p @ ''USER'') (db_User c),
         db_Password = text (p @ ''PASSWORD'') (db_Password c),
         db_DBName = text (p @ ''NAME'') (db_DBName c)\<rparr>);
       overridden = (\<lambda>base.
         \<lparr>cfg_Server =
            \<lparr>GRPCPort = num ''GRPC_PORT'' (GRPCPort (cfg_Server base)),
             MetricsPort = num ''METRICS_PORT'' (MetricsPort (cfg_Server base)),
             HTTPHealthPort = num ''HTTP_HEALTH_PORT'' (HTTPHealthPort (cfg_Server base))\<rparr>,
          cfg_Database = db [] ''DB_'' (cfg_Database base),
          cfg_ParkingDatabase = db ''PARKING_'' ''PARKING_DB_'' (cfg_ParkingDatabase base),
          cfg_IoTDatabase = db ''IOT_'' ''IOT_DB_'' (cfg_IoTDatabase base),
          cfg_Redis =
            \<lparr>rc_Addr = text ''REDIS_ADDR'' (rc_Addr (cfg_Redis base)),
             rc_Password = text ''REDIS_PASSWORD'' (rc_Password (cfg_Redis base)),
             rc_DB = num ''REDIS_DB'' (rc_DB (cfg_Redis base))\<rparr>,
          cfg_Auth =
            \<lparr>Issuer = text ''AUTH_ISSUER'' (Issuer (cfg_Auth base)),
             AccessTTL = text ''AUTH_ACCESS_TTL'' (AccessTTL (cfg_Auth base)),
             RefreshTTL = text ''AUTH_REFRESH_TTL'' (RefreshTTL (cfg_Auth base)),
             PrivateKeyPath = text ''AUTH_PRIVATE_KEY_PATH'' (PrivateKeyPath (cfg_Auth base)),
             PublicKeyPath = text ''AUTH_PUBLIC_KEY_PATH'' (PublicKeyPath (cfg_Auth base)),
             KeyID = text ''AUTH_KEY_ID'' (KeyID (cfg_Auth base))\<rparr>,
          cfg_Telemetry =
            \<lparr>ServiceName = text ''OTEL_SERVICE_NAME'' (ServiceName (cfg_Telemetry base)),
             Environment = text ''OTEL_ENVIRONMENT'' (Environment (cfg_Telemetry base)),
             tc_Log =
               \<lparr>lc_Level = text ''LOG_LEVEL'' (lc_Level (tc_Log (cfg_Telemetry base))),
                lc_Format = text ''LOG_FORMAT'' (lc_Format (tc_Log (cfg_Telemetry base)))\<rparr>,
             tc_Trace =
               \<lparr>Endpoint = text ''OTEL_TRACE_ENDPOINT'' (Endpoint (tc_Trace (cfg_Telemetry base))),
                Insecure = flag ''OTEL_TRACE_INSECURE'' (Insecure (tc_Trace (cfg_Telemetry base))),
                SamplingRatio = ratio ''OTEL_TRACE_SAMPLING_RATIO''
                  (SamplingRatio (tc_Trace (cfg_Telemetry base)))\<rparr>,
             tc_Metrics = \<lparr>mc_Path = text ''METRICS_PATH'' (mc_Path (tc_Metrics (cfg_Telemetry base)))\<rparr>\<rparr>\<rparr>)
   in Load sys path =
        (case sys_ReadFile sys (if path = [] then DefaultPath else path) of
           ReadErr e \<Rightarrow> Inl (Wrap ''read config file: '' e)
         | NotExist \<Rightarrow> Inr (overridden Default)
         | ReadOk data \<Rightarrow>
             map_sum (Wrap ''unmarshal config file: '') overridden (sys_yaml sys data Default))"
proof -
  have "applyEnvOverrides (sys_ParseFloat sys) (sys_Getenv sys) base =
      \<lparr>cfg_Server = override_server (sys_Getenv sys) (cfg_Server base),
       cfg_Database = override_db (sys_Getenv sys) [] ''DB_'' (cfg_Database base),
       cfg_ParkingDatabase = override_db (sys_Getenv sys) ''PARKING_'' ''PARKING_DB_'' (cfg_ParkingDatabase base),
       cfg_IoTDatabase = override_db (sys_Getenv sys) ''IOT_'' ''IOT_DB_'' (cfg_IoTDatabase base),
       cfg_Redis = override_redis (sys_Getenv sys) (cfg_Redis base),
       cfg_Auth = override_auth (sys_Getenv sys) (cfg_Auth base),
       cfg_Telemetry = override_telemetry (sys_ParseFloat sys) (sys_Getenv sys) (cfg_Telemetry base)\<rparr>" for base
    by (cases base) (simp add: applyEnvOverrides_def)
  then show ?thesis
    unfolding override_server_fields override_db_fields override_redis_fields override_auth_fields
      override_telemetry_fields
    by (simp add: Load_def Let_def split: file_read.split sum.split)
qed

definition sys_example :: sys_env where
  "sys_example =
     \<lparr>sys_ReadFile = (\<lambda>p. if p = ''configs/config.yaml'' then NotExist else ReadErr (Opaque ''denied'')),
      sys_Getenv = (\<lambda>n. if n = ''GRPC_PORT'' then ''6000'' else if n = ''DB_PORT'' then ''many''
                        else if n = ''AUTH_ISSUER'' then ''me'' else if n = ''OTEL_TRACE_INSECURE'' then ''false''
                        else []),
      sys_yaml = (\<lambda>data c. Inr c), sys_ParseFloat = (\<lambda>v. None)\<rparr>"

lemma env_overrides_witness:
  "\<exists>cfg. Load sys_example [] = Inr cfg \<and> GRPCPort (cfg_Server cfg) = 6000 \<and>
     db_Port (cfg_Database cfg) = 3306 \<and> Issuer (cfg_Auth cfg) = ''me'' \<and>
     Insecure (tc_Trace (cfg_Telemetry cfg)) = False \<and> rc_DB (cfg_Redis cfg) = 0"
proof -
  have "env_num (sys_Getenv sys_example) ''GRPC_PORT'' 50051 = 6000"
    "env_num (sys_Getenv sys_example) ''DB_PORT'' 3306 = 3306"
    "env_num (sys_Getenv sys_example) ''REDIS_DB'' 0 = 0"
    "env_flag (sys_Getenv sys_example) ''OTEL_TRACE_INSECURE'' True = False"
    "env_text (sys_Getenv sys_example) ''AUTH_ISSUER'' x = ''me''" for x
    by (simp_all add: env_num_def env_flag_def env_text_def sys_example_def strconv_Atoi_def
        strconv_ParseBool_def is_digit_def digit_value_def)
  moreover have "sys_ReadFile sys_example DefaultPath = NotExist"
    by (simp add: sys_example_def DefaultPath_def)
  ultimately show ?thesis
    using env_overrides [of sys_example "[]"] by (simp add: Let_def Default_def default_db_def)
qed

text \<open>
  C36: a lifetime written as one decimal number with a unit (15m, 168h) is that many
  nanoseconds when it fits in 64 bits; a lifetime that does not fit falls back to fifteen
  minutes, as a text that is no duration does.
\<close>

theorem parse_ttl:
  assumes "list_all is_digit ds" and "ds \<noteq> []" and "duration_unit u = Some m"
  shows "ParseTTL (ds @ u) =
           (if dec_value 0 ds * m < 2 ^ 63 then dec_value 0 ds * m else 15 * time_minute) \<and>
         ParseTTL (ds @ ''d'') = 15 * time_minute"
  using duration_one_unit [OF assms] duration_bad_unit [OF assms(1,2)] by (simp add: ParseTTL_def)

lemma parse_ttl_witness:
  "ParseTTL ''168h'' = 604800000000000 \<and> ParseTTL ''7d'' = 900000000000"
  using parse_ttl [of "''168''" "''h''"] parse_ttl [of "''7''" "''h''"]
  by (simp add: duration_unit_def is_digit_def digit_value_def)

end
