(* ===== verification/Auth.thy ===== *)
theory Auth
  imports User_Service Sms Jwt Config
begin

text \<open>
  Authentication: the refresh-token repository over Redis
  (\<open>repository/cache/refresh_token_repo.go\<close>), the service that logs users in by password or SMS
  code, refreshes and revokes tokens (\<open>service/auth_service.go\<close>), and its gRPC server
  (\<open>grpc/auth_server.go\<close>). \<open>jwt.NewNumericDate\<close> is the argument \<open>date\<close>.
\<close>

section \<open>Refresh tokens\<close>

record ('j, 's) RefreshTokenRepo =
  rtr_Save :: "string \<Rightarrow> string \<Rightarrow> int \<Rightarrow> (unit, 's) io"
  rtr_Consume :: "string \<Rightarrow> ('j redis_val \<times> bool, 's) io"
  rtr_Revoke :: "string \<Rightarrow> (unit, 's) io"

definition refreshKey :: "string \<Rightarrow> string" where
  "refreshKey jti = ''auth:refresh:'' @ jti"

definition RedisRefreshTokenRepo_Save ::
  "('j, 's) redis \<Rightarrow> string \<Rightarrow> string \<Rightarrow> int \<Rightarrow> (unit, 's) io" where
  "RedisRefreshTokenRepo_Save rd jti userID ttl = rd_SET rd (refreshKey jti) (RText userID) ttl"

text \<open>The script returns false for a missing key, which the client reports as \<open>redis.Nil\<close>.\<close>

definition consumeScript :: "('j, 's) redis \<Rightarrow> string \<Rightarrow> ('j redis_val, 's) io" where
  "consumeScript rd key =
     bind_io (rd_GET rd key) (\<lambda>val.
       case val of
         None \<Rightarrow> fail_io redis_nil
       | Some v \<Rightarrow> bind_io (rd_DEL rd key) (\<lambda>_. return_io v))"

definition RedisRefreshTokenRepo_Consume ::
  "('j, 's) redis \<Rightarrow> string \<Rightarrow> ('j redis_val \<times> bool, 's) io" where
  "RedisRefreshTokenRepo_Consume rd jti =
     try_io (consumeScript rd (refreshKey jti)) (\<lambda>r.
       case r of
         Inl err \<Rightarrow> if err = redis_nil then return_io (RText [], False) else fail_io err
       | Inr v \<Rightarrow> return_io (v, True))"

definition RedisRefreshTokenRepo_Revoke :: "('j, 's) redis \<Rightarrow> string \<Rightarrow> (unit, 's) io" where
  "RedisRefreshTokenRepo_Revoke rd jti = rd_DEL rd (refreshKey jti)"

definition NewRedisRefreshTokenRepo :: "('j, 's) redis \<Rightarrow> ('j, 's) RefreshTokenRepo" where
  "NewRedisRefreshTokenRepo rd =
     \<lparr>rtr_Save = RedisRefreshTokenRepo_Save rd, rtr_Consume = RedisRefreshTokenRepo_Consume rd,
      rtr_Revoke = RedisRefreshTokenRepo_Revoke rd\<rparr>"

section \<open>Service\<close>

record LoginRequest =
  lor_Username :: string
  lor_Password :: string

record SmsLoginRequest =
  slr_Phone :: string
  slr_Code :: string

record LoginResponse =
  lo_TokenPair :: TokenPair
  lo_User :: user
  lo_AccessExpiresIn :: int

record RefreshTokenRequest =
  rtq_RefreshToken :: string

record RefreshTokenResponse =
  rtp_TokenPair :: TokenPair
  rtp_AccessExpiresIn :: int

record LogoutRequest =
  loq_RefreshToken :: string

type_synonym 's SmsCodeVerifier = "string \<Rightarrow> string \<Rightarrow> (unit, 's) io"

record ('j, 's) authService =
  as_userRepo :: "'s user_repo"
  as_refreshRepo :: "('j, 's) RefreshTokenRepo"
  as_signer :: "'s TokenSigner"
  as_smsVerifier :: "'s SmsCodeVerifier"
  as_cfg :: AuthConfig
  as_accessTTL :: int
  as_refreshTTL :: int

definition NewAuthService ::
  "'s user_repo \<Rightarrow> ('j, 's) RefreshTokenRepo \<Rightarrow> 's TokenSigner \<Rightarrow> AuthConfig \<Rightarrow> 's SmsCodeVerifier \<Rightarrow>
   ('j, 's) authService" where
  "NewAuthService userRepo refreshRepo signer cfg smsVerifier =
     \<lparr>as_userRepo = userRepo, as_refreshRepo = refreshRepo, as_signer = signer,
      as_smsVerifier = smsVerifier, as_cfg = cfg, as_accessTTL = ParseTTL (AccessTTL cfg),
      as_refreshTTL = ParseTTL (RefreshTTL cfg)\<rparr>"

definition stringPtrValue :: "string option \<Rightarrow> string" where
  "stringPtrValue s = (case s of None \<Rightarrow> [] | Some v \<Rightarrow> v)"

definition jwtRegisteredClaims ::
  "(int \<Rightarrow> int) \<Rightarrow> string \<Rightarrow> string \<Rightarrow> string \<Rightarrow> int \<Rightarrow> int \<Rightarrow> RegisteredClaims" where
  "jwtRegisteredClaims date sub iss jti issuedAt expiresAt =
     \<lparr>rcl_Subject = sub, rcl_Issuer = iss, rcl_ID = jti, rcl_IssuedAt = date issuedAt,
      rcl_ExpiresAt = date expiresAt\<rparr>"

definition authService_generateTokenPair ::
  "'s go_env \<Rightarrow> (int \<Rightarrow> int) \<Rightarrow> ('j, 's) authService \<Rightarrow> user \<Rightarrow> (TokenPair, 's) io" where
  "authService_generateTokenPair env date s u =
     bind_io (ask_io (time_Now env)) (\<lambda>now.
     let accessExpiresAt = now + as_accessTTL s;
         refreshExpiresAt = now + as_refreshTTL s
     in bind_io (ask_io (uuid_New env)) (\<lambda>accessJTI.
        bind_io (ts_Sign (as_signer s)
          \<lparr>cl_TokenUse = TokenUseAccess, cl_UserID = u_ID u,
           cl_TenantID = stringPtrValue (u_TenantID u), cl_Role = u_Role u,
           cl_Key = KeyID (as_cfg s),
           cl_Registered = jwtRegisteredClaims date (u_ID u) (Issuer (as_cfg s)) accessJTI now
             accessExpiresAt\<rparr>) (\<lambda>accessToken.
        bind_io (ask_io (uuid_New env)) (\<lambda>refreshJTI.
        bind_io (ts_Sign (as_signer s)
          \<lparr>cl_TokenUse = TokenUseRefresh, cl_UserID = [], cl_TenantID = [], cl_Role = [], cl_Key = [],
           cl_Registered = jwtRegisteredClaims date (u_ID u) (Issuer (as_cfg s)) refreshJTI now
             refreshExpiresAt\<rparr>) (\<lambda>refreshToken.
        bind_io (rtr_Save (as_refreshRepo s) refreshJTI (u_ID u) (as_refreshTTL s)) (\<lambda>_.
        return_io \<lparr>tp_AccessToken = accessToken, tp_RefreshToken = refreshToken,
                   tp_AccessExpiresAt = accessExpiresAt,
                   tp_RefreshExpiresAt = refreshExpiresAt\<rparr>))))))"

text \<open>\<open>int32(s.accessTTL.Seconds())\<close>.\<close>

definition access_expires_in :: "('j, 's) authService \<Rightarrow> int" where
  "access_expires_in s = i32 (go_trunc (Duration_Seconds (as_accessTTL s)))"

text \<open>
  The common end of the two logins: refuse a user that is not active, make the tokens, and save
  the time of the login, whatever comes of that.
\<close>

definition login_user ::
  "'s go_env \<Rightarrow> (int \<Rightarrow> int) \<Rightarrow> ('j, 's) authService \<Rightarrow> user \<Rightarrow> (LoginResponse, 's) io" where
  "login_user env date s u =
     (if \<not> User_IsActive u then fail_io (ident ErrUserFrozen)
      else bind_io (authService_generateTokenPair env date s u) (\<lambda>pair.
           bind_io (ask_io (time_Now env)) (\<lambda>now.
           let u = u\<lparr>u_LastLoginAt := Some now\<rparr>
           in bind_io (ignore_io (urp_Update (as_userRepo s) u)) (\<lambda>_.
              return_io \<lparr>lo_TokenPair = pair, lo_User = u,
                         lo_AccessExpiresIn = access_expires_in s\<rparr>))))"

definition hide_not_found :: "go_error \<Rightarrow> go_error" where
  "hide_not_found err =
     (if errors_Is err (IdentityErr ErrUserNotFound) then ident ErrInvalidCredentials else err)"

definition authService_Login ::
  "'s go_env \<Rightarrow> (int \<Rightarrow> int) \<Rightarrow> ('j, 's) authService \<Rightarrow> LoginRequest \<Rightarrow> (LoginResponse, 's) io" where
  "authService_Login env date s req =
     bind_io (map_err_io hide_not_found (urp_GetByUsername (as_userRepo s) (lor_Username req))) (\<lambda>u.
       if \<not> bcrypt_Compare env (u_PasswordHash u) (lor_Password req)
       then fail_io (ident ErrInvalidCredentials)
       else login_user env date s u)"

definition isSmsCredentialError :: "go_error \<Rightarrow> bool" where
  "isSmsCredentialError err =
     (errors_Is err (SmsErr ErrCodeNotFound) \<or> errors_Is err (SmsErr ErrCodeExpired) \<or>
      errors_Is err (SmsErr ErrCodeUsed) \<or> errors_Is err (SmsErr ErrCodeMismatch))"

definition authService_SmsLogin ::
  "'s go_env \<Rightarrow> (int \<Rightarrow> int) \<Rightarrow> ('j, 's) authService \<Rightarrow> SmsLoginRequest \<Rightarrow> (LoginResponse, 's) io" where
  "authService_SmsLogin env date s req =
     bind_io (map_err_io (\<lambda>err. if isSmsCredentialError err then ident ErrInvalidCredentials else err)
                (as_smsVerifier s (slr_Phone req) (slr_Code req))) (\<lambda>_.
     bind_io (map_err_io hide_not_found (urp_GetByPhone (as_userRepo s) (slr_Phone req)))
       (login_user env date s))"

definition authService_RefreshToken ::
  "'s go_env \<Rightarrow> (int \<Rightarrow> int) \<Rightarrow> ('j, 's) authService \<Rightarrow> RefreshTokenRequest \<Rightarrow>
   (RefreshTokenResponse, 's) io" where
  "authService_RefreshToken env date s req =
     bind_io (map_err_io (\<lambda>_. ident ErrRefreshTokenInvalid)
                (ts_Verify (as_signer s) (rtq_RefreshToken req))) (\<lambda>claims.
     if cl_TokenUse claims \<noteq> TokenUseRefresh then fail_io (ident ErrRefreshTokenInvalid)
     else bind_io (rtr_Consume (as_refreshRepo s) (rcl_ID (cl_Registered claims))) (\<lambda>(_, ok).
          if \<not> ok then fail_io (ident ErrRefreshTokenRevoked)
          else bind_io (urp_GetByID (as_userRepo s) (rcl_Subject (cl_Registered claims))) (\<lambda>u.
               if \<not> User_IsActive u then fail_io (ident ErrUserFrozen)
               else bind_io (authService_generateTokenPair env date s u) (\<lambda>pair.
                    return_io \<lparr>rtp_TokenPair = pair, rtp_AccessExpiresIn = access_expires_in s\<rparr>))))"

definition authService_Logout :: "('j, 's) authService \<Rightarrow> LogoutRequest \<Rightarrow> (unit, 's) io" where
  "authService_Logout s req =
     bind_io (map_err_io (\<lambda>_. ident ErrRefreshTokenInvalid)
                (ts_Verify (as_signer s) (loq_RefreshToken req))) (\<lambda>claims.
     if cl_TokenUse claims \<noteq> TokenUseRefresh then fail_io (ident ErrRefreshTokenInvalid)
     else rtr_Revoke (as_refreshRepo s) (rcl_ID (cl_Registered claims)))"

section \<open>gRPC server\<close>

record pb_LoginRequest =
  pli_Username :: string
  pli_Password :: string

record pb_SmsLoginRequest =
  psl_Phone :: string
  psl_Code :: string

record pb_LoginResponse =
  plo_AccessToken :: string
  plo_RefreshToken :: string
  plo_AccessExpiresIn :: int
  plo_TokenType :: string
  plo_User :: pb_User

record pb_RefreshTokenResponse =
  prt_AccessToken :: string
  prt_RefreshToken :: string
  prt_AccessExpiresIn :: int
  prt_TokenType :: string

definition authErrorMappings :: "ErrorMapping list" where
  "authErrorMappings =
     [\<lparr>em_Target = IdentityErr ErrInvalidCredentials, em_Code = Unauthenticated\<rparr>,
      \<lparr>em_Target = IdentityErr ErrUserFrozen, em_Code = Unauthenticated\<rparr>,
      \<lparr>em_Target = IdentityErr ErrRefreshTokenInvalid, em_Code = Unauthenticated\<rparr>,
      \<lparr>em_Target = IdentityErr ErrRefreshTokenRevoked, em_Code = Unauthenticated\<rparr>]"

definition toAuthGRPCError :: "go_error \<Rightarrow> go_error" where
  "toAuthGRPCError err = ToGRPCError err authErrorMappings"

definition login_reply :: "LoginResponse \<Rightarrow> pb_LoginResponse" where
  "login_reply resp =
     \<lparr>plo_AccessToken = tp_AccessToken (lo_TokenPair resp),
      plo_RefreshToken = tp_RefreshToken (lo_TokenPair resp),
      plo_AccessExpiresIn = lo_AccessExpiresIn resp, plo_TokenType = ''Bearer'',
      plo_User = toProtoUser (lo_User resp)\<rparr>"

definition AuthGRPCServer_Login ::
  "'s go_env \<Rightarrow> (int \<Rightarrow> int) \<Rightarrow> ('j, 's) authService \<Rightarrow> pb_LoginRequest \<Rightarrow> (pb_LoginResponse, 's) io" where
  "AuthGRPCServer_Login env date svc req =
     grpc_reply toAuthGRPCError
       (authService_Login env date svc \<lparr>lor_Username = pli_Username req, lor_Password = pli_Password req\<rparr>)
       login_reply"

definition AuthGRPCServer_SmsLogin ::
  "'s go_env \<Rightarrow> (int \<Rightarrow> int) \<Rightarrow> ('j, 's) authService \<Rightarrow> pb_SmsLoginRequest \<Rightarrow>
   (pb_LoginResponse, 's) io" where
  "AuthGRPCServer_SmsLogin env date svc req =
     grpc_reply toAuthGRPCError
       (authService_SmsLogin env date svc \<lparr>slr_Phone = psl_Phone req, slr_Code = psl_Code req\<rparr>)
       login_reply"

definition AuthGRPCServer_RefreshToken ::
  "'s go_env \<Rightarrow> (int \<Rightarrow> int) \<Rightarrow> ('j, 's) authService \<Rightarrow> string \<Rightarrow> (pb_RefreshTokenResponse, 's) io" where
  "AuthGRPCServer_RefreshToken env date svc refreshToken =
     grpc_reply toAuthGRPCError
       (authService_RefreshToken env date svc \<lparr>rtq_RefreshToken = refreshToken\<rparr>)
       (\<lambda>resp. \<lparr>prt_AccessToken = tp_AccessToken (rtp_TokenPair resp),
                prt_RefreshToken = tp_RefreshToken (rtp_TokenPair resp),
                prt_AccessExpiresIn = rtp_AccessExpiresIn resp, prt_TokenType = ''Bearer''\<rparr>)"

definition AuthGRPCServer_Logout :: "('j, 's) authService \<Rightarrow> string \<Rightarrow> (unit, 's) io" where
  "AuthGRPCServer_Logout svc refreshToken =
     grpc_reply toAuthGRPCError (authService_Logout svc \<lparr>loq_RefreshToken = refreshToken\<rparr>) (\<lambda>_. ())"

text \<open>The reply carries no key set when the server has no signer.\<close>

definition AuthGRPCServer_GetJWKS :: "'s TokenSigner option \<Rightarrow> (json option, 's) io" where
  "AuthGRPCServer_GetJWKS signer =
     (case signer of
        None \<Rightarrow> return_io None
      | Some sg \<Rightarrow> grpc_reply (\<lambda>err. ToGRPCError err []) (lift_io (ts_JWKS sg)) Some)"

section \<open>The microservice\<close>

text \<open>
  \<open>services/identity\<close> asks the SMS service over gRPC, so its test looks at the status code of
  the error (\<open>services/identity/internal/service/auth_service.go\<close>).
\<close>

definition SmsVerifierClient_VerifyCode ::
  "(pb_VerifyCodeRequest \<Rightarrow> (unit, 's) io) \<Rightarrow> 's SmsCodeVerifier" where
  "SmsVerifierClient_VerifyCode client phone code =
     client \<lparr>pvc_Phone = phone, pvc_Code = code, pvc_Purpose = SMS_PURPOSE_LOGIN\<rparr>"

text \<open>\<open>status.FromError\<close> finds the status of an error that is, or wraps, a status error.\<close>

fun status_FromError :: "go_error \<Rightarrow> grpc_code option" where
  "status_FromError (StatusErr c m) = Some c"
| "status_FromError (Wrap p e) = status_FromError e"
| "status_FromError _ = None"

definition remote_isSmsCredentialError :: "go_error \<Rightarrow> bool" where
  "remote_isSmsCredentialError err =
     (case status_FromError err of
        None \<Rightarrow> False
      | Some c \<Rightarrow> c = Unauthenticated \<or> c = NotFound \<or> c = DeadlineExceeded \<or> c = FailedPrecondition)"

definition remote_authService_SmsLogin ::
  "'s go_env \<Rightarrow> (int \<Rightarrow> int) \<Rightarrow> ('j, 's) authService \<Rightarrow> SmsLoginRequest \<Rightarrow> (LoginResponse, 's) io" where
  "remote_authService_SmsLogin env date s req =
     bind_io (map_err_io (\<lambda>err. if remote_isSmsCredentialError err then ident ErrInvalidCredentials else err)
                (as_smsVerifier s (slr_Phone req) (slr_Code req))) (\<lambda>_.
     bind_io (map_err_io hide_not_found (urp_GetByPhone (as_userRepo s) (slr_Phone req)))
       (login_user env date s))"

definition remote_AuthGRPCServer_SmsLogin ::
  "'s go_env \<Rightarrow> (int \<Rightarrow> int) \<Rightarrow> ('j, 's) authService \<Rightarrow> pb_SmsLoginRequest \<Rightarrow>
   (pb_LoginResponse, 's) io" where
  "remote_AuthGRPCServer_SmsLogin env date svc req =
     grpc_reply toAuthGRPCError
       (remote_authService_SmsLogin env date svc \<lparr>slr_Phone = psl_Phone req, slr_Code = psl_Code req\<rparr>)
       login_reply"

end
