(* ===== verification/Auth_Correct.thy ===== *)
theory Auth_Correct
  imports Auth
begin

text \<open>
  The authentication service over Redis and a token signer: what a token pair is, who can get
  one, and what the refresh tokens that have been used or revoked are worth.
\<close>

text \<open>
  The world of the service. \<open>drawn\<close> are the uuids handed out so far; a new one differs from
  them. The clock, the signer, the SMS code check and the user repository leave the refresh
  tokens alone.
\<close>

locale auth_world =
  token_signer sg issued live + redis_db rd kv set_kv
  for sg :: "'s TokenSigner" and issued and live and rd :: "('j, 's) redis" and kv and set_kv +
  fixes env :: "'s go_env"
    and urepo :: "'s user_repo"
    and verify :: "'s SmsCodeVerifier"
    and drawn :: "'s \<Rightarrow> string set"
  assumes uuid_new: "uuid_New env s = (u, s') \<Longrightarrow>
      u \<notin> drawn s \<and> drawn s' = insert u (drawn s) \<and> kv s' = kv s \<and> issued s' = issued s"
    and clock_same: "time_Now env s = (t, s') \<Longrightarrow>
      drawn s' = drawn s \<and> kv s' = kv s \<and> issued s' = issued s"
    and sign_same: "drawn (snd (ts_Sign sg c s)) = drawn s" "kv (snd (ts_Sign sg c s)) = kv s"
    and verify_same: "drawn (snd (ts_Verify sg tok s)) = drawn s" "kv (snd (ts_Verify sg tok s)) = kv s"
    and redis_same: "drawn (set_kv m s) = drawn s" "issued (set_kv m s) = issued s"
    and user_same: "look \<in> {urp_GetByID urepo x, urp_GetByUsername urepo x, urp_GetByPhone urepo x} \<Longrightarrow>
      drawn (snd (look s)) = drawn s \<and> kv (snd (look s)) = kv s \<and> issued (snd (look s)) = issued s"
    and save_same: "drawn (snd (urp_Update urepo usr s)) = drawn s \<and> kv (snd (urp_Update urepo usr s)) = kv s \<and>
      issued (snd (urp_Update urepo usr s)) = issued s"
    and sms_same: "drawn (snd (verify ph code s)) = drawn s \<and> issued (snd (verify ph code s)) = issued s \<and>
      (\<forall>j. kv (snd (verify ph code s)) (refreshKey j) = kv s (refreshKey j))"

definition auth_service ::
  "('j, 's) redis \<Rightarrow> 's TokenSigner \<Rightarrow> 's user_repo \<Rightarrow> 's SmsCodeVerifier \<Rightarrow> AuthConfig \<Rightarrow>
   ('j, 's) authService" where
  "auth_service rd sg urepo verify cfg = NewAuthService urepo (NewRedisRefreshTokenRepo rd) sg cfg verify"

text \<open>A refresh token whose key is gone, while its id can never be drawn again.\<close>

definition spent_token ::
  "('s \<Rightarrow> string \<Rightarrow> 'j redis_val option) \<Rightarrow> ('s \<Rightarrow> string \<Rightarrow> Claims option) \<Rightarrow> ('s \<Rightarrow> string set) \<Rightarrow>
   string \<Rightarrow> string \<Rightarrow> Claims \<Rightarrow> 's \<Rightarrow> bool" where
  "spent_token kv issued drawn jti tok c s \<longleftrightarrow>
     jti \<in> drawn s \<and> kv s (refreshKey jti) = None \<and> issued s tok = Some c"

lemma auth_service_fields [simp]:
  "as_userRepo (auth_service rd sg urepo verify cfg) = urepo"
  "as_refreshRepo (auth_service rd sg urepo verify cfg) = NewRedisRefreshTokenRepo rd"
  "as_signer (auth_service rd sg urepo verify cfg) = sg"
  "as_smsVerifier (auth_service rd sg urepo verify cfg) = verify"
  "as_cfg (auth_service rd sg urepo verify cfg) = cfg"
  "as_accessTTL (auth_service rd sg urepo verify cfg) = ParseTTL (AccessTTL cfg)"
  "as_refreshTTL (auth_service rd sg urepo verify cfg) = ParseTTL (RefreshTTL cfg)"
  by (simp_all add: auth_service_def NewAuthService_def)

lemma refresh_repo_fields [simp]:
  "rtr_Save (NewRedisRefreshTokenRepo rd) = RedisRefreshTokenRepo_Save rd"
  "rtr_Consume (NewRedisRefreshTokenRepo rd) = RedisRefreshTokenRepo_Consume rd"
  "rtr_Revoke (NewRedisRefreshTokenRepo rd) = RedisRefreshTokenRepo_Revoke rd"
  by (simp_all add: NewRedisRefreshTokenRepo_def)

lemma refreshKey_inj [simp]: "refreshKey j = refreshKey j' \<longleftrightarrow> j = j'"
  by (simp add: refreshKey_def)

lemma auth_codes [simp]:
  "toAuthGRPCError (ident ErrInvalidCredentials) = StatusErr Unauthenticated ''invalid username or password''"
  "toAuthGRPCError (ident ErrUserFrozen) = StatusErr Unauthenticated ''user is frozen''"
  "toAuthGRPCError (ident ErrRefreshTokenInvalid) = StatusErr Unauthenticated ''refresh token invalid or expired''"
  "toAuthGRPCError (ident ErrRefreshTokenRevoked) = StatusErr Unauthenticated ''refresh token revoked''"
  by (simp_all add: toAuthGRPCError_def authErrorMappings_def)

text \<open>Actions that never fail.\<close>

definition io_total :: "('a, 's) io \<Rightarrow> bool" where
  "io_total m = (\<forall>s. \<exists>x s'. m s = (Inr x, s'))"

lemma io_total_bind: "io_total m \<Longrightarrow> (\<And>x. io_total (f x)) \<Longrightarrow> io_total (bind_io m f)"
  unfolding io_total_def bind_io_run by (metis (no_types, lifting) old.prod.case sum.case(2))

lemma io_total_ask: "io_total (ask_io f)" and io_total_return [simp]: "io_total (return_io x)"
  by (simp_all add: io_total_def ask_io_run)

context auth_world
begin

abbreviation "svc cfg \<equiv> auth_service rd sg urepo verify cfg"

lemma Consume_run:
  "RedisRefreshTokenRepo_Consume rd jti s =
     (case kv s (refreshKey jti) of
        None \<Rightarrow> (Inr (RText [], False), s)
      | Some v \<Rightarrow> (Inr (v, True), set_kv ((kv s)(refreshKey jti := None)) s))"
  by (simp add: RedisRefreshTokenRepo_Consume_def consumeScript_def try_io_run bind_io_run commands
      split: option.split)

text \<open>What a pair of tokens is.\<close>

lemma token_pair:
  assumes "authService_generateTokenPair env date (svc cfg) u s = (Inr pair, s')"
  shows "\<exists>now ajti rjti s0.
           time_Now env s = (now, s0) \<and> ajti \<notin> drawn s \<and> rjti \<notin> drawn s \<and> rjti \<noteq> ajti \<and>
           drawn s' = insert rjti (insert ajti (drawn s)) \<and>
           kv s' = (kv s)(refreshKey rjti \<mapsto> RText (u_ID u)) \<and>
           (\<forall>t c. issued s t = Some c \<longrightarrow> issued s' t = Some c) \<and>
           issued s' (tp_AccessToken pair) = Some
             \<lparr>cl_TokenUse = ''access'', cl_UserID = u_ID u, cl_TenantID = stringPtrValue (u_TenantID u),
              cl_Role = u_Role u, cl_Key = KeyID cfg,
              cl_Registered = \<lparr>rcl_Subject = u_ID u, rcl_Issuer = Issuer cfg, rcl_ID = ajti,
                rcl_IssuedAt = date now, rcl_ExpiresAt = date (now + ParseTTL (AccessTTL cfg))\<rparr>\<rparr> \<and>
           issued s' (tp_RefreshToken pair) = Some
             \<lparr>cl_TokenUse = ''refresh'', cl_UserID = [], cl_TenantID = [], cl_Role = [], cl_Key = [],
              cl_Registered = \<lparr>rcl_Subject = u_ID u, rcl_Issuer = Issuer cfg, rcl_ID = rjti,
                rcl_IssuedAt = date now, rcl_ExpiresAt = date (now + ParseTTL (RefreshTTL cfg))\<rparr>\<rparr>"
proof -
  let ?reg = "\<lambda>jti now ttl. \<lparr>rcl_Subject = u_ID u, rcl_Issuer = Issuer cfg, rcl_ID = jti,
      rcl_IssuedAt = date now, rcl_ExpiresAt = date (now + ttl)\<rparr>"
  let ?ac = "\<lambda>ajti now. \<lparr>cl_TokenUse = ''access'', cl_UserID = u_ID u,
      cl_TenantID = stringPtrValue (u_TenantID u), cl_Role = u_Role u, cl_Key = KeyID cfg,
      cl_Registered = ?reg ajti now (ParseTTL (AccessTTL cfg))\<rparr>"
  let ?rc = "\<lambda>rjti now. \<lparr>cl_TokenUse = ''refresh'', cl_UserID = [], cl_TenantID = [], cl_Role = [],
      cl_Key = [], cl_Registered = ?reg rjti now (ParseTTL (RefreshTTL cfg))\<rparr>"
  obtain now s0 where now: "time_Now env s = (now, s0)" by fastforce
  obtain ajti s1 where a: "uuid_New env s0 = (ajti, s1)" by fastforce
  obtain atok s2 where at: "ts_Sign sg (?ac ajti now) s1 = (Inr atok, s2)"
    using assms by (cases "ts_Sign sg (?ac ajti now) s1"; cases "fst (ts_Sign sg (?ac ajti now) s1)")
      (auto simp: authService_generateTokenPair_def jwtRegisteredClaims_def bind_io_run [of "ask_io _"]
        ask_io_run now a Let_def bind_io_run [of "ts_Sign _ _"])
  obtain rjti s3 where r: "uuid_New env s2 = (rjti, s3)" by fastforce
  obtain rtok s4 where rt: "ts_Sign sg (?rc rjti now) s3 = (Inr rtok, s4)"
    using assms by (cases "ts_Sign sg (?rc rjti now) s3"; cases "fst (ts_Sign sg (?rc rjti now) s3)")
      (auto simp: authService_generateTokenPair_def jwtRegisteredClaims_def bind_io_run [of "ask_io _"]
        ask_io_run now a at r Let_def bind_io_run [of "ts_Sign _ _"])
  have pair: "tp_AccessToken pair = atok" "tp_RefreshToken pair = rtok"
    and s': "s' = set_kv ((kv s4)(refreshKey rjti \<mapsto> RText (u_ID u))) s4"
    using assms by (auto simp: authService_generateTokenPair_def jwtRegisteredClaims_def
        bind_io_run ask_io_run now a at r rt Let_def RedisRefreshTokenRepo_Save_def commands)
  have i: "issued s1 = issued s" "issued s3 = issued s2"
    and d: "drawn s0 = drawn s" "drawn s1 = insert ajti (drawn s)" "drawn s3 = insert rjti (drawn s2)"
      "ajti \<notin> drawn s" "rjti \<notin> drawn s2"
    and k: "kv s1 = kv s" "kv s3 = kv s2"
    using clock_same [OF now] uuid_new [OF a] uuid_new [OF r] by simp_all
  have ds: "drawn s2 = drawn s1" "drawn s4 = drawn s3" "kv s2 = kv s1" "kv s4 = kv s3"
    using sign_same [of "?ac ajti now" s1] sign_same [of "?rc rjti now" s3] at rt by simp_all
  note sa = Sign_ok [OF at] and sr = Sign_ok [OF rt]
  have s2: "issued s2 t = Some c" if "issued s t = Some c" for t c
    using issued_grows [of s1 t c "?ac ajti now"] that i at by simp
  have s4: "issued s4 t = Some c" if "issued s2 t = Some c" for t c
    using issued_grows [of s3 t c "?rc rjti now"] that i rt by simp
  have "issued s2 atok = Some (?ac ajti now)" using sa by simp
  from s4 [OF this] have "issued s4 atok = Some (?ac ajti now)" .
  moreover have "issued s4 rtok = Some (?rc rjti now)" using sr by simp
  moreover have "\<forall>t c. issued s t = Some c \<longrightarrow> issued s4 t = Some c" using s2 s4 by blast
  ultimately show ?thesis
    using d k ds now by (intro exI [of _ now] exI [of _ ajti] exI [of _ rjti] exI [of _ s0])
      (simp only: pair s' redis_same kv_set; simp)
qed

text \<open>Making tokens keeps a spent refresh token spent.\<close>

abbreviation "spent jti tok c s \<equiv> spent_token kv issued drawn jti tok c s"

lemma keeps_uuid: "io_inv (spent jti tok c) (ask_io (uuid_New env)) (\<lambda>u. u \<noteq> jti)"
  unfolding io_inv_def
proof (intro allI impI)
  fix s
  assume "spent jti tok c s"
  moreover obtain u s' where "uuid_New env s = (u, s')" by fastforce
  ultimately show "spent jti tok c (snd (ask_io (uuid_New env) s)) \<and>
      (\<forall>x. fst (ask_io (uuid_New env) s) = Inr x \<longrightarrow> x \<noteq> jti)"
    using uuid_new [of s u s'] by (auto simp: ask_io_run spent_token_def)
qed

lemma keeps_clock: "io_inv (spent jti tok c) (ask_io (time_Now env)) (\<lambda>_. True)"
  unfolding io_inv_def
proof (intro allI impI)
  fix s
  assume "spent jti tok c s"
  moreover obtain t s' where "time_Now env s = (t, s')" by fastforce
  ultimately show "spent jti tok c (snd (ask_io (time_Now env) s)) \<and>
      (\<forall>x. fst (ask_io (time_Now env) s) = Inr x \<longrightarrow> True)"
    using clock_same [of s t s'] by (auto simp: ask_io_run spent_token_def)
qed

lemma keeps_sign: "io_inv (spent jti tok c) (ts_Sign sg c') (\<lambda>_. True)"
  using issued_grows by (auto simp: io_inv_def spent_token_def sign_same)

lemma keeps_verify: "io_inv (spent jti tok c) (ts_Verify sg tok') (\<lambda>_. True)"
  by (auto simp: io_inv_def spent_token_def verify_same Verify_issues)

lemma keeps_save: "j \<noteq> jti \<Longrightarrow> io_inv (spent jti tok c) (RedisRefreshTokenRepo_Save rd j v ttl) (\<lambda>_. True)"
  by (auto simp: io_inv_def spent_token_def RedisRefreshTokenRepo_Save_def commands redis_same)

lemma keeps_consume: "io_inv (spent jti tok c) (RedisRefreshTokenRepo_Consume rd j) (\<lambda>_. True)"
  by (auto simp: io_inv_def spent_token_def Consume_run redis_same split: option.split)

lemma keeps_revoke: "io_inv (spent jti tok c) (RedisRefreshTokenRepo_Revoke rd j) (\<lambda>_. True)"
  by (auto simp: io_inv_def spent_token_def RedisRefreshTokenRepo_Revoke_def commands redis_same)

lemma keeps_user:
  "io_inv (spent jti tok c) (urp_GetByID urepo x) (\<lambda>_. True)"
  "io_inv (spent jti tok c) (urp_GetByUsername urepo x) (\<lambda>_. True)"
  "io_inv (spent jti tok c) (urp_GetByPhone urepo x) (\<lambda>_. True)"
  "io_inv (spent jti tok c) (urp_Update urepo u) (\<lambda>_. True)"
  "io_inv (spent jti tok c) (verify ph code) (\<lambda>_. True)"
  using user_same [of "urp_GetByID urepo x" x] user_same [of "urp_GetByUsername urepo x" x]
    user_same [of "urp_GetByPhone urepo x" x] save_same sms_same
  by (auto simp: io_inv_def spent_token_def)

lemmas keeps = keeps_uuid keeps_clock keeps_sign keeps_verify keeps_save keeps_consume keeps_revoke keeps_user
  io_inv_map_err

lemma keeps_pair: "io_inv (spent jti tok c) (authService_generateTokenPair env date (svc cfg) u) (\<lambda>_. True)"
  unfolding authService_generateTokenPair_def Let_def auth_service_fields refresh_repo_fields
  by (rule io_inv_bind, rule keeps, rule io_inv_bind, rule keeps, rule io_inv_bind, rule keeps,
      rule io_inv_bind, rule keeps, rule io_inv_bind, rule keeps, rule io_inv_bind, erule keeps) simp

lemma keeps_login: "io_inv (spent jti tok c) (login_user env date (svc cfg) u) (\<lambda>_. True)"
  unfolding login_user_def Let_def auth_service_fields
  by (rule io_inv_if, simp, rule io_inv_bind, rule keeps_pair, rule io_inv_bind, rule keeps,
      rule io_inv_bind, rule io_inv_ignore [where Q = "\<lambda>_. True"], rule keeps) simp_all

lemma keeps_rpcs:
  "io_inv (spent jti tok c) (authService_Login env date (svc cfg) lreq) (\<lambda>_. True)"
  "io_inv (spent jti tok c) (authService_SmsLogin env date (svc cfg) sreq) (\<lambda>_. True)"
  "io_inv (spent jti tok c) (authService_RefreshToken env date (svc cfg) rreq) (\<lambda>_. True)"
  "io_inv (spent jti tok c) (authService_Logout (svc cfg) oreq) (\<lambda>_. True)"
  unfolding authService_Login_def authService_SmsLogin_def authService_RefreshToken_def
    authService_Logout_def auth_service_fields refresh_repo_fields
  by (auto intro!: io_inv_bind [where P = "\<lambda>_. True"] io_inv_if keeps keeps_login keeps_pair
      split: prod.split)

text \<open>Keys of Redis that are not refresh tokens.\<close>

lemma keeps_other_clock: "io_inv (\<lambda>s. kv s k = None) (ask_io (time_Now env)) (\<lambda>_. True)"
  unfolding io_inv_def ask_io_run using clock_same by (metis prod.collapse snd_conv)

lemma keeps_other_save: "io_inv (\<lambda>s. kv s k = None) (urp_Update urepo u) (\<lambda>_. True)"
  by (simp add: io_inv_def save_same)

lemma keeps_other_pair:
  assumes "\<And>j. k \<noteq> refreshKey j"
  shows "io_inv (\<lambda>s. kv s k = None) (authService_generateTokenPair env date (svc cfg) u) (\<lambda>_. True)"
proof -
  have "io_inv (\<lambda>s. kv s k = None) (ask_io (uuid_New env)) (\<lambda>_. True)"
    unfolding io_inv_def ask_io_run using uuid_new by (metis prod.collapse snd_conv)
  moreover have "io_inv (\<lambda>s. kv s k = None) (ts_Sign sg c) (\<lambda>_. True)" for c
    by (simp add: io_inv_def sign_same)
  moreover have "io_inv (\<lambda>s. kv s k = None) (RedisRefreshTokenRepo_Save rd j v ttl) (\<lambda>_. True)" for j v ttl
    using assms by (simp add: io_inv_def RedisRefreshTokenRepo_Save_def commands)
  ultimately show ?thesis
    unfolding authService_generateTokenPair_def Let_def
    by (auto intro!: io_inv_bind [where P = "\<lambda>_. True"] keeps_other_clock)
qed

text \<open>A token that verifies, and what a refused one leaves behind.\<close>

lemma Verify_run:
  "\<exists>s1. drawn s1 = drawn s \<and> kv s1 = kv s \<and> issued s1 = issued s \<and>
     (if \<exists>c. issued s tok = Some c \<and> live s c
      then ts_Verify sg tok s = (Inr (the (issued s tok)), s1)
      else \<exists>e. ts_Verify sg tok s = (Inl e, s1))"
proof -
  obtain r s1 where r: "ts_Verify sg tok s = (r, s1)" by fastforce
  then show ?thesis
    using Verify_issued [of s tok] Verify_other [of s tok] verify_same [of tok s] Verify_issues [of tok s]
    by (intro exI [of _ s1]) auto
qed

lemma refresh_spends:
  assumes "authService_RefreshToken env date (svc cfg) \<lparr>rtq_RefreshToken = tok\<rparr> s = (Inr r, s1)"
    and "issued s tok = Some c" and "rcl_ID (cl_Registered c) \<in> drawn s"
  shows "spent (rcl_ID (cl_Registered c)) tok c s1"
proof -
  let ?jti = "rcl_ID (cl_Registered c)"
  let ?rest = "bind_io (urp_GetByID urepo (rcl_Subject (cl_Registered c))) (\<lambda>u.
      if \<not> User_IsActive u then fail_io (ident ErrUserFrozen)
      else bind_io (authService_generateTokenPair env date (svc cfg) u) (\<lambda>pair.
           return_io \<lparr>rtp_TokenPair = pair, rtp_AccessExpiresIn = access_expires_in (svc cfg)\<rparr>))"
  obtain c' sa v sb where v: "ts_Verify sg tok s = (Inr c', sa)"
    and con: "RedisRefreshTokenRepo_Consume rd (rcl_ID (cl_Registered c')) sa = (Inr (v, True), sb)"
    and rest: "bind_io (urp_GetByID urepo (rcl_Subject (cl_Registered c'))) (\<lambda>u.
      if \<not> User_IsActive u then fail_io (ident ErrUserFrozen)
      else bind_io (authService_generateTokenPair env date (svc cfg) u) (\<lambda>pair.
           return_io \<lparr>rtp_TokenPair = pair, rtp_AccessExpiresIn = access_expires_in (svc cfg)\<rparr>)) sb = (Inr r, s1)"
    using assms(1) by (auto simp: authService_RefreshToken_def map_err_io_run
        elim!: bind_io_InrD split: prod.splits sum.splits if_splits)
  have c': "c' = c" using Verify_Inr [OF v] assms(2) by simp
  have "drawn sa = drawn s" "issued sa = issued s"
    using verify_same [of tok s] Verify_issues [of tok s] v by simp_all
  then have "spent ?jti tok c sb"
    using con assms(2,3) by (auto simp: c' Consume_run spent_token_def redis_same split: option.splits)
  moreover have "io_inv (spent ?jti tok c) ?rest (\<lambda>_. True)"
    by (auto intro!: io_inv_bind [where P = "\<lambda>_. True"] io_inv_if keeps keeps_pair)
  ultimately show ?thesis using io_invD rest unfolding c' by fastforce
qed

lemma logout_spends:
  assumes "authService_Logout (svc cfg) \<lparr>loq_RefreshToken = tok\<rparr> s = (Inr (), s1)"
    and "issued s tok = Some c" and "rcl_ID (cl_Registered c) \<in> drawn s"
  shows "spent (rcl_ID (cl_Registered c)) tok c s1"
proof -
  obtain c' sa where v: "ts_Verify sg tok s = (Inr c', sa)"
    and rev: "RedisRefreshTokenRepo_Revoke rd (rcl_ID (cl_Registered c')) sa = (Inr (), s1)"
    using assms(1) by (auto simp: authService_Logout_def map_err_io_run
        elim!: bind_io_InrD split: prod.splits sum.splits if_splits)
  have "c' = c" using Verify_Inr [OF v] assms(2) by simp
  moreover have "drawn sa = drawn s" "issued sa = issued s"
    using verify_same [of tok s] Verify_issues [of tok s] v by simp_all
  ultimately show ?thesis
    using rev assms(2,3)
    by (auto simp: RedisRefreshTokenRepo_Revoke_def commands spent_token_def redis_same)
qed

lemma refresh_refused:
  assumes "\<not> (\<exists>c. issued s tok = Some c \<and> live s c \<and> cl_TokenUse c = ''refresh'' \<and>
                 kv s (refreshKey (rcl_ID (cl_Registered c))) \<noteq> None)"
  shows "\<exists>s'. authService_RefreshToken env date (svc cfg) \<lparr>rtq_RefreshToken = tok\<rparr> s =
           (Inl (ident (if \<exists>c. issued s tok = Some c \<and> live s c \<and> cl_TokenUse c = ''refresh''
                        then ErrRefreshTokenRevoked else ErrRefreshTokenInvalid)), s') \<and>
         kv s' = kv s \<and> issued s' = issued s"
proof -
  obtain s1 where s1: "drawn s1 = drawn s" "kv s1 = kv s" "issued s1 = issued s"
      "if \<exists>c. issued s tok = Some c \<and> live s c
       then ts_Verify sg tok s = (Inr (the (issued s tok)), s1)
       else \<exists>e. ts_Verify sg tok s = (Inl e, s1)"
    using Verify_run [of s tok] by blast
  then show ?thesis
    using assms by (intro exI [of _ s1])
      (auto simp: authService_RefreshToken_def map_err_io_run bind_io_run Consume_run split: if_splits option.splits)
qed

lemma logout_refused:
  assumes "\<not> (\<exists>c. issued s tok = Some c \<and> live s c \<and> cl_TokenUse c = ''refresh'')"
  shows "\<exists>s'. authService_Logout (svc cfg) \<lparr>loq_RefreshToken = tok\<rparr> s =
           (Inl (ident ErrRefreshTokenInvalid), s') \<and> kv s' = kv s \<and> issued s' = issued s"
proof -
  obtain s1 where "drawn s1 = drawn s" "kv s1 = kv s" "issued s1 = issued s"
      "if \<exists>c. issued s tok = Some c \<and> live s c
       then ts_Verify sg tok s = (Inr (the (issued s tok)), s1)
       else \<exists>e. ts_Verify sg tok s = (Inl e, s1)"
    using Verify_run [of s tok] by blast
  then show ?thesis
    using assms by (intro exI [of _ s1])
      (auto simp: authService_Logout_def map_err_io_run bind_io_run split: if_splits)
qed

text \<open>Logout takes the key of a live refresh token away, whether it was there or not.\<close>

lemma logout_done:
  assumes "issued s tok = Some c" and "live s c" and "cl_TokenUse c = ''refresh''"
  shows "\<exists>s'. authService_Logout (svc cfg) \<lparr>loq_RefreshToken = tok\<rparr> s = (Inr (), s') \<and>
           kv s' = (kv s)(refreshKey (rcl_ID (cl_Registered c)) := None) \<and> issued s' = issued s"
proof -
  obtain s1 where "kv s1 = kv s" "issued s1 = issued s" "ts_Verify sg tok s = (Inr c, s1)"
    using Verify_run [of s tok] assms(1,2) by auto
  then show ?thesis using assms(3)
    by (simp add: authService_Logout_def map_err_io_run bind_io_run RedisRefreshTokenRepo_Revoke_def commands redis_same)
qed

text \<open>When signing never fails, a pair is made.\<close>

lemma token_pair_total:
  assumes "\<And>c s. \<exists>tok. fst (ts_Sign sg c s) = Inr tok"
  shows "\<exists>pair s'. authService_generateTokenPair env date (svc cfg) u s = (Inr pair, s')"
proof -
  have "io_total (ts_Sign sg c)" for c
    using assms unfolding io_total_def by (metis prod.collapse)
  moreover have "io_total (RedisRefreshTokenRepo_Save rd j v ttl)" for j v ttl
    by (simp add: io_total_def RedisRefreshTokenRepo_Save_def commands)
  ultimately have "io_total (authService_generateTokenPair env date (svc cfg) u)"
    by (auto simp: authService_generateTokenPair_def Let_def intro!: io_total_bind io_total_ask)
  then show ?thesis by (simp add: io_total_def)
qed

end

end
