(* ===== verification/User_Correct.thy ===== *)
theory User_Correct
  imports User_Service
begin

text \<open>
  The user service on the GORM table: the status machine, passwords, creation, and what every
  handler keeps of the table.
\<close>

section \<open>The repository as a store\<close>

abbreviation userRepo_of :: "'s user_gorm \<Rightarrow> 's user_repo" where
  "userRepo_of db \<equiv> NewUserRepo (NewUserDAO db)"

lemma user_by_id: "Select [] (Where c args Model) = Where c args Model"
  by (simp add: query_simps)

lemma userRepo_GetByID_eq:
  "urp_GetByID (userRepo_of db) =
     (\<lambda>k. bind_io (first_or db (Where ''id = ?'' [SqlStr k] Model) (ident ErrUserNotFound))
            (\<lambda>r. return_io (toDomainUser r)))"
  by (rule ext) (simp add: user_store_defs)

lemma userRepo_Update_eq:
  "urp_Update (userRepo_of db) =
     (\<lambda>e. affected_or (g_Updates db
            (Select [] (Where ''id = ?'' [SqlStr (ur_ID (toUserEntity e))] Model))
            (toUserEntity e)) (ident ErrUserNotFound))"
  by (rule ext) (simp add: user_store_defs user_by_id)

lemma userRepo_Create_eq:
  "urp_Create (userRepo_of db) =
     (\<lambda>e. create_or db [''duplicate'', ''UNIQUE''] (ident ErrUserAlreadyExists) (toUserEntity e))"
  by (rule ext) (simp add: user_store_defs)

lemmas userRepo_eqs = userRepo_GetByID_eq userRepo_Update_eq userRepo_Create_eq

lemma user_overlay_UpdatedAt: "u_UpdatedAt (user_overlay now new old) = time_UnixMilli now"
  by (simp add: user_overlay_def Let_def)

lemma set_same [simp]: "set_text x x = x" "set_ptr p p = p" "set_int n n = n"
  by (simp_all add: set_text_def set_ptr_def set_int_def)

text \<open>Saving a loaded user with a new status, or a new password, changes nothing else.\<close>

lemma loaded_user_overlay:
  assumes "u = toDomainUser r"
  shows "st \<noteq> [] \<Longrightarrow> user_overlay now (u\<lparr>u_Status := st\<rparr>) u =
           u\<lparr>u_Status := st, u_UpdatedAt := time_UnixMilli now\<rparr>"
    and "h \<noteq> [] \<Longrightarrow> user_overlay now (u\<lparr>u_PasswordHash := h\<rparr>) u =
           u\<lparr>u_PasswordHash := h, u_UpdatedAt := time_UnixMilli now\<rparr>"
  using assms
  by (simp_all add: user_overlay_def toUserEntity_def toDomainUser_def Let_def set_text_def
      option.map_comp comp_def)

context user_db
begin

lemma get_user:
  "users_ok rows s \<Longrightarrow>
     urp_GetByID (userRepo_of db) uid s =
       (case user_at rows s uid of None \<Rightarrow> Inl (ident ErrUserNotFound) | Some u \<Rightarrow> Inr u, s)"
  using users.store.get_found users.store.get_missing
  by (auto simp: userRepo_eqs split: option.split)

text \<open>
  A save that leaves the indexed columns alone is stored, and succeeds when the handle counts a
  row: when anything changes at all, the time of the update included.
\<close>

lemma quiet_counted:
  assumes ok: "users_ok rows s" and u: "user_at rows s uid = Some u"
    and f: "change u s = (Inr e, s1)" and s1: "rows s1 = rows s"
    and keep: "u_ID e = u_ID u" "u_TenantID e = u_TenantID u" "u_Username e = u_Username u"
      "u_Phone e = u_Phone u"
  shows "\<exists>n s'. g_Updates db (Where ''id = ?'' [SqlStr uid] Model) (toUserEntity e) s1 = (Inr n, s') \<and>
           0 \<le> n \<and> n \<le> 1 \<and> (user_overlay (now s1) e u \<noteq> u \<longrightarrow> n = 1) \<and>
           modify_unit (urp_GetByID (userRepo_of db)) (urp_Update (userRepo_of db)) uid change s =
             (if n = 0 then Inl (ident ErrUserNotFound) else Inr (), s') \<and> users_ok rows s' \<and>
           user_at rows s' = (user_at rows s)(uid \<mapsto> user_overlay (now s1) e u)"
proof -
  obtain r where r: "row_at rows ur_ID s uid = Some r" "u = toDomainUser r"
    using u by (auto simp: entity_at_def)
  have ok1: "users_ok rows s1" using ok s1 by (simp add: table_intact_def)
  have r1: "row_at rows ur_ID s1 uid = Some r" using r(1) by (simp add: row_at_def s1)
  have key: "ur_ID (toUserEntity e) = uid"
    using users.find_row_Some [OF r(1)] r(2) keep(1)
    by (simp add: toUserEntity_def toDomainUser_def)
  have fits: "row_fits user_clash rows ur_ID (user_assign (now s1) []) s1 (toUserEntity e)"
    using ok1 r1 key keep r(2) by (intro users.fits_same_index)
      (auto simp: user_clash_def user_assign_def toUserEntity_def toDomainUser_def
        set_text_def set_ptr_def)
  from users.modify_counted [where change = change, OF ok u f s1 key fits]
  obtain n s' where "g_Updates db (Select [] (Where ''id = ?'' [SqlStr uid] Model)) (toUserEntity e) s1 = (Inr n, s')"
      "0 \<le> n" "n \<le> 1" "user_overlay (now s1) e u \<noteq> u \<longrightarrow> n = 1"
      "modify_unit (urp_GetByID (userRepo_of db)) (urp_Update (userRepo_of db)) uid change s =
         (if n = 0 then Inl (ident ErrUserNotFound) else Inr (), s')"
      "users_ok rows s'" "user_at rows s' = (user_at rows s)(uid \<mapsto> user_overlay (now s1) e u)"
    unfolding userRepo_eqs [symmetric] by blast
  then show ?thesis by (intro exI [of _ n] exI [of _ s']) (simp add: user_by_id)
qed

lemma quiet_change:
  assumes "users_ok rows s" and "user_at rows s uid = Some u"
    and "change u s = (Inr e, s1)" and "rows s1 = rows s"
    and "u_ID e = u_ID u" "u_TenantID e = u_TenantID u" "u_Username e = u_Username u"
      "u_Phone e = u_Phone u"
    and "user_overlay (now s1) e u \<noteq> u"
  shows "\<exists>s'. modify_unit (urp_GetByID (userRepo_of db)) (urp_Update (userRepo_of db)) uid
                change s = (Inr (), s') \<and> users_ok rows s' \<and>
           user_at rows s' = (user_at rows s)(uid \<mapsto> user_overlay (now s1) e u)"
  using quiet_counted [where change = change, OF assms(1-8)] assms(9) by auto

lemma Freeze_run:
  assumes "users_ok rows s" and "user_at rows s uid = Some u" and "u_Status u = ''active''"
  shows "\<exists>s'. userService_Freeze (userRepo_of db) uid s = (Inr (), s') \<and> users_ok rows s' \<and>
           user_at rows s' = (user_at rows s)
             (uid \<mapsto> u\<lparr>u_Status := ''frozen'', u_UpdatedAt := time_UnixMilli (now s)\<rparr>)"
proof -
  obtain r where r: "u = toDomainUser r" using assms(2) by (auto simp: entity_at_def)
  have o: "user_overlay (now s) (u\<lparr>u_Status := ''frozen''\<rparr>) u =
      u\<lparr>u_Status := ''frozen'', u_UpdatedAt := time_UnixMilli (now s)\<rparr>"
    by (rule loaded_user_overlay(1) [OF r]) simp
  have "u_Status (user_overlay (now s) (u\<lparr>u_Status := ''frozen''\<rparr>) u) \<noteq> u_Status u"
    by (simp add: o assms(3))
  then have "user_overlay (now s) (u\<lparr>u_Status := ''frozen''\<rparr>) u \<noteq> u" by auto
  from quiet_change [where change = "\<lambda>u. lift_io (User_Freeze u)", OF assms(1,2) _ refl _ _ _ _ this]
  show ?thesis
    by (simp add: userService_Freeze_def modify_unit_def User_Freeze_def assms(3) o)
qed

lemma Unfreeze_run:
  assumes "users_ok rows s" and "user_at rows s uid = Some u" and "u_Status u = ''frozen''"
  shows "\<exists>s'. userService_Unfreeze (userRepo_of db) uid s = (Inr (), s') \<and> users_ok rows s' \<and>
           user_at rows s' = (user_at rows s)
             (uid \<mapsto> u\<lparr>u_Status := ''active'', u_UpdatedAt := time_UnixMilli (now s)\<rparr>)"
proof -
  obtain r where r: "u = toDomainUser r" using assms(2) by (auto simp: entity_at_def)
  have o: "user_overlay (now s) (u\<lparr>u_Status := ''active''\<rparr>) u =
      u\<lparr>u_Status := ''active'', u_UpdatedAt := time_UnixMilli (now s)\<rparr>"
    by (rule loaded_user_overlay(1) [OF r]) simp
  have "u_Status (user_overlay (now s) (u\<lparr>u_Status := ''active''\<rparr>) u) \<noteq> u_Status u"
    by (simp add: o assms(3))
  then have "user_overlay (now s) (u\<lparr>u_Status := ''active''\<rparr>) u \<noteq> u" by auto
  from quiet_change [where change = "\<lambda>u. lift_io (User_Unfreeze u)", OF assms(1,2) _ refl _ _ _ _ this]
  show ?thesis
    by (simp add: userService_Unfreeze_def modify_unit_def User_Unfreeze_def assms(3) o)
qed

lemma Freeze_refused:
  assumes "users_ok rows s" and "\<not> (\<exists>u. user_at rows s uid = Some u \<and> u_Status u = ''active'')"
  shows "userService_Freeze (userRepo_of db) uid s =
           (Inl (ident (if user_at rows s uid = None then ErrUserNotFound
                        else ErrUserInvalidStatus)), s)"
  using assms get_user [of s uid]
  by (auto simp: userService_Freeze_def bind_io_run User_Freeze_def split: option.splits)

lemma Unfreeze_refused:
  assumes "users_ok rows s" and "\<not> (\<exists>u. user_at rows s uid = Some u \<and> u_Status u = ''frozen'')"
  shows "userService_Unfreeze (userRepo_of db) uid s =
           (Inl (ident (if user_at rows s uid = None then ErrUserNotFound
                        else ErrUserInvalidStatus)), s)"
  using assms get_user [of s uid]
  by (auto simp: userService_Unfreeze_def bind_io_run User_Unfreeze_def split: option.splits)

text \<open>A new password for a stored user.\<close>

lemma password_counted:
  assumes ok: "users_ok rows s" and u: "user_at rows s uid = Some u"
    and h: "bcrypt_Generate env pw s = (Inr h, s1)" "h \<noteq> []" "rows s1 = rows s"
    and change: "change u = bind_io (bcrypt_Generate env pw)
                              (\<lambda>hash. return_io (u\<lparr>u_PasswordHash := hash\<rparr>))"
  shows "\<exists>n s'. g_Updates db (Where ''id = ?'' [SqlStr uid] Model)
             (toUserEntity (u\<lparr>u_PasswordHash := h\<rparr>)) s1 = (Inr n, s') \<and> 0 \<le> n \<and> n \<le> 1 \<and>
           (u\<lparr>u_PasswordHash := h, u_UpdatedAt := time_UnixMilli (now s1)\<rparr> \<noteq> u \<longrightarrow> n = 1) \<and>
           modify_unit (urp_GetByID (userRepo_of db)) (urp_Update (userRepo_of db)) uid change s =
             (if n = 0 then Inl (ident ErrUserNotFound) else Inr (), s') \<and> users_ok rows s' \<and>
           user_at rows s' = (user_at rows s)
             (uid \<mapsto> u\<lparr>u_PasswordHash := h, u_UpdatedAt := time_UnixMilli (now s1)\<rparr>)"
proof -
  obtain r where r: "u = toDomainUser r" using u by (auto simp: entity_at_def)
  have "change u s = (Inr (u\<lparr>u_PasswordHash := h\<rparr>), s1)"
    using h(1) by (simp add: change bind_io_run)
  from quiet_counted [where change = change, OF ok u this h(3)] loaded_user_overlay(2) [OF r h(2)]
  show ?thesis by simp
qed

lemma password_saved:
  assumes "users_ok rows s" and "user_at rows s uid = Some u"
    and "bcrypt_Generate env pw s = (Inr h, s1)" "h \<noteq> []" "rows s1 = rows s"
    and clock: "u_UpdatedAt u \<noteq> time_UnixMilli (now s1)"
    and "change u = bind_io (bcrypt_Generate env pw)
                              (\<lambda>hash. return_io (u\<lparr>u_PasswordHash := hash\<rparr>))"
  shows "\<exists>s'. modify_unit (urp_GetByID (userRepo_of db)) (urp_Update (userRepo_of db)) uid
                change s = (Inr (), s') \<and> users_ok rows s' \<and>
           user_at rows s' = (user_at rows s)
             (uid \<mapsto> u\<lparr>u_PasswordHash := h, u_UpdatedAt := time_UnixMilli (now s1)\<rparr>)"
proof -
  have "u\<lparr>u_PasswordHash := h, u_UpdatedAt := time_UnixMilli (now s1)\<rparr> \<noteq> u"
    by (rule notI, drule arg_cong [where f = u_UpdatedAt]) (use clock in simp)
  then show ?thesis using password_counted [where change = change, OF assms(1-5,7)] by auto
qed

lemma username_matches:
  "matches (user_holds like) (Where ''username = ?'' [SqlStr name] Model) r \<longleftrightarrow> ur_Username r = name"
  by (simp add: matches_def query_simps)

lemma get_by_username:
  assumes "r \<in> set (rows s)" and "ur_Username r = name"
  shows "\<exists>u. urp_GetByUsername (userRepo_of db) name s = (Inr u, s)"
proof -
  obtain r' where "g_First db (Where ''username = ?'' [SqlStr name] Model) s = (Inr r', s)"
    using First_some [of s "Where ''username = ?'' [SqlStr name] Model"] assms
    by (auto simp: username_matches)
  then show ?thesis by (simp add: user_store_defs bind_io_run first_or_def map_err_io_run)
qed

lemma get_by_username_none:
  "\<forall>r \<in> set (rows s). ur_Username r \<noteq> name \<Longrightarrow>
     urp_GetByUsername (userRepo_of db) name s = (Inl (ident ErrUserNotFound), s)"
  using First_none [of s "Where ''username = ?'' [SqlStr name] Model"]
  by (auto simp: username_matches user_store_defs bind_io_run first_or_def map_err_io_run)

lemma Create_taken:
  assumes "8 \<le> length (cur_Password req)" and "cur_Role req \<noteq> []"
    and "r \<in> set (rows s)" and "ur_Username r = cur_Username req"
  shows "userService_Create env (userRepo_of db) req s = (Inl (ident ErrUserAlreadyExists), s)"
  using get_by_username [OF assms(3,4)] assms(1,2)
  by (auto simp: userService_Create_def try_io_run)

lemma Create_new:
  assumes ok: "users_ok rows s" and pw: "8 \<le> length (cur_Password req)" "cur_Role req \<noteq> []"
    and name: "\<forall>r \<in> set (rows s). ur_Username r \<noteq> cur_Username req"
    and phone: "\<forall>r \<in> set (rows s). cur_Phone req \<noteq> None \<longrightarrow> ur_Phone r \<noteq> cur_Phone req"
    and h: "bcrypt_Generate env (cur_Password req) s = (Inr h, s1)" "rows s1 = rows s"
    and u: "uuid_New env s1 = (uid, s2)" "rows s2 = rows s"
    and fresh: "\<forall>r \<in> set (rows s). ur_ID r \<noteq> uid"
  shows "\<exists>user s'. userService_Create env (userRepo_of db) req s = (Inr user, s') \<and>
           user = \<lparr>u_ID = uid, u_TenantID = cur_TenantID req, u_Username = cur_Username req,
                   u_Email = cur_Email req, u_Phone = cur_Phone req, u_PasswordHash = h,
                   u_RealName = cur_RealName req, u_Role = cur_Role req, u_Status = ''active'',
                   u_LastLoginAt = None, u_CreatedAt = time_zero, u_UpdatedAt = time_zero\<rparr> \<and>
           users_ok rows s' \<and>
           user_at rows s' = (user_at rows s)
             (uid \<mapsto> user\<lparr>u_CreatedAt := time_UnixMilli (now s2),
                            u_UpdatedAt := time_UnixMilli (now s2)\<rparr>)"
proof -
  define user where "user = (NewUser (cur_Username req) h (cur_RealName req) (cur_Role req)
      (cur_TenantID req))\<lparr>u_ID := uid, u_Email := cur_Email req, u_Phone := cur_Phone req\<rparr>"
  have ok2: "users_ok rows s2" using ok u by (simp add: table_intact_def)
  have fr: "row_fresh user_clash rows s2 (toUserEntity user)"
    using name phone fresh u
    by (auto simp: row_fresh_def user_clash_def user_def NewUser_def toUserEntity_def)
  obtain s' where s': "urp_Create (userRepo_of db) user s2 = (Inr (), s')" "users_ok rows s'"
      "user_at rows s' = (user_at rows s2)(ur_ID (toUserEntity user) \<mapsto>
          toDomainUser (user_stamp (now s2) (toUserEntity user)))"
    using users.store.crt_fresh [OF ok2 fr] unfolding userRepo_eqs by blast
  have "user_at rows s2 = user_at rows s"
    by (rule ext) (simp add: entity_at_def row_at_def u)
  moreover have "userService_Create env (userRepo_of db) req s = (Inr user, s')"
    using get_by_username_none [OF name] s'(1) u(1) h(1) pw
    by (simp add: userService_Create_def try_io_run bind_io_run ask_io_run user_def Let_def)
  ultimately show ?thesis using s'
    by (simp add: user_def NewUser_def toUserEntity_def toDomainUser_def user_stamp_def time_IsZero_def)
qed

end

end
