(* ===== verification/Worlds.thy ===== *)
theory Worlds
  imports Part_World Go_Text Jwt User_Correct Sms_Props
begin

text \<open>
  Worlds that hold more than one component: a table, or any action, that lives in the first
  half of a pair, and a reference JWT library whose signatures are entries of a log. The
  properties that span components run on such a world.
\<close>

section \<open>The first half of a pair\<close>

definition gorm_fst :: "('s, 'row) gorm \<Rightarrow> ('s \<times> 'w, 'row) gorm" where
  "gorm_fst = gorm_part fst (\<lambda>s w. (s, snd w))"

definition set_fst :: "('x \<Rightarrow> 's \<Rightarrow> 's) \<Rightarrow> 'x \<Rightarrow> 's \<times> 'w \<Rightarrow> 's \<times> 'w" where
  "set_fst = set_part fst (\<lambda>s w. (s, snd w))"

lemma gorm_fst_table:
  assumes "gorm_table db rows set_rows holds clash now stamp assign assign_cols group_key order_key dup"
  shows "gorm_table (gorm_fst db) (rows \<circ> fst) (set_fst set_rows) holds clash (now \<circ> fst) stamp assign
           assign_cols group_key order_key dup"
  unfolding gorm_fst_def set_fst_def by (rule gorm_part_table) (simp_all add: assms)

lemma user_db_fst:
  "user_db like db rows set_rows now dup \<Longrightarrow> user_db like (gorm_fst db) (rows \<circ> fst) (set_fst set_rows) (now \<circ> fst) dup"
  unfolding user_db_def by (rule gorm_fst_table)

text \<open>The actions of a repository on the first half leave the second half alone.\<close>

lemma user_repo_fst_same:
  "snd (snd (urp_GetByID (userRepo_of (gorm_fst db)) x s)) = snd s"
  "snd (snd (urp_GetByUsername (userRepo_of (gorm_fst db)) x s)) = snd s"
  "snd (snd (urp_GetByPhone (userRepo_of (gorm_fst db)) x s)) = snd s"
  "snd (snd (urp_Update (userRepo_of (gorm_fst db)) u s)) = snd s"
  by (simp_all add: user_store_defs gorm_fst_def gorm_part_def at_part_run)

section \<open>A reference signer\<close>

text \<open>The n-th signature is the number n; the log holds the claims.\<close>

definition log_issued :: "Claims list \<Rightarrow> string \<Rightarrow> Claims option" where
  "log_issued xs = map_of (zip (map dec_digits [0..<length xs]) xs)"

lemma dec_digits_inj: "dec_digits m = dec_digits n \<Longrightarrow> m = n"
  by (metis dec_digits_value of_nat_eq_iff)

lemma log_issued_next: "log_issued xs (dec_digits (length xs)) = None"
proof -
  have "dec_digits (length xs) \<notin> dec_digits ` {0..<length xs}"
  proof
    assume "dec_digits (length xs) \<in> dec_digits ` {0..<length xs}"
    then obtain i where "i < length xs" "dec_digits (length xs) = dec_digits i" unfolding image_iff by force
    with dec_digits_inj [of "length xs" i] show False by simp
  qed
  then show ?thesis by (auto simp: log_issued_def map_of_eq_None_iff dest!: set_zip_leftD)
qed

lemma log_issued_snoc: "log_issued (xs @ [c]) = (log_issued xs)(dec_digits (length xs) \<mapsto> c)"
proof
  fix t
  have "log_issued (xs @ [c]) = [dec_digits (length xs) \<mapsto> c] ++ log_issued xs"
    by (simp add: log_issued_def map_of_append)
  then show "log_issued (xs @ [c]) t = ((log_issued xs)(dec_digits (length xs) \<mapsto> c)) t"
    using log_issued_next [of xs] by (cases "log_issued xs t") (auto simp: map_add_def)
qed

definition ref_jwt ::
  "('s \<Rightarrow> Claims list) \<Rightarrow> (Claims list \<Rightarrow> 's \<Rightarrow> 's) \<Rightarrow> ('s \<Rightarrow> int) \<Rightarrow> (unit, 's) jwt_lib" where
  "ref_jwt toks set_toks clock =
     \<lparr>jwt_ParsePrivateKey = (\<lambda>pem. Inr ()), jwt_ParsePublicKey = (\<lambda>pem. Inr \<lparr>pk_N = 3233, pk_E = 17\<rparr>),
      jwt_SignedString = (\<lambda>alg hdr c priv s. (Inr (dec_digits (length (toks s))), set_toks (toks s @ [c]) s)),
      jwt_ParseWithClaims = (\<lambda>tok keyf iss s.
        (case log_issued (toks s) tok of
           None \<Rightarrow> Inl (Opaque ''signature is invalid'')
         | Some c \<Rightarrow>
             if clock s < rcl_ExpiresAt (cl_Registered c) \<and> rcl_Issuer (cl_Registered c) = iss
             then map_sum (\<lambda>e. e) (\<lambda>_. \<lparr>jt_Claims = c, jt_Valid = True\<rparr>) (keyf ''RS256'')
             else Inl (Opaque ''token is expired''), s)),
      jwt_NewNumericDate = (\<lambda>t. t div time_second * time_second)\<rparr>"

lemma ref_jwt_rs256:
  assumes "\<And>l s. toks (set_toks l s) = l"
  shows "jwt_rs256 (ref_jwt toks set_toks clock) key (\<lambda>s. log_issued (toks s))
           (\<lambda>s c. clock s < rcl_ExpiresAt (cl_Registered c))"
  by unfold_locales (auto simp: ref_jwt_def assms log_issued_snoc log_issued_next)

end
