(* ===== verification/User_Props.thy ===== *)
theory User_Props
  imports User_Correct
begin

text \<open>
  The properties of the user RPCs: the handlers of \<open>grpc/user_server.go\<close> over the service, the
  repository and the GORM table, composed as \<open>grpc/register.go\<close> composes them.
\<close>

definition user_server :: "'s go_env \<Rightarrow> 's user_gorm \<Rightarrow> 's user_service" where
  "user_server env db = NewUserService env (NewUserRepo (NewUserDAO db))"

lemmas user_server_defs =
  user_server_def NewUserService_def UserGRPCServer_CreateUser_def UserGRPCServer_GetUser_def
  UserGRPCServer_GetCurrentUser_def UserGRPCServer_ListUsers_def UserGRPCServer_UpdateUser_def
  UserGRPCServer_FreezeUser_def UserGRPCServer_UnfreezeUser_def
  UserGRPCServer_ResetPassword_def UserGRPCServer_UpdateProfile_def
  UserGRPCServer_ChangePassword_def UserGRPCServer_ImportUsers_def

lemma user_codes [simp]:
  "toUserGRPCError (ident ErrUserNotFound) = StatusErr NotFound ''user not found''"
  "toUserGRPCError (ident ErrUserAlreadyExists) = StatusErr AlreadyExists ''user already exists''"
  "toUserGRPCError (ident ErrUserInvalidStatus) =
     StatusErr InvalidArgument ''invalid user status transition''"
  "toUserGRPCError (ident ErrPasswordIncorrect) = StatusErr InvalidArgument ''incorrect password''"
  "toUserGRPCError (ident ErrPasswordTooShort) =
     StatusErr InvalidArgument ''password must be at least 8 characters''"
  "toUserGRPCError (ident ErrInvalidRole) = StatusErr InvalidArgument ''invalid user role''"
  by (simp_all add: toUserGRPCError_def userErrorMappings_def)

section \<open>Invariant of the table\<close>

inductive user_rpc :: "'s go_env \<Rightarrow> 's user_gorm \<Rightarrow> 's \<Rightarrow> 's \<Rightarrow> bool" for env db where
  create: "user_rpc env db s (snd (UserGRPCServer_CreateUser (user_server env db) req s))"
| get: "user_rpc env db s (snd (UserGRPCServer_GetUser (user_server env db) uid s))"
| current: "user_rpc env db s (snd (UserGRPCServer_GetCurrentUser (user_server env db) ctx s))"
| list: "user_rpc env db s (snd (UserGRPCServer_ListUsers (user_server env db) lreq s))"
| update: "user_rpc env db s (snd (UserGRPCServer_UpdateUser (user_server env db) ureq s))"
| freeze: "user_rpc env db s (snd (UserGRPCServer_FreezeUser (user_server env db) uid s))"
| unfreeze: "user_rpc env db s (snd (UserGRPCServer_UnfreezeUser (user_server env db) uid s))"
| reset: "user_rpc env db s (snd (UserGRPCServer_ResetPassword (user_server env db) rreq s))"
| profile: "user_rpc env db s (snd (UserGRPCServer_UpdateProfile (user_server env db) preq s))"
| password: "user_rpc env db s (snd (UserGRPCServer_ChangePassword (user_server env db) creq s))"
| import: "user_rpc env db s (snd (UserGRPCServer_ImportUsers (user_server env db) items s))"

definition user_roles :: "string set" where
  "user_roles = {''platform_admin'', ''tenant_admin'', ''operator''}"

definition user_row_valid :: "user_row \<Rightarrow> bool" where
  "user_row_valid r = (ur_Status r \<in> {''active'', ''frozen''} \<and> ur_Role r \<in> user_roles)"

text \<open>A user fit to be saved: GORM keeps the old role when the new one is empty.\<close>

definition user_savable :: "user \<Rightarrow> bool" where
  "user_savable u = (u_Status u \<in> {''active'', ''frozen''} \<and> u_Role u \<in> insert [] user_roles)"

definition user_table_valid :: "('s \<Rightarrow> user_row list) \<Rightarrow> 's \<Rightarrow> bool" where
  "user_table_valid rows s \<longleftrightarrow> users_ok rows s \<and> (\<forall>r \<in> set (rows s). user_row_valid r)"

lemma user_table_valid_rows:
  "rows s' = rows s \<Longrightarrow> user_table_valid rows s' = user_table_valid rows s"
  by (simp add: user_table_valid_def table_intact_def)

lemma proto_role: "domainRoleFromProto p = [] \<or> domainRoleFromProto p \<in> user_roles"
  by (cases p) (simp_all add: user_roles_def)

context user_db
begin

lemma user_first_same: "snd (g_First db q s) = s"
  by (cases rule: users.First_run [where s = s and q = q]) auto

lemma get_user_same [simp]:
  "snd (urp_GetByID (userRepo_of db) uid s) = s"
  "snd (urp_GetByUsername (userRepo_of db) nm s) = s"
  "snd (urp_GetByPhone (userRepo_of db) ph s) = s"
  by (simp_all add: user_store_defs user_first_same)

lemma get_user_savable:
  assumes "user_table_valid rows s" and "urp_GetByID (userRepo_of db) uid s = (Inr u, s')"
  shows "s' = s \<and> user_savable u"
  using assms by (cases rule: users.First_run [where s = s and q = "Where ''id = ?'' [SqlStr uid] Model"])
    (auto simp: userRepo_eqs bind_io_run first_or_def map_err_io_run user_table_valid_def
      user_row_valid_def user_savable_def toDomainUser_def)

lemma update_user_valid:
  assumes "user_table_valid rows s" and "user_savable u"
  shows "user_table_valid rows (snd (urp_Update (userRepo_of db) u s))"
proof -
  have "user_row_valid (user_assign t c (toUserEntity u) r)" if "user_row_valid r" for t c r
    using that assms(2)
    by (auto simp: user_row_valid_def user_savable_def user_assign_def toUserEntity_def set_text_def)
  then show ?thesis
    using assms(1) users.Updates_keeps [of s user_row_valid _ "toUserEntity u"]
    by (simp add: userRepo_eqs user_table_valid_def)
qed

lemma create_user_valid:
  assumes "user_table_valid rows s" and "user_savable u" and "u_Role u \<noteq> []"
  shows "user_table_valid rows (snd (urp_Create (userRepo_of db) u s))"
  using assms users.Create_keeps [of s user_row_valid "toUserEntity u"]
  by (auto simp: userRepo_eqs user_table_valid_def user_row_valid_def user_savable_def
      user_stamp_def toUserEntity_def)

text \<open>What each call of the service does to a valid table, and what it gives back.\<close>

abbreviation "uvalid \<equiv> user_table_valid rows"

lemma user_steps:
  "io_inv uvalid (urp_GetByID (userRepo_of db) uid) user_savable"
  "io_inv uvalid (urp_GetByUsername (userRepo_of db) nm) (\<lambda>_. True)"
  "user_savable u \<Longrightarrow> io_inv uvalid (urp_Update (userRepo_of db) u) (\<lambda>_. True)"
  "user_savable u \<Longrightarrow> u_Role u \<noteq> [] \<Longrightarrow> io_inv uvalid (urp_Create (userRepo_of db) u) (\<lambda>_. True)"
  "io_inv uvalid (urp_List (userRepo_of db) uf p n) (\<lambda>_. True)"
proof -
  show "io_inv uvalid (urp_GetByID (userRepo_of db) uid) user_savable"
    using get_user_savable unfolding io_inv_def by (metis get_user_same(1) prod.collapse)
  have "snd (urp_List (userRepo_of db) uf p n s) = s" for s
    using page_same [of "user_query _" p n s]
    by (auto simp: user_store_defs bind_io_run split: prod.split sum.split) (metis snd_conv)+
  then show "io_inv uvalid (urp_List (userRepo_of db) uf p n) (\<lambda>_. True)" by (simp add: io_inv_def)
qed (simp_all add: io_inv_def update_user_valid create_user_valid)

lemma world_steps:
  assumes "go_world env rows"
  shows "io_inv uvalid (bcrypt_Generate env pw) (\<lambda>_. True)" and "io_inv uvalid (ask_io (uuid_New env)) (\<lambda>_. True)"
  by (simp_all add: io_inv_def ask_io_run user_table_valid_rows [where rows = rows, OF go_world.hash_rows [OF assms]]
      user_table_valid_rows [where rows = rows, OF go_world.uuid_rows [OF assms]])

lemma user_keeps:
  assumes "\<And>u. user_savable u \<Longrightarrow> io_inv uvalid (k u) (\<lambda>_. True)"
  shows "io_inv uvalid (bind_io (urp_GetByID (userRepo_of db) uid) k) (\<lambda>_. True)"
  by (rule io_inv_bind [OF user_steps(1)]) (rule assms)

lemma savable_changes:
  assumes "user_savable u"
  shows "user_savable (u\<lparr>u_PasswordHash := h\<rparr>)" and "user_savable (profile_changes preq u)"
    and "User_Freeze u = Inr u' \<Longrightarrow> user_savable u'" and "User_Unfreeze u = Inr u' \<Longrightarrow> user_savable u'"
    and "\<forall>x \<in> set_option (uur_Role req). x = [] \<or> x \<in> user_roles \<Longrightarrow> user_savable (user_changes req u)"
  using assms by (auto simp: user_savable_def profile_changes_def User_Freeze_def User_Unfreeze_def
      user_changes_def assign_if_def split: if_splits option.split)

lemma lift_move:
  "(\<And>u'. r = Inr u' \<Longrightarrow> user_savable u') \<Longrightarrow> io_inv uvalid (bind_io (lift_io r) (urp_Update (userRepo_of db))) (\<lambda>_. True)"
  by (rule io_inv_bind [where P = user_savable]) (simp_all add: user_steps)

lemma create_service_valid:
  assumes "go_world env rows" and "cur_Role req = [] \<or> cur_Role req \<in> user_roles"
  shows "io_inv uvalid (userService_Create env (userRepo_of db) req) (\<lambda>_. True)"
proof -
  have "user_savable ((NewUser nm h rn (cur_Role req) t)\<lparr>u_ID := uid, u_Email := e, u_Phone := ph\<rparr>)"
    "u_Role ((NewUser nm h rn (cur_Role req) t)\<lparr>u_ID := uid, u_Email := e, u_Phone := ph\<rparr>) = cur_Role req"
    for nm h rn t uid e ph using assms(2) by (auto simp: user_savable_def NewUser_def)
  then show ?thesis unfolding userService_Create_def Let_def
    by (auto intro!: io_inv_if io_inv_bind [where P = "\<lambda>_. True"] user_steps(4) io_inv_try [OF user_steps(2)]
        world_steps [OF assms(1)] split: sum.split)
qed

lemma import_loop_valid:
  assumes "\<And>req. cur_Role req = [] \<or> cur_Role req \<in> user_roles \<Longrightarrow> io_inv uvalid (create req) (\<lambda>_. True)"
    and "\<forall>x \<in> set items. iui_Role x = [] \<or> iui_Role x \<in> user_roles"
  shows "io_inv uvalid (importUsers_loop create i items result) (\<lambda>_. True)"
  using assms(2)
proof (induction items arbitrary: i result)
  case (Cons x xs)
  then show ?case by (auto intro!: io_inv_try [where P = "\<lambda>_. True"] assms(1))
qed simp

lemma user_rpcs_valid:
  assumes world: "go_world env rows"
  shows "io_inv uvalid (UserGRPCServer_CreateUser (user_server env db) req) (\<lambda>_. True)"
    and "io_inv uvalid (UserGRPCServer_ListUsers (user_server env db) lreq) (\<lambda>_. True)"
    and "io_inv uvalid (UserGRPCServer_UpdateUser (user_server env db) ureq) (\<lambda>_. True)"
    and "io_inv uvalid (UserGRPCServer_FreezeUser (user_server env db) uid) (\<lambda>_. True)"
    and "io_inv uvalid (UserGRPCServer_UnfreezeUser (user_server env db) uid) (\<lambda>_. True)"
    and "io_inv uvalid (UserGRPCServer_ResetPassword (user_server env db) rreq) (\<lambda>_. True)"
    and "io_inv uvalid (UserGRPCServer_UpdateProfile (user_server env db) preq) (\<lambda>_. True)"
    and "io_inv uvalid (UserGRPCServer_ChangePassword (user_server env db) creq) (\<lambda>_. True)"
    and "io_inv uvalid (UserGRPCServer_ImportUsers (user_server env db) items) (\<lambda>_. True)"
    and "io_inv uvalid (UserGRPCServer_GetUser (user_server env db) uid) (\<lambda>_. True)"
    and "io_inv uvalid (UserGRPCServer_GetCurrentUser (user_server env db) ctx) (\<lambda>_. True)"
proof -
  have role: "\<forall>x \<in> set_option (map_option domainRoleFromProto r). x = [] \<or> x \<in> user_roles" for r
    using proto_role by (cases r) auto
  note create = create_service_valid [OF world]
  note services = userService_List_def userService_Update_def userService_Freeze_def userService_Unfreeze_def
    userService_ResetPassword_def userService_UpdateProfile_def userService_ChangePassword_def userService_GetByID_def
  note moves = io_inv_reply [where P = "\<lambda>_. True"] user_keeps io_inv_if lift_move user_steps(3)
    io_inv_bind [OF user_steps(3)] io_inv_bind [OF user_steps(5)] io_inv_bind [OF world_steps(1) [OF world]]
  show "io_inv uvalid (UserGRPCServer_CreateUser (user_server env db) req) (\<lambda>_. True)"
    using proto_role [of "pcu_Role req"] by (auto simp: user_server_defs Let_def intro!: io_inv_reply create)
  show "io_inv uvalid (UserGRPCServer_ImportUsers (user_server env db) items) (\<lambda>_. True)"
    unfolding UserGRPCServer_ImportUsers_def user_server_def NewUserService_def user_service.select_convs
      userService_ImportUsers_def
    by (rule io_inv_reply, rule import_loop_valid [OF create]) (simp_all add: proto_role)
  show "io_inv uvalid (UserGRPCServer_UpdateUser (user_server env db) ureq) (\<lambda>_. True)"
    using role [of "puu_Role ureq"]
    by (auto simp: user_server_defs services Let_def intro!: moves savable_changes(5))
  have "io_inv uvalid (userService_List (userRepo_of db) r) (\<lambda>_. True)" for r
    unfolding userService_List_def Let_def by (rule io_inv_bind [OF user_steps(5)]) (simp split: prod.split)
  then show "io_inv uvalid (UserGRPCServer_ListUsers (user_server env db) lreq) (\<lambda>_. True)"
    by (simp add: user_server_defs io_inv_reply [where P = "\<lambda>_. True"] split: prod.split)
  have "io_inv uvalid (userService_Freeze (userRepo_of db) uid) (\<lambda>_. True)"
    "io_inv uvalid (userService_Unfreeze (userRepo_of db) uid) (\<lambda>_. True)"
    unfolding services by (rule user_keeps, rule lift_move, erule savable_changes, assumption)+
  then show "io_inv uvalid (UserGRPCServer_FreezeUser (user_server env db) uid) (\<lambda>_. True)"
    "io_inv uvalid (UserGRPCServer_UnfreezeUser (user_server env db) uid) (\<lambda>_. True)"
    by (simp_all add: user_server_defs io_inv_reply [where P = "\<lambda>_. True"])
  show "io_inv uvalid (UserGRPCServer_ResetPassword (user_server env db) rreq) (\<lambda>_. True)"
    by (auto simp: user_server_defs services intro!: moves savable_changes(1))
  show "io_inv uvalid (UserGRPCServer_UpdateProfile (user_server env db) preq) (\<lambda>_. True)"
    by (auto simp: user_server_defs services Let_def intro!: moves savable_changes(2))
  show "io_inv uvalid (UserGRPCServer_ChangePassword (user_server env db) creq) (\<lambda>_. True)"
    by (auto simp: user_server_defs services intro!: moves savable_changes(1))
  have get: "io_inv uvalid (urp_GetByID (userRepo_of db) uid) (\<lambda>_. True)" for uid by (simp add: io_inv_def)
  show "io_inv uvalid (UserGRPCServer_GetUser (user_server env db) uid) (\<lambda>_. True)"
    "io_inv uvalid (UserGRPCServer_GetCurrentUser (user_server env db) ctx) (\<lambda>_. True)"
    by (auto simp: user_server_defs services Let_def intro!: io_inv_reply get)
qed

lemma user_rpc_valid:
  assumes "user_rpc env db s s'" and "user_table_valid rows s" and "go_world env rows"
  shows "user_table_valid rows s'"
  using assms(1) by cases (simp_all add: user_rpcs_valid [OF assms(3), THEN io_invD, OF assms(2)])

end

section \<open>The import loop\<close>

abbreviation import_request :: "ImportUserItem \<Rightarrow> CreateUserRequest" where
  "import_request item \<equiv>
     \<lparr>cur_TenantID = iui_TenantID item, cur_Username = iui_Username item,
      cur_Password = iui_Password item, cur_Email = iui_Email item, cur_Phone = iui_Phone item,
      cur_RealName = iui_RealName item, cur_Role = iui_Role item\<rparr>"

definition import_errors :: "int \<Rightarrow> (go_error + user) list \<Rightarrow> ImportError list" where
  "import_errors i outcomes = concat (map (\<lambda>j. case outcomes ! j of
       Inl err \<Rightarrow> [\<lparr>ie_Index = i + int j, ie_Message = error_text err\<rparr>] | Inr _ \<Rightarrow> [])
     [0..<length outcomes])"

lemma import_errors_zero:
  "import_errors 0 outcomes = concat (map (\<lambda>j. case outcomes ! j of
       Inl err \<Rightarrow> [\<lparr>ie_Index = int j, ie_Message = error_text err\<rparr>] | Inr _ \<Rightarrow> [])
     [0..<length outcomes])"
  by (simp add: import_errors_def cong: sum.case_cong)

lemma import_errors_Cons:
  "import_errors i (x # xs) =
     (case x of Inl err \<Rightarrow> [\<lparr>ie_Index = i, ie_Message = error_text err\<rparr>] | Inr _ \<Rightarrow> []) @
     import_errors (i + 1) xs"
proof -
  have "[0..<length (x # xs)] = 0 # map Suc [0..<length xs]"
    by (simp add: upt_conv_Cons map_Suc_upt del: upt_Suc)
  then show ?thesis
    by (simp add: import_errors_def comp_def add.assoc [symmetric] del: upt_Suc
        cong: sum.case_cong)
qed

lemma import_loop_run:
  "importUsers_loop create i items res s = (r, s') \<Longrightarrow>
   \<exists>outcomes states.
     length outcomes = length items \<and> length states = length items + 1 \<and>
     states ! 0 = s \<and> states ! length items = s' \<and>
     (\<forall>j < length items. create (import_request (items ! j)) (states ! j) =
        (outcomes ! j, states ! (j + 1))) \<and>
     r = Inr (res\<lparr>ir_Success := ir_Success res + int (length items) - int (length (import_errors i outcomes)),
                  ir_Failed := ir_Failed res + int (length (import_errors i outcomes)),
                  ir_Errors := ir_Errors res @ import_errors i outcomes\<rparr>)"
proof (induction items arbitrary: i res s)
  case Nil
  then show ?case
    by (intro exI [of _ "[]"] exI [of _ "[s]"]) (auto simp: import_errors_def)
next
  case (Cons x xs)
  obtain out s1 where o: "create (import_request x) s = (out, s1)"
    by (cases "create (import_request x) s")
  let ?res = "case out of
      Inl err \<Rightarrow> res\<lparr>ir_Failed := ir_Failed res + 1,
                     ir_Errors := ir_Errors res @ [\<lparr>ie_Index = i, ie_Message = error_text err\<rparr>]\<rparr>
    | Inr _ \<Rightarrow> res\<lparr>ir_Success := ir_Success res + 1\<rparr>"
  have "importUsers_loop create (i + 1) xs ?res s1 = (r, s')"
    using Cons.prems o by (simp add: try_io_run)
  from Cons.IH [OF this] obtain os ss where IH: "length os = length xs" "length ss = length xs + 1"
      "ss ! 0 = s1" "ss ! length xs = s'"
      "\<forall>j < length xs. create (import_request (xs ! j)) (ss ! j) = (os ! j, ss ! (j + 1))"
      "r = Inr (?res\<lparr>ir_Success := ir_Success ?res + int (length xs) - int (length (import_errors (i + 1) os)),
                  ir_Failed := ir_Failed ?res + int (length (import_errors (i + 1) os)),
                  ir_Errors := ir_Errors ?res @ import_errors (i + 1) os\<rparr>)"
    by blast
  have "\<forall>j < length (x # xs). create (import_request ((x # xs) ! j)) ((s # ss) ! j) =
      ((out # os) ! j, (s # ss) ! (j + 1))"
    using IH(3,5) o by (auto simp: nth_Cons split: nat.split)
  moreover have "r = Inr (res\<lparr>ir_Success := ir_Success res + int (length (x # xs)) -
        int (length (import_errors i (out # os))),
      ir_Failed := ir_Failed res + int (length (import_errors i (out # os))),
      ir_Errors := ir_Errors res @ import_errors i (out # os)\<rparr>)"
    unfolding IH(6) import_errors_Cons by (cases out) simp_all
  ultimately show ?case using IH(1-4)
    by (intro exI [of _ "out # os"] exI [of _ "s # ss"]) auto
qed

section \<open>Properties\<close>

definition user_example :: user_row where
  "user_example =
     \<lparr>ur_ID = ''a1'', ur_TenantID = Some ''t1'', ur_Username = ''li'', ur_Email = None,
      ur_Phone = Some ''13800138000'', ur_PasswordHash = ''h:password'', ur_RealName = ''Li'',
      ur_Role = ''operator'', ur_Status = ''active'', ur_LastLoginAt = None,
      ur_CreatedAt = 5, ur_UpdatedAt = 5\<rparr>"

lemma user_example_fields:
  "ur_ID user_example = ''a1''" "ur_Username user_example = ''li''"
  "ur_Status user_example = ''active''" "ur_UpdatedAt user_example = 5"
  "ur_PasswordHash user_example = ''h:password''" "ur_Role user_example = ''operator''"
  "ur_Phone user_example = Some ''13800138000''"
  by (simp_all add: user_example_def)

lemma user_example_at:
  "user_at fst ([user_example], t) ''a1'' = Some (toDomainUser user_example)"
  "users_ok fst ([user_example], t)"
  by (simp_all add: entity_at_def row_at_def table_intact_def unclashing_def user_example_fields)

text \<open>
  C24: No sequence of user RPCs breaks the table: identifiers, phone numbers and the usernames
  within a tenant stay unique, and every stored user is active or frozen and has one of the
  three roles, whatever the requests say.
\<close>
theorem user_rpcs_keep_table:
  assumes "user_db like db rows set_rows now dup" and "go_world env rows"
    and "(user_rpc env db)\<^sup>*\<^sup>* s s'" and "user_table_valid rows s"
  shows "user_table_valid rows s'"
  using assms(3,4)
  by (induction rule: rtranclp_induct) (auto intro: user_db.user_rpc_valid [OF assms(1) _ _ assms(2)])

lemma user_rpcs_keep_table_witness:
  "user_table_valid fst (snd (UserGRPCServer_FreezeUser (user_server ref_env (user_ref ''dup''))
     ''a1'' ([user_example], 9)))"
  by (rule user_rpcs_keep_table [OF user_ref_db [of "''dup''"] ref_env_world,
        where s = "([user_example], 9)"])
    (auto simp: user_table_valid_def user_row_valid_def user_roles_def user_example_at
      user_example_fields intro: user_rpc.freeze)

text \<open>
  C12: FreezeUser and UnfreezeUser answer NotFound for an unknown user and InvalidArgument for
  one in the wrong status, without effect; otherwise the stored user gets the new status and
  update time and nothing else changes.
\<close>
theorem freeze_user_machine:
  assumes "user_db like db rows set_rows now dup" and "users_ok rows s"
    and "(op, source, dest) \<in>
           {(UserGRPCServer_FreezeUser, ''active'', ''frozen''),
            (UserGRPCServer_UnfreezeUser, ''frozen'', ''active'')}"
  shows "let run = op (user_server env db) uid s in
         case user_at rows s uid of
           None \<Rightarrow> run = (Inl (StatusErr NotFound ''user not found''), s)
         | Some u \<Rightarrow>
             if u_Status u = source
             then \<exists>s'. run = (Inr (), s') \<and> users_ok rows s' \<and>
                       user_at rows s' = (user_at rows s)
                         (uid \<mapsto> u\<lparr>u_Status := dest, u_UpdatedAt := time_UnixMilli (now s)\<rparr>)
             else run = (Inl (StatusErr InvalidArgument ''invalid user status transition''), s)"
proof (cases "\<exists>u. user_at rows s uid = Some u \<and> u_Status u = source")
  case True
  then obtain u where u: "user_at rows s uid = Some u" "u_Status u = source" by blast
  then show ?thesis
    using assms(3) user_db.Freeze_run [OF assms(1,2) u(1)] user_db.Unfreeze_run [OF assms(1,2) u(1)]
    by (auto simp: user_server_defs grpc_reply_run)
next
  case False
  then show ?thesis
    using assms(3) user_db.Freeze_refused [OF assms(1,2)] user_db.Unfreeze_refused [OF assms(1,2)]
    by (auto simp: user_server_defs grpc_reply_run split: option.split)
qed

lemma freeze_user_machine_witness:
  "\<exists>s'. UserGRPCServer_FreezeUser (user_server ref_env (user_ref ''dup'')) ''a1''
          ([user_example], 9) = (Inr (), s')"
  using freeze_user_machine [OF user_ref_db [of "''dup''"] user_example_at(2) [of 9], of
      UserGRPCServer_FreezeUser "''active''" "''frozen''" ref_env "''a1''"]
  by (auto simp: user_example_at toDomainUser_def user_example_fields)

text \<open>
  C25: CreateUser checks in this order, each refusal without effect: the role must be one of the
  three (InvalidArgument), the password at least eight bytes long (InvalidArgument), the
  username new (AlreadyExists). Otherwise the user is stored active with the requested values,
  and the stored hash is one that bcrypt accepts for the password.
\<close>
theorem create_user_effect:
  assumes "user_db like db rows set_rows now dup" and "users_ok rows s" and "go_world env rows"
    and "bcrypt_Generate env (pcu_Password req) s = (Inr h, s1)"
    and "uuid_New env s1 = (uid, s2)"
    and "\<forall>r \<in> set (rows s). ur_ID r \<noteq> uid"
    and "\<forall>r \<in> set (rows s). pcu_Phone req \<noteq> None \<longrightarrow> ur_Phone r \<noteq> pcu_Phone req"
  shows "let run = UserGRPCServer_CreateUser (user_server env db) req s;
             role = domainRoleFromProto (pcu_Role req);
             user = \<lparr>u_ID = uid, u_TenantID = pcu_TenantId req, u_Username = pcu_Username req,
                     u_Email = pcu_Email req, u_Phone = pcu_Phone req, u_PasswordHash = h,
                     u_RealName = pcu_RealName req, u_Role = role, u_Status = ''active'',
                     u_LastLoginAt = None, u_CreatedAt = time_zero, u_UpdatedAt = time_zero\<rparr>
         in if role = [] then run = (Inl (StatusErr InvalidArgument ''invalid user role''), s)
            else if length (pcu_Password req) < 8
            then run = (Inl (StatusErr InvalidArgument
                               ''password must be at least 8 characters''), s)
            else if \<exists>r \<in> set (rows s). ur_Username r = pcu_Username req
            then run = (Inl (StatusErr AlreadyExists ''user already exists''), s)
            else \<exists>s'. run = (Inr (toProtoUser user), s') \<and> users_ok rows s' \<and>
                   bcrypt_Compare env h (pcu_Password req) \<and>
                   user_at rows s' = (user_at rows s)
                     (uid \<mapsto> user\<lparr>u_CreatedAt := time_UnixMilli (now s2),
                                    u_UpdatedAt := time_UnixMilli (now s2)\<rparr>)"
proof -
  define creq where "creq = \<lparr>cur_TenantID = pcu_TenantId req, cur_Username = pcu_Username req,
      cur_Password = pcu_Password req, cur_Email = pcu_Email req, cur_Phone = pcu_Phone req,
      cur_RealName = pcu_RealName req, cur_Role = domainRoleFromProto (pcu_Role req)\<rparr>"
  have r1: "rows s1 = rows s"
    using go_world.hash_rows [OF assms(3), of "pcu_Password req" s] assms(4) by simp
  have r2: "rows s2 = rows s"
    using go_world.uuid_rows [OF assms(3), of s1] assms(5) r1 by simp
  have cmp: "bcrypt_Compare env h (pcu_Password req)"
    using go_world.hash_compare [OF assms(3,4)] by simp
  have run: "UserGRPCServer_CreateUser (user_server env db) req s =
      (if domainRoleFromProto (pcu_Role req) = []
       then (Inl (StatusErr InvalidArgument ''invalid user role''), s)
       else grpc_reply toUserGRPCError (userService_Create env (userRepo_of db) creq) toProtoUser s)"
    by (simp add: user_server_defs creq_def Let_def)
  show ?thesis
  proof (cases "domainRoleFromProto (pcu_Role req) = [] \<or> length (pcu_Password req) < 8 \<or>
      (\<exists>r \<in> set (rows s). ur_Username r = pcu_Username req)")
    case True
    then show ?thesis
      using user_db.Create_taken [OF assms(1), of creq]
      by (auto simp: run grpc_reply_run Let_def creq_def userService_Create_def)
  next
    case False
    from user_db.Create_new [OF assms(1,2), of creq env h s1 uid s2] False assms(4-7) r1 r2 cmp
    show ?thesis unfolding run by (auto simp: grpc_reply_run Let_def creq_def)
  qed
qed

definition create_user_example :: pb_CreateUserRequest where
  "create_user_example =
     \<lparr>pcu_TenantId = Some ''t1'', pcu_Username = ''wu'', pcu_Password = ''secret-8'',
      pcu_Email = None, pcu_Phone = None, pcu_RealName = ''Wu'',
      pcu_Role = USER_ROLE_TENANT_ADMIN\<rparr>"

lemma create_user_effect_witness:
  "\<exists>pb s'. UserGRPCServer_CreateUser (user_server ref_env (user_ref ''dup'')) create_user_example
     ([user_example], 9) = (Inr pb, s') \<and>
     map_option u_Role (user_at fst s' ''u1'') = Some ''tenant_admin''"
  using create_user_effect [OF user_ref_db [of "''dup''"] user_example_at(2) [of 9] ref_env_world,
      of create_user_example "''h:secret-8''" "([user_example], 9)" "''u1''" "([user_example], 9)"]
  by (auto simp: Let_def create_user_example_def ref_env_def user_example_fields)

text \<open>
  C26: ChangePassword refuses a new password of fewer than eight bytes, an unknown user and a
  wrong old password, each with its code and without effect, and a password that bcrypt cannot
  hash with bcrypt's error, leaving the table alone. Otherwise the stored hash is replaced by
  one that bcrypt accepts for the new password, and nothing else changes but the update time;
  the answer is a success when the database counts the row, as it does when the row changes, and
  NotFound when it does not.
\<close>
theorem change_password_effect:
  assumes "user_db like db rows set_rows now dup" and "users_ok rows s" and "go_world env rows"
  shows "let run = UserGRPCServer_ChangePassword (user_server env db) req s in
         if length (pcp_NewPassword req) < 8
         then run = (Inl (StatusErr InvalidArgument ''password must be at least 8 characters''), s)
         else case user_at rows s (pcp_UserId req) of
                None \<Rightarrow> run = (Inl (StatusErr NotFound ''user not found''), s)
              | Some u \<Rightarrow>
                  if \<not> bcrypt_Compare env (u_PasswordHash u) (pcp_OldPassword req)
                  then run = (Inl (StatusErr InvalidArgument ''incorrect password''), s)
                  else case bcrypt_Generate env (pcp_NewPassword req) s of
                    (Inl err, s1) \<Rightarrow> run = (Inl (toUserGRPCError err), s1) \<and> rows s1 = rows s
                  | (Inr h, s1) \<Rightarrow>
                      \<exists>n s'. g_Updates db (Where ''id = ?'' [SqlStr (pcp_UserId req)] Model)
                          (toUserEntity (u\<lparr>u_PasswordHash := h\<rparr>)) s1 = (Inr n, s') \<and> 0 \<le> n \<and> n \<le> 1 \<and>
                        (u\<lparr>u_PasswordHash := h, u_UpdatedAt := time_UnixMilli (now s1)\<rparr> \<noteq> u \<longrightarrow> n = 1) \<and>
                        run = (if n = 0 then Inl (StatusErr NotFound ''user not found'') else Inr (), s') \<and>
                        users_ok rows s' \<and> bcrypt_Compare env h (pcp_NewPassword req) \<and>
                        user_at rows s' = (user_at rows s)(pcp_UserId req \<mapsto>
                          u\<lparr>u_PasswordHash := h, u_UpdatedAt := time_UnixMilli (now s1)\<rparr>)"
proof -
  let ?uid = "pcp_UserId req" and ?old = "pcp_OldPassword req" and ?new = "pcp_NewPassword req"
  let ?c = "\<lambda>u. if \<not> bcrypt_Compare env (u_PasswordHash u) ?old
              then fail_io (ident ErrPasswordIncorrect)
              else bind_io (bcrypt_Generate env ?new) (\<lambda>h. return_io (u\<lparr>u_PasswordHash := h\<rparr>))"
  have run: "UserGRPCServer_ChangePassword (user_server env db) req s =
      (if length ?new < 8
       then (Inl (StatusErr InvalidArgument ''password must be at least 8 characters''), s)
       else grpc_reply toUserGRPCError
         (modify_unit (urp_GetByID (userRepo_of db)) (urp_Update (userRepo_of db)) ?uid ?c) (\<lambda>_. ()) s)"
    by (simp add: user_server_defs userService_ChangePassword_def modify_unit_def grpc_reply_run
        bind_io_run cong: if_cong)
      (auto simp: bind_io_run split: prod.split sum.split)
  note load = user_db.get_user [OF assms(1,2), of ?uid]
  show ?thesis
  proof (cases "user_at rows s ?uid")
    case None
    then show ?thesis using load by (simp add: run modify_unit_def grpc_reply_run bind_io_run)
  next
    case (Some u)
    show ?thesis
    proof (cases "bcrypt_Compare env (u_PasswordHash u) ?old")
      case True
      obtain r s1 where g: "bcrypt_Generate env ?new s = (r, s1)" by fastforce
      have s1: "rows s1 = rows s" using go_world.hash_rows [OF assms(3), of ?new s] g by simp
      show ?thesis
      proof (cases r)
        case (Inl err)
        then show ?thesis using Some True g s1 load
          by (simp add: run modify_unit_def grpc_reply_run bind_io_run)
      next
        case (Inr h)
        have h: "bcrypt_Compare env h ?new" "h \<noteq> []"
          using go_world.hash_compare [OF assms(3)] g Inr by blast+
        from True have "?c u = bind_io (bcrypt_Generate env ?new) (\<lambda>h. return_io (u\<lparr>u_PasswordHash := h\<rparr>))"
          by simp
        from user_db.password_counted [where change = ?c, OF assms(1,2) Some g [unfolded Inr] h(2) s1 this]
        show ?thesis using Some True g Inr h by (elim exE conjE) (simp add: run grpc_reply_run)
      qed
    next
      case False
      then show ?thesis using Some load by (simp add: run modify_unit_def grpc_reply_run bind_io_run)
    qed
  qed
qed

lemma change_password_effect_witness:
  "\<exists>s'. UserGRPCServer_ChangePassword (user_server ref_env (user_ref ''dup''))
     \<lparr>pcp_UserId = ''a1'', pcp_OldPassword = ''password'', pcp_NewPassword = ''newsecret''\<rparr>
     ([user_example], 9) = (Inr (), s') \<and>
     map_option u_PasswordHash (user_at fst s' ''a1'') = Some ''h:newsecret''"
  using change_password_effect [OF user_ref_db [of "''dup''"] user_example_at(2) [of 9] ref_env_world,
      of "\<lparr>pcp_UserId = ''a1'', pcp_OldPassword = ''password'', pcp_NewPassword = ''newsecret''\<rparr>"]
  by (auto simp: user_example_at toDomainUser_def user_example_fields ref_env_def
      time_UnixMilli_def)

text \<open>
  C27: ImportUsers creates the listed users one after the other and never fails as a whole:
  it runs exactly the same creations as the single calls in order, whatever their outcome;
  successes and failures add up to the number of items; and the errors are listed by
  increasing index, one per failed item with that item's message.
\<close>
theorem import_users_accounting:
  assumes "userService_ImportUsers env repo items s = (r, s')"
  shows "\<exists>result outcomes states.
           r = Inr result \<and> length outcomes = length items \<and> length states = length items + 1 \<and>
           states ! 0 = s \<and> states ! length items = s' \<and>
           (\<forall>i < length items. userService_Create env repo (import_request (items ! i)) (states ! i) =
              (outcomes ! i, states ! (i + 1))) \<and>
           ir_Total result = int (length items) \<and>
           ir_Success result + ir_Failed result = ir_Total result \<and>
           ir_Failed result = int (length (ir_Errors result)) \<and>
           ir_Errors result = concat (map (\<lambda>i. case outcomes ! i of
               Inl err \<Rightarrow> [\<lparr>ie_Index = int i, ie_Message = error_text err\<rparr>] | Inr _ \<Rightarrow> [])
             [0..<length items])"
proof -
  from import_loop_run [OF assms [unfolded userService_ImportUsers_def]]
  obtain outcomes states where o: "length outcomes = length items" "length states = length items + 1"
      "states ! 0 = s" "states ! length items = s'"
      "\<forall>j < length items. userService_Create env repo (import_request (items ! j)) (states ! j) =
         (outcomes ! j, states ! (j + 1))"
    and r: "r = Inr \<lparr>ir_Total = int (length items),
        ir_Success = int (length items) - int (length (import_errors 0 outcomes)),
        ir_Failed = int (length (import_errors 0 outcomes)), ir_Errors = import_errors 0 outcomes\<rparr>"
    by auto
  then show ?thesis
    by (intro exI [of _ "\<lparr>ir_Total = int (length items),
        ir_Success = int (length items) - int (length (import_errors 0 outcomes)),
        ir_Failed = int (length (import_errors 0 outcomes)), ir_Errors = import_errors 0 outcomes\<rparr>"]
        exI [of _ outcomes] exI [of _ states]) (simp add: import_errors_zero)
qed

definition import_example :: "ImportUserItem list" where
  "import_example =
     [\<lparr>iui_TenantID = None, iui_Username = ''wu'', iui_Password = ''short'', iui_Email = None,
       iui_Phone = None, iui_RealName = [], iui_Role = ''operator''\<rparr>,
      \<lparr>iui_TenantID = None, iui_Username = ''wang'', iui_Password = ''longenough'', iui_Email = None,
       iui_Phone = None, iui_RealName = [], iui_Role = ''operator''\<rparr>]"

lemma import_users_accounting_witness:
  "\<exists>result s'. userService_ImportUsers ref_env (userRepo_of (user_ref ''dup'')) import_example
     ([user_example], 9) = (Inr result, s') \<and> ir_Total result = 2 \<and>
     ir_Success result + ir_Failed result = 2"
proof -
  obtain r s' where "userService_ImportUsers ref_env (userRepo_of (user_ref ''dup'')) import_example
      ([user_example], 9) = (r, s')"
    by (cases "userService_ImportUsers ref_env (userRepo_of (user_ref ''dup'')) import_example
      ([user_example], 9)")
  from import_users_accounting [OF this] this show ?thesis by (auto simp: import_example_def)
qed

end
