(* ===== verification/Auth_Props.thy ===== *)
theory Auth_Props
  imports Auth_Correct Worlds User_Props
begin

text \<open>
  The properties of the authentication RPCs: who gets tokens and what is in them, refresh
  tokens that work once, the published key set, and SMS login over the SMS service.
\<close>

section \<open>A world to run in\<close>

text \<open>
  Users and their clock in the first half; Redis, the SMS records, the log of signatures and
  the number of uuids drawn in the second.
\<close>

type_synonym auth_ref =
  "(user_row list \<times> int) \<times> (string \<Rightarrow> sms_code redis_val option) \<times> Claims list \<times> nat"

definition ref_kv :: "auth_ref \<Rightarrow> string \<Rightarrow> sms_code redis_val option" where
  "ref_kv s = fst (snd s)"

definition ref_set_kv :: "(string \<Rightarrow> sms_code redis_val option) \<Rightarrow> auth_ref \<Rightarrow> auth_ref" where
  "ref_set_kv m s = (fst s, m, snd (snd s))"

definition ref_log :: "auth_ref \<Rightarrow> Claims list" where
  "ref_log s = fst (snd (snd s))"

definition ref_set_log :: "Claims list \<Rightarrow> auth_ref \<Rightarrow> auth_ref" where
  "ref_set_log l s = (fst s, fst (snd s), l, snd (snd (snd s)))"

definition ref_clock :: "auth_ref \<Rightarrow> int" where
  "ref_clock s = snd (fst s) * 1000000"

definition ref_drawn :: "auth_ref \<Rightarrow> string set" where
  "ref_drawn s = dec_digits ` {0..<snd (snd (snd s))}"

definition auth_ref_env :: "auth_ref go_env" where
  "auth_ref_env =
     \<lparr>time_Now = (\<lambda>s. (ref_clock s, s)),
      uuid_New = (\<lambda>(us, m, l, n). (dec_digits n, (us, m, l, Suc n))),
      bcrypt_Generate = (\<lambda>pw s. (Inr (''h:'' @ pw), s)), bcrypt_Compare = (\<lambda>h pw. h = ''h:'' @ pw),
      rand_Int = (\<lambda>n s. (Inr (7 mod n), s))\<rparr>"

abbreviation auth_ref_redis :: "(sms_code, auth_ref) redis" where
  "auth_ref_redis \<equiv> ref_redis ref_kv ref_set_kv"

definition auth_ref_cfg :: AuthConfig where
  "auth_ref_cfg = cfg_Auth Default"

definition auth_ref_key :: "unit RS256Signer" where
  "auth_ref_key = \<lparr>rs_privateKey = (), rs_publicKey = \<lparr>pk_N = 3233, pk_E = 17\<rparr>,
     rs_kid = KeyID auth_ref_cfg, rs_issuer = Issuer auth_ref_cfg\<rparr>"

abbreviation auth_ref_jwt :: "(unit, auth_ref) jwt_lib" where
  "auth_ref_jwt \<equiv> ref_jwt ref_log ref_set_log ref_clock"

abbreviation auth_ref_signer :: "auth_ref TokenSigner" where
  "auth_ref_signer \<equiv> rs256_signer auth_ref_jwt auth_ref_key"

abbreviation auth_ref_issued :: "auth_ref \<Rightarrow> string \<Rightarrow> Claims option" where
  "auth_ref_issued s \<equiv> log_issued (ref_log s)"

definition auth_ref_live :: "auth_ref \<Rightarrow> Claims \<Rightarrow> bool" where
  "auth_ref_live s c \<longleftrightarrow>
     ref_clock s < rcl_ExpiresAt (cl_Registered c) \<and> rcl_Issuer (cl_Registered c) = rs_issuer auth_ref_key"

definition sms_record_table :: "auth_ref sms_gorm" where
  "sms_record_table =
     \<lparr>g_Create = (\<lambda>r. return_io ()), g_CreateAll = (\<lambda>rs. return_io ()),
      g_First = (\<lambda>q. fail_io record_not_found), g_Find = (\<lambda>q. return_io []), g_Count = (\<lambda>q. return_io 0),
      g_Updates = (\<lambda>q r. return_io 0), g_UpdateCols = (\<lambda>q c. return_io 0), g_Delete = (\<lambda>q. return_io 0),
      g_ScanCounts = (\<lambda>q. return_io []), g_ScanSums = (\<lambda>q. return_io [])\<rparr>"

abbreviation auth_ref_users :: "auth_ref user_repo" where
  "auth_ref_users \<equiv> userRepo_of (gorm_fst (user_ref ''dup''))"

text \<open>SMS login over the SMS service, as the identity microservice calls it.\<close>

definition sms_verifier ::
  "'s go_env \<Rightarrow> 's sms_gorm \<Rightarrow> 's sms_redis \<Rightarrow> 's sms_gateway \<Rightarrow> 's SmsCodeVerifier" where
  "sms_verifier env db rd send =
     SmsVerifierClient_VerifyCode (SmsGRPCServer_VerifyCode (sms_server env db rd send))"

lemma auth_ref_jwt_rs256:
  "jwt_rs256 auth_ref_jwt key auth_ref_issued (\<lambda>s c. ref_clock s < rcl_ExpiresAt (cl_Registered c))"
  by (rule ref_jwt_rs256) (simp add: ref_log_def ref_set_log_def)

interpretation auth_ref_jwt: jwt_rs256 auth_ref_jwt auth_ref_key auth_ref_issued
  "\<lambda>s c. ref_clock s < rcl_ExpiresAt (cl_Registered c)"
  by (rule auth_ref_jwt_rs256)

lemma auth_ref_token_signer: "token_signer auth_ref_signer auth_ref_issued auth_ref_live"
  using auth_ref_jwt.signer.token_signer_axioms unfolding auth_ref_live_def .

lemma auth_ref_redis_db: "redis_db auth_ref_redis ref_kv ref_set_kv"
  by (rule ref_redis_db) (simp_all add: ref_kv_def ref_set_kv_def)

lemma auth_ref_sms_world:
  "sms_world auth_ref_redis ref_kv ref_set_kv auth_ref_env sms_record_table (\<lambda>ph c p. return_io ())"
  unfolding sms_world_def sms_world_axioms_def
  by (auto simp: auth_ref_redis_db auth_ref_env_def sms_record_table_def ref_kv_def split: prod.split)

lemma sms_verifier_run:
  assumes "sms_world rd kv set_kv env db send"
  shows "sms_verifier env db rd send phone code s =
           (case kv s (smsTokenKey phone ''login'') of
              None \<Rightarrow> (Inl (StatusErr NotFound ''sms code not found''), s)
            | Some t \<Rightarrow> (if t = RText code then Inr () else Inl (StatusErr Unauthenticated ''sms code mismatch''),
                         set_kv ((kv s)(smsTokenKey phone ''login'' := None)) s))"
  by (simp add: sms_verifier_def SmsVerifierClient_VerifyCode_def SmsGRPCServer_VerifyCode_def
      sms_world.VerifyCode_run [OF assms] grpc_reply_run Let_def split: option.split)

abbreviation auth_ref_verify :: "auth_ref SmsCodeVerifier" where
  "auth_ref_verify \<equiv> sms_verifier auth_ref_env sms_record_table auth_ref_redis (\<lambda>ph c p. return_io ())"

lemma sms_refresh_keys [simp]: "smsTokenKey p q \<noteq> refreshKey j" "refreshKey j \<noteq> smsTokenKey p q"
  by (simp_all add: smsTokenKey_def refreshKey_def)

lemma auth_ref_verify_same:
  "ref_log (snd (auth_ref_verify ph code s)) = ref_log s"
  "ref_drawn (snd (auth_ref_verify ph code s)) = ref_drawn s"
  "ref_kv (snd (auth_ref_verify ph code s)) (refreshKey j) = ref_kv s (refreshKey j)"
  by (auto simp: sms_verifier_run [OF auth_ref_sms_world] ref_kv_def ref_log_def ref_set_kv_def
      ref_drawn_def split: option.split)

lemma auth_ref_env_fields:
  "time_Now auth_ref_env s = (ref_clock s, s)"
  "uuid_New auth_ref_env (us, m, l, n) = (dec_digits n, (us, m, l, Suc n))"
  "bcrypt_Compare auth_ref_env h pw \<longleftrightarrow> h = ''h:'' @ pw"
  by (simp_all add: auth_ref_env_def)

lemma auth_ref_world:
  "auth_world auth_ref_signer auth_ref_issued auth_ref_live auth_ref_redis ref_kv ref_set_kv
     auth_ref_env auth_ref_users auth_ref_verify ref_drawn"
proof -
  show ?thesis
    unfolding auth_world_def
  proof (intro conjI auth_ref_token_signer auth_ref_redis_db)
    show "auth_world_axioms auth_ref_signer auth_ref_issued ref_kv ref_set_kv auth_ref_env
        auth_ref_users auth_ref_verify ref_drawn"
    proof (unfold_locales, goal_cases)
      case (1 s u s')
      then have "dec_digits n \<notin> dec_digits ` {0..<n}" for n by (metis (full_types) atLeastLessThan_iff
          dec_digits_inj image_iff less_irrefl)
      with 1 show ?case
        by (cases s) (auto simp: auth_ref_env_fields ref_drawn_def ref_kv_def ref_log_def atLeast0_lessThan_Suc)
    next
      case (11 ph code s)
      show ?case by (simp add: auth_ref_verify_same)
    qed (auto simp: user_repo_fst_same auth_ref_env_fields ref_drawn_def ref_kv_def ref_log_def ref_set_kv_def ref_set_log_def ref_clock_def
        rs256_signer_def RS256Signer_Sign_def RS256Signer_Verify_def ref_jwt_def bind_io_run
        split: option.split sum.split)
  qed
qed

interpretation auth_ref: auth_world auth_ref_signer auth_ref_issued auth_ref_live auth_ref_redis ref_kv
  ref_set_kv auth_ref_env auth_ref_users auth_ref_verify ref_drawn
  by (rule auth_ref_world)

section \<open>Who gets tokens\<close>

lemma login_user_Inr:
  assumes "login_user env date svc u s = (Inr resp, s')"
  shows "u_Status u = ''active''"
  using assms by (simp add: login_user_def User_IsActive_def split: if_splits)

text \<open>
  C8: no token without credentials. Whatever the clock, the stores and the signer do, Login
  answers tokens only for an active user found by the name whose stored hash accepts the
  password, SmsLogin only after the code was verified and for an active user with the phone
  number, and RefreshToken only for a refresh token that verifies, is consumed by the call, and
  belongs to an active user.
\<close>

theorem no_token_without_credentials:
  "(AuthGRPCServer_Login env date svc lreq s = (Inr lresp, s') \<longrightarrow>
      (\<exists>u s1. urp_GetByUsername (as_userRepo svc) (pli_Username lreq) s = (Inr u, s1) \<and>
              bcrypt_Compare env (u_PasswordHash u) (pli_Password lreq) \<and> u_Status u = ''active'')) \<and>
   (AuthGRPCServer_SmsLogin env date svc sreq s = (Inr lresp, s') \<longrightarrow>
      (\<exists>s1 u s2. as_smsVerifier svc (psl_Phone sreq) (psl_Code sreq) s = (Inr (), s1) \<and>
              urp_GetByPhone (as_userRepo svc) (psl_Phone sreq) s1 = (Inr u, s2) \<and> u_Status u = ''active'')) \<and>
   (AuthGRPCServer_RefreshToken env date svc tok s = (Inr rresp, s') \<longrightarrow>
      (\<exists>c s1 v s2 u s3. ts_Verify (as_signer svc) tok s = (Inr c, s1) \<and> cl_TokenUse c = ''refresh'' \<and>
              rtr_Consume (as_refreshRepo svc) (rcl_ID (cl_Registered c)) s1 = (Inr (v, True), s2) \<and>
              urp_GetByID (as_userRepo svc) (rcl_Subject (cl_Registered c)) s2 = (Inr u, s3) \<and>
              u_Status u = ''active''))"
proof (intro conjI impI)
  assume "AuthGRPCServer_Login env date svc lreq s = (Inr lresp, s')"
  then show "\<exists>u s1. urp_GetByUsername (as_userRepo svc) (pli_Username lreq) s = (Inr u, s1) \<and>
      bcrypt_Compare env (u_PasswordHash u) (pli_Password lreq) \<and> u_Status u = ''active''"
    by (auto simp: AuthGRPCServer_Login_def authService_Login_def grpc_reply_run map_err_io_run
        dest!: login_user_Inr elim!: bind_io_InrD split: prod.splits sum.splits if_splits)
next
  assume "AuthGRPCServer_SmsLogin env date svc sreq s = (Inr lresp, s')"
  then show "\<exists>s1 u s2. as_smsVerifier svc (psl_Phone sreq) (psl_Code sreq) s = (Inr (), s1) \<and>
      urp_GetByPhone (as_userRepo svc) (psl_Phone sreq) s1 = (Inr u, s2) \<and> u_Status u = ''active''"
    by (auto simp: AuthGRPCServer_SmsLogin_def authService_SmsLogin_def grpc_reply_run map_err_io_run
        dest!: login_user_Inr elim!: bind_io_InrD split: prod.splits sum.splits)
next
  assume "AuthGRPCServer_RefreshToken env date svc tok s = (Inr rresp, s')"
  then show "\<exists>c s1 v s2 u s3. ts_Verify (as_signer svc) tok s = (Inr c, s1) \<and> cl_TokenUse c = ''refresh'' \<and>
      rtr_Consume (as_refreshRepo svc) (rcl_ID (cl_Registered c)) s1 = (Inr (v, True), s2) \<and>
      urp_GetByID (as_userRepo svc) (rcl_Subject (cl_Registered c)) s2 = (Inr u, s3) \<and> u_Status u = ''active''"
    by (auto simp: AuthGRPCServer_RefreshToken_def authService_RefreshToken_def grpc_reply_run
        map_err_io_run User_IsActive_def elim!: bind_io_InrD split: prod.splits sum.splits if_splits)
qed

text \<open>
  C31: Login on every refused branch. An unknown name and a wrong password get the same answer;
  a frozen user is told so only with the right password. Nothing but the lookup has run.
\<close>

theorem login_refusals:
  "let run = AuthGRPCServer_Login env date svc req s in
   case urp_GetByUsername (as_userRepo svc) (pli_Username req) s of
     (Inl err, s1) \<Rightarrow>
       run = (Inl (if errors_Is err (IdentityErr ErrUserNotFound)
                   then StatusErr Unauthenticated ''invalid username or password''
                   else toAuthGRPCError err), s1)
   | (Inr u, s1) \<Rightarrow>
       if \<not> bcrypt_Compare env (u_PasswordHash u) (pli_Password req)
       then run = (Inl (StatusErr Unauthenticated ''invalid username or password''), s1)
       else if u_Status u \<noteq> ''active'' then run = (Inl (StatusErr Unauthenticated ''user is frozen''), s1)
       else True"
  by (auto simp: AuthGRPCServer_Login_def authService_Login_def login_user_def hide_not_found_def
      grpc_reply_run map_err_io_run bind_io_run User_IsActive_def Let_def split: prod.split sum.split)

section \<open>What the tokens are\<close>

lemma login_user_run:
  assumes w: "auth_world sg issued live rd kv set_kv env urepo verify drawn"
    and run: "login_user env date (auth_service rd sg urepo verify cfg) u s = (Inr resp, s')"
  shows "\<exists>now last ajti rjti. ajti \<notin> drawn s \<and> rjti \<notin> drawn s \<and> rjti \<noteq> ajti \<and>
           now = fst (time_Now env s) \<and> lo_User resp = u\<lparr>u_LastLoginAt := Some last\<rparr> \<and>
           drawn s' = insert rjti (insert ajti (drawn s)) \<and>
           kv s' = (kv s)(refreshKey rjti \<mapsto> RText (u_ID u)) \<and>
           issued s' (tp_AccessToken (lo_TokenPair resp)) = Some
             \<lparr>cl_TokenUse = ''access'', cl_UserID = u_ID u, cl_TenantID = stringPtrValue (u_TenantID u),
              cl_Role = u_Role u, cl_Key = KeyID cfg,
              cl_Registered = \<lparr>rcl_Subject = u_ID u, rcl_Issuer = Issuer cfg, rcl_ID = ajti,
                rcl_IssuedAt = date now, rcl_ExpiresAt = date (now + ParseTTL (AccessTTL cfg))\<rparr>\<rparr> \<and>
           issued s' (tp_RefreshToken (lo_TokenPair resp)) = Some
             \<lparr>cl_TokenUse = ''refresh'', cl_UserID = [], cl_TenantID = [], cl_Role = [], cl_Key = [],
              cl_Registered = \<lparr>rcl_Subject = u_ID u, rcl_Issuer = Issuer cfg, rcl_ID = rjti,
                rcl_IssuedAt = date now, rcl_ExpiresAt = date (now + ParseTTL (RefreshTTL cfg))\<rparr>\<rparr>"
proof -
  let ?svc = "auth_service rd sg urepo verify cfg"
  obtain pair s1 where p: "authService_generateTokenPair env date ?svc u s = (Inr pair, s1)"
    using run by (auto simp: login_user_def split: if_splits elim!: bind_io_InrD)
  obtain last s2 where t: "time_Now env s1 = (last, s2)" by fastforce
  let ?u = "u\<lparr>u_LastLoginAt := Some last\<rparr>"
  have r: "resp = \<lparr>lo_TokenPair = pair, lo_User = ?u, lo_AccessExpiresIn = access_expires_in ?svc\<rparr>"
    "s' = snd (urp_Update urepo ?u s2)"
    using run p t
    by (auto simp: login_user_def bind_io_run ask_io_run ignore_io_run Let_def split: if_splits)
  have same: "drawn s' = drawn s1" "kv s' = kv s1" "issued s' = issued s1"
    using auth_world.clock_same [OF w t] auth_world.save_same [OF w, of ?u s2] r(2) by simp_all
  show ?thesis
    using auth_world.token_pair [OF w p] unfolding same r(1) by fastforce
qed

text \<open>
  C32: a successful Login answers two tokens made in this call. The access token carries the
  user, the tenant, the role and the key id and lives for the configured access lifetime; the
  refresh token carries the subject only, and its fresh id is stored in Redis with the user's
  id. No other key of Redis changes.
\<close>

theorem login_issues_tokens:
  assumes "auth_world sg issued live rd kv set_kv env urepo verify drawn"
    and "AuthGRPCServer_Login env date (auth_service rd sg urepo verify cfg) req s = (Inr resp, s')"
  shows "\<exists>u s1 now last ajti rjti.
           urp_GetByUsername urepo (pli_Username req) s = (Inr u, s1) \<and> now = fst (time_Now env s1) \<and>
           ajti \<notin> drawn s \<and> rjti \<notin> drawn s \<and> rjti \<noteq> ajti \<and>
           plo_TokenType resp = ''Bearer'' \<and>
           plo_User resp = toProtoUser (u\<lparr>u_LastLoginAt := Some last\<rparr>) \<and>
           kv s' = (kv s)(refreshKey rjti \<mapsto> RText (u_ID u)) \<and>
           issued s' (plo_AccessToken resp) = Some
             \<lparr>cl_TokenUse = ''access'', cl_UserID = u_ID u, cl_TenantID = stringPtrValue (u_TenantID u),
              cl_Role = u_Role u, cl_Key = KeyID cfg,
              cl_Registered = \<lparr>rcl_Subject = u_ID u, rcl_Issuer = Issuer cfg, rcl_ID = ajti,
                rcl_IssuedAt = date now, rcl_ExpiresAt = date (now + ParseTTL (AccessTTL cfg))\<rparr>\<rparr> \<and>
           issued s' (plo_RefreshToken resp) = Some
             \<lparr>cl_TokenUse = ''refresh'', cl_UserID = [], cl_TenantID = [], cl_Role = [], cl_Key = [],
              cl_Registered = \<lparr>rcl_Subject = u_ID u, rcl_Issuer = Issuer cfg, rcl_ID = rjti,
                rcl_IssuedAt = date now, rcl_ExpiresAt = date (now + ParseTTL (RefreshTTL cfg))\<rparr>\<rparr>"
proof -
  let ?svc = "auth_service rd sg urepo verify cfg"
  obtain u s1 r where u: "urp_GetByUsername urepo (pli_Username req) s = (Inr u, s1)"
    and l: "login_user env date ?svc u s1 = (Inr r, s')" and resp: "resp = login_reply r"
    using assms(2)
    by (auto simp: AuthGRPCServer_Login_def authService_Login_def grpc_reply_run map_err_io_run
        elim!: bind_io_InrD split: prod.splits sum.splits if_splits)
  have same: "drawn s1 = drawn s" "kv s1 = kv s"
    using auth_world.user_same [OF assms(1), of "urp_GetByUsername urepo (pli_Username req)"
        "pli_Username req" s] u by simp_all
  show ?thesis
    using login_user_run [OF assms(1) l] u unfolding same resp login_reply_def by fastforce
qed

section \<open>Refresh tokens work once\<close>

text \<open>
  C33: What RefreshToken and Logout refuse. Both refuse, as an invalid token, every text that is
  not a live refresh token of this signer: a forged or expired one, and an access token. A live
  refresh token whose id is not in Redis, because it was used or revoked, is refused by
  RefreshToken as revoked. Logout does not look whether it was: it answers success for every live
  refresh token, as often as it is asked, and its key is gone afterwards. Refusals change neither
  Redis nor the issued tokens, and a Logout changes no other key.
\<close>

theorem refresh_refusals:
  assumes "auth_world sg issued live rd kv set_kv env urepo verify drawn"
  shows "let svc = auth_service rd sg urepo verify cfg;
             quiet = (\<lambda>s'. kv s' = kv s \<and> issued s' = issued s);
             no_pair = (\<lambda>text. \<exists>s'. AuthGRPCServer_RefreshToken env date svc tok s =
                          (Inl (StatusErr Unauthenticated text), s') \<and> quiet s');
             no_logout = (\<exists>s'. AuthGRPCServer_Logout svc tok s =
                          (Inl (StatusErr Unauthenticated ''refresh token invalid or expired''), s') \<and> quiet s')
         in case issued s tok of
              Some c \<Rightarrow>
                let key = refreshKey (rcl_ID (cl_Registered c)) in
                if live s c \<and> cl_TokenUse c = ''refresh''
                then (kv s key = None \<longrightarrow> no_pair ''refresh token revoked'') \<and>
                     (\<exists>s'. AuthGRPCServer_Logout svc tok s = (Inr (), s') \<and>
                           kv s' = (kv s)(key := None) \<and> issued s' = issued s)
                else no_pair ''refresh token invalid or expired'' \<and> no_logout
            | None \<Rightarrow> no_pair ''refresh token invalid or expired'' \<and> no_logout"
proof -
  let ?good = "\<exists>c. issued s tok = Some c \<and> live s c \<and> cl_TokenUse c = ''refresh''"
  have refresh: "\<exists>s'. AuthGRPCServer_RefreshToken env date (auth_service rd sg urepo verify cfg) tok s =
      (Inl (StatusErr Unauthenticated ''refresh token invalid or expired''), s') \<and> kv s' = kv s \<and> issued s' = issued s"
    if "\<not> ?good"
  proof -
    have "\<not> (\<exists>c. issued s tok = Some c \<and> live s c \<and> cl_TokenUse c = ''refresh'' \<and>
        kv s (refreshKey (rcl_ID (cl_Registered c))) \<noteq> None)" using that by blast
    from auth_world.refresh_refused [OF assms this, of date cfg] that
    show ?thesis by (auto simp: AuthGRPCServer_RefreshToken_def grpc_reply_run)
  qed
  have logout: "\<exists>s'. AuthGRPCServer_Logout (auth_service rd sg urepo verify cfg) tok s =
      (Inl (StatusErr Unauthenticated ''refresh token invalid or expired''), s') \<and> kv s' = kv s \<and> issued s' = issued s"
    if "\<not> ?good"
    using auth_world.logout_refused [OF assms that, of cfg] by (auto simp: AuthGRPCServer_Logout_def grpc_reply_run)
  show ?thesis
  proof (cases ?good)
    case False
    then show ?thesis using refresh [OF False] logout [OF False] by (cases "issued s tok") (auto simp: Let_def)
  next
    case True
    then obtain c where c: "issued s tok = Some c" "live s c" "cl_TokenUse c = ''refresh''" by blast
    obtain s' where "authService_Logout (auth_service rd sg urepo verify cfg) \<lparr>loq_RefreshToken = tok\<rparr> s = (Inr (), s')"
        "kv s' = (kv s)(refreshKey (rcl_ID (cl_Registered c)) := None)" "issued s' = issued s"
      using auth_world.logout_done [OF assms c, of cfg] by blast
    then show ?thesis
      using c auth_world.refresh_refused [OF assms, of s tok date cfg]
      by (auto simp: AuthGRPCServer_RefreshToken_def AuthGRPCServer_Logout_def grpc_reply_run Let_def)
  qed
qed

text \<open>
  C34: a live refresh token whose id is in Redis is exchanged for a new pair of tokens when its
  subject is an active user and signing works. Both tokens of the answer are issued in this call
  for that user: the access token carries the user, the tenant, the role and the key id and lives
  for the access lifetime, the refresh token carries the subject only. The old id leaves Redis,
  the id of the new refresh token, drawn in this call, enters it, and every other key stays.
\<close>

theorem refresh_rotates:
  assumes "auth_world sg issued live rd kv set_kv env urepo verify drawn"
    and "issued s tok = Some c" and "live s c" and "cl_TokenUse c = ''refresh''"
    and "kv s (refreshKey (rcl_ID (cl_Registered c))) \<noteq> None"
    and "\<And>c s. \<exists>tok. fst (ts_Sign sg c s) = Inr tok"
    and "fst (urp_GetByID urepo (rcl_Subject (cl_Registered c))
           (snd (RedisRefreshTokenRepo_Consume rd (rcl_ID (cl_Registered c)) (snd (ts_Verify sg tok s))))) = Inr u"
    and "u_Status u = ''active''"
  shows "\<exists>resp s' now ajti rjti. AuthGRPCServer_RefreshToken env date (auth_service rd sg urepo verify cfg) tok s =
             (Inr resp, s') \<and> ajti \<notin> drawn s \<and> rjti \<notin> drawn s \<and> rjti \<noteq> ajti \<and>
           kv s' = (kv s)(refreshKey (rcl_ID (cl_Registered c)) := None, refreshKey rjti \<mapsto> RText (u_ID u)) \<and>
           prt_TokenType resp = ''Bearer'' \<and>
           prt_AccessExpiresIn resp = access_expires_in (auth_service rd sg urepo verify cfg) \<and>
           issued s' (prt_AccessToken resp) = Some
             \<lparr>cl_TokenUse = ''access'', cl_UserID = u_ID u, cl_TenantID = stringPtrValue (u_TenantID u),
              cl_Role = u_Role u, cl_Key = KeyID cfg,
              cl_Registered = \<lparr>rcl_Subject = u_ID u, rcl_Issuer = Issuer cfg, rcl_ID = ajti,
                rcl_IssuedAt = date now, rcl_ExpiresAt = date (now + ParseTTL (AccessTTL cfg))\<rparr>\<rparr> \<and>
           issued s' (prt_RefreshToken resp) = Some
             \<lparr>cl_TokenUse = ''refresh'', cl_UserID = [], cl_TenantID = [], cl_Role = [], cl_Key = [],
              cl_Registered = \<lparr>rcl_Subject = u_ID u, rcl_Issuer = Issuer cfg, rcl_ID = rjti,
                rcl_IssuedAt = date now, rcl_ExpiresAt = date (now + ParseTTL (RefreshTTL cfg))\<rparr>\<rparr>"
proof -
  let ?svc = "auth_service rd sg urepo verify cfg" and ?jti = "rcl_ID (cl_Registered c)"
  obtain s1 where s1: "drawn s1 = drawn s" "kv s1 = kv s" "ts_Verify sg tok s = (Inr c, s1)"
    using auth_world.Verify_run [OF assms(1), of s tok] assms(2,3) by auto
  obtain v where v: "kv s1 (refreshKey ?jti) = Some v" using assms(5) s1 by auto
  define s2 where "s2 = set_kv ((kv s1)(refreshKey ?jti := None)) s1"
  have con: "RedisRefreshTokenRepo_Consume rd ?jti s1 = (Inr (v, True), s2)"
    using v by (simp add: auth_world.Consume_run [OF assms(1)] s2_def)
  have s2: "drawn s2 = drawn s" "kv s2 = (kv s)(refreshKey ?jti := None)"
    using s1 by (simp_all add: s2_def auth_world.redis_same [OF assms(1)]
        redis_db.kv_set [OF auth_world.axioms(2) [OF assms(1)]])
  obtain s3 where s3: "urp_GetByID urepo (rcl_Subject (cl_Registered c)) s2 = (Inr u, s3)"
    using assms(7) s1(3) con by (metis prod.collapse snd_conv)
  have s3s: "drawn s3 = drawn s" "kv s3 = kv s2"
    using auth_world.user_same [OF assms(1), of "urp_GetByID urepo (rcl_Subject (cl_Registered c))"
        "rcl_Subject (cl_Registered c)" s2] s3 s2 by simp_all
  obtain pair s4 where pair: "authService_generateTokenPair env date ?svc u s3 = (Inr pair, s4)"
    using auth_world.token_pair_total [OF assms(1,6)] by blast
  have "authService_RefreshToken env date ?svc \<lparr>rtq_RefreshToken = tok\<rparr> s =
      (Inr \<lparr>rtp_TokenPair = pair, rtp_AccessExpiresIn = access_expires_in ?svc\<rparr>, s4)"
    using s1(3) con s3 pair assms(4,8)
    by (simp add: authService_RefreshToken_def map_err_io_run bind_io_run User_IsActive_def)
  then have run: "AuthGRPCServer_RefreshToken env date ?svc tok s =
      (Inr \<lparr>prt_AccessToken = tp_AccessToken pair, prt_RefreshToken = tp_RefreshToken pair,
            prt_AccessExpiresIn = access_expires_in ?svc, prt_TokenType = ''Bearer''\<rparr>, s4)"
    by (simp add: AuthGRPCServer_RefreshToken_def grpc_reply_run)
  from auth_world.token_pair [OF assms(1) pair] show ?thesis
    unfolding run using s2 s3s by fastforce
qed

text \<open>
  What can happen after a token was used: any authentication RPC, and the passing of time, in
  which keys of Redis expire and other components draw uuids.
\<close>

inductive auth_rpc ::
  "'s go_env \<Rightarrow> (int \<Rightarrow> int) \<Rightarrow> ('j, 's) authService \<Rightarrow> ('s \<Rightarrow> string \<Rightarrow> 'j redis_val option) \<Rightarrow>
   ('s \<Rightarrow> string \<Rightarrow> Claims option) \<Rightarrow> ('s \<Rightarrow> string set) \<Rightarrow> 's \<Rightarrow> 's \<Rightarrow> bool"
  for env date svc kv issued drawn where
  login: "auth_rpc env date svc kv issued drawn s (snd (AuthGRPCServer_Login env date svc lreq s))"
| sms: "auth_rpc env date svc kv issued drawn s (snd (AuthGRPCServer_SmsLogin env date svc sreq s))"
| refresh: "auth_rpc env date svc kv issued drawn s (snd (AuthGRPCServer_RefreshToken env date svc tok s))"
| logout: "auth_rpc env date svc kv issued drawn s (snd (AuthGRPCServer_Logout svc tok s))"
| elapse: "issued s' = issued s \<Longrightarrow> drawn s \<subseteq> drawn s' \<Longrightarrow>
     (\<And>j. kv s' (refreshKey j) = kv s (refreshKey j) \<or> kv s' (refreshKey j) = None) \<Longrightarrow>
     auth_rpc env date svc kv issued drawn s s'"

lemma spent_forever:
  assumes "auth_world sg issued live rd kv set_kv env urepo verify drawn"
    and "(auth_rpc env date (auth_service rd sg urepo verify cfg) kv issued drawn)\<^sup>*\<^sup>* s1 s2"
    and "spent_token kv issued drawn jti tok c s1"
  shows "spent_token kv issued drawn jti tok c s2"
  using assms(2,3)
proof (induction rule: rtranclp_induct)
  case (step s s')
  note keep = auth_world.keeps_rpcs [OF assms(1), THEN io_invD]
  from step.hyps(2) show ?case
  proof cases
    case (elapse)
    then show ?thesis using step.IH [OF step.prems] elapse(3) [of jti] by (auto simp: spent_token_def)
  qed (auto simp: AuthGRPCServer_Login_def AuthGRPCServer_SmsLogin_def AuthGRPCServer_RefreshToken_def
      AuthGRPCServer_Logout_def intro: keep step.IH [OF step.prems])
qed

text \<open>
  C5: a refresh token works once. After RefreshToken has answered new tokens for it, or Logout
  has revoked it, no sequence of logins, refreshes, logouts and passing time makes RefreshToken
  accept it again: it answers that the token is revoked, or expired by then.
\<close>

theorem refresh_token_works_once:
  assumes "auth_world sg issued live rd kv set_kv env urepo verify drawn"
    and "issued s tok = Some c" and "rcl_ID (cl_Registered c) \<in> drawn s"
    and "(\<exists>r. AuthGRPCServer_RefreshToken env date (auth_service rd sg urepo verify cfg) tok s = (Inr r, s1)) \<or>
         AuthGRPCServer_Logout (auth_service rd sg urepo verify cfg) tok s = (Inr (), s1)"
    and "(auth_rpc env date (auth_service rd sg urepo verify cfg) kv issued drawn)\<^sup>*\<^sup>* s1 s2"
  shows "fst (AuthGRPCServer_RefreshToken env date (auth_service rd sg urepo verify cfg) tok s2) \<in>
           {Inl (StatusErr Unauthenticated ''refresh token revoked''),
            Inl (StatusErr Unauthenticated ''refresh token invalid or expired'')}"
proof -
  have "spent_token kv issued drawn (rcl_ID (cl_Registered c)) tok c s1"
    using assms(4)
      auth_world.refresh_spends [OF assms(1) _ assms(2,3), of date cfg]
      auth_world.logout_spends [OF assms(1) _ assms(2,3), of cfg]
    by (auto simp: AuthGRPCServer_RefreshToken_def AuthGRPCServer_Logout_def grpc_reply_run
        split: prod.splits sum.splits)
  from spent_forever [OF assms(1,5) this]
  have "\<not> (\<exists>c. issued s2 tok = Some c \<and> live s2 c \<and> cl_TokenUse c = ''refresh'' \<and>
              kv s2 (refreshKey (rcl_ID (cl_Registered c))) \<noteq> None)"
    by (auto simp: spent_token_def)
  from auth_world.refresh_refused [OF assms(1) this, of date cfg] show ?thesis
    by (cases "\<exists>c. issued s2 tok = Some c \<and> live s2 c \<and> cl_TokenUse c = ''refresh''")
      (auto simp only: AuthGRPCServer_RefreshToken_def grpc_reply_run auth_codes prod.case sum.case
        fst_conv if_True if_False insert_iff simp_thms)
qed

section \<open>SMS login over the SMS service\<close>

text \<open>
  The two ways to tell a wrong SMS code from a failure agree. The monolith compares the
  service's error with four sentinels, the microservice the status code of the gRPC reply to the
  same error, whatever that error is.
\<close>

theorem sms_credential_errors_agree:
  "remote_isSmsCredentialError (toSmsGRPCError err) \<longleftrightarrow> isSmsCredentialError err"
proof (induction err)
  case (Sentinel s)
  then show ?case
  proof (cases s)
    case (SmsErr e)
    then show ?thesis
      by (cases e) (simp_all add: toSmsGRPCError_def smsErrorMappings_def remote_isSmsCredentialError_def
          isSmsCredentialError_def)
  qed (simp_all add: toSmsGRPCError_def smsErrorMappings_def remote_isSmsCredentialError_def
      isSmsCredentialError_def)
qed (simp_all add: toSmsGRPCError_def smsErrorMappings_def remote_isSmsCredentialError_def
    isSmsCredentialError_def)

lemma remote_login_run:
  assumes "sms_world rd kv set_kv env db send"
  shows "remote_AuthGRPCServer_SmsLogin env date (auth_service rd sg urepo (sms_verifier env db rd send) cfg)
        \<lparr>psl_Phone = phone, psl_Code = c\<rparr> t =
      (case kv t (smsTokenKey phone ''login'') of
         None \<Rightarrow> (Inl (StatusErr Unauthenticated ''invalid username or password''), t)
       | Some v \<Rightarrow>
           let t' = set_kv ((kv t)(smsTokenKey phone ''login'' := None)) t
           in if v = RText c
              then grpc_reply toAuthGRPCError (bind_io (map_err_io hide_not_found (urp_GetByPhone urepo phone))
                     (login_user env date (auth_service rd sg urepo (sms_verifier env db rd send) cfg))) login_reply t'
              else (Inl (StatusErr Unauthenticated ''invalid username or password''), t'))"
  by (auto simp: remote_AuthGRPCServer_SmsLogin_def remote_authService_SmsLogin_def sms_verifier_run [OF assms, of phone]
      grpc_reply_run map_err_io_run bind_io_run [of "map_err_io _ (sms_verifier _ _ _ _ _ _)"]
      remote_isSmsCredentialError_def Let_def split: option.split)

text \<open>Logging a user in never writes an SMS code.\<close>

lemma login_keeps_sms_code:
  assumes "auth_world sg issued live rd kv set_kv env urepo vf drawn" and "kv t (smsTokenKey phone ''login'') = None"
  shows "kv (snd (bind_io (map_err_io hide_not_found (urp_GetByPhone urepo phone))
    (login_user env date (auth_service rd sg urepo vf cfg)) t)) (smsTokenKey phone ''login'') = None"
proof -
  let ?svc = "auth_service rd sg urepo vf cfg"
  let ?k = "smsTokenKey phone ''login''"
  have "io_inv (\<lambda>s. kv s ?k = None) (login_user env date ?svc u) (\<lambda>_. True)" for u
    unfolding login_user_def
  proof (rule io_inv_if; simp only: io_inv_simps Let_def auth_service_fields)
    show "io_inv (\<lambda>s. kv s ?k = None) (bind_io (authService_generateTokenPair env date ?svc u) (\<lambda>pair.
        bind_io (ask_io (time_Now env)) (\<lambda>now.
        bind_io (ignore_io (urp_Update urepo (u\<lparr>u_LastLoginAt := Some now\<rparr>))) (\<lambda>_.
        return_io \<lparr>lo_TokenPair = pair, lo_User = u\<lparr>u_LastLoginAt := Some now\<rparr>,
                   lo_AccessExpiresIn = access_expires_in ?svc\<rparr>)))) (\<lambda>_. True)"
      by (rule io_inv_bind, rule auth_world.keeps_other_pair [OF assms(1)], simp,
          rule io_inv_bind, rule auth_world.keeps_other_clock [OF assms(1)],
          rule io_inv_bind, rule io_inv_ignore [where Q = "\<lambda>_. True"],
          rule auth_world.keeps_other_save [OF assms(1)]) simp_all
  qed
  then have "io_inv (\<lambda>s. kv s ?k = None)
      (bind_io (map_err_io hide_not_found (urp_GetByPhone urepo phone)) (login_user env date ?svc)) (\<lambda>_. True)"
    using auth_world.user_same [OF assms(1), of "urp_GetByPhone urepo phone" phone]
    by (intro io_inv_bind [where P = "\<lambda>_. True"] io_inv_map_err) (simp_all add: io_inv_def)
  from io_invD [OF this] assms(2) show ?thesis by simp
qed

text \<open>
  C13: SmsLogin with the SMS service behind it. A code that is not the stored one gets the answer
  of a wrong password and uses the stored code up; a login that succeeds was for the stored code,
  for an active user with that phone, and uses it up, so that the same login sent again gets the
  answer of a wrong password.
\<close>

theorem sms_login_once:
  assumes "auth_world sg issued live rd kv set_kv env urepo (sms_verifier env db rd send) drawn"
    and "sms_world rd kv set_kv env db send"
    and "remote_AuthGRPCServer_SmsLogin env date (auth_service rd sg urepo (sms_verifier env db rd send) cfg)
           \<lparr>psl_Phone = phone, psl_Code = code\<rparr> s = (r, s')"
  shows "if kv s (smsTokenKey phone ''login'') = Some (RText code)
         then kv s' (smsTokenKey phone ''login'') = None \<and>
              fst (remote_AuthGRPCServer_SmsLogin env date
                     (auth_service rd sg urepo (sms_verifier env db rd send) cfg)
                     \<lparr>psl_Phone = phone, psl_Code = again\<rparr> s') =
                Inl (StatusErr Unauthenticated ''invalid username or password'') \<and>
              (\<forall>resp. r = Inr resp \<longrightarrow>
                 (\<exists>u s1. urp_GetByPhone urepo phone
                    (set_kv ((kv s)(smsTokenKey phone ''login'' := None)) s) = (Inr u, s1) \<and>
                  u_Status u = ''active''))
         else r = Inl (StatusErr Unauthenticated ''invalid username or password'') \<and>
              kv s' (smsTokenKey phone ''login'') = None"
proof -
  let ?svc = "auth_service rd sg urepo (sms_verifier env db rd send) cfg"
  let ?k = "smsTokenKey phone ''login''"
  let ?login = "bind_io (map_err_io hide_not_found (urp_GetByPhone urepo phone)) (login_user env date ?svc)"
  note kv_set = redis_db.kv_set [OF auth_world.axioms(2) [OF assms(1)]]
  note run = remote_login_run [OF assms(2), of date sg urepo cfg phone]
  show ?thesis
  proof (cases "kv s ?k = Some (RText code)")
    case True
    let ?t = "set_kv ((kv s)(?k := None)) s"
    have rs: "grpc_reply toAuthGRPCError ?login login_reply ?t = (r, s')"
      using assms(3) True by (simp add: run Let_def)
    then have s': "s' = snd (?login ?t)" by (metis snd_conv snd_grpc_reply)
    then have none: "kv s' ?k = None" using login_keeps_sms_code [OF assms(1), of ?t] by (simp add: kv_set)
    have "\<exists>u s1. urp_GetByPhone urepo phone ?t = (Inr u, s1) \<and> u_Status u = ''active''" if "r = Inr resp" for resp
      using rs that by (auto simp: grpc_reply_run map_err_io_run dest!: login_user_Inr elim!: bind_io_InrD
          split: prod.splits sum.splits)
    with none True show ?thesis by (simp add: run)
  next
    case False
    then show ?thesis using assms(3) by (auto simp: run Let_def kv_set split: option.splits if_splits)
  qed
qed

section \<open>The published key\<close>

text \<open>
  C19: what GetJWKS publishes is the public key: decoding the base64url texts n and e gives
  big-endian bytes whose values are the modulus and the exponent, for every modulus and every
  exponent of at most 32 bits, and the modulus has no leading zero byte.
\<close>

theorem jwks_round_trip:
  assumes "0 \<le> pk_E (rs_publicKey key)" and "pk_E (rs_publicKey key) < 2 ^ 32"
  shows "\<exists>n e. AuthGRPCServer_GetJWKS (Some (rs256_signer lib key)) s =
           (Inr (Some (JObj [(''keys'', JArr [JObj [(''alg'', JStr ''RS256''), (''e'', JStr e),
              (''kid'', JStr (rs_kid key)), (''kty'', JStr ''RSA''), (''n'', JStr n), (''use'', JStr ''sig'')]])])), s) \<and>
           bytes_value (decodeBase64URL n) = pk_N (rs_publicKey key) \<and>
           bytes_value (decodeBase64URL e) = nat (pk_E (rs_publicKey key)) \<and>
           (decodeBase64URL n = [] \<or> hd (decodeBase64URL n) \<noteq> 0)"
  using exponent_bytes_value [OF assms] big_Bytes_value [of "pk_N (rs_publicKey key)"]
    big_Bytes_leading [of "pk_N (rs_publicKey key)"]
  by (auto simp: AuthGRPCServer_GetJWKS_def rs256_signer_def RS256Signer_JWKS_def grpc_reply_run decode_encode)

section \<open>Runs\<close>

text \<open>A user, and a refresh token of that user signed in an earlier login.\<close>

definition example_claims :: Claims where
  "example_claims =
     \<lparr>cl_TokenUse = ''refresh'', cl_UserID = [], cl_TenantID = [], cl_Role = [], cl_Key = [],
      cl_Registered = \<lparr>rcl_Subject = ''a1'', rcl_Issuer = ''parkhub'', rcl_ID = dec_digits 0, rcl_IssuedAt = 0,
        rcl_ExpiresAt = 10000000\<rparr>\<rparr>"

definition auth_start :: auth_ref where
  "auth_start = (([user_example], 9),
     [refreshKey (dec_digits 0) \<mapsto> RText ''a1'', smsTokenKey ''13800138000'' ''login'' \<mapsto> RText ''123456''],
     [example_claims], 1)"

lemma jwks_round_trip_witness:
  "\<exists>n e. AuthGRPCServer_GetJWKS (Some (rs256_signer auth_ref_jwt auth_ref_key)) auth_start =
     (Inr (Some (JObj [(''keys'', JArr [JObj [(''alg'', JStr ''RS256''), (''e'', JStr e),
        (''kid'', JStr ''parkhub-2026-04''), (''kty'', JStr ''RSA''), (''n'', JStr n), (''use'', JStr ''sig'')]])])), auth_start) \<and>
     bytes_value (decodeBase64URL n) = 3233 \<and> bytes_value (decodeBase64URL e) = 17"
  using jwks_round_trip [of auth_ref_key auth_ref_jwt auth_start]
  by (simp add: auth_ref_key_def auth_ref_cfg_def Default_def) blast

definition auth_ref_date :: "int \<Rightarrow> int" where
  "auth_ref_date = jwt_NewNumericDate auth_ref_jwt"

abbreviation auth_ref_svc :: "(sms_code, auth_ref) authService" where
  "auth_ref_svc \<equiv> auth_service auth_ref_redis auth_ref_signer auth_ref_users auth_ref_verify auth_ref_cfg"

lemma auth_start_facts:
  "auth_ref_issued auth_start (dec_digits 0) = Some example_claims"
  "auth_ref_live auth_start example_claims"
  "rcl_ID (cl_Registered example_claims) = dec_digits 0" "cl_TokenUse example_claims = ''refresh''"
  "rcl_Subject (cl_Registered example_claims) = ''a1''"
  "dec_digits 0 \<in> ref_drawn auth_start"
  "ref_kv auth_start (refreshKey (dec_digits 0)) = Some (RText ''a1'')"
  "ref_kv auth_start (smsTokenKey ''13800138000'' ''login'') = Some (RText ''123456'')"
  by (simp_all add: log_issued_def auth_start_def ref_log_def auth_ref_live_def example_claims_def ref_clock_def
      auth_ref_key_def auth_ref_cfg_def Default_def ref_drawn_def ref_kv_def)

lemma auth_lookups:
  "urp_GetByID auth_ref_users ''a1'' (([user_example], t), w) =
     (Inr (toDomainUser user_example), (([user_example], t), w))"
  "urp_GetByUsername auth_ref_users ''li'' (([user_example], t), w) =
     (Inr (toDomainUser user_example), (([user_example], t), w))"
  "urp_GetByPhone auth_ref_users ''13800138000'' (([user_example], t), w) =
     (Inr (toDomainUser user_example), (([user_example], t), w))"
  by (simp_all add: user_store_defs gorm_fst_def gorm_part_def at_part_run first_or_def map_err_io_run bind_io_run
      user_ref_def ref_gorm_def matches_def query_simps user_example_fields)

lemma ref_sign_total: "\<exists>tok. fst (ts_Sign auth_ref_signer c s) = Inr tok"
  by (simp add: rs256_signer_def RS256Signer_Sign_def ref_jwt_def)

lemma example_user_active: "u_Status (toDomainUser user_example) = ''active''"
  "u_PasswordHash (toDomainUser user_example) = ''h:password''"
  by (simp_all add: toDomainUser_def user_example_fields)

lemma example_login:
  "\<exists>resp s'. AuthGRPCServer_Login auth_ref_env auth_ref_date auth_ref_svc
     \<lparr>pli_Username = ''li'', pli_Password = ''password''\<rparr> auth_start = (Inr resp, s')"
proof -
  obtain pair s' where p: "authService_generateTokenPair auth_ref_env auth_ref_date auth_ref_svc
      (toDomainUser user_example) auth_start = (Inr pair, s')"
    using auth_ref.token_pair_total [OF ref_sign_total] by blast
  have "urp_GetByUsername auth_ref_users ''li'' auth_start = (Inr (toDomainUser user_example), auth_start)"
    unfolding auth_start_def by (rule auth_lookups)
  then show ?thesis
    using p by (simp add: AuthGRPCServer_Login_def authService_Login_def login_user_def grpc_reply_run
        map_err_io_run bind_io_run [of "map_err_io _ _"] bind_io_run [of "authService_generateTokenPair _ _ _ _"]
        auth_ref_env_fields example_user_active User_IsActive_def)
      (simp add: bind_io_run ask_io_run ignore_io_run auth_ref_env_fields Let_def, metis prod.collapse)
qed

lemma no_token_without_credentials_witness:
  "\<exists>u s1. urp_GetByUsername auth_ref_users ''li'' auth_start = (Inr u, s1) \<and>
     bcrypt_Compare auth_ref_env (u_PasswordHash u) ''password'' \<and> u_Status u = ''active''"
proof -
  obtain resp s' where "AuthGRPCServer_Login auth_ref_env auth_ref_date auth_ref_svc
      \<lparr>pli_Username = ''li'', pli_Password = ''password''\<rparr> auth_start = (Inr resp, s')"
    using example_login by blast
  then show ?thesis
    using no_token_without_credentials [of auth_ref_env auth_ref_date auth_ref_svc
        "\<lparr>pli_Username = ''li'', pli_Password = ''password''\<rparr>" auth_start resp s'] by simp
qed

lemma login_issues_tokens_witness:
  "\<exists>resp s' ac. AuthGRPCServer_Login auth_ref_env auth_ref_date auth_ref_svc
     \<lparr>pli_Username = ''li'', pli_Password = ''password''\<rparr> auth_start = (Inr resp, s') \<and>
     auth_ref_issued s' (plo_AccessToken resp) = Some ac \<and> cl_UserID ac = ''a1'' \<and> cl_Role ac = ''operator''"
proof -
  obtain resp s' where run: "AuthGRPCServer_Login auth_ref_env auth_ref_date auth_ref_svc
      \<lparr>pli_Username = ''li'', pli_Password = ''password''\<rparr> auth_start = (Inr resp, s')"
    using example_login by blast
  from login_issues_tokens [OF auth_ref_world run] obtain u s1 ajti now where
    "urp_GetByUsername auth_ref_users ''li'' auth_start = (Inr u, s1)"
    "auth_ref_issued s' (plo_AccessToken resp) = Some
       \<lparr>cl_TokenUse = ''access'', cl_UserID = u_ID u, cl_TenantID = stringPtrValue (u_TenantID u),
        cl_Role = u_Role u, cl_Key = KeyID auth_ref_cfg,
        cl_Registered = \<lparr>rcl_Subject = u_ID u, rcl_Issuer = Issuer auth_ref_cfg, rcl_ID = ajti,
          rcl_IssuedAt = auth_ref_date now,
          rcl_ExpiresAt = auth_ref_date (now + ParseTTL (AccessTTL auth_ref_cfg))\<rparr>\<rparr>"
    by auto
  moreover have "urp_GetByUsername auth_ref_users ''li'' auth_start = (Inr (toDomainUser user_example), auth_start)"
    unfolding auth_start_def by (rule auth_lookups)
  ultimately show ?thesis
    using run by (auto simp: toDomainUser_def user_example_fields)
qed

lemma refresh_refusals_witness:
  "(\<exists>s'. AuthGRPCServer_RefreshToken auth_ref_env auth_ref_date auth_ref_svc ''forged'' auth_start =
     (Inl (StatusErr Unauthenticated ''refresh token invalid or expired''), s') \<and> ref_kv s' = ref_kv auth_start) \<and>
   (\<exists>s'. AuthGRPCServer_Logout auth_ref_svc (dec_digits 0) auth_start = (Inr (), s') \<and>
     ref_kv s' (refreshKey (dec_digits 0)) = None)"
proof -
  have "auth_ref_issued auth_start ''forged'' = None"
    by (simp add: log_issued_def auth_start_def ref_log_def dec_digits.simps)
  then show ?thesis
    using refresh_refusals [OF auth_ref_world, where s = auth_start and tok = "''forged''" and date = auth_ref_date and cfg = auth_ref_cfg]
      refresh_refusals [OF auth_ref_world, where s = auth_start and tok = "dec_digits 0" and date = auth_ref_date and cfg = auth_ref_cfg]
    by (simp add: Let_def auth_start_facts del: split_paired_Ex) (metis fun_upd_same)
qed

lemma refresh_rotates_witness:
  "\<exists>resp s'. AuthGRPCServer_RefreshToken auth_ref_env auth_ref_date auth_ref_svc (dec_digits 0) auth_start =
     (Inr resp, s') \<and> ref_kv s' (refreshKey (dec_digits 0)) = None"
proof -
  obtain s1 where s1: "ts_Verify auth_ref_signer (dec_digits 0) auth_start = (Inr example_claims, s1)"
    using auth_ref.Verify_run [of auth_start "dec_digits 0"] by (auto simp: auth_start_facts)
  have "s1 = auth_start"
    using s1 by (auto simp: rs256_signer_def RS256Signer_Verify_def ref_jwt_def bind_io_run
        split: sum.splits if_splits)
  then have "fst (urp_GetByID auth_ref_users ''a1'' (snd (RedisRefreshTokenRepo_Consume auth_ref_redis (dec_digits 0)
      (snd (ts_Verify auth_ref_signer (dec_digits 0) auth_start))))) = Inr (toDomainUser user_example)"
    using s1 by (simp add: auth_ref.Consume_run auth_start_facts ref_set_kv_def)
      (simp add: auth_start_def auth_lookups)
  then have "\<exists>resp s' rjti. AuthGRPCServer_RefreshToken auth_ref_env auth_ref_date auth_ref_svc (dec_digits 0) auth_start =
     (Inr resp, s') \<and> rjti \<notin> ref_drawn auth_start \<and>
     ref_kv s' = (ref_kv auth_start)(refreshKey (dec_digits 0) := None, refreshKey rjti \<mapsto> RText ''a1'')"
    using refresh_rotates [OF auth_ref_world auth_start_facts(1,2,4) _ ref_sign_total _ example_user_active(1),
        where date = auth_ref_date and cfg = auth_ref_cfg]
    by (auto simp: auth_start_facts toDomainUser_def user_example_fields)
  moreover have "rjti \<noteq> dec_digits 0" if "rjti \<notin> ref_drawn auth_start" for rjti
    using that auth_start_facts(6) by auto
  ultimately show ?thesis by fastforce
qed

lemma refresh_token_works_once_witness:
  "\<exists>s1. AuthGRPCServer_Logout auth_ref_svc (dec_digits 0) auth_start = (Inr (), s1) \<and>
     fst (AuthGRPCServer_RefreshToken auth_ref_env auth_ref_date auth_ref_svc (dec_digits 0) s1) \<in>
       {Inl (StatusErr Unauthenticated ''refresh token revoked''),
        Inl (StatusErr Unauthenticated ''refresh token invalid or expired'')}"
proof -
  obtain s1 where "ts_Verify auth_ref_signer (dec_digits 0) auth_start = (Inr example_claims, s1)"
    using auth_ref.Verify_run [of auth_start "dec_digits 0"] by (auto simp: auth_start_facts)
  then obtain s2 where out: "AuthGRPCServer_Logout auth_ref_svc (dec_digits 0) auth_start = (Inr (), s2)"
    by (simp add: AuthGRPCServer_Logout_def authService_Logout_def grpc_reply_run map_err_io_run bind_io_run
        auth_start_facts RedisRefreshTokenRepo_Revoke_def auth_ref.commands)
  from refresh_token_works_once [OF auth_ref_world auth_start_facts(1) _ disjI2 [OF out] rtranclp.rtrancl_refl] out
  show ?thesis by (auto simp: auth_start_facts)
qed

lemma sms_login_once_witness:
  "\<exists>s'. remote_AuthGRPCServer_SmsLogin auth_ref_env auth_ref_date auth_ref_svc
     \<lparr>psl_Phone = ''13800138000'', psl_Code = ''000000''\<rparr> auth_start =
       (Inl (StatusErr Unauthenticated ''invalid username or password''), s') \<and>
     ref_kv s' (smsTokenKey ''13800138000'' ''login'') = None"
proof -
  obtain r s' where run: "remote_AuthGRPCServer_SmsLogin auth_ref_env auth_ref_date auth_ref_svc
     \<lparr>psl_Phone = ''13800138000'', psl_Code = ''000000''\<rparr> auth_start = (r, s')"
    by (cases "remote_AuthGRPCServer_SmsLogin auth_ref_env auth_ref_date auth_ref_svc
     \<lparr>psl_Phone = ''13800138000'', psl_Code = ''000000''\<rparr> auth_start")
  from sms_login_once [OF auth_ref_world auth_ref_sms_world run] run show ?thesis
    by (simp add: auth_start_facts)
qed

end
