(* ===== verification/Interleave.thy ===== *)
theory Interleave
  imports Go_Prelude
begin

text \<open>
  Operations that overlap. An action \<open>('a, 's) io\<close> runs without a break; a program
  \<open>('a, 's) prog\<close> is the same operation as a sequence of atomic actions (one statement of the
  database, one command or script of Redis, one reading of the clock), between which the
  goroutines of other requests may run. A pool maps goroutines to the programs they still have to
  run; a step of the pool is one atomic action of one of them, or one of the environment.
\<close>

section \<open>Programs\<close>

datatype ('a, 's) prog = Done "go_error + 'a" | Act "'s \<Rightarrow> 's" "'s \<Rightarrow> ('a, 's) prog"

definition atom :: "('a, 's) io \<Rightarrow> ('a, 's) prog" where
  "atom m = Act (\<lambda>s. snd (m s)) (\<lambda>s. Done (fst (m s)))"

primrec bind_prog :: "('a, 's) prog \<Rightarrow> ('a \<Rightarrow> ('b, 's) prog) \<Rightarrow> ('b, 's) prog" where
  "bind_prog (Done r) f = (case r of Inl e \<Rightarrow> Done (Inl e) | Inr x \<Rightarrow> f x)"
| "bind_prog (Act u k) f = Act u (\<lambda>s. bind_prog (k s) f)"

text \<open>The whole program without interruption.\<close>

primrec run_prog :: "('a, 's) prog \<Rightarrow> ('a, 's) io" where
  "run_prog (Done r) = lift_io r"
| "run_prog (Act u k) = (\<lambda>s. run_prog (k s) (u s))"

lemma run_atom [simp]: "run_prog (atom m) = m"
  by (rule ext) (simp add: atom_def)

lemma run_bind [simp]: "run_prog (bind_prog p f) = bind_io (run_prog p) (\<lambda>x. run_prog (f x))"
proof (induction p)
  case (Done r)
  then show ?case by (cases r) (auto simp: bind_io_run)
next
  case (Act u k)
  show ?case by (rule ext) (simp add: Act bind_io_run)
qed

lemma lift_io_result [simp]: "lift_io (Inl e) = fail_io e" "lift_io (Inr x) = return_io x"
  by (rule ext, simp)+

section \<open>Pools\<close>

type_synonym ('a, 's) pool = "nat \<rightharpoonup> ('a, 's) prog"

inductive pool_step :: "('s \<Rightarrow> 's \<Rightarrow> bool) \<Rightarrow> ('a, 's) pool \<times> 's \<Rightarrow> ('a, 's) pool \<times> 's \<Rightarrow> bool"
  for E where
  act: "ps i = Some (Act u k) \<Longrightarrow> pool_step E (ps, s) (ps(i \<mapsto> k s), u s)"
| env: "E s s' \<Longrightarrow> pool_step E (ps, s) (ps, s')"

text \<open>A goroutine that is never interrupted ends with the result of its whole program.\<close>

lemma run_alone:
  "ps i = Some p \<Longrightarrow> run_prog p s = (r, s') \<Longrightarrow> (pool_step E)\<^sup>*\<^sup>* (ps, s) (ps(i \<mapsto> Done r), s')"
proof (induction p arbitrary: ps s)
  case (Done r')
  then show ?case by (auto simp: fun_upd_idem)
next
  case (Act u k)
  have "run_prog (k s) (u s) = (r, s')" using Act.prems(2) by simp
  with fun_upd_same have "(pool_step E)\<^sup>*\<^sup>* (ps(i \<mapsto> k s), u s) ((ps(i \<mapsto> k s))(i \<mapsto> Done r), s')"
    by (rule Act.IH [OF rangeI])
  then have rest: "(pool_step E)\<^sup>*\<^sup>* (ps(i \<mapsto> k s), u s) (ps(i \<mapsto> Done r), s')"
    unfolding fun_upd_upd .
  from Act.prems(1) have "pool_step E (ps, s) (ps(i \<mapsto> k s), u s)" by (rule pool_step.act)
  then show ?case using rest by (rule converse_rtranclp_into_rtranclp)
qed

text \<open>
  \<open>keeper I used\<close>: from a state with \<open>I\<close>, every atomic action of the program keeps \<open>I\<close>, and
  what is \<open>used\<close> stays used. \<open>safe_prog\<close> also says what the result is like.
\<close>

primrec safe_prog :: "('s \<Rightarrow> bool) \<Rightarrow> ('s \<Rightarrow> bool) \<Rightarrow> ('a \<Rightarrow> bool) \<Rightarrow> ('a, 's) prog \<Rightarrow> bool" where
  "safe_prog I used Q (Done r) \<longleftrightarrow> (\<forall>x. r = Inr x \<longrightarrow> Q x)"
| "safe_prog I used Q (Act u k) \<longleftrightarrow>
     (\<forall>s. I s \<longrightarrow> I (u s) \<and> (used s \<longrightarrow> used (u s)) \<and> safe_prog I used Q (k s))"

abbreviation keeper :: "('s \<Rightarrow> bool) \<Rightarrow> ('s \<Rightarrow> bool) \<Rightarrow> ('a, 's) prog \<Rightarrow> bool" where
  "keeper I used \<equiv> safe_prog I used (\<lambda>_. True)"

lemma safe_atom:
  assumes "io_inv I m Q" and "io_inv (\<lambda>s. I s \<and> used s) m (\<lambda>_. True)"
  shows "safe_prog I used Q (atom m)"
  using assms by (auto simp: atom_def io_inv_def)

lemma safe_bind:
  "safe_prog I used P p \<Longrightarrow> (\<And>x. P x \<Longrightarrow> safe_prog I used Q (f x)) \<Longrightarrow> safe_prog I used Q (bind_prog p f)"
  by (induction p) (auto split: sum.split)

lemma safe_weaken: "safe_prog I used P p \<Longrightarrow> (\<And>x. P x \<Longrightarrow> Q x) \<Longrightarrow> safe_prog I used Q p"
  by (induction p) auto

section \<open>At most one succeeds\<close>

text \<open>
  A contender can only succeed by an atomic action that finds the thing unused and uses it; after
  that it is a keeper.
\<close>

primrec contender :: "('s \<Rightarrow> bool) \<Rightarrow> ('s \<Rightarrow> bool) \<Rightarrow> ('a, 's) prog \<Rightarrow> bool" where
  "contender I used (Done r) \<longleftrightarrow> (\<forall>x. r \<noteq> Inr x)"
| "contender I used (Act u k) \<longleftrightarrow>
     (\<forall>s. I s \<longrightarrow> I (u s) \<and> (used s \<longrightarrow> used (u s)) \<and>
        (contender I used (k s) \<or> \<not> used s \<and> used (u s) \<and> keeper I used (k s)))"

lemma contender_keeper: "contender I used p \<Longrightarrow> keeper I used p"
  by (induction p) auto

lemma contender_bind:
  "contender I used p \<Longrightarrow> (\<And>x. keeper I used (f x)) \<Longrightarrow> contender I used (bind_prog p f)"
proof (induction p)
  case (Act u k)
  then show ?case by (auto intro: safe_bind)
qed (auto split: sum.split)

lemma contender_atom:
  assumes "\<And>s. I s \<Longrightarrow> I (snd (m s)) \<and> (used s \<longrightarrow> used (snd (m s)))"
    and "\<And>s x. I s \<Longrightarrow> fst (m s) = Inr x \<Longrightarrow>
      contender I used (f x) \<or> \<not> used s \<and> used (snd (m s)) \<and> keeper I used (f x)"
  shows "contender I used (bind_prog (atom m) f)"
  using assms by (simp add: atom_def split: sum.split)

definition contends :: "('s \<Rightarrow> bool) \<Rightarrow> ('s \<Rightarrow> bool) \<Rightarrow> ('a, 's) pool \<Rightarrow> nat \<Rightarrow> bool" where
  "contends I used ps i \<longleftrightarrow> (\<exists>p. ps i = Some p \<and> contender I used p)"

definition pool_inv :: "('s \<Rightarrow> bool) \<Rightarrow> ('s \<Rightarrow> bool) \<Rightarrow> nat set \<Rightarrow> ('a, 's) pool \<Rightarrow> 's \<Rightarrow> bool" where
  "pool_inv I used C ps s \<longleftrightarrow> I s \<and> (\<forall>p \<in> ran ps. keeper I used p) \<and>
     ((\<forall>i \<in> C. contends I used ps i) \<or> (\<exists>w. used s \<and> (\<forall>i \<in> C - {w}. contends I used ps i)))"

lemma ran_updated: "p \<in> ran (ps(i \<mapsto> q)) \<Longrightarrow> p = q \<or> p \<in> ran ps"
  by (auto simp: ran_def split: if_splits)

lemma pool_inv_step:
  assumes "pool_step E (ps, s) (ps', s')" and inv: "pool_inv I used C ps s"
    and E: "\<And>s s'. E s s' \<Longrightarrow> I s \<Longrightarrow> I s' \<and> (used s \<longrightarrow> used s')"
  shows "pool_inv I used C ps' s'"
  using assms(1)
proof cases
  case (act i u k)
  have "keeper I used (Act u k)" using inv ranI [where m = ps and a = i, OF act(3)] by (simp only: pool_inv_def)
  then have kept: "I s'" "used s \<longrightarrow> used s'" "keeper I used (k s)" using inv act(2) by (auto simp: pool_inv_def)
  have keepers: "\<forall>p \<in> ran ps'. keeper I used p"
    using inv kept(3) by (auto simp: pool_inv_def act(1) dest!: ran_updated)
  have other: "contends I used ps j \<Longrightarrow> j \<noteq> i \<Longrightarrow> contends I used ps' j" for j
    by (simp add: contends_def act(1))
  have self: "contends I used ps' i \<or> \<not> used s \<and> used s'" if "contends I used ps i"
    using that inv act by (auto simp: contends_def pool_inv_def)
  show ?thesis
  proof (cases "\<forall>j \<in> C. contends I used ps j")
    case True
    show ?thesis
    proof (cases "i \<in> C \<and> \<not> contends I used ps' i")
      case True
      then have "used s'" using self \<open>\<forall>j \<in> C. contends I used ps j\<close> by blast
      then show ?thesis using kept(1) keepers other \<open>\<forall>j \<in> C. contends I used ps j\<close>
        by (auto simp: pool_inv_def intro!: exI [of _ i])
    next
      case False
      then have "\<forall>j \<in> C. contends I used ps' j" using True other by blast
      then show ?thesis using kept(1) keepers by (simp add: pool_inv_def)
    qed
  next
    case False
    then obtain w where w: "used s" "\<forall>j \<in> C - {w}. contends I used ps j" using inv by (auto simp: pool_inv_def)
    have "contends I used ps' j" if "j \<in> C - {w}" for j
      using w that self other by (cases "j = i") blast+
    then show ?thesis using kept(1,2) keepers w(1) by (auto simp: pool_inv_def)
  qed
next
  case env
  then show ?thesis using inv E [of s s'] by (auto simp: pool_inv_def)
qed

theorem at_most_one_succeeds:
  assumes "(pool_step E)\<^sup>*\<^sup>* (ps, s) (ps', s')" and "pool_inv I used C ps s"
    and "\<And>s s'. E s s' \<Longrightarrow> I s \<Longrightarrow> I s' \<and> (used s \<longrightarrow> used s')"
    and "i \<in> C" and "j \<in> C" and "ps' i = Some (Done (Inr x))" and "ps' j = Some (Done (Inr y))"
  shows "i = j"
proof -
  have "pool_inv I used C ps' s'"
    using assms(1,2) by (induction rule: rtranclp_induct2) (auto intro: pool_inv_step [OF _ _ assms(3)])
  then have "contends I used ps' i \<or> contends I used ps' j \<or> i = j"
    using assms(4,5) by (auto simp: pool_inv_def)
  then show ?thesis using assms(6,7) by (auto simp: contends_def)
qed

end
