(* ===== verification/Auth_Races.thy ===== *)
theory Auth_Races
  imports Auth_Props Interleave
begin

text \<open>
  Authentication requests that overlap. The operations of \<open>service/auth_service.go\<close> as programs
  whose atomic actions are the readings of the clock, the draws of uuids, the calls of the signer,
  the statements on the user table, and the commands and scripts of Redis. Any number of requests
  interleave, while keys expire. A refresh token still works at most once, since \<open>Consume\<close> reads
  and deletes its key in one script.
\<close>

section \<open>The operations, action by action\<close>

definition pair_prog ::
  "'s go_env \<Rightarrow> (int \<Rightarrow> int) \<Rightarrow> ('j, 's) authService \<Rightarrow> user \<Rightarrow> (TokenPair, 's) prog" where
  "pair_prog env date s u =
     bind_prog (atom (ask_io (time_Now env))) (\<lambda>now.
     let accessExpiresAt = now + as_accessTTL s;
         refreshExpiresAt = now + as_refreshTTL s
     in bind_prog (atom (ask_io (uuid_New env))) (\<lambda>accessJTI.
        bind_prog (atom (ts_Sign (as_signer s)
          \<lparr>cl_TokenUse = TokenUseAccess, cl_UserID = u_ID u,
           cl_TenantID = stringPtrValue (u_TenantID u), cl_Role = u_Role u,
           cl_Key = KeyID (as_cfg s),
           cl_Registered = jwtRegisteredClaims date (u_ID u) (Issuer (as_cfg s)) accessJTI now
             accessExpiresAt\<rparr>)) (\<lambda>accessToken.
        bind_prog (atom (ask_io (uuid_New env))) (\<lambda>refreshJTI.
        bind_prog (atom (ts_Sign (as_signer s)
          \<lparr>cl_TokenUse = TokenUseRefresh, cl_UserID = [], cl_TenantID = [], cl_Role = [], cl_Key = [],
           cl_Registered = jwtRegisteredClaims date (u_ID u) (Issuer (as_cfg s)) refreshJTI now
             refreshExpiresAt\<rparr>)) (\<lambda>refreshToken.
        bind_prog (atom (rtr_Save (as_refreshRepo s) refreshJTI (u_ID u) (as_refreshTTL s))) (\<lambda>_.
        Done (Inr \<lparr>tp_AccessToken = accessToken, tp_RefreshToken = refreshToken,
                   tp_AccessExpiresAt = accessExpiresAt, tp_RefreshExpiresAt = refreshExpiresAt\<rparr>)))))))"

definition login_user_prog ::
  "'s go_env \<Rightarrow> (int \<Rightarrow> int) \<Rightarrow> ('j, 's) authService \<Rightarrow> user \<Rightarrow> (LoginResponse, 's) prog" where
  "login_user_prog env date s u =
     (if \<not> User_IsActive u then Done (Inl (ident ErrUserFrozen))
      else bind_prog (pair_prog env date s u) (\<lambda>pair.
           bind_prog (atom (ask_io (time_Now env))) (\<lambda>now.
           let u = u\<lparr>u_LastLoginAt := Some now\<rparr>
           in bind_prog (atom (ignore_io (urp_Update (as_userRepo s) u))) (\<lambda>_.
              Done (Inr \<lparr>lo_TokenPair = pair, lo_User = u, lo_AccessExpiresIn = access_expires_in s\<rparr>)))))"

definition login_prog ::
  "'s go_env \<Rightarrow> (int \<Rightarrow> int) \<Rightarrow> ('j, 's) authService \<Rightarrow> LoginRequest \<Rightarrow> (LoginResponse, 's) prog" where
  "login_prog env date s req =
     bind_prog (atom (map_err_io hide_not_found (urp_GetByUsername (as_userRepo s) (lor_Username req)))) (\<lambda>u.
       if \<not> bcrypt_Compare env (u_PasswordHash u) (lor_Password req)
       then Done (Inl (ident ErrInvalidCredentials))
       else login_user_prog env date s u)"

definition sms_login_prog ::
  "'s go_env \<Rightarrow> (int \<Rightarrow> int) \<Rightarrow> ('j, 's) authService \<Rightarrow> SmsLoginRequest \<Rightarrow> (LoginResponse, 's) prog" where
  "sms_login_prog env date s req =
     bind_prog (atom (map_err_io (\<lambda>err. if isSmsCredentialError err then ident ErrInvalidCredentials else err)
                (as_smsVerifier s (slr_Phone req) (slr_Code req)))) (\<lambda>_.
     bind_prog (atom (map_err_io hide_not_found (urp_GetByPhone (as_userRepo s) (slr_Phone req))))
       (login_user_prog env date s))"

definition refresh_prog ::
  "'s go_env \<Rightarrow> (int \<Rightarrow> int) \<Rightarrow> ('j, 's) authService \<Rightarrow> RefreshTokenRequest \<Rightarrow> (RefreshTokenResponse, 's) prog" where
  "refresh_prog env date s req =
     bind_prog (atom (map_err_io (\<lambda>_. ident ErrRefreshTokenInvalid)
                (ts_Verify (as_signer s) (rtq_RefreshToken req)))) (\<lambda>claims.
     if cl_TokenUse claims \<noteq> TokenUseRefresh then Done (Inl (ident ErrRefreshTokenInvalid))
     else bind_prog (atom (rtr_Consume (as_refreshRepo s) (rcl_ID (cl_Registered claims)))) (\<lambda>(_, ok).
          if \<not> ok then Done (Inl (ident ErrRefreshTokenRevoked))
          else bind_prog (atom (urp_GetByID (as_userRepo s) (rcl_Subject (cl_Registered claims)))) (\<lambda>u.
               if \<not> User_IsActive u then Done (Inl (ident ErrUserFrozen))
               else bind_prog (pair_prog env date s u) (\<lambda>pair.
                    Done (Inr \<lparr>rtp_TokenPair = pair, rtp_AccessExpiresIn = access_expires_in s\<rparr>)))))"

definition logout_prog :: "('j, 's) authService \<Rightarrow> LogoutRequest \<Rightarrow> (unit, 's) prog" where
  "logout_prog s req =
     bind_prog (atom (map_err_io (\<lambda>_. ident ErrRefreshTokenInvalid)
                (ts_Verify (as_signer s) (loq_RefreshToken req)))) (\<lambda>claims.
     if cl_TokenUse claims \<noteq> TokenUseRefresh then Done (Inl (ident ErrRefreshTokenInvalid))
     else atom (rtr_Revoke (as_refreshRepo s) (rcl_ID (cl_Registered claims))))"

text \<open>Run without interruption, they are the operations of the service.\<close>

lemma pair_prog_run: "run_prog (pair_prog env date s u) = authService_generateTokenPair env date s u"
  by (simp add: pair_prog_def authService_generateTokenPair_def Let_def)

lemma login_user_prog_run: "run_prog (login_user_prog env date s u) = login_user env date s u"
  by (simp add: login_user_prog_def login_user_def pair_prog_run Let_def)

lemma auth_progs_run:
  shows "run_prog (login_prog env date s lreq) = authService_Login env date s lreq"
    and "run_prog (sms_login_prog env date s sreq) = authService_SmsLogin env date s sreq"
    and "run_prog (refresh_prog env date s rreq) = authService_RefreshToken env date s rreq"
    and "run_prog (logout_prog s oreq) = authService_Logout s oreq"
  by (simp_all add: login_prog_def authService_Login_def sms_login_prog_def authService_SmsLogin_def
      refresh_prog_def authService_RefreshToken_def logout_prog_def authService_Logout_def
      login_user_prog_run pair_prog_run if_distrib [where f = run_prog] case_prod_beta' cong: if_cong)

section \<open>Requests\<close>

datatype auth_call = LoginCall LoginRequest | SmsLoginCall SmsLoginRequest | RefreshCall string | LogoutCall string

datatype auth_reply = LoggedIn LoginResponse | Refreshed RefreshTokenResponse | LoggedOut

fun call_prog ::
  "'s go_env \<Rightarrow> (int \<Rightarrow> int) \<Rightarrow> ('j, 's) authService \<Rightarrow> auth_call \<Rightarrow> (auth_reply, 's) prog" where
  "call_prog env date svc (LoginCall req) = bind_prog (login_prog env date svc req) (\<lambda>r. Done (Inr (LoggedIn r)))"
| "call_prog env date svc (SmsLoginCall req) = bind_prog (sms_login_prog env date svc req) (\<lambda>r. Done (Inr (LoggedIn r)))"
| "call_prog env date svc (RefreshCall tok) =
     bind_prog (refresh_prog env date svc \<lparr>rtq_RefreshToken = tok\<rparr>) (\<lambda>r. Done (Inr (Refreshed r)))"
| "call_prog env date svc (LogoutCall tok) =
     bind_prog (logout_prog svc \<lparr>loq_RefreshToken = tok\<rparr>) (\<lambda>_. Done (Inr LoggedOut))"

text \<open>Between the actions of the requests, keys of Redis expire and other components draw uuids.\<close>

definition time_passes ::
  "('s \<Rightarrow> string \<Rightarrow> 'j redis_val option) \<Rightarrow> ('s \<Rightarrow> string \<Rightarrow> Claims option) \<Rightarrow> ('s \<Rightarrow> string set) \<Rightarrow> 's \<Rightarrow> 's \<Rightarrow> bool" where
  "time_passes kv issued drawn s s' \<longleftrightarrow> issued s' = issued s \<and> drawn s \<subseteq> drawn s' \<and>
     (\<forall>j. kv s' (refreshKey j) = kv s (refreshKey j) \<or> kv s' (refreshKey j) = None)"

definition known_token ::
  "('s \<Rightarrow> string \<Rightarrow> Claims option) \<Rightarrow> ('s \<Rightarrow> string set) \<Rightarrow> string \<Rightarrow> string \<Rightarrow> Claims \<Rightarrow> 's \<Rightarrow> bool" where
  "known_token issued drawn jti tok c s \<longleftrightarrow> jti \<in> drawn s \<and> issued s tok = Some c"

context auth_world
begin

abbreviation "known jti tok c \<equiv> known_token issued drawn jti tok c"

abbreviation "unkeyed jti s \<equiv> kv s (refreshKey jti) = None"

lemma known_unkeyed: "(\<lambda>s. known jti tok c s \<and> unkeyed jti s) = spent jti tok c"
  by (auto simp: known_token_def spent_token_def fun_eq_iff)

lemma known_uuid: "io_inv (known jti tok c) (ask_io (uuid_New env)) (\<lambda>u. u \<noteq> jti)"
  using uuid_new by (auto simp: io_inv_def known_token_def ask_io_run) (metis insert_iff prod.collapse)+

lemma known_kept:
  "io_inv (known jti tok c) (ask_io (time_Now env)) (\<lambda>_. True)"
  "io_inv (known jti tok c) (ts_Sign sg c') (\<lambda>_. True)"
  "io_inv (known jti tok c) (ts_Verify sg tok') (\<lambda>_. True)"
  "io_inv (known jti tok c) (RedisRefreshTokenRepo_Save rd j v ttl) (\<lambda>_. True)"
  "io_inv (known jti tok c) (RedisRefreshTokenRepo_Consume rd j) (\<lambda>_. True)"
  "io_inv (known jti tok c) (RedisRefreshTokenRepo_Revoke rd j) (\<lambda>_. True)"
  "io_inv (known jti tok c) (urp_GetByID urepo x) (\<lambda>_. True)"
  "io_inv (known jti tok c) (urp_GetByUsername urepo x) (\<lambda>_. True)"
  "io_inv (known jti tok c) (urp_GetByPhone urepo x) (\<lambda>_. True)"
  "io_inv (known jti tok c) (urp_Update urepo u) (\<lambda>_. True)"
  "io_inv (known jti tok c) (verify ph code) (\<lambda>_. True)"
  using issued_grows user_same [of "urp_GetByID urepo x" x] user_same [of "urp_GetByUsername urepo x" x]
    user_same [of "urp_GetByPhone urepo x" x] save_same sms_same clock_same [OF prod.collapse [symmetric]]
  by (auto simp: io_inv_def known_token_def ask_io_run sign_same verify_same Verify_issues redis_same Consume_run
      RedisRefreshTokenRepo_Save_def RedisRefreshTokenRepo_Revoke_def commands split: option.split)

lemma known_atom:
  assumes "io_inv (known jti tok c) m Q" and "io_inv (spent jti tok c) m (\<lambda>_. True)"
  shows "safe_prog (known jti tok c) (unkeyed jti) Q (atom m)"
  by (rule safe_atom [OF assms(1)]) (simp add: known_unkeyed assms(2))

lemmas quiet_atoms =
  known_atom [OF known_kept(1) keeps_clock] known_atom [OF known_kept(2) keeps_sign]
  known_atom [OF io_inv_map_err [OF known_kept(3)] io_inv_map_err [OF keeps_verify]]
  known_atom [OF known_kept(5) keeps_consume] known_atom [OF known_kept(6) keeps_revoke]
  known_atom [OF known_kept(7) keeps_user(1)]
  known_atom [OF io_inv_map_err [OF known_kept(8)] io_inv_map_err [OF keeps_user(2)]]
  known_atom [OF io_inv_map_err [OF known_kept(9)] io_inv_map_err [OF keeps_user(3)]]
  known_atom [OF io_inv_ignore [OF known_kept(10) TrueI] io_inv_ignore [OF keeps_user(4) TrueI]]
  known_atom [OF io_inv_map_err [OF known_kept(11)] io_inv_map_err [OF keeps_user(5)]]

lemma draw_atom: "safe_prog (known jti tok c) (unkeyed jti) (\<lambda>u. u \<noteq> jti) (atom (ask_io (uuid_New env)))"
  by (rule known_atom [OF known_uuid]) (rule io_inv_weaken [OF keeps_uuid], simp)

lemma save_atom:
  "j \<noteq> jti \<Longrightarrow> keeper (known jti tok c) (unkeyed jti) (atom (RedisRefreshTokenRepo_Save rd j v ttl))"
  by (rule known_atom [OF known_kept(4) keeps_save])

lemma pair_keeper: "keeper (known jti tok c) (unkeyed jti) (pair_prog env date (svc cfg) u)"
  unfolding pair_prog_def Let_def auth_service_fields refresh_repo_fields
  by (rule safe_bind [OF quiet_atoms(1)], rule safe_bind [OF draw_atom], rule safe_bind [OF quiet_atoms(2)],
      rule safe_bind [OF draw_atom], rule safe_bind [OF quiet_atoms(2)], rule safe_bind [OF save_atom]) simp_all

lemma login_user_keeper: "keeper (known jti tok c) (unkeyed jti) (login_user_prog env date (svc cfg) u)"
  unfolding login_user_prog_def Let_def auth_service_fields
  by (simp, intro impI, rule safe_bind [OF pair_keeper], rule safe_bind [OF quiet_atoms(1)],
      rule safe_bind [OF quiet_atoms(9)]) simp

lemma refresh_rest_keeper:
  "keeper (known jti tok c) (unkeyed jti) (bind_prog (atom (urp_GetByID urepo x)) (\<lambda>u.
     if \<not> User_IsActive u then Done (Inl (ident ErrUserFrozen))
     else bind_prog (pair_prog env date (svc cfg) u) (\<lambda>pair. Done (Inr (f pair)))))"
  by (rule safe_bind [OF quiet_atoms(6)], simp, intro impI, rule safe_bind [OF pair_keeper]) simp

lemma refresh_keeper: "keeper (known jti tok c) (unkeyed jti) (refresh_prog env date (svc cfg) req)"
  unfolding refresh_prog_def auth_service_fields refresh_repo_fields
  by (rule safe_bind [OF quiet_atoms(3)], simp, intro impI, rule safe_bind [OF quiet_atoms(4)])
    (simp add: case_prod_beta' refresh_rest_keeper)

text \<open>A request to refresh the token succeeds only through the script that takes the key away.\<close>

lemma refresh_contender:
  assumes "rcl_ID (cl_Registered c) = jti"
  shows "contender (known jti tok c) (unkeyed jti) (refresh_prog env date (svc cfg) \<lparr>rtq_RefreshToken = tok\<rparr>)"
  unfolding refresh_prog_def auth_service_fields refresh_repo_fields RefreshTokenRequest.simps
proof (rule contender_atom, goal_cases)
  case (1 s)
  then show ?case by (simp add: known_token_def verify_same Verify_issues)
next
  case (2 s claims)
  then have claims: "claims = c"
    by (auto simp: known_token_def map_err_io_run split: prod.splits sum.splits dest: Verify_Inr)
  have "contender (known jti tok c) (unkeyed jti)
      (bind_prog (atom (RedisRefreshTokenRepo_Consume rd jti)) (\<lambda>(_, ok).
          if \<not> ok then Done (Inl (ident ErrRefreshTokenRevoked))
          else bind_prog (atom (urp_GetByID urepo (rcl_Subject (cl_Registered c)))) (\<lambda>u.
               if \<not> User_IsActive u then Done (Inl (ident ErrUserFrozen))
               else bind_prog (pair_prog env date (svc cfg) u) (\<lambda>pair.
                    Done (Inr \<lparr>rtp_TokenPair = pair, rtp_AccessExpiresIn = access_expires_in (svc cfg)\<rparr>)))))"
    by (rule contender_atom)
      (auto simp: Consume_run known_token_def redis_same refresh_rest_keeper split: option.splits)
  then show ?case unfolding claims assms by (intro disjI1) simp
qed

lemma call_keeper: "keeper (known jti tok c) (unkeyed jti) (call_prog env date (svc cfg) call)"
proof (cases call)
  case (LoginCall req)
  show ?thesis unfolding LoginCall call_prog.simps login_prog_def auth_service_fields
    by (rule safe_bind [where P = "\<lambda>_. True"], rule safe_bind [OF quiet_atoms(7)]) (simp_all add: login_user_keeper)
next
  case (SmsLoginCall req)
  show ?thesis unfolding SmsLoginCall call_prog.simps sms_login_prog_def auth_service_fields
    by (rule safe_bind [where P = "\<lambda>_. True"], rule safe_bind [OF quiet_atoms(10)], rule safe_bind [OF quiet_atoms(8)])
      (simp_all add: login_user_keeper)
next
  case (RefreshCall t)
  show ?thesis unfolding RefreshCall call_prog.simps by (rule safe_bind [OF refresh_keeper]) simp
next
  case (LogoutCall t)
  show ?thesis unfolding LogoutCall call_prog.simps logout_prog_def auth_service_fields refresh_repo_fields
    by (rule safe_bind [where P = "\<lambda>_. True"], rule safe_bind [OF quiet_atoms(3)]) (simp_all add: quiet_atoms(5))
qed

lemma calls_pool_inv:
  assumes "rcl_ID (cl_Registered c) = jti" and "known jti tok c s"
  shows "pool_inv (known jti tok c) (unkeyed jti) {i. calls i = Some (RefreshCall tok)}
     (\<lambda>i. map_option (call_prog env date (svc cfg)) (calls i)) s"
  using assms(2) call_keeper
  by (auto simp: pool_inv_def contends_def ran_def
      intro!: contender_bind refresh_contender [OF assms(1)] split: option.splits)

lemma time_passes_kept:
  "time_passes kv issued drawn s s' \<Longrightarrow> known jti tok c s \<Longrightarrow>
     known jti tok c s' \<and> (unkeyed jti s \<longrightarrow> unkeyed jti s')"
  by (auto simp: time_passes_def known_token_def) (metis not_None_eq)

end

text \<open>
  C3: A refresh token is exchanged at most once, also when requests overlap. Let any requests to log
  in, refresh and log out be served at the same time, their actions on the clock, the signer, the
  user table and Redis in any order, while keys expire. Of all the requests to refresh the same
  token, at most one is answered with new tokens.
\<close>

theorem concurrent_refresh_once:
  assumes "auth_world sg issued live rd kv set_kv env urepo verify drawn"
    and "issued s tok = Some c" and "rcl_ID (cl_Registered c) \<in> drawn s"
    and "(pool_step (time_passes kv issued drawn))\<^sup>*\<^sup>*
           (\<lambda>i. map_option (call_prog env date (auth_service rd sg urepo verify cfg)) (calls i), s) (ps, s')"
    and "calls i = Some (RefreshCall tok)" and "calls j = Some (RefreshCall tok)"
    and "ps i = Some (Done (Inr r1))" and "ps j = Some (Done (Inr r2))"
  shows "i = j"
proof (rule at_most_one_succeeds [OF assms(4) _ _ _ _ assms(7,8)])
  let ?jti = "rcl_ID (cl_Registered c)"
  show "pool_inv (known_token issued drawn ?jti tok c) (\<lambda>s. kv s (refreshKey ?jti) = None)
      {i. calls i = Some (RefreshCall tok)}
      (\<lambda>i. map_option (call_prog env date (auth_service rd sg urepo verify cfg)) (calls i)) s"
    by (rule auth_world.calls_pool_inv [OF assms(1) refl]) (simp add: known_token_def assms(2,3))
qed (auto simp: assms(5,6) dest: auth_world.time_passes_kept [OF assms(1)])

section \<open>Two requests with one token\<close>

lemma example_refresh:
  "\<exists>resp s'. authService_RefreshToken auth_ref_env auth_ref_date auth_ref_svc \<lparr>rtq_RefreshToken = dec_digits 0\<rparr>
     auth_start = (Inr resp, s')"
proof -
  obtain s1 where s1: "ts_Verify auth_ref_signer (dec_digits 0) auth_start = (Inr example_claims, s1)"
    using auth_ref.Verify_run [of auth_start "dec_digits 0"] by (auto simp: auth_start_facts)
  have s1': "s1 = auth_start"
    using s1 by (auto simp: rs256_signer_def RS256Signer_Verify_def ref_jwt_def bind_io_run
        split: sum.splits if_splits)
  obtain s2 where s2: "RedisRefreshTokenRepo_Consume auth_ref_redis (dec_digits 0) auth_start = (Inr (RText ''a1'', True), s2)"
    "urp_GetByID auth_ref_users ''a1'' s2 = (Inr (toDomainUser user_example), s2)"
    by (simp add: auth_ref.Consume_run auth_start_facts ref_set_kv_def) (simp add: auth_start_def auth_lookups)
  obtain pair s3 where "authService_generateTokenPair auth_ref_env auth_ref_date auth_ref_svc
      (toDomainUser user_example) s2 = (Inr pair, s3)"
    using auth_ref.token_pair_total [OF ref_sign_total] by blast
  then show ?thesis using s1 s2
    by (intro exI [of _ "\<lparr>rtp_TokenPair = pair, rtp_AccessExpiresIn = access_expires_in auth_ref_svc\<rparr>"] exI [of _ s3])
      (simp add: authService_RefreshToken_def map_err_io_run bind_io_run s1' auth_start_facts
        User_IsActive_def example_user_active)
qed

text \<open>The first request runs to its end, then the second: it gets an error.\<close>

lemma concurrent_refresh_once_witness:
  "\<exists>ps s' r e. (pool_step (time_passes ref_kv auth_ref_issued ref_drawn))\<^sup>*\<^sup>*
       (\<lambda>i. if i < 2 then Some (call_prog auth_ref_env auth_ref_date auth_ref_svc (RefreshCall (dec_digits 0))) else None,
        auth_start) (ps, s') \<and>
     ps (0::nat) = Some (Done (Inr r)) \<and> ps 1 = Some (Done (Inl e))"
proof -
  let ?p = "call_prog auth_ref_env auth_ref_date auth_ref_svc (RefreshCall (dec_digits 0))"
  let ?calls = "\<lambda>i::nat. if i < 2 then Some (RefreshCall (dec_digits 0)) else None"
  let ?ps = "\<lambda>i. map_option (call_prog auth_ref_env auth_ref_date auth_ref_svc) (?calls i)"
  let ?step = "pool_step (time_passes ref_kv auth_ref_issued ref_drawn)"
  obtain r s1 where first: "run_prog ?p auth_start = (Inr r, s1)"
    using example_refresh by (auto simp: auth_progs_run bind_io_run)
  obtain r2 s2 where second: "run_prog ?p s1 = (r2, s2)" by (cases "run_prog ?p s1")
  let ?ps1 = "?ps(0 \<mapsto> Done (Inr r))"
  have "?step\<^sup>*\<^sup>* (?ps, auth_start) (?ps1, s1)" using _ first by (rule run_alone) simp
  moreover have "?step\<^sup>*\<^sup>* (?ps1, s1) (?ps1(1 \<mapsto> Done r2), s2)" using _ second by (rule run_alone) simp
  ultimately have run: "?step\<^sup>*\<^sup>* (?ps, auth_start) (?ps1(1 \<mapsto> Done r2), s2)" by (rule rtranclp_trans)
  have "r2 \<noteq> Inr x" for x
    using concurrent_refresh_once [OF auth_ref_world auth_start_facts(1) _ run, of 0 1 r x] by (auto simp: auth_start_facts)
  then obtain e where "r2 = Inl e" by (cases r2) auto
  moreover have "?ps = (\<lambda>i. if i < 2 then Some ?p else None)" by auto
  ultimately show ?thesis using run
    by (intro exI [of _ "?ps1(1 \<mapsto> Done r2)"] exI [of _ s2] exI [of _ r] exI [of _ e]) simp
qed

end
