(* ===== verification/Device_Store.thy ===== *)
theory Device_Store
  imports Entity_Store Grpc_Util
begin

text \<open>
  Devices of the \<open>iot\<close> domain: the entity with its status machine and its binding to a gate
  (\<open>domain/device.go\<close>), the GORM DAO (\<open>repository/dao/device.go\<close>) and the repository with its
  transactions (\<open>repository/device_repo.go\<close>). A device is read and written under the pair of
  its tenant and its ID, while the table's primary key is the ID alone.
\<close>

section \<open>Domain\<close>

definition DeviceTypeIntegrated :: string where [simp]: "DeviceTypeIntegrated = ''integrated''"
definition DeviceTypeCameraOnly :: string where [simp]: "DeviceTypeCameraOnly = ''camera_only''"
definition DeviceTypeBarrierOnly :: string where [simp]: "DeviceTypeBarrierOnly = ''barrier_only''"

definition DeviceStatusPending :: string where [simp]: "DeviceStatusPending = ''pending''"
definition DeviceStatusActive :: string where [simp]: "DeviceStatusActive = ''active''"
definition DeviceStatusOffline :: string where [simp]: "DeviceStatusOffline = ''offline''"
definition DeviceStatusDisabled :: string where [simp]: "DeviceStatusDisabled = ''disabled''"

record device =
  dv_ID :: string
  dv_TenantID :: string
  dv_Name :: string
  dv_Type :: string
  dv_Status :: string
  dv_FirmwareVersion :: string
  dv_LastHeartbeat :: "int option"
  dv_ParkingLotID :: "string option"
  dv_GateID :: "string option"
  dv_CreatedAt :: int
  dv_UpdatedAt :: int

definition NewDevice ::
  "'s go_env \<Rightarrow> string \<Rightarrow> string \<Rightarrow> string \<Rightarrow> string \<Rightarrow> (device, 's) io" where
  "NewDevice env did name deviceType firmwareVersion =
     bind_io (ask_io (time_Now env)) (\<lambda>now.
     return_io \<lparr>dv_ID = did, dv_TenantID = [], dv_Name = name, dv_Type = deviceType,
                dv_Status = DeviceStatusPending, dv_FirmwareVersion = firmwareVersion,
                dv_LastHeartbeat = None, dv_ParkingLotID = None, dv_GateID = None,
                dv_CreatedAt = now, dv_UpdatedAt = now\<rparr>)"

text \<open>
  The errors made on the spot: not pending or offline, not active, already disabled, not
  disabled, already bound. They are sentinels of no package, so \<open>errors.Is\<close> never finds them.
\<close>

definition device_cannot_activate :: go_error where
  "device_cannot_activate = Opaque (utf8
     [0xE8, 0xAE, 0xBE, 0xE5, 0xA4, 0x87, 0xE7, 0x8A, 0xB6, 0xE6, 0x80, 0x81, 0xE4, 0xB8,
      0x8D, 0xE5, 0x85, 0x81, 0xE8, 0xAE, 0xB8, 0xE6, 0xBF, 0x80, 0xE6, 0xB4, 0xBB])"

definition device_not_active :: go_error where
  "device_not_active = Opaque (utf8
     [0xE5, 0x8F, 0xAA, 0xE6, 0x9C, 0x89, 0xE5, 0xB7, 0xB2, 0xE6, 0xBF, 0x80, 0xE6, 0xB4,
      0xBB, 0xE7, 0x9A, 0x84, 0xE8, 0xAE, 0xBE, 0xE5, 0xA4, 0x87, 0xE5, 0x8F, 0xAF, 0xE4,
      0xBB, 0xA5, 0xE7, 0xA6, 0xBB, 0xE7, 0xBA, 0xBF])"

definition device_is_disabled :: go_error where
  "device_is_disabled = Opaque (utf8
     [0xE8, 0xAE, 0xBE, 0xE5, 0xA4, 0x87, 0xE5, 0xB7, 0xB2, 0xE6, 0x98, 0xAF, 0xE7, 0xA6,
      0x81, 0xE7, 0x94, 0xA8, 0xE7, 0x8A, 0xB6, 0xE6, 0x80, 0x81])"

definition device_not_disabled :: go_error where
  "device_not_disabled = Opaque (utf8
     [0xE5, 0x8F, 0xAA, 0xE6, 0x9C, 0x89, 0xE5, 0xB7, 0xB2, 0xE7, 0xA6, 0x81, 0xE7, 0x94,
      0xA8, 0xE7, 0x9A, 0x84, 0xE8, 0xAE, 0xBE, 0xE5, 0xA4, 0x87, 0xE5, 0x8F, 0xAF, 0xE4,
      0xBB, 0xA5, 0xE5, 0x90, 0xAF, 0xE7, 0x94, 0xA8])"

definition device_already_bound :: go_error where
  "device_already_bound = Opaque (utf8
     [0xE8, 0xAE, 0xBE, 0xE5, 0xA4, 0x87, 0xE5, 0xB7, 0xB2, 0xE7, 0xBB, 0x91, 0xE5, 0xAE,
      0x9A, 0xEF, 0xBC, 0x8C, 0xE8, 0xAF, 0xB7, 0xE5, 0x85, 0x88, 0xE8, 0xA7, 0xA3, 0xE7,
      0xBB, 0x91])"

text \<open>\<open>d.UpdatedAt = time.Now()\<close>, the last statement of every change.\<close>

definition device_touch :: "'s go_env \<Rightarrow> device \<Rightarrow> (device, 's) io" where
  "device_touch env d =
     bind_io (ask_io (time_Now env)) (\<lambda>now. return_io (d\<lparr>dv_UpdatedAt := now\<rparr>))"

definition Device_Activate :: "'s go_env \<Rightarrow> device \<Rightarrow> (device, 's) io" where
  "Device_Activate env d =
     (if dv_Status d \<noteq> DeviceStatusPending \<and> dv_Status d \<noteq> DeviceStatusOffline
      then fail_io device_cannot_activate
      else device_touch env (d\<lparr>dv_Status := DeviceStatusActive\<rparr>))"

definition Device_GoOffline :: "'s go_env \<Rightarrow> device \<Rightarrow> (device, 's) io" where
  "Device_GoOffline env d =
     (if dv_Status d \<noteq> DeviceStatusActive then fail_io device_not_active
      else device_touch env (d\<lparr>dv_Status := DeviceStatusOffline\<rparr>))"

definition Device_Disable :: "'s go_env \<Rightarrow> device \<Rightarrow> (device, 's) io" where
  "Device_Disable env d =
     (if dv_Status d = DeviceStatusDisabled then fail_io device_is_disabled
      else device_touch env (d\<lparr>dv_Status := DeviceStatusDisabled\<rparr>))"

definition Device_Enable :: "'s go_env \<Rightarrow> device \<Rightarrow> (device, 's) io" where
  "Device_Enable env d =
     (if dv_Status d \<noteq> DeviceStatusDisabled then fail_io device_not_disabled
      else device_touch env (d\<lparr>dv_Status := DeviceStatusActive\<rparr>))"

definition Device_Bind :: "'s go_env \<Rightarrow> string \<Rightarrow> string \<Rightarrow> device \<Rightarrow> (device, 's) io" where
  "Device_Bind env parkingLotID gateID d =
     (if dv_ParkingLotID d \<noteq> None then fail_io device_already_bound
      else device_touch env
        (d\<lparr>dv_ParkingLotID := Some parkingLotID, dv_GateID := Some gateID,
           dv_Status := (if dv_Status d = DeviceStatusPending then DeviceStatusActive
                         else dv_Status d)\<rparr>))"

definition Device_Unbind :: "'s go_env \<Rightarrow> device \<Rightarrow> (device, 's) io" where
  "Device_Unbind env d =
     (if dv_ParkingLotID d = None then fail_io (iot ErrDeviceNotBound)
      else device_touch env (d\<lparr>dv_ParkingLotID := None, dv_GateID := None\<rparr>))"

definition Device_UpdateName :: "'s go_env \<Rightarrow> string \<Rightarrow> device \<Rightarrow> (device, 's) io" where
  "Device_UpdateName env name d = device_touch env (d\<lparr>dv_Name := name\<rparr>)"

definition Device_IsBound :: "device \<Rightarrow> bool" where
  "Device_IsBound d = (dv_ParkingLotID d \<noteq> None)"

lemmas device_change_defs =
  Device_Activate_def Device_GoOffline_def Device_Disable_def Device_Enable_def Device_Bind_def
  Device_Unbind_def Device_UpdateName_def device_touch_def

text \<open>
  A device is in one of the four states, bound to both a lot and a gate or to neither, and
  never bound while it is pending. Every change of the entity keeps that.
\<close>

definition device_statuses :: "string set" where
  "device_statuses = {''pending'', ''active'', ''offline'', ''disabled''}"

definition device_valid :: "device \<Rightarrow> bool" where
  "device_valid d \<longleftrightarrow> dv_Status d \<in> device_statuses \<and>
     (dv_ParkingLotID d = None \<longleftrightarrow> dv_GateID d = None) \<and>
     (dv_Status d = ''pending'' \<longrightarrow> dv_ParkingLotID d = None)"

lemma device_changes_valid:
  assumes "device_valid d"
  shows "\<And>s s'. Device_Activate env d s = (Inr d', s') \<Longrightarrow> device_valid d'"
    and "\<And>s s'. Device_GoOffline env d s = (Inr d', s') \<Longrightarrow> device_valid d'"
    and "\<And>s s'. Device_Disable env d s = (Inr d', s') \<Longrightarrow> device_valid d'"
    and "\<And>s s'. Device_Enable env d s = (Inr d', s') \<Longrightarrow> device_valid d'"
    and "\<And>s s'. Device_Bind env lot gate d s = (Inr d', s') \<Longrightarrow> device_valid d'"
    and "\<And>s s'. Device_Unbind env d s = (Inr d', s') \<Longrightarrow> device_valid d'"
    and "\<And>s s'. Device_UpdateName env name d s = (Inr d', s') \<Longrightarrow> device_valid d'"
  using assms
  by (auto simp: device_change_defs device_valid_def device_statuses_def bind_io_run ask_io_run
      split: if_splits)

section \<open>DAO\<close>

record device_row =
  dvr_ID :: string
  dvr_TenantID :: string
  dvr_Name :: string
  dvr_Type :: string
  dvr_Status :: string
  dvr_FirmwareVersion :: string
  dvr_LastHeartbeatAt :: "int option"
  dvr_ParkingLotID :: "string option"
  dvr_GateID :: "string option"
  dvr_CreatedAt :: int
  dvr_UpdatedAt :: int

record device_filter =
  df_TenantID :: string
  df_Status :: string
  df_ParkingLotID :: string
  df_Keyword :: string

record 's device_dao =
  dvd_Insert :: "device_row \<Rightarrow> (unit, 's) io"
  dvd_FindByID :: "string \<Rightarrow> string \<Rightarrow> (device_row, 's) io"
  dvd_FindAll :: "device_filter \<Rightarrow> int \<Rightarrow> int \<Rightarrow> (device_row list \<times> int, 's) io"
  dvd_Update :: "device_row \<Rightarrow> (unit, 's) io"
  dvd_Delete :: "string \<Rightarrow> string \<Rightarrow> (unit, 's) io"
  dvd_DeleteBatch :: "string \<Rightarrow> string list \<Rightarrow> (int, 's) io"
  dvd_CountByStatus :: "string \<Rightarrow> (int \<times> int \<times> int \<times> int, 's) io"
  dvd_UpdateStatus :: "string \<Rightarrow> string \<Rightarrow> string \<Rightarrow> (unit, 's) io"
  dvd_UpdateStatusBatch :: "string \<Rightarrow> string list \<Rightarrow> string \<Rightarrow> (int, 's) io"
  dvd_UnbindByDeviceIDs :: "string \<Rightarrow> string list \<Rightarrow> (unit, 's) io"

type_synonym 's device_gorm = "('s, device_row) gorm"

abbreviation device_q :: "string \<Rightarrow> string \<Rightarrow> gquery" where
  "device_q tid did \<equiv> Where ''tenant_id = ? AND id = ?'' [SqlStr tid, SqlStr did] Model"

abbreviation devices_q :: "string \<Rightarrow> string list \<Rightarrow> gquery" where
  "devices_q tid ids \<equiv> Where ''tenant_id = ? AND id IN ?'' [SqlStr tid, SqlStrs ids] Model"

definition GORMDeviceDAO_Insert :: "'s device_gorm \<Rightarrow> device_row \<Rightarrow> (unit, 's) io" where
  "GORMDeviceDAO_Insert db device =
     create_or db [''duplicate'', ''UNIQUE'', ''Duplicate''] (iot ErrDeviceIDDuplicate) device"

definition GORMDeviceDAO_FindByID ::
  "'s device_gorm \<Rightarrow> string \<Rightarrow> string \<Rightarrow> (device_row, 's) io" where
  "GORMDeviceDAO_FindByID db tenantID did =
     first_or db (device_q tenantID did) (iot ErrDeviceNotFound)"

definition device_query :: "device_filter \<Rightarrow> gquery" where
  "device_query f =
     (let like = like_pattern (df_Keyword f) in
      Where_if (df_Keyword f \<noteq> []) ''name LIKE ? OR id LIKE ?'' [like, like]
      (Where_if (df_ParkingLotID f \<noteq> []) ''parking_lot_id = ?'' [SqlStr (df_ParkingLotID f)]
      (Where_if (df_Status f \<noteq> []) ''status = ?'' [SqlStr (df_Status f)]
      (Where_if (df_TenantID f \<noteq> []) ''tenant_id = ?'' [SqlStr (df_TenantID f)] Model))))"

definition GORMDeviceDAO_FindAll ::
  "'s device_gorm \<Rightarrow> device_filter \<Rightarrow> int \<Rightarrow> int \<Rightarrow> (device_row list \<times> int, 's) io" where
  "GORMDeviceDAO_FindAll db f page pageSize = count_and_page db (device_query f) page pageSize"

definition device_columns :: "string list" where
  "device_columns = [''name'', ''type'', ''status'', ''firmware_version'', ''last_heartbeat_at'',
     ''parking_lot_id'', ''gate_id'', ''updated_at'']"

definition GORMDeviceDAO_Update :: "'s device_gorm \<Rightarrow> device_row \<Rightarrow> (unit, 's) io" where
  "GORMDeviceDAO_Update db device =
     affected_or (g_Updates db
         (Select device_columns (device_q (dvr_TenantID device) (dvr_ID device))) device)
       (iot ErrDeviceNotFound)"

definition GORMDeviceDAO_Delete :: "'s device_gorm \<Rightarrow> string \<Rightarrow> string \<Rightarrow> (unit, 's) io" where
  "GORMDeviceDAO_Delete db tenantID did =
     affected_or (g_Delete db (device_q tenantID did)) (iot ErrDeviceNotFound)"

definition GORMDeviceDAO_DeleteBatch ::
  "'s device_gorm \<Rightarrow> string \<Rightarrow> string list \<Rightarrow> (int, 's) io" where
  "GORMDeviceDAO_DeleteBatch db tenantID ids = g_Delete db (devices_q tenantID ids)"

text \<open>The loop over the scanned counts.\<close>

fun device_tally ::
  "int \<times> int \<times> int \<times> int \<Rightarrow> (string list \<times> int) list \<Rightarrow> int \<times> int \<times> int \<times> int" where
  "device_tally acc [] = acc"
| "device_tally (p, a, f, d) ((k, n) # rest) =
     device_tally (if k = [''pending''] then (n, a, f, d)
                   else if k = [''active''] then (p, n, f, d)
                   else if k = [''offline''] then (p, a, n, d)
                   else if k = [''disabled''] then (p, a, f, n) else (p, a, f, d)) rest"

definition GORMDeviceDAO_CountByStatus ::
  "'s device_gorm \<Rightarrow> string \<Rightarrow> (int \<times> int \<times> int \<times> int, 's) io" where
  "GORMDeviceDAO_CountByStatus db tenantID =
     bind_io (g_ScanCounts db (Group ''status'' (Where ''tenant_id = ?'' [SqlStr tenantID]
                (Select [''status'', ''COUNT(*) as count''] Model))))
       (\<lambda>counts. return_io (device_tally (0, 0, 0, 0) counts))"

definition GORMDeviceDAO_UpdateStatus ::
  "'s device_gorm \<Rightarrow> string \<Rightarrow> string \<Rightarrow> string \<Rightarrow> (unit, 's) io" where
  "GORMDeviceDAO_UpdateStatus db tenantID did status =
     affected_or (g_UpdateCols db (device_q tenantID did) [(''status'', SqlStr status)])
       (iot ErrDeviceNotFound)"

definition GORMDeviceDAO_UpdateStatusBatch ::
  "'s device_gorm \<Rightarrow> string \<Rightarrow> string list \<Rightarrow> string \<Rightarrow> (int, 's) io" where
  "GORMDeviceDAO_UpdateStatusBatch db tenantID ids status =
     g_UpdateCols db (devices_q tenantID ids) [(''status'', SqlStr status)]"

definition GORMDeviceDAO_UnbindByDeviceIDs ::
  "'s device_gorm \<Rightarrow> string \<Rightarrow> string list \<Rightarrow> (unit, 's) io" where
  "GORMDeviceDAO_UnbindByDeviceIDs db tenantID ids =
     bind_io (g_UpdateCols db (Select [''parking_lot_id'', ''gate_id''] (devices_q tenantID ids))
                [(''parking_lot_id'', SqlNull), (''gate_id'', SqlNull)]) (\<lambda>_. return_io ())"

definition NewDeviceDAO :: "'s device_gorm \<Rightarrow> 's device_dao" where
  "NewDeviceDAO db =
     \<lparr>dvd_Insert = GORMDeviceDAO_Insert db, dvd_FindByID = GORMDeviceDAO_FindByID db,
      dvd_FindAll = GORMDeviceDAO_FindAll db, dvd_Update = GORMDeviceDAO_Update db,
      dvd_Delete = GORMDeviceDAO_Delete db, dvd_DeleteBatch = GORMDeviceDAO_DeleteBatch db,
      dvd_CountByStatus = GORMDeviceDAO_CountByStatus db,
      dvd_UpdateStatus = GORMDeviceDAO_UpdateStatus db,
      dvd_UpdateStatusBatch = GORMDeviceDAO_UpdateStatusBatch db,
      dvd_UnbindByDeviceIDs = GORMDeviceDAO_UnbindByDeviceIDs db\<rparr>"

section \<open>Repository\<close>

text \<open>
  \<open>DeviceRepo\<close> without \<open>Transaction\<close>, which is added in the extension below: the closure a
  transaction runs is an action on the world and the one variable it captures (a count), given
  the repository over the transaction's handle. The closures of the code open no transaction
  of their own.
\<close>

record 's device_repo =
  drp_Create :: "device \<Rightarrow> (unit, 's) io"
  drp_GetByID :: "string \<Rightarrow> string \<Rightarrow> (device, 's) io"
  drp_List :: "device_filter \<Rightarrow> int \<Rightarrow> int \<Rightarrow> (device list \<times> int, 's) io"
  drp_Update :: "device \<Rightarrow> (unit, 's) io"
  drp_Delete :: "string \<Rightarrow> string \<Rightarrow> (unit, 's) io"
  drp_DeleteBatch :: "string \<Rightarrow> string list \<Rightarrow> (int, 's) io"
  drp_CountByStatus :: "string \<Rightarrow> (int \<times> int \<times> int \<times> int, 's) io"
  drp_UpdateStatus :: "string \<Rightarrow> string \<Rightarrow> string \<Rightarrow> (unit, 's) io"
  drp_UpdateStatusBatch :: "string \<Rightarrow> string list \<Rightarrow> string \<Rightarrow> (int, 's) io"
  drp_UnbindByDeviceIDs :: "string \<Rightarrow> string list \<Rightarrow> (unit, 's) io"

record 's device_txrepo = "'s device_repo" +
  drp_Transaction :: "('s device_repo \<Rightarrow> (unit, 's \<times> int) io) \<Rightarrow> (unit, 's \<times> int) io"

text \<open>\<open>db.Transaction(func(tx) error)\<close>: the handle \<open>tx\<close>, and how the closure is run.\<close>

record 's gorm_tx =
  gt_Handle :: "'s device_gorm"
  gt_Run :: "(unit, 's \<times> int) io \<Rightarrow> (unit, 's \<times> int) io"

definition toDomainDevice :: "device_row \<Rightarrow> device" where
  "toDomainDevice d =
     \<lparr>dv_ID = dvr_ID d, dv_TenantID = dvr_TenantID d, dv_Name = dvr_Name d, dv_Type = dvr_Type d,
      dv_Status = dvr_Status d, dv_FirmwareVersion = dvr_FirmwareVersion d,
      dv_LastHeartbeat = map_option time_UnixMilli (dvr_LastHeartbeatAt d),
      dv_ParkingLotID = dvr_ParkingLotID d, dv_GateID = dvr_GateID d,
      dv_CreatedAt = time_UnixMilli (dvr_CreatedAt d),
      dv_UpdatedAt = time_UnixMilli (dvr_UpdatedAt d)\<rparr>"

definition toDAODevice :: "device \<Rightarrow> device_row" where
  "toDAODevice d =
     \<lparr>dvr_ID = dv_ID d, dvr_TenantID = dv_TenantID d, dvr_Name = dv_Name d, dvr_Type = dv_Type d,
      dvr_Status = dv_Status d, dvr_FirmwareVersion = dv_FirmwareVersion d,
      dvr_LastHeartbeatAt = map_option UnixMilli (dv_LastHeartbeat d),
      dvr_ParkingLotID = dv_ParkingLotID d, dvr_GateID = dv_GateID d,
      dvr_CreatedAt = UnixMilli (dv_CreatedAt d), dvr_UpdatedAt = UnixMilli (dv_UpdatedAt d)\<rparr>"

definition deviceRepo_Create :: "'s device_dao \<Rightarrow> device \<Rightarrow> (unit, 's) io" where
  "deviceRepo_Create d device = dvd_Insert d (toDAODevice device)"

definition deviceRepo_GetByID :: "'s device_dao \<Rightarrow> string \<Rightarrow> string \<Rightarrow> (device, 's) io" where
  "deviceRepo_GetByID d tenantID did =
     bind_io (dvd_FindByID d tenantID did) (\<lambda>r. return_io (toDomainDevice r))"

definition deviceRepo_List ::
  "'s device_dao \<Rightarrow> device_filter \<Rightarrow> int \<Rightarrow> int \<Rightarrow> (device list \<times> int, 's) io" where
  "deviceRepo_List d f page pageSize =
     bind_io (dvd_FindAll d
         \<lparr>df_TenantID = df_TenantID f, df_Status = df_Status f,
          df_ParkingLotID = df_ParkingLotID f, df_Keyword = df_Keyword f\<rparr> page pageSize)
       (\<lambda>(records, n). return_io (map toDomainDevice records, n))"

definition deviceRepo_Update :: "'s device_dao \<Rightarrow> device \<Rightarrow> (unit, 's) io" where
  "deviceRepo_Update d device = dvd_Update d (toDAODevice device)"

definition deviceRepo_Delete :: "'s device_dao \<Rightarrow> string \<Rightarrow> string \<Rightarrow> (unit, 's) io" where
  "deviceRepo_Delete d tenantID did = dvd_Delete d tenantID did"

definition deviceRepo_DeleteBatch ::
  "'s device_dao \<Rightarrow> string \<Rightarrow> string list \<Rightarrow> (int, 's) io" where
  "deviceRepo_DeleteBatch d tenantID ids = dvd_DeleteBatch d tenantID ids"

definition deviceRepo_CountByStatus ::
  "'s device_dao \<Rightarrow> string \<Rightarrow> (int \<times> int \<times> int \<times> int, 's) io" where
  "deviceRepo_CountByStatus d tenantID = dvd_CountByStatus d tenantID"

definition deviceRepo_UpdateStatus ::
  "'s device_dao \<Rightarrow> string \<Rightarrow> string \<Rightarrow> string \<Rightarrow> (unit, 's) io" where
  "deviceRepo_UpdateStatus d tenantID did status = dvd_UpdateStatus d tenantID did status"

definition deviceRepo_UpdateStatusBatch ::
  "'s device_dao \<Rightarrow> string \<Rightarrow> string list \<Rightarrow> string \<Rightarrow> (int, 's) io" where
  "deviceRepo_UpdateStatusBatch d tenantID ids status = dvd_UpdateStatusBatch d tenantID ids status"

definition deviceRepo_UnbindByDeviceIDs ::
  "'s device_dao \<Rightarrow> string \<Rightarrow> string list \<Rightarrow> (unit, 's) io" where
  "deviceRepo_UnbindByDeviceIDs d tenantID ids = dvd_UnbindByDeviceIDs d tenantID ids"

definition deviceRepo :: "'s device_dao \<Rightarrow> 's device_repo" where
  "deviceRepo d =
     \<lparr>drp_Create = deviceRepo_Create d, drp_GetByID = deviceRepo_GetByID d,
      drp_List = deviceRepo_List d, drp_Update = deviceRepo_Update d,
      drp_Delete = deviceRepo_Delete d, drp_DeleteBatch = deviceRepo_DeleteBatch d,
      drp_CountByStatus = deviceRepo_CountByStatus d,
      drp_UpdateStatus = deviceRepo_UpdateStatus d,
      drp_UpdateStatusBatch = deviceRepo_UpdateStatusBatch d,
      drp_UnbindByDeviceIDs = deviceRepo_UnbindByDeviceIDs d\<rparr>"

definition deviceRepo_Transaction ::
  "'s gorm_tx \<Rightarrow> ('s device_repo \<Rightarrow> (unit, 's \<times> int) io) \<Rightarrow> (unit, 's \<times> int) io" where
  "deviceRepo_Transaction db fn = gt_Run db (fn (deviceRepo (NewDeviceDAO (gt_Handle db))))"

definition NewDeviceRepo :: "'s device_dao \<Rightarrow> 's gorm_tx \<Rightarrow> 's device_txrepo" where
  "NewDeviceRepo d db =
     device_repo.extend (deviceRepo d)
       (device_txrepo.fields (deviceRepo_Transaction db))"

lemma NewDeviceRepo_fields [simp]:
  "drp_Create (NewDeviceRepo d db) = deviceRepo_Create d"
  "drp_GetByID (NewDeviceRepo d db) = deviceRepo_GetByID d"
  "drp_List (NewDeviceRepo d db) = deviceRepo_List d"
  "drp_Update (NewDeviceRepo d db) = deviceRepo_Update d"
  "drp_Delete (NewDeviceRepo d db) = deviceRepo_Delete d"
  "drp_CountByStatus (NewDeviceRepo d db) = deviceRepo_CountByStatus d"
  "drp_Transaction (NewDeviceRepo d db) = deviceRepo_Transaction db"
  by (simp_all add: NewDeviceRepo_def deviceRepo_def device_repo.defs device_txrepo.defs)

lemma deviceRepo_fields [simp]:
  "drp_Create (deviceRepo d) = deviceRepo_Create d"
  "drp_GetByID (deviceRepo d) = deviceRepo_GetByID d"
  "drp_Update (deviceRepo d) = deviceRepo_Update d"
  "drp_Delete (deviceRepo d) = deviceRepo_Delete d"
  by (simp_all add: deviceRepo_def)

lemmas device_store_defs =
  deviceRepo_Create_def deviceRepo_GetByID_def deviceRepo_List_def deviceRepo_Update_def
  deviceRepo_Delete_def deviceRepo_CountByStatus_def NewDeviceDAO_def GORMDeviceDAO_Insert_def
  GORMDeviceDAO_FindByID_def GORMDeviceDAO_FindAll_def GORMDeviceDAO_Update_def
  GORMDeviceDAO_Delete_def GORMDeviceDAO_CountByStatus_def

text \<open>The table keeps milliseconds.\<close>

definition to_millis :: "int \<Rightarrow> int" where
  "to_millis t = time_UnixMilli (UnixMilli t)"

lemma toDomainDevice_toDAODevice:
  "toDomainDevice (toDAODevice d) =
     d\<lparr>dv_LastHeartbeat := map_option to_millis (dv_LastHeartbeat d),
       dv_CreatedAt := to_millis (dv_CreatedAt d), dv_UpdatedAt := to_millis (dv_UpdatedAt d)\<rparr>"
  by (simp add: toDomainDevice_def toDAODevice_def to_millis_def [abs_def] option.map_comp comp_def)

lemma toDAODevice_toDomainDevice [simp]: "toDAODevice (toDomainDevice r) = r"
  by (simp add: toDomainDevice_def toDAODevice_def option.map_comp comp_def option.map_ident)

section \<open>The table\<close>

fun device_holds :: "(string \<Rightarrow> string \<Rightarrow> bool) \<Rightarrow> sql_cond \<Rightarrow> device_row \<Rightarrow> bool" where
  "device_holds like (c, [SqlStr v]) r =
     (if c = ''tenant_id = ?'' then dvr_TenantID r = v
      else if c = ''status = ?'' then dvr_Status r = v
      else if c = ''parking_lot_id = ?'' then dvr_ParkingLotID r = Some v else False)"
| "device_holds like (c, [SqlStr v, SqlStr w]) r =
     (if c = ''tenant_id = ? AND id = ?'' then dvr_TenantID r = v \<and> dvr_ID r = w
      else if c = ''name LIKE ? OR id LIKE ?''
      then like v (dvr_Name r) \<or> like w (dvr_ID r) else False)"
| "device_holds like (c, [SqlStr v, SqlStrs ids]) r =
     (c = ''tenant_id = ? AND id IN ?'' \<and> dvr_TenantID r = v \<and> dvr_ID r \<in> set ids)"
| "device_holds like _ r = False"

definition device_clash :: "device_row \<Rightarrow> device_row \<Rightarrow> bool" where
  "device_clash r' r = (dvr_ID r' = dvr_ID r)"

definition device_stamp :: "int \<Rightarrow> device_row \<Rightarrow> device_row" where
  "device_stamp now r =
     r\<lparr>dvr_CreatedAt := (if dvr_CreatedAt r = 0 then now else dvr_CreatedAt r),
       dvr_UpdatedAt := (if dvr_UpdatedAt r = 0 then now else dvr_UpdatedAt r)\<rparr>"

text \<open>
  \<open>Select(cols).Updates(new)\<close> writes the selected columns, zero values included; GORM takes
  the value of \<open>updated_at\<close> from the clock.
\<close>

definition device_assign ::
  "int \<Rightarrow> string list \<Rightarrow> device_row \<Rightarrow> device_row \<Rightarrow> device_row" where
  "device_assign now cols new old =
     old\<lparr>dvr_Name := (if ''name'' \<in> set cols then dvr_Name new else dvr_Name old),
         dvr_Type := (if ''type'' \<in> set cols then dvr_Type new else dvr_Type old),
         dvr_Status := (if ''status'' \<in> set cols then dvr_Status new else dvr_Status old),
         dvr_FirmwareVersion := (if ''firmware_version'' \<in> set cols
            then dvr_FirmwareVersion new else dvr_FirmwareVersion old),
         dvr_LastHeartbeatAt := (if ''last_heartbeat_at'' \<in> set cols
            then dvr_LastHeartbeatAt new else dvr_LastHeartbeatAt old),
         dvr_ParkingLotID := (if ''parking_lot_id'' \<in> set cols
            then dvr_ParkingLotID new else dvr_ParkingLotID old),
         dvr_GateID := (if ''gate_id'' \<in> set cols then dvr_GateID new else dvr_GateID old),
         dvr_UpdatedAt := now\<rparr>"

fun device_set_col :: "string \<times> sql_val \<Rightarrow> device_row \<Rightarrow> device_row" where
  "device_set_col (c, SqlStr v) r = (if c = ''status'' then r\<lparr>dvr_Status := v\<rparr> else r)"
| "device_set_col (c, SqlNull) r =
     (if c = ''parking_lot_id'' then r\<lparr>dvr_ParkingLotID := None\<rparr>
      else if c = ''gate_id'' then r\<lparr>dvr_GateID := None\<rparr> else r)"
| "device_set_col _ r = r"

definition device_assign_cols ::
  "int \<Rightarrow> (string \<times> sql_val) list \<Rightarrow> device_row \<Rightarrow> device_row" where
  "device_assign_cols now cols r = (fold device_set_col cols r)\<lparr>dvr_UpdatedAt := now\<rparr>"

fun device_group :: "string \<Rightarrow> device_row \<Rightarrow> string list" where
  "device_group c r = (if c = ''status'' then [dvr_Status r] else [])"

fun device_order :: "string \<Rightarrow> device_row \<Rightarrow> int" where
  "device_order c r = (if c = ''created_at DESC'' then - dvr_CreatedAt r else 0)"

text \<open>The device that saving \<open>new\<close> over the stored \<open>old\<close> leaves.\<close>

definition device_overlay :: "int \<Rightarrow> device \<Rightarrow> device \<Rightarrow> device" where
  "device_overlay now new old =
     old\<lparr>dv_Name := dv_Name new, dv_Type := dv_Type new, dv_Status := dv_Status new,
         dv_FirmwareVersion := dv_FirmwareVersion new,
         dv_LastHeartbeat := map_option to_millis (dv_LastHeartbeat new),
         dv_ParkingLotID := dv_ParkingLotID new, dv_GateID := dv_GateID new,
         dv_UpdatedAt := time_UnixMilli now\<rparr>"

definition device_key :: "device_row \<Rightarrow> string \<times> string" where
  "device_key r = (dvr_TenantID r, dvr_ID r)"

lemma device_assign_columns:
  "device_assign now device_columns new old =
     old\<lparr>dvr_Name := dvr_Name new, dvr_Type := dvr_Type new, dvr_Status := dvr_Status new,
         dvr_FirmwareVersion := dvr_FirmwareVersion new,
         dvr_LastHeartbeatAt := dvr_LastHeartbeatAt new,
         dvr_ParkingLotID := dvr_ParkingLotID new, dvr_GateID := dvr_GateID new,
         dvr_UpdatedAt := now\<rparr>"
  by (simp add: device_assign_def device_columns_def)

lemma device_assign_overlay:
  "toDomainDevice (device_assign now device_columns (toDAODevice new) old) =
     device_overlay now new (toDomainDevice old)"
  by (simp add: device_assign_columns toDomainDevice_def toDAODevice_def device_overlay_def
      to_millis_def [abs_def] option.map_comp comp_def)

lemma device_q_matches: "matches (device_holds like) (device_q tid did) r \<longleftrightarrow> device_key r = (tid, did)"
  by (simp add: matches_def query_simps device_key_def)

lemma device_assign_key [simp]: "device_key (device_assign now cols new r) = device_key r"
  by (simp add: device_key_def device_assign_def)

locale device_db =
  gorm_table db rows set_rows "device_holds like" device_clash now device_stamp device_assign
    device_assign_cols device_group device_order dup
  for like :: "string \<Rightarrow> string \<Rightarrow> bool" and db :: "'s device_gorm" and rows and set_rows and now and dup

sublocale device_db < devices: gorm_entity db rows set_rows "device_holds like" device_clash now
  device_stamp device_assign device_assign_cols device_group device_order dup
  "\<lambda>(tid, did). device_q tid did" device_key toDomainDevice toDAODevice device_columns
  device_overlay "iot ErrDeviceNotFound" "[''duplicate'', ''UNIQUE'', ''Duplicate'']"
  "iot ErrDeviceIDDuplicate"
proof (unfold_locales, goal_cases)
  case (1 k r)
  then show ?case by (cases k) (simp add: device_q_matches)
next
  case (6 e r t)
  then show ?case by simp
qed (auto simp: device_assign_overlay device_key_def device_clash_def device_stamp_def)

abbreviation "device_at rows \<equiv> entity_at rows device_key toDomainDevice"
abbreviation "devices_ok rows \<equiv> table_intact device_clash rows"

text \<open>
  What GORM documents of a transaction: a closure that returns nil is committed, one that
  returns an error is rolled back and its error returned. A variable the closure captures is
  not part of the database.
\<close>

locale device_tx = device_db like db rows set_rows now dup
  for like :: "string \<Rightarrow> string \<Rightarrow> bool" and db :: "'s device_gorm" and rows and set_rows and now and dup +
  fixes tx :: "'s gorm_tx"
  assumes tx_handle: "device_db like (gt_Handle tx) rows set_rows now dup"
    and tx_commit: "m w = (Inr (), w') \<Longrightarrow> gt_Run tx m w = (Inr (), w')"
    and tx_rollback:
      "m (s, n) = (Inl e, (s', n')) \<Longrightarrow> gt_Run tx m (s, n) = (Inl e, (set_rows (rows s) s', n'))"

definition device_ref :: "string \<Rightarrow> (device_row list \<times> int) device_gorm" where
  "device_ref dup = ref_gorm (device_holds sql_like) device_clash device_stamp device_assign
     device_assign_cols device_group device_order (\<lambda>cols r. []) dup"

definition device_ref_tx :: "string \<Rightarrow> (device_row list \<times> int) gorm_tx" where
  "device_ref_tx dup =
     \<lparr>gt_Handle = device_ref dup,
      gt_Run = (\<lambda>m ((xs, t), n). case m ((xs, t), n) of
         (Inr u, w) \<Rightarrow> (Inr u, w) | (Inl e, ((ys, t'), n')) \<Rightarrow> (Inl e, ((xs, t'), n')))\<rparr>"

lemma device_ref_db: "device_db sql_like (device_ref dup) fst ref_set snd dup"
  unfolding device_ref_def device_db_def by (rule ref_gorm_table)

lemma device_ref_tx_laws: "device_tx sql_like (device_ref dup) fst ref_set snd dup (device_ref_tx dup)"
  unfolding device_tx_def device_tx_axioms_def
  by (auto simp: device_ref_db device_ref_tx_def ref_set_def split: prod.splits)

interpretation device_ref: device_tx sql_like "device_ref dup" fst ref_set snd dup "device_ref_tx dup"
  for dup by (rule device_ref_tx_laws)

end
