(* ===== verification/Device_Service.thy ===== *)
theory Device_Service
  imports Device_Store
begin

text \<open>
  The device service (\<open>service/device_service.go\<close>) and its gRPC server
  (\<open>grpc/device_server.go\<close>, \<open>grpc/helpers.go\<close>).
\<close>

section \<open>Service\<close>

record CreateDeviceRequest =
  cdr_TenantID :: string
  cdr_ID :: string
  cdr_Name :: string
  cdr_Type :: string
  cdr_FirmwareVersion :: string

record GetDeviceRequest =
  gdr_TenantID :: string
  gdr_ID :: string

record ListDevicesRequest =
  ldr_TenantID :: string
  ldr_Status :: string
  ldr_ParkingLotID :: string
  ldr_Keyword :: string
  ldr_Page :: int
  ldr_PageSize :: int

record UpdateDeviceNameRequest =
  udr_TenantID :: string
  udr_ID :: string
  udr_Name :: string

record BindDeviceRequest =
  bdr_TenantID :: string
  bdr_ID :: string
  bdr_ParkingLotID :: string
  bdr_GateID :: string

record UnbindDeviceRequest =
  ubr_TenantID :: string
  ubr_ID :: string

record ChangeDeviceStatusRequest =
  cds_TenantID :: string
  cds_ID :: string

record DeleteDeviceRequest =
  ddr_TenantID :: string
  ddr_ID :: string

record BatchChangeDeviceStatusRequest =
  bcs_TenantID :: string
  bcs_IDs :: "string list"

record BatchDeleteDeviceRequest =
  bdd_TenantID :: string
  bdd_IDs :: "string list"

record Binding =
  bn_ID :: string
  bn_ParkingLotID :: string
  bn_GateID :: string

record BatchBindDeviceRequest =
  bbd_TenantID :: string
  bbd_Bindings :: "Binding list"

record DeviceListResponse =
  dlr_Devices :: "device list"
  dlr_Total :: int
  dlr_Page :: int
  dlr_PageSize :: int
  dlr_TotalPages :: int

record DeviceStatsResponse =
  dsr_Total :: int
  dsr_Active :: int
  dsr_Offline :: int
  dsr_Pending :: int
  dsr_Disabled :: int

record CommandResponse =
  cmd_Success :: bool
  cmd_Message :: string

text \<open>A Go function that returns a count and an error, both of which the caller sees.\<close>

type_synonym 's counted = "'s \<Rightarrow> (int \<times> go_error option) \<times> 's"

record 's device_service =
  dvs_Create :: "CreateDeviceRequest \<Rightarrow> (device, 's) io"
  dvs_GetByID :: "GetDeviceRequest \<Rightarrow> (device, 's) io"
  dvs_List :: "ListDevicesRequest \<Rightarrow> (DeviceListResponse, 's) io"
  dvs_UpdateName :: "UpdateDeviceNameRequest \<Rightarrow> (device, 's) io"
  dvs_Bind :: "BindDeviceRequest \<Rightarrow> (device, 's) io"
  dvs_Unbind :: "UnbindDeviceRequest \<Rightarrow> (device, 's) io"
  dvs_Disable :: "ChangeDeviceStatusRequest \<Rightarrow> (device, 's) io"
  dvs_Enable :: "ChangeDeviceStatusRequest \<Rightarrow> (device, 's) io"
  dvs_Delete :: "DeleteDeviceRequest \<Rightarrow> (unit, 's) io"
  dvs_BatchDisable :: "BatchChangeDeviceStatusRequest \<Rightarrow> 's counted"
  dvs_BatchEnable :: "BatchChangeDeviceStatusRequest \<Rightarrow> 's counted"
  dvs_BatchDelete :: "BatchDeleteDeviceRequest \<Rightarrow> 's counted"
  dvs_BatchBind :: "BatchBindDeviceRequest \<Rightarrow> 's counted"
  dvs_GetStats :: "string \<Rightarrow> (DeviceStatsResponse, 's) io"
  dvs_SendCommand :: "string \<Rightarrow> string \<Rightarrow> string \<Rightarrow> (CommandResponse, 's) io"

definition deviceService_Create ::
  "'s go_env \<Rightarrow> 's device_txrepo \<Rightarrow> CreateDeviceRequest \<Rightarrow> (device, 's) io" where
  "deviceService_Create env repo req =
     bind_io (NewDevice env (cdr_ID req) (cdr_Name req) (cdr_Type req) (cdr_FirmwareVersion req)) (\<lambda>d.
     let d = d\<lparr>dv_TenantID := cdr_TenantID req\<rparr>
     in bind_io (drp_Create repo d) (\<lambda>_. return_io d))"

definition deviceService_GetByID ::
  "'s device_txrepo \<Rightarrow> GetDeviceRequest \<Rightarrow> (device, 's) io" where
  "deviceService_GetByID repo req = drp_GetByID repo (gdr_TenantID req) (gdr_ID req)"

definition deviceService_List ::
  "'s device_txrepo \<Rightarrow> ListDevicesRequest \<Rightarrow> (DeviceListResponse, 's) io" where
  "deviceService_List repo req =
     (let page = normal_page (ldr_Page req);
          pageSize = normal_pageSize (ldr_PageSize req);
          dfilter = \<lparr>df_TenantID = ldr_TenantID req, df_Status = ldr_Status req,
                     df_ParkingLotID = ldr_ParkingLotID req, df_Keyword = ldr_Keyword req\<rparr>
      in bind_io (drp_List repo dfilter page pageSize) (\<lambda>(devices, n).
         return_io \<lparr>dlr_Devices = devices, dlr_Total = n, dlr_Page = page,
                    dlr_PageSize = pageSize, dlr_TotalPages = total_pages n pageSize\<rparr>))"

definition deviceService_UpdateName ::
  "'s go_env \<Rightarrow> 's device_txrepo \<Rightarrow> UpdateDeviceNameRequest \<Rightarrow> (device, 's) io" where
  "deviceService_UpdateName env repo req =
     bind_io (drp_GetByID repo (udr_TenantID req) (udr_ID req)) (\<lambda>d.
     bind_io (Device_UpdateName env (udr_Name req) d) (\<lambda>d.
     bind_io (drp_Update repo d) (\<lambda>_. return_io d)))"

definition deviceService_Bind ::
  "'s go_env \<Rightarrow> 's device_txrepo \<Rightarrow> BindDeviceRequest \<Rightarrow> (device, 's) io" where
  "deviceService_Bind env repo req =
     bind_io (drp_GetByID repo (bdr_TenantID req) (bdr_ID req)) (\<lambda>d.
     let d = d\<lparr>dv_TenantID := bdr_TenantID req\<rparr> in
     bind_io (Device_Bind env (bdr_ParkingLotID req) (bdr_GateID req) d) (\<lambda>d.
     bind_io (drp_Update repo d) (\<lambda>_. return_io d)))"

definition deviceService_Unbind ::
  "'s go_env \<Rightarrow> 's device_txrepo \<Rightarrow> UnbindDeviceRequest \<Rightarrow> (device, 's) io" where
  "deviceService_Unbind env repo req =
     bind_io (drp_GetByID repo (ubr_TenantID req) (ubr_ID req)) (\<lambda>d.
     bind_io (Device_Unbind env d) (\<lambda>d.
     bind_io (drp_Update repo d) (\<lambda>_. return_io d)))"

definition deviceService_Disable ::
  "'s go_env \<Rightarrow> 's device_txrepo \<Rightarrow> ChangeDeviceStatusRequest \<Rightarrow> (device, 's) io" where
  "deviceService_Disable env repo req =
     bind_io (drp_GetByID repo (cds_TenantID req) (cds_ID req)) (\<lambda>d.
     bind_io (Device_Disable env d) (\<lambda>d.
     bind_io (drp_Update repo d) (\<lambda>_. return_io d)))"

definition deviceService_Enable ::
  "'s go_env \<Rightarrow> 's device_txrepo \<Rightarrow> ChangeDeviceStatusRequest \<Rightarrow> (device, 's) io" where
  "deviceService_Enable env repo req =
     bind_io (drp_GetByID repo (cds_TenantID req) (cds_ID req)) (\<lambda>d.
     bind_io (Device_Enable env d) (\<lambda>d.
     bind_io (drp_Update repo d) (\<lambda>_. return_io d)))"

definition deviceService_Delete ::
  "'s device_txrepo \<Rightarrow> DeleteDeviceRequest \<Rightarrow> (unit, 's) io" where
  "deviceService_Delete repo req =
     bind_io (drp_GetByID repo (ddr_TenantID req) (ddr_ID req)) (\<lambda>d.
     if Device_IsBound d then fail_io (iot ErrDeviceMustUnbind)
     else drp_Delete repo (ddr_TenantID req) (ddr_ID req))"

text \<open>
  \<open>affected++\<close> on the captured variable, and the frame of the four batch operations:
  \<open>var affected int64; err := s.repo.Transaction(ctx, fn); return affected, err\<close>.
\<close>

definition affected_incr :: "(unit, 's \<times> int) io" where
  "affected_incr = (\<lambda>(s, n). (Inr (), (s, i64 (n + 1))))"

definition in_transaction ::
  "'s device_txrepo \<Rightarrow> ('s device_repo \<Rightarrow> (unit, 's \<times> int) io) \<Rightarrow> 's counted" where
  "in_transaction repo fn = (\<lambda>s.
     case drp_Transaction repo fn (s, 0) of
       (Inr _, (s', affected)) \<Rightarrow> ((affected, None), s')
     | (Inl err, (s', affected)) \<Rightarrow> ((affected, Some err), s'))"

definition deviceService_BatchDisable ::
  "'s go_env \<Rightarrow> 's device_txrepo \<Rightarrow> BatchChangeDeviceStatusRequest \<Rightarrow> 's counted" where
  "deviceService_BatchDisable env repo req =
     in_transaction repo (\<lambda>txRepo. for_io (\<lambda>did.
       bind_io (on_fst
         (bind_io (drp_GetByID txRepo (bcs_TenantID req) did) (\<lambda>d.
          bind_io (Device_Disable env d) (\<lambda>d. drp_Update txRepo d))))
         (\<lambda>_. affected_incr)) (bcs_IDs req))"

definition deviceService_BatchEnable ::
  "'s go_env \<Rightarrow> 's device_txrepo \<Rightarrow> BatchChangeDeviceStatusRequest \<Rightarrow> 's counted" where
  "deviceService_BatchEnable env repo req =
     in_transaction repo (\<lambda>txRepo. for_io (\<lambda>did.
       bind_io (on_fst
         (bind_io (drp_GetByID txRepo (bcs_TenantID req) did) (\<lambda>d.
          bind_io (Device_Enable env d) (\<lambda>d. drp_Update txRepo d))))
         (\<lambda>_. affected_incr)) (bcs_IDs req))"

definition deviceService_BatchDelete ::
  "'s device_txrepo \<Rightarrow> BatchDeleteDeviceRequest \<Rightarrow> 's counted" where
  "deviceService_BatchDelete repo req =
     in_transaction repo (\<lambda>txRepo. for_io (\<lambda>did.
       bind_io (on_fst
         (bind_io (drp_GetByID txRepo (bdd_TenantID req) did) (\<lambda>d.
          if Device_IsBound d then fail_io (iot ErrDeviceMustUnbind)
          else drp_Delete txRepo (bdd_TenantID req) did)))
         (\<lambda>_. affected_incr)) (bdd_IDs req))"

text \<open>The first loop of \<open>BatchBind\<close> loads and binds every device, the second saves them.\<close>

fun batchBind_load ::
  "'s go_env \<Rightarrow> 's device_repo \<Rightarrow> string \<Rightarrow> Binding list \<Rightarrow> (device list, 's) io" where
  "batchBind_load env txRepo tenantID [] = return_io []"
| "batchBind_load env txRepo tenantID (b # bs) =
     bind_io (drp_GetByID txRepo tenantID (bn_ID b)) (\<lambda>d.
     bind_io (Device_Bind env (bn_ParkingLotID b) (bn_GateID b) (d\<lparr>dv_TenantID := tenantID\<rparr>)) (\<lambda>d.
     bind_io (batchBind_load env txRepo tenantID bs) (\<lambda>devices. return_io (d # devices))))"

definition deviceService_BatchBind ::
  "'s go_env \<Rightarrow> 's device_txrepo \<Rightarrow> BatchBindDeviceRequest \<Rightarrow> 's counted" where
  "deviceService_BatchBind env repo req =
     in_transaction repo (\<lambda>txRepo.
       bind_io (on_fst (batchBind_load env txRepo (bbd_TenantID req) (bbd_Bindings req)))
         (for_io (\<lambda>d. bind_io (on_fst (drp_Update txRepo d)) (\<lambda>_. affected_incr))))"

definition deviceService_GetStats ::
  "'s device_txrepo \<Rightarrow> string \<Rightarrow> (DeviceStatsResponse, 's) io" where
  "deviceService_GetStats repo tenantID =
     bind_io (drp_CountByStatus repo tenantID) (\<lambda>(pending, active, offline, disabled).
     return_io \<lparr>dsr_Total = i64 (i64 (i64 (pending + active) + offline) + disabled),
                dsr_Active = active, dsr_Offline = offline, dsr_Pending = pending,
                dsr_Disabled = disabled\<rparr>)"

definition device_msg_up :: string where
  "device_msg_up = utf8
     [0xE6, 0x8A, 0xAC, 0xE6, 0x9D, 0x86, 0xE6, 0x8C, 0x87, 0xE4, 0xBB, 0xA4, 0xE5, 0xB7,
      0xB2, 0xE5, 0x8F, 0x91, 0xE9, 0x80, 0x81]"

definition device_msg_down :: string where
  "device_msg_down = utf8
     [0xE8, 0x90, 0xBD, 0xE6, 0x9D, 0x86, 0xE6, 0x8C, 0x87, 0xE4, 0xBB, 0xA4, 0xE5, 0xB7,
      0xB2, 0xE5, 0x8F, 0x91, 0xE9, 0x80, 0x81]"

definition deviceService_SendCommand ::
  "'s device_txrepo \<Rightarrow> string \<Rightarrow> string \<Rightarrow> string \<Rightarrow> (CommandResponse, 's) io" where
  "deviceService_SendCommand repo tenantID deviceID action =
     (if action \<noteq> ''up'' \<and> action \<noteq> ''down'' then fail_io (iot ErrInvalidCommand)
      else bind_io (drp_GetByID repo tenantID deviceID) (\<lambda>d.
        if dv_Status d = DeviceStatusOffline \<or> dv_Status d = DeviceStatusDisabled
        then fail_io (iot ErrDeviceOffline)
        else return_io \<lparr>cmd_Success = True,
               cmd_Message = (if action = ''down'' then device_msg_down else device_msg_up)\<rparr>))"

definition NewDeviceService :: "'s go_env \<Rightarrow> 's device_txrepo \<Rightarrow> 's device_service" where
  "NewDeviceService env repo =
     \<lparr>dvs_Create = deviceService_Create env repo, dvs_GetByID = deviceService_GetByID repo,
      dvs_List = deviceService_List repo, dvs_UpdateName = deviceService_UpdateName env repo,
      dvs_Bind = deviceService_Bind env repo, dvs_Unbind = deviceService_Unbind env repo,
      dvs_Disable = deviceService_Disable env repo, dvs_Enable = deviceService_Enable env repo,
      dvs_Delete = deviceService_Delete repo,
      dvs_BatchDisable = deviceService_BatchDisable env repo,
      dvs_BatchEnable = deviceService_BatchEnable env repo,
      dvs_BatchDelete = deviceService_BatchDelete repo,
      dvs_BatchBind = deviceService_BatchBind env repo,
      dvs_GetStats = deviceService_GetStats repo,
      dvs_SendCommand = deviceService_SendCommand repo\<rparr>"

section \<open>gRPC server\<close>

datatype pb_DeviceType =
    DEVICE_TYPE_UNSPECIFIED | DEVICE_TYPE_INTEGRATED | DEVICE_TYPE_CAMERA_ONLY
  | DEVICE_TYPE_BARRIER_ONLY | DEVICE_TYPE_unrecognized int

datatype pb_DeviceStatus =
    DEVICE_STATUS_UNSPECIFIED | DEVICE_STATUS_PENDING | DEVICE_STATUS_ACTIVE
  | DEVICE_STATUS_OFFLINE | DEVICE_STATUS_DISABLED | DEVICE_STATUS_unrecognized int

record pb_Device =
  pd_Id :: string
  pd_TenantId :: string
  pd_Name :: string
  pd_Type :: pb_DeviceType
  pd_Status :: pb_DeviceStatus
  pd_FirmwareVersion :: string
  pd_LastHeartbeat :: "Timestamp option"
  pd_ParkingLotId :: "string option"
  pd_GateId :: "string option"
  pd_CreatedAt :: "Timestamp option"
  pd_UpdatedAt :: "Timestamp option"

record pb_CreateDeviceRequest =
  pcd_Id :: string
  pcd_Name :: string
  pcd_Type :: pb_DeviceType
  pcd_FirmwareVersion :: string

record pb_ListDevicesRequest =
  pld_Status :: pb_DeviceStatus
  pld_ParkingLotId :: string
  pld_Keyword :: string
  pld_Pagination :: "PaginationRequest option"

record pb_ListDevicesResponse =
  pld_Devices :: "pb_Device list"
  pld_PaginationResponse :: PaginationResponse

record pb_UpdateDeviceNameRequest =
  pud_Id :: string
  pud_Name :: string

record pb_BindDeviceRequest =
  pbd_Id :: string
  pbd_ParkingLotId :: string
  pbd_GateId :: string

record pb_SendDeviceCommandRequest =
  psd_Id :: string
  psd_Action :: string

definition deviceErrorMappings :: "ErrorMapping list" where
  "deviceErrorMappings =
     [\<lparr>em_Target = IotErr ErrDeviceNotFound, em_Code = NotFound\<rparr>,
      \<lparr>em_Target = IotErr ErrDeviceIDDuplicate, em_Code = AlreadyExists\<rparr>,
      \<lparr>em_Target = IotErr ErrDeviceNotBound, em_Code = FailedPrecondition\<rparr>,
      \<lparr>em_Target = IotErr ErrDeviceMustUnbind, em_Code = FailedPrecondition\<rparr>,
      \<lparr>em_Target = IotErr ErrDeviceOffline, em_Code = FailedPrecondition\<rparr>,
      \<lparr>em_Target = IotErr ErrInvalidCommand, em_Code = InvalidArgument\<rparr>]"

definition toDeviceGRPCError :: "go_error \<Rightarrow> go_error" where
  "toDeviceGRPCError err = ToGRPCError err deviceErrorMappings"

definition deviceTypeToProto :: "string \<Rightarrow> pb_DeviceType" where
  "deviceTypeToProto dt =
     (if dt = DeviceTypeIntegrated then DEVICE_TYPE_INTEGRATED
      else if dt = DeviceTypeCameraOnly then DEVICE_TYPE_CAMERA_ONLY
      else if dt = DeviceTypeBarrierOnly then DEVICE_TYPE_BARRIER_ONLY
      else DEVICE_TYPE_UNSPECIFIED)"

fun deviceTypeFromProto :: "pb_DeviceType \<Rightarrow> string" where
  "deviceTypeFromProto DEVICE_TYPE_INTEGRATED = DeviceTypeIntegrated"
| "deviceTypeFromProto DEVICE_TYPE_CAMERA_ONLY = DeviceTypeCameraOnly"
| "deviceTypeFromProto DEVICE_TYPE_BARRIER_ONLY = DeviceTypeBarrierOnly"
| "deviceTypeFromProto _ = []"

definition deviceStatusToProto :: "string \<Rightarrow> pb_DeviceStatus" where
  "deviceStatusToProto s =
     (if s = DeviceStatusPending then DEVICE_STATUS_PENDING
      else if s = DeviceStatusActive then DEVICE_STATUS_ACTIVE
      else if s = DeviceStatusOffline then DEVICE_STATUS_OFFLINE
      else if s = DeviceStatusDisabled then DEVICE_STATUS_DISABLED
      else DEVICE_STATUS_UNSPECIFIED)"

fun deviceStatusFromProto :: "pb_DeviceStatus \<Rightarrow> string" where
  "deviceStatusFromProto DEVICE_STATUS_PENDING = DeviceStatusPending"
| "deviceStatusFromProto DEVICE_STATUS_ACTIVE = DeviceStatusActive"
| "deviceStatusFromProto DEVICE_STATUS_OFFLINE = DeviceStatusOffline"
| "deviceStatusFromProto DEVICE_STATUS_DISABLED = DeviceStatusDisabled"
| "deviceStatusFromProto _ = []"

text \<open>\<open>timeToProto\<close>: nil for the zero time, \<open>timestamppb.New\<close> otherwise.\<close>

definition timeToProto :: "int \<Rightarrow> Timestamp option" where
  "timeToProto t =
     (if time_IsZero t then None
      else Some \<lparr>ts_Seconds = t div time_second, ts_Nanos = t mod time_second\<rparr>)"

definition toProtoDevice :: "device \<Rightarrow> pb_Device" where
  "toProtoDevice d =
     \<lparr>pd_Id = dv_ID d, pd_TenantId = dv_TenantID d, pd_Name = dv_Name d,
      pd_Type = deviceTypeToProto (dv_Type d), pd_Status = deviceStatusToProto (dv_Status d),
      pd_FirmwareVersion = dv_FirmwareVersion d,
      pd_LastHeartbeat = (case dv_LastHeartbeat d of None \<Rightarrow> None | Some t \<Rightarrow> timeToProto t),
      pd_ParkingLotId = dv_ParkingLotID d, pd_GateId = dv_GateID d,
      pd_CreatedAt = timeToProto (dv_CreatedAt d), pd_UpdatedAt = timeToProto (dv_UpdatedAt d)\<rparr>"

definition extractTenantID :: "go_ctx \<Rightarrow> go_error + string" where
  "extractTenantID ctx =
     (let tid = TenantID ctx
      in if tid = [] then Inl (StatusErr Unauthenticated ''missing x-tenant-id'') else Inr tid)"

text \<open>The two checks most handlers begin with.\<close>

definition with_tenant :: "go_ctx \<Rightarrow> (string \<Rightarrow> ('a, 's) io) \<Rightarrow> ('a, 's) io" where
  "with_tenant ctx f = bind_io (lift_io (extractTenantID ctx)) f"

definition require_id :: "string \<Rightarrow> ('a, 's) io \<Rightarrow> ('a, 's) io" where
  "require_id did m =
     (if did = [] then fail_io (StatusErr InvalidArgument ''device id is required'') else m)"

definition counted_reply :: "'s counted \<Rightarrow> (int, 's) io" where
  "counted_reply m = (\<lambda>s. case m s of
       ((affected, Some err), s') \<Rightarrow> (Inl (toDeviceGRPCError err), s')
     | ((affected, None), s') \<Rightarrow> (Inr (i32 affected), s'))"

definition DeviceGRPCServer_CreateDevice ::
  "'s device_service \<Rightarrow> go_ctx \<Rightarrow> pb_CreateDeviceRequest \<Rightarrow> (pb_Device, 's) io" where
  "DeviceGRPCServer_CreateDevice svc ctx req =
     with_tenant ctx (\<lambda>tenantID. require_id (pcd_Id req)
       (if pcd_Type req = DEVICE_TYPE_UNSPECIFIED
        then fail_io (StatusErr InvalidArgument ''device type is required'')
        else grpc_reply toDeviceGRPCError (dvs_Create svc
          \<lparr>cdr_TenantID = tenantID, cdr_ID = pcd_Id req, cdr_Name = pcd_Name req,
           cdr_Type = deviceTypeFromProto (pcd_Type req),
           cdr_FirmwareVersion = pcd_FirmwareVersion req\<rparr>) toProtoDevice))"

definition DeviceGRPCServer_GetDevice ::
  "'s device_service \<Rightarrow> go_ctx \<Rightarrow> string \<Rightarrow> (pb_Device, 's) io" where
  "DeviceGRPCServer_GetDevice svc ctx did =
     with_tenant ctx (\<lambda>tenantID. require_id did
       (grpc_reply toDeviceGRPCError
          (dvs_GetByID svc \<lparr>gdr_TenantID = tenantID, gdr_ID = did\<rparr>) toProtoDevice))"

definition DeviceGRPCServer_ListDevices ::
  "'s device_service \<Rightarrow> go_ctx \<Rightarrow> pb_ListDevicesRequest \<Rightarrow> (pb_ListDevicesResponse, 's) io" where
  "DeviceGRPCServer_ListDevices svc ctx req =
     with_tenant ctx (\<lambda>tenantID.
       case pagination_or_default (pld_Pagination req) of (page, pageSize) \<Rightarrow>
       grpc_reply toDeviceGRPCError (dvs_List svc
         \<lparr>ldr_TenantID = tenantID, ldr_Status = deviceStatusFromProto (pld_Status req),
          ldr_ParkingLotID = pld_ParkingLotId req, ldr_Keyword = pld_Keyword req,
          ldr_Page = page, ldr_PageSize = pageSize\<rparr>)
         (\<lambda>resp. \<lparr>pld_Devices = map toProtoDevice (dlr_Devices resp),
                  pld_PaginationResponse =
                    \<lparr>pr_Page = i32 (dlr_Page resp), pr_PageSize = i32 (dlr_PageSize resp),
                     pr_Total = dlr_Total resp, pr_TotalPages = i32 (dlr_TotalPages resp)\<rparr>\<rparr>))"

definition DeviceGRPCServer_UpdateDeviceName ::
  "'s device_service \<Rightarrow> go_ctx \<Rightarrow> pb_UpdateDeviceNameRequest \<Rightarrow> (pb_Device, 's) io" where
  "DeviceGRPCServer_UpdateDeviceName svc ctx req =
     with_tenant ctx (\<lambda>tenantID. require_id (pud_Id req)
       (grpc_reply toDeviceGRPCError (dvs_UpdateName svc
          \<lparr>udr_TenantID = tenantID, udr_ID = pud_Id req, udr_Name = pud_Name req\<rparr>) toProtoDevice))"

definition DeviceGRPCServer_BindDevice ::
  "'s device_service \<Rightarrow> go_ctx \<Rightarrow> pb_BindDeviceRequest \<Rightarrow> (pb_Device, 's) io" where
  "DeviceGRPCServer_BindDevice svc ctx req =
     with_tenant ctx (\<lambda>tenantID. require_id (pbd_Id req)
       (grpc_reply toDeviceGRPCError (dvs_Bind svc
          \<lparr>bdr_TenantID = tenantID, bdr_ID = pbd_Id req,
           bdr_ParkingLotID = pbd_ParkingLotId req, bdr_GateID = pbd_GateId req\<rparr>) toProtoDevice))"

definition DeviceGRPCServer_UnbindDevice ::
  "'s device_service \<Rightarrow> go_ctx \<Rightarrow> string \<Rightarrow> (pb_Device, 's) io" where
  "DeviceGRPCServer_UnbindDevice svc ctx did =
     with_tenant ctx (\<lambda>tenantID. require_id did
       (grpc_reply toDeviceGRPCError
          (dvs_Unbind svc \<lparr>ubr_TenantID = tenantID, ubr_ID = did\<rparr>) toProtoDevice))"

definition DeviceGRPCServer_DisableDevice ::
  "'s device_service \<Rightarrow> go_ctx \<Rightarrow> string \<Rightarrow> (pb_Device, 's) io" where
  "DeviceGRPCServer_DisableDevice svc ctx did =
     with_tenant ctx (\<lambda>tenantID. require_id did
       (grpc_reply toDeviceGRPCError
          (dvs_Disable svc \<lparr>cds_TenantID = tenantID, cds_ID = did\<rparr>) toProtoDevice))"

definition DeviceGRPCServer_EnableDevice ::
  "'s device_service \<Rightarrow> go_ctx \<Rightarrow> string \<Rightarrow> (pb_Device, 's) io" where
  "DeviceGRPCServer_EnableDevice svc ctx did =
     with_tenant ctx (\<lambda>tenantID. require_id did
       (grpc_reply toDeviceGRPCError
          (dvs_Enable svc \<lparr>cds_TenantID = tenantID, cds_ID = did\<rparr>) toProtoDevice))"

definition DeviceGRPCServer_DeleteDevice ::
  "'s device_service \<Rightarrow> go_ctx \<Rightarrow> string \<Rightarrow> (unit, 's) io" where
  "DeviceGRPCServer_DeleteDevice svc ctx did =
     with_tenant ctx (\<lambda>tenantID. require_id did
       (grpc_reply toDeviceGRPCError
          (dvs_Delete svc \<lparr>ddr_TenantID = tenantID, ddr_ID = did\<rparr>) (\<lambda>_. ())))"

definition DeviceGRPCServer_BatchDisableDevices ::
  "'s device_service \<Rightarrow> go_ctx \<Rightarrow> string list \<Rightarrow> (int, 's) io" where
  "DeviceGRPCServer_BatchDisableDevices svc ctx ids =
     with_tenant ctx (\<lambda>tenantID.
       counted_reply (dvs_BatchDisable svc \<lparr>bcs_TenantID = tenantID, bcs_IDs = ids\<rparr>))"

definition DeviceGRPCServer_BatchEnableDevices ::
  "'s device_service \<Rightarrow> go_ctx \<Rightarrow> string list \<Rightarrow> (int, 's) io" where
  "DeviceGRPCServer_BatchEnableDevices svc ctx ids =
     with_tenant ctx (\<lambda>tenantID.
       counted_reply (dvs_BatchEnable svc \<lparr>bcs_TenantID = tenantID, bcs_IDs = ids\<rparr>))"

definition DeviceGRPCServer_BatchDeleteDevices ::
  "'s device_service \<Rightarrow> go_ctx \<Rightarrow> string list \<Rightarrow> (int, 's) io" where
  "DeviceGRPCServer_BatchDeleteDevices svc ctx ids =
     with_tenant ctx (\<lambda>tenantID.
       counted_reply (dvs_BatchDelete svc \<lparr>bdd_TenantID = tenantID, bdd_IDs = ids\<rparr>))"

definition DeviceGRPCServer_BatchBindDevices ::
  "'s device_service \<Rightarrow> go_ctx \<Rightarrow> pb_BindDeviceRequest list \<Rightarrow> (int, 's) io" where
  "DeviceGRPCServer_BatchBindDevices svc ctx bindings =
     with_tenant ctx (\<lambda>tenantID.
       counted_reply (dvs_BatchBind svc
         \<lparr>bbd_TenantID = tenantID,
          bbd_Bindings = map (\<lambda>b. \<lparr>bn_ID = pbd_Id b, bn_ParkingLotID = pbd_ParkingLotId b,
                                   bn_GateID = pbd_GateId b\<rparr>) bindings\<rparr>))"

definition DeviceGRPCServer_GetDeviceStats ::
  "'s device_service \<Rightarrow> go_ctx \<Rightarrow> (DeviceStatsResponse, 's) io" where
  "DeviceGRPCServer_GetDeviceStats svc ctx =
     with_tenant ctx (\<lambda>tenantID.
       grpc_reply toDeviceGRPCError (dvs_GetStats svc tenantID)
         (\<lambda>stats. \<lparr>dsr_Total = dsr_Total stats, dsr_Active = dsr_Active stats,
                   dsr_Offline = dsr_Offline stats, dsr_Pending = dsr_Pending stats,
                   dsr_Disabled = dsr_Disabled stats\<rparr>))"

definition DeviceGRPCServer_SendDeviceCommand ::
  "'s device_service \<Rightarrow> go_ctx \<Rightarrow> pb_SendDeviceCommandRequest \<Rightarrow> (CommandResponse, 's) io" where
  "DeviceGRPCServer_SendDeviceCommand svc ctx req =
     with_tenant ctx (\<lambda>tenantID.
       grpc_reply toDeviceGRPCError (dvs_SendCommand svc tenantID (psd_Id req) (psd_Action req))
         (\<lambda>resp. \<lparr>cmd_Success = cmd_Success resp, cmd_Message = cmd_Message resp\<rparr>))"

text \<open>\<open>RegisterServices\<close>: the service over the repository over the DAO on the same handle.\<close>

definition device_server :: "'s go_env \<Rightarrow> 's device_gorm \<Rightarrow> 's gorm_tx \<Rightarrow> 's device_service" where
  "device_server env db tx = NewDeviceService env (NewDeviceRepo (NewDeviceDAO db) tx)"

end
