(* ===== verification/Device_Correct.thy ===== *)
theory Device_Correct
  imports Device_Service Scoped_Store
begin

text \<open>
  The device service on the GORM table: one load-change-save step, the loops of the batch
  operations inside a transaction, and the invariant that every RPC keeps (valid devices, and
  the rows of the other tenants as they were).
\<close>

section \<open>The repository as a store\<close>

abbreviation deviceDAO_of :: "'s device_gorm \<Rightarrow> 's device_dao" where
  "deviceDAO_of \<equiv> NewDeviceDAO"

abbreviation get_device_io :: "'s device_gorm \<Rightarrow> string \<times> string \<Rightarrow> (device, 's) io" where
  "get_device_io db k \<equiv> deviceRepo_GetByID (NewDeviceDAO db) (fst k) (snd k)"

lemma device_get_eq:
  "get_device_io db =
     (\<lambda>k. bind_io (first_or db (case k of (tid, did) \<Rightarrow> device_q tid did) (iot ErrDeviceNotFound))
            (\<lambda>r. return_io (toDomainDevice r)))"
  by (rule ext) (simp add: device_store_defs split: prod.split)

lemma device_upd_eq:
  "deviceRepo_Update (NewDeviceDAO db) =
     (\<lambda>e. affected_or (g_Updates db (Select device_columns
            (case device_key (toDAODevice e) of (tid, did) \<Rightarrow> device_q tid did)) (toDAODevice e))
            (iot ErrDeviceNotFound))"
  by (rule ext) (simp add: device_store_defs device_key_def)

lemma device_crt_eq:
  "deviceRepo_Create (NewDeviceDAO db) =
     (\<lambda>e. create_or db [''duplicate'', ''UNIQUE'', ''Duplicate''] (iot ErrDeviceIDDuplicate)
            (toDAODevice e))"
  by (rule ext) (simp add: device_store_defs)

lemma device_del_eq:
  "(\<lambda>k. deviceRepo_Delete (NewDeviceDAO db) (fst k) (snd k)) =
     (\<lambda>k. affected_or (g_Delete db (case k of (tid, did) \<Rightarrow> device_q tid did))
            (iot ErrDeviceNotFound))"
  by (rule ext) (simp add: device_store_defs split: prod.split)

lemma time_UnixMilli_to_millis [simp]: "to_millis (time_UnixMilli t) = time_UnixMilli t"
  by (simp add: to_millis_def)

lemma device_at_millis:
  "device_at rows s k = Some d \<Longrightarrow> map_option to_millis (dv_LastHeartbeat d) = dv_LastHeartbeat d"
  by (auto simp: entity_at_def toDomainDevice_def option.map_comp comp_def intro: option.map_cong)

lemma device_overlay_kept:
  assumes "map_option to_millis (dv_LastHeartbeat d) = dv_LastHeartbeat d"
    and "dv_LastHeartbeat e = dv_LastHeartbeat d" and "dv_ID e = dv_ID d"
    and "dv_TenantID e = dv_TenantID d" and "dv_CreatedAt e = dv_CreatedAt d"
  shows "device_overlay now e d = e\<lparr>dv_UpdatedAt := time_UnixMilli now\<rparr>"
  using assms by (cases d; cases e) (simp add: device_overlay_def)

context device_db
begin

lemma get_device:
  "devices_ok rows s \<Longrightarrow>
     deviceRepo_GetByID (NewDeviceDAO db) tid did s =
       (case device_at rows s (tid, did) of None \<Rightarrow> Inl (iot ErrDeviceNotFound) | Some d \<Rightarrow> Inr d, s)"
  using devices.store.get_found [of s "(tid, did)"] devices.store.get_missing [of s "(tid, did)"]
    fun_cong [OF fun_cong [OF device_get_eq], of db "(tid, did)"]
  by (auto split: option.split)

lemma device_at_key: "device_at rows s (tid, did) = Some d \<Longrightarrow> dv_TenantID d = tid \<and> dv_ID d = did"
  using devices.store.found_key [of s "(tid, did)" d] by (simp add: device_key_def toDAODevice_def)

lemma device_row_fits:
  assumes "devices_ok rows s" and "device_at rows s (tid, did) = Some d"
    and "dv_TenantID e = tid" and "dv_ID e = did"
  shows "row_fits device_clash rows device_key (device_assign (now s) device_columns) s (toDAODevice e)"
proof -
  have k: "device_key (toDAODevice e) = (tid, did)" using assms by (simp add: device_key_def toDAODevice_def)
  obtain r where r: "row_at rows device_key s (device_key (toDAODevice e)) = Some r"
    using assms(2) unfolding k by (auto simp: entity_at_def)
  show ?thesis
    by (rule devices.fits_same_index [OF assms(1) r]) (simp_all add: device_clash_def device_assign_def)
qed

text \<open>Save a changed copy of a stored device.\<close>

lemma save_device:
  assumes ok: "devices_ok rows s" and d: "device_at rows s (tid, did) = Some d"
    and kept: "dv_LastHeartbeat e = dv_LastHeartbeat d" "dv_ID e = dv_ID d"
      "dv_TenantID e = dv_TenantID d" "dv_CreatedAt e = dv_CreatedAt d"
    and ne: "\<And>u. e\<lparr>dv_UpdatedAt := u\<rparr> \<noteq> d"
  shows "\<exists>s'. deviceRepo_Update (NewDeviceDAO db) e s = (Inr (), s') \<and> devices_ok rows s' \<and>
           device_at rows s' =
             (device_at rows s)((tid, did) \<mapsto> e\<lparr>dv_UpdatedAt := time_UnixMilli (now s)\<rparr>)"
proof -
  have key: "dv_TenantID e = tid" "dv_ID e = did" using device_at_key [OF d] kept by simp_all
  have k: "device_key (toDAODevice e) = (tid, did)" using key by (simp add: device_key_def toDAODevice_def)
  have o: "device_overlay (now s) e d = e\<lparr>dv_UpdatedAt := time_UnixMilli (now s)\<rparr>"
    by (rule device_overlay_kept [OF device_at_millis [OF d] kept])
  show ?thesis
    using devices.store.upd_found [of s e d] ok d device_row_fits [OF ok d key] ne
    by (simp add: o device_upd_eq k)
qed

text \<open>
  One device loaded, changed by \<open>f\<close> at the time of the clock, and saved: what single and
  batch operations share.
\<close>

lemma change_device:
  assumes world: "go_world env rows" and ok: "devices_ok rows s"
    and d: "device_at rows s (tid, did) = Some d"
    and change: "change d = device_touch env (f d)"
    and kept: "dv_LastHeartbeat (f d) = dv_LastHeartbeat d" "dv_ID (f d) = dv_ID d"
      "dv_TenantID (f d) = dv_TenantID d" "dv_CreatedAt (f d) = dv_CreatedAt d"
    and ne: "\<And>u. (f d)\<lparr>dv_UpdatedAt := u\<rparr> \<noteq> d"
  shows "\<exists>t u s'. \<forall>k.
           bind_io (deviceRepo_GetByID (NewDeviceDAO db) tid did) (\<lambda>d.
           bind_io (change d) (\<lambda>e. bind_io (deviceRepo_Update (NewDeviceDAO db) e) ((k :: device \<Rightarrow> unit \<Rightarrow> ('x, 's) io) e))) s =
             k ((f d)\<lparr>dv_UpdatedAt := t\<rparr>) () s' \<and>
           devices_ok rows s' \<and>
           device_at rows s' = (device_at rows s)((tid, did) \<mapsto> (f d)\<lparr>dv_UpdatedAt := u\<rparr>)"
proof -
  obtain t s1 where t: "time_Now env s = (t, s1)" by fastforce
  have same: "rows s1 = rows s" using go_world.clock_rows [OF world, of s] t by simp
  then have at: "device_at rows s1 = device_at rows s" "devices_ok rows s1"
    using ok by (simp_all add: entity_at_def row_at_def table_intact_def fun_eq_iff)
  let ?e = "(f d)\<lparr>dv_UpdatedAt := t\<rparr>"
  obtain s' where s': "deviceRepo_Update (NewDeviceDAO db) ?e s1 = (Inr (), s')" "devices_ok rows s'"
      "device_at rows s' = (device_at rows s)((tid, did) \<mapsto> ?e\<lparr>dv_UpdatedAt := time_UnixMilli (now s1)\<rparr>)"
    using save_device [of s1 tid did d ?e] d kept ne unfolding at(1) using at(2) by auto
  have "bind_io (deviceRepo_GetByID (NewDeviceDAO db) tid did) (\<lambda>d.
          bind_io (change d) (\<lambda>e. bind_io (deviceRepo_Update (NewDeviceDAO db) e) (k e))) s =
        k ?e () s'" for k :: "device \<Rightarrow> unit \<Rightarrow> ('x, 's) io"
    using get_device [OF ok, of tid did] d change s'(1)
    by (simp add: bind_io_run device_touch_def ask_io_run t)
  with s' show ?thesis by (intro exI [of _ t] exI [of _ "time_UnixMilli (now s1)"] exI [of _ s']) simp
qed

lemma load_fails:
  assumes "devices_ok rows s" and "device_at rows s (tid, did) = None"
  shows "bind_io (deviceRepo_GetByID (NewDeviceDAO db) tid did) k s = (Inl (iot ErrDeviceNotFound), s)"
  using get_device [OF assms(1), of tid did] assms(2) by (simp add: bind_io_run)

lemma load_found:
  assumes "devices_ok rows s" and "device_at rows s (tid, did) = Some d"
  shows "bind_io (deviceRepo_GetByID (NewDeviceDAO db) tid did) k s = k d s"
  using get_device [OF assms(1), of tid did] assms(2) by (simp add: bind_io_run)

lemma delete_device:
  assumes "devices_ok rows s" and "device_at rows s (tid, did) \<noteq> None"
  shows "\<exists>s'. deviceRepo_Delete (NewDeviceDAO db) tid did s = (Inr (), s') \<and> devices_ok rows s' \<and>
           device_at rows s' = (device_at rows s)((tid, did) := None)"
  using devices.store.del_found [OF assms] fun_cong [OF device_del_eq, of db "(tid, did)"] by simp

end

section \<open>The invariant\<close>

text \<open>
  Valid devices, an intact primary key, and for a given tenant the rows of all others.
\<close>

definition device_row_valid :: "device_row \<Rightarrow> bool" where
  "device_row_valid r = device_valid (toDomainDevice r)"

definition device_table_valid :: "('s \<Rightarrow> device_row list) \<Rightarrow> 's \<Rightarrow> bool" where
  "device_table_valid rows s \<longleftrightarrow>
     devices_ok rows s \<and> (\<forall>r \<in> set (rows s). device_row_valid r)"

abbreviation device_inv :: "('s \<Rightarrow> device_row list) \<Rightarrow> string \<Rightarrow> device_row list \<Rightarrow> 's \<Rightarrow> bool" where
  "device_inv rows \<equiv> scope_inv device_clash rows dvr_TenantID device_row_valid"

sublocale device_db < own: scoped_entity db rows set_rows "device_holds like" device_clash now
  device_stamp device_assign device_assign_cols device_group device_order dup
  "\<lambda>(tid, did). device_q tid did" device_key toDomainDevice toDAODevice device_columns
  device_overlay "iot ErrDeviceNotFound" "[''duplicate'', ''UNIQUE'', ''Duplicate'']"
  "iot ErrDeviceIDDuplicate" dvr_TenantID device_row_valid
  by unfold_locales (simp_all add: device_stamp_def device_assign_def)

text \<open>No row outside a tenant has a key of the tenant.\<close>

lemma other_device_key:
  assumes "\<forall>r \<in> set others. dvr_TenantID r \<noteq> tid"
  shows "(tid, did) \<notin> device_key ` set others"
  using assms by (auto simp: device_key_def)

definition own_device :: "string \<Rightarrow> device \<Rightarrow> bool" where
  "own_device tid d \<longleftrightarrow> device_valid d \<and> dv_TenantID d = tid"

lemma touch_run: "device_touch env d s = (Inr (d\<lparr>dv_UpdatedAt := fst (time_Now env s)\<rparr>), snd (time_Now env s))"
  by (simp add: device_touch_def bind_io_run ask_io_run)

lemma touch_inv:
  assumes "go_world env rows" and "own_device tid d"
  shows "io_inv (device_inv rows tid others) (device_touch env d) (own_device tid)"
  using assms(2)
  by (intro scope_io_rows) (auto simp: go_world.clock_rows [OF assms(1)] touch_run own_device_def device_valid_def)

lemma device_changes_inv:
  assumes world: "go_world env rows" and own: "own_device tid d"
  shows "io_inv (device_inv rows tid others) (Device_Disable env d) (own_device tid)"
    and "io_inv (device_inv rows tid others) (Device_Enable env d) (own_device tid)"
    and "io_inv (device_inv rows tid others) (Device_Bind env lot gate d) (own_device tid)"
    and "io_inv (device_inv rows tid others) (Device_Unbind env d) (own_device tid)"
    and "io_inv (device_inv rows tid others) (Device_UpdateName env name d) (own_device tid)"
  unfolding Device_Disable_def Device_Enable_def Device_Bind_def Device_Unbind_def Device_UpdateName_def
  using own
  by (auto intro!: io_inv_if touch_inv [OF world] simp: own_device_def device_valid_def device_statuses_def)

context device_db
begin

lemma get_device_inv:
  "io_inv (device_inv rows tid others) (deviceRepo_GetByID (NewDeviceDAO db) tid did) (own_device tid)"
proof -
  have eq: "deviceRepo_GetByID (NewDeviceDAO db) tid did =
      bind_io (first_or db (case (tid, did) of (tid, did) \<Rightarrow> device_q tid did) (iot ErrDeviceNotFound))
        (\<lambda>r. return_io (toDomainDevice r))"
    by (rule ext) (simp add: device_store_defs)
  show ?thesis unfolding eq
    by (rule io_inv_weaken [OF own.get_inv])
      (auto simp: own_device_def device_row_valid_def device_key_def toDomainDevice_def)
qed

lemma update_device_inv:
  assumes "own_device tid d" and "\<forall>r \<in> set others. dvr_TenantID r \<noteq> tid"
  shows "io_inv (device_inv rows tid others) (deviceRepo_Update (NewDeviceDAO db) d) (\<lambda>_. True)"
  unfolding device_upd_eq
proof (rule own.update_inv)
  have "device_key (toDAODevice d) = (tid, dv_ID d)"
    using assms(1) by (simp add: own_device_def device_key_def toDAODevice_def)
  then show "device_key (toDAODevice d) \<notin> device_key ` set others"
    using other_device_key [OF assms(2)] by simp
  fix t r
  assume "device_row_valid r"
  then show "device_row_valid (device_assign t device_columns (toDAODevice d) r)"
    using assms(1) by (simp add: device_row_valid_def device_assign_overlay device_overlay_def own_device_def device_valid_def)
qed

lemma create_device_inv:
  assumes "own_device tid d"
  shows "io_inv (device_inv rows tid others) (deviceRepo_Create (NewDeviceDAO db) d) (\<lambda>_. True)"
  unfolding device_crt_eq
  by (rule own.create_inv) (use assms in \<open>simp_all add: own_device_def device_row_valid_def device_valid_def
    toDomainDevice_def device_stamp_def toDAODevice_def\<close>)

lemma delete_device_inv:
  "\<forall>r \<in> set others. dvr_TenantID r \<noteq> tid \<Longrightarrow>
     io_inv (device_inv rows tid others) (deviceRepo_Delete (NewDeviceDAO db) tid did) (\<lambda>_. True)"
proof -
  assume o: "\<forall>r \<in> set others. dvr_TenantID r \<noteq> tid"
  have eq: "deviceRepo_Delete (NewDeviceDAO db) tid did =
      affected_or (g_Delete db (case (tid, did) of (tid, did) \<Rightarrow> device_q tid did)) (iot ErrDeviceNotFound)"
    by (simp add: device_store_defs)
  show ?thesis unfolding eq by (rule own.delete_inv) (rule other_device_key [OF o])
qed

end

end
