(* ===== verification/Device_Rpcs.thy ===== *)
theory Device_Rpcs
  imports Device_Correct
begin

text \<open>
  The device RPCs as one step relation, and what every step keeps: the handlers of
  \<open>grpc/device_server.go\<close> over the service, the repository and the GORM table, composed as
  \<open>grpc/register.go\<close> composes them. The locale \<open>device_steps\<close> says what an invariant must
  survive at the table for every RPC to keep it; it holds of the invariant of the device table
  and of every observation that the table has no part in.
\<close>

lemmas device_rpc_defs =
  DeviceGRPCServer_CreateDevice_def DeviceGRPCServer_GetDevice_def DeviceGRPCServer_ListDevices_def
  DeviceGRPCServer_UpdateDeviceName_def DeviceGRPCServer_BindDevice_def
  DeviceGRPCServer_UnbindDevice_def DeviceGRPCServer_DisableDevice_def
  DeviceGRPCServer_EnableDevice_def DeviceGRPCServer_DeleteDevice_def
  DeviceGRPCServer_BatchDisableDevices_def DeviceGRPCServer_BatchEnableDevices_def
  DeviceGRPCServer_BatchDeleteDevices_def DeviceGRPCServer_BatchBindDevices_def
  DeviceGRPCServer_GetDeviceStats_def DeviceGRPCServer_SendDeviceCommand_def

lemma device_server_fields [simp]:
  "dvs_Create (device_server env db tx) = deviceService_Create env (NewDeviceRepo (NewDeviceDAO db) tx)"
  "dvs_GetByID (device_server env db tx) = deviceService_GetByID (NewDeviceRepo (NewDeviceDAO db) tx)"
  "dvs_List (device_server env db tx) = deviceService_List (NewDeviceRepo (NewDeviceDAO db) tx)"
  "dvs_UpdateName (device_server env db tx) = deviceService_UpdateName env (NewDeviceRepo (NewDeviceDAO db) tx)"
  "dvs_Bind (device_server env db tx) = deviceService_Bind env (NewDeviceRepo (NewDeviceDAO db) tx)"
  "dvs_Unbind (device_server env db tx) = deviceService_Unbind env (NewDeviceRepo (NewDeviceDAO db) tx)"
  "dvs_Disable (device_server env db tx) = deviceService_Disable env (NewDeviceRepo (NewDeviceDAO db) tx)"
  "dvs_Enable (device_server env db tx) = deviceService_Enable env (NewDeviceRepo (NewDeviceDAO db) tx)"
  "dvs_Delete (device_server env db tx) = deviceService_Delete (NewDeviceRepo (NewDeviceDAO db) tx)"
  "dvs_BatchDisable (device_server env db tx) = deviceService_BatchDisable env (NewDeviceRepo (NewDeviceDAO db) tx)"
  "dvs_BatchEnable (device_server env db tx) = deviceService_BatchEnable env (NewDeviceRepo (NewDeviceDAO db) tx)"
  "dvs_BatchDelete (device_server env db tx) = deviceService_BatchDelete (NewDeviceRepo (NewDeviceDAO db) tx)"
  "dvs_BatchBind (device_server env db tx) = deviceService_BatchBind env (NewDeviceRepo (NewDeviceDAO db) tx)"
  "dvs_GetStats (device_server env db tx) = deviceService_GetStats (NewDeviceRepo (NewDeviceDAO db) tx)"
  "dvs_SendCommand (device_server env db tx) = deviceService_SendCommand (NewDeviceRepo (NewDeviceDAO db) tx)"
  by (simp_all add: device_server_def NewDeviceService_def)

lemma device_codes [simp]:
  "toDeviceGRPCError (iot ErrDeviceNotFound) = StatusErr NotFound (iot_text ErrDeviceNotFound)"
  "toDeviceGRPCError (iot ErrDeviceIDDuplicate) = StatusErr AlreadyExists (iot_text ErrDeviceIDDuplicate)"
  "toDeviceGRPCError (iot ErrDeviceNotBound) = StatusErr FailedPrecondition (iot_text ErrDeviceNotBound)"
  "toDeviceGRPCError (iot ErrDeviceMustUnbind) = StatusErr FailedPrecondition (iot_text ErrDeviceMustUnbind)"
  "toDeviceGRPCError (iot ErrDeviceOffline) = StatusErr FailedPrecondition (iot_text ErrDeviceOffline)"
  "toDeviceGRPCError (iot ErrInvalidCommand) = StatusErr InvalidArgument (iot_text ErrInvalidCommand)"
  "toDeviceGRPCError (Opaque m) = StatusErr Internal m"
  by (simp_all add: toDeviceGRPCError_def deviceErrorMappings_def)

section \<open>The RPCs keep the invariant\<close>

text \<open>One call of the device API in the context \<open>ctx\<close>, from one state of the world to the next.\<close>

inductive device_rpc ::
  "'s go_env \<Rightarrow> 's device_gorm \<Rightarrow> 's gorm_tx \<Rightarrow> go_ctx \<Rightarrow> 's \<Rightarrow> 's \<Rightarrow> bool"
  for env db tx ctx where
  create: "device_rpc env db tx ctx s
     (snd (DeviceGRPCServer_CreateDevice (device_server env db tx) ctx req s))"
| get: "device_rpc env db tx ctx s
     (snd (DeviceGRPCServer_GetDevice (device_server env db tx) ctx did s))"
| list: "device_rpc env db tx ctx s
     (snd (DeviceGRPCServer_ListDevices (device_server env db tx) ctx lreq s))"
| update: "device_rpc env db tx ctx s
     (snd (DeviceGRPCServer_UpdateDeviceName (device_server env db tx) ctx ureq s))"
| bind: "device_rpc env db tx ctx s
     (snd (DeviceGRPCServer_BindDevice (device_server env db tx) ctx breq s))"
| unbind: "device_rpc env db tx ctx s
     (snd (DeviceGRPCServer_UnbindDevice (device_server env db tx) ctx did s))"
| disable: "device_rpc env db tx ctx s
     (snd (DeviceGRPCServer_DisableDevice (device_server env db tx) ctx did s))"
| enable: "device_rpc env db tx ctx s
     (snd (DeviceGRPCServer_EnableDevice (device_server env db tx) ctx did s))"
| delete: "device_rpc env db tx ctx s
     (snd (DeviceGRPCServer_DeleteDevice (device_server env db tx) ctx did s))"
| batch_disable: "device_rpc env db tx ctx s
     (snd (DeviceGRPCServer_BatchDisableDevices (device_server env db tx) ctx ids s))"
| batch_enable: "device_rpc env db tx ctx s
     (snd (DeviceGRPCServer_BatchEnableDevices (device_server env db tx) ctx ids s))"
| batch_delete: "device_rpc env db tx ctx s
     (snd (DeviceGRPCServer_BatchDeleteDevices (device_server env db tx) ctx ids s))"
| batch_bind: "device_rpc env db tx ctx s
     (snd (DeviceGRPCServer_BatchBindDevices (device_server env db tx) ctx bs s))"
| stats: "device_rpc env db tx ctx s
     (snd (DeviceGRPCServer_GetDeviceStats (device_server env db tx) ctx s))"
| command: "device_rpc env db tx ctx s
     (snd (DeviceGRPCServer_SendDeviceCommand (device_server env db tx) ctx creq s))"

lemma io_inv_tenant:
  "(TenantID ctx \<noteq> [] \<Longrightarrow> io_inv I (f (TenantID ctx)) Q) \<Longrightarrow> io_inv I (with_tenant ctx f) Q"
  by (auto simp: with_tenant_def extractTenantID_def Let_def)

lemma io_inv_require_id: "io_inv I m Q \<Longrightarrow> io_inv I (require_id did m) Q"
  by (simp add: require_id_def)

lemma io_inv_affected: "io_inv (\<lambda>w. I (fst w)) affected_incr (\<lambda>_. True)"
  by (auto simp: io_inv_def affected_incr_def)

section \<open>What the device service needs of an invariant\<close>

text \<open>
  \<open>mine\<close> are the devices the call may write: those it has loaded for the tenant or made.
\<close>

definition device_changes :: "'s go_env \<Rightarrow> (device \<Rightarrow> (device, 's) io) set" where
  "device_changes env =
     {Device_Disable env, Device_Enable env, Device_Unbind env} \<union>
     range (Device_UpdateName env) \<union> {Device_Bind env lot gate | lot gate. True}"

lemma device_changesI [simp]:
  "Device_Disable env \<in> device_changes env" "Device_Enable env \<in> device_changes env"
  "Device_Unbind env \<in> device_changes env" "Device_UpdateName env name \<in> device_changes env"
  "Device_Bind env lot gate \<in> device_changes env"
  by (auto simp: device_changes_def)

locale device_steps =
  fixes env :: "'s go_env" and db :: "'s device_gorm" and tx :: "'s gorm_tx" and t :: string
    and I :: "'s \<Rightarrow> bool" and mine :: "device \<Rightarrow> bool"
  assumes get_inv: "h \<in> {db, gt_Handle tx} \<Longrightarrow> io_inv I (deviceRepo_GetByID (NewDeviceDAO h) t did) mine"
    and update_inv: "h \<in> {db, gt_Handle tx} \<Longrightarrow> mine d \<Longrightarrow>
      io_inv I (deviceRepo_Update (NewDeviceDAO h) d) (\<lambda>_. True)"
    and delete_inv: "h \<in> {db, gt_Handle tx} \<Longrightarrow> io_inv I (deviceRepo_Delete (NewDeviceDAO h) t did) (\<lambda>_. True)"
    and create_inv: "mine d \<Longrightarrow> io_inv I (deviceRepo_Create (NewDeviceDAO db) d) (\<lambda>_. True)"
    and list_inv: "io_inv I (deviceRepo_List (NewDeviceDAO db) f p n) (\<lambda>_. True)"
    and counts_inv: "io_inv I (deviceRepo_CountByStatus (NewDeviceDAO db) tid) (\<lambda>_. True)"
    and clock_inv: "io_inv I (ask_io (time_Now env)) (\<lambda>_. True)"
    and mine_new: "device_valid d \<Longrightarrow> dv_TenantID d = t \<Longrightarrow> mine d"
    and mine_tenant: "mine d \<Longrightarrow> mine (d\<lparr>dv_TenantID := t\<rparr>)"
    and change_inv: "mine d \<Longrightarrow> change \<in> device_changes env \<Longrightarrow> io_inv I (change d) mine"
    and transaction_inv: "io_inv (\<lambda>w. I (fst w)) (fn (deviceRepo (NewDeviceDAO (gt_Handle tx)))) (\<lambda>_. True) \<Longrightarrow>
      io_inv I (counted_reply (in_transaction (NewDeviceRepo (NewDeviceDAO db) tx) fn)) (\<lambda>_. True)"
begin

lemma load_save_inv:
  assumes "change \<in> device_changes env"
  shows "io_inv I
     (bind_io (deviceRepo_GetByID (NewDeviceDAO db) t did) (\<lambda>d.
      bind_io (change d) (\<lambda>d. bind_io (deviceRepo_Update (NewDeviceDAO db) d) (\<lambda>_. return_io d))))
     (\<lambda>_. True)"
  by (rule io_inv_bind [OF get_inv], simp, rule io_inv_bind [OF change_inv], assumption, rule assms,
      rule io_inv_bind [OF update_inv], simp, assumption, rule io_inv_simps, rule TrueI)

lemma load_save_unit_inv:
  assumes "change \<in> device_changes env"
  shows "io_inv (\<lambda>w. I (fst w))
     (for_io (\<lambda>did. bind_io (on_fst
        (bind_io (deviceRepo_GetByID (NewDeviceDAO (gt_Handle tx)) t did) (\<lambda>d.
         bind_io (change d) (\<lambda>d. deviceRepo_Update (NewDeviceDAO (gt_Handle tx)) d))))
        (\<lambda>_. affected_incr)) ids) (\<lambda>_. True)"
  by (rule io_inv_for, rule io_inv_bind [OF io_inv_on_fst], rule io_inv_bind [OF get_inv], simp,
      rule io_inv_bind [OF change_inv], assumption, rule assms, rule update_inv, simp, assumption,
      rule io_inv_affected)

lemma batch_delete_inv:
  "io_inv (\<lambda>w. I (fst w))
     (for_io (\<lambda>did. bind_io (on_fst
        (bind_io (deviceRepo_GetByID (NewDeviceDAO (gt_Handle tx)) t did) (\<lambda>d.
         if Device_IsBound d then fail_io (iot ErrDeviceMustUnbind)
         else deviceRepo_Delete (NewDeviceDAO (gt_Handle tx)) t did)))
        (\<lambda>_. affected_incr)) ids) (\<lambda>_. True)"
proof (rule io_inv_for, rule io_inv_bind [OF io_inv_on_fst])
  fix did
  show "io_inv I (bind_io (deviceRepo_GetByID (NewDeviceDAO (gt_Handle tx)) t did) (\<lambda>d.
         if Device_IsBound d then fail_io (iot ErrDeviceMustUnbind)
         else deviceRepo_Delete (NewDeviceDAO (gt_Handle tx)) t did)) (\<lambda>_. True)"
    by (rule io_inv_bind [OF get_inv], simp, rule io_inv_if, simp, rule delete_inv, simp)
qed (rule io_inv_affected)

lemma batchBind_load_inv:
  "io_inv I (batchBind_load env (deviceRepo (NewDeviceDAO (gt_Handle tx))) t bs) (\<lambda>ds. \<forall>d \<in> set ds. mine d)"
proof (induction bs)
  case (Cons b bs)
  show ?case unfolding batchBind_load.simps deviceRepo_fields
  proof (rule io_inv_bind [OF get_inv], simp, rule io_inv_bind)
    fix d
    assume "mine d"
    then show "io_inv I (Device_Bind env (bn_ParkingLotID b) (bn_GateID b) (d\<lparr>dv_TenantID := t\<rparr>)) mine"
      by (intro change_inv mine_tenant) simp_all
  next
    fix e
    assume "mine e"
    then show "io_inv I (bind_io (batchBind_load env (deviceRepo (NewDeviceDAO (gt_Handle tx))) t bs)
          (\<lambda>devices. return_io (e # devices))) (\<lambda>ds. \<forall>d \<in> set ds. mine d)"
      by (intro io_inv_bind [OF Cons.IH]) simp
  qed
next
  case Nil
  show ?case unfolding batchBind_load.simps by (rule io_inv_simps) simp
qed

lemma batchBind_inv:
  "io_inv (\<lambda>w. I (fst w))
     (bind_io (on_fst (batchBind_load env (deviceRepo (NewDeviceDAO (gt_Handle tx))) t bs))
        (for_io (\<lambda>d. bind_io (on_fst (deviceRepo_Update (NewDeviceDAO (gt_Handle tx)) d)) (\<lambda>_. affected_incr))))
     (\<lambda>_. True)"
proof (rule io_inv_bind [OF io_inv_on_fst [OF batchBind_load_inv]])
  fix ds
  assume "\<forall>d \<in> set ds. mine d"
  then show "io_inv (\<lambda>w. I (fst w))
      (for_io (\<lambda>d. bind_io (on_fst (deviceRepo_Update (NewDeviceDAO (gt_Handle tx)) d)) (\<lambda>_. affected_incr)) ds)
      (\<lambda>_. True)"
    by (intro io_inv_for io_inv_bind [OF io_inv_on_fst [OF update_inv]] io_inv_affected) simp_all
qed

lemma NewDevice_inv: "io_inv I (NewDevice env did nm ty fw) device_valid"
  unfolding NewDevice_def
  by (rule io_inv_bind [OF clock_inv], rule io_inv_simps)
    (simp add: device_valid_def device_statuses_def)

lemma device_service_inv:
  shows "cdr_TenantID r1 = t \<Longrightarrow> io_inv I (dvs_Create (device_server env db tx) r1) (\<lambda>_. True)"
    and "gdr_TenantID r2 = t \<Longrightarrow> io_inv I (dvs_GetByID (device_server env db tx) r2) (\<lambda>_. True)"
    and "io_inv I (dvs_List (device_server env db tx) r3) (\<lambda>_. True)"
    and "udr_TenantID r4 = t \<Longrightarrow> io_inv I (dvs_UpdateName (device_server env db tx) r4) (\<lambda>_. True)"
    and "bdr_TenantID r5 = t \<Longrightarrow> io_inv I (dvs_Bind (device_server env db tx) r5) (\<lambda>_. True)"
    and "ubr_TenantID r6 = t \<Longrightarrow> io_inv I (dvs_Unbind (device_server env db tx) r6) (\<lambda>_. True)"
    and "cds_TenantID r7 = t \<Longrightarrow> io_inv I (dvs_Disable (device_server env db tx) r7) (\<lambda>_. True)"
    and "cds_TenantID r7 = t \<Longrightarrow> io_inv I (dvs_Enable (device_server env db tx) r7) (\<lambda>_. True)"
    and "ddr_TenantID r8 = t \<Longrightarrow> io_inv I (dvs_Delete (device_server env db tx) r8) (\<lambda>_. True)"
    and "io_inv I (dvs_GetStats (device_server env db tx) t') (\<lambda>_. True)"
    and "io_inv I (dvs_SendCommand (device_server env db tx) t did a) (\<lambda>_. True)"
proof -
  show "io_inv I (dvs_Create (device_server env db tx) r1) (\<lambda>_. True)" if t: "cdr_TenantID r1 = t"
    unfolding device_server_fields deviceService_Create_def NewDeviceRepo_fields Let_def t
    by (rule io_inv_bind [OF NewDevice_inv], rule io_inv_bind [OF create_inv [OF mine_new]])
      (simp_all add: device_valid_def)
  show "io_inv I (dvs_GetByID (device_server env db tx) r2) (\<lambda>_. True)" if t: "gdr_TenantID r2 = t"
    by (simp add: deviceService_GetByID_def t) (rule io_inv_weaken [OF get_inv], simp_all)
  show "io_inv I (dvs_List (device_server env db tx) r3) (\<lambda>_. True)"
    by (simp add: deviceService_List_def Let_def) (rule io_inv_bind [OF list_inv], simp split: prod.split)
  show "io_inv I (dvs_UpdateName (device_server env db tx) r4) (\<lambda>_. True)" if t: "udr_TenantID r4 = t"
    unfolding device_server_fields deviceService_UpdateName_def NewDeviceRepo_fields t
    by (rule load_save_inv) simp
  show "io_inv I (dvs_Bind (device_server env db tx) r5) (\<lambda>_. True)" if t: "bdr_TenantID r5 = t"
    unfolding device_server_fields deviceService_Bind_def NewDeviceRepo_fields Let_def t
    by (rule io_inv_bind [OF get_inv], simp, rule io_inv_bind [OF change_inv], erule mine_tenant, simp,
        rule io_inv_bind [OF update_inv], simp, assumption, rule io_inv_simps, rule TrueI)
  show "io_inv I (dvs_Unbind (device_server env db tx) r6) (\<lambda>_. True)" if t: "ubr_TenantID r6 = t"
    unfolding device_server_fields deviceService_Unbind_def NewDeviceRepo_fields t
    by (rule load_save_inv) simp
  show "io_inv I (dvs_Disable (device_server env db tx) r7) (\<lambda>_. True)" if t: "cds_TenantID r7 = t"
    unfolding device_server_fields deviceService_Disable_def NewDeviceRepo_fields t
    by (rule load_save_inv) simp
  show "io_inv I (dvs_Enable (device_server env db tx) r7) (\<lambda>_. True)" if t: "cds_TenantID r7 = t"
    unfolding device_server_fields deviceService_Enable_def NewDeviceRepo_fields t
    by (rule load_save_inv) simp
  show "io_inv I (dvs_Delete (device_server env db tx) r8) (\<lambda>_. True)" if t: "ddr_TenantID r8 = t"
    unfolding device_server_fields deviceService_Delete_def NewDeviceRepo_fields t
    by (rule io_inv_bind [OF get_inv], simp, rule io_inv_if, simp, rule delete_inv, simp)
  show "io_inv I (dvs_GetStats (device_server env db tx) t') (\<lambda>_. True)"
    by (simp add: deviceService_GetStats_def) (rule io_inv_bind [OF counts_inv], simp split: prod.split)
  show "io_inv I (dvs_SendCommand (device_server env db tx) t did a) (\<lambda>_. True)"
    unfolding device_server_fields deviceService_SendCommand_def NewDeviceRepo_fields
    by (rule io_inv_if, simp, rule io_inv_bind [OF get_inv], simp, rule io_inv_if) simp_all
qed

lemma device_batches_inv:
  shows "bcs_TenantID r1 = t \<Longrightarrow> io_inv I (counted_reply (dvs_BatchDisable (device_server env db tx) r1)) (\<lambda>_. True)"
    and "bcs_TenantID r1 = t \<Longrightarrow> io_inv I (counted_reply (dvs_BatchEnable (device_server env db tx) r1)) (\<lambda>_. True)"
    and "bdd_TenantID r2 = t \<Longrightarrow> io_inv I (counted_reply (dvs_BatchDelete (device_server env db tx) r2)) (\<lambda>_. True)"
    and "bbd_TenantID r3 = t \<Longrightarrow> io_inv I (counted_reply (dvs_BatchBind (device_server env db tx) r3)) (\<lambda>_. True)"
proof -
  assume t: "bcs_TenantID r1 = t"
  show "io_inv I (counted_reply (dvs_BatchDisable (device_server env db tx) r1)) (\<lambda>_. True)"
    unfolding device_server_fields deviceService_BatchDisable_def
    by (rule transaction_inv, unfold deviceRepo_fields t) (rule load_save_unit_inv, simp)
  show "io_inv I (counted_reply (dvs_BatchEnable (device_server env db tx) r1)) (\<lambda>_. True)"
    unfolding device_server_fields deviceService_BatchEnable_def
    by (rule transaction_inv, unfold deviceRepo_fields t) (rule load_save_unit_inv, simp)
next
  assume t: "bdd_TenantID r2 = t"
  show "io_inv I (counted_reply (dvs_BatchDelete (device_server env db tx) r2)) (\<lambda>_. True)"
    unfolding device_server_fields deviceService_BatchDelete_def
    by (rule transaction_inv, unfold deviceRepo_fields t) (rule batch_delete_inv)
next
  assume t: "bbd_TenantID r3 = t"
  show "io_inv I (counted_reply (dvs_BatchBind (device_server env db tx) r3)) (\<lambda>_. True)"
    unfolding device_server_fields deviceService_BatchBind_def
    by (rule transaction_inv, unfold deviceRepo_fields t) (rule batchBind_inv)
qed

lemma device_rpc_keeps:
  assumes "device_rpc env db tx ctx s s'" and t: "TenantID ctx = t" and inv: "I s"
  shows "I s'"
proof -
  have keeps: "I (snd (with_tenant ctx f s))" if "io_inv I (f t) Q" for f :: "string \<Rightarrow> ('x, 's) io" and Q
    by (rule io_invD [where I = I, OF io_inv_tenant inv]) (use that t in simp)
  note one = device_service_inv and all = device_batches_inv
  show ?thesis
    using assms(1)
  proof cases
    case (create req)
    show ?thesis unfolding create device_rpc_defs
      by (rule keeps, rule io_inv_require_id, rule io_inv_if, simp, rule io_inv_reply, rule one) simp
  next
    case (list lreq)
    show ?thesis unfolding list device_rpc_defs
      by (rule keeps, unfold case_prod_beta, rule io_inv_reply, rule one)
  next
    case (stats)
    show ?thesis unfolding stats device_rpc_defs by (rule keeps, rule io_inv_reply, rule one)
  next
    case (command creq)
    show ?thesis unfolding command device_rpc_defs by (rule keeps, rule io_inv_reply, rule one)
  next
    case (batch_disable ids)
    show ?thesis unfolding batch_disable device_rpc_defs by (rule keeps, rule all) simp
  next
    case (batch_enable ids)
    show ?thesis unfolding batch_enable device_rpc_defs by (rule keeps, rule all) simp
  next
    case (batch_delete ids)
    show ?thesis unfolding batch_delete device_rpc_defs by (rule keeps, rule all) simp
  next
    case (batch_bind bs)
    show ?thesis unfolding batch_bind device_rpc_defs by (rule keeps, rule all) simp
  qed (unfold device_rpc_defs,
      (erule ssubst, rule keeps, rule io_inv_require_id, rule io_inv_reply, rule one, simp)+)
qed

end

section \<open>The invariants\<close>

context device_tx
begin

lemma transaction_inv:
  assumes "\<And>s s'. I s \<Longrightarrow> I s' \<Longrightarrow> I (set_rows (rows s) s')"
    and "io_inv (\<lambda>w. I (fst w)) (fn (deviceRepo (NewDeviceDAO (gt_Handle tx)))) (\<lambda>_. True)"
  shows "io_inv I (counted_reply (in_transaction (NewDeviceRepo (NewDeviceDAO db) tx) fn)) (\<lambda>_. True)"
  unfolding io_inv_def
proof (intro allI impI conjI TrueI)
  fix s
  assume "I s"
  let ?m = "fn (deviceRepo (NewDeviceDAO (gt_Handle tx)))"
  obtain r s1 n where m: "?m (s, 0) = (r, (s1, n))" by (metis prod.collapse)
  have I1: "I s1" using io_invD [OF assms(2), of "(s, 0)"] \<open>I s\<close> m by simp
  show "I (snd (counted_reply (in_transaction (NewDeviceRepo (NewDeviceDAO db) tx) fn) s))"
  proof (cases r)
    case (Inl e)
    have "I (set_rows (rows s) s1)" by (rule assms(1)) (rule \<open>I s\<close>, rule I1)
    then show ?thesis
      using tx_rollback [of ?m s 0 e s1 n] m Inl
      by (simp add: counted_reply_def in_transaction_def deviceRepo_Transaction_def)
  next
    case (Inr u)
    then show ?thesis
      using tx_commit [of ?m "(s, 0)" "(s1, n)"] m I1
      by (simp add: counted_reply_def in_transaction_def deviceRepo_Transaction_def)
  qed
qed

lemma find_all_same: "snd (deviceRepo_List (NewDeviceDAO db) f p n s) = s"
  using page_same by (simp add: device_store_defs bind_io_run split: prod.split sum.split) (metis snd_conv)

lemma counts_same: "snd (deviceRepo_CountByStatus (NewDeviceDAO db) tid s) = s"
  using ScanCounts_groups [of "Group ''status'' (Where ''tenant_id = ?'' [SqlStr tid]
      (Select [''status'', ''COUNT(*) as count''] Model))" s]
  by (auto simp: device_store_defs)

lemma device_steps_inv:
  assumes world: "go_world env rows" and o: "\<forall>r \<in> set others. dvr_TenantID r \<noteq> t"
  shows "device_steps env db tx t (device_inv rows t others) (own_device t)"
proof (unfold_locales, goal_cases)
  case (1 h did)
  then show ?case using get_device_inv device_db.get_device_inv [OF tx_handle] by auto
next
  case (2 h d)
  then show ?case using update_device_inv [OF _ o] device_db.update_device_inv [OF tx_handle _ o] by auto
next
  case (3 h did)
  then show ?case using delete_device_inv [OF o] device_db.delete_device_inv [OF tx_handle o] by auto
next
  case (4 d)
  then show ?case by (rule create_device_inv)
next
  case (5 f p n)
  show ?case by (rule io_inv_same) (rule find_all_same)
next
  case (6 tid)
  show ?case by (rule io_inv_same) (rule counts_same)
next
  case 7
  show ?case by (rule scope_io_rows) (simp_all add: ask_io_run go_world.clock_rows [OF world])
next
  case (10 d change)
  then show ?case by (auto simp: device_changes_def intro: device_changes_inv [OF world])
next
  case (11 fn)
  show ?case
  proof (rule transaction_inv [where I = "device_inv rows t others"])
    fix s s'
    assume "device_inv rows t others s"
    then show "device_inv rows t others (set_rows (rows s) s')"
      using scope_inv_rows [where rows = rows and clash = device_clash and scope = dvr_TenantID
          and valid = device_row_valid and c = t and others = others, of "set_rows (rows s) s'" s] rows_set_rows by simp
  qed (rule 11)
qed (simp_all add: own_device_def device_valid_def)

lemma device_rpc_inv:
  assumes "device_rpc env db tx ctx s s'" and world: "go_world env rows"
    and inv: "device_inv rows (TenantID ctx) others s"
  shows "device_inv rows (TenantID ctx) others s'"
proof -
  have "\<forall>r \<in> set others. dvr_TenantID r \<noteq> TenantID ctx" using inv by (auto simp: scope_inv_def)
  from device_steps.device_rpc_keeps [OF device_steps_inv [OF world this] assms(1) refl inv] show ?thesis .
qed

end

end
