(* ===== verification/Device_Props.thy ===== *)
theory Device_Props
  imports Device_Rpcs
begin

text \<open>
  The properties of the device API, stated on its gRPC handlers and on the rows of the table.
\<close>

section \<open>Invariant and isolation\<close>

text \<open>
  Whatever sequence of device RPCs callers of any tenants make, every stored device stays in
  one of the four states, is bound to a lot and a gate or to neither, is never bound while it is
  pending, and no two devices share an ID.
\<close>

theorem device_rpcs_keep_table:
  assumes "device_tx like db rows set_rows now dup tx" and "go_world env rows"
    and "device_table_valid rows s"
    and "(\<lambda>s s'. \<exists>ctx. device_rpc env db tx ctx s s')\<^sup>*\<^sup>* s s'"
  shows "device_table_valid rows s'"
  using assms(4)
proof (induction rule: rtranclp_induct)
  case (step s1 s2)
  then obtain ctx where ctx: "device_rpc env db tx ctx s1 s2" by blast
  have "device_inv rows (TenantID ctx) (filter (\<lambda>r. dvr_TenantID r \<noteq> TenantID ctx) (rows s1)) s2"
    by (rule device_tx.device_rpc_inv [OF assms(1) ctx assms(2)])
      (use step.IH in \<open>simp add: device_table_valid_def scope_inv_start\<close>)
  then show ?case by (simp add: scope_inv_def device_table_valid_def)
qed (rule assms(3))

text \<open>
  Callers of other tenants never change a tenant's devices: the table's rows of that tenant
  are the same, in the same order, after any sequence of their RPCs.
\<close>

theorem device_tenant_isolation:
  assumes "device_tx like db rows set_rows now dup tx" and "go_world env rows"
    and "device_table_valid rows s"
    and "(\<lambda>s s'. \<exists>ctx. TenantID ctx \<noteq> t \<and> device_rpc env db tx ctx s s')\<^sup>*\<^sup>* s s'"
  shows "filter (\<lambda>r. dvr_TenantID r = t) (rows s') = filter (\<lambda>r. dvr_TenantID r = t) (rows s)"
proof -
  have "device_table_valid rows s' \<and>
      filter (\<lambda>r. dvr_TenantID r = t) (rows s') = filter (\<lambda>r. dvr_TenantID r = t) (rows s)"
    using assms(4)
  proof (induction rule: rtranclp_induct)
    case (step s1 s2)
    then obtain ctx where ctx: "TenantID ctx \<noteq> t" "device_rpc env db tx ctx s1 s2" by blast
    have inv: "device_inv rows (TenantID ctx) (filter (\<lambda>r. dvr_TenantID r \<noteq> TenantID ctx) (rows s1)) s2"
      by (rule device_tx.device_rpc_inv [OF assms(1) ctx(2) assms(2)])
        (use step.IH in \<open>simp add: device_table_valid_def scope_inv_start\<close>)
    show ?case
      using inv scope_inv_others [OF inv ctx(1)] step.IH by (simp add: scope_inv_def device_table_valid_def)
  qed (simp add: assms(3))
  then show ?thesis ..
qed

section \<open>Binding\<close>

abbreviation bound_to :: "string \<Rightarrow> string \<Rightarrow> device \<Rightarrow> device" where
  "bound_to lot gate d \<equiv>
     d\<lparr>dv_ParkingLotID := Some lot, dv_GateID := Some gate,
       dv_Status := (if dv_Status d = ''pending'' then ''active'' else dv_Status d)\<rparr>"

abbreviation unbound :: "device \<Rightarrow> device" where
  "unbound d \<equiv> d\<lparr>dv_ParkingLotID := None, dv_GateID := None\<rparr>"

text \<open>The table holds \<open>d\<close> with a new time of update, and is otherwise as it was.\<close>

definition device_saved :: "('s \<Rightarrow> device_row list) \<Rightarrow> 's \<Rightarrow> 's \<Rightarrow> device \<Rightarrow> bool" where
  "device_saved rows s s' d \<longleftrightarrow> devices_ok rows s' \<and>
     (\<exists>u. device_at rows s' =
        (device_at rows s)((dv_TenantID d, dv_ID d) \<mapsto> d\<lparr>dv_UpdatedAt := u\<rparr>))"

lemma with_tenant_run: "TenantID ctx \<noteq> [] \<Longrightarrow> with_tenant ctx f = f (TenantID ctx)"
  by (simp add: with_tenant_def extractTenantID_def Let_def)

lemma require_id_run: "did \<noteq> [] \<Longrightarrow> require_id did m = m"
  by (simp add: require_id_def)

context device_tx
begin

lemma change_reply:
  assumes "go_world env rows" and "devices_ok rows s"
    and d: "device_at rows s (tid, did) = Some d"
    and "change d = device_touch env (f d)"
    and kept: "dv_LastHeartbeat (f d) = dv_LastHeartbeat d" "dv_ID (f d) = dv_ID d"
      "dv_TenantID (f d) = dv_TenantID d" "dv_CreatedAt (f d) = dv_CreatedAt d"
    and "\<And>u. (f d)\<lparr>dv_UpdatedAt := u\<rparr> \<noteq> d"
  shows "\<exists>u s'. grpc_reply toDeviceGRPCError
            (bind_io (deviceRepo_GetByID (NewDeviceDAO db) tid did) (\<lambda>d.
             bind_io (change d) (\<lambda>e. bind_io (deviceRepo_Update (NewDeviceDAO db) e)
               (\<lambda>_. return_io e)))) toProtoDevice s =
           (Inr (toProtoDevice ((f d)\<lparr>dv_UpdatedAt := u\<rparr>)), s') \<and>
         device_saved rows s s' (f d)"
proof -
  from change_device [where change = change and f = f, OF assms] obtain t u s' where
    run: "\<And>k :: device \<Rightarrow> unit \<Rightarrow> (device, 's) io.
       bind_io (deviceRepo_GetByID (NewDeviceDAO db) tid did) (\<lambda>d.
       bind_io (change d) (\<lambda>e. bind_io (deviceRepo_Update (NewDeviceDAO db) e) (k e))) s =
         k ((f d)\<lparr>dv_UpdatedAt := t\<rparr>) () s'"
    and s': "devices_ok rows s'"
      "device_at rows s' = (device_at rows s)((tid, did) \<mapsto> (f d)\<lparr>dv_UpdatedAt := u\<rparr>)"
    by blast
  have "device_saved rows s s' (f d)"
    using s' device_at_key [OF d] kept by (auto simp: device_saved_def)
  then show ?thesis using run [of "\<lambda>e _. return_io e"]
    by (intro exI [of _ t] exI [of _ s']) (simp add: grpc_reply_run)
qed

end

text \<open>
  The three calls of a tenant on a device id.
\<close>

lemma known_device_binding:
  assumes "device_tx like db rows set_rows now dup tx" and "go_world env rows" and "devices_ok rows s"
    and "TenantID ctx \<noteq> []" and "pbd_Id req \<noteq> []"
  shows "case device_at rows s (TenantID ctx, pbd_Id req) of
      None \<Rightarrow>
        DeviceGRPCServer_BindDevice (device_server env db tx) ctx req s =
          (Inl (StatusErr NotFound (iot_text ErrDeviceNotFound)), s) \<and>
        DeviceGRPCServer_UnbindDevice (device_server env db tx) ctx (pbd_Id req) s =
          (Inl (StatusErr NotFound (iot_text ErrDeviceNotFound)), s) \<and>
        DeviceGRPCServer_DeleteDevice (device_server env db tx) ctx (pbd_Id req) s =
          (Inl (StatusErr NotFound (iot_text ErrDeviceNotFound)), s)
    | Some d \<Rightarrow>
        if dv_ParkingLotID d \<noteq> None then
          DeviceGRPCServer_BindDevice (device_server env db tx) ctx req s =
            (Inl (StatusErr Internal (error_text device_already_bound)), s) \<and>
          (\<exists>u s'. DeviceGRPCServer_UnbindDevice (device_server env db tx) ctx (pbd_Id req) s =
              (Inr (toProtoDevice ((unbound d)\<lparr>dv_UpdatedAt := u\<rparr>)), s') \<and>
             device_saved rows s s' (unbound d)) \<and>
          DeviceGRPCServer_DeleteDevice (device_server env db tx) ctx (pbd_Id req) s =
            (Inl (StatusErr FailedPrecondition (iot_text ErrDeviceMustUnbind)), s)
        else
          (\<exists>u s'. DeviceGRPCServer_BindDevice (device_server env db tx) ctx req s =
              (Inr (toProtoDevice ((bound_to (pbd_ParkingLotId req) (pbd_GateId req) d)
                 \<lparr>dv_UpdatedAt := u\<rparr>)), s') \<and>
             device_saved rows s s' (bound_to (pbd_ParkingLotId req) (pbd_GateId req) d)) \<and>
          DeviceGRPCServer_UnbindDevice (device_server env db tx) ctx (pbd_Id req) s =
            (Inl (StatusErr FailedPrecondition (iot_text ErrDeviceNotBound)), s) \<and>
          (\<exists>s'. DeviceGRPCServer_DeleteDevice (device_server env db tx) ctx (pbd_Id req) s =
              (Inr (), s') \<and> devices_ok rows s' \<and>
             device_at rows s' = (device_at rows s)((TenantID ctx, pbd_Id req) := None))"
proof -
  have db: "device_db like db rows set_rows now dup" using assms(1) by (simp add: device_tx_def)
  note start = device_rpc_defs with_tenant_run [OF assms(4)] require_id_run [OF assms(5)]
    device_server_fields deviceService_Bind_def deviceService_Unbind_def deviceService_Delete_def
    NewDeviceRepo_fields UnbindDeviceRequest.select_convs BindDeviceRequest.select_convs
    DeleteDeviceRequest.select_convs
  show ?thesis
  proof (cases "device_at rows s (TenantID ctx, pbd_Id req)")
    case None
    then show ?thesis
      by (simp add: start grpc_reply_run device_db.load_fails [OF db assms(3) None])
  next
    case (Some d)
    have t: "dv_TenantID d = TenantID ctx" using device_db.device_at_key [OF db Some] by simp
    then have same: "d\<lparr>dv_TenantID := TenantID ctx\<rparr> = d" by (cases d) simp
    note found = device_db.load_found [OF db assms(3) Some]
    show ?thesis
    proof (cases "dv_ParkingLotID d = None")
      case False
      have ne: "(unbound d)\<lparr>dv_UpdatedAt := u\<rparr> \<noteq> d" for u
        by (rule notI, drule arg_cong [where f = dv_ParkingLotID]) (use False in auto)
      have "\<exists>u s'. DeviceGRPCServer_UnbindDevice (device_server env db tx) ctx (pbd_Id req) s =
          (Inr (toProtoDevice ((unbound d)\<lparr>dv_UpdatedAt := u\<rparr>)), s') \<and> device_saved rows s s' (unbound d)"
        unfolding start
        by (rule device_tx.change_reply [OF assms(1-3) Some, where f = unbound, OF _ _ _ _ _ ne])
          (simp_all add: Device_Unbind_def False)
      then show ?thesis using False Some
        by (simp add: start grpc_reply_run found same Device_Bind_def Device_IsBound_def
            device_already_bound_def)
    next
      case True
      have ne: "(bound_to l g d)\<lparr>dv_UpdatedAt := u\<rparr> \<noteq> d" for l g u
        by (rule notI, drule arg_cong [where f = dv_ParkingLotID]) (use True in auto)
      have "\<exists>u s'. DeviceGRPCServer_BindDevice (device_server env db tx) ctx req s =
          (Inr (toProtoDevice ((bound_to (pbd_ParkingLotId req) (pbd_GateId req) d)\<lparr>dv_UpdatedAt := u\<rparr>)), s') \<and>
          device_saved rows s s' (bound_to (pbd_ParkingLotId req) (pbd_GateId req) d)"
        unfolding start Let_def
        by (rule device_tx.change_reply [OF assms(1-3) Some,
              where f = "bound_to (pbd_ParkingLotId req) (pbd_GateId req)", OF _ _ _ _ _ ne])
          (simp_all add: Device_Bind_def same True)
      moreover obtain s' where "deviceRepo_Delete (NewDeviceDAO db) (TenantID ctx) (pbd_Id req) s = (Inr (), s')"
          "devices_ok rows s'" "device_at rows s' = (device_at rows s)((TenantID ctx, pbd_Id req) := None)"
        using device_db.delete_device [OF db assms(3)] Some by blast
      ultimately show ?thesis using True Some
        by (simp add: start grpc_reply_run found Device_Unbind_def Device_IsBound_def)
    qed
  qed
qed

text \<open>
  C38: Binding and unbinding on every branch. The three calls refuse a request without a tenant
  as Unauthenticated, and one without a device id as InvalidArgument. Otherwise \<open>BindDevice\<close>
  refuses a bound device and binds any other, activating a pending one; \<open>UnbindDevice\<close> refuses an
  unbound device and frees any other; \<open>DeleteDevice\<close> refuses a bound device and removes any other. A
  device of another tenant is not found. A refused call changes nothing.
\<close>

theorem device_binding:
  assumes "device_tx like db rows set_rows now dup tx" and "go_world env rows" and "devices_ok rows s"
  shows "let bind = DeviceGRPCServer_BindDevice (device_server env db tx) ctx req;
             unbind = DeviceGRPCServer_UnbindDevice (device_server env db tx) ctx (pbd_Id req);
             delete = DeviceGRPCServer_DeleteDevice (device_server env db tx) ctx (pbd_Id req)
         in if TenantID ctx = [] then
              bind s = (Inl (StatusErr Unauthenticated ''missing x-tenant-id''), s) \<and>
              unbind s = (Inl (StatusErr Unauthenticated ''missing x-tenant-id''), s) \<and>
              delete s = (Inl (StatusErr Unauthenticated ''missing x-tenant-id''), s)
            else if pbd_Id req = [] then
              bind s = (Inl (StatusErr InvalidArgument ''device id is required''), s) \<and>
              unbind s = (Inl (StatusErr InvalidArgument ''device id is required''), s) \<and>
              delete s = (Inl (StatusErr InvalidArgument ''device id is required''), s)
            else case device_at rows s (TenantID ctx, pbd_Id req) of
              None \<Rightarrow>
                bind s = (Inl (StatusErr NotFound (iot_text ErrDeviceNotFound)), s) \<and>
                unbind s = (Inl (StatusErr NotFound (iot_text ErrDeviceNotFound)), s) \<and>
                delete s = (Inl (StatusErr NotFound (iot_text ErrDeviceNotFound)), s)
            | Some d \<Rightarrow>
                if dv_ParkingLotID d \<noteq> None then
                  bind s = (Inl (StatusErr Internal (error_text device_already_bound)), s) \<and>
                  (\<exists>u s'. unbind s = (Inr (toProtoDevice ((unbound d)\<lparr>dv_UpdatedAt := u\<rparr>)), s') \<and>
                     device_saved rows s s' (unbound d)) \<and>
                  delete s = (Inl (StatusErr FailedPrecondition (iot_text ErrDeviceMustUnbind)), s)
                else
                  (\<exists>u s'. bind s = (Inr (toProtoDevice ((bound_to (pbd_ParkingLotId req) (pbd_GateId req) d)
                         \<lparr>dv_UpdatedAt := u\<rparr>)), s') \<and>
                     device_saved rows s s' (bound_to (pbd_ParkingLotId req) (pbd_GateId req) d)) \<and>
                  unbind s = (Inl (StatusErr FailedPrecondition (iot_text ErrDeviceNotBound)), s) \<and>
                  (\<exists>s'. delete s = (Inr (), s') \<and> devices_ok rows s' \<and>
                     device_at rows s' = (device_at rows s)((TenantID ctx, pbd_Id req) := None))"
proof (cases "TenantID ctx = []")
  case True
  then show ?thesis by (simp add: device_rpc_defs with_tenant_def extractTenantID_def Let_def)
next
  case tenant: False
  show ?thesis
  proof (cases "pbd_Id req = []")
    case True
    then show ?thesis using tenant by (simp add: device_rpc_defs with_tenant_run require_id_def Let_def)
  next
    case False
    show ?thesis
      unfolding Let_def if_not_P [OF tenant] if_not_P [OF False]
      by (rule known_device_binding [OF assms tenant False])
  qed
qed

section \<open>Batches\<close>

lemma in_transaction_run:
  assumes "device_tx like db rows set_rows now dup tx"
  shows "fn (deviceRepo (NewDeviceDAO (gt_Handle tx))) (s, 0) = (Inr (), (s', n)) \<Longrightarrow>
      counted_reply (in_transaction (NewDeviceRepo (NewDeviceDAO db) tx) fn) s = (Inr (i32 n), s')"
    and "fn (deviceRepo (NewDeviceDAO (gt_Handle tx))) (s, 0) = (Inl e, (s', n)) \<Longrightarrow>
      counted_reply (in_transaction (NewDeviceRepo (NewDeviceDAO db) tx) fn) s =
        (Inl (toDeviceGRPCError e), set_rows (rows s) s')"
  using device_tx.tx_commit [OF assms, of "fn (deviceRepo (NewDeviceDAO (gt_Handle tx)))" "(s, 0)" "(s', n)"]
    device_tx.tx_rollback [OF assms, of "fn (deviceRepo (NewDeviceDAO (gt_Handle tx)))" s 0 e s' n]
  by (simp_all add: counted_reply_def in_transaction_def deviceRepo_Transaction_def)

lemma failed_transaction:
  assumes "device_tx like db rows set_rows now dup tx"
    and "counted_reply (in_transaction (NewDeviceRepo (NewDeviceDAO db) tx) fn) s = (Inl err, s')"
  shows "rows s' = rows s"
proof -
  have db: "device_db like db rows set_rows now dup" using assms(1) by (simp add: device_tx_def)
  obtain r s1 n where m: "fn (deviceRepo (NewDeviceDAO (gt_Handle tx))) (s, 0) = (r, (s1, n))"
    by (metis prod.collapse)
  show ?thesis
  proof (cases r)
    case (Inl e)
    then have "s' = set_rows (rows s) s1"
      using in_transaction_run(2) [where fn = fn and s = s and e = e, OF assms(1)] m assms(2) by simp
    then show ?thesis
      using gorm_table.rows_set_rows [OF db [unfolded device_db_def]] by simp
  next
    case (Inr u)
    then show ?thesis
      using in_transaction_run(1) [where fn = fn and s = s, OF assms(1)] m assms(2) by simp
  qed
qed

text \<open>
  A batch operation that fails, for whatever reason and after however many devices, leaves
  every row of the table as it was.
\<close>

theorem failed_batches_change_nothing:
  assumes "device_tx like db rows set_rows now dup tx"
    and "DeviceGRPCServer_BatchDisableDevices (device_server env db tx) ctx ids s = (Inl err, s') \<or>
         DeviceGRPCServer_BatchEnableDevices (device_server env db tx) ctx ids s = (Inl err, s') \<or>
         DeviceGRPCServer_BatchDeleteDevices (device_server env db tx) ctx ids s = (Inl err, s') \<or>
         DeviceGRPCServer_BatchBindDevices (device_server env db tx) ctx bs s = (Inl err, s')"
  shows "rows s' = rows s"
proof (cases "TenantID ctx = []")
  case True
  then show ?thesis
    using assms(2) by (auto simp: device_rpc_defs with_tenant_def extractTenantID_def Let_def)
next
  case False
  then show ?thesis
    using assms(2) failed_transaction [OF assms(1)]
    unfolding device_rpc_defs with_tenant_run [OF False] device_server_fields
      deviceService_BatchDisable_def deviceService_BatchEnable_def deviceService_BatchDelete_def
      deviceService_BatchBind_def
    by blast
qed

abbreviation disabled :: "device \<Rightarrow> device" where
  "disabled d \<equiv> d\<lparr>dv_Status := ''disabled''\<rparr>"

text \<open>The IDs are distinct, and each is a device of the tenant that is not disabled.\<close>

definition can_disable :: "('s \<Rightarrow> device_row list) \<Rightarrow> 's \<Rightarrow> string \<Rightarrow> string list \<Rightarrow> bool" where
  "can_disable rows s tid ids \<longleftrightarrow> distinct ids \<and>
     (\<forall>did \<in> set ids. \<exists>d. device_at rows s (tid, did) = Some d \<and> dv_Status d \<noteq> ''disabled'')"

text \<open>These devices are disabled, the others as they were.\<close>

definition all_disabled ::
  "('s \<Rightarrow> device_row list) \<Rightarrow> 's \<Rightarrow> 's \<Rightarrow> string \<Rightarrow> string list \<Rightarrow> bool" where
  "all_disabled rows s s' tid ids \<longleftrightarrow> (\<forall>t did.
     if t = tid \<and> did \<in> set ids
     then \<exists>d u. device_at rows s (t, did) = Some d \<and>
                device_at rows s' (t, did) = Some ((disabled d)\<lparr>dv_UpdatedAt := u\<rparr>)
     else device_at rows s' (t, did) = device_at rows s (t, did))"

abbreviation disable_one ::
  "'s go_env \<Rightarrow> 's device_gorm \<Rightarrow> string \<Rightarrow> string \<Rightarrow> (unit, 's \<times> int) io" where
  "disable_one env db tid did \<equiv>
     bind_io (on_fst (bind_io (deviceRepo_GetByID (NewDeviceDAO db) tid did) (\<lambda>d.
       bind_io (Device_Disable env d) (\<lambda>d. deviceRepo_Update (NewDeviceDAO db) d))))
       (\<lambda>_. affected_incr)"

context device_db
begin

lemma disable_one_done:
  assumes "go_world env rows" and "devices_ok rows s"
    and d: "device_at rows s (tid, did) = Some d" and st: "dv_Status d \<noteq> ''disabled''"
  shows "\<exists>u s'. disable_one env db tid did (s, n) = (Inr (), (s', i64 (n + 1))) \<and> devices_ok rows s' \<and>
           device_at rows s' = (device_at rows s)((tid, did) \<mapsto> (disabled d)\<lparr>dv_UpdatedAt := u\<rparr>)"
proof -
  have ne: "(disabled d)\<lparr>dv_UpdatedAt := u\<rparr> \<noteq> d" for u
    by (rule notI, drule arg_cong [where f = dv_Status]) (use st in auto)
  have "Device_Disable env d = device_touch env (disabled d)" using st by (simp add: Device_Disable_def)
  from change_device [where f = disabled and change = "Device_Disable env", OF assms(1,2) d this _ _ _ _ ne]
  obtain t u s' where
    run: "\<And>k :: device \<Rightarrow> unit \<Rightarrow> (unit, 's) io.
       bind_io (deviceRepo_GetByID (NewDeviceDAO db) tid did) (\<lambda>d.
       bind_io (Device_Disable env d) (\<lambda>e. bind_io (deviceRepo_Update (NewDeviceDAO db) e) (k e))) s =
         k ((disabled d)\<lparr>dv_UpdatedAt := t\<rparr>) () s'"
    and s': "devices_ok rows s'"
      "device_at rows s' = (device_at rows s)((tid, did) \<mapsto> (disabled d)\<lparr>dv_UpdatedAt := u\<rparr>)"
    by auto
  show ?thesis using run [of "\<lambda>_. return_io"] s'
    by (intro exI [of _ u] exI [of _ s']) (simp add: bind_io_run [of "on_fst _"] on_fst_run affected_incr_def)
qed

lemma disable_one_refused:
  assumes "devices_ok rows s"
    and "\<not> (\<exists>d. device_at rows s (tid, did) = Some d \<and> dv_Status d \<noteq> ''disabled'')"
  shows "\<exists>e w. disable_one env db tid did (s, n) = (Inl e, w)"
proof (cases "device_at rows s (tid, did)")
  case None
  then show ?thesis by (simp add: bind_io_run [of "on_fst _"] on_fst_run load_fails [OF assms(1) None])
next
  case (Some d)
  then show ?thesis
    using assms(2) by (simp add: bind_io_run [of "on_fst _"] on_fst_run load_found [OF assms(1) Some] Device_Disable_def)
qed

lemma disable_loop_done:
  assumes "go_world env rows"
  shows "devices_ok rows s \<Longrightarrow> can_disable rows s tid ids \<Longrightarrow>
    \<exists>s'. for_io (disable_one env db tid) ids (s, i64 n) = (Inr (), (s', i64 (n + int (length ids)))) \<and>
         devices_ok rows s' \<and> all_disabled rows s s' tid ids"
proof (induction ids arbitrary: s n)
  case Nil
  then show ?case by (simp add: all_disabled_def)
next
  case (Cons did ids)
  then obtain d where d: "device_at rows s (tid, did) = Some d" "dv_Status d \<noteq> ''disabled''"
    by (auto simp: can_disable_def)
  obtain u s1 where s1: "disable_one env db tid did (s, i64 n) = (Inr (), (s1, i64 (n + 1)))"
      "devices_ok rows s1"
      "device_at rows s1 = (device_at rows s)((tid, did) \<mapsto> (disabled d)\<lparr>dv_UpdatedAt := u\<rparr>)"
    using disable_one_done [OF assms Cons.prems(1) d, of "i64 n"] by auto
  have "can_disable rows s1 tid ids" using Cons.prems(2) s1(3) by (auto simp: can_disable_def)
  then obtain s' where s': "for_io (disable_one env db tid) ids (s1, i64 (n + 1)) =
        (Inr (), (s', i64 (n + 1 + int (length ids))))"
      "devices_ok rows s'" "all_disabled rows s1 s' tid ids"
    using Cons.IH [OF s1(2)] by blast
  have "all_disabled rows s s' tid (did # ids)"
    using s'(3) s1(3) d(1) Cons.prems(2) unfolding all_disabled_def can_disable_def
    by (auto split: if_splits)
  moreover have "for_io (disable_one env db tid) (did # ids) (s, i64 n) =
      (Inr (), (s', i64 (n + int (length (did # ids)))))"
    using s1(1) s'(1) by (simp only: for_io.simps bind_io_Inr) (simp add: ac_simps)
  ultimately show ?case using s'(2) by blast
qed

lemma disable_loop_refused:
  assumes "go_world env rows"
  shows "devices_ok rows s \<Longrightarrow> \<not> can_disable rows s tid ids \<Longrightarrow>
    \<exists>e w. for_io (disable_one env db tid) ids (s, n) = (Inl e, w)"
proof (induction ids arbitrary: s n)
  case Nil
  then show ?case by (simp add: can_disable_def)
next
  case (Cons did ids)
  show ?case
  proof (cases "\<exists>d. device_at rows s (tid, did) = Some d \<and> dv_Status d \<noteq> ''disabled''")
    case False
    from disable_one_refused [OF Cons.prems(1) this] obtain e w
      where "disable_one env db tid did (s, n) = (Inl e, w)" by blast
    then show ?thesis by (simp only: for_io.simps bind_io_Inl) blast
  next
    case True
    then obtain d where d: "device_at rows s (tid, did) = Some d" "dv_Status d \<noteq> ''disabled''" by blast
    obtain u s1 where s1: "disable_one env db tid did (s, n) = (Inr (), (s1, i64 (n + 1)))"
        "devices_ok rows s1"
        "device_at rows s1 = (device_at rows s)((tid, did) \<mapsto> (disabled d)\<lparr>dv_UpdatedAt := u\<rparr>)"
      using disable_one_done [OF assms Cons.prems(1) d, of n] by auto
    have "\<not> can_disable rows s1 tid ids"
      using Cons.prems(2) s1(3) d by (auto simp: can_disable_def split: if_splits)
    from Cons.IH [OF s1(2) this] s1(1) show ?thesis by (simp only: for_io.simps bind_io_Inr)
  qed
qed

end

lemma batch_disable_refused:
  assumes "device_tx like db rows set_rows now dup tx" and "go_world env rows" and "devices_ok rows s"
    and "TenantID ctx \<noteq> []" and "\<not> can_disable rows s (TenantID ctx) ids"
  shows "\<exists>err s'. DeviceGRPCServer_BatchDisableDevices (device_server env db tx) ctx ids s = (Inl err, s') \<and>
           rows s' = rows s"
proof -
  have h: "device_db like (gt_Handle tx) rows set_rows now dup" by (rule device_tx.tx_handle [OF assms(1)])
  let ?fn = "\<lambda>txRepo. for_io (\<lambda>did. bind_io (on_fst
         (bind_io (drp_GetByID txRepo (TenantID ctx) did) (\<lambda>d.
          bind_io (Device_Disable env d) (\<lambda>d. drp_Update txRepo d)))) (\<lambda>_. affected_incr)) ids"
  obtain e s' n where "for_io (disable_one env (gt_Handle tx) (TenantID ctx)) ids (s, 0) = (Inl e, (s', n))"
    using device_db.disable_loop_refused [OF h assms(2,3,5), of 0] by (metis prod.collapse)
  then have "?fn (deviceRepo (NewDeviceDAO (gt_Handle tx))) (s, 0) = (Inl e, (s', n))"
    by (simp only: deviceRepo_fields)
  from in_transaction_run(2) [where fn = ?fn, OF assms(1) this] have
    run: "counted_reply (in_transaction (NewDeviceRepo (NewDeviceDAO db) tx) ?fn) s =
      (Inl (toDeviceGRPCError e), set_rows (rows s) s')" .
  with failed_transaction [OF assms(1) run] show ?thesis
    by (simp add: device_rpc_defs with_tenant_run [OF assms(4)] deviceService_BatchDisable_def)
qed

text \<open>
  C37: \<open>BatchDisableDevices\<close> either disables every listed device or changes nothing. It
  succeeds exactly when the IDs are distinct and each names a device of the caller's tenant
  that is not disabled yet, and then answers the number of IDs.
\<close>

theorem batch_disable_all_or_nothing:
  assumes "device_tx like db rows set_rows now dup tx" and "go_world env rows" and "devices_ok rows s"
    and "TenantID ctx \<noteq> []"
  shows "\<exists>r s'. DeviceGRPCServer_BatchDisableDevices (device_server env db tx) ctx ids s = (r, s') \<and>
    (if can_disable rows s (TenantID ctx) ids
     then r = Inr (i32 (int (length ids))) \<and> all_disabled rows s s' (TenantID ctx) ids
     else (\<exists>err. r = Inl err) \<and> rows s' = rows s)"
proof -
  have h: "device_db like (gt_Handle tx) rows set_rows now dup" by (rule device_tx.tx_handle [OF assms(1)])
  let ?fn = "\<lambda>txRepo. for_io (\<lambda>did. bind_io (on_fst
         (bind_io (drp_GetByID txRepo (TenantID ctx) did) (\<lambda>d.
          bind_io (Device_Disable env d) (\<lambda>d. drp_Update txRepo d)))) (\<lambda>_. affected_incr)) ids"
  have rpc: "DeviceGRPCServer_BatchDisableDevices (device_server env db tx) ctx ids =
      counted_reply (in_transaction (NewDeviceRepo (NewDeviceDAO db) tx) ?fn)"
    by (simp add: device_rpc_defs with_tenant_run [OF assms(4)] deviceService_BatchDisable_def)
  have i0: "i64 0 = 0" by (simp add: i64_def)
  show ?thesis
  proof (cases "can_disable rows s (TenantID ctx) ids")
    case True
    obtain s' where s': "for_io (disable_one env (gt_Handle tx) (TenantID ctx)) ids (s, 0) =
          (Inr (), (s', i64 (int (length ids))))" "all_disabled rows s s' (TenantID ctx) ids"
      using device_db.disable_loop_done [OF h assms(2,3) True, of 0] unfolding i0 by auto
    then have "?fn (deviceRepo (NewDeviceDAO (gt_Handle tx))) (s, 0) = (Inr (), (s', i64 (int (length ids))))"
      by (simp only: deviceRepo_fields)
    from in_transaction_run(1) [where fn = ?fn, OF assms(1) this] show ?thesis
      using True s'(2) unfolding rpc by simp
  next
    case False
    from batch_disable_refused [OF assms False] show ?thesis using False by auto
  qed
qed

section \<open>Commands\<close>

text \<open>
  \<open>SendDeviceCommand\<close> on every branch: without a tenant it is refused; an action other than
  up and down is an invalid argument even for an unknown device; an unknown device is not found;
  an offline or disabled device fails its precondition; a pending or active device is answered
  with the message of the action. Nothing is written.
\<close>

theorem send_command_branches:
  assumes "device_db like db rows set_rows now dup" and "devices_ok rows s"
  shows "DeviceGRPCServer_SendDeviceCommand (device_server env db tx) ctx req s =
    (if TenantID ctx = [] then Inl (StatusErr Unauthenticated ''missing x-tenant-id'')
     else if psd_Action req \<notin> {''up'', ''down''}
     then Inl (StatusErr InvalidArgument (iot_text ErrInvalidCommand))
     else case device_at rows s (TenantID ctx, psd_Id req) of
       None \<Rightarrow> Inl (StatusErr NotFound (iot_text ErrDeviceNotFound))
     | Some d \<Rightarrow>
         if dv_Status d \<in> {''offline'', ''disabled''}
         then Inl (StatusErr FailedPrecondition (iot_text ErrDeviceOffline))
         else Inr \<lparr>cmd_Success = True,
                cmd_Message = (if psd_Action req = ''down'' then device_msg_down else device_msg_up)\<rparr>, s)"
  using device_db.get_device [OF assms, of "TenantID ctx" "psd_Id req"]
  by (auto simp: device_rpc_defs with_tenant_def extractTenantID_def Let_def
      deviceService_SendCommand_def grpc_reply_run bind_io_run split: option.split)

section \<open>Runs\<close>

text \<open>A tenant with one pending device.\<close>

definition device_example :: device_row where
  "device_example =
     \<lparr>dvr_ID = ''d1'', dvr_TenantID = ''t1'', dvr_Name = ''north'', dvr_Type = ''integrated'',
      dvr_Status = ''pending'', dvr_FirmwareVersion = ''1.0'', dvr_LastHeartbeatAt = None,
      dvr_ParkingLotID = None, dvr_GateID = None, dvr_CreatedAt = 5, dvr_UpdatedAt = 5\<rparr>"

definition device_start :: "device_row list \<times> int" where
  "device_start = ([device_example], 9)"

definition tenant_ctx :: "string \<Rightarrow> go_ctx" where
  "tenant_ctx t = WithTenantID context_Background t"

abbreviation device_svc_ref :: "(device_row list \<times> int) device_service" where
  "device_svc_ref \<equiv> device_server ref_env (device_ref ''Duplicate'') (device_ref_tx ''Duplicate'')"

definition bind_example :: pb_BindDeviceRequest where
  "bind_example = \<lparr>pbd_Id = ''d1'', pbd_ParkingLotId = ''p1'', pbd_GateId = ''g1''\<rparr>"

lemma tenant_ctx_id [simp]: "TenantID (tenant_ctx t) = t"
  by (simp add: tenant_ctx_def ctx_simps)

lemma device_start_facts:
  "device_table_valid fst device_start" "devices_ok fst device_start"
  "device_at fst device_start (t, did) =
     (if t = ''t1'' \<and> did = ''d1'' then Some (toDomainDevice device_example) else None)"
  "dv_Status (toDomainDevice device_example) = ''pending''"
  "dv_ParkingLotID (toDomainDevice device_example) = None"
  by (auto simp: device_table_valid_def table_intact_def unclashing_def device_start_def
      device_row_valid_def device_valid_def device_statuses_def toDomainDevice_def device_example_def entity_at_def
      row_at_def device_key_def)

lemma device_rpcs_keep_table_witness:
  "device_table_valid fst
     (snd (DeviceGRPCServer_BindDevice device_svc_ref (tenant_ctx ''t1'') bind_example device_start))"
proof (rule device_rpcs_keep_table [OF device_ref_tx_laws ref_env_world device_start_facts(1)])
  show "(\<lambda>s s'. \<exists>ctx. device_rpc ref_env (device_ref ''Duplicate'') (device_ref_tx ''Duplicate'') ctx s s')\<^sup>*\<^sup>*
      device_start
      (snd (DeviceGRPCServer_BindDevice device_svc_ref (tenant_ctx ''t1'') bind_example device_start))"
    by (rule r_into_rtranclp) (rule exI, rule device_rpc.bind)
qed

lemma device_tenant_isolation_witness:
  "filter (\<lambda>r. dvr_TenantID r = ''t1'')
     (fst (snd (DeviceGRPCServer_BindDevice device_svc_ref (tenant_ctx ''t2'') bind_example device_start))) =
   [device_example]"
proof -
  have "(\<lambda>s s'. \<exists>ctx. TenantID ctx \<noteq> ''t1'' \<and>
        device_rpc ref_env (device_ref ''Duplicate'') (device_ref_tx ''Duplicate'') ctx s s')\<^sup>*\<^sup>*
      device_start
      (snd (DeviceGRPCServer_BindDevice device_svc_ref (tenant_ctx ''t2'') bind_example device_start))"
    by (rule r_into_rtranclp, rule exI [of _ "tenant_ctx ''t2''"]) (simp add: device_rpc.bind)
  from device_tenant_isolation [OF device_ref_tx_laws ref_env_world device_start_facts(1) this]
  show ?thesis by (simp add: device_start_def device_example_def)
qed

lemma device_binding_witness:
  "\<exists>u s'. DeviceGRPCServer_BindDevice device_svc_ref (tenant_ctx ''t1'') bind_example device_start =
     (Inr (toProtoDevice ((bound_to ''p1'' ''g1'' (toDomainDevice device_example))\<lparr>dv_UpdatedAt := u\<rparr>)), s') \<and>
     device_saved fst device_start s' (bound_to ''p1'' ''g1'' (toDomainDevice device_example))"
  using device_binding [OF device_ref_tx_laws [of "''Duplicate''"] ref_env_world device_start_facts(2),
      of "tenant_ctx ''t1''" bind_example]
  by (simp add: device_start_facts bind_example_def Let_def)

lemma failed_batches_witness:
  "\<exists>err s'. DeviceGRPCServer_BatchDisableDevices device_svc_ref (tenant_ctx ''t1'') [''d1'', ''d1''] device_start =
     (Inl err, s') \<and> fst s' = fst device_start"
proof -
  have "\<not> can_disable fst device_start (TenantID (tenant_ctx ''t1'')) [''d1'', ''d1'']"
    by (simp add: can_disable_def)
  from batch_disable_refused [OF device_ref_tx_laws [of "''Duplicate''"] ref_env_world device_start_facts(2) _ this]
  obtain err s' where run: "DeviceGRPCServer_BatchDisableDevices device_svc_ref (tenant_ctx ''t1'')
      [''d1'', ''d1''] device_start = (Inl err, s')" by auto
  with failed_batches_change_nothing [OF device_ref_tx_laws [of "''Duplicate''"], where env = ref_env
      and ctx = "tenant_ctx ''t1''" and ids = "[''d1'', ''d1'']" and s = device_start and err = err and s' = s']
  show ?thesis by auto
qed

lemma batch_disable_witness:
  "\<exists>s'. DeviceGRPCServer_BatchDisableDevices device_svc_ref (tenant_ctx ''t1'') [''d1''] device_start =
     (Inr 1, s') \<and> all_disabled fst device_start s' ''t1'' [''d1'']"
proof -
  have "can_disable fst device_start (TenantID (tenant_ctx ''t1'')) [''d1'']"
    by (simp add: can_disable_def device_start_facts)
  then show ?thesis
    using batch_disable_all_or_nothing [OF device_ref_tx_laws [of "''Duplicate''"] ref_env_world
        device_start_facts(2), of "tenant_ctx ''t1''" "[''d1'']"]
    by (auto simp: i32_def)
qed

lemma send_command_witness:
  "DeviceGRPCServer_SendDeviceCommand device_svc_ref (tenant_ctx ''t1'')
     \<lparr>psd_Id = ''d1'', psd_Action = ''down''\<rparr> device_start =
     (Inr \<lparr>cmd_Success = True, cmd_Message = device_msg_down\<rparr>, device_start)"
  using send_command_branches [OF device_ref_db device_start_facts(2)]
  by (simp add: device_start_facts)

end
