(* ===== verification/Device_Races.thy ===== *)
theory Device_Races
  imports Device_Props
begin

text \<open>
  Device calls that overlap. The RPCs on one device load it, change it in memory and save it (or
  delete it) with two statements and no transaction (\<open>service/device_service.go\<close>), and the gRPC
  server runs each call in a goroutine of its own. Here the two statements are steps of their
  own, and the steps of any number of calls interleave, with each other and with the RPCs that
  are one statement or one transaction.
\<close>

section \<open>A call in two steps\<close>

text \<open>What the call does with the device it has loaded.\<close>

datatype 's device_write = Save "device \<Rightarrow> (device, 's) io" | Remove

definition load_step :: "'s device_gorm \<Rightarrow> string \<Rightarrow> string \<Rightarrow> (device, 's) io" where
  "load_step db t did = deviceRepo_GetByID (NewDeviceDAO db) t did"

fun write_step :: "'s device_gorm \<Rightarrow> string \<Rightarrow> string \<Rightarrow> 's device_write \<Rightarrow> device \<Rightarrow> (device, 's) io" where
  "write_step db t did (Save change) d =
     bind_io (change d) (\<lambda>e. bind_io (deviceRepo_Update (NewDeviceDAO db) e) (\<lambda>_. return_io e))"
| "write_step db t did Remove d =
     (if Device_IsBound d then fail_io (iot ErrDeviceMustUnbind)
      else bind_io (deviceRepo_Delete (NewDeviceDAO db) t did) (\<lambda>_. return_io d))"

definition bind_write :: "'s go_env \<Rightarrow> string \<Rightarrow> string \<Rightarrow> string \<Rightarrow> 's device_write" where
  "bind_write env t lot gate = Save (\<lambda>d. Device_Bind env lot gate (d\<lparr>dv_TenantID := t\<rparr>))"

definition device_writes :: "'s go_env \<Rightarrow> string \<Rightarrow> 's device_write set" where
  "device_writes env t =
     {Save (Device_Unbind env), Save (Device_Disable env), Save (Device_Enable env), Remove} \<union>
     range (\<lambda>name. Save (Device_UpdateName env name)) \<union> {bind_write env t lot gate | lot gate. True}"

text \<open>Run without a break in between, the two steps are the service's operation.\<close>

lemma service_in_two_steps:
  shows "dvs_UpdateName (device_server env db tx) r1 = bind_io (load_step db (udr_TenantID r1) (udr_ID r1))
      (write_step db (udr_TenantID r1) (udr_ID r1) (Save (Device_UpdateName env (udr_Name r1))))"
    and "dvs_Bind (device_server env db tx) r2 = bind_io (load_step db (bdr_TenantID r2) (bdr_ID r2))
      (write_step db (bdr_TenantID r2) (bdr_ID r2) (bind_write env (bdr_TenantID r2) (bdr_ParkingLotID r2) (bdr_GateID r2)))"
    and "dvs_Unbind (device_server env db tx) r3 = bind_io (load_step db (ubr_TenantID r3) (ubr_ID r3))
      (write_step db (ubr_TenantID r3) (ubr_ID r3) (Save (Device_Unbind env)))"
    and "dvs_Disable (device_server env db tx) r4 = bind_io (load_step db (cds_TenantID r4) (cds_ID r4))
      (write_step db (cds_TenantID r4) (cds_ID r4) (Save (Device_Disable env)))"
    and "dvs_Enable (device_server env db tx) r4 = bind_io (load_step db (cds_TenantID r4) (cds_ID r4))
      (write_step db (cds_TenantID r4) (cds_ID r4) (Save (Device_Enable env)))"
    and "dvs_Delete (device_server env db tx) r5 = bind_io (bind_io (load_step db (ddr_TenantID r5) (ddr_ID r5))
      (write_step db (ddr_TenantID r5) (ddr_ID r5) Remove)) (\<lambda>_. return_io ())"
  by (rule ext; simp add: deviceService_UpdateName_def deviceService_Bind_def deviceService_Unbind_def
      deviceService_Disable_def deviceService_Enable_def deviceService_Delete_def load_step_def bind_write_def
      Let_def bind_io_run split: prod.split sum.split)+

section \<open>Interleaving\<close>

text \<open>
  A call that is under way: its tenant and device, what it is going to write, and the device as
  it was loaded. The state is the calls under way and the world; the label of a step is the
  tenant of the caller.
\<close>

record 's device_call =
  dc_Tenant :: string
  dc_ID :: string
  dc_Write :: "'s device_write"
  dc_Loaded :: "device option"

type_synonym 's device_calls = "nat \<rightharpoonup> 's device_call"

inductive call_step ::
  "'s go_env \<Rightarrow> 's device_gorm \<Rightarrow> 's gorm_tx \<Rightarrow> string \<Rightarrow>
     's device_calls \<times> 's \<Rightarrow> 's device_calls \<times> 's \<Rightarrow> bool"
  for env db tx where
  arrive: "calls i = None \<Longrightarrow> w \<in> device_writes env t \<Longrightarrow>
     call_step env db tx t (calls, s)
       (calls(i \<mapsto> \<lparr>dc_Tenant = t, dc_ID = did, dc_Write = w, dc_Loaded = None\<rparr>), s)"
| load: "calls i = Some c \<Longrightarrow> dc_Loaded c = None \<Longrightarrow> dc_Tenant c = t \<Longrightarrow>
     load_step db t (dc_ID c) s = (Inr d, s') \<Longrightarrow>
     call_step env db tx t (calls, s) (calls(i \<mapsto> c\<lparr>dc_Loaded := Some d\<rparr>), s')"
| refuse: "calls i = Some c \<Longrightarrow> dc_Loaded c = None \<Longrightarrow> dc_Tenant c = t \<Longrightarrow>
     load_step db t (dc_ID c) s = (Inl e, s') \<Longrightarrow>
     call_step env db tx t (calls, s) (calls(i := None), s')"
| finish: "calls i = Some c \<Longrightarrow> dc_Loaded c = Some d \<Longrightarrow> dc_Tenant c = t \<Longrightarrow>
     call_step env db tx t (calls, s) (calls(i := None), snd (write_step db t (dc_ID c) (dc_Write c) d s))"
| rpc: "device_rpc env db tx ctx s s' \<Longrightarrow> TenantID ctx = t \<Longrightarrow>
     call_step env db tx t (calls, s) (calls, s')"

text \<open>Every call under way holds at most a device of its own tenant, valid when it was loaded.\<close>

definition calls_ok :: "'s go_env \<Rightarrow> 's device_calls \<Rightarrow> bool" where
  "calls_ok env calls \<longleftrightarrow> (\<forall>i c. calls i = Some c \<longrightarrow> dc_Write c \<in> device_writes env (dc_Tenant c) \<and>
     (\<forall>d. dc_Loaded c = Some d \<longrightarrow> own_device (dc_Tenant c) d))"

context device_tx
begin

lemma write_step_inv:
  assumes "go_world env rows" and "\<forall>r \<in> set others. dvr_TenantID r \<noteq> t"
    and "w \<in> device_writes env t" and "own_device t d"
  shows "io_inv (device_inv rows t others) (write_step db t did w d) (\<lambda>_. True)"
proof -
  have save: "io_inv (device_inv rows t others) (write_step db t did (Save change) d) (\<lambda>_. True)"
    if "io_inv (device_inv rows t others) (change d) (own_device t)" for change
    unfolding write_step.simps
    by (rule io_inv_bind [OF that], rule io_inv_bind [OF update_device_inv [OF _ assms(2)]], assumption) simp
  have own: "own_device t (d\<lparr>dv_TenantID := t\<rparr>)" using assms(4) by (simp add: own_device_def device_valid_def)
  have remove: "io_inv (device_inv rows t others) (write_step db t did Remove d) (\<lambda>_. True)"
    unfolding write_step.simps
    by (rule io_inv_if, simp, rule io_inv_bind [OF delete_device_inv [OF assms(2)]]) simp
  from assms(3) show ?thesis unfolding device_writes_def bind_write_def
    using remove by (auto intro!: save device_changes_inv [OF assms(1)] assms(4) own)
qed

lemma call_step_inv:
  assumes "call_step env db tx t (calls, s) (calls', s')" and world: "go_world env rows"
    and o: "\<forall>r \<in> set others. dvr_TenantID r \<noteq> t"
    and ok: "calls_ok env calls" and inv: "device_inv rows t others s"
  shows "calls_ok env calls' \<and> device_inv rows t others s'"
  using assms(1)
proof cases
  case (arrive i w did)
  then show ?thesis using ok inv by (simp add: calls_ok_def)
next
  case (load i c d)
  have "device_inv rows t others s' \<and> own_device t d"
    using get_device_inv [of t others "dc_ID c"] inv load(5) unfolding io_inv_def load_step_def by (metis fst_conv snd_conv)
  then show ?thesis using ok load by (auto simp: calls_ok_def)
next
  case (refuse i c e)
  have "device_inv rows t others s'"
    using io_invD [OF get_device_inv inv, of "dc_ID c"] refuse(5) by (simp add: load_step_def)
  then show ?thesis using ok refuse(1) by (simp add: calls_ok_def)
next
  case (finish i c d)
  have "dc_Write c \<in> device_writes env t" "own_device t d" using ok finish by (auto simp: calls_ok_def)
  from io_invD [OF write_step_inv [OF world o this] inv, of "dc_ID c"] finish(2) ok
  show ?thesis by (simp add: calls_ok_def finish(1))
next
  case (rpc ctx)
  then show ?thesis using device_rpc_inv [OF rpc(2) world, of others] ok inv by simp
qed

end

text \<open>
  C7: Calls that overlap keep the table and the tenants apart. However the loads, the writes and
  the whole RPCs of any number of calls of the tenants \<open>T\<close> interleave, every device stays valid
  (one of the four states, bound to a lot and a gate or to neither, never bound while pending), the
  key stays unique, and the rows of all other tenants are as they were.
\<close>

theorem device_calls_interleaved:
  assumes "device_tx like db rows set_rows now dup tx" and "go_world env rows"
    and "device_table_valid rows s"
    and "(\<lambda>x y. \<exists>t \<in> T. call_step env db tx t x y)\<^sup>*\<^sup>* (Map.empty, s) (calls, s')"
  shows "device_table_valid rows s' \<and>
     filter (\<lambda>r. dvr_TenantID r \<notin> T) (rows s') = filter (\<lambda>r. dvr_TenantID r \<notin> T) (rows s)"
proof -
  let ?others = "\<lambda>s. filter (\<lambda>r. dvr_TenantID r \<notin> T) (rows s)"
  have "calls_ok env calls \<and> device_table_valid rows s' \<and> ?others s' = ?others s"
    using assms(4)
  proof (induction rule: rtranclp_induct2)
    case refl
    show ?case using assms(3) by (simp add: calls_ok_def)
  next
    case (step calls1 s1 calls2 s2)
    then obtain t where t: "t \<in> T" "call_step env db tx t (calls1, s1) (calls2, s2)" by blast
    let ?o = "\<lambda>s. filter (\<lambda>r. dvr_TenantID r \<noteq> t) (rows s)"
    have "calls_ok env calls2 \<and> device_inv rows t (?o s1) s2"
      by (rule device_tx.call_step_inv [OF assms(1) t(2) assms(2)])
        (use step.IH in \<open>simp_all add: device_table_valid_def scope_inv_start\<close>)
    then have kept: "calls_ok env calls2" "device_table_valid rows s2" "?o s2 = ?o s1"
      by (simp_all add: scope_inv_def device_table_valid_def)
    have "?others s2 = ?others s1" by (rule filter_inner [OF kept(3)]) (use t(1) in auto)
    then show ?case using kept step.IH by simp
  qed
  then show ?thesis by blast
qed

section \<open>A lost update\<close>

context device_db
begin

text \<open>A write puts the device it was given over the stored one, whatever has changed since.\<close>

lemma write_stale:
  assumes world: "go_world env rows" and ok: "devices_ok rows s"
    and d0: "device_at rows s (tid, did) = Some d0" and change: "change d = device_touch env e"
    and kept: "dv_LastHeartbeat e = dv_LastHeartbeat d0" "dv_ID e = dv_ID d0"
      "dv_TenantID e = dv_TenantID d0" "dv_CreatedAt e = dv_CreatedAt d0"
    and ne: "\<And>u. e\<lparr>dv_UpdatedAt := u\<rparr> \<noteq> d0"
  obtains t u s' where "write_step db tid did (Save change) d s = (Inr (e\<lparr>dv_UpdatedAt := t\<rparr>), s')"
    "devices_ok rows s'" "device_at rows s' (tid, did) = Some (e\<lparr>dv_UpdatedAt := u\<rparr>)"
proof -
  obtain t s1 where t: "time_Now env s = (t, s1)" by fastforce
  have same: "rows s1 = rows s" using go_world.clock_rows [OF world, of s] t by simp
  then have at: "device_at rows s1 = device_at rows s" "devices_ok rows s1"
    using ok by (simp_all add: entity_at_def row_at_def table_intact_def fun_eq_iff)
  obtain s' where "deviceRepo_Update (NewDeviceDAO db) (e\<lparr>dv_UpdatedAt := t\<rparr>) s1 = (Inr (), s')" "devices_ok rows s'"
      "device_at rows s' = (device_at rows s)((tid, did) \<mapsto> e\<lparr>dv_UpdatedAt := time_UnixMilli (now s1)\<rparr>)"
    using save_device [of s1 tid did d0 "e\<lparr>dv_UpdatedAt := t\<rparr>"] d0 kept ne unfolding at(1) using at(2) by auto
  then show thesis using change t
    by (intro that [of t s' "time_UnixMilli (now s1)"]) (simp_all add: bind_io_run device_touch_def ask_io_run)
qed

lemma load_stored:
  "devices_ok rows s \<Longrightarrow> device_at rows s (tid, did) = Some d \<Longrightarrow> load_step db tid did s = (Inr d, s)"
  by (simp add: load_step_def get_device)

lemma serial_run:
  assumes "go_world env rows" and ok: "devices_ok rows s" and d: "device_at rows s (tid, did) = Some d"
    and "change d = device_touch env e"
    and "dv_LastHeartbeat e = dv_LastHeartbeat d" "dv_ID e = dv_ID d" "dv_TenantID e = dv_TenantID d"
      "dv_CreatedAt e = dv_CreatedAt d"
    and "\<And>u. e\<lparr>dv_UpdatedAt := u\<rparr> \<noteq> d"
  obtains u s' where "snd (bind_io (load_step db tid did) (write_step db tid did (Save change)) s) = s'"
    "devices_ok rows s'" "device_at rows s' (tid, did) = Some (e\<lparr>dv_UpdatedAt := u\<rparr>)"
proof -
  obtain t u s' where "write_step db tid did (Save change) d s = (Inr (e\<lparr>dv_UpdatedAt := t\<rparr>), s')"
    "devices_ok rows s'" "device_at rows s' (tid, did) = Some (e\<lparr>dv_UpdatedAt := u\<rparr>)"
    by (rule write_stale [where change = change and e = e and d = d, OF assms])
  then show thesis by (intro that [of s' u]) (simp_all add: bind_io_run load_stored [OF ok d])
qed

lemma renamed_after_disable:
  assumes world: "go_world env rows" and ok: "devices_ok rows s" and d: "device_at rows s (tid, did) = Some d"
    and "dv_Status d \<noteq> ''disabled''" and "name \<noteq> dv_Name d"
  defines "disable \<equiv> bind_io (load_step db tid did) (write_step db tid did (Save (Device_Disable env)))"
    and "rename \<equiv> bind_io (load_step db tid did) (write_step db tid did (Save (Device_UpdateName env name)))"
  assumes "s' \<in> {snd (rename (snd (disable s))), snd (disable (snd (rename s)))}"
  shows "\<exists>e. device_at rows s' (tid, did) = Some e \<and> dv_Status e = ''disabled'' \<and> dv_Name e = name"
  using assms(8)
proof (elim insertE)
  assume s': "s' = snd (rename (snd (disable s)))"
  obtain u s1 where s1: "snd (disable s) = s1" "devices_ok rows s1"
    "device_at rows s1 (tid, did) = Some (d\<lparr>dv_Status := ''disabled'', dv_UpdatedAt := u\<rparr>)"
    unfolding disable_def
    by (rule serial_run [OF world ok d, of "Device_Disable env" "d\<lparr>dv_Status := ''disabled''\<rparr>"])
      (use assms(4) in \<open>auto simp: Device_Disable_def dest: arg_cong [where f = dv_Status]\<close>)
  obtain u' s2 where "snd (rename s1) = s2" "devices_ok rows s2"
    "device_at rows s2 (tid, did) = Some (d\<lparr>dv_Status := ''disabled'', dv_UpdatedAt := u, dv_Name := name, dv_UpdatedAt := u'\<rparr>)"
    unfolding rename_def
    by (rule serial_run [OF world s1(2,3), of "Device_UpdateName env name"
          "d\<lparr>dv_Status := ''disabled'', dv_UpdatedAt := u, dv_Name := name\<rparr>"])
      (use assms(5) in \<open>auto simp: Device_UpdateName_def dest: arg_cong [where f = dv_Name]\<close>)
  then show ?thesis by (simp add: s' s1(1))
next
  assume s': "s' = snd (disable (snd (rename s)))"
  obtain u s1 where s1: "snd (rename s) = s1" "devices_ok rows s1"
    "device_at rows s1 (tid, did) = Some (d\<lparr>dv_Name := name, dv_UpdatedAt := u\<rparr>)"
    unfolding rename_def
    by (rule serial_run [OF world ok d, of "Device_UpdateName env name" "d\<lparr>dv_Name := name\<rparr>"])
      (use assms(5) in \<open>auto simp: Device_UpdateName_def dest: arg_cong [where f = dv_Name]\<close>)
  obtain u' s2 where "snd (disable s1) = s2" "devices_ok rows s2"
    "device_at rows s2 (tid, did) = Some (d\<lparr>dv_Name := name, dv_UpdatedAt := u, dv_Status := ''disabled'', dv_UpdatedAt := u'\<rparr>)"
    unfolding disable_def
    by (rule serial_run [OF world s1(2,3), of "Device_Disable env"
          "d\<lparr>dv_Name := name, dv_UpdatedAt := u, dv_Status := ''disabled''\<rparr>"])
      (use assms(4) in \<open>auto simp: Device_Disable_def dest: arg_cong [where f = dv_Status]\<close>)
  then show ?thesis by (simp add: s' s1(1))
qed simp

text \<open>Both calls load before either writes: the second write undoes the first.\<close>

lemma disable_undone:
  assumes world: "go_world env rows" and ok: "devices_ok rows s" and d: "device_at rows s (tid, did) = Some d"
    and "dv_Status d \<noteq> ''disabled''"
  obtains a b s1 s2 e where
    "write_step db tid did (Save (Device_Disable env)) d s = (Inr a, s1)" "dv_Status a = ''disabled''"
    "write_step db tid did (Save (Device_UpdateName env name)) d s1 = (Inr b, s2)"
    "device_at rows s2 (tid, did) = Some e" "dv_Status e = dv_Status d" "dv_Name e = name"
proof -
  obtain t u s1 where s1: "write_step db tid did (Save (Device_Disable env)) d s =
      (Inr (d\<lparr>dv_Status := ''disabled'', dv_UpdatedAt := t\<rparr>), s1)" "devices_ok rows s1"
    "device_at rows s1 (tid, did) = Some (d\<lparr>dv_Status := ''disabled'', dv_UpdatedAt := u\<rparr>)"
    by (rule write_stale [OF world ok d, of "Device_Disable env" d "d\<lparr>dv_Status := ''disabled''\<rparr>"])
      (use assms(4) in \<open>auto simp: Device_Disable_def dest: arg_cong [where f = dv_Status]\<close>)
  obtain t' u' s2 where s2: "write_step db tid did (Save (Device_UpdateName env name)) d s1 =
      (Inr (d\<lparr>dv_Name := name, dv_UpdatedAt := t'\<rparr>), s2)" "devices_ok rows s2"
    "device_at rows s2 (tid, did) = Some (d\<lparr>dv_Name := name, dv_UpdatedAt := u'\<rparr>)"
    by (rule write_stale [OF world s1(2,3), of "Device_UpdateName env name" d "d\<lparr>dv_Name := name\<rparr>"])
      (use assms(4) in \<open>auto simp: Device_UpdateName_def dest: arg_cong [where f = dv_Status]\<close>)
  show thesis by (rule that [OF s1(1) _ s2(1,3)]) simp_all
qed

end

lemma overlapping_run:
  assumes "w1 \<in> device_writes env t" and "w2 \<in> device_writes env t" and load: "load_step db t did s = (Inr d, s)"
  shows "(call_step env db tx t)\<^sup>*\<^sup>* (Map.empty, s)
    (Map.empty, snd (write_step db t did w2 d (snd (write_step db t did w1 d s))))"
proof -
  let ?step = "call_step env db tx t"
  let ?c = "\<lambda>w l. \<lparr>dc_Tenant = t, dc_ID = did, dc_Write = w, dc_Loaded = l\<rparr>"
  let ?s1 = "snd (write_step db t did w1 d s)"
  have arrive1: "?step (Map.empty, s) ([0 \<mapsto> ?c w1 None], s)"
    using call_step.arrive [of Map.empty 0, OF _ assms(1)] by simp
  have arrive2: "?step ([0 \<mapsto> ?c w1 None], s) ([0 \<mapsto> ?c w1 None, 1 \<mapsto> ?c w2 None], s)"
    using call_step.arrive [of "[0 \<mapsto> ?c w1 None]" 1, OF _ assms(2)] by simp
  have load1: "?step ([0 \<mapsto> ?c w1 None, 1 \<mapsto> ?c w2 None], s) ([0 \<mapsto> ?c w1 (Some d), 1 \<mapsto> ?c w2 None], s)"
    using call_step.load [of "[0 \<mapsto> ?c w1 None, 1 \<mapsto> ?c w2 None]" 0 "?c w1 None" t db s d s] load
    by (simp add: fun_upd_twist)
  have load2: "?step ([0 \<mapsto> ?c w1 (Some d), 1 \<mapsto> ?c w2 None], s) ([0 \<mapsto> ?c w1 (Some d), 1 \<mapsto> ?c w2 (Some d)], s)"
    using call_step.load [of "[0 \<mapsto> ?c w1 (Some d), 1 \<mapsto> ?c w2 None]" 1 "?c w2 None" t db s d s] load
    by simp
  have finish1: "?step ([0 \<mapsto> ?c w1 (Some d), 1 \<mapsto> ?c w2 (Some d)], s) ([1 \<mapsto> ?c w2 (Some d)], ?s1)"
    using call_step.finish [of "[0 \<mapsto> ?c w1 (Some d), 1 \<mapsto> ?c w2 (Some d)]" 0 "?c w1 (Some d)" d t env db tx s]
    by (simp add: fun_upd_twist)
  have finish2: "?step ([1 \<mapsto> ?c w2 (Some d)], ?s1) (Map.empty, snd (write_step db t did w2 d ?s1))"
    using call_step.finish [of "[1 \<mapsto> ?c w2 (Some d)]" 1 "?c w2 (Some d)" d t env db tx ?s1] by simp
  show ?thesis
    by (rule converse_rtranclp_into_rtranclp [where r = ?step], rule arrive1,
        rule converse_rtranclp_into_rtranclp [where r = ?step], rule arrive2,
        rule converse_rtranclp_into_rtranclp [where r = ?step], rule load1,
        rule converse_rtranclp_into_rtranclp [where r = ?step], rule load2,
        rule converse_rtranclp_into_rtranclp [where r = ?step], rule finish1,
        rule r_into_rtranclp, rule finish2)
qed

text \<open>
  C11: Calls that overlap can lose an update. When DisableDevice and UpdateDeviceName of the same
  device both load it before either saves it, and the first saves first, both answer success and
  the answer of the first says disabled, but the device keeps its old status: the second call
  saves the status it has loaded, along with the name. One after the other, in either order, the
  two calls leave the device disabled and renamed.
\<close>

theorem overlapping_calls_lose_update:
  assumes "device_tx like db rows set_rows now dup tx" and "go_world env rows" and "devices_ok rows s"
    and "device_at rows s (t, did) = Some d" and "dv_Status d \<noteq> ''disabled''" and "name \<noteq> dv_Name d"
  shows "(\<exists>a b s1 s2 e. (call_step env db tx t)\<^sup>*\<^sup>* (Map.empty, s) (Map.empty, s2) \<and>
       load_step db t did s = (Inr d, s) \<and>
       write_step db t did (Save (Device_Disable env)) d s = (Inr a, s1) \<and> dv_Status a = ''disabled'' \<and>
       write_step db t did (Save (Device_UpdateName env name)) d s1 = (Inr b, s2) \<and>
       device_at rows s2 (t, did) = Some e \<and> dv_Status e = dv_Status d \<and> dv_Name e = name) \<and>
     (let disable = dvs_Disable (device_server env db tx) \<lparr>cds_TenantID = t, cds_ID = did\<rparr>;
          rename = dvs_UpdateName (device_server env db tx) \<lparr>udr_TenantID = t, udr_ID = did, udr_Name = name\<rparr>
      in \<forall>s' \<in> {snd (rename (snd (disable s))), snd (disable (snd (rename s)))}.
           \<exists>e. device_at rows s' (t, did) = Some e \<and> dv_Status e = ''disabled'' \<and> dv_Name e = name)"
proof -
  have db: "device_db like db rows set_rows now dup" using assms(1) by (simp add: device_tx_def)
  note load = device_db.load_stored [OF db assms(3,4)]
  obtain a b s1 s2 e where run:
    "write_step db t did (Save (Device_Disable env)) d s = (Inr a, s1)" "dv_Status a = ''disabled''"
    "write_step db t did (Save (Device_UpdateName env name)) d s1 = (Inr b, s2)"
    "device_at rows s2 (t, did) = Some e" "dv_Status e = dv_Status d" "dv_Name e = name"
    by (rule device_db.disable_undone [OF db assms(2-5)])
  have run_steps: "(call_step env db tx t)\<^sup>*\<^sup>* (Map.empty, s) (Map.empty, s2)"
    using overlapping_run [of "Save (Device_Disable env)" env t "Save (Device_UpdateName env name)" db did s d tx] load run(1,3)
    by (simp add: device_writes_def del: write_step.simps)
  have "\<forall>s' \<in> {snd (bind_io (load_step db t did) (write_step db t did (Save (Device_UpdateName env name)))
          (snd (bind_io (load_step db t did) (write_step db t did (Save (Device_Disable env))) s))),
        snd (bind_io (load_step db t did) (write_step db t did (Save (Device_Disable env)))
          (snd (bind_io (load_step db t did) (write_step db t did (Save (Device_UpdateName env name))) s)))}.
      \<exists>e. device_at rows s' (t, did) = Some e \<and> dv_Status e = ''disabled'' \<and> dv_Name e = name"
    using device_db.renamed_after_disable [OF db assms(2-6)] by blast
  then show ?thesis using run_steps load run unfolding Let_def service_in_two_steps by auto
qed

section \<open>Two calls on one device\<close>

abbreviation race_writes :: "(device_row list \<times> int) device_write \<times> (device_row list \<times> int) device_write" where
  "race_writes \<equiv> (Save (Device_Disable ref_env), Save (Device_UpdateName ref_env ''south''))"

definition race_end :: "device_row list \<times> int" where
  "race_end = (let db = device_ref ''Duplicate''; d = toDomainDevice device_example
     in snd (write_step db ''t1'' ''d1'' (snd race_writes) d
          (snd (write_step db ''t1'' ''d1'' (fst race_writes) d device_start))))"

lemma race_load: "load_step (device_ref ''Duplicate'') ''t1'' ''d1'' device_start = (Inr (toDomainDevice device_example), device_start)"
  by (rule device_db.load_stored [OF device_ref_db device_start_facts(2)]) (simp add: device_start_facts(3))

lemma device_calls_interleaved_witness: "device_table_valid fst race_end"
proof -
  have "(call_step ref_env (device_ref ''Duplicate'') (device_ref_tx ''Duplicate'') ''t1'')\<^sup>*\<^sup>*
      (Map.empty, device_start) (Map.empty, race_end)"
    unfolding race_end_def Let_def by (rule overlapping_run [OF _ _ race_load]) (simp_all add: device_writes_def)
  then have "(\<lambda>x y. \<exists>t \<in> {''t1''}. call_step ref_env (device_ref ''Duplicate'') (device_ref_tx ''Duplicate'') t x y)\<^sup>*\<^sup>*
      (Map.empty, device_start) (Map.empty, race_end)" by simp
  from device_calls_interleaved [OF device_ref_tx_laws ref_env_world device_start_facts(1) this]
  show ?thesis by (rule conjunct1)
qed

lemma overlapping_calls_witness:
  "\<exists>s2 e. (call_step ref_env (device_ref ''Duplicate'') (device_ref_tx ''Duplicate'') ''t1'')\<^sup>*\<^sup>*
      (Map.empty, device_start) (Map.empty, s2) \<and>
     device_at fst s2 (''t1'', ''d1'') = Some e \<and> dv_Status e = ''pending'' \<and> dv_Name e = ''south''"
proof -
  have d: "device_at fst device_start (''t1'', ''d1'') = Some (toDomainDevice device_example)"
    "dv_Status (toDomainDevice device_example) \<noteq> ''disabled''" "''south'' \<noteq> dv_Name (toDomainDevice device_example)"
    by (simp_all add: device_start_facts toDomainDevice_def device_example_def)
  from overlapping_calls_lose_update [OF device_ref_tx_laws [of "''Duplicate''"] ref_env_world device_start_facts(2) d]
  show ?thesis unfolding device_start_facts(4) by blast
qed

end
