(* ===== verification/Lot_Store.thy ===== *)
theory Lot_Store
  imports Scoped_Store Grpc_Util
begin

text \<open>
  Parking lots: the entity with its status machine and its capacity
  (\<open>domain/parking_lot.go\<close>), the GORM DAO (\<open>repository/dao/parking_lot.go\<close>) and the repository
  (\<open>repository/parking_lot_repo.go\<close>).
\<close>

section \<open>Domain\<close>

definition LotTypeUnderground :: string where [simp]: "LotTypeUnderground = ''underground''"
definition LotTypeGround :: string where [simp]: "LotTypeGround = ''ground''"
definition LotTypeStereo :: string where [simp]: "LotTypeStereo = ''stereo''"

definition ParkingLotStatusActive :: string where [simp]: "ParkingLotStatusActive = ''active''"
definition ParkingLotStatusInactive :: string where [simp]: "ParkingLotStatusInactive = ''inactive''"

record lot =
  l_ID :: string
  l_TenantID :: string
  l_Name :: string
  l_Address :: string
  l_TotalSpaces :: int
  l_AvailableSpaces :: int
  l_LotType :: string
  l_Status :: string
  l_EntryCount :: int
  l_ExitCount :: int
  l_CreatedAt :: int
  l_UpdatedAt :: int

definition NewParkingLot :: "string \<Rightarrow> string \<Rightarrow> int \<Rightarrow> string \<Rightarrow> lot" where
  "NewParkingLot name address totalSpaces lotType =
     \<lparr>l_ID = [], l_TenantID = [], l_Name = name, l_Address = address,
      l_TotalSpaces = totalSpaces, l_AvailableSpaces = totalSpaces, l_LotType = lotType,
      l_Status = ParkingLotStatusActive, l_EntryCount = 0, l_ExitCount = 0, l_CreatedAt = 0,
      l_UpdatedAt = 0\<rparr>"

definition ParkingLot_IsActive :: "lot \<Rightarrow> bool" where
  "ParkingLot_IsActive l = (l_Status l = ParkingLotStatusActive)"

definition ParkingLot_Deactivate :: "lot \<Rightarrow> go_error + lot" where
  "ParkingLot_Deactivate l =
     (if l_Status l \<noteq> ParkingLotStatusActive then Inl (parking ErrParkingLotInvalidStatus)
      else Inr (l\<lparr>l_Status := ParkingLotStatusInactive\<rparr>))"

definition ParkingLot_Activate :: "lot \<Rightarrow> go_error + lot" where
  "ParkingLot_Activate l =
     (if l_Status l \<noteq> ParkingLotStatusInactive then Inl (parking ErrParkingLotInvalidStatus)
      else Inr (l\<lparr>l_Status := ParkingLotStatusActive\<rparr>))"

section \<open>DAO\<close>

record lot_row =
  lr_ID :: string
  lr_TenantID :: string
  lr_Name :: string
  lr_Address :: string
  lr_TotalSpaces :: int
  lr_AvailableSpaces :: int
  lr_LotType :: string
  lr_Status :: string
  lr_CreatedAt :: int
  lr_UpdatedAt :: int

record lot_filter =
  lf_TenantID :: string
  lf_Status :: string
  lf_LotType :: string
  lf_Keyword :: string

record 's lot_dao =
  ld_Insert :: "lot_row \<Rightarrow> (unit, 's) io"
  ld_FindByID :: "string \<Rightarrow> string \<Rightarrow> (lot_row, 's) io"
  ld_FindAll :: "lot_filter \<Rightarrow> int \<Rightarrow> int \<Rightarrow> (lot_row list \<times> int, 's) io"
  ld_Update :: "lot_row \<Rightarrow> (unit, 's) io"
  ld_Delete :: "string \<Rightarrow> string \<Rightarrow> (unit, 's) io"
  ld_SumStats :: "string \<Rightarrow> (int \<times> int, 's) io"
  ld_Count :: "(int, 's) io"

type_synonym 's lot_gorm = "('s, lot_row) gorm"

abbreviation lot_q :: "string \<Rightarrow> string \<Rightarrow> gquery" where
  "lot_q tid lid \<equiv> Where ''tenant_id = ? AND id = ?'' [SqlStr tid, SqlStr lid] Model"

definition GORMParkingLotDAO_Insert :: "'s lot_gorm \<Rightarrow> lot_row \<Rightarrow> (unit, 's) io" where
  "GORMParkingLotDAO_Insert db lot =
     create_or db [''duplicate'', ''UNIQUE''] (parking ErrParkingLotNameDuplicate) lot"

definition GORMParkingLotDAO_FindByID ::
  "'s lot_gorm \<Rightarrow> string \<Rightarrow> string \<Rightarrow> (lot_row, 's) io" where
  "GORMParkingLotDAO_FindByID db tenantID lid =
     first_or db (lot_q tenantID lid) (parking ErrParkingLotNotFound)"

definition lot_query :: "lot_filter \<Rightarrow> gquery" where
  "lot_query f =
     (let like = like_pattern (lf_Keyword f) in
      Where_if (lf_Keyword f \<noteq> []) ''name LIKE ? OR address LIKE ?'' [like, like]
      (Where_if (lf_LotType f \<noteq> []) ''lot_type = ?'' [SqlStr (lf_LotType f)]
      (Where_if (lf_Status f \<noteq> []) ''status = ?'' [SqlStr (lf_Status f)]
      (Where ''tenant_id = ?'' [SqlStr (lf_TenantID f)] Model))))"

definition GORMParkingLotDAO_FindAll ::
  "'s lot_gorm \<Rightarrow> lot_filter \<Rightarrow> int \<Rightarrow> int \<Rightarrow> (lot_row list \<times> int, 's) io" where
  "GORMParkingLotDAO_FindAll db f page pageSize = count_and_page db (lot_query f) page pageSize"

definition lot_columns :: "string list" where
  "lot_columns = [''name'', ''address'', ''total_spaces'', ''available_spaces'', ''lot_type'',
     ''status'', ''updated_at'']"

definition GORMParkingLotDAO_Update :: "'s lot_gorm \<Rightarrow> lot_row \<Rightarrow> (unit, 's) io" where
  "GORMParkingLotDAO_Update db lot =
     affected_or (g_Updates db (Select lot_columns (lot_q (lr_TenantID lot) (lr_ID lot))) lot)
       (parking ErrParkingLotNotFound)"

definition GORMParkingLotDAO_Delete :: "'s lot_gorm \<Rightarrow> string \<Rightarrow> string \<Rightarrow> (unit, 's) io" where
  "GORMParkingLotDAO_Delete db tenantID lid =
     affected_or (g_Delete db (lot_q tenantID lid)) (parking ErrParkingLotNotFound)"

definition lot_sum_columns :: "string list" where
  "lot_sum_columns = [''COALESCE(SUM(total_spaces), 0) as total_spaces'',
     ''COALESCE(SUM(available_spaces), 0) as available_spaces'']"

definition GORMParkingLotDAO_SumStats :: "'s lot_gorm \<Rightarrow> string \<Rightarrow> (int \<times> int, 's) io" where
  "GORMParkingLotDAO_SumStats db tenantID =
     bind_io (g_ScanSums db (Where ''tenant_id = ?'' [SqlStr tenantID] (Select lot_sum_columns Model)))
       (\<lambda>result. return_io (result ! 0, result ! 1))"

definition GORMParkingLotDAO_Count :: "'s lot_gorm \<Rightarrow> (int, 's) io" where
  "GORMParkingLotDAO_Count db = g_Count db Model"

definition NewParkingLotDAO :: "'s lot_gorm \<Rightarrow> 's lot_dao" where
  "NewParkingLotDAO db =
     \<lparr>ld_Insert = GORMParkingLotDAO_Insert db, ld_FindByID = GORMParkingLotDAO_FindByID db,
      ld_FindAll = GORMParkingLotDAO_FindAll db, ld_Update = GORMParkingLotDAO_Update db,
      ld_Delete = GORMParkingLotDAO_Delete db, ld_SumStats = GORMParkingLotDAO_SumStats db,
      ld_Count = GORMParkingLotDAO_Count db\<rparr>"

section \<open>Repository\<close>

record 's lot_repo =
  lp_Create :: "lot \<Rightarrow> (unit, 's) io"
  lp_GetByID :: "string \<Rightarrow> string \<Rightarrow> (lot, 's) io"
  lp_List :: "lot_filter \<Rightarrow> int \<Rightarrow> int \<Rightarrow> (lot list \<times> int, 's) io"
  lp_Update :: "lot \<Rightarrow> (unit, 's) io"
  lp_Delete :: "string \<Rightarrow> string \<Rightarrow> (unit, 's) io"
  lp_SumStats :: "string \<Rightarrow> (int \<times> int, 's) io"

definition lot_toDomain :: "lot_row \<Rightarrow> lot" where
  "lot_toDomain d =
     \<lparr>l_ID = lr_ID d, l_TenantID = lr_TenantID d, l_Name = lr_Name d, l_Address = lr_Address d,
      l_TotalSpaces = lr_TotalSpaces d, l_AvailableSpaces = lr_AvailableSpaces d,
      l_LotType = lr_LotType d, l_Status = lr_Status d, l_EntryCount = 0, l_ExitCount = 0,
      l_CreatedAt = lr_CreatedAt d, l_UpdatedAt = lr_UpdatedAt d\<rparr>"

definition lot_toEntity :: "lot \<Rightarrow> lot_row" where
  "lot_toEntity l =
     \<lparr>lr_ID = l_ID l, lr_TenantID = l_TenantID l, lr_Name = l_Name l, lr_Address = l_Address l,
      lr_TotalSpaces = l_TotalSpaces l, lr_AvailableSpaces = l_AvailableSpaces l,
      lr_LotType = l_LotType l, lr_Status = l_Status l, lr_CreatedAt = l_CreatedAt l,
      lr_UpdatedAt = l_UpdatedAt l\<rparr>"

lemma lot_toEntity_toDomain [simp]: "lot_toEntity (lot_toDomain r) = r"
  by (simp add: lot_toDomain_def lot_toEntity_def)

definition parkingLotRepo_Create :: "'s lot_dao \<Rightarrow> lot \<Rightarrow> (unit, 's) io" where
  "parkingLotRepo_Create d lot = ld_Insert d (lot_toEntity lot)"

definition parkingLotRepo_GetByID :: "'s lot_dao \<Rightarrow> string \<Rightarrow> string \<Rightarrow> (lot, 's) io" where
  "parkingLotRepo_GetByID d tenantID lid =
     bind_io (ld_FindByID d tenantID lid) (\<lambda>r. return_io (lot_toDomain r))"

definition parkingLotRepo_List ::
  "'s lot_dao \<Rightarrow> lot_filter \<Rightarrow> int \<Rightarrow> int \<Rightarrow> (lot list \<times> int, 's) io" where
  "parkingLotRepo_List d f page pageSize =
     bind_io (ld_FindAll d
         \<lparr>lf_TenantID = lf_TenantID f, lf_Status = lf_Status f, lf_LotType = lf_LotType f,
          lf_Keyword = lf_Keyword f\<rparr> page pageSize)
       (\<lambda>(records, n). return_io (map lot_toDomain records, n))"

definition parkingLotRepo_Update :: "'s lot_dao \<Rightarrow> lot \<Rightarrow> (unit, 's) io" where
  "parkingLotRepo_Update d lot = ld_Update d (lot_toEntity lot)"

definition parkingLotRepo_Delete :: "'s lot_dao \<Rightarrow> string \<Rightarrow> string \<Rightarrow> (unit, 's) io" where
  "parkingLotRepo_Delete d tenantID lid = ld_Delete d tenantID lid"

definition parkingLotRepo_SumStats :: "'s lot_dao \<Rightarrow> string \<Rightarrow> (int \<times> int, 's) io" where
  "parkingLotRepo_SumStats d tenantID = ld_SumStats d tenantID"

definition NewParkingLotRepo :: "'s lot_dao \<Rightarrow> 's lot_repo" where
  "NewParkingLotRepo d =
     \<lparr>lp_Create = parkingLotRepo_Create d, lp_GetByID = parkingLotRepo_GetByID d,
      lp_List = parkingLotRepo_List d, lp_Update = parkingLotRepo_Update d,
      lp_Delete = parkingLotRepo_Delete d, lp_SumStats = parkingLotRepo_SumStats d\<rparr>"

lemmas lot_store_defs =
  NewParkingLotRepo_def parkingLotRepo_Create_def parkingLotRepo_GetByID_def
  parkingLotRepo_List_def parkingLotRepo_Update_def parkingLotRepo_Delete_def
  parkingLotRepo_SumStats_def NewParkingLotDAO_def GORMParkingLotDAO_Insert_def
  GORMParkingLotDAO_FindByID_def GORMParkingLotDAO_FindAll_def GORMParkingLotDAO_Update_def
  GORMParkingLotDAO_Delete_def GORMParkingLotDAO_SumStats_def

section \<open>The table\<close>

fun lot_holds :: "(string \<Rightarrow> string \<Rightarrow> bool) \<Rightarrow> sql_cond \<Rightarrow> lot_row \<Rightarrow> bool" where
  "lot_holds like (c, [SqlStr v]) r =
     (if c = ''tenant_id = ?'' then lr_TenantID r = v
      else if c = ''status = ?'' then lr_Status r = v
      else if c = ''lot_type = ?'' then lr_LotType r = v else False)"
| "lot_holds like (c, [SqlStr v, SqlStr w]) r =
     (if c = ''tenant_id = ? AND id = ?'' then lr_TenantID r = v \<and> lr_ID r = w
      else if c = ''name LIKE ? OR address LIKE ?''
      then like v (lr_Name r) \<or> like w (lr_Address r) else False)"
| "lot_holds like _ r = False"

definition lot_clash :: "lot_row \<Rightarrow> lot_row \<Rightarrow> bool" where
  "lot_clash r' r \<longleftrightarrow>
     lr_ID r' = lr_ID r \<or> lr_TenantID r' = lr_TenantID r \<and> lr_Name r' = lr_Name r"

definition lot_stamp :: "int \<Rightarrow> lot_row \<Rightarrow> lot_row" where
  "lot_stamp now r =
     r\<lparr>lr_CreatedAt := (if lr_CreatedAt r = 0 then now else lr_CreatedAt r),
       lr_UpdatedAt := (if lr_UpdatedAt r = 0 then now else lr_UpdatedAt r)\<rparr>"

definition lot_assign :: "int \<Rightarrow> string list \<Rightarrow> lot_row \<Rightarrow> lot_row \<Rightarrow> lot_row" where
  "lot_assign now cols new old =
     old\<lparr>lr_Name := (if ''name'' \<in> set cols then lr_Name new else lr_Name old),
         lr_Address := (if ''address'' \<in> set cols then lr_Address new else lr_Address old),
         lr_TotalSpaces :=
           (if ''total_spaces'' \<in> set cols then lr_TotalSpaces new else lr_TotalSpaces old),
         lr_AvailableSpaces := (if ''available_spaces'' \<in> set cols
            then lr_AvailableSpaces new else lr_AvailableSpaces old),
         lr_LotType := (if ''lot_type'' \<in> set cols then lr_LotType new else lr_LotType old),
         lr_Status := (if ''status'' \<in> set cols then lr_Status new else lr_Status old),
         lr_UpdatedAt := now\<rparr>"

fun lot_order :: "string \<Rightarrow> lot_row \<Rightarrow> int" where
  "lot_order c r = (if c = ''created_at DESC'' then - lr_CreatedAt r else 0)"

definition lot_key :: "lot_row \<Rightarrow> string \<times> string" where
  "lot_key r = (lr_TenantID r, lr_ID r)"

definition lot_overlay :: "int \<Rightarrow> lot \<Rightarrow> lot \<Rightarrow> lot" where
  "lot_overlay now new old =
     old\<lparr>l_Name := l_Name new, l_Address := l_Address new, l_TotalSpaces := l_TotalSpaces new,
         l_AvailableSpaces := l_AvailableSpaces new, l_LotType := l_LotType new,
         l_Status := l_Status new, l_UpdatedAt := now\<rparr>"

text \<open>
  Some spaces may be taken, never more than there are, and the capacity fits the \<open>int32\<close> of the
  API.
\<close>

definition lot_valid :: "lot \<Rightarrow> bool" where
  "lot_valid l \<longleftrightarrow> 0 \<le> l_AvailableSpaces l \<and> l_AvailableSpaces l \<le> l_TotalSpaces l \<and>
     l_TotalSpaces l < 2 ^ 31 \<and> l_Status l \<in> {''active'', ''inactive''}"

definition lot_row_valid :: "lot_row \<Rightarrow> bool" where
  "lot_row_valid r = lot_valid (lot_toDomain r)"

lemma lot_assign_overlay:
  "lot_toDomain (lot_assign now lot_columns (lot_toEntity new) old) =
     lot_overlay now new (lot_toDomain old)"
  by (simp add: lot_assign_def lot_columns_def lot_toDomain_def lot_toEntity_def lot_overlay_def)

lemma lot_q_matches: "matches (lot_holds like) (lot_q tid lid) r \<longleftrightarrow> lot_key r = (tid, lid)"
  by (simp add: matches_def query_simps lot_key_def)

lemma lot_assign_key [simp]:
  "lot_key (lot_assign now cols new r) = lot_key r"
  "lr_TenantID (lot_assign now cols new r) = lr_TenantID r"
  "lot_key (lot_stamp t r) = lot_key r" "lr_TenantID (lot_stamp t r) = lr_TenantID r"
  by (simp_all add: lot_key_def lot_assign_def lot_stamp_def)

text \<open>Beside the laws of a table, what the database returns for the two sums.\<close>

locale lot_db =
  gorm_table db rows set_rows "lot_holds like" lot_clash now lot_stamp lot_assign
    "\<lambda>t cols r. r" "\<lambda>c r. []" lot_order dup
  for like :: "string \<Rightarrow> string \<Rightarrow> bool" and db :: "'s lot_gorm" and rows and set_rows and now and dup +
  assumes lot_sums:
    "q_select q = lot_sum_columns \<Longrightarrow>
       g_ScanSums db q s =
         (Inr [sum_list (map lr_TotalSpaces (filter (matches (lot_holds like) q) (rows s))),
               sum_list (map lr_AvailableSpaces (filter (matches (lot_holds like) q) (rows s)))], s)"

sublocale lot_db < lots: scoped_entity db rows set_rows "lot_holds like" lot_clash now
  lot_stamp lot_assign "\<lambda>t cols r. r" "\<lambda>c r. []" lot_order dup
  "\<lambda>(tid, lid). lot_q tid lid" lot_key lot_toDomain lot_toEntity lot_columns
  lot_overlay "parking ErrParkingLotNotFound" "[''duplicate'', ''UNIQUE'']"
  "parking ErrParkingLotNameDuplicate" lr_TenantID lot_row_valid
proof (unfold_locales, goal_cases)
  case (1 k r)
  then show ?case by (cases k) (simp add: lot_q_matches)
qed (simp_all add: lot_assign_overlay, auto simp: lot_key_def lot_clash_def lot_stamp_def)

abbreviation "lot_at rows \<equiv> entity_at rows lot_key lot_toDomain"
abbreviation "lots_ok rows \<equiv> table_intact lot_clash rows"
abbreviation "lot_inv rows \<equiv> scope_inv lot_clash rows lr_TenantID lot_row_valid"

definition lot_ref :: "string \<Rightarrow> (lot_row list \<times> int) lot_gorm" where
  "lot_ref dup = ref_gorm (lot_holds sql_like) lot_clash lot_stamp lot_assign
     (\<lambda>t cols r. r) (\<lambda>c r. []) lot_order (\<lambda>cols r. [lr_TotalSpaces r, lr_AvailableSpaces r]) dup"

lemma sum_two_columns:
  "foldr (\<lambda>r acc. map2 (+) [f r, g r] acc) xs [0, 0] =
     [sum_list (map f xs), sum_list (map g xs) :: int]"
  by (induction xs) simp_all

lemma lot_ref_db: "lot_db sql_like (lot_ref dup) fst ref_set snd dup"
  unfolding lot_db_def lot_db_axioms_def
proof (intro conjI allI impI)
  show "gorm_table (lot_ref dup) fst ref_set (lot_holds sql_like) lot_clash snd lot_stamp lot_assign
      (\<lambda>t cols r. r) (\<lambda>c r. []) lot_order dup"
    unfolding lot_ref_def by (rule ref_gorm_table)
next
  fix q :: gquery and s :: "lot_row list \<times> int"
  assume "q_select q = lot_sum_columns"
  then show "g_ScanSums (lot_ref dup) q s =
      (Inr [sum_list (map lr_TotalSpaces (filter (matches (lot_holds sql_like) q) (fst s))),
            sum_list (map lr_AvailableSpaces (filter (matches (lot_holds sql_like) q) (fst s)))], s)"
    using sum_two_columns [of lr_TotalSpaces lr_AvailableSpaces "filter (matches (lot_holds sql_like) q) (fst s)"]
    by (cases s) (simp add: lot_ref_def ref_gorm_def lot_sum_columns_def)
qed

interpretation lot_ref: lot_db sql_like "lot_ref dup" fst ref_set snd dup for dup
  by (rule lot_ref_db)

end
