(* ===== verification/Lane_Store.thy ===== *)
theory Lane_Store
  imports Scoped_Store Grpc_Util "HOL-Library.AList"
begin

text \<open>
  Lanes, the entries and exits of a parking lot: the entity (\<open>domain/lane.go\<close>), the GORM DAO
  (\<open>repository/dao/lane.go\<close>) and the repository (\<open>repository/lane_repo.go\<close>). A lane belongs to a
  tenant's parking lot; a Go map from strings is an association list.
\<close>

section \<open>Domain\<close>

definition LaneTypeEntry :: string where [simp]: "LaneTypeEntry = ''entry''"
definition LaneTypeExit :: string where [simp]: "LaneTypeExit = ''exit''"

record lane =
  ln_ID :: string
  ln_TenantID :: string
  ln_ParkingLotID :: string
  ln_Name :: string
  ln_Type :: string
  ln_DeviceID :: "string option"
  ln_CreatedAt :: int
  ln_UpdatedAt :: int

definition NewLane ::
  "'s go_env \<Rightarrow> string \<Rightarrow> string \<Rightarrow> string \<Rightarrow> string \<Rightarrow> string \<Rightarrow> (lane, 's) io" where
  "NewLane env lid tenantID parkingLotID name laneType =
     bind_io (ask_io (time_Now env)) (\<lambda>created.
     bind_io (ask_io (time_Now env)) (\<lambda>updated.
     return_io \<lparr>ln_ID = lid, ln_TenantID = tenantID, ln_ParkingLotID = parkingLotID,
                ln_Name = name, ln_Type = laneType, ln_DeviceID = None,
                ln_CreatedAt = UnixMilli created, ln_UpdatedAt = UnixMilli updated\<rparr>))"

definition Lane_SetDevice :: "'s go_env \<Rightarrow> string \<Rightarrow> lane \<Rightarrow> (lane, 's) io" where
  "Lane_SetDevice env deviceID l =
     bind_io (ask_io (time_Now env)) (\<lambda>now.
     return_io (l\<lparr>ln_DeviceID := Some deviceID, ln_UpdatedAt := UnixMilli now\<rparr>))"

definition Lane_ClearDevice :: "'s go_env \<Rightarrow> lane \<Rightarrow> (lane, 's) io" where
  "Lane_ClearDevice env l =
     bind_io (ask_io (time_Now env)) (\<lambda>now.
     return_io (l\<lparr>ln_DeviceID := None, ln_UpdatedAt := UnixMilli now\<rparr>))"

section \<open>DAO\<close>

record lane_row =
  lnr_ID :: string
  lnr_TenantID :: string
  lnr_ParkingLotID :: string
  lnr_Name :: string
  lnr_LaneType :: string
  lnr_DeviceID :: "string option"
  lnr_CreatedAt :: int
  lnr_UpdatedAt :: int

record LaneTypeCount =
  ltc_Entry :: int
  ltc_Exit :: int

record 's lane_dao =
  lnd_Insert :: "lane_row \<Rightarrow> (unit, 's) io"
  lnd_FindByID :: "string \<Rightarrow> string \<Rightarrow> (lane_row, 's) io"
  lnd_FindByParkingLotID :: "string \<Rightarrow> string \<Rightarrow> (lane_row list, 's) io"
  lnd_Update :: "lane_row \<Rightarrow> (unit, 's) io"
  lnd_Delete :: "string \<Rightarrow> string \<Rightarrow> (unit, 's) io"
  lnd_ExistsByName :: "string \<Rightarrow> string \<Rightarrow> (bool, 's) io"
  lnd_CountByParkingLots :: "string \<Rightarrow> string list \<Rightarrow> ((string \<times> LaneTypeCount) list, 's) io"

type_synonym 's lane_gorm = "('s, lane_row) gorm"

abbreviation lane_q :: "string \<Rightarrow> string \<Rightarrow> gquery" where
  "lane_q tid lid \<equiv> Where ''tenant_id = ? AND id = ?'' [SqlStr tid, SqlStr lid] Model"

definition GORMLaneDAO_Insert :: "'s lane_gorm \<Rightarrow> lane_row \<Rightarrow> (unit, 's) io" where
  "GORMLaneDAO_Insert db lane =
     create_or db [''duplicate'', ''UNIQUE''] (parking ErrLaneNameDuplicate) lane"

definition GORMLaneDAO_FindByID :: "'s lane_gorm \<Rightarrow> string \<Rightarrow> string \<Rightarrow> (lane_row, 's) io" where
  "GORMLaneDAO_FindByID db tenantID lid =
     first_or db (lane_q tenantID lid) (parking ErrLaneNotFound)"

definition GORMLaneDAO_FindByParkingLotID ::
  "'s lane_gorm \<Rightarrow> string \<Rightarrow> string \<Rightarrow> (lane_row list, 's) io" where
  "GORMLaneDAO_FindByParkingLotID db tenantID parkingLotID =
     g_Find db (Order ''created_at ASC''
       (Where ''tenant_id = ? AND parking_lot_id = ?'' [SqlStr tenantID, SqlStr parkingLotID] Model))"

definition lane_columns :: "string list" where
  "lane_columns = [''name'', ''lane_type'', ''device_id'', ''updated_at'']"

definition GORMLaneDAO_Update :: "'s lane_gorm \<Rightarrow> lane_row \<Rightarrow> (unit, 's) io" where
  "GORMLaneDAO_Update db lane =
     affected_or (g_Updates db
         (Select lane_columns (lane_q (lnr_TenantID lane) (lnr_ID lane))) lane)
       (parking ErrLaneNotFound)"

definition GORMLaneDAO_Delete :: "'s lane_gorm \<Rightarrow> string \<Rightarrow> string \<Rightarrow> (unit, 's) io" where
  "GORMLaneDAO_Delete db tenantID lid =
     affected_or (g_Delete db (lane_q tenantID lid)) (parking ErrLaneNotFound)"

definition GORMLaneDAO_ExistsByName :: "'s lane_gorm \<Rightarrow> string \<Rightarrow> string \<Rightarrow> (bool, 's) io" where
  "GORMLaneDAO_ExistsByName db parkingLotID name =
     bind_io (g_Count db (Where ''parking_lot_id = ? AND name = ?''
                [SqlStr parkingLotID, SqlStr name] Model))
       (\<lambda>count. return_io (0 < count))"

text \<open>The loop over the scanned rows; each row names a lot, a type and a count.\<close>

fun lane_tally ::
  "(string \<times> LaneTypeCount) list \<Rightarrow> (string list \<times> int) list \<Rightarrow> (string \<times> LaneTypeCount) list" where
  "lane_tally counts [] = counts"
| "lane_tally counts (([lot, ty], n) # rest) =
     (let c = (case map_of counts lot of
                 None \<Rightarrow> \<lparr>ltc_Entry = 0, ltc_Exit = 0\<rparr> | Some c \<Rightarrow> c);
          c = (if ty = ''entry'' then c\<lparr>ltc_Entry := n\<rparr>
               else if ty = ''exit'' then c\<lparr>ltc_Exit := n\<rparr> else c)
      in lane_tally (AList.update lot c counts) rest)"
| "lane_tally counts (_ # rest) = lane_tally counts rest"

definition GORMLaneDAO_CountByParkingLots ::
  "'s lane_gorm \<Rightarrow> string \<Rightarrow> string list \<Rightarrow> ((string \<times> LaneTypeCount) list, 's) io" where
  "GORMLaneDAO_CountByParkingLots db tenantID parkingLotIDs =
     (if parkingLotIDs = [] then return_io []
      else bind_io (g_ScanCounts db (Group ''parking_lot_id, lane_type''
               (Where ''tenant_id = ? AND parking_lot_id IN ?'' [SqlStr tenantID, SqlStrs parkingLotIDs]
               (Select [''parking_lot_id'', ''lane_type'', ''count(*) as count''] Model))))
             (\<lambda>results. return_io (lane_tally [] results)))"

definition NewLaneDAO :: "'s lane_gorm \<Rightarrow> 's lane_dao" where
  "NewLaneDAO db =
     \<lparr>lnd_Insert = GORMLaneDAO_Insert db, lnd_FindByID = GORMLaneDAO_FindByID db,
      lnd_FindByParkingLotID = GORMLaneDAO_FindByParkingLotID db,
      lnd_Update = GORMLaneDAO_Update db, lnd_Delete = GORMLaneDAO_Delete db,
      lnd_ExistsByName = GORMLaneDAO_ExistsByName db,
      lnd_CountByParkingLots = GORMLaneDAO_CountByParkingLots db\<rparr>"

section \<open>Repository\<close>

record LaneCountResult =
  lcr_EntryCount :: int
  lcr_ExitCount :: int

record 's lane_repo =
  lnp_Create :: "lane \<Rightarrow> (unit, 's) io"
  lnp_GetByID :: "string \<Rightarrow> string \<Rightarrow> (lane, 's) io"
  lnp_ListByParkingLotID :: "string \<Rightarrow> string \<Rightarrow> (lane list, 's) io"
  lnp_Update :: "lane \<Rightarrow> (unit, 's) io"
  lnp_Delete :: "string \<Rightarrow> string \<Rightarrow> (unit, 's) io"
  lnp_ExistsByName :: "string \<Rightarrow> string \<Rightarrow> (bool, 's) io"
  lnp_CountByParkingLots :: "string \<Rightarrow> string list \<Rightarrow> ((string \<times> LaneCountResult) list, 's) io"

definition toLaneDomain :: "lane_row \<Rightarrow> lane" where
  "toLaneDomain d =
     \<lparr>ln_ID = lnr_ID d, ln_TenantID = lnr_TenantID d, ln_ParkingLotID = lnr_ParkingLotID d,
      ln_Name = lnr_Name d, ln_Type = lnr_LaneType d, ln_DeviceID = lnr_DeviceID d,
      ln_CreatedAt = lnr_CreatedAt d, ln_UpdatedAt = lnr_UpdatedAt d\<rparr>"

definition toLaneEntity :: "lane \<Rightarrow> lane_row" where
  "toLaneEntity l =
     \<lparr>lnr_ID = ln_ID l, lnr_TenantID = ln_TenantID l, lnr_ParkingLotID = ln_ParkingLotID l,
      lnr_Name = ln_Name l, lnr_LaneType = ln_Type l, lnr_DeviceID = ln_DeviceID l,
      lnr_CreatedAt = ln_CreatedAt l, lnr_UpdatedAt = ln_UpdatedAt l\<rparr>"

lemma toLaneDomain_toLaneEntity [simp]: "toLaneDomain (toLaneEntity l) = l"
  by (simp add: toLaneDomain_def toLaneEntity_def)

lemma toLaneEntity_toLaneDomain [simp]: "toLaneEntity (toLaneDomain r) = r"
  by (simp add: toLaneDomain_def toLaneEntity_def)

definition laneRepo_Create :: "'s lane_dao \<Rightarrow> lane \<Rightarrow> (unit, 's) io" where
  "laneRepo_Create d lane = lnd_Insert d (toLaneEntity lane)"

definition laneRepo_GetByID :: "'s lane_dao \<Rightarrow> string \<Rightarrow> string \<Rightarrow> (lane, 's) io" where
  "laneRepo_GetByID d tenantID lid =
     bind_io (lnd_FindByID d tenantID lid) (\<lambda>r. return_io (toLaneDomain r))"

definition laneRepo_ListByParkingLotID ::
  "'s lane_dao \<Rightarrow> string \<Rightarrow> string \<Rightarrow> (lane list, 's) io" where
  "laneRepo_ListByParkingLotID d tenantID parkingLotID =
     bind_io (lnd_FindByParkingLotID d tenantID parkingLotID)
       (\<lambda>records. return_io (map toLaneDomain records))"

definition laneRepo_Update :: "'s lane_dao \<Rightarrow> lane \<Rightarrow> (unit, 's) io" where
  "laneRepo_Update d lane = lnd_Update d (toLaneEntity lane)"

definition laneRepo_Delete :: "'s lane_dao \<Rightarrow> string \<Rightarrow> string \<Rightarrow> (unit, 's) io" where
  "laneRepo_Delete d tenantID lid = lnd_Delete d tenantID lid"

definition laneRepo_ExistsByName :: "'s lane_dao \<Rightarrow> string \<Rightarrow> string \<Rightarrow> (bool, 's) io" where
  "laneRepo_ExistsByName d parkingLotID name = lnd_ExistsByName d parkingLotID name"

definition laneRepo_CountByParkingLots ::
  "'s lane_dao \<Rightarrow> string \<Rightarrow> string list \<Rightarrow> ((string \<times> LaneCountResult) list, 's) io" where
  "laneRepo_CountByParkingLots d tenantID parkingLotIDs =
     bind_io (lnd_CountByParkingLots d tenantID parkingLotIDs) (\<lambda>daoCounts.
     return_io (map (\<lambda>(k, v). (k, \<lparr>lcr_EntryCount = ltc_Entry v, lcr_ExitCount = ltc_Exit v\<rparr>))
       daoCounts))"

definition NewLaneRepo :: "'s lane_dao \<Rightarrow> 's lane_repo" where
  "NewLaneRepo d =
     \<lparr>lnp_Create = laneRepo_Create d, lnp_GetByID = laneRepo_GetByID d,
      lnp_ListByParkingLotID = laneRepo_ListByParkingLotID d, lnp_Update = laneRepo_Update d,
      lnp_Delete = laneRepo_Delete d, lnp_ExistsByName = laneRepo_ExistsByName d,
      lnp_CountByParkingLots = laneRepo_CountByParkingLots d\<rparr>"

lemmas lane_store_defs =
  NewLaneRepo_def laneRepo_Create_def laneRepo_GetByID_def laneRepo_ListByParkingLotID_def
  laneRepo_Update_def laneRepo_Delete_def laneRepo_ExistsByName_def
  laneRepo_CountByParkingLots_def NewLaneDAO_def GORMLaneDAO_Insert_def
  GORMLaneDAO_FindByID_def GORMLaneDAO_FindByParkingLotID_def GORMLaneDAO_Update_def
  GORMLaneDAO_Delete_def GORMLaneDAO_ExistsByName_def GORMLaneDAO_CountByParkingLots_def

section \<open>The table\<close>

fun lane_holds :: "sql_cond \<Rightarrow> lane_row \<Rightarrow> bool" where
  "lane_holds (c, [SqlStr v, SqlStr w]) r =
     (if c = ''tenant_id = ? AND id = ?'' then lnr_TenantID r = v \<and> lnr_ID r = w
      else if c = ''tenant_id = ? AND parking_lot_id = ?''
      then lnr_TenantID r = v \<and> lnr_ParkingLotID r = w
      else if c = ''parking_lot_id = ? AND name = ?''
      then lnr_ParkingLotID r = v \<and> lnr_Name r = w else False)"
| "lane_holds (c, [SqlStr v, SqlStrs ids]) r =
     (c = ''tenant_id = ? AND parking_lot_id IN ?'' \<and> lnr_TenantID r = v \<and>
      lnr_ParkingLotID r \<in> set ids)"
| "lane_holds _ r = False"

definition lane_clash :: "lane_row \<Rightarrow> lane_row \<Rightarrow> bool" where
  "lane_clash r' r \<longleftrightarrow> lnr_ID r' = lnr_ID r \<or>
     lnr_TenantID r' = lnr_TenantID r \<and> lnr_ParkingLotID r' = lnr_ParkingLotID r \<and>
     lnr_Name r' = lnr_Name r"

definition lane_stamp :: "int \<Rightarrow> lane_row \<Rightarrow> lane_row" where
  "lane_stamp now r =
     r\<lparr>lnr_CreatedAt := (if lnr_CreatedAt r = 0 then now else lnr_CreatedAt r),
       lnr_UpdatedAt := (if lnr_UpdatedAt r = 0 then now else lnr_UpdatedAt r)\<rparr>"

definition lane_assign :: "int \<Rightarrow> string list \<Rightarrow> lane_row \<Rightarrow> lane_row \<Rightarrow> lane_row" where
  "lane_assign now cols new old =
     old\<lparr>lnr_Name := (if ''name'' \<in> set cols then lnr_Name new else lnr_Name old),
         lnr_LaneType := (if ''lane_type'' \<in> set cols then lnr_LaneType new else lnr_LaneType old),
         lnr_DeviceID := (if ''device_id'' \<in> set cols then lnr_DeviceID new else lnr_DeviceID old),
         lnr_UpdatedAt := now\<rparr>"

fun lane_group :: "string \<Rightarrow> lane_row \<Rightarrow> string list" where
  "lane_group c r =
     (if c = ''parking_lot_id, lane_type'' then [lnr_ParkingLotID r, lnr_LaneType r] else [])"

fun lane_order :: "string \<Rightarrow> lane_row \<Rightarrow> int" where
  "lane_order c r = (if c = ''created_at ASC'' then lnr_CreatedAt r else 0)"

definition lane_key :: "lane_row \<Rightarrow> string \<times> string" where
  "lane_key r = (lnr_TenantID r, lnr_ID r)"

definition lane_overlay :: "int \<Rightarrow> lane \<Rightarrow> lane \<Rightarrow> lane" where
  "lane_overlay now new old =
     old\<lparr>ln_Name := ln_Name new, ln_Type := ln_Type new, ln_DeviceID := ln_DeviceID new,
         ln_UpdatedAt := now\<rparr>"

text \<open>The owner of a lane is the tenant's parking lot.\<close>

definition lane_scope :: "lane_row \<Rightarrow> string \<times> string" where
  "lane_scope r = (lnr_TenantID r, lnr_ParkingLotID r)"

lemma lane_assign_overlay:
  "toLaneDomain (lane_assign now lane_columns (toLaneEntity new) old) =
     lane_overlay now new (toLaneDomain old)"
  by (simp add: lane_assign_def lane_columns_def toLaneDomain_def toLaneEntity_def lane_overlay_def)

lemma lane_q_matches: "matches lane_holds (lane_q tid lid) r \<longleftrightarrow> lane_key r = (tid, lid)"
  by (simp add: matches_def query_simps lane_key_def)

lemma lane_assign_key [simp]:
  "lane_key (lane_assign now cols new r) = lane_key r"
  "lane_scope (lane_assign now cols new r) = lane_scope r"
  "lane_key (lane_stamp t r) = lane_key r" "lane_scope (lane_stamp t r) = lane_scope r"
  by (simp_all add: lane_key_def lane_scope_def lane_assign_def lane_stamp_def)

locale lane_db =
  gorm_table db rows set_rows lane_holds lane_clash now lane_stamp lane_assign
    "\<lambda>t cols r. r" lane_group lane_order dup
  for db :: "'s lane_gorm" and rows and set_rows and now and dup

sublocale lane_db < lanes: scoped_entity db rows set_rows lane_holds lane_clash now
  lane_stamp lane_assign "\<lambda>t cols r. r" lane_group lane_order dup
  "\<lambda>(tid, lid). lane_q tid lid" lane_key toLaneDomain toLaneEntity lane_columns
  lane_overlay "parking ErrLaneNotFound" "[''duplicate'', ''UNIQUE'']"
  "parking ErrLaneNameDuplicate" lane_scope "\<lambda>r. True"
proof (unfold_locales, goal_cases)
  case (1 k r)
  then show ?case by (cases k) (simp add: lane_q_matches)
qed (simp_all add: lane_assign_overlay, auto simp: lane_key_def lane_clash_def lane_stamp_def)

abbreviation "lane_at rows \<equiv> entity_at rows lane_key toLaneDomain"
abbreviation "lanes_ok rows \<equiv> table_intact lane_clash rows"
abbreviation "lane_inv rows \<equiv> scope_inv lane_clash rows lane_scope (\<lambda>r. True)"

definition lane_ref :: "string \<Rightarrow> (lane_row list \<times> int) lane_gorm" where
  "lane_ref dup = ref_gorm lane_holds lane_clash lane_stamp lane_assign
     (\<lambda>t cols r. r) lane_group lane_order (\<lambda>cols r. []) dup"

lemma lane_ref_db: "lane_db (lane_ref dup) fst ref_set snd dup"
  unfolding lane_ref_def lane_db_def by (rule ref_gorm_table)

interpretation lane_ref: lane_db "lane_ref dup" fst ref_set snd dup for dup
  by (rule lane_ref_db)

end
