(* ===== verification/Lot_Service.thy ===== *)
theory Lot_Service
  imports Lot_Store Lane_Store
begin

text \<open>
  The parking-lot service (\<open>service/parking_lot_service.go\<close>) and its gRPC server
  (\<open>grpc/parking_lot_server.go\<close>, \<open>grpc/helpers.go\<close>). The lane repository may be nil.
\<close>

section \<open>Service\<close>

record CreateParkingLotRequest =
  clr_TenantID :: string
  clr_Name :: string
  clr_Address :: string
  clr_TotalSpaces :: int
  clr_LotType :: string

record UpdateParkingLotRequest =
  ulr_ID :: string
  ulr_TenantID :: string
  ulr_Name :: "string option"
  ulr_Address :: "string option"
  ulr_TotalSpaces :: "int option"
  ulr_LotType :: "string option"
  ulr_Status :: "string option"

record ListParkingLotsRequest =
  llr_TenantID :: string
  llr_Status :: string
  llr_LotType :: string
  llr_Keyword :: string
  llr_Page :: int
  llr_PageSize :: int

record ParkingLotListResponse =
  plr_ParkingLots :: "lot list"
  plr_Total :: int
  plr_Page :: int
  plr_PageSize :: int
  plr_TotalPages :: int

record ParkingLotStatsResponse =
  psr_TotalSpaces :: int
  psr_AvailableSpaces :: int
  psr_OccupiedVehicles :: int
  psr_TotalGates :: int

record 's lot_service =
  ls_Create :: "CreateParkingLotRequest \<Rightarrow> (lot, 's) io"
  ls_GetByID :: "string \<Rightarrow> string \<Rightarrow> (lot, 's) io"
  ls_List :: "ListParkingLotsRequest \<Rightarrow> (ParkingLotListResponse, 's) io"
  ls_Update :: "UpdateParkingLotRequest \<Rightarrow> (lot, 's) io"
  ls_Delete :: "string \<Rightarrow> string \<Rightarrow> (unit, 's) io"
  ls_GetStats :: "string \<Rightarrow> (ParkingLotStatsResponse, 's) io"

definition parkingLotService_Create ::
  "'s go_env \<Rightarrow> 's lot_repo \<Rightarrow> CreateParkingLotRequest \<Rightarrow> (lot, 's) io" where
  "parkingLotService_Create env repo req =
     bind_io (ask_io (uuid_New env)) (\<lambda>uid.
     let lot = (NewParkingLot (clr_Name req) (clr_Address req) (clr_TotalSpaces req) (clr_LotType req))
                 \<lparr>l_ID := uid, l_TenantID := clr_TenantID req\<rparr>
     in bind_io (lp_Create repo lot) (\<lambda>_. return_io lot))"

text \<open>The counts go into the lots that the caller holds; errors are dropped.\<close>

definition populateLaneCounts ::
  "'s lane_repo option \<Rightarrow> string \<Rightarrow> lot list \<Rightarrow> (lot list, 's) io" where
  "populateLaneCounts laneRepo tenantID lots =
     (case laneRepo of
        None \<Rightarrow> return_io lots
      | Some lr \<Rightarrow>
          if lots = [] then return_io lots
          else try_io (lnp_CountByParkingLots lr tenantID (map l_ID lots)) (\<lambda>res.
            case res of
              Inl _ \<Rightarrow> return_io lots
            | Inr counts \<Rightarrow> return_io (map (\<lambda>l.
                case map_of counts (l_ID l) of
                  None \<Rightarrow> l
                | Some c \<Rightarrow> l\<lparr>l_EntryCount := lcr_EntryCount c, l_ExitCount := lcr_ExitCount c\<rparr>)
                lots)))"

definition parkingLotService_GetByID ::
  "'s lot_repo \<Rightarrow> 's lane_repo option \<Rightarrow> string \<Rightarrow> string \<Rightarrow> (lot, 's) io" where
  "parkingLotService_GetByID repo laneRepo tenantID lid =
     bind_io (lp_GetByID repo tenantID lid) (\<lambda>lot.
     bind_io (populateLaneCounts laneRepo tenantID [lot]) (\<lambda>lots. return_io (hd lots)))"

definition parkingLotService_List ::
  "'s lot_repo \<Rightarrow> 's lane_repo option \<Rightarrow> ListParkingLotsRequest \<Rightarrow>
   (ParkingLotListResponse, 's) io" where
  "parkingLotService_List repo laneRepo req =
     (let page = normal_page (llr_Page req);
          pageSize = normal_pageSize (llr_PageSize req);
          lfilter = \<lparr>lf_TenantID = llr_TenantID req, lf_Status = llr_Status req,
                     lf_LotType = llr_LotType req, lf_Keyword = llr_Keyword req\<rparr>
      in bind_io (lp_List repo lfilter page pageSize) (\<lambda>(lots, n).
         bind_io (populateLaneCounts laneRepo (llr_TenantID req) lots) (\<lambda>lots.
         return_io \<lparr>plr_ParkingLots = lots, plr_Total = n, plr_Page = page,
                    plr_PageSize = pageSize, plr_TotalPages = total_pages n pageSize\<rparr>)))"

text \<open>The three parts of \<open>Update\<close> that change the loaded lot.\<close>

definition lot_change_status :: "string option \<Rightarrow> lot \<Rightarrow> go_error + lot" where
  "lot_change_status status lot =
     (case status of
        None \<Rightarrow> Inr lot
      | Some st \<Rightarrow>
          if st = ParkingLotStatusActive then ParkingLot_Activate lot
          else if st = ParkingLotStatusInactive then ParkingLot_Deactivate lot
          else Inr lot)"

definition lot_change_capacity :: "int option \<Rightarrow> lot \<Rightarrow> go_error + lot" where
  "lot_change_capacity totalSpaces lot =
     (case totalSpaces of
        None \<Rightarrow> Inr lot
      | Some newTotal \<Rightarrow>
          let occupied = i64 (l_TotalSpaces lot - l_AvailableSpaces lot)
          in if newTotal < occupied then Inl (parking ErrParkingLotInvalidCapacity)
             else Inr (lot\<lparr>l_TotalSpaces := newTotal,
                           l_AvailableSpaces := i64 (newTotal - occupied)\<rparr>))"

definition lot_change_texts :: "UpdateParkingLotRequest \<Rightarrow> lot \<Rightarrow> lot" where
  "lot_change_texts req lot =
     lot\<lparr>l_Name := assign_if (ulr_Name req) (l_Name lot),
         l_Address := assign_if (ulr_Address req) (l_Address lot),
         l_LotType := assign_if (ulr_LotType req) (l_LotType lot)\<rparr>"

definition parkingLotService_Update ::
  "'s lot_repo \<Rightarrow> UpdateParkingLotRequest \<Rightarrow> (lot, 's) io" where
  "parkingLotService_Update repo req =
     bind_io (lp_GetByID repo (ulr_TenantID req) (ulr_ID req)) (\<lambda>lot.
     bind_io (lift_io (lot_change_status (ulr_Status req) lot)) (\<lambda>lot.
     bind_io (lift_io (lot_change_capacity (ulr_TotalSpaces req) lot)) (\<lambda>lot.
     let lot = lot_change_texts req lot
     in bind_io (lp_Update repo lot) (\<lambda>_. return_io lot))))"

definition parkingLotService_Delete :: "'s lot_repo \<Rightarrow> string \<Rightarrow> string \<Rightarrow> (unit, 's) io" where
  "parkingLotService_Delete repo tenantID lid = lp_Delete repo tenantID lid"

text \<open>\<open>totalGates += int64(c.EntryCount + c.ExitCount)\<close> over the counts.\<close>

definition sum_gates :: "(string \<times> LaneCountResult) list \<Rightarrow> int" where
  "sum_gates counts =
     foldl (\<lambda>totalGates (k, c). i64 (totalGates + i64 (lcr_EntryCount c + lcr_ExitCount c))) 0 counts"

definition count_gates :: "'s lot_repo \<Rightarrow> 's lane_repo option \<Rightarrow> string \<Rightarrow> (int, 's) io" where
  "count_gates repo laneRepo tenantID =
     (case laneRepo of
        None \<Rightarrow> return_io 0
      | Some lr \<Rightarrow>
          try_io (lp_List repo
              \<lparr>lf_TenantID = tenantID, lf_Status = [], lf_LotType = [], lf_Keyword = []\<rparr> 1 1000)
            (\<lambda>res. case res of
               Inl _ \<Rightarrow> return_io 0
             | Inr (lots, _) \<Rightarrow>
                 if lots = [] then return_io 0
                 else try_io (lnp_CountByParkingLots lr tenantID (map l_ID lots)) (\<lambda>res.
                   case res of Inl _ \<Rightarrow> return_io 0 | Inr counts \<Rightarrow> return_io (sum_gates counts))))"

definition parkingLotService_GetStats ::
  "'s lot_repo \<Rightarrow> 's lane_repo option \<Rightarrow> string \<Rightarrow> (ParkingLotStatsResponse, 's) io" where
  "parkingLotService_GetStats repo laneRepo tenantID =
     bind_io (lp_SumStats repo tenantID) (\<lambda>(totalSpaces, availableSpaces).
     bind_io (count_gates repo laneRepo tenantID) (\<lambda>totalGates.
     return_io \<lparr>psr_TotalSpaces = totalSpaces, psr_AvailableSpaces = availableSpaces,
                psr_OccupiedVehicles = i64 (totalSpaces - availableSpaces),
                psr_TotalGates = totalGates\<rparr>))"

definition NewParkingLotService ::
  "'s go_env \<Rightarrow> 's lot_repo \<Rightarrow> 's lane_repo option \<Rightarrow> 's lot_service" where
  "NewParkingLotService env repo laneRepo =
     \<lparr>ls_Create = parkingLotService_Create env repo,
      ls_GetByID = parkingLotService_GetByID repo laneRepo,
      ls_List = parkingLotService_List repo laneRepo,
      ls_Update = parkingLotService_Update repo, ls_Delete = parkingLotService_Delete repo,
      ls_GetStats = parkingLotService_GetStats repo laneRepo\<rparr>"

section \<open>gRPC server\<close>

datatype pb_LotType =
    LOT_TYPE_UNSPECIFIED | LOT_TYPE_UNDERGROUND | LOT_TYPE_GROUND | LOT_TYPE_STEREO
  | LOT_TYPE_unrecognized int

datatype pb_ParkingLotStatus =
    PARKING_LOT_STATUS_UNSPECIFIED | PARKING_LOT_STATUS_ACTIVE | PARKING_LOT_STATUS_INACTIVE
  | PARKING_LOT_STATUS_unrecognized int

record pb_ParkingLot =
  pp_Id :: string
  pp_TenantId :: string
  pp_Name :: string
  pp_Address :: string
  pp_TotalSpaces :: int
  pp_AvailableSpaces :: int
  pp_LotType :: pb_LotType
  pp_Status :: pb_ParkingLotStatus
  pp_EntryCount :: int
  pp_ExitCount :: int
  pp_CreatedAt :: "Timestamp option"
  pp_UpdatedAt :: "Timestamp option"

record pb_CreateParkingLotRequest =
  pcl_Name :: string
  pcl_Address :: string
  pcl_TotalSpaces :: int
  pcl_LotType :: pb_LotType

record pb_ListParkingLotsRequest =
  pll_Status :: pb_ParkingLotStatus
  pll_LotType :: pb_LotType
  pll_Keyword :: string
  pll_Pagination :: "PaginationRequest option"

record pb_ListParkingLotsResponse =
  pll_ParkingLots :: "pb_ParkingLot list"
  pll_PaginationResponse :: PaginationResponse

record pb_UpdateParkingLotRequest =
  pul_Id :: string
  pul_Name :: "string option"
  pul_Address :: "string option"
  pul_TotalSpaces :: "int option"
  pul_LotType :: "pb_LotType option"
  pul_Status :: "pb_ParkingLotStatus option"

definition parking_errorMappings :: "ErrorMapping list" where
  "parking_errorMappings =
     [\<lparr>em_Target = ParkingErr ErrParkingLotNotFound, em_Code = NotFound\<rparr>,
      \<lparr>em_Target = ParkingErr ErrParkingLotNameDuplicate, em_Code = AlreadyExists\<rparr>,
      \<lparr>em_Target = ParkingErr ErrParkingLotInvalidStatus, em_Code = InvalidArgument\<rparr>,
      \<lparr>em_Target = ParkingErr ErrParkingLotInvalidCapacity, em_Code = InvalidArgument\<rparr>,
      \<lparr>em_Target = ParkingErr ErrLaneNotFound, em_Code = NotFound\<rparr>,
      \<lparr>em_Target = ParkingErr ErrLaneNameDuplicate, em_Code = AlreadyExists\<rparr>]"

definition parking_toGRPCError :: "go_error \<Rightarrow> go_error" where
  "parking_toGRPCError err = ToGRPCError err parking_errorMappings"

definition parking_extractTenantID :: "go_ctx \<Rightarrow> go_error + string" where
  "parking_extractTenantID ctx =
     (let tid = TenantID ctx
      in if tid = [] then Inl (StatusErr Unauthenticated ''missing x-tenant-id'') else Inr tid)"

definition domainLotTypeToProto :: "string \<Rightarrow> pb_LotType" where
  "domainLotTypeToProto lt =
     (if lt = LotTypeUnderground then LOT_TYPE_UNDERGROUND
      else if lt = LotTypeGround then LOT_TYPE_GROUND
      else if lt = LotTypeStereo then LOT_TYPE_STEREO
      else LOT_TYPE_UNSPECIFIED)"

fun domainLotTypeFromProto :: "pb_LotType \<Rightarrow> string" where
  "domainLotTypeFromProto LOT_TYPE_UNDERGROUND = LotTypeUnderground"
| "domainLotTypeFromProto LOT_TYPE_GROUND = LotTypeGround"
| "domainLotTypeFromProto LOT_TYPE_STEREO = LotTypeStereo"
| "domainLotTypeFromProto _ = []"

definition lotStatusToProto :: "string \<Rightarrow> pb_ParkingLotStatus" where
  "lotStatusToProto s =
     (if s = ParkingLotStatusActive then PARKING_LOT_STATUS_ACTIVE
      else if s = ParkingLotStatusInactive then PARKING_LOT_STATUS_INACTIVE
      else PARKING_LOT_STATUS_UNSPECIFIED)"

fun lotStatusFromProto :: "pb_ParkingLotStatus \<Rightarrow> string" where
  "lotStatusFromProto PARKING_LOT_STATUS_ACTIVE = ParkingLotStatusActive"
| "lotStatusFromProto PARKING_LOT_STATUS_INACTIVE = ParkingLotStatusInactive"
| "lotStatusFromProto _ = []"

definition toProtoParkingLot :: "lot \<Rightarrow> pb_ParkingLot" where
  "toProtoParkingLot l =
     \<lparr>pp_Id = l_ID l, pp_TenantId = l_TenantID l, pp_Name = l_Name l, pp_Address = l_Address l,
      pp_TotalSpaces = i32 (l_TotalSpaces l), pp_AvailableSpaces = i32 (l_AvailableSpaces l),
      pp_LotType = domainLotTypeToProto (l_LotType l), pp_Status = lotStatusToProto (l_Status l),
      pp_EntryCount = i32 (l_EntryCount l), pp_ExitCount = i32 (l_ExitCount l),
      pp_CreatedAt = toTimestamp (l_CreatedAt l), pp_UpdatedAt = toTimestamp (l_UpdatedAt l)\<rparr>"

definition in_tenant :: "go_ctx \<Rightarrow> (string \<Rightarrow> ('a, 's) io) \<Rightarrow> ('a, 's) io" where
  "in_tenant ctx f = bind_io (lift_io (parking_extractTenantID ctx)) f"

text \<open>\<open>if bad { return nil, status.Error(codes.InvalidArgument, msg) }\<close>.\<close>

definition reject_if :: "bool \<Rightarrow> string \<Rightarrow> ('a, 's) io \<Rightarrow> ('a, 's) io" where
  "reject_if bad msg m = (if bad then fail_io (StatusErr InvalidArgument msg) else m)"

definition ParkingLotGRPCServer_CreateParkingLot ::
  "'s lot_service \<Rightarrow> go_ctx \<Rightarrow> pb_CreateParkingLotRequest \<Rightarrow> (pb_ParkingLot, 's) io" where
  "ParkingLotGRPCServer_CreateParkingLot svc ctx req =
     in_tenant ctx (\<lambda>tenantID.
     reject_if (pcl_Name req = []) ''name is required''
     (reject_if (pcl_Address req = []) ''address is required''
     (reject_if (pcl_TotalSpaces req \<le> 0) ''total_spaces must be positive''
     (grpc_reply parking_toGRPCError (ls_Create svc
        \<lparr>clr_TenantID = tenantID, clr_Name = pcl_Name req, clr_Address = pcl_Address req,
         clr_TotalSpaces = pcl_TotalSpaces req,
         clr_LotType = domainLotTypeFromProto (pcl_LotType req)\<rparr>) toProtoParkingLot))))"

definition ParkingLotGRPCServer_GetParkingLot ::
  "'s lot_service \<Rightarrow> go_ctx \<Rightarrow> string \<Rightarrow> (pb_ParkingLot, 's) io" where
  "ParkingLotGRPCServer_GetParkingLot svc ctx lid =
     in_tenant ctx (\<lambda>tenantID. reject_if (lid = []) ''id is required''
     (grpc_reply parking_toGRPCError (ls_GetByID svc tenantID lid) toProtoParkingLot))"

definition ParkingLotGRPCServer_ListParkingLots ::
  "'s lot_service \<Rightarrow> go_ctx \<Rightarrow> pb_ListParkingLotsRequest \<Rightarrow> (pb_ListParkingLotsResponse, 's) io" where
  "ParkingLotGRPCServer_ListParkingLots svc ctx req =
     in_tenant ctx (\<lambda>tenantID.
       case pagination_or_default (pll_Pagination req) of (page, pageSize) \<Rightarrow>
       grpc_reply parking_toGRPCError (ls_List svc
         \<lparr>llr_TenantID = tenantID, llr_Status = lotStatusFromProto (pll_Status req),
          llr_LotType = domainLotTypeFromProto (pll_LotType req), llr_Keyword = pll_Keyword req,
          llr_Page = page, llr_PageSize = pageSize\<rparr>)
         (\<lambda>resp. \<lparr>pll_ParkingLots = map toProtoParkingLot (plr_ParkingLots resp),
                  pll_PaginationResponse =
                    \<lparr>pr_Page = i32 (plr_Page resp), pr_PageSize = i32 (plr_PageSize resp),
                     pr_Total = plr_Total resp, pr_TotalPages = i32 (plr_TotalPages resp)\<rparr>\<rparr>))"

definition ParkingLotGRPCServer_UpdateParkingLot ::
  "'s lot_service \<Rightarrow> go_ctx \<Rightarrow> pb_UpdateParkingLotRequest \<Rightarrow> (pb_ParkingLot, 's) io" where
  "ParkingLotGRPCServer_UpdateParkingLot svc ctx req =
     in_tenant ctx (\<lambda>tenantID. reject_if (pul_Id req = []) ''id is required''
     (grpc_reply parking_toGRPCError (ls_Update svc
        \<lparr>ulr_ID = pul_Id req, ulr_TenantID = tenantID, ulr_Name = pul_Name req,
         ulr_Address = pul_Address req, ulr_TotalSpaces = pul_TotalSpaces req,
         ulr_LotType = map_option domainLotTypeFromProto (pul_LotType req),
         ulr_Status = map_option lotStatusFromProto (pul_Status req)\<rparr>) toProtoParkingLot))"

definition ParkingLotGRPCServer_DeleteParkingLot ::
  "'s lot_service \<Rightarrow> go_ctx \<Rightarrow> string \<Rightarrow> (unit, 's) io" where
  "ParkingLotGRPCServer_DeleteParkingLot svc ctx lid =
     in_tenant ctx (\<lambda>tenantID. reject_if (lid = []) ''id is required''
     (grpc_reply parking_toGRPCError (ls_Delete svc tenantID lid) (\<lambda>_. ())))"

definition ParkingLotGRPCServer_GetParkingLotStats ::
  "'s lot_service \<Rightarrow> go_ctx \<Rightarrow> (ParkingLotStatsResponse, 's) io" where
  "ParkingLotGRPCServer_GetParkingLotStats svc ctx =
     in_tenant ctx (\<lambda>tenantID.
       grpc_reply parking_toGRPCError (ls_GetStats svc tenantID)
         (\<lambda>stats. \<lparr>psr_TotalSpaces = psr_TotalSpaces stats,
                   psr_AvailableSpaces = psr_AvailableSpaces stats,
                   psr_OccupiedVehicles = psr_OccupiedVehicles stats,
                   psr_TotalGates = psr_TotalGates stats\<rparr>))"

text \<open>\<open>RegisterServices\<close> of the parking domain, its first half: the lot service.\<close>

definition lot_server ::
  "'s go_env \<Rightarrow> 's lot_gorm \<Rightarrow> 's lane_gorm \<Rightarrow> 's lot_service" where
  "lot_server env lots lanes =
     NewParkingLotService env (NewParkingLotRepo (NewParkingLotDAO lots))
       (Some (NewLaneRepo (NewLaneDAO lanes)))"

end
