(* ===== verification/Lot_Props.thy ===== *)
theory Lot_Props
  imports Lot_Service
begin

text \<open>
  The properties of the parking-lot API, stated on its gRPC handlers and on the rows of the
  table: capacity and status invariants, isolation of tenants, and the update of a lot.
\<close>

abbreviation lotRepo_of :: "'s lot_gorm \<Rightarrow> 's lot_repo" where
  "lotRepo_of db \<equiv> NewParkingLotRepo (NewParkingLotDAO db)"

lemmas lot_rpc_defs =
  ParkingLotGRPCServer_CreateParkingLot_def ParkingLotGRPCServer_GetParkingLot_def
  ParkingLotGRPCServer_ListParkingLots_def ParkingLotGRPCServer_UpdateParkingLot_def
  ParkingLotGRPCServer_DeleteParkingLot_def ParkingLotGRPCServer_GetParkingLotStats_def

lemma lot_server_fields [simp]:
  "ls_Create (lot_server env db lanes) = parkingLotService_Create env (lotRepo_of db)"
  "ls_GetByID (lot_server env db lanes) =
     parkingLotService_GetByID (lotRepo_of db) (Some (NewLaneRepo (NewLaneDAO lanes)))"
  "ls_List (lot_server env db lanes) =
     parkingLotService_List (lotRepo_of db) (Some (NewLaneRepo (NewLaneDAO lanes)))"
  "ls_Update (lot_server env db lanes) = parkingLotService_Update (lotRepo_of db)"
  "ls_Delete (lot_server env db lanes) = parkingLotService_Delete (lotRepo_of db)"
  "ls_GetStats (lot_server env db lanes) =
     parkingLotService_GetStats (lotRepo_of db) (Some (NewLaneRepo (NewLaneDAO lanes)))"
  by (simp_all add: lot_server_def NewParkingLotService_def)

lemma parking_codes [simp]:
  "parking_toGRPCError (parking ErrParkingLotNotFound) = StatusErr NotFound ''parking lot not found''"
  "parking_toGRPCError (parking ErrParkingLotInvalidStatus) =
     StatusErr InvalidArgument ''invalid parking lot status transition''"
  "parking_toGRPCError (parking ErrParkingLotInvalidCapacity) =
     StatusErr InvalidArgument ''invalid parking lot capacity''"
  "parking_toGRPCError (Opaque m) = StatusErr Internal m"
  by (simp_all add: parking_toGRPCError_def parking_errorMappings_def)

lemma in_tenant_run: "TenantID ctx \<noteq> [] \<Longrightarrow> in_tenant ctx f = f (TenantID ctx)"
  by (simp add: in_tenant_def parking_extractTenantID_def Let_def)

section \<open>The repository as a store\<close>

lemma lot_get_eq:
  "(\<lambda>k. lp_GetByID (lotRepo_of db) (fst k) (snd k)) =
     (\<lambda>k. bind_io (first_or db (case k of (tid, lid) \<Rightarrow> lot_q tid lid) (parking ErrParkingLotNotFound))
            (\<lambda>r. return_io (lot_toDomain r)))"
  by (rule ext) (simp add: lot_store_defs split: prod.split)

lemma lot_upd_eq:
  "lp_Update (lotRepo_of db) =
     (\<lambda>e. affected_or (g_Updates db (Select lot_columns
            (case lot_key (lot_toEntity e) of (tid, lid) \<Rightarrow> lot_q tid lid)) (lot_toEntity e))
            (parking ErrParkingLotNotFound))"
  by (rule ext) (simp add: lot_store_defs lot_key_def)

lemma lot_crt_eq:
  "lp_Create (lotRepo_of db) =
     (\<lambda>e. create_or db [''duplicate'', ''UNIQUE''] (parking ErrParkingLotNameDuplicate) (lot_toEntity e))"
  by (rule ext) (simp add: lot_store_defs)

lemma lot_del_eq:
  "lp_Delete (lotRepo_of db) tid lid =
     affected_or (g_Delete db (case (tid, lid) of (tid, lid) \<Rightarrow> lot_q tid lid)) (parking ErrParkingLotNotFound)"
  by (simp add: lot_store_defs)

section \<open>Changes of a lot\<close>

definition occupied :: "lot \<Rightarrow> int" where
  "occupied l = l_TotalSpaces l - l_AvailableSpaces l"

definition own_lot :: "string \<Rightarrow> lot \<Rightarrow> bool" where
  "own_lot tid l \<longleftrightarrow> lot_valid l \<and> l_TenantID l = tid"

definition int32 :: "int \<Rightarrow> bool" where
  "int32 v \<longleftrightarrow> - (2 ^ 31) \<le> v \<and> v < 2 ^ 31"

lemma occupied_exact: "lot_valid l \<Longrightarrow> i64 (l_TotalSpaces l - l_AvailableSpaces l) = occupied l"
  unfolding occupied_def by (rule i64_id) (auto simp: lot_valid_def)

lemma lot_change_status_own:
  "lot_change_status st l = Inr l' \<Longrightarrow> own_lot tid l \<Longrightarrow>
     own_lot tid l' \<and> l_TotalSpaces l' = l_TotalSpaces l \<and> l_AvailableSpaces l' = l_AvailableSpaces l"
  by (auto simp: lot_change_status_def ParkingLot_Activate_def ParkingLot_Deactivate_def own_lot_def
      lot_valid_def split: option.splits if_splits)

lemma lot_change_capacity_run:
  assumes "lot_valid l" and "\<forall>v \<in> set_option n. int32 v"
  shows "lot_change_capacity n l =
    (case n of None \<Rightarrow> Inr l
     | Some v \<Rightarrow> if v < occupied l then Inl (parking ErrParkingLotInvalidCapacity)
                 else Inr (l\<lparr>l_TotalSpaces := v, l_AvailableSpaces := v - occupied l\<rparr>))"
proof (cases n)
  case (Some v)
  have "i64 (v - occupied l) = v - occupied l" if "occupied l \<le> v"
    using that assms Some by (intro i64_id) (auto simp: lot_valid_def occupied_def int32_def)
  then show ?thesis using Some by (simp add: lot_change_capacity_def occupied_exact [OF assms(1)] Let_def)
qed (simp add: lot_change_capacity_def)

lemma lot_change_capacity_own:
  assumes "lot_change_capacity n l = Inr l'" and "own_lot tid l" and "\<forall>v \<in> set_option n. int32 v"
  shows "own_lot tid l'"
  using assms lot_change_capacity_run [of l n]
  by (auto simp: own_lot_def lot_valid_def occupied_def int32_def split: option.splits if_splits)

lemma lot_change_texts_own: "own_lot tid l \<Longrightarrow> own_lot tid (lot_change_texts req l)"
  by (simp add: own_lot_def lot_valid_def lot_change_texts_def)

section \<open>The RPCs keep the invariant\<close>

text \<open>
  One call of the parking-lot API in the context \<open>ctx\<close>. The capacities of the messages are
  \<open>int32\<close> fields.
\<close>

inductive lot_rpc ::
  "'s go_env \<Rightarrow> 's lot_gorm \<Rightarrow> 's lane_gorm \<Rightarrow> go_ctx \<Rightarrow> 's \<Rightarrow> 's \<Rightarrow> bool" for env db lanes ctx where
  create: "int32 (pcl_TotalSpaces req) \<Longrightarrow> lot_rpc env db lanes ctx s
     (snd (ParkingLotGRPCServer_CreateParkingLot (lot_server env db lanes) ctx req s))"
| get: "lot_rpc env db lanes ctx s
     (snd (ParkingLotGRPCServer_GetParkingLot (lot_server env db lanes) ctx lid s))"
| list: "lot_rpc env db lanes ctx s
     (snd (ParkingLotGRPCServer_ListParkingLots (lot_server env db lanes) ctx lreq s))"
| update: "\<forall>v \<in> set_option (pul_TotalSpaces ureq). int32 v \<Longrightarrow> lot_rpc env db lanes ctx s
     (snd (ParkingLotGRPCServer_UpdateParkingLot (lot_server env db lanes) ctx ureq s))"
| delete: "lot_rpc env db lanes ctx s
     (snd (ParkingLotGRPCServer_DeleteParkingLot (lot_server env db lanes) ctx lid s))"
| stats: "lot_rpc env db lanes ctx s
     (snd (ParkingLotGRPCServer_GetParkingLotStats (lot_server env db lanes) ctx s))"

definition lot_table_valid :: "('s \<Rightarrow> lot_row list) \<Rightarrow> 's \<Rightarrow> bool" where
  "lot_table_valid rows s \<longleftrightarrow> lots_ok rows s \<and> (\<forall>r \<in> set (rows s). lot_row_valid r)"

lemma io_inv_in_tenant:
  "(TenantID ctx \<noteq> [] \<Longrightarrow> io_inv I (f (TenantID ctx)) Q) \<Longrightarrow> io_inv I (in_tenant ctx f) Q"
  by (auto simp: in_tenant_def parking_extractTenantID_def Let_def)

lemma io_inv_reject_if: "(\<not> bad \<Longrightarrow> io_inv I m Q) \<Longrightarrow> io_inv I (reject_if bad msg m) Q"
  by (simp add: reject_if_def)

lemma other_lot_key:
  assumes "\<forall>r \<in> set others. lr_TenantID r \<noteq> tid"
  shows "(tid, lid) \<notin> lot_key ` set others"
  using assms by (auto simp: lot_key_def)

section \<open>What the lot service needs of an invariant\<close>

text \<open>
  \<open>mine\<close> are the lots the call may write: those it has loaded for the tenant or made.
\<close>

locale lot_steps =
  fixes env :: "'s go_env" and db :: "'s lot_gorm" and lanes :: "'s lane_gorm" and t :: string
    and I :: "'s \<Rightarrow> bool" and mine :: "lot \<Rightarrow> bool"
  assumes get_inv: "io_inv I (lp_GetByID (lotRepo_of db) t lid) mine"
    and update_inv: "mine l \<Longrightarrow> io_inv I (lp_Update (lotRepo_of db) l) (\<lambda>_. True)"
    and create_inv: "own_lot t l \<Longrightarrow> io_inv I (lp_Create (lotRepo_of db) l) (\<lambda>_. True)"
    and delete_inv: "io_inv I (lp_Delete (lotRepo_of db) t lid) (\<lambda>_. True)"
    and list_inv: "io_inv I (lp_List (lotRepo_of db) f p n) (\<lambda>_. True)"
    and sums_inv: "io_inv I (lp_SumStats (lotRepo_of db) t) (\<lambda>_. True)"
    and populate_inv: "io_inv I (populateLaneCounts (Some (NewLaneRepo (NewLaneDAO lanes))) t' ls) (\<lambda>_. True)"
    and gates_inv: "io_inv I (count_gates (lotRepo_of db) (Some (NewLaneRepo (NewLaneDAO lanes))) t) (\<lambda>_. True)"
    and uuid_inv: "io_inv I (ask_io (uuid_New env)) (\<lambda>_. True)"
    and mine_status: "mine l \<Longrightarrow> lot_change_status st l = Inr l' \<Longrightarrow> mine l'"
    and mine_capacity: "mine l \<Longrightarrow> lot_change_capacity cap l = Inr l' \<Longrightarrow> \<forall>v \<in> set_option cap. int32 v \<Longrightarrow> mine l'"
    and mine_texts: "mine l \<Longrightarrow> mine (lot_change_texts req l)"
begin

lemma lot_update_inv:
  assumes t: "ulr_TenantID r = t" and i: "\<forall>v \<in> set_option (ulr_TotalSpaces r). int32 v"
  shows "io_inv I (parkingLotService_Update (lotRepo_of db) r) (\<lambda>_. True)"
  unfolding parkingLotService_Update_def Let_def t
proof (rule io_inv_bind [OF get_inv], rule io_inv_bind, rule io_inv_simps)
  fix l l1
  assume "mine l" "lot_change_status (ulr_Status r) l = Inr l1"
  then show "mine l1" by (rule mine_status)
next
  fix l1
  assume l1: "mine l1"
  show "io_inv I (bind_io (lift_io (lot_change_capacity (ulr_TotalSpaces r) l1))
      (\<lambda>lot. bind_io (lp_Update (lotRepo_of db) (lot_change_texts r lot))
        (\<lambda>_. return_io (lot_change_texts r lot)))) (\<lambda>_. True)"
  proof (rule io_inv_bind, rule io_inv_simps)
    fix l2
    assume "lot_change_capacity (ulr_TotalSpaces r) l1 = Inr l2"
    from mine_capacity [OF l1 this i] show "mine l2" .
  next
    fix l2
    assume "mine l2"
    then have "mine (lot_change_texts r l2)" by (rule mine_texts)
    then show "io_inv I (bind_io (lp_Update (lotRepo_of db) (lot_change_texts r l2))
        (\<lambda>_. return_io (lot_change_texts r l2))) (\<lambda>_. True)"
      by (rule io_inv_bind [OF update_inv]) simp
  qed
qed

lemma lot_service_inv:
  shows "clr_TenantID r1 = t \<Longrightarrow> int32 (clr_TotalSpaces r1) \<Longrightarrow> 0 < clr_TotalSpaces r1 \<Longrightarrow>
      io_inv I (ls_Create (lot_server env db lanes) r1) (\<lambda>_. True)"
    and "io_inv I (ls_GetByID (lot_server env db lanes) t lid) (\<lambda>_. True)"
    and "io_inv I (ls_List (lot_server env db lanes) r3) (\<lambda>_. True)"
    and "ulr_TenantID r4 = t \<Longrightarrow> \<forall>v \<in> set_option (ulr_TotalSpaces r4). int32 v \<Longrightarrow>
      io_inv I (ls_Update (lot_server env db lanes) r4) (\<lambda>_. True)"
    and "io_inv I (ls_Delete (lot_server env db lanes) t lid) (\<lambda>_. True)"
    and "io_inv I (ls_GetStats (lot_server env db lanes) t) (\<lambda>_. True)"
proof -
  show "io_inv I (ls_Create (lot_server env db lanes) r1) (\<lambda>_. True)"
    if "clr_TenantID r1 = t" "int32 (clr_TotalSpaces r1)" "0 < clr_TotalSpaces r1"
    unfolding lot_server_fields parkingLotService_Create_def Let_def
  proof (rule io_inv_bind [OF uuid_inv], rule io_inv_bind [OF create_inv])
    fix uid
    show "own_lot t ((NewParkingLot (clr_Name r1) (clr_Address r1) (clr_TotalSpaces r1)
        (clr_LotType r1))\<lparr>l_ID := uid, l_TenantID := clr_TenantID r1\<rparr>)"
      using that by (simp add: own_lot_def lot_valid_def NewParkingLot_def int32_def)
  qed simp
  show "io_inv I (ls_GetByID (lot_server env db lanes) t lid) (\<lambda>_. True)"
    unfolding lot_server_fields parkingLotService_GetByID_def
    by (rule io_inv_bind [OF get_inv], rule io_inv_bind [OF populate_inv]) simp
  show "io_inv I (ls_List (lot_server env db lanes) r3) (\<lambda>_. True)"
    unfolding lot_server_fields parkingLotService_List_def Let_def case_prod_beta
    by (rule io_inv_bind [OF list_inv], rule io_inv_bind [OF populate_inv]) simp
  show "io_inv I (ls_Update (lot_server env db lanes) r4) (\<lambda>_. True)"
    if "ulr_TenantID r4 = t" "\<forall>v \<in> set_option (ulr_TotalSpaces r4). int32 v"
    unfolding lot_server_fields by (rule lot_update_inv [OF that])
  show "io_inv I (ls_Delete (lot_server env db lanes) t lid) (\<lambda>_. True)"
    unfolding lot_server_fields parkingLotService_Delete_def by (rule delete_inv)
  show "io_inv I (ls_GetStats (lot_server env db lanes) t) (\<lambda>_. True)"
    unfolding lot_server_fields parkingLotService_GetStats_def case_prod_beta
    by (rule io_inv_bind [OF sums_inv], rule io_inv_bind [OF gates_inv]) simp
qed

lemma lot_rpc_keeps:
  assumes "lot_rpc env db lanes ctx s s'" and t: "TenantID ctx = t" and inv: "I s"
  shows "I s'"
proof -
  have keeps: "I (snd (in_tenant ctx f s))" if "io_inv I (f t) Q" for f :: "string \<Rightarrow> ('x, 's) io" and Q
    by (rule io_invD [where I = I, OF io_inv_in_tenant inv]) (use that t in simp)
  note one = lot_service_inv
  show ?thesis
    using assms(1)
  proof cases
    case (create req)
    show ?thesis unfolding create lot_rpc_defs
      by (rule keeps, (rule io_inv_reject_if)+, rule io_inv_reply, rule one) (use create in simp_all)
  next
    case (list lreq)
    show ?thesis unfolding list lot_rpc_defs
      by (rule keeps, unfold case_prod_beta, rule io_inv_reply, rule one)
  next
    case (update ureq)
    show ?thesis unfolding update lot_rpc_defs
      by (rule keeps, rule io_inv_reject_if, rule io_inv_reply, rule one) (use update in simp_all)
  next
    case stats
    show ?thesis unfolding stats lot_rpc_defs by (rule keeps, rule io_inv_reply, rule one)
  qed (unfold lot_rpc_defs, (erule ssubst, rule keeps, rule io_inv_reject_if, rule io_inv_reply, rule one)+)
qed

end

section \<open>The invariants\<close>

context lane_db
begin

lemma lane_counts_same: "snd (lnp_CountByParkingLots (NewLaneRepo (NewLaneDAO db)) tid ids s) = s"
  using ScanCounts_groups [of "Group ''parking_lot_id, lane_type''
      (Where ''tenant_id = ? AND parking_lot_id IN ?'' [SqlStr tid, SqlStrs ids]
        (Select [''parking_lot_id'', ''lane_type'', ''count(*) as count''] Model))" s]
  by (auto simp: lane_store_defs)

lemma populate_same:
  "snd (populateLaneCounts (Some (NewLaneRepo (NewLaneDAO db))) tid ls s) = s"
  using lane_counts_same [of tid "map l_ID ls" s]
  by (auto simp: populateLaneCounts_def try_io_run split: prod.split sum.split)

end

context lot_db
begin

lemma lot_list_same: "snd (lp_List (lotRepo_of db) f p n s) = s"
  using page_same by (simp add: lot_store_defs bind_io_run split: prod.split sum.split) (metis snd_conv)

lemma lot_get_inv:
  "io_inv (lot_inv rows tid others) (lp_GetByID (lotRepo_of db) tid lid) (own_lot tid)"
proof -
  have eq: "lp_GetByID (lotRepo_of db) tid lid =
      bind_io (first_or db (case (tid, lid) of (tid, lid) \<Rightarrow> lot_q tid lid) (parking ErrParkingLotNotFound))
        (\<lambda>r. return_io (lot_toDomain r))"
    by (rule ext) (simp add: lot_store_defs)
  show ?thesis unfolding eq
    by (rule io_inv_weaken [OF lots.get_inv]) (auto simp: own_lot_def lot_row_valid_def lot_key_def lot_toDomain_def)
qed

lemma lot_update_inv:
  assumes "own_lot tid l" and "\<forall>r \<in> set others. lr_TenantID r \<noteq> tid"
  shows "io_inv (lot_inv rows tid others) (lp_Update (lotRepo_of db) l) (\<lambda>_. True)"
  unfolding lot_upd_eq
proof (rule lots.update_inv)
  have "lot_key (lot_toEntity l) = (tid, l_ID l)"
    using assms(1) by (simp add: own_lot_def lot_key_def lot_toEntity_def)
  then show "lot_key (lot_toEntity l) \<notin> lot_key ` set others" using other_lot_key [OF assms(2)] by simp
  fix t r
  assume "lot_row_valid r"
  then show "lot_row_valid (lot_assign t lot_columns (lot_toEntity l) r)"
    using assms(1) by (simp add: lot_row_valid_def lot_assign_overlay lot_overlay_def own_lot_def lot_valid_def)
qed

lemma lot_create_inv:
  assumes "own_lot tid l"
  shows "io_inv (lot_inv rows tid others) (lp_Create (lotRepo_of db) l) (\<lambda>_. True)"
  unfolding lot_crt_eq
  by (rule lots.create_inv) (use assms in \<open>simp_all add: own_lot_def lot_row_valid_def lot_valid_def
    lot_toDomain_def lot_stamp_def lot_toEntity_def\<close>)

lemma gates_same:
  assumes "lane_db ldb lrows lset lnow ldup"
  shows "snd (count_gates (lotRepo_of db) (Some (NewLaneRepo (NewLaneDAO ldb))) t s) = s"
  using lot_list_same [of "\<lparr>lf_TenantID = t, lf_Status = [], lf_LotType = [], lf_Keyword = []\<rparr>" 1 1000 s]
    lane_db.lane_counts_same [OF assms]
  by (auto simp: count_gates_def try_io_run split: prod.split sum.split) (metis snd_conv)+

lemma sums_same: "snd (lp_SumStats (lotRepo_of db) t s) = s"
  using lot_sums [of "Where ''tenant_id = ?'' [SqlStr t] (Select lot_sum_columns Model)" s]
  by (simp add: lot_store_defs query_simps)

lemma lot_steps_inv:
  assumes world: "go_world env rows" and o: "\<forall>r \<in> set others. lr_TenantID r \<noteq> t"
    and lanes: "lane_db ldb lrows lset lnow ldup"
  shows "lot_steps env db ldb t (lot_inv rows t others) (own_lot t)"
proof (unfold_locales, goal_cases)
  case (1 lid)
  show ?case by (rule lot_get_inv)
next
  case (2 l)
  then show ?case by (rule lot_update_inv [OF _ o])
next
  case (3 l)
  then show ?case by (rule lot_create_inv)
next
  case (4 lid)
  show ?case unfolding lot_del_eq by (rule lots.delete_inv) (rule other_lot_key [OF o])
next
  case (5 f p n)
  show ?case by (rule io_inv_same) (rule lot_list_same)
next
  case 6
  show ?case by (rule io_inv_same) (rule sums_same)
next
  case (7 t' ls)
  show ?case by (rule io_inv_same) (rule lane_db.populate_same [OF lanes])
next
  case 8
  show ?case by (rule io_inv_same) (rule gates_same [OF lanes])
next
  case 9
  show ?case by (rule scope_io_rows) (simp_all add: ask_io_run go_world.uuid_rows [OF world])
next
  case (10 l st l')
  then show ?case using lot_change_status_own by blast
next
  case (11 l n l')
  then show ?case using lot_change_capacity_own by blast
next
  case (12 l req)
  then show ?case by (rule lot_change_texts_own)
qed

lemma lot_rpc_inv:
  assumes "lot_rpc env db ldb ctx s s'" and world: "go_world env rows"
    and lanes: "lane_db ldb lrows lset lnow ldup" and inv: "lot_inv rows (TenantID ctx) others s"
  shows "lot_inv rows (TenantID ctx) others s'"
proof -
  have "\<forall>r \<in> set others. lr_TenantID r \<noteq> TenantID ctx" using inv by (auto simp: scope_inv_def)
  from lot_steps.lot_rpc_keeps [OF lot_steps_inv [OF world this lanes] assms(1) refl inv] show ?thesis .
qed

end

text \<open>
  C10: Whatever sequence of parking-lot RPCs callers make, every stored lot keeps
  \<open>0 <= available <= total\<close> and one of the two states, and no two lots share an ID, or a name
  within a tenant.
\<close>

theorem lot_rpcs_keep_table:
  assumes "lot_db like db rows set_rows now dup" and "lane_db lanes lrows lset lnow ldup"
    and "go_world env rows" and "lot_table_valid rows s"
    and "(\<lambda>s s'. \<exists>ctx. lot_rpc env db lanes ctx s s')\<^sup>*\<^sup>* s s'"
  shows "lot_table_valid rows s'"
  using assms(5)
proof (induction rule: rtranclp_induct)
  case (step s1 s2)
  then obtain ctx where ctx: "lot_rpc env db lanes ctx s1 s2" by blast
  have "lot_inv rows (TenantID ctx) (filter (\<lambda>r. lr_TenantID r \<noteq> TenantID ctx) (rows s1)) s2"
    by (rule lot_db.lot_rpc_inv [OF assms(1) ctx assms(3,2)])
      (use step.IH in \<open>simp add: lot_table_valid_def scope_inv_start\<close>)
  then show ?case by (simp add: scope_inv_def lot_table_valid_def)
qed (rule assms(4))

text \<open>
  Callers of other tenants never change a tenant's parking lots: the table's rows of that
  tenant are the same, in the same order, after any sequence of their RPCs.
\<close>

theorem lot_tenant_isolation:
  assumes "lot_db like db rows set_rows now dup" and "lane_db lanes lrows lset lnow ldup"
    and "go_world env rows" and "lot_table_valid rows s"
    and "(\<lambda>s s'. \<exists>ctx. TenantID ctx \<noteq> t \<and> lot_rpc env db lanes ctx s s')\<^sup>*\<^sup>* s s'"
  shows "filter (\<lambda>r. lr_TenantID r = t) (rows s') = filter (\<lambda>r. lr_TenantID r = t) (rows s)"
proof -
  have "lot_table_valid rows s' \<and>
      filter (\<lambda>r. lr_TenantID r = t) (rows s') = filter (\<lambda>r. lr_TenantID r = t) (rows s)"
    using assms(5)
  proof (induction rule: rtranclp_induct)
    case (step s1 s2)
    then obtain ctx where ctx: "TenantID ctx \<noteq> t" "lot_rpc env db lanes ctx s1 s2" by blast
    have inv: "lot_inv rows (TenantID ctx) (filter (\<lambda>r. lr_TenantID r \<noteq> TenantID ctx) (rows s1)) s2"
      by (rule lot_db.lot_rpc_inv [OF assms(1) ctx(2) assms(3,2)])
        (use step.IH in \<open>simp add: lot_table_valid_def scope_inv_start\<close>)
    show ?case
      using inv scope_inv_others [OF inv ctx(1)] step.IH by (simp add: scope_inv_def lot_table_valid_def)
  qed (simp add: assms(4))
  then show ?thesis ..
qed

section \<open>Updating a lot\<close>

text \<open>
  What an update request makes of the stored lot \<open>l\<close>: the new status must differ from the old
  one, the new capacity must hold the vehicles that are inside, and then the free spaces are
  what the vehicles leave.
\<close>

definition updated_lot :: "pb_UpdateParkingLotRequest \<Rightarrow> lot \<Rightarrow> string + lot" where
  "updated_lot req l =
     (let status = (case pul_Status req of
          Some PARKING_LOT_STATUS_ACTIVE \<Rightarrow> ''active''
        | Some PARKING_LOT_STATUS_INACTIVE \<Rightarrow> ''inactive'' | _ \<Rightarrow> [])
      in if status \<noteq> [] \<and> status = l_Status l then Inl ''invalid parking lot status transition''
         else if pul_TotalSpaces req \<noteq> None \<and> the (pul_TotalSpaces req) < occupied l
         then Inl ''invalid parking lot capacity''
         else Inr (l\<lparr>l_Name := assign_if (pul_Name req) (l_Name l),
                     l_Address := assign_if (pul_Address req) (l_Address l),
                     l_LotType := assign_if (map_option domainLotTypeFromProto (pul_LotType req)) (l_LotType l),
                     l_Status := (if status = [] then l_Status l else status),
                     l_TotalSpaces := assign_if (pul_TotalSpaces req) (l_TotalSpaces l),
                     l_AvailableSpaces := assign_if (pul_TotalSpaces req) (l_TotalSpaces l) - occupied l\<rparr>))"

text \<open>Another lot of the tenant has the requested name.\<close>

definition lot_name_taken :: "('s \<Rightarrow> lot_row list) \<Rightarrow> 's \<Rightarrow> string \<Rightarrow> pb_UpdateParkingLotRequest \<Rightarrow> bool" where
  "lot_name_taken rows s tid req \<longleftrightarrow>
     (\<exists>r \<in> set (rows s). lr_TenantID r = tid \<and> lr_ID r \<noteq> pul_Id req \<and> pul_Name req = Some (lr_Name r))"

definition lot_update_change :: "UpdateParkingLotRequest \<Rightarrow> lot \<Rightarrow> go_error + lot" where
  "lot_update_change req l =
     (case lot_change_status (ulr_Status req) l of
        Inl e \<Rightarrow> Inl e
      | Inr l \<Rightarrow> map_sum (\<lambda>e. e) (lot_change_texts req) (lot_change_capacity (ulr_TotalSpaces req) l))"

lemma parkingLotService_Update_modify:
  "parkingLotService_Update repo req =
     modify (\<lambda>k. lp_GetByID repo (fst k) (snd k)) (lp_Update repo) (ulr_TenantID req, ulr_ID req)
       (\<lambda>l. lift_io (lot_update_change req l))"
proof (rule ext)
  fix s
  show "parkingLotService_Update repo req s =
      modify (\<lambda>k. lp_GetByID repo (fst k) (snd k)) (lp_Update repo) (ulr_TenantID req, ulr_ID req)
        (\<lambda>l. lift_io (lot_update_change req l)) s"
    by (auto simp: parkingLotService_Update_def modify_def lot_update_change_def bind_io_run Let_def
        split: prod.split sum.split)
qed

abbreviation lot_service_request :: "string \<Rightarrow> pb_UpdateParkingLotRequest \<Rightarrow> UpdateParkingLotRequest" where
  "lot_service_request tid req \<equiv>
     \<lparr>ulr_ID = pul_Id req, ulr_TenantID = tid, ulr_Name = pul_Name req, ulr_Address = pul_Address req,
      ulr_TotalSpaces = pul_TotalSpaces req,
      ulr_LotType = map_option domainLotTypeFromProto (pul_LotType req),
      ulr_Status = map_option lotStatusFromProto (pul_Status req)\<rparr>"

lemma lot_status_cases:
  assumes "l_Status l \<in> {''active'', ''inactive''}"
  shows "lot_change_status (map_option lotStatusFromProto st) l =
    (let status = (case st of Some PARKING_LOT_STATUS_ACTIVE \<Rightarrow> ''active''
        | Some PARKING_LOT_STATUS_INACTIVE \<Rightarrow> ''inactive'' | _ \<Rightarrow> [])
     in if status \<noteq> [] \<and> status = l_Status l then Inl (parking ErrParkingLotInvalidStatus)
        else Inr (l\<lparr>l_Status := (if status = [] then l_Status l else status)\<rparr>))"
proof (cases st)
  case (Some p)
  then show ?thesis using assms
    by (cases p) (auto simp: lot_change_status_def ParkingLot_Activate_def ParkingLot_Deactivate_def Let_def)
qed (simp add: lot_change_status_def)

lemma lot_same_capacity:
  "l\<lparr>l_TotalSpaces := l_TotalSpaces l, l_AvailableSpaces := l_TotalSpaces l - occupied l\<rparr> = l"
  by (cases l) (simp add: occupied_def)

lemma lot_update_change_run:
  assumes "lot_valid l" and "\<forall>v \<in> set_option (pul_TotalSpaces req). int32 v"
  shows "lot_update_change (lot_service_request tid req) l =
    (case updated_lot req l of
       Inl m \<Rightarrow> Inl (parking (if m = ''invalid parking lot capacity'' then ErrParkingLotInvalidCapacity
                             else ErrParkingLotInvalidStatus))
     | Inr l' \<Rightarrow> Inr l')"
proof -
  have st: "l_Status l \<in> {''active'', ''inactive''}" using assms(1) by (simp add: lot_valid_def)
  then have ne: "l_Status l \<noteq> []" by auto
  define status where "status = (case pul_Status req of Some PARKING_LOT_STATUS_ACTIVE \<Rightarrow> ''active''
        | Some PARKING_LOT_STATUS_INACTIVE \<Rightarrow> ''inactive'' | _ \<Rightarrow> [])"
  have s3: "status \<in> {[], ''active'', ''inactive''}"
    by (simp add: status_def split: option.split pb_ParkingLotStatus.split)
  define l1 where "l1 = l\<lparr>l_Status := (if status = [] then l_Status l else status)\<rparr>"
  have l1: "lot_valid l1" "occupied l1 = occupied l" "l_TotalSpaces l1 = l_TotalSpaces l"
    using assms(1) s3 by (auto simp: l1_def lot_valid_def occupied_def)
  let ?n = "pul_TotalSpaces req"
  have cap: "lot_change_capacity ?n l1 =
      (if ?n \<noteq> None \<and> the ?n < occupied l then Inl (parking ErrParkingLotInvalidCapacity)
       else Inr (l1\<lparr>l_TotalSpaces := assign_if ?n (l_TotalSpaces l),
                     l_AvailableSpaces := assign_if ?n (l_TotalSpaces l) - occupied l\<rparr>))"
    using lot_change_capacity_run [OF l1(1) assms(2)] lot_same_capacity [of l1] l1(2,3)
    by (cases ?n) (simp_all add: assign_if_def)
  show ?thesis
    unfolding lot_update_change_def UpdateParkingLotRequest.select_convs lot_status_cases [OF st]
      updated_lot_def status_def [symmetric] Let_def
    by (cases "status \<noteq> [] \<and> status = l_Status l"; cases "?n \<noteq> None \<and> the ?n < occupied l")
      (simp_all only: if_True if_False sum.case cap l1_def [symmetric] simp_thms map_sum.simps,
       simp_all add: lot_change_texts_def l1_def ne)
qed

lemma updated_lot_fields:
  assumes "updated_lot req l = Inr l'"
  shows "l_ID l' = l_ID l" "l_TenantID l' = l_TenantID l" "l_CreatedAt l' = l_CreatedAt l"
    "l_EntryCount l' = l_EntryCount l" "l_ExitCount l' = l_ExitCount l"
    "l_Name l' = assign_if (pul_Name req) (l_Name l)"
  using assms by (auto simp: updated_lot_def Let_def split: if_splits)

lemma updated_lot_occupied: "updated_lot req l = Inr l' \<Longrightarrow> occupied l' = occupied l"
  by (auto simp: updated_lot_def Let_def occupied_def split: if_splits)

lemma lot_overlay_kept:
  assumes "l_ID e = l_ID l" "l_TenantID e = l_TenantID l" "l_CreatedAt e = l_CreatedAt l"
    "l_EntryCount e = l_EntryCount l" "l_ExitCount e = l_ExitCount l"
  shows "lot_overlay now e l = e\<lparr>l_UpdatedAt := now\<rparr>"
  using assms by (cases l; cases e) (simp add: lot_overlay_def)

lemma unclashing_both:
  assumes "unclashing clash xs" and "x \<in> set xs" and "y \<in> set xs" and "clash x y" and "clash y x"
  shows "x = y"
  using assms by (induction xs) (auto simp: unclashing_def)

lemma lots_distinct:
  assumes "lots_ok rows s" and "x \<in> set (rows s)" and "r \<in> set (rows s)" and "x \<noteq> r"
  shows "lr_ID x \<noteq> lr_ID r" and "lr_TenantID x = lr_TenantID r \<Longrightarrow> lr_Name x \<noteq> lr_Name r"
  using unclashing_both [of lot_clash "rows s" x r] assms
  by (auto simp: table_intact_def lot_clash_def)

context lot_db
begin

lemma lot_at_row:
  assumes "lot_at rows s (tid, lid) = Some l"
  obtains r where "row_at rows lot_key s (tid, lid) = Some r" "l = lot_toDomain r"
    "r \<in> set (rows s)" "lr_TenantID r = tid" "lr_ID r = lid"
  using assms lots.find_row_Some [of s "(tid, lid)"] by (auto simp: entity_at_def lot_key_def)

text \<open>A lot whose new name no other lot of the tenant has fits the unique index.\<close>

lemma renamed_lot_fits:
  assumes ok: "lots_ok rows s" and row: "row_at rows lot_key s (tid, pul_Id req) = Some r"
    and key: "lot_key (lot_toEntity l') = (tid, pul_Id req)"
    and name: "\<forall>r \<in> set (rows s). lr_TenantID r = tid \<longrightarrow> lr_ID r \<noteq> pul_Id req \<longrightarrow>
           pul_Name req \<noteq> Some (lr_Name r)"
    and upd: "updated_lot req (lot_toDomain r) = Inr l'"
  shows "row_fits lot_clash rows lot_key (lot_assign (now s) lot_columns) s (lot_toEntity l')"
proof (rule lots.fits_no_clash [OF ok])
  have r: "r \<in> set (rows s)" "lr_TenantID r = tid" "lr_ID r = pul_Id req"
    using lots.find_row_Some [OF row] by (simp_all add: lot_key_def)
  show "row_at rows lot_key s (lot_key (lot_toEntity l')) = Some r" using row key by simp
  fix x
  assume x: "x \<in> set (rows s)" "lot_key x \<noteq> lot_key (lot_toEntity l')"
  then have "x \<noteq> r" using key r by (auto simp: lot_key_def)
  note d = lots_distinct [OF ok x(1) r(1) this]
  have "lr_Name x \<noteq> l_Name l'" if "lr_TenantID x = tid"
    using x that name r d updated_lot_fields(6) [OF upd]
    by (cases "pul_Name req") (auto simp: assign_if_def lot_toDomain_def)
  then show "\<not> lot_clash (lot_assign (now s) lot_columns (lot_toEntity l') r) x \<and>
      \<not> lot_clash x (lot_assign (now s) lot_columns (lot_toEntity l') r)"
    using r d by (auto simp: lot_clash_def lot_assign_def lot_columns_def lot_toEntity_def)
qed

text \<open>A lot whose new name another lot of the tenant has violates it.\<close>

lemma taken_lot_clashes:
  assumes row: "row_at rows lot_key s (tid, pul_Id req) = Some r"
    and taken: "lot_name_taken rows s tid req"
    and upd: "updated_lot req (lot_toDomain r) = Inr l'"
  shows "g_Updates db (Select lot_columns (lot_q tid (pul_Id req))) (lot_toEntity l') s = (Inl (Opaque dup), s)"
proof (rule Updates_clash, rule notI)
  let ?f = "\<lambda>r. if matches (lot_holds like) (Select lot_columns (lot_q tid (pul_Id req))) r
      then lot_assign (now s) (q_select (Select lot_columns (lot_q tid (pul_Id req)))) (lot_toEntity l') r else r"
  assume u: "unclashing lot_clash (map ?f (rows s))"
  have r: "r \<in> set (rows s)" "lr_TenantID r = tid" "lr_ID r = pul_Id req"
    using lots.find_row_Some [OF row] by (simp_all add: lot_key_def)
  obtain x where x: "x \<in> set (rows s)" "lr_TenantID x = tid" "lr_ID x \<noteq> pul_Id req"
      "pul_Name req = Some (lr_Name x)" using taken by (auto simp: lot_name_taken_def)
  have m: "matches (lot_holds like) (Select lot_columns (lot_q tid (pul_Id req))) y \<longleftrightarrow>
      lr_TenantID y = tid \<and> lr_ID y = pul_Id req" for y
    using lot_q_matches [of like tid "pul_Id req" y] by (simp add: matches_def query_simps lot_key_def)
  have sel: "q_select (Select lot_columns (lot_q tid (pul_Id req))) = lot_columns" by (simp add: query_simps)
  have fx: "?f x = x" using x(3) by (simp add: m)
  have fr: "lr_TenantID (?f r) = tid" "lr_ID (?f r) = pul_Id req" "lr_Name (?f r) = lr_Name x"
    using r x(4) updated_lot_fields(6) [OF upd]
    by (simp_all add: m sel) (simp_all add: lot_assign_def lot_columns_def lot_toEntity_def assign_if_def)
  have "?f r = ?f x"
  proof (rule unclashing_both [OF u])
    show "?f r \<in> set (map ?f (rows s))" "?f x \<in> set (map ?f (rows s))" unfolding set_map
      by (rule image_eqI [OF refl r(1)], rule image_eqI [OF refl x(1)])
    show "lot_clash (?f r) (?f x)" "lot_clash (?f x) (?f r)" unfolding fx lot_clash_def using fr x(2) by metis+
  qed
  then have "lr_ID (?f r) = lr_ID x" unfolding fx by (rule arg_cong)
  with fr(2) x(3) show False by simp
qed

lemma update_lot:
  assumes valid: "lot_table_valid rows s" and i: "\<forall>v \<in> set_option (pul_TotalSpaces req). int32 v"
  shows "case lot_at rows s (tid, pul_Id req) of
      None \<Rightarrow> parkingLotService_Update (lotRepo_of db) (lot_service_request tid req) s =
        (Inl (parking ErrParkingLotNotFound), s)
    | Some l \<Rightarrow>
        (case updated_lot req l of
           Inl m \<Rightarrow> parkingLotService_Update (lotRepo_of db) (lot_service_request tid req) s =
             (Inl (parking (if m = ''invalid parking lot capacity'' then ErrParkingLotInvalidCapacity
                            else ErrParkingLotInvalidStatus)), s)
         | Inr l' \<Rightarrow>
             if lot_name_taken rows s tid req
             then parkingLotService_Update (lotRepo_of db) (lot_service_request tid req) s = (Inl (Opaque dup), s)
             else \<exists>n s'. g_Updates db (Select lot_columns (lot_q tid (pul_Id req))) (lot_toEntity l') s = (Inr n, s') \<and>
               0 \<le> n \<and> n \<le> 1 \<and> (l'\<lparr>l_UpdatedAt := now s\<rparr> \<noteq> l \<longrightarrow> n = 1) \<and>
               parkingLotService_Update (lotRepo_of db) (lot_service_request tid req) s =
                 (if n = 0 then Inl (parking ErrParkingLotNotFound) else Inr l', s') \<and>
               lots_ok rows s' \<and>
               lot_at rows s' = (lot_at rows s)((tid, pul_Id req) \<mapsto> l'\<lparr>l_UpdatedAt := now s\<rparr>))"
proof (cases "lot_at rows s (tid, pul_Id req)")
  case None
  then show ?thesis
    using lots.store.modify_missing [OF _ None] valid
    by (simp add: parkingLotService_Update_modify lot_get_eq lot_upd_eq lot_table_valid_def)
next
  case (Some l)
  have ok: "lots_ok rows s" using valid by (simp add: lot_table_valid_def)
  obtain r where r: "row_at rows lot_key s (tid, pul_Id req) = Some r" "l = lot_toDomain r"
      "r \<in> set (rows s)" "lr_TenantID r = tid" "lr_ID r = pul_Id req"
    using lot_at_row [OF Some] by metis
  have "lot_valid l" using valid r by (simp add: lot_table_valid_def lot_row_valid_def)
  note change = lot_update_change_run [OF this i, of tid]
  show ?thesis
  proof (cases "updated_lot req l")
    case (Inl m)
    have "lift_io (lot_update_change (lot_service_request tid req) l) s =
        (Inl (parking (if m = ''invalid parking lot capacity'' then ErrParkingLotInvalidCapacity
                       else ErrParkingLotInvalidStatus)), s)" by (simp add: change Inl)
    from lots.store.modify_refused [where change = "\<lambda>l. lift_io (lot_update_change (lot_service_request tid req) l)",
        OF ok Some this] show ?thesis
      using Some Inl by (simp add: parkingLotService_Update_modify lot_get_eq lot_upd_eq)
  next
    case (Inr l')
    note f = updated_lot_fields [OF Inr]
    have key: "lot_key (lot_toEntity l') = (tid, pul_Id req)"
      using f r by (simp add: lot_key_def lot_toEntity_def lot_toDomain_def)
    have changed: "lift_io (lot_update_change (lot_service_request tid req) l) s = (Inr l', s)"
      by (simp add: change Inr)
    show ?thesis
    proof (cases "lot_name_taken rows s tid req")
      case True
      from taken_lot_clashes [OF r(1) True] Inr r(2) have clash:
        "g_Updates db (Select lot_columns (lot_q tid (pul_Id req))) (lot_toEntity l') s = (Inl (Opaque dup), s)" by simp
      show ?thesis
        using lots.store.get_found [OF ok Some] changed True
        by (simp add: parkingLotService_Update_modify lot_get_eq lot_upd_eq modify_def bind_io_run key
            affected_or_def clash Some Inr)
    next
      case False
      have o: "lot_overlay (now s) l' l = l'\<lparr>l_UpdatedAt := now s\<rparr>" by (rule lot_overlay_kept) (rule f)+
      have "row_fits lot_clash rows lot_key (lot_assign (now s) lot_columns) s (lot_toEntity l')"
        by (rule renamed_lot_fits [OF ok r(1)]) (use key r Inr False in \<open>auto simp: lot_name_taken_def\<close>)
      from lots.modify_counted [where change = "\<lambda>l. lift_io (lot_update_change (lot_service_request tid req) l)",
          OF ok Some changed refl key this]
      obtain n s' where n: "g_Updates db (Select lot_columns (lot_q tid (pul_Id req))) (lot_toEntity l') s = (Inr n, s')"
          "0 \<le> n" "n \<le> 1" "l'\<lparr>l_UpdatedAt := now s\<rparr> \<noteq> l \<longrightarrow> n = 1"
          "modify lots.load_entity lots.save_entity (tid, pul_Id req)
             (\<lambda>l. lift_io (lot_update_change (lot_service_request tid req) l)) s =
             (if n = 0 then Inl (parking ErrParkingLotNotFound) else Inr l', s')"
          "lots_ok rows s'" "lot_at rows s' = (lot_at rows s)((tid, pul_Id req) \<mapsto> l'\<lparr>l_UpdatedAt := now s\<rparr>)"
        unfolding o prod.case by blast
      moreover have "parkingLotService_Update (lotRepo_of db) (lot_service_request tid req) s =
          (if n = 0 then Inl (parking ErrParkingLotNotFound) else Inr l', s')"
        unfolding n(5) [symmetric] by (simp add: parkingLotService_Update_modify lot_get_eq lot_upd_eq)
      ultimately show ?thesis unfolding Some Inr option.case sum.case if_not_P [OF False] by blast
    qed
  qed
qed

end

text \<open>
  C39: \<open>UpdateParkingLot\<close> on every branch. A request without a tenant is Unauthenticated, one
  without an id is InvalidArgument; an unknown lot, or one of another tenant, is not found; a
  status that the lot already has, or a capacity below the number of vehicles inside, is an
  invalid argument; a name that another lot of the tenant has is refused by the unique index and
  answered as Internal, with the database's text. None of these changes anything. Otherwise the
  table holds the requested values and the time of the update, and the number of vehicles inside
  is what it was; the answer is the updated lot, but not found when the database counts no row as
  changed, which it may do only when the write changes nothing. Other fields are not looked at: an
  \<open>UNSPECIFIED\<close> status leaves the status, an \<open>UNSPECIFIED\<close> type is stored as an empty one, and an
  empty name or address is stored, where \<open>plans/parking-lot-service.md\<close> demands that the handler
  refuses them.
\<close>

theorem update_parking_lot_branches:
  assumes "lot_db like db rows set_rows now dup" and "lot_table_valid rows s"
    and "\<forall>v \<in> set_option (pul_TotalSpaces req). int32 v"
  shows "let update = ParkingLotGRPCServer_UpdateParkingLot (lot_server env db lanes) ctx req
         in if TenantID ctx = [] then update s = (Inl (StatusErr Unauthenticated ''missing x-tenant-id''), s)
            else if pul_Id req = [] then update s = (Inl (StatusErr InvalidArgument ''id is required''), s)
            else case lot_at rows s (TenantID ctx, pul_Id req) of
              None \<Rightarrow> update s = (Inl (StatusErr NotFound ''parking lot not found''), s)
            | Some l \<Rightarrow>
                (case updated_lot req l of
                   Inl m \<Rightarrow> update s = (Inl (StatusErr InvalidArgument m), s)
                 | Inr l' \<Rightarrow> occupied l' = occupied l \<and>
                     (if lot_name_taken rows s (TenantID ctx) req
                      then update s = (Inl (StatusErr Internal dup), s)
                      else \<exists>n s'. g_Updates db (Select lot_columns (lot_q (TenantID ctx) (pul_Id req)))
                               (lot_toEntity l') s = (Inr n, s') \<and>
                             (l'\<lparr>l_UpdatedAt := now s\<rparr> \<noteq> l \<longrightarrow> n = 1) \<and>
                             update s = (if n = 0 then Inl (StatusErr NotFound ''parking lot not found'')
                                         else Inr (toProtoParkingLot l'), s') \<and>
                             lots_ok rows s' \<and>
                             lot_at rows s' = (lot_at rows s)
                               ((TenantID ctx, pul_Id req) \<mapsto> l'\<lparr>l_UpdatedAt := now s\<rparr>)))"
proof (cases "TenantID ctx = [] \<or> pul_Id req = []")
  case True
  then show ?thesis
    by (cases "TenantID ctx = []")
      (simp_all add: lot_rpc_defs in_tenant_run reject_if_def, simp add: in_tenant_def parking_extractTenantID_def Let_def)
next
  case False
  then have guards: "TenantID ctx \<noteq> []" "pul_Id req \<noteq> []" by simp_all
  note serve = lot_rpc_defs in_tenant_run [OF guards(1)] reject_if_def
  note run = lot_db.update_lot [OF assms, of "TenantID ctx"]
  have m: "m \<in> {''invalid parking lot status transition'', ''invalid parking lot capacity''}"
    if "updated_lot req l = Inl m" for l m
    using that by (auto simp: updated_lot_def Let_def split: if_splits)
  show ?thesis
  proof (cases "lot_at rows s (TenantID ctx, pul_Id req)")
    case None
    then show ?thesis using run guards by (simp add: serve grpc_reply_run)
  next
    case (Some l)
    show ?thesis
    proof (cases "updated_lot req l")
      case (Inl m)
      then show ?thesis using run guards Some m [OF Inl] by (auto simp: serve grpc_reply_run)
    next
      case (Inr l')
      show ?thesis
      proof (cases "lot_name_taken rows s (TenantID ctx) req")
        case True
        then show ?thesis
          using run guards Some Inr by (simp add: serve grpc_reply_run updated_lot_occupied)
      next
        case False
        from run Some Inr False obtain n s' where
          "g_Updates db (Select lot_columns (lot_q (TenantID ctx) (pul_Id req))) (lot_toEntity l') s = (Inr n, s')"
          "l'\<lparr>l_UpdatedAt := now s\<rparr> \<noteq> l \<longrightarrow> n = 1"
          "parkingLotService_Update (lotRepo_of db) (lot_service_request (TenantID ctx) req) s =
             (if n = 0 then Inl (parking ErrParkingLotNotFound) else Inr l', s')"
          "lots_ok rows s'"
          "lot_at rows s' = (lot_at rows s)((TenantID ctx, pul_Id req) \<mapsto> l'\<lparr>l_UpdatedAt := now s\<rparr>)" by auto
        then show ?thesis
          using guards Some Inr False by (auto simp: serve grpc_reply_run updated_lot_occupied)
      qed
    qed
  qed
qed

end
