(* ===== verification/Lane_Service.thy ===== *)
theory Lane_Service
  imports Lot_Service Device_Service
begin

text \<open>
  The lane service (\<open>service/lane_service.go\<close>) and its gRPC server (\<open>grpc/lane_server.go\<close>). The
  service works on the lanes of the parking domain and, through the interface
  \<open>iotservice.DeviceService\<close>, on the devices of the IoT domain. Logging is left out.
\<close>

section \<open>Service\<close>

record LaneDeviceInfo =
  ldi_ID :: string
  ldi_Name :: string
  ldi_Status :: string
  ldi_LastHeartbeat :: "int option"

record LaneWithDevice =
  lwd_Lane :: lane
  lwd_Device :: "LaneDeviceInfo option"

record AvailableDevice =
  avd_ID :: string
  avd_Name :: string
  avd_Status :: string

record LaneConfigResponse =
  lcf_Lanes :: "LaneWithDevice list"
  lcf_AvailableDevices :: "AvailableDevice list"

record LaneInput =
  lni_ID :: "string option"
  lni_Name :: string
  lni_Type :: string
  lni_DeviceID :: "string option"

record UpdateLanesRequest =
  uln_ParkingLotID :: string
  uln_Lanes :: "LaneInput list"

record UpdateLanesResponse =
  uln_ResponseLanes :: "LaneWithDevice list"

record 's lane_service =
  lns_GetLaneConfig :: "string \<Rightarrow> string \<Rightarrow> (LaneConfigResponse, 's) io"
  lns_UpdateLanes :: "string \<Rightarrow> UpdateLanesRequest \<Rightarrow> (UpdateLanesResponse, 's) io"

text \<open>
  \<open>GetLaneConfig\<close>: the devices that no lane of the lot refers to and that are not disabled; and
  the lanes with what the device list says of their devices. When the list fails there are none.
\<close>

definition available_devices :: "lane list \<Rightarrow> device list \<Rightarrow> AvailableDevice list" where
  "available_devices lanes devices =
     (let boundDevices = List.map_filter ln_DeviceID lanes
      in map (\<lambda>d. \<lparr>avd_ID = dv_ID d, avd_Name = dv_Name d, avd_Status = dv_Status d\<rparr>)
           (filter (\<lambda>d. \<not> (dv_ID d \<in> set boundDevices \<or> dv_Status d = DeviceStatusDisabled)) devices))"

definition lane_with_device :: "device list \<Rightarrow> lane \<Rightarrow> LaneWithDevice" where
  "lane_with_device devices l =
     (let deviceMap = map_of (rev (map (\<lambda>d. (dv_ID d, d)) devices))
      in \<lparr>lwd_Lane = l,
          lwd_Device = (case ln_DeviceID l of None \<Rightarrow> None | Some did \<Rightarrow>
            map_option (\<lambda>dev. \<lparr>ldi_ID = dv_ID dev, ldi_Name = dv_Name dev,
                               ldi_Status = dv_Status dev,
                               ldi_LastHeartbeat = dv_LastHeartbeat dev\<rparr>) (deviceMap did))\<rparr>)"

definition laneService_GetLaneConfig ::
  "'s lane_repo \<Rightarrow> 's device_service \<Rightarrow> string \<Rightarrow> string \<Rightarrow> (LaneConfigResponse, 's) io" where
  "laneService_GetLaneConfig laneRepo deviceSvc tenantID parkingLotID =
     bind_io (lnp_ListByParkingLotID laneRepo tenantID parkingLotID) (\<lambda>lanes.
     try_io (dvs_List deviceSvc
         \<lparr>ldr_TenantID = tenantID, ldr_Status = [], ldr_ParkingLotID = [], ldr_Keyword = [],
          ldr_Page = 1, ldr_PageSize = 200\<rparr>) (\<lambda>res.
     let devices = (case res of Inl _ \<Rightarrow> [] | Inr devicesResp \<Rightarrow> dlr_Devices devicesResp)
     in return_io \<lparr>lcf_Lanes = map (lane_with_device devices) lanes,
                   lcf_AvailableDevices = available_devices lanes devices\<rparr>))"

definition bindDevice ::
  "'s device_service \<Rightarrow> string \<Rightarrow> string \<Rightarrow> string \<Rightarrow> string \<Rightarrow> (unit, 's) io" where
  "bindDevice deviceSvc tenantID deviceID parkingLotID laneID =
     bind_io (dvs_Bind deviceSvc
         \<lparr>bdr_TenantID = tenantID, bdr_ID = deviceID, bdr_ParkingLotID = parkingLotID,
          bdr_GateID = laneID\<rparr>) (\<lambda>_. return_io ())"

fun deviceIDEqual :: "string option \<Rightarrow> string option \<Rightarrow> bool" where
  "deviceIDEqual None None = True"
| "deviceIDEqual (Some a) (Some b) = (a = b)"
| "deviceIDEqual _ _ = False"

text \<open>\<open>if p != nil && *p != ""\<close>, and the unbinding whose error is only logged.\<close>

definition given :: "string option \<Rightarrow> bool" where
  "given p = (case p of None \<Rightarrow> False | Some v \<Rightarrow> v \<noteq> [])"

definition unbind_if :: "'s device_service \<Rightarrow> string \<Rightarrow> string option \<Rightarrow> (unit, 's) io" where
  "unbind_if deviceSvc tenantID deviceID =
     (case deviceID of None \<Rightarrow> return_io ()
      | Some did \<Rightarrow> ignore_io (dvs_Unbind deviceSvc \<lparr>ubr_TenantID = tenantID, ubr_ID = did\<rparr>))"

text \<open>Phase 1 of \<open>UpdateLanes\<close>: delete the lanes that the request does not list.\<close>

definition updateLanes_delete ::
  "'s lane_repo \<Rightarrow> 's device_service \<Rightarrow> string \<Rightarrow> string list \<Rightarrow> (string \<times> lane) list \<Rightarrow> (unit, 's) io" where
  "updateLanes_delete laneRepo deviceSvc tenantID requestIDs current =
     for_io (\<lambda>(lid, lane).
       if lid \<in> set requestIDs then return_io ()
       else bind_io (unbind_if deviceSvc tenantID (ln_DeviceID lane)) (\<lambda>_.
            map_err_io (Wrap (''delete lane '' @ lid @ '': '')) (lnp_Delete laneRepo tenantID lid)))
       current"

text \<open>Phase 2: a new lane, or a change of a lane of the map.\<close>

definition updateLanes_create ::
  "'s go_env \<Rightarrow> 's lane_repo \<Rightarrow> 's device_service \<Rightarrow> string \<Rightarrow> string \<Rightarrow> LaneInput \<Rightarrow> (unit, 's) io" where
  "updateLanes_create env laneRepo deviceSvc tenantID parkingLotID input =
     bind_io (lnp_ExistsByName laneRepo parkingLotID (lni_Name input)) (\<lambda>exists.
     if exists
     then fail_io (Opaque (''lane name '' @ [CHR 0x27] @ lni_Name input @ [CHR 0x27] @ '' already exists''))
     else bind_io (ask_io (uuid_New env)) (\<lambda>uid.
       bind_io (NewLane env uid tenantID parkingLotID (lni_Name input) (lni_Type input)) (\<lambda>lane.
       bind_io (map_err_io (Wrap ''create lane: '') (lnp_Create laneRepo lane)) (\<lambda>_.
       if given (lni_DeviceID input)
       then try_io (bindDevice deviceSvc tenantID (the (lni_DeviceID input)) parkingLotID (ln_ID lane))
         (\<lambda>res. case res of
            Inl _ \<Rightarrow> return_io ()
          | Inr _ \<Rightarrow> bind_io (Lane_SetDevice env (the (lni_DeviceID input)) lane)
                      (\<lambda>lane. ignore_io (lnp_Update laneRepo lane)))
       else return_io ()))))"

definition updateLanes_change ::
  "'s go_env \<Rightarrow> 's lane_repo \<Rightarrow> 's device_service \<Rightarrow> string \<Rightarrow> string \<Rightarrow> string \<Rightarrow> LaneInput \<Rightarrow> lane \<Rightarrow>
   (lane, 's) io" where
  "updateLanes_change env laneRepo deviceSvc tenantID parkingLotID lid input lane =
     bind_io
       (if deviceIDEqual (ln_DeviceID lane) (lni_DeviceID input) then return_io lane
        else bind_io (unbind_if deviceSvc tenantID (ln_DeviceID lane)) (\<lambda>_.
          if given (lni_DeviceID input)
          then try_io (bindDevice deviceSvc tenantID (the (lni_DeviceID input)) parkingLotID (ln_ID lane))
            (\<lambda>res. case res of
               Inl _ \<Rightarrow> Lane_ClearDevice env lane
             | Inr _ \<Rightarrow> Lane_SetDevice env (the (lni_DeviceID input)) lane)
          else Lane_ClearDevice env lane))
       (\<lambda>lane. let lane = lane\<lparr>ln_Name := lni_Name input\<rparr>
               in bind_io (map_err_io (Wrap (''update lane '' @ lid @ '': '')) (lnp_Update laneRepo lane))
                    (\<lambda>_. return_io lane))"

fun updateLanes_apply ::
  "'s go_env \<Rightarrow> 's lane_repo \<Rightarrow> 's device_service \<Rightarrow> string \<Rightarrow> string \<Rightarrow> (string \<times> lane) list \<Rightarrow>
   LaneInput list \<Rightarrow> (unit, 's) io" where
  "updateLanes_apply env laneRepo deviceSvc tenantID parkingLotID current [] = return_io ()"
| "updateLanes_apply env laneRepo deviceSvc tenantID parkingLotID current (input # inputs) =
     (if \<not> given (lni_ID input)
      then bind_io (updateLanes_create env laneRepo deviceSvc tenantID parkingLotID input)
        (\<lambda>_. updateLanes_apply env laneRepo deviceSvc tenantID parkingLotID current inputs)
      else let lid = the (lni_ID input) in
        (case map_of current lid of
           None \<Rightarrow> fail_io (Opaque (''lane '' @ lid @ '' not found''))
         | Some lane \<Rightarrow>
             bind_io (updateLanes_change env laneRepo deviceSvc tenantID parkingLotID lid input lane)
               (\<lambda>lane. updateLanes_apply env laneRepo deviceSvc tenantID parkingLotID
                         (AList.update lid lane current) inputs)))"

text \<open>
  The map of the loaded lanes, and the IDs the request lists. Go iterates over a map in an
  order it does not specify: \<open>order\<close> arranges the entries of the map for the loop of phase 1.
\<close>

definition lane_map :: "lane list \<Rightarrow> (string \<times> lane) list" where
  "lane_map lanes = foldl (\<lambda>m l. AList.update (ln_ID l) l m) [] lanes"

definition request_ids :: "LaneInput list \<Rightarrow> string list" where
  "request_ids inputs = map (\<lambda>i. the (lni_ID i)) (filter (\<lambda>i. given (lni_ID i)) inputs)"

definition laneService_UpdateLanes ::
  "'s go_env \<Rightarrow> ((string \<times> lane) list \<Rightarrow> (string \<times> lane) list) \<Rightarrow> 's lane_repo \<Rightarrow> 's device_service \<Rightarrow>
   string \<Rightarrow> UpdateLanesRequest \<Rightarrow> (UpdateLanesResponse, 's) io" where
  "laneService_UpdateLanes env order laneRepo deviceSvc tenantID req =
     bind_io (lnp_ListByParkingLotID laneRepo tenantID (uln_ParkingLotID req)) (\<lambda>currentLanes.
     bind_io (updateLanes_delete laneRepo deviceSvc tenantID (request_ids (uln_Lanes req))
       (order (lane_map currentLanes))) (\<lambda>_.
     bind_io (updateLanes_apply env laneRepo deviceSvc tenantID (uln_ParkingLotID req)
       (lane_map currentLanes) (uln_Lanes req)) (\<lambda>_.
     bind_io (lnp_ListByParkingLotID laneRepo tenantID (uln_ParkingLotID req)) (\<lambda>finalLanes.
     return_io \<lparr>uln_ResponseLanes = map (\<lambda>l. \<lparr>lwd_Lane = l, lwd_Device = None\<rparr>) finalLanes\<rparr>))))"

definition NewLaneService ::
  "'s go_env \<Rightarrow> ((string \<times> lane) list \<Rightarrow> (string \<times> lane) list) \<Rightarrow> 's lane_repo \<Rightarrow> 's device_service \<Rightarrow>
   's lane_service" where
  "NewLaneService env order laneRepo deviceSvc =
     \<lparr>lns_GetLaneConfig = laneService_GetLaneConfig laneRepo deviceSvc,
      lns_UpdateLanes = laneService_UpdateLanes env order laneRepo deviceSvc\<rparr>"

section \<open>gRPC server\<close>

datatype pb_LaneType =
    LANE_TYPE_UNSPECIFIED | LANE_TYPE_ENTRY | LANE_TYPE_EXIT | LANE_TYPE_unrecognized int

record pb_LaneDevice =
  pbld_DeviceId :: string
  pbld_Name :: string
  pbld_Status :: string
  pbld_LastHeartbeat :: "Timestamp option"

record pb_DeviceOption =
  pdo_DeviceId :: string
  pdo_Name :: string
  pdo_Status :: string

record pb_Lane =
  pln_LaneId :: string
  pln_ParkingLotId :: string
  pln_Name :: string
  pln_LaneType :: pb_LaneType
  pln_DeviceId :: string
  pln_Device :: "pb_LaneDevice option"
  pln_CreatedAt :: "Timestamp option"
  pln_UpdatedAt :: "Timestamp option"

record pb_GetLaneConfigResponse =
  pgl_Lanes :: "pb_Lane list"
  pgl_AvailableDevices :: "pb_DeviceOption list"

record pb_LaneInput =
  pli_LaneId :: string
  pli_Name :: string
  pli_LaneType :: pb_LaneType
  pli_DeviceId :: string

record pb_UpdateLanesRequest =
  pun_ParkingLotId :: string
  pun_Lanes :: "pb_LaneInput list"

definition laneTypeToProto :: "string \<Rightarrow> pb_LaneType" where
  "laneTypeToProto t =
     (if t = LaneTypeEntry then LANE_TYPE_ENTRY
      else if t = LaneTypeExit then LANE_TYPE_EXIT else LANE_TYPE_UNSPECIFIED)"

fun laneTypeFromProto :: "pb_LaneType \<Rightarrow> string" where
  "laneTypeFromProto LANE_TYPE_ENTRY = LaneTypeEntry"
| "laneTypeFromProto LANE_TYPE_EXIT = LaneTypeExit"
| "laneTypeFromProto _ = []"

definition toProtoLane :: "lane \<Rightarrow> LaneDeviceInfo option \<Rightarrow> pb_Lane" where
  "toProtoLane l dev =
     \<lparr>pln_LaneId = ln_ID l, pln_ParkingLotId = ln_ParkingLotID l, pln_Name = ln_Name l,
      pln_LaneType = laneTypeToProto (ln_Type l),
      pln_DeviceId = (case ln_DeviceID l of None \<Rightarrow> [] | Some did \<Rightarrow> did),
      pln_Device = map_option (\<lambda>d. \<lparr>pbld_DeviceId = ldi_ID d, pbld_Name = ldi_Name d,
          pbld_Status = ldi_Status d,
          pbld_LastHeartbeat = map_option (\<lambda>t. \<lparr>ts_Seconds = t div time_second,
            ts_Nanos = t mod time_second\<rparr>) (ldi_LastHeartbeat d)\<rparr>) dev,
      pln_CreatedAt = toTimestamp (ln_CreatedAt l), pln_UpdatedAt = toTimestamp (ln_UpdatedAt l)\<rparr>"

definition LaneGRPCServer_GetLaneConfig ::
  "'s lane_service \<Rightarrow> go_ctx \<Rightarrow> string \<Rightarrow> (pb_GetLaneConfigResponse, 's) io" where
  "LaneGRPCServer_GetLaneConfig svc ctx parkingLotID =
     in_tenant ctx (\<lambda>tenantID. reject_if (parkingLotID = []) ''parking_lot_id is required''
     (grpc_reply parking_toGRPCError (lns_GetLaneConfig svc tenantID parkingLotID)
       (\<lambda>resp. \<lparr>pgl_Lanes = map (\<lambda>l. toProtoLane (lwd_Lane l) (lwd_Device l)) (lcf_Lanes resp),
                pgl_AvailableDevices = map (\<lambda>d. \<lparr>pdo_DeviceId = avd_ID d, pdo_Name = avd_Name d,
                  pdo_Status = avd_Status d\<rparr>) (lcf_AvailableDevices resp)\<rparr>)))"

definition lane_input :: "pb_LaneInput \<Rightarrow> LaneInput" where
  "lane_input input =
     \<lparr>lni_ID = (if pli_LaneId input \<noteq> [] then Some (pli_LaneId input) else None),
      lni_Name = pli_Name input, lni_Type = laneTypeFromProto (pli_LaneType input),
      lni_DeviceID = (if pli_DeviceId input \<noteq> [] then Some (pli_DeviceId input) else None)\<rparr>"

definition LaneGRPCServer_UpdateLanes ::
  "'s lane_service \<Rightarrow> go_ctx \<Rightarrow> pb_UpdateLanesRequest \<Rightarrow> (pb_Lane list, 's) io" where
  "LaneGRPCServer_UpdateLanes svc ctx req =
     in_tenant ctx (\<lambda>tenantID. reject_if (pun_ParkingLotId req = []) ''parking_lot_id is required''
     (grpc_reply parking_toGRPCError (lns_UpdateLanes svc tenantID
         \<lparr>uln_ParkingLotID = pun_ParkingLotId req, uln_Lanes = map lane_input (pun_Lanes req)\<rparr>)
       (\<lambda>resp. map (\<lambda>l. toProtoLane (lwd_Lane l) (lwd_Device l)) (uln_ResponseLanes resp))))"

text \<open>\<open>RegisterServices\<close> of the parking domain, its second half: the lane service.\<close>

definition lane_server ::
  "'s go_env \<Rightarrow> ((string \<times> lane) list \<Rightarrow> (string \<times> lane) list) \<Rightarrow> 's lane_gorm \<Rightarrow> 's device_service \<Rightarrow>
   's lane_service" where
  "lane_server env order db deviceSvc = NewLaneService env order (NewLaneRepo (NewLaneDAO db)) deviceSvc"

end
