(* ===== verification/Lane_Correct.thy ===== *)
theory Lane_Correct
  imports Part_World Lot_Props Lane_Service Device_Rpcs
begin

text \<open>
  The lane service between its two providers, the lane repository and the device service: an
  interface that says what one invariant needs of every call that \<open>UpdateLanes\<close> makes, the
  laws of the two tables that discharge it, and the calls that leave the other table alone.
\<close>

section \<open>The map of the loaded lanes\<close>

lemma set_AList_update: "set (AList.update k v al) \<subseteq> insert (k, v) (set al)"
  by (induction al) auto

lemma lane_map_snoc: "lane_map (ls @ [l]) = AList.update (ln_ID l) l (lane_map ls)"
  by (simp add: lane_map_def)

lemma lane_map_entries: "(lid, l) \<in> set (lane_map ls) \<Longrightarrow> l \<in> set ls \<and> lid = ln_ID l"
proof (induction ls rule: rev_induct)
  case (snoc l' ls)
  then show ?case using set_AList_update [of "ln_ID l'" l' "lane_map ls"] by (auto simp: lane_map_snoc)
qed (simp add: lane_map_def)

lemma lane_map_of: "map_of (lane_map ls) lid = Some l \<Longrightarrow> l \<in> set ls \<and> ln_ID l = lid"
  using lane_map_entries [of lid l ls] map_of_SomeD [of "lane_map ls" lid l] by simp

section \<open>What UpdateLanes needs of an invariant\<close>

text \<open>
  \<open>mine\<close> are the lanes that the call may write: those it has loaded from the lot or created in
  it. Go iterates over the map of lanes in an arbitrary order.
\<close>

locale lane_steps =
  fixes env :: "'s go_env" and order :: "(string \<times> lane) list \<Rightarrow> (string \<times> lane) list"
    and repo :: "'s lane_repo" and svc :: "'s device_service" and t :: string and p :: string
    and I :: "'s \<Rightarrow> bool" and mine :: "lane \<Rightarrow> bool"
  assumes order_set: "set (order m) = set m"
    and list_inv: "io_inv I (lnp_ListByParkingLotID repo t p) (\<lambda>ls. \<forall>l \<in> set ls. mine l)"
    and exists_inv: "io_inv I (lnp_ExistsByName repo p name) (\<lambda>_. True)"
    and create_inv: "ln_TenantID l = t \<Longrightarrow> ln_ParkingLotID l = p \<Longrightarrow> io_inv I (lnp_Create repo l) (\<lambda>_. mine l)"
    and update_inv: "mine l \<Longrightarrow> io_inv I (lnp_Update repo l) (\<lambda>_. True)"
    and delete_inv: "mine l \<Longrightarrow> io_inv I (lnp_Delete repo t (ln_ID l)) (\<lambda>_. True)"
    and mine_change: "mine l \<Longrightarrow> ln_ID l' = ln_ID l \<Longrightarrow> ln_TenantID l' = ln_TenantID l \<Longrightarrow>
        ln_ParkingLotID l' = ln_ParkingLotID l \<Longrightarrow> mine l'"
    and bind_inv: "bdr_TenantID b = t \<Longrightarrow> io_inv I (dvs_Bind svc b) (\<lambda>_. True)"
    and unbind_inv: "ubr_TenantID u = t \<Longrightarrow> io_inv I (dvs_Unbind svc u) (\<lambda>_. True)"
    and clock_inv: "io_inv I (ask_io (time_Now env)) (\<lambda>_. True)"
    and uuid_inv: "io_inv I (ask_io (uuid_New env)) (\<lambda>_. True)"
begin

lemma unbind_if_inv: "io_inv I (unbind_if svc t d) (\<lambda>_. True)"
  by (cases d) (auto simp: unbind_if_def intro: io_inv_ignore [OF unbind_inv])

lemma bindDevice_inv: "io_inv I (bindDevice svc t d p lid) (\<lambda>_. True)"
  unfolding bindDevice_def by (rule io_inv_bind [OF bind_inv]) simp_all

lemma set_device_inv:
  assumes "mine l"
  shows "io_inv I (Lane_SetDevice env d l) mine" and "io_inv I (Lane_ClearDevice env l) mine"
  unfolding Lane_SetDevice_def Lane_ClearDevice_def
  by (rule io_inv_bind [OF clock_inv], rule io_inv_simps, rule mine_change [OF assms]; simp)+

lemma deletes_inv:
  assumes "\<forall>(lid, l) \<in> set m. mine l \<and> lid = ln_ID l"
  shows "io_inv I (updateLanes_delete repo svc t ids (order m)) (\<lambda>_. True)"
  unfolding updateLanes_delete_def
proof (rule io_inv_for)
  fix x
  assume "x \<in> set (order m)"
  then obtain l where x: "x = (ln_ID l, l)" "mine l" using assms by (auto simp: order_set)
  show "io_inv I ((\<lambda>(lid, lane). if lid \<in> set ids then return_io ()
      else bind_io (unbind_if svc t (ln_DeviceID lane))
        (\<lambda>_. map_err_io (Wrap (''delete lane '' @ lid @ '': '')) (lnp_Delete repo t lid))) x) (\<lambda>_. True)"
    unfolding x(1) case_prod_conv
    by (rule io_inv_if, simp, rule io_inv_bind [OF unbind_if_inv], rule io_inv_map_err, rule delete_inv [OF x(2)])
qed

lemma creates_inv: "io_inv I (updateLanes_create env repo svc t p input) (\<lambda>_. True)"
  unfolding updateLanes_create_def
proof (rule io_inv_bind [OF exists_inv], rule io_inv_if, simp, rule io_inv_bind [OF uuid_inv], rule io_inv_bind)
  fix uid
  show "io_inv I (NewLane env uid t p (lni_Name input) (lni_Type input))
      (\<lambda>l. ln_TenantID l = t \<and> ln_ParkingLotID l = p)"
    unfolding NewLane_def by (rule io_inv_bind [OF clock_inv], rule io_inv_bind [OF clock_inv]) simp
next
  fix l :: lane
  assume l: "ln_TenantID l = t \<and> ln_ParkingLotID l = p"
  show "io_inv I (bind_io (map_err_io (Wrap ''create lane: '') (lnp_Create repo l)) (\<lambda>_.
       if given (lni_DeviceID input)
       then try_io (bindDevice svc t (the (lni_DeviceID input)) p (ln_ID l))
         (\<lambda>res. case res of Inl _ \<Rightarrow> return_io ()
          | Inr _ \<Rightarrow> bind_io (Lane_SetDevice env (the (lni_DeviceID input)) l)
                      (\<lambda>lane. ignore_io (lnp_Update repo lane)))
       else return_io ())) (\<lambda>_. True)"
  proof (rule io_inv_bind [OF io_inv_map_err [OF create_inv]])
    assume "mine l"
    then show "io_inv I (if given (lni_DeviceID input)
       then try_io (bindDevice svc t (the (lni_DeviceID input)) p (ln_ID l))
         (\<lambda>res. case res of Inl _ \<Rightarrow> return_io ()
          | Inr _ \<Rightarrow> bind_io (Lane_SetDevice env (the (lni_DeviceID input)) l)
                      (\<lambda>lane. ignore_io (lnp_Update repo lane)))
       else return_io ()) (\<lambda>_. True)"
      by (intro io_inv_if io_inv_try [OF bindDevice_inv])
        (auto split: sum.split intro!: io_inv_bind [OF set_device_inv(1)] io_inv_ignore [OF update_inv])
  qed (simp_all add: l)
qed

lemma changes_inv:
  assumes "mine l"
  shows "io_inv I (updateLanes_change env repo svc t p lid input l)
           (\<lambda>l'. mine l')"
  unfolding updateLanes_change_def
proof (rule io_inv_bind)
  show "io_inv I (if deviceIDEqual (ln_DeviceID l) (lni_DeviceID input) then return_io l
        else bind_io (unbind_if svc t (ln_DeviceID l)) (\<lambda>_.
          if given (lni_DeviceID input)
          then try_io (bindDevice svc t (the (lni_DeviceID input)) p (ln_ID l))
            (\<lambda>res. case res of Inl _ \<Rightarrow> Lane_ClearDevice env l
             | Inr _ \<Rightarrow> Lane_SetDevice env (the (lni_DeviceID input)) l)
          else Lane_ClearDevice env l)) mine"
    by (intro io_inv_if io_inv_bind [OF unbind_if_inv] io_inv_try [OF bindDevice_inv] set_device_inv)
      (auto split: sum.split simp: assms intro: set_device_inv)
  fix l'
  assume "mine l'"
  then have m: "mine (l'\<lparr>ln_Name := lni_Name input\<rparr>)" by (rule mine_change) simp_all
  show "io_inv I (let lane = l'\<lparr>ln_Name := lni_Name input\<rparr>
      in bind_io (map_err_io (Wrap (''update lane '' @ lid @ '': '')) (lnp_Update repo lane)) (\<lambda>_. return_io lane)) mine"
    unfolding Let_def by (rule io_inv_bind [OF io_inv_map_err [OF update_inv [OF m]]]) (simp add: m)
qed

lemma applies_inv:
  "\<forall>lid l. map_of m lid = Some l \<longrightarrow> mine l \<Longrightarrow>
     io_inv I (updateLanes_apply env repo svc t p m inputs) (\<lambda>_. True)"
proof (induction inputs arbitrary: m)
  case (Cons input inputs)
  show ?case
  proof (cases "given (lni_ID input)")
    case False
    then show ?thesis using Cons by (auto intro: io_inv_bind [OF creates_inv])
  next
    case True
    let ?lid = "the (lni_ID input)"
    show ?thesis
    proof (cases "map_of m ?lid")
      case (Some l)
      have "io_inv I (bind_io (updateLanes_change env repo svc t p ?lid input l)
          (\<lambda>l'. updateLanes_apply env repo svc t p (AList.update ?lid l' m) inputs)) (\<lambda>_. True)"
        by (rule io_inv_bind [OF changes_inv], use Cons.prems Some in blast,
            rule Cons.IH, use Cons.prems in \<open>simp add: update_conv'\<close>)
      then show ?thesis using True Some by (simp add: Let_def)
    qed (use True in \<open>simp add: io_inv_def Let_def\<close>)
  qed
qed simp

lemma UpdateLanes_inv:
  assumes "uln_ParkingLotID req = p"
  shows "io_inv I (laneService_UpdateLanes env order repo svc t req) (\<lambda>_. True)"
  unfolding laneService_UpdateLanes_def assms
proof (rule io_inv_bind [OF list_inv], rule io_inv_bind [OF deletes_inv], goal_cases)
  case (1 ls)
  then show ?case using lane_map_entries by blast
next
  case (2 ls)
  then have "\<forall>lid l. map_of (lane_map ls) lid = Some l \<longrightarrow> mine l" using lane_map_of by blast
  then show ?case
    by (rule io_inv_bind [OF applies_inv]) (rule io_inv_bind [OF list_inv], simp)
qed

end

section \<open>The lanes of one lot\<close>

abbreviation laneRepo_of :: "'s lane_gorm \<Rightarrow> 's lane_repo" where
  "laneRepo_of db \<equiv> NewLaneRepo (NewLaneDAO db)"

definition own_lane :: "lane_row list \<Rightarrow> string \<Rightarrow> string \<Rightarrow> lane \<Rightarrow> bool" where
  "own_lane others t p l \<longleftrightarrow>
     ln_TenantID l = t \<and> ln_ParkingLotID l = p \<and> ln_ID l \<notin> lnr_ID ` set others"

lemma lane_upd_eq:
  "lnp_Update (laneRepo_of db) l =
     affected_or (g_Updates db (Select lane_columns
         (case lane_key (toLaneEntity l) of (tid, lid) \<Rightarrow> lane_q tid lid)) (toLaneEntity l))
       (parking ErrLaneNotFound)"
  by (simp add: lane_store_defs lane_key_def)

lemma lane_crt_eq:
  "lnp_Create (laneRepo_of db) l =
     create_or db [''duplicate'', ''UNIQUE''] (parking ErrLaneNameDuplicate) (toLaneEntity l)"
  by (simp add: lane_store_defs)

lemma lane_del_eq:
  "lnp_Delete (laneRepo_of db) t lid =
     affected_or (g_Delete db (case (t, lid) of (tid, lid) \<Rightarrow> lane_q tid lid)) (parking ErrLaneNotFound)"
  by (simp add: lane_store_defs)

lemma own_lane_key: "own_lane others t p l \<Longrightarrow> lane_key (toLaneEntity l) \<notin> lane_key ` set others"
  by (auto simp: own_lane_def lane_key_def toLaneEntity_def)

lemma lane_ids_unique:
  "lanes_ok rows s \<Longrightarrow> r \<in> set (rows s) \<Longrightarrow> r' \<in> set (rows s) \<Longrightarrow> lnr_ID r = lnr_ID r' \<Longrightarrow> r = r'"
  using unclashing_both [of lane_clash "rows s" r r'] by (simp add: table_intact_def lane_clash_def)

context lane_db
begin

lemma ListByParkingLot_run:
  "\<exists>xs. mset xs = mset (filter (\<lambda>r. lane_scope r = (t, p)) (rows s)) \<and> sorted (map lnr_CreatedAt xs) \<and>
        lnp_ListByParkingLotID (laneRepo_of db) t p s = (Inr (map toLaneDomain xs), s)"
proof -
  define q where "q = Order ''created_at ASC''
       (Where ''tenant_id = ? AND parking_lot_id = ?'' [SqlStr t, SqlStr p] Model)"
  have m: "matches lane_holds q = (\<lambda>r. lane_scope r = (t, p))"
    by (rule ext) (simp add: q_def matches_def query_simps lane_scope_def)
  have o: "lane_order (q_order q) = lnr_CreatedAt" by (rule ext) (simp add: q_def query_simps)
  have "page_of q xs = xs" for xs :: "lane_row list" by (simp add: page_of_def q_def query_simps)
  then show ?thesis
    using Find_page [of q s] unfolding m o by (auto simp: lane_store_defs bind_io_run q_def [symmetric])
qed

lemma list_lanes_inv:
  "io_inv (lane_inv rows (t, p) others) (lnp_ListByParkingLotID (laneRepo_of db) t p)
     (\<lambda>ls. \<forall>l \<in> set ls. own_lane others t p l)"
  unfolding io_inv_def
proof (intro allI impI)
  fix s
  assume inv: "lane_inv rows (t, p) others s"
  obtain xs where xs: "mset xs = mset (filter (\<lambda>r. lane_scope r = (t, p)) (rows s))"
      "lnp_ListByParkingLotID (laneRepo_of db) t p s = (Inr (map toLaneDomain xs), s)"
    using ListByParkingLot_run by blast
  have "own_lane others t p (toLaneDomain r)" if "r \<in> set xs" for r
  proof -
    have r: "r \<in> set (rows s)" "lane_scope r = (t, p)" using that mset_eq_setD [OF xs(1)] by auto
    have "lnr_ID r \<noteq> lnr_ID r'" if "r' \<in> set others" for r'
      using inv that r lane_ids_unique [of rows s r r'] unfolding scope_inv_def by force
    then show ?thesis using r(2) by (auto simp: own_lane_def toLaneDomain_def lane_scope_def)
  qed
  then show "lane_inv rows (t, p) others (snd (lnp_ListByParkingLotID (laneRepo_of db) t p s)) \<and>
      (\<forall>ls. fst (lnp_ListByParkingLotID (laneRepo_of db) t p s) = Inr ls \<longrightarrow> (\<forall>l \<in> set ls. own_lane others t p l))"
    using inv by (simp add: xs(2))
qed

lemma create_lane_inv:
  assumes "ln_TenantID l = t" and "ln_ParkingLotID l = p"
  shows "io_inv (lane_inv rows (t, p) others) (lnp_Create (laneRepo_of db) l) (\<lambda>_. own_lane others t p l)"
proof -
  have inv: "io_inv (lane_inv rows (t, p) others) (lnp_Create (laneRepo_of db) l) (\<lambda>_. True)"
    unfolding lane_crt_eq
    by (rule lanes.create_inv) (use assms in \<open>simp_all add: lane_scope_def toLaneEntity_def\<close>)
  have "own_lane others t p l"
    if i: "lane_inv rows (t, p) others s" and ok: "fst (lnp_Create (laneRepo_of db) l s) = Inr u" for s u
  proof -
    have "\<not> (\<exists>r \<in> set (rows s). lane_clash (toLaneEntity l) r)"
    proof
      assume "\<exists>r \<in> set (rows s). lane_clash (toLaneEntity l) r"
      from Create_clash [OF this] ok show False by (simp add: lane_crt_eq create_or_def map_err_io_run)
    qed
    moreover have "set others \<subseteq> set (rows s)" using i by (auto simp: scope_inv_def)
    ultimately show ?thesis using assms by (auto simp: own_lane_def lane_clash_def toLaneEntity_def)
  qed
  then show ?thesis using inv unfolding io_inv_def by blast
qed

lemma update_lane_inv:
  "own_lane others t p l \<Longrightarrow> io_inv (lane_inv rows (t, p) others) (lnp_Update (laneRepo_of db) l) (\<lambda>_. True)"
  unfolding lane_upd_eq by (rule lanes.update_inv) (simp_all add: own_lane_key)

lemma delete_lane_inv:
  assumes "own_lane others t p l"
  shows "io_inv (lane_inv rows (t, p) others) (lnp_Delete (laneRepo_of db) t (ln_ID l)) (\<lambda>_. True)"
  unfolding lane_del_eq
  by (rule lanes.delete_inv) (use assms in \<open>auto simp: own_lane_def lane_key_def\<close>)

lemma ExistsByName_run:
  "lnp_ExistsByName (laneRepo_of db) p name s =
     (Inr (\<exists>r \<in> set (rows s). lnr_ParkingLotID r = p \<and> lnr_Name r = name), s)"
  by (auto simp: lane_store_defs bind_io_run Count_matching matches_def query_simps filter_empty_conv)

text \<open>What the operations on lanes leave alone.\<close>

lemma lane_repo_frame:
  assumes "\<And>xs s. f (set_rows xs s) = f s"
  shows "f (snd (lnp_ListByParkingLotID (laneRepo_of db) t p s)) = f s"
    and "f (snd (lnp_Create (laneRepo_of db) l s)) = f s"
    and "f (snd (lnp_Update (laneRepo_of db) l s)) = f s"
    and "f (snd (lnp_Delete (laneRepo_of db) t lid s)) = f s"
  using table_frame [where f = f, OF assms] ListByParkingLot_run [of t p s]
  by (auto simp: lane_crt_eq lane_upd_eq lane_del_eq)

end

text \<open>What the device operations that lanes call leave alone.\<close>

context device_db
begin

lemma device_repo_frame:
  assumes "\<And>xs s. f (set_rows xs s) = f s"
  shows "f (snd (deviceRepo_GetByID (NewDeviceDAO db) t did s)) = f s"
    and "f (snd (deviceRepo_Update (NewDeviceDAO db) d s)) = f s"
  using table_frame [where f = f, OF assms] fun_cong [OF fun_cong [OF device_get_eq], of db "(t, did)" s]
  by (simp_all add: device_upd_eq)

lemma device_bind_frame:
  assumes "\<And>xs s. f (set_rows xs s) = f s" and "\<And>s. f (snd (time_Now env s)) = f s"
  shows "f (snd (dvs_Bind (device_server env db tx) b s)) = f s"
    and "f (snd (dvs_Unbind (device_server env db tx) u s)) = f s"
proof -
  have touch: "f (snd (device_touch env d s)) = f s" for d s by (simp add: touch_run assms(2))
  have load_save: "f (snd (bind_io (deviceRepo_GetByID (NewDeviceDAO db) t did) (\<lambda>d.
      bind_io (change d) (\<lambda>d. bind_io (deviceRepo_Update (NewDeviceDAO db) d) (\<lambda>_. return_io d))) s)) = f s"
    if "\<And>d s. f (snd (change d s)) = f s" for t did change s
  proof (rule bind_io_keeps [where I = "\<lambda>s'. f s' = f s"], goal_cases)
    case 1
    show ?case by (simp add: device_repo_frame(1) [where f = f, OF assms(1)])
  next
    case (2 d s1)
    then show ?case
      by (intro bind_io_keeps [where I = "\<lambda>s'. f s' = f s"])
        (simp_all add: that device_repo_frame(2) [where f = f, OF assms(1)])
  qed
  show "f (snd (dvs_Bind (device_server env db tx) b s)) = f s"
    unfolding device_server_fields deviceService_Bind_def NewDeviceRepo_fields Let_def
    by (rule load_save) (simp add: Device_Bind_def touch)
  show "f (snd (dvs_Unbind (device_server env db tx) u s)) = f s"
    unfolding device_server_fields deviceService_Unbind_def NewDeviceRepo_fields
    by (rule load_save) (simp add: Device_Unbind_def touch)
qed

end

end
