(* ===== verification/Lane_Props.thy ===== *)
theory Lane_Props
  imports Lane_Correct
begin

text \<open>
  The properties of the lane API on a site where the lane table and the device table share a
  world: whom an update can reach, and what the configuration shows.
\<close>

section \<open>Two tables in one world\<close>

text \<open>
  The lane table and the device table are different tables, and drawing an ID or reading the
  clock touches neither. Go visits the entries of a map in some order.
\<close>

locale parking_site =
  lane: lane_db db rows set_rows now dup + dev: device_tx like ddb drows dset dnow ddup tx
  for like and db :: "'s lane_gorm" and rows and set_rows and now and dup
    and ddb :: "'s device_gorm" and drows and dset and dnow and ddup and tx +
  fixes env :: "'s go_env" and order :: "(string \<times> lane) list \<Rightarrow> (string \<times> lane) list"
  assumes lane_world: "go_world env rows" and device_world: "go_world env drows"
    and lanes_apart: "drows (set_rows xs s) = drows s"
    and devices_apart: "rows (dset ys s) = rows s"
    and order_perm: "mset (order m) = mset m"
begin

abbreviation "lane_svc \<equiv> lane_server env order db (device_server env ddb tx)"
abbreviation "repo \<equiv> laneRepo_of db"
abbreviation "dsvc \<equiv> device_server env ddb tx"

lemma order_same: "set (order m) = set m"
  using order_perm [of m] by (rule mset_eq_setD)

lemma bind_lane_rows:
  "rows (snd (dvs_Bind dsvc b s)) = rows s" "rows (snd (dvs_Unbind dsvc u s)) = rows s"
  by (rule dev.device_bind_frame [where f = rows], rule devices_apart, rule go_world.clock_rows [OF lane_world])+

lemma lane_steps_lanes:
  "lane_steps env order repo dsvc t p (lane_inv rows (t, p) others) (own_lane others t p)"
proof (unfold_locales, goal_cases)
  case (1 m)
  show ?case by (rule order_same)
next
  case 2
  show ?case by (rule lane.list_lanes_inv)
next
  case (3 name)
  show ?case by (rule io_inv_same) (simp add: lane.ExistsByName_run)
next
  case (4 l)
  then show ?case by (rule lane.create_lane_inv)
next
  case (5 l)
  then show ?case by (rule lane.update_lane_inv)
next
  case (6 l)
  then show ?case by (rule lane.delete_lane_inv)
next
  case (7 l l')
  then show ?case by (simp add: own_lane_def)
next
  case (8 b)
  show ?case by (rule scope_io_rows, rule bind_lane_rows, rule TrueI)
next
  case (9 u)
  show ?case by (rule scope_io_rows, rule bind_lane_rows, rule TrueI)
qed (rule scope_io_rows, simp_all add: ask_io_run go_world.clock_rows [OF lane_world]
    go_world.uuid_rows [OF lane_world])+

lemma lane_steps_devices:
  assumes "\<forall>r \<in> set others. dvr_TenantID r \<noteq> t"
  shows "lane_steps env order repo dsvc t p (device_inv drows t others) (\<lambda>_. True)"
proof (unfold_locales, goal_cases)
  case (1 m)
  show ?case by (rule order_same)
next
  case (8 b)
  then show ?case by (rule device_steps.device_service_inv [OF dev.device_steps_inv [OF device_world assms]])
next
  case (9 u)
  then show ?case by (rule device_steps.device_service_inv [OF dev.device_steps_inv [OF device_world assms]])
qed (rule TrueI | rule scope_io_rows, simp_all add: lane.ExistsByName_run ask_io_run
    lane.lane_repo_frame [where f = drows, OF lanes_apart] go_world.clock_rows [OF device_world]
    go_world.uuid_rows [OF device_world])+

lemma lane_svc_fields:
  "lns_UpdateLanes lane_svc = laneService_UpdateLanes env order repo dsvc"
  "lns_GetLaneConfig lane_svc = laneService_GetLaneConfig repo dsvc"
  by (simp_all add: lane_server_def NewLaneService_def)

lemma UpdateLanes_rpc_inv:
  assumes "lane_steps env order repo dsvc (TenantID ctx) (pun_ParkingLotId req) I mine" and "I s"
  shows "I (snd (LaneGRPCServer_UpdateLanes lane_svc ctx req s))"
proof (rule io_invD [where I = I, OF _ assms(2)])
  show "io_inv I (LaneGRPCServer_UpdateLanes lane_svc ctx req) (\<lambda>_. True)"
    unfolding LaneGRPCServer_UpdateLanes_def lane_svc_fields
    by (rule io_inv_in_tenant, rule io_inv_reject_if, rule io_inv_reply,
        rule lane_steps.UpdateLanes_inv [OF assms(1)]) simp
qed

end

text \<open>
  C15: Whatever an \<open>UpdateLanes\<close> request holds and however far it gets before an error, it changes
  no lane outside the tenant's lot it names and no device of another tenant, and it leaves both
  tables consistent: no two lanes share an ID, or a name within a lot, and every device is valid.
\<close>

theorem update_lanes_isolation:
  assumes "parking_site like db rows set_rows now dup ddb drows dset dnow ddup tx env order"
    and "lanes_ok rows s" and "device_table_valid drows s"
    and "s' = snd (LaneGRPCServer_UpdateLanes (lane_server env order db (device_server env ddb tx)) ctx req s)"
  shows "lanes_ok rows s' \<and>
         filter (\<lambda>r. lane_scope r \<noteq> (TenantID ctx, pun_ParkingLotId req)) (rows s') =
           filter (\<lambda>r. lane_scope r \<noteq> (TenantID ctx, pun_ParkingLotId req)) (rows s) \<and>
         device_table_valid drows s' \<and>
         filter (\<lambda>r. dvr_TenantID r \<noteq> TenantID ctx) (drows s') =
           filter (\<lambda>r. dvr_TenantID r \<noteq> TenantID ctx) (drows s)"
proof -
  let ?sc = "(TenantID ctx, pun_ParkingLotId req)"
  have "lane_inv rows ?sc (filter (\<lambda>r. lane_scope r \<noteq> ?sc) (rows s)) s'"
    unfolding assms(4)
    by (rule parking_site.UpdateLanes_rpc_inv [OF assms(1) parking_site.lane_steps_lanes [OF assms(1)]],
        rule scope_inv_start) (simp_all add: assms(2))
  moreover have "device_inv drows (TenantID ctx) (filter (\<lambda>r. dvr_TenantID r \<noteq> TenantID ctx) (drows s)) s'"
    unfolding assms(4)
    by (rule parking_site.UpdateLanes_rpc_inv [OF assms(1) parking_site.lane_steps_devices [OF assms(1)]], simp,
        rule scope_inv_start) (use assms(3) in \<open>simp_all add: device_table_valid_def\<close>)
  ultimately show ?thesis by (simp add: scope_inv_def device_table_valid_def)
qed

end
