(* ===== verification/Lane_Update.thy ===== *)
theory Lane_Update
  imports Lane_Props "HOL-Library.Multiset"
begin

text \<open>
  What a successful \<open>UpdateLanes\<close> makes of a lot: the abstract operation replaces the lanes of the
  lot by the requested ones; the two phases of the code, with their calls to the device service
  and their loops over maps, implement it.
\<close>

section \<open>The abstract operation\<close>

text \<open>
  A lane as the request can name it: a kept lane by its ID, a new one by nothing, each with its
  name and type. A kept lane keeps its type, whatever type the request gives.
\<close>

definition lane_view :: "string list \<Rightarrow> lane_row \<Rightarrow> string option \<times> string \<times> string" where
  "lane_view ids r = (if lnr_ID r \<in> set ids then Some (lnr_ID r) else None, lnr_Name r, lnr_LaneType r)"

definition lot_lanes :: "string \<times> string \<Rightarrow> lane_row list \<Rightarrow> lane_row list" where
  "lot_lanes sc xs = filter (\<lambda>r. lane_scope r = sc) xs"

definition lane_types :: "lane_row list \<Rightarrow> string \<Rightarrow> string option" where
  "lane_types xs = map_of (map (\<lambda>r. (lnr_ID r, lnr_LaneType r)) xs)"

definition requested_lane :: "(string \<Rightarrow> string option) \<Rightarrow> LaneInput \<Rightarrow> string option \<times> string \<times> string" where
  "requested_lane types i =
     (if given (lni_ID i) then (lni_ID i, lni_Name i, the (types (the (lni_ID i))))
      else (None, lni_Name i, lni_Type i))"

lemma lane_types_Some:
  assumes "r \<in> set (lot_lanes sc (rows s))" and "lanes_ok rows s"
  shows "lane_types (lot_lanes sc (rows s)) (lnr_ID r) = Some (lnr_LaneType r)"
proof -
  have "map_of (map (\<lambda>r. (lnr_ID r, lnr_LaneType r)) xs) (lnr_ID r) = Some (lnr_LaneType r)"
    if "r \<in> set xs" "\<forall>x \<in> set xs. lnr_ID x = lnr_ID r \<longrightarrow> x = r" for xs
    using that by (induction xs) auto
  then show ?thesis
    using assms lane_ids_unique [OF assms(2)] by (simp add: lane_types_def lot_lanes_def)
qed

section \<open>One row among the others\<close>

lemma lane_pick:
  assumes "lanes_ok rows s" and "r \<in> set (rows s)"
  obtains M where "mset (rows s) = add_mset r M" and "\<forall>x \<in># M. lnr_ID x \<noteq> lnr_ID r"
proof -
  obtain ys zs where rows: "rows s = ys @ r # zs" using split_list [OF assms(2)] by blast
  then have "\<forall>x \<in> set (ys @ zs). lnr_ID x \<noteq> lnr_ID r"
    using assms(1) by (auto simp: table_intact_def unclashing_def sorted_wrt_append lane_clash_def)
  then show ?thesis using rows by (intro that [of "mset (ys @ zs)"]) simp_all
qed

text \<open>
  The lanes of the lot whose IDs the request has still to come to are left out: \<open>seen\<close> are the
  views of the others.
\<close>

definition seen :: "string \<times> string \<Rightarrow> string list \<Rightarrow> string list \<Rightarrow> lane_row multiset \<Rightarrow>
    (string option \<times> string \<times> string) multiset" where
  "seen sc ids rem M =
     image_mset (lane_view ids) (filter_mset (\<lambda>r. lane_scope r = sc \<and> lnr_ID r \<notin> set rem) M)"

lemma seen_rows_same: "seen sc ids rem (image_mset f M) = seen sc ids rem M"
  if "\<And>r. r \<in># M \<Longrightarrow> lane_scope (f r) = lane_scope r \<and> lnr_ID (f r) = lnr_ID r \<and>
        lnr_Name (f r) = lnr_Name r \<and> lnr_LaneType (f r) = lnr_LaneType r"
  using that by (induction M) (simp_all add: seen_def lane_view_def)

lemma seen_change:
  assumes ok: "lanes_ok rows s" and r: "r \<in> set (rows s)" "lane_scope r = sc" "lnr_ID r = lid"
    and lid: "lid \<in> set ids" "lid \<notin> set rem"
    and f: "lane_scope (f r) = sc" "lnr_ID (f r) = lid" "lnr_Name (f r) = name" "lnr_LaneType (f r) = ty"
      "\<And>x. lnr_ID x \<noteq> lid \<Longrightarrow> f x = x"
  shows "seen sc ids rem (mset (map f (rows s))) =
           add_mset (Some lid, name, ty) (seen sc ids (lid # rem) (mset (rows s)))"
proof -
  obtain M where M: "mset (rows s) = add_mset r M" "\<forall>x \<in># M. lnr_ID x \<noteq> lid"
    using lane_pick [OF ok r(1)] r(3) by metis
  have "image_mset f M = image_mset (\<lambda>x. x) M" by (rule image_mset_cong) (use M(2) f(5) in auto)
  then have map: "mset (map f (rows s)) = add_mset (f r) M" by (simp add: M(1))
  have "filter_mset (\<lambda>x. lane_scope x = sc \<and> lnr_ID x \<notin> set rem) M =
      filter_mset (\<lambda>x. lane_scope x = sc \<and> lnr_ID x \<notin> set (lid # rem)) M"
    by (rule filter_mset_cong) (use M(2) in auto)
  then show ?thesis using f(1-4) lid r(2,3) unfolding map M(1) by (simp add: seen_def lane_view_def)
qed

lemma seen_create:
  "lane_scope r = sc \<Longrightarrow> lnr_ID r \<notin> set ids \<Longrightarrow> lnr_ID r \<notin> set rem \<Longrightarrow>
     seen sc ids rem (mset (xs @ [r])) =
       add_mset (None, lnr_Name r, lnr_LaneType r) (seen sc ids rem (mset xs))"
  by (simp add: seen_def lane_view_def)

section \<open>The writes of the repository\<close>

context lane_db
begin

lemma Update_rows:
  assumes "lnp_Update (laneRepo_of db) l s = (res, s')"
  obtains "rows s' = rows s" "res \<noteq> Inr ()"
  | t' where "rows s' = map (\<lambda>x. if lane_key x = lane_key (toLaneEntity l)
        then lane_assign t' lane_columns (toLaneEntity l) x else x) (rows s)"
      "res = Inr () \<Longrightarrow> \<exists>x \<in> set (rows s). lane_key x = lane_key (toLaneEntity l)"
proof -
  define q where "q = Select lane_columns (lane_q (lnr_TenantID (toLaneEntity l)) (lnr_ID (toLaneEntity l)))"
  have m: "matches lane_holds q = (\<lambda>x. lane_key x = lane_key (toLaneEntity l))"
    by (rule ext) (simp add: q_def matches_def query_simps lane_key_def)
  have sel: "q_select q = lane_columns" by (simp add: q_def Select_def)
  have upd: "affected_or (g_Updates db q (toLaneEntity l)) (parking ErrLaneNotFound) s = (res, s')"
    using assms by (simp add: lane_upd_eq lane_key_def q_def)
  let ?new = "map (\<lambda>x. if lane_key x = lane_key (toLaneEntity l)
      then lane_assign (now s) lane_columns (toLaneEntity l) x else x) (rows s)"
  show ?thesis
  proof (cases "unclashing lane_clash ?new")
    case True
    then obtain n where n: "g_Updates db q (toLaneEntity l) s = (Inr n, set_rows ?new s)"
        "n \<le> int (length (filter (\<lambda>x. lane_key x = lane_key (toLaneEntity l)) (rows s)))"
      using Updates_fits [of q s "toLaneEntity l"] unfolding m sel by auto
    have "\<exists>x \<in> set (rows s). lane_key x = lane_key (toLaneEntity l)" if "res = Inr ()"
    proof -
      have "0 \<le> n" using Updates_fits [of q s "toLaneEntity l"] True n(1) unfolding m sel by auto
      moreover have "n \<noteq> 0" using upd n(1) that by (auto simp: affected_or_def bind_io_run)
      ultimately have "filter (\<lambda>x. lane_key x = lane_key (toLaneEntity l)) (rows s) \<noteq> []" using n(2) by auto
      then show ?thesis by (auto simp: filter_empty_conv)
    qed
    moreover have "rows s' = ?new"
      using upd n(1) by (auto simp: affected_or_def bind_io_run rows_set_rows split: if_splits)
    ultimately show ?thesis using that(2) by blast
  next
    case False
    then have "g_Updates db q (toLaneEntity l) s = (Inl (Opaque dup), s)"
      using Updates_clash [of q s "toLaneEntity l"] unfolding m sel by simp
    then show ?thesis using upd that(1) by (auto simp: affected_or_def bind_io_run)
  qed
qed

lemma Create_rows:
  assumes "lnp_Create (laneRepo_of db) l s = (Inr u, s')"
  obtains t' where "rows s' = rows s @ [lane_stamp t' (toLaneEntity l)]"
    and "\<forall>r \<in> set (rows s). lnr_ID r \<noteq> ln_ID l"
proof (cases "\<exists>r \<in> set (rows s). lane_clash (toLaneEntity l) r")
  case True
  from Create_clash [OF this] assms show ?thesis by (simp add: lane_crt_eq create_or_def map_err_io_run)
next
  case False
  from Create_fits [OF False] assms have "s' = set_rows (rows s @ [lane_stamp (now s) (toLaneEntity l)]) s"
    by (simp add: lane_crt_eq create_or_def map_err_io_run)
  then show ?thesis
    using False by (intro that [of "now s"]) (auto simp: rows_set_rows lane_clash_def toLaneEntity_def)
qed

lemma Delete_rows:
  "rows (snd (lnp_Delete (laneRepo_of db) t lid s)) = filter (\<lambda>r. lane_key r \<noteq> (t, lid)) (rows s)"
  by (simp add: lane_del_eq Delete_matching rows_set_rows lane_q_matches)

end

section \<open>The two phases\<close>

context parking_site
begin

lemma unbind_rows: "rows (snd (unbind_if dsvc t d s)) = rows s"
  by (cases d) (simp_all add: unbind_if_def ignore_io_run bind_lane_rows del: device_server_fields)

lemma bindDevice_rows: "rows (snd (bindDevice dsvc t d p lid s)) = rows s"
  by (simp add: bindDevice_def bind_lane_rows del: device_server_fields)

lemma device_of_run:
  "Lane_SetDevice env d l s = (Inr (l\<lparr>ln_DeviceID := Some d, ln_UpdatedAt := UnixMilli (fst (time_Now env s))\<rparr>),
     snd (time_Now env s))"
  "Lane_ClearDevice env l s = (Inr (l\<lparr>ln_DeviceID := None, ln_UpdatedAt := UnixMilli (fst (time_Now env s))\<rparr>),
     snd (time_Now env s))"
  by (simp_all add: Lane_SetDevice_def Lane_ClearDevice_def bind_io_run ask_io_run)

lemma clock_same: "rows (snd (time_Now env s)) = rows s"
  by (rule go_world.clock_rows [OF lane_world])

text \<open>\<open>same_lane\<close>: nothing but the device and the time of the last change differ.\<close>

definition same_lane :: "lane \<Rightarrow> lane \<Rightarrow> bool" where
  "same_lane l l' \<longleftrightarrow> ln_ID l' = ln_ID l \<and> ln_TenantID l' = ln_TenantID l \<and>
     ln_ParkingLotID l' = ln_ParkingLotID l \<and> ln_Name l' = ln_Name l \<and> ln_Type l' = ln_Type l"

lemma change_run:
  assumes "updateLanes_change env repo dsvc t p lid input l s = (Inr l', s')"
  obtains l0 s1 where "rows s1 = rows s" and "same_lane l l0" and "l' = l0\<lparr>ln_Name := lni_Name input\<rparr>"
    and "lnp_Update repo l' s1 = (Inr (), s')"
proof -
  obtain l0 s1 where m: "(if deviceIDEqual (ln_DeviceID l) (lni_DeviceID input) then return_io l
        else bind_io (unbind_if dsvc t (ln_DeviceID l)) (\<lambda>_.
          if given (lni_DeviceID input)
          then try_io (bindDevice dsvc t (the (lni_DeviceID input)) p (ln_ID l))
            (\<lambda>res. case res of Inl _ \<Rightarrow> Lane_ClearDevice env l
             | Inr _ \<Rightarrow> Lane_SetDevice env (the (lni_DeviceID input)) l)
          else Lane_ClearDevice env l)) s = (Inr l0, s1)"
      and u: "bind_io (map_err_io (Wrap (''update lane '' @ lid @ '': '')) (lnp_Update repo (l0\<lparr>ln_Name := lni_Name input\<rparr>)))
        (\<lambda>_. return_io (l0\<lparr>ln_Name := lni_Name input\<rparr>)) s1 = (Inr l', s')"
    using assms unfolding updateLanes_change_def Let_def by (rule bind_io_InrD)
  have "rows s1 = rows s \<and> same_lane l l0"
  proof (cases "deviceIDEqual (ln_DeviceID l) (lni_DeviceID input)")
    case False
    obtain u2 s2 where u2: "unbind_if dsvc t (ln_DeviceID l) s = (Inr u2, s2)"
        "(if given (lni_DeviceID input)
          then try_io (bindDevice dsvc t (the (lni_DeviceID input)) p (ln_ID l))
            (\<lambda>res. case res of Inl _ \<Rightarrow> Lane_ClearDevice env l
             | Inr _ \<Rightarrow> Lane_SetDevice env (the (lni_DeviceID input)) l)
          else Lane_ClearDevice env l) s2 = (Inr l0, s1)"
      using m False by (auto elim: bind_io_InrD)
    have s2: "rows s2 = rows s" using unbind_rows [of t "ln_DeviceID l" s] u2(1) by simp
    show ?thesis
    proof (cases "given (lni_DeviceID input)")
      case True
      obtain r s3 where b: "bindDevice dsvc t (the (lni_DeviceID input)) p (ln_ID l) s2 = (r, s3)" by fastforce
      then have "rows s3 = rows s" using bindDevice_rows s2 by (metis snd_conv)
      then show ?thesis using u2(2) True b clock_same
        by (cases r) (auto simp: try_io_run device_of_run same_lane_def)
    next
      case False
      then show ?thesis using u2(2) s2 clock_same by (auto simp: device_of_run same_lane_def)
    qed
  qed (use m in \<open>simp add: same_lane_def\<close>)
  moreover have "lnp_Update repo (l0\<lparr>ln_Name := lni_Name input\<rparr>) s1 = (Inr (), s')"
      "l' = l0\<lparr>ln_Name := lni_Name input\<rparr>"
    using u by (auto simp: map_err_io_run split: prod.splits sum.splits elim!: bind_io_InrD)
  ultimately show ?thesis using that by blast
qed

text \<open>The device of a new lane is bound when it can be, and the lane is written again only then.\<close>

lemma create_bind_run:
  assumes "(if given d
      then try_io (bindDevice dsvc t (the d) p (ln_ID l))
        (\<lambda>res. case res of Inl _ \<Rightarrow> return_io ()
         | Inr _ \<Rightarrow> bind_io (Lane_SetDevice env (the d) l) (\<lambda>lane. ignore_io (lnp_Update repo lane)))
      else return_io ()) s = (Inr u, s')"
  obtains "rows s' = rows s"
  | l2 r s3 where "same_lane l l2" and "rows s3 = rows s" and "lnp_Update repo l2 s3 = (r, s')"
proof (cases "given d")
  case True
  obtain r s3 where b: "bindDevice dsvc t (the d) p (ln_ID l) s = (r, s3)" by fastforce
  then have s3: "rows s3 = rows s" using bindDevice_rows by (metis snd_conv)
  show ?thesis
  proof (cases r)
    case (Inl e)
    then show ?thesis using assms True b s3 by (intro that(1)) (simp add: try_io_run)
  next
    case (Inr x)
    let ?l2 = "l\<lparr>ln_DeviceID := Some (the d), ln_UpdatedAt := UnixMilli (fst (time_Now env s3))\<rparr>"
    have "s' = snd (lnp_Update repo ?l2 (snd (time_Now env s3)))"
      using assms True b Inr by (simp add: try_io_run bind_io_run device_of_run ignore_io_run)
    then show ?thesis
      by (intro that(2) [of ?l2 _ "fst (lnp_Update repo ?l2 (snd (time_Now env s3)))"])
        (simp_all add: same_lane_def clock_same s3)
  qed
qed (use assms that(1) in simp)

lemma create_run:
  assumes "updateLanes_create env repo dsvc t p input s = (Inr u, s')"
  obtains l s1 s2 where "rows s1 = rows s" and "ln_TenantID l = t" and "ln_ParkingLotID l = p"
    and "ln_Name l = lni_Name input" and "ln_Type l = lni_Type input"
    and "lnp_Create repo l s1 = (Inr (), s2)" and "rows s' = rows s2"
  | l s1 s2 l2 r s3 where "rows s1 = rows s" and "ln_TenantID l = t" and "ln_ParkingLotID l = p"
    and "ln_Name l = lni_Name input" and "ln_Type l = lni_Type input"
    and "lnp_Create repo l s1 = (Inr (), s2)" and "same_lane l l2" and "rows s3 = rows s2"
    and "lnp_Update repo l2 s3 = (r, s')"
proof -
  obtain ex sa where ex: "lnp_ExistsByName repo p (lni_Name input) s = (Inr ex, sa)"
    and rest: "(if ex
     then fail_io (Opaque (''lane name '' @ [CHR 0x27] @ lni_Name input @ [CHR 0x27] @ '' already exists''))
     else bind_io (ask_io (uuid_New env)) (\<lambda>uid.
       bind_io (NewLane env uid t p (lni_Name input) (lni_Type input)) (\<lambda>lane.
       bind_io (map_err_io (Wrap ''create lane: '') (lnp_Create repo lane)) (\<lambda>_.
       if given (lni_DeviceID input)
       then try_io (bindDevice dsvc t (the (lni_DeviceID input)) p (ln_ID lane))
         (\<lambda>res. case res of Inl _ \<Rightarrow> return_io ()
          | Inr _ \<Rightarrow> bind_io (Lane_SetDevice env (the (lni_DeviceID input)) lane)
                      (\<lambda>lane. ignore_io (lnp_Update repo lane)))
       else return_io ())))) sa = (Inr u, s')"
    using assms unfolding updateLanes_create_def by (rule bind_io_InrD)
  have sa: "sa = s" "\<not> ex" using ex rest by (auto simp: lane.ExistsByName_run split: if_splits)
  obtain uid s1 l s1' u2 s2 where uid: "ask_io (uuid_New env) s = (Inr uid, s1')"
    and l: "NewLane env uid t p (lni_Name input) (lni_Type input) s1' = (Inr l, s1)"
    and c: "map_err_io (Wrap ''create lane: '') (lnp_Create repo l) s1 = (Inr u2, s2)"
    and tail: "(if given (lni_DeviceID input)
       then try_io (bindDevice dsvc t (the (lni_DeviceID input)) p (ln_ID l))
         (\<lambda>res. case res of Inl _ \<Rightarrow> return_io ()
          | Inr _ \<Rightarrow> bind_io (Lane_SetDevice env (the (lni_DeviceID input)) l)
                      (\<lambda>lane. ignore_io (lnp_Update repo lane)))
       else return_io ()) s2 = (Inr u, s')"
    using rest sa by (auto elim!: bind_io_InrD)
  have s1: "rows s1 = rows s"
    using uid l clock_same go_world.uuid_rows [OF lane_world, of s]
    by (auto simp: NewLane_def bind_io_run ask_io_run)
  have fields: "ln_TenantID l = t" "ln_ParkingLotID l = p" "ln_Name l = lni_Name input" "ln_Type l = lni_Type input"
    using l by (auto simp: NewLane_def bind_io_run ask_io_run)
  have c': "lnp_Create repo l s1 = (Inr (), s2)"
    using c by (auto simp: map_err_io_run split: prod.splits sum.splits)
  from tail show ?thesis by (rule create_bind_run) (fact that(1) [OF s1 fields c'] that(2) [OF s1 fields c'])+
qed

text \<open>
  The invariant of the second phase: every requested ID is still a lane of the lot, and \<open>D\<close>
  is what the lanes look like whose turn has been.
\<close>

definition updating ::
  "string \<times> string \<Rightarrow> lane_row list \<Rightarrow> string list \<Rightarrow> string list \<Rightarrow>
   (string option \<times> string \<times> string) multiset \<Rightarrow> 's \<Rightarrow> bool" where
  "updating sc others ids rem D s \<longleftrightarrow>
     lane_inv rows sc others s \<and>
     (\<forall>lid \<in> set ids. \<exists>r \<in> set (rows s). lane_scope r = sc \<and> lnr_ID r = lid) \<and>
     seen sc ids rem (mset (rows s)) = D"

lemma updating_rows: "rows s' = rows s \<Longrightarrow> updating sc others ids rem D s' = updating sc others ids rem D s"
  using scope_inv_rows [where rows = rows and s = s and s' = s' and clash = lane_clash
      and scope = lane_scope and valid = "\<lambda>r. True" and c = sc and others = others]
  by (simp add: updating_def)

lemma updating_ok: "updating sc others ids rem D s \<Longrightarrow> lanes_ok rows s"
  by (simp add: updating_def scope_inv_def)

lemma own_toEntity:
  "own_lane others t p l \<Longrightarrow> lane_key (toLaneEntity l) = (t, ln_ID l) \<and> lane_scope (toLaneEntity l) = (t, p)"
  by (simp add: own_lane_def lane_key_def lane_scope_def toLaneEntity_def)

text \<open>The row with the key of an own lane is in the lot.\<close>

lemma own_row_scope:
  assumes "lane_inv rows (t, p) others s" and "own_lane others t p l"
    and "x \<in> set (rows s)" and "lane_key x = (t, ln_ID l)"
  shows "lane_scope x = (t, p)"
  using assms by (force simp: scope_inv_def own_lane_def lane_key_def)

lemma updating_change:
  assumes upd: "updating (t, p) others ids (lid # rem) D s" and lid: "lid \<in> set ids" "lid \<notin> set rem"
    and l: "own_lane others t p l" "ln_ID l = lid"
    and run: "lnp_Update repo l s = (Inr (), s')"
  shows "updating (t, p) others ids rem (add_mset (Some lid, ln_Name l, ln_Type l) D) s'"
proof -
  have inv: "lane_inv rows (t, p) others s" using upd by (simp add: updating_def)
  have inv': "lane_inv rows (t, p) others s'"
    using io_invD [OF lane.update_lane_inv [OF l(1)] inv] run by simp
  show ?thesis
  proof (rule lane.Update_rows [OF run], goal_cases)
    case (2 t')
    define f where "f = (\<lambda>x. if lane_key x = (t, lid) then lane_assign t' lane_columns (toLaneEntity l) x else x)"
    have rows': "rows s' = map f (rows s)" using 2(1) own_toEntity [OF l(1)] l(2) by (simp add: f_def)
    obtain r where r: "r \<in> set (rows s)" "lane_key r = (t, lid)"
      using 2(2) own_toEntity [OF l(1)] l(2) by auto
    have sc: "lane_scope r = (t, p)" by (rule own_row_scope [OF inv l(1) r(1)]) (simp add: r(2) l(2))
    have id: "lnr_ID r = lid" using r(2) by (simp add: lane_key_def)
    have keep: "lane_scope (f x) = lane_scope x \<and> lnr_ID (f x) = lnr_ID x" for x
      by (simp add: f_def lane_assign_def lane_scope_def)
    have "seen (t, p) ids rem (mset (rows s')) =
        add_mset (Some lid, ln_Name l, ln_Type l) (seen (t, p) ids (lid # rem) (mset (rows s)))"
      unfolding rows'
    proof (rule seen_change [OF updating_ok [OF upd] r(1) sc id lid])
      show "lane_scope (f r) = (t, p)" "lnr_ID (f r) = lid" using keep sc id by simp_all
      show "lnr_Name (f r) = ln_Name l" "lnr_LaneType (f r) = ln_Type l"
        using r(2) by (simp_all add: f_def lane_assign_def lane_columns_def toLaneEntity_def)
      show "f x = x" if "lnr_ID x \<noteq> lid" for x using that by (auto simp: f_def lane_key_def)
    qed
    moreover have "\<exists>r \<in> set (rows s'). lane_scope r = (t, p) \<and> lnr_ID r = x" if "x \<in> set ids" for x
      using upd that keep unfolding rows' updating_def by (auto simp: image_iff)
    ultimately show ?thesis using inv' upd by (simp add: updating_def)
  qed simp
qed

lemma updating_create:
  assumes upd: "updating (t, p) others ids rem D s" and rem: "set rem \<subseteq> set ids"
    and l: "ln_TenantID l = t" "ln_ParkingLotID l = p"
    and run: "lnp_Create repo l s = (Inr (), s')"
  shows "updating (t, p) others ids rem (add_mset (None, ln_Name l, ln_Type l) D) s'"
    and "own_lane others t p l"
    and "\<exists>r \<in> set (rows s'). lnr_ID r = ln_ID l \<and> lnr_Name r = ln_Name l \<and> lnr_LaneType r = ln_Type l"
proof -
  have inv: "lane_inv rows (t, p) others s" using upd by (simp add: updating_def)
  have inv': "lane_inv rows (t, p) others s'" "own_lane others t p l"
    using lane.create_lane_inv [OF l, of others] inv run unfolding io_inv_def by (metis fst_conv snd_conv)+
  obtain t' where rows': "rows s' = rows s @ [lane_stamp t' (toLaneEntity l)]"
      "\<forall>r \<in> set (rows s). lnr_ID r \<noteq> ln_ID l" using lane.Create_rows [OF run] by blast
  let ?r = "lane_stamp t' (toLaneEntity l)"
  have r: "lane_scope ?r = (t, p)" "lnr_ID ?r = ln_ID l" "lnr_Name ?r = ln_Name l" "lnr_LaneType ?r = ln_Type l"
    using l by (simp_all add: lane_stamp_def lane_scope_def toLaneEntity_def)
  have fresh: "ln_ID l \<notin> set ids" using upd rows'(2) by (auto simp: updating_def)
  show "updating (t, p) others ids rem (add_mset (None, ln_Name l, ln_Type l) D) s'"
    using upd inv'(1) seen_create [OF r(1), of ids rem "rows s"] fresh rem unfolding updating_def rows'(1)
    by (auto simp: r)
  show "own_lane others t p l" by (rule inv'(2))
  show "\<exists>r \<in> set (rows s'). lnr_ID r = ln_ID l \<and> lnr_Name r = ln_Name l \<and> lnr_LaneType r = ln_Type l"
    unfolding rows'(1) using r by auto
qed

text \<open>Writing a lane that differs from its row by no more than the device shows nothing.\<close>

lemma updating_rewrite:
  assumes upd: "updating (t, p) others ids rem D s" and l: "own_lane others t p l"
    and r: "\<exists>r \<in> set (rows s). lnr_ID r = ln_ID l \<and> lnr_Name r = ln_Name l \<and> lnr_LaneType r = ln_Type l"
    and run: "lnp_Update repo l s = (res, s')"
  shows "updating (t, p) others ids rem D s'"
proof (rule lane.Update_rows [OF run], goal_cases)
  case 1
  then show ?case using upd updating_rows by metis
next
  case (2 t')
  define f where "f = (\<lambda>x. if lane_key x = (t, ln_ID l) then lane_assign t' lane_columns (toLaneEntity l) x else x)"
  have rows': "rows s' = map f (rows s)" using 2(1) own_toEntity [OF l] by (simp add: f_def)
  have inv': "lane_inv rows (t, p) others s'"
    using io_invD [OF lane.update_lane_inv [OF l]] upd run unfolding updating_def by (metis snd_conv)
  have same: "lane_scope (f x) = lane_scope x \<and> lnr_ID (f x) = lnr_ID x \<and>
        lnr_Name (f x) = lnr_Name x \<and> lnr_LaneType (f x) = lnr_LaneType x" if x: "x \<in> set (rows s)" for x
  proof (cases "lane_key x = (t, ln_ID l)")
    case True
    then have "lnr_ID x = ln_ID l" by (simp add: lane_key_def)
    then have "lnr_Name x = ln_Name l \<and> lnr_LaneType x = ln_Type l"
      using r lane_ids_unique [OF updating_ok [OF upd] x] by metis
    then show ?thesis by (simp add: f_def lane_assign_def lane_columns_def toLaneEntity_def lane_scope_def)
  qed (simp add: f_def)
  have "seen (t, p) ids rem (mset (rows s')) = seen (t, p) ids rem (mset (rows s))"
    unfolding rows' mset_map by (rule seen_rows_same) (simp add: same)
  moreover have "\<exists>r \<in> set (rows s'). lane_scope r = (t, p) \<and> lnr_ID r = x" if "x \<in> set ids" for x
    using upd that same unfolding rows' updating_def by (auto simp: image_iff)
  ultimately show ?thesis using inv' upd by (simp add: updating_def)
qed

lemma apply_keys:
  "updateLanes_apply env repo dsvc t p m inputs s = (Inr u, s') \<Longrightarrow>
     set (request_ids inputs) \<subseteq> fst ` set m"
proof (induction inputs arbitrary: m s)
  case (Cons i inputs)
  show ?case
  proof (cases "given (lni_ID i)")
    case False
    then obtain s1 where "updateLanes_apply env repo dsvc t p m inputs s1 = (Inr u, s')"
      using Cons.prems by (auto elim!: bind_io_InrD)
    from Cons.IH [OF this] False show ?thesis by (simp add: request_ids_def)
  next
    case True
    let ?lid = "the (lni_ID i)"
    obtain l where l: "map_of m ?lid = Some l"
      using Cons.prems True by (cases "map_of m ?lid") (simp_all add: Let_def)
    then obtain l' s1 where "updateLanes_apply env repo dsvc t p (AList.update ?lid l' m) inputs s1 = (Inr u, s')"
      using Cons.prems True by (auto simp: Let_def elim!: bind_io_InrD)
    from Cons.IH [OF this] have "set (request_ids inputs) \<subseteq> insert ?lid (fst ` set m)"
      by (simp add: dom_update)
    moreover have "?lid \<in> fst ` set m" using map_of_SomeD [OF l] by force
    moreover have "request_ids (i # inputs) = ?lid # request_ids inputs" using True by (simp add: request_ids_def)
    ultimately show ?thesis by auto
  qed
qed (simp add: request_ids_def)

text \<open>One input of the second phase: a new lane is created, a kept one changed.\<close>

lemma updating_new_lane:
  assumes upd: "updating (t, p) others ids rem D s" and sub: "set rem \<subseteq> set ids"
    and run: "updateLanes_create env repo dsvc t p i s = (Inr u, s')"
  shows "updating (t, p) others ids rem (add_mset (None, lni_Name i, lni_Type i) D) s'"
proof (rule create_run [OF run], goal_cases)
  case (1 l sa sb)
  from upd have "updating (t, p) others ids rem D sa" by (simp add: updating_rows [OF 1(1)])
  from updating_create(1) [OF this sub 1(2,3,6)] show ?case by (simp add: updating_rows [OF 1(7)] 1(4,5))
next
  case (2 l sa sb l2 r sc)
  from upd have "updating (t, p) others ids rem D sa" by (simp add: updating_rows [OF 2(1)])
  note created = updating_create [OF this sub 2(2,3,6)]
  show ?case
  proof (rule updating_rewrite [OF _ _ _ 2(9)])
    show "updating (t, p) others ids rem (add_mset (None, lni_Name i, lni_Type i) D) sc"
      using created(1) updating_rows [OF 2(8)] 2(4,5) by simp
    show "own_lane others t p l2" using created(2) 2(7) by (simp add: own_lane_def same_lane_def)
    show "\<exists>r \<in> set (rows sc). lnr_ID r = ln_ID l2 \<and> lnr_Name r = ln_Name l2 \<and> lnr_LaneType r = ln_Type l2"
      using created(3) 2(7,8) by (simp add: same_lane_def)
  qed
qed

lemma updating_kept_lane:
  assumes upd: "updating (t, p) others ids (lid # rem) D s" and lid: "lid \<in> set ids" "lid \<notin> set rem"
    and l: "own_lane others t p l" "ln_ID l = lid"
    and run: "updateLanes_change env repo dsvc t p lid i l s = (Inr l', s')"
  shows "updating (t, p) others ids rem (add_mset (Some lid, lni_Name i, ln_Type l) D) s'"
    and "own_lane others t p l'" and "ln_ID l' = lid" and "ln_Type l' = ln_Type l"
proof -
  obtain l0 sa where l0: "rows sa = rows s" "same_lane l l0" "l' = l0\<lparr>ln_Name := lni_Name i\<rparr>"
      "lnp_Update repo l' sa = (Inr (), s')" by (rule change_run [OF run])
  show own: "own_lane others t p l'" and id: "ln_ID l' = lid" and ty: "ln_Type l' = ln_Type l"
    using l l0(2) by (auto simp: l0(3) own_lane_def same_lane_def)
  from upd have "updating (t, p) others ids (lid # rem) D sa" by (simp add: updating_rows [OF l0(1)])
  from updating_change [OF this lid own id l0(4)]
  show "updating (t, p) others ids rem (add_mset (Some lid, lni_Name i, ln_Type l) D) s'"
    by (simp add: ty) (simp add: l0(3))
qed

lemma apply_updating:
  assumes "updating (t, p) others ids (request_ids inputs) D s"
    and "distinct (request_ids inputs)" and "set (request_ids inputs) \<subseteq> set ids"
    and "\<forall>lid l. map_of m lid = Some l \<longrightarrow> own_lane others t p l \<and> ln_ID l = lid \<and> types lid = Some (ln_Type l)"
    and "updateLanes_apply env repo dsvc t p m inputs s = (Inr u, s')"
  shows "updating (t, p) others ids [] (D + mset (map (requested_lane types) inputs)) s'"
  using assms
proof (induction inputs arbitrary: m s D)
  case (Cons i inputs)
  show ?case
  proof (cases "given (lni_ID i)")
    case False
    then have ids: "request_ids (i # inputs) = request_ids inputs" by (simp add: request_ids_def)
    obtain u1 s1 where c: "updateLanes_create env repo dsvc t p i s = (Inr u1, s1)"
        and rest: "updateLanes_apply env repo dsvc t p m inputs s1 = (Inr u, s')"
      using Cons.prems(5) False by (auto elim!: bind_io_InrD)
    note Cons.IH [OF updating_new_lane [OF Cons.prems(1,3) [unfolded ids] c] _ _ Cons.prems(4) rest]
    then show ?thesis using Cons.prems(2,3) False by (simp add: ids requested_lane_def)
  next
    case True
    let ?lid = "the (lni_ID i)"
    have ids: "request_ids (i # inputs) = ?lid # request_ids inputs" using True by (simp add: request_ids_def)
    have lid: "?lid \<in> set ids" "?lid \<notin> set (request_ids inputs)" using Cons.prems(2,3) by (simp_all add: ids)
    obtain l where l: "map_of m ?lid = Some l"
      using Cons.prems(5) True by (cases "map_of m ?lid") (simp_all add: Let_def)
    then obtain l' s1 where c: "updateLanes_change env repo dsvc t p ?lid i l s = (Inr l', s1)"
        and rest: "updateLanes_apply env repo dsvc t p (AList.update ?lid l' m) inputs s1 = (Inr u, s')"
      using Cons.prems(5) True by (auto simp: Let_def elim!: bind_io_InrD)
    have own: "own_lane others t p l" "ln_ID l = ?lid" "types ?lid = Some (ln_Type l)"
      using Cons.prems(4) l by blast+
    note one = updating_kept_lane [OF Cons.prems(1) [unfolded ids] lid own(1,2) c]
    have "\<forall>lid l. map_of (AList.update ?lid l' m) lid = Some l \<longrightarrow>
        own_lane others t p l \<and> ln_ID l = lid \<and> types lid = Some (ln_Type l)"
      using Cons.prems(4) one(2-4) own(3) by (simp add: update_conv')
    from Cons.IH [OF one(1) _ _ this rest] Cons.prems(2,3)
    show ?thesis using True own(3) by (cases "lni_ID i") (simp_all add: ids requested_lane_def given_def)
  qed
qed (simp add: request_ids_def)

lemma deletes_rows:
  assumes "updateLanes_delete repo dsvc t ids m s = (Inr u, s')"
  shows "rows s' = filter (\<lambda>r. \<not> (\<exists>lid \<in> fst ` set m. lid \<notin> set ids \<and> lane_key r = (t, lid))) (rows s)"
  using assms
proof (induction m arbitrary: s)
  case (Cons x m)
  obtain lid l where x: "x = (lid, l)" by (cases x)
  obtain u1 s1 where one: "(if lid \<in> set ids then return_io ()
       else bind_io (unbind_if dsvc t (ln_DeviceID l)) (\<lambda>_.
            map_err_io (Wrap (''delete lane '' @ lid @ '': '')) (lnp_Delete repo t lid))) s = (Inr u1, s1)"
      and rest: "updateLanes_delete repo dsvc t ids m s1 = (Inr u, s')"
    using Cons.prems by (auto simp: updateLanes_delete_def x elim!: bind_io_InrD)
  have "rows s1 = filter (\<lambda>r. \<not> (lid \<notin> set ids \<and> lane_key r = (t, lid))) (rows s)"
  proof (cases "lid \<in> set ids")
    case False
    then obtain u2 s2 where "unbind_if dsvc t (ln_DeviceID l) s = (Inr u2, s2)"
        "map_err_io (Wrap (''delete lane '' @ lid @ '': '')) (lnp_Delete repo t lid) s2 = (Inr u1, s1)"
      using one by (auto elim!: bind_io_InrD)
    then have "rows s2 = rows s" "s1 = snd (lnp_Delete repo t lid s2)"
      using unbind_rows [of t "ln_DeviceID l" s] snd_map_err_io by (metis snd_conv)+
    then show ?thesis using False by (simp add: lane.Delete_rows)
  qed (use one in simp)
  then show ?case unfolding Cons.IH [OF rest] x by (simp only: filter_filter) (rule filter_cong, auto)
qed (simp add: updateLanes_delete_def)

lemma lane_map_keys: "fst ` set (lane_map ls) = ln_ID ` set ls"
  by (induction ls rule: rev_induct) (auto simp: lane_map_def dom_update)

text \<open>The call is its two phases between two listings of the lot.\<close>

lemma UpdateLanes_phases:
  assumes run: "laneService_UpdateLanes env order repo dsvc t \<lparr>uln_ParkingLotID = p, uln_Lanes = inputs\<rparr> s = (Inr resp, s')"
  obtains xs u1 s1 u2 ys where "mset xs = mset (lot_lanes (t, p) (rows s))"
    and "updateLanes_delete repo dsvc t (request_ids inputs) (order (lane_map (map toLaneDomain xs))) s = (Inr u1, s1)"
    and "updateLanes_apply env repo dsvc t p (lane_map (map toLaneDomain xs)) inputs s1 = (Inr u2, s')"
    and "lnp_ListByParkingLotID repo t p s = (Inr (map toLaneDomain xs), s)"
    and "mset ys = mset (lot_lanes (t, p) (rows s'))" and "sorted (map lnr_CreatedAt ys)"
    and "resp = \<lparr>uln_ResponseLanes = map (\<lambda>r. \<lparr>lwd_Lane = toLaneDomain r, lwd_Device = None\<rparr>) ys\<rparr>"
proof -
  obtain xs where xs: "mset xs = mset (lot_lanes (t, p) (rows s))"
      "lnp_ListByParkingLotID repo t p s = (Inr (map toLaneDomain xs), s)"
    using lane.ListByParkingLot_run [of t p s] unfolding lot_lanes_def by blast
  let ?answer = "bind_io (lnp_ListByParkingLotID repo t p) (\<lambda>finalLanes.
      return_io \<lparr>uln_ResponseLanes = map (\<lambda>l. \<lparr>lwd_Lane = l, lwd_Device = None\<rparr>) finalLanes\<rparr>)"
  have "bind_io (updateLanes_delete repo dsvc t (request_ids inputs) (order (lane_map (map toLaneDomain xs)))) (\<lambda>_.
      bind_io (updateLanes_apply env repo dsvc t p (lane_map (map toLaneDomain xs)) inputs) (\<lambda>_. ?answer)) s =
      (Inr resp, s')"
    using run unfolding laneService_UpdateLanes_def
    by (simp add: bind_io_Inr [where m = "lnp_ListByParkingLotID repo t p", OF xs(2)])
  then obtain u1 s1 where
      d: "updateLanes_delete repo dsvc t (request_ids inputs) (order (lane_map (map toLaneDomain xs))) s = (Inr u1, s1)"
    and "bind_io (updateLanes_apply env repo dsvc t p (lane_map (map toLaneDomain xs)) inputs) (\<lambda>_. ?answer) s1 =
      (Inr resp, s')" by (rule bind_io_InrD)
  then obtain u2 s2 where
      a: "updateLanes_apply env repo dsvc t p (lane_map (map toLaneDomain xs)) inputs s1 = (Inr u2, s2)"
    and f: "?answer s2 = (Inr resp, s')" by (auto elim: bind_io_InrD)
  obtain ys where ys: "mset ys = mset (lot_lanes (t, p) (rows s2))" "sorted (map lnr_CreatedAt ys)"
      "lnp_ListByParkingLotID repo t p s2 = (Inr (map toLaneDomain ys), s2)"
    using lane.ListByParkingLot_run [of t p s2] unfolding lot_lanes_def by blast
  have "s' = s2" "resp = \<lparr>uln_ResponseLanes = map (\<lambda>r. \<lparr>lwd_Lane = toLaneDomain r, lwd_Device = None\<rparr>) ys\<rparr>"
    using f ys(3) by (auto simp: bind_io_run)
  then show ?thesis using that xs d a ys by blast
qed

text \<open>After the first phase the lot has the requested lanes of its own and no other.\<close>

lemma deleted_updating:
  assumes inv: "lane_inv rows (t, p) others s" and own: "\<forall>l \<in> set ls. own_lane others t p l"
    and ids: "ln_ID ` set ls = lnr_ID ` set (lot_lanes (t, p) (rows s))" "set ids \<subseteq> ln_ID ` set ls"
    and run: "updateLanes_delete repo dsvc t ids (order (lane_map ls)) s = (Inr u, s')"
  shows "updating (t, p) others ids ids {#} s'"
  unfolding updating_def
proof (intro conjI ballI)
  have rows': "rows s' = filter (\<lambda>r. \<not> (\<exists>lid \<in> lnr_ID ` set (lot_lanes (t, p) (rows s)).
      lid \<notin> set ids \<and> lane_key r = (t, lid))) (rows s)"
    using deletes_rows [OF run] by (simp add: order_same lane_map_keys ids(1))
  have "io_inv (lane_inv rows (t, p) others) (updateLanes_delete repo dsvc t ids (order (lane_map ls))) (\<lambda>_. True)"
    by (rule lane_steps.deletes_inv [OF lane_steps_lanes]) (use own lane_map_entries in blast)
  from io_invD [OF this inv] show "lane_inv rows (t, p) others s'" by (simp add: run)
  show "\<exists>r \<in> set (rows s'). lane_scope r = (t, p) \<and> lnr_ID r = lid" if "lid \<in> set ids" for lid
  proof -
    obtain r where "r \<in> set (lot_lanes (t, p) (rows s))" "lnr_ID r = lid" using ids \<open>lid \<in> set ids\<close> by auto
    then show ?thesis using \<open>lid \<in> set ids\<close>
      by (intro bexI [of _ r]) (auto simp: rows' lot_lanes_def lane_key_def)
  qed
  have "lnr_ID r \<in> set ids" if "r \<in> set (rows s')" "lane_scope r = (t, p)" for r
    using that by (auto simp: rows' lot_lanes_def lane_key_def lane_scope_def)
  then show "seen (t, p) ids ids (mset (rows s')) = {#}"
    by (auto simp: seen_def filter_empty_conv simp flip: mset_filter)
qed

text \<open>After a successful update the lot is as requested, and the answer lists it.\<close>

lemma UpdateLanes_result:
  assumes ok: "lanes_ok rows s" and dist: "distinct (request_ids inputs)"
    and run: "laneService_UpdateLanes env order repo dsvc t \<lparr>uln_ParkingLotID = p, uln_Lanes = inputs\<rparr> s = (Inr resp, s')"
  shows "mset (map (lane_view (request_ids inputs)) (lot_lanes (t, p) (rows s'))) =
           mset (map (requested_lane (lane_types (lot_lanes (t, p) (rows s)))) inputs)"
    and "\<exists>xs. mset xs = mset (lot_lanes (t, p) (rows s')) \<and> sorted (map lnr_CreatedAt xs) \<and>
           resp = \<lparr>uln_ResponseLanes = map (\<lambda>r. \<lparr>lwd_Lane = toLaneDomain r, lwd_Device = None\<rparr>) xs\<rparr>"
proof -
  let ?lot = "lot_lanes (t, p) (rows s)"
  define others where "others = filter (\<lambda>r. lane_scope r \<noteq> (t, p)) (rows s)"
  have inv: "lane_inv rows (t, p) others s" unfolding others_def by (rule scope_inv_start) (simp_all add: ok)
  obtain xs u1 s1 u2 ys where xs: "mset xs = mset ?lot"
      and d: "updateLanes_delete repo dsvc t (request_ids inputs) (order (lane_map (map toLaneDomain xs))) s = (Inr u1, s1)"
      and a: "updateLanes_apply env repo dsvc t p (lane_map (map toLaneDomain xs)) inputs s1 = (Inr u2, s')"
      and list: "lnp_ListByParkingLotID repo t p s = (Inr (map toLaneDomain xs), s)"
      and ys: "mset ys = mset (lot_lanes (t, p) (rows s'))" "sorted (map lnr_CreatedAt ys)"
        "resp = \<lparr>uln_ResponseLanes = map (\<lambda>r. \<lparr>lwd_Lane = toLaneDomain r, lwd_Device = None\<rparr>) ys\<rparr>"
    by (rule UpdateLanes_phases [OF run])
  show "\<exists>xs. mset xs = mset (lot_lanes (t, p) (rows s')) \<and> sorted (map lnr_CreatedAt xs) \<and>
      resp = \<lparr>uln_ResponseLanes = map (\<lambda>r. \<lparr>lwd_Lane = toLaneDomain r, lwd_Device = None\<rparr>) xs\<rparr>"
    using ys by blast
  define ls where "ls = map toLaneDomain xs"
  have set: "set xs = set ?lot" by (rule mset_eq_setD [OF xs])
  have own: "\<forall>l \<in> set ls. own_lane others t p l"
    using lane.list_lanes_inv inv list unfolding io_inv_def ls_def by (metis fst_conv)
  have keys: "ln_ID ` set ls = lnr_ID ` set ?lot" by (simp add: ls_def set image_image toLaneDomain_def)
  have req: "set (request_ids inputs) \<subseteq> ln_ID ` set ls" using apply_keys [OF a] by (simp add: lane_map_keys ls_def)
  from apply_updating [OF deleted_updating [OF inv own keys req d [folded ls_def]] dist subset_refl _ a [folded ls_def],
      of "lane_types ?lot"]
  have "updating (t, p) others (request_ids inputs) [] (mset (map (requested_lane (lane_types ?lot)) inputs)) s'"
    using own lane_map_of [of ls] lane_types_Some [OF _ ok] set
    by (fastforce simp: ls_def toLaneDomain_def)
  then show "mset (map (lane_view (request_ids inputs)) (lot_lanes (t, p) (rows s'))) =
      mset (map (requested_lane (lane_types ?lot)) inputs)"
    by (simp add: updating_def seen_def lot_lanes_def)
qed

end

text \<open>
  C2: \<open>UpdateLanes\<close> implements "the lanes of the lot are the requested ones". When it succeeds,
  the lot holds exactly one lane per input: the kept lanes under their IDs with their new names
  and their old types, the new lanes with their names and types, and no lane that was not
  listed; and the answer lists the lot in the order of creation.
\<close>

theorem update_lanes_refines:
  assumes "parking_site like db rows set_rows now dup ddb drows dset dnow ddup tx env order"
    and "lanes_ok rows s"
    and "inputs = map lane_input (pun_Lanes req)" and "distinct (request_ids inputs)"
    and "sc = (TenantID ctx, pun_ParkingLotId req)"
    and "LaneGRPCServer_UpdateLanes (lane_server env order db (device_server env ddb tx)) ctx req s = (Inr resp, s')"
  shows "mset (map (lane_view (request_ids inputs)) (lot_lanes sc (rows s'))) =
           mset (map (requested_lane (lane_types (lot_lanes sc (rows s)))) inputs) \<and>
         (\<exists>xs. mset xs = mset (lot_lanes sc (rows s')) \<and> sorted (map lnr_CreatedAt xs) \<and>
           resp = map (\<lambda>r. toProtoLane (toLaneDomain r) None) xs)"
proof -
  have guards: "TenantID ctx \<noteq> []" "pun_ParkingLotId req \<noteq> []"
    using assms(6) by (auto simp: LaneGRPCServer_UpdateLanes_def in_tenant_def parking_extractTenantID_def
        reject_if_def Let_def bind_io_run split: if_splits)
  obtain r where run: "laneService_UpdateLanes env order (laneRepo_of db) (device_server env ddb tx) (TenantID ctx)
        \<lparr>uln_ParkingLotID = pun_ParkingLotId req, uln_Lanes = inputs\<rparr> s = (Inr r, s')"
      "resp = map (\<lambda>l. toProtoLane (lwd_Lane l) (lwd_Device l)) (uln_ResponseLanes r)"
    using assms(6) unfolding assms(3)
    by (auto simp: LaneGRPCServer_UpdateLanes_def in_tenant_run [OF guards(1)] reject_if_def guards(2)
        parking_site.lane_svc_fields [OF assms(1)] grpc_reply_run simp del: device_server_fields
        split: prod.splits sum.splits)
  from parking_site.UpdateLanes_result [OF assms(1,2,4) run(1)] show ?thesis
    unfolding assms(5) run(2) by (auto simp: comp_def)
qed

end
