(* ===== verification/Lot_Stats.thy ===== *)
theory Lot_Stats
  imports Lot_Props
begin

text \<open>
  The statistics of a tenant: the counts that \<open>CountByParkingLots\<close> builds from the grouped rows,
  summed by the service, are the number of lanes.
\<close>

section \<open>Sums over an association list\<close>

lemma sum_list_update:
  assumes "distinct (map fst al)"
  shows "sum_list (map f (AList.update k v al)) =
           sum_list (map f al) - (case map_of al k of None \<Rightarrow> 0 | Some w \<Rightarrow> f (k, w)) + (f (k, v) :: int)"
  using assms
proof (induction al)
  case (Cons p al)
  obtain a b where p: "p = (a, b)" by (cases p)
  then show ?case using Cons by (cases "a = k") (auto split: option.splits simp: map_of_eq_None_iff)
qed simp

definition lane_gates :: "LaneTypeCount \<Rightarrow> int" where
  "lane_gates c = ltc_Entry c + ltc_Exit c"

abbreviation all_gates :: "(string \<times> LaneTypeCount) list \<Rightarrow> int" where
  "all_gates al \<equiv> sum_list (map (\<lambda>p. lane_gates (snd p)) al)"

definition gate_type :: "string \<Rightarrow> bool" where
  "gate_type ty \<longleftrightarrow> ty = ''entry'' \<or> ty = ''exit''"

text \<open>The field of the count that a group sets is still 0, since every group occurs once.\<close>

definition unset :: "(string \<times> LaneTypeCount) list \<Rightarrow> string list \<Rightarrow> bool" where
  "unset al k \<longleftrightarrow> (\<forall>lot ty c. k = [lot, ty] \<longrightarrow> map_of al lot = Some c \<longrightarrow>
     (ty = ''entry'' \<longrightarrow> ltc_Entry c = 0) \<and> (ty = ''exit'' \<longrightarrow> ltc_Exit c = 0))"

lemma two_elements: "length k = 2 \<Longrightarrow> \<exists>a b. k = [a, b]"
  by (cases k; cases "tl k") auto

lemma unset_update:
  assumes "unset al k" and "unset al [lot, ty]" and "k \<noteq> [lot, ty]"
    and "c = (case map_of al lot of None \<Rightarrow> \<lparr>ltc_Entry = 0, ltc_Exit = 0\<rparr> | Some c \<Rightarrow> c)"
    and "c' = (if ty = ''entry'' then c\<lparr>ltc_Entry := n\<rparr>
               else if ty = ''exit'' then c\<lparr>ltc_Exit := n\<rparr> else c)"
  shows "unset (AList.update lot c' al) k"
  unfolding unset_def
proof (intro allI impI)
  fix lot' ty' d
  assume k: "k = [lot', ty']" and d: "map_of (AList.update lot c' al) lot' = Some d"
  show "(ty' = ''entry'' \<longrightarrow> ltc_Entry d = 0) \<and> (ty' = ''exit'' \<longrightarrow> ltc_Exit d = 0)"
  proof (cases "lot' = lot")
    case False
    then have "map_of al lot' = Some d" using d by (simp add: update_conv')
    then show ?thesis using assms(1) k unfolding unset_def by blast
  next
    case True
    then have "ty' \<noteq> ty" "d = c'" using assms(3) k d by (simp_all add: update_conv')
    moreover have "(ty' = ''entry'' \<longrightarrow> ltc_Entry c = 0) \<and> (ty' = ''exit'' \<longrightarrow> ltc_Exit c = 0)"
      using assms(1) k True unfolding assms(4) unset_def by (cases "map_of al lot"; simp)
    ultimately show ?thesis by (auto simp: assms(5))
  qed
qed

lemma lane_tally_gates:
  assumes "distinct (map fst al)" and "distinct (map fst res)" and "\<forall>k \<in> fst ` set res. unset al k"
    and "\<forall>k \<in> fst ` set res. length k = 2"
  shows "all_gates (lane_tally al res) =
     all_gates al + sum_list (map snd (filter (\<lambda>(k, n). gate_type (k ! 1)) res))"
  using assms
proof (induction res arbitrary: al)
  case (Cons p res)
  obtain lot ty n where p: "p = ([lot, ty], n)"
    using Cons.prems(4) two_elements [of "fst p"] by (cases p) auto
  define c where "c = (case map_of al lot of None \<Rightarrow> \<lparr>ltc_Entry = 0, ltc_Exit = 0\<rparr> | Some c \<Rightarrow> c)"
  define c' where "c' = (if ty = ''entry'' then c\<lparr>ltc_Entry := n\<rparr>
               else if ty = ''exit'' then c\<lparr>ltc_Exit := n\<rparr> else c)"
  have step: "lane_tally al (p # res) = lane_tally (AList.update lot c' al) res"
    by (simp add: p c_def c'_def Let_def)
  have "unset al [lot, ty]" using Cons.prems(3) p by simp
  then have "ty = ''entry'' \<Longrightarrow> ltc_Entry c = 0" "ty = ''exit'' \<Longrightarrow> ltc_Exit c = 0"
    unfolding c_def unset_def by (cases "map_of al lot"; simp)+
  then have g: "lane_gates c' = lane_gates c + (if gate_type ty then n else 0)"
    by (simp add: c'_def lane_gates_def gate_type_def)
  have c: "lane_gates c = (case map_of al lot of None \<Rightarrow> 0 | Some w \<Rightarrow> lane_gates w)"
    by (simp add: c_def lane_gates_def split: option.split)
  have upd: "all_gates (AList.update lot c' al) = all_gates al + (if gate_type ty then n else 0)"
    using sum_list_update [OF Cons.prems(1), of "\<lambda>p. lane_gates (snd p)" lot c'] g c
    by (simp split: option.splits)
  have "unset (AList.update lot c' al) k" if k: "k \<in> fst ` set res" for k
  proof (rule unset_update [OF _ _ _ c_def c'_def])
    show "unset al k" using Cons.prems(3) k by (simp add: image_iff) blast
    show "unset al [lot, ty]" using Cons.prems(3) p by simp
    show "k \<noteq> [lot, ty]" using Cons.prems(2) p k by (metis distinct.simps(2) fst_conv image_set list.simps(9))
  qed
  then have "all_gates (lane_tally (AList.update lot c' al) res) =
      all_gates (AList.update lot c' al) + sum_list (map snd (filter (\<lambda>(k, n). gate_type (k ! 1)) res))"
    using Cons.prems by (intro Cons.IH) (auto simp: distinct_update)
  then show ?case unfolding step upd by (simp add: p)
qed simp

section \<open>Counting by groups\<close>

lemma sum_list_indicator:
  "distinct ks \<Longrightarrow> sum_list (map (\<lambda>k. if k = a then 1 else 0) ks) = (if a \<in> set ks then 1 else (0 :: int))"
  by (induction ks) auto

text \<open>Groups that cover the rows partition them.\<close>

lemma sum_groups:
  assumes "distinct ks" and "\<forall>r \<in> set xs. M r \<longrightarrow> g r \<in> set ks"
  shows "sum_list (map (\<lambda>k. int (length (filter (\<lambda>r. M r \<and> g r = k) xs))) (filter Q ks)) =
           int (length (filter (\<lambda>r. M r \<and> Q (g r)) xs))"
  using assms(2)
proof (induction xs)
  case (Cons r xs)
  have "sum_list (map (\<lambda>k. int (length (filter (\<lambda>r. M r \<and> g r = k) (r # xs)))) (filter Q ks)) =
      sum_list (map (\<lambda>k. (if k = g r then (if M r then 1 else 0) else 0) +
        int (length (filter (\<lambda>r. M r \<and> g r = k) xs))) (filter Q ks))"
    by (rule arg_cong [where f = sum_list], rule map_cong) auto
  also have "\<dots> = sum_list (map (\<lambda>k. if k = g r then (if M r then 1 else 0) else 0) (filter Q ks)) +
      int (length (filter (\<lambda>r. M r \<and> Q (g r)) xs))"
    using Cons by (simp add: sum_list_addf)
  also have "sum_list (map (\<lambda>k. if k = g r then (if M r then 1 else 0) else 0) (filter Q ks)) =
      (if M r \<and> Q (g r) then 1 else (0 :: int))"
    using sum_list_indicator [of "filter Q ks" "g r"] assms(1) Cons.prems
    by (cases "M r") (auto simp: sum_list_0)
  finally show ?case by simp
qed (simp add: sum_list_0)

section \<open>The number of gates\<close>

definition gate_rows :: "string \<Rightarrow> string set \<Rightarrow> lane_row list \<Rightarrow> lane_row list" where
  "gate_rows t ids xs =
     filter (\<lambda>r. lnr_TenantID r = t \<and> lnr_ParkingLotID r \<in> ids \<and> gate_type (lnr_LaneType r)) xs"

lemma sum_gates_exact:
  assumes "0 \<le> acc" and "\<forall>p \<in> set al. 0 \<le> ltc_Entry (snd p) \<and> 0 \<le> ltc_Exit (snd p)"
    and "acc + all_gates al < 2 ^ 63"
  shows "foldl (\<lambda>totalGates (k, c). i64 (totalGates + i64 (lcr_EntryCount c + lcr_ExitCount c))) acc
           (map (\<lambda>(k, v). (k, \<lparr>lcr_EntryCount = ltc_Entry v, lcr_ExitCount = ltc_Exit v\<rparr>)) al) =
         acc + all_gates al"
  using assms
proof (induction al arbitrary: acc)
  case (Cons p al)
  obtain k v where p: "p = (k, v)" by (cases p)
  have rest: "0 \<le> all_gates al"
    using Cons.prems(2) by (intro sum_list_nonneg) (auto simp: lane_gates_def)
  have v: "0 \<le> lane_gates v" using Cons.prems(2) p by (auto simp: lane_gates_def)
  have "i64 (lane_gates v) = lane_gates v" "i64 (acc + lane_gates v) = acc + lane_gates v"
    using Cons.prems(1,3) rest v p by (intro i64_id; simp)+
  then show ?case
    using Cons.IH [of "acc + lane_gates v"] Cons.prems v p by (simp add: lane_gates_def add.assoc)
qed simp

lemma lane_tally_nonneg:
  assumes "\<forall>p \<in> set al. 0 \<le> ltc_Entry (snd p) \<and> 0 \<le> ltc_Exit (snd p)" and "\<forall>p \<in> set res. 0 \<le> snd p"
  shows "\<forall>p \<in> set (lane_tally al res). 0 \<le> ltc_Entry (snd p) \<and> 0 \<le> ltc_Exit (snd p)"
  using assms
proof (induction al res rule: lane_tally.induct)
  case (2 al lot ty n rest)
  define c where "c = (case map_of al lot of None \<Rightarrow> \<lparr>ltc_Entry = 0, ltc_Exit = 0\<rparr> | Some c \<Rightarrow> c)"
  define c' where "c' = (if ty = ''entry'' then c\<lparr>ltc_Entry := n\<rparr>
               else if ty = ''exit'' then c\<lparr>ltc_Exit := n\<rparr> else c)"
  have "0 \<le> ltc_Entry c \<and> 0 \<le> ltc_Exit c"
    using 2(2) map_of_SomeD [of al lot] by (cases "map_of al lot") (force simp: c_def)+
  then have c': "0 \<le> ltc_Entry c' \<and> 0 \<le> ltc_Exit c'" using 2(3) by (simp add: c'_def)
  have "\<forall>p \<in> set (AList.update lot c' al). 0 \<le> ltc_Entry (snd p) \<and> 0 \<le> ltc_Exit (snd p)"
    using 2(2) c' by (induction al) (auto split: if_splits)
  then show ?case using 2(1) [OF c_def [symmetric, THEN sym] c'_def] 2(3)
    by (simp add: c_def [symmetric] c'_def [symmetric] Let_def)
qed auto

context lane_db
begin

lemma CountByParkingLots_gates:
  assumes "ids \<noteq> []" and "int (length (rows s)) < 2 ^ 63"
  shows "\<exists>counts. lnp_CountByParkingLots (NewLaneRepo (NewLaneDAO db)) t ids s = (Inr counts, s) \<and>
           sum_gates counts = int (length (gate_rows t (set ids) (rows s)))"
proof -
  define q where "q = Group ''parking_lot_id, lane_type''
      (Where ''tenant_id = ? AND parking_lot_id IN ?'' [SqlStr t, SqlStrs ids]
        (Select [''parking_lot_id'', ''lane_type'', ''count(*) as count''] Model))"
  define M where "M r \<longleftrightarrow> lnr_TenantID r = t \<and> lnr_ParkingLotID r \<in> set ids" for r :: lane_row
  define g where "g r = [lnr_ParkingLotID r, lnr_LaneType r]" for r :: lane_row
  define cnt where "cnt k = int (length (filter (\<lambda>r. M r \<and> g r = k) (rows s)))" for k
  have m: "matches lane_holds q = M" and gk: "lane_group (q_group q) = g"
    by (rule ext, simp add: q_def M_def g_def matches_def query_simps)+
  obtain ks where ks: "distinct ks" "set ks = g ` set (filter M (rows s))"
      "g_ScanCounts db q s = (Inr (map (\<lambda>k. (k, cnt k)) ks), s)"
    using ScanCounts_groups [of q s] unfolding m gk cnt_def by blast
  define al where "al = lane_tally [] (map (\<lambda>k. (k, cnt k)) ks)"
  have "all_gates al = sum_list (map snd (filter (\<lambda>(k, n). gate_type (k ! 1)) (map (\<lambda>k. (k, cnt k)) ks)))"
    unfolding al_def using ks(1,2)
    by (subst lane_tally_gates) (auto simp: comp_def unset_def g_def)
  also have "\<dots> = sum_list (map cnt (filter (\<lambda>k. gate_type (k ! 1)) ks))"
    by (simp add: filter_map comp_def)
  also have "\<dots> = int (length (filter (\<lambda>r. M r \<and> gate_type (g r ! 1)) (rows s)))"
    unfolding cnt_def by (rule sum_groups [OF ks(1)]) (auto simp: ks(2))
  also have "filter (\<lambda>r. M r \<and> gate_type (g r ! 1)) (rows s) = gate_rows t (set ids) (rows s)"
    unfolding gate_rows_def M_def g_def by (rule filter_cong) auto
  finally have sum: "all_gates al = int (length (gate_rows t (set ids) (rows s)))" .
  have "int (length (gate_rows t (set ids) (rows s))) < 2 ^ 63"
    using assms(2) unfolding gate_rows_def by (rule le_less_trans [rotated]) simp
  moreover have "\<forall>p \<in> set al. 0 \<le> ltc_Entry (snd p) \<and> 0 \<le> ltc_Exit (snd p)"
    unfolding al_def by (rule lane_tally_nonneg) (auto simp: cnt_def)
  ultimately have "sum_gates (map (\<lambda>(k, v). (k, \<lparr>lcr_EntryCount = ltc_Entry v, lcr_ExitCount = ltc_Exit v\<rparr>)) al) =
      all_gates al"
    unfolding sum_gates_def using sum sum_gates_exact [of 0 al] by simp
  then show ?thesis using assms(1) ks(3) sum
    by (simp add: lane_store_defs bind_io_run q_def [symmetric] al_def [symmetric])
qed

end

section \<open>The statistics\<close>

definition tenant_lots :: "string \<Rightarrow> lot_row list \<Rightarrow> lot_row list" where
  "tenant_lots t xs = filter (\<lambda>r. lr_TenantID r = t) xs"

lemma sum_capacities:
  assumes "\<forall>r \<in> set xs. lot_row_valid r"
  shows "0 \<le> sum_list (map lr_AvailableSpaces xs)"
    and "sum_list (map lr_AvailableSpaces xs) \<le> sum_list (map lr_TotalSpaces xs)"
    and "sum_list (map lr_TotalSpaces xs) \<le> int (length xs) * 2 ^ 31"
    and "sum_list (map lr_TotalSpaces xs) - sum_list (map lr_AvailableSpaces xs) =
           sum_list (map (\<lambda>r. lr_TotalSpaces r - lr_AvailableSpaces r) xs)"
  using assms
  by (induction xs) (auto simp: lot_row_valid_def lot_valid_def lot_toDomain_def algebra_simps)

context lot_db
begin

lemma tenant_lots_page:
  assumes "length (tenant_lots t (rows s)) \<le> 1000"
  shows "\<exists>ls. lp_List (lotRepo_of db) \<lparr>lf_TenantID = t, lf_Status = [], lf_LotType = [], lf_Keyword = []\<rparr> 1 1000 s =
             (Inr (ls, int (length (tenant_lots t (rows s)))), s) \<and>
           mset ls = mset (map lot_toDomain (tenant_lots t (rows s)))"
proof -
  let ?q = "Where ''tenant_id = ?'' [SqlStr t] Model"
  have "filter (matches (lot_holds like) ?q) (rows s) = tenant_lots t (rows s)"
    unfolding tenant_lots_def by (rule filter_cong) (simp_all add: matches_def query_simps)
  then obtain xs where xs: "mset xs = mset (tenant_lots t (rows s))"
      "count_and_page db ?q 1 1000 s = (Inr (xs, int (length (tenant_lots t (rows s)))), s)"
    using first_page_all [of ?q s 1000] assms by auto
  have "lot_query \<lparr>lf_TenantID = t, lf_Status = [], lf_LotType = [], lf_Keyword = []\<rparr> = ?q"
    by (simp add: lot_query_def Where_if_def Let_def)
  with xs(2) have "lp_List (lotRepo_of db) \<lparr>lf_TenantID = t, lf_Status = [], lf_LotType = [], lf_Keyword = []\<rparr> 1 1000 s =
      (Inr (map lot_toDomain xs, int (length (tenant_lots t (rows s)))), s)"
    by (simp add: lot_store_defs bind_io_run)
  then show ?thesis using xs(1) by (metis mset_map)
qed

lemma SumStats_run:
  "lp_SumStats (lotRepo_of db) t s =
     (Inr (sum_list (map lr_TotalSpaces (tenant_lots t (rows s))),
           sum_list (map lr_AvailableSpaces (tenant_lots t (rows s)))), s)"
proof -
  define q where "q = Where ''tenant_id = ?'' [SqlStr t] (Select lot_sum_columns Model)"
  have "matches (lot_holds like) q = (\<lambda>r. lr_TenantID r = t)" "q_select q = lot_sum_columns"
    by (auto simp: q_def matches_def query_simps)
  then show ?thesis
    using lot_sums [of q s] by (simp add: lot_store_defs bind_io_run q_def [symmetric] tenant_lots_def)
qed

lemma count_gates_run:
  assumes lanes: "lane_db ldb lrows lset lnow ldup"
    and "length (tenant_lots t (rows s)) \<le> 1000" and "int (length (lrows s)) < 2 ^ 63"
  shows "count_gates (lotRepo_of db) (Some (NewLaneRepo (NewLaneDAO ldb))) t s =
     (Inr (int (length (gate_rows t (lr_ID ` set (tenant_lots t (rows s))) (lrows s)))), s)"
proof -
  obtain ls where ls: "lp_List (lotRepo_of db) \<lparr>lf_TenantID = t, lf_Status = [], lf_LotType = [], lf_Keyword = []\<rparr> 1 1000 s =
      (Inr (ls, int (length (tenant_lots t (rows s)))), s)"
      "mset ls = mset (map lot_toDomain (tenant_lots t (rows s)))"
    using tenant_lots_page [OF assms(2)] by blast
  have ids: "set (map l_ID ls) = lr_ID ` set (tenant_lots t (rows s))"
    using mset_eq_setD [OF ls(2)] by (auto simp: lot_toDomain_def image_image)
  show ?thesis
  proof (cases "ls = []")
    case True
    then have "tenant_lots t (rows s) = []" using ls(2) by simp
    then show ?thesis using ls(1) True by (simp add: count_gates_def try_io_run gate_rows_def)
  next
    case False
    then obtain counts where "lnp_CountByParkingLots (NewLaneRepo (NewLaneDAO ldb)) t (map l_ID ls) s = (Inr counts, s)"
        "sum_gates counts = int (length (gate_rows t (set (map l_ID ls)) (lrows s)))"
      using lane_db.CountByParkingLots_gates [OF lanes, of "map l_ID ls" s t] assms(3) by auto
    then show ?thesis using ls(1) False unfolding ids by (simp add: count_gates_def try_io_run)
  qed
qed

end

text \<open>
  C16: For a tenant with at most 1000 lots, \<open>GetParkingLotStats\<close> answers with the sums over the
  tenant's lots of their capacities, of their free spaces and of the vehicles inside, and with
  the number of entry and exit lanes of these lots; and it changes nothing.
\<close>

theorem lot_stats:
  assumes "lot_db like db rows set_rows now dup" and "lane_db lanes lrows lset lnow ldup"
    and "lot_table_valid rows s" and "TenantID ctx \<noteq> []"
    and "length (tenant_lots (TenantID ctx) (rows s)) \<le> 1000" and "int (length (lrows s)) < 2 ^ 63"
  shows "ParkingLotGRPCServer_GetParkingLotStats (lot_server env db lanes) ctx s =
    (let lots = tenant_lots (TenantID ctx) (rows s)
     in (Inr \<lparr>psr_TotalSpaces = sum_list (map lr_TotalSpaces lots),
              psr_AvailableSpaces = sum_list (map lr_AvailableSpaces lots),
              psr_OccupiedVehicles = sum_list (map (\<lambda>r. lr_TotalSpaces r - lr_AvailableSpaces r) lots),
              psr_TotalGates = int (length (gate_rows (TenantID ctx) (lr_ID ` set lots) (lrows s)))\<rparr>, s))"
proof -
  let ?lots = "tenant_lots (TenantID ctx) (rows s)"
  have valid: "\<forall>r \<in> set ?lots. lot_row_valid r"
    using assms(3) by (auto simp: lot_table_valid_def tenant_lots_def)
  note sums = sum_capacities [OF valid]
  have "int (length ?lots) * 2 ^ 31 < 2 ^ 63" using assms(5) by simp
  then have "i64 (sum_list (map lr_TotalSpaces ?lots) - sum_list (map lr_AvailableSpaces ?lots)) =
      sum_list (map lr_TotalSpaces ?lots) - sum_list (map lr_AvailableSpaces ?lots)"
    using sums(1-3) by (intro i64_id) linarith+
  then show ?thesis
    using lot_db.SumStats_run [OF assms(1), of "TenantID ctx" s] sums(4)
      lot_db.count_gates_run [OF assms(1,2,5,6)]
    by (simp add: ParkingLotGRPCServer_GetParkingLotStats_def in_tenant_run [OF assms(4)]
        parkingLotService_GetStats_def bind_io_run grpc_reply_def map_err_io_run Let_def)
qed

end
