(* ===== verification/Site.thy ===== *)
theory Site
  imports Part_World Lot_Props Lane_Service Device_Rpcs
begin

text \<open>
  A site: the three tables of the monolith that the parking API works on (lots, lanes and
  devices), each a reference table in its own part of one world, with a clock and a counter of
  fresh IDs. It satisfies the laws of all three tables at once; the runs of the parking
  properties are runs on a site.
\<close>

record site =
  st_lots :: "lot_row list"
  st_lanes :: "lane_row list"
  st_devices :: "device_row list"
  st_clock :: int
  st_ids :: nat

definition site_env :: "site go_env" where
  "site_env =
     \<lparr>time_Now = (\<lambda>s. (st_clock s * 1000000, s)),
      uuid_New = (\<lambda>s. (replicate (Suc (st_ids s)) (CHR ''u''), s\<lparr>st_ids := Suc (st_ids s)\<rparr>)),
      bcrypt_Generate = (\<lambda>pw s. (Inr (''h:'' @ pw), s)),
      bcrypt_Compare = (\<lambda>h pw. h = ''h:'' @ pw), rand_Int = (\<lambda>n s. (Inr (7 mod n), s))\<rparr>"

definition site_lots :: "site lot_gorm" where
  "site_lots = gorm_part (\<lambda>s. (st_lots s, st_clock s))
     (\<lambda>p s. s\<lparr>st_lots := fst p, st_clock := snd p\<rparr>) (lot_ref ''Duplicate entry'')"

definition site_lanes :: "site lane_gorm" where
  "site_lanes = gorm_part (\<lambda>s. (st_lanes s, st_clock s))
     (\<lambda>p s. s\<lparr>st_lanes := fst p, st_clock := snd p\<rparr>) (lane_ref ''Duplicate entry'')"

definition site_devices :: "site device_gorm" where
  "site_devices = gorm_part (\<lambda>s. (st_devices s, st_clock s))
     (\<lambda>p s. s\<lparr>st_devices := fst p, st_clock := snd p\<rparr>) (device_ref ''Duplicate entry'')"

definition site_tx :: "site gorm_tx" where
  "site_tx =
     \<lparr>gt_Handle = site_devices,
      gt_Run = (\<lambda>m (s, n). case m (s, n) of
         (Inr u, w) \<Rightarrow> (Inr u, w)
       | (Inl e, (s', n')) \<Rightarrow> (Inl e, (s'\<lparr>st_devices := st_devices s\<rparr>, n')))\<rparr>"

abbreviation "set_lots xs \<equiv> st_lots_update (\<lambda>_. xs)"
abbreviation "set_lanes xs \<equiv> st_lanes_update (\<lambda>_. xs)"
abbreviation "set_devices xs \<equiv> st_devices_update (\<lambda>_. xs)"

lemma site_parts:
  "fst \<circ> (\<lambda>s. (st_lots s, st_clock s)) = st_lots" "snd \<circ> (\<lambda>s. (st_lots s, st_clock s)) = st_clock"
  "fst \<circ> (\<lambda>s. (st_lanes s, st_clock s)) = st_lanes" "snd \<circ> (\<lambda>s. (st_lanes s, st_clock s)) = st_clock"
  "fst \<circ> (\<lambda>s. (st_devices s, st_clock s)) = st_devices"
  "snd \<circ> (\<lambda>s. (st_devices s, st_clock s)) = st_clock"
  "set_part (\<lambda>s. (st_lots s, st_clock s)) (\<lambda>p s. s\<lparr>st_lots := fst p, st_clock := snd p\<rparr>) ref_set = set_lots"
  "set_part (\<lambda>s. (st_lanes s, st_clock s)) (\<lambda>p s. s\<lparr>st_lanes := fst p, st_clock := snd p\<rparr>) ref_set = set_lanes"
  "set_part (\<lambda>s. (st_devices s, st_clock s)) (\<lambda>p s. s\<lparr>st_devices := fst p, st_clock := snd p\<rparr>) ref_set =
     set_devices"
  by (simp_all add: comp_def set_part_def ref_set_def fun_eq_iff)

lemma site_lots_db: "lot_db sql_like site_lots st_lots set_lots st_clock ''Duplicate entry''"
  unfolding lot_db_def lot_db_axioms_def
proof (intro conjI allI impI)
  show "gorm_table site_lots st_lots set_lots (lot_holds sql_like) lot_clash st_clock lot_stamp lot_assign
      (\<lambda>t cols r. r) (\<lambda>c r. []) lot_order ''Duplicate entry''"
    using gorm_part_table [OF _ _ lot_ref.gorm_table_axioms, of "\<lambda>s. (st_lots s, st_clock s)"
        "\<lambda>p s. s\<lparr>st_lots := fst p, st_clock := snd p\<rparr>" "''Duplicate entry''"]
    by (simp add: site_lots_def site_parts)
  fix q :: gquery and s :: site
  assume "q_select q = lot_sum_columns"
  then show "g_ScanSums site_lots q s =
      (Inr [sum_list (map lr_TotalSpaces (filter (matches (lot_holds sql_like) q) (st_lots s))),
            sum_list (map lr_AvailableSpaces (filter (matches (lot_holds sql_like) q) (st_lots s)))], s)"
    using lot_ref.lot_sums [of q "''Duplicate entry''" "(st_lots s, st_clock s)"]
    by (simp add: site_lots_def gorm_part_def at_part_run)
qed

lemma site_lanes_db: "lane_db site_lanes st_lanes set_lanes st_clock ''Duplicate entry''"
  using gorm_part_table [OF _ _ lane_ref.gorm_table_axioms, of "\<lambda>s. (st_lanes s, st_clock s)"
      "\<lambda>p s. s\<lparr>st_lanes := fst p, st_clock := snd p\<rparr>" "''Duplicate entry''"]
  by (simp add: lane_db_def site_lanes_def site_parts)

lemma site_devices_db: "device_db sql_like site_devices st_devices set_devices st_clock ''Duplicate entry''"
  using gorm_part_table [OF _ _ device_ref.gorm_table_axioms, of "\<lambda>s. (st_devices s, st_clock s)"
      "\<lambda>p s. s\<lparr>st_devices := fst p, st_clock := snd p\<rparr>" "''Duplicate entry''"]
  by (simp add: device_db_def site_devices_def site_parts)

lemma site_devices_tx: "device_tx sql_like site_devices st_devices set_devices st_clock ''Duplicate entry'' site_tx"
  unfolding device_tx_def device_tx_axioms_def
  by (auto simp: site_devices_db site_tx_def split: prod.splits)

lemma site_env_worlds:
  "go_world site_env st_lots" "go_world site_env st_lanes" "go_world site_env st_devices"
  by (unfold_locales; simp add: site_env_def)+

interpretation site_lots: lot_db sql_like site_lots st_lots set_lots st_clock "''Duplicate entry''"
  by (rule site_lots_db)

interpretation site_lanes: lane_db site_lanes st_lanes set_lanes st_clock "''Duplicate entry''"
  by (rule site_lanes_db)

interpretation site_devices: device_tx sql_like site_devices st_devices set_devices st_clock
  "''Duplicate entry''" site_tx
  by (rule site_devices_tx)

section \<open>An example\<close>

definition site_lot :: lot_row where
  "site_lot =
     \<lparr>lr_ID = ''p1'', lr_TenantID = ''t1'', lr_Name = ''north'', lr_Address = ''1 Road'',
      lr_TotalSpaces = 100, lr_AvailableSpaces = 60, lr_LotType = ''ground'', lr_Status = ''active'',
      lr_CreatedAt = 5, lr_UpdatedAt = 5\<rparr>"

definition site_lane :: "string \<Rightarrow> string \<Rightarrow> string \<Rightarrow> string option \<Rightarrow> lane_row" where
  "site_lane lid name ty dev =
     \<lparr>lnr_ID = lid, lnr_TenantID = ''t1'', lnr_ParkingLotID = ''p1'', lnr_Name = name,
      lnr_LaneType = ty, lnr_DeviceID = dev, lnr_CreatedAt = 6, lnr_UpdatedAt = 6\<rparr>"

definition site_device :: "string \<Rightarrow> string \<Rightarrow> string option \<Rightarrow> device_row" where
  "site_device did st lot =
     \<lparr>dvr_ID = did, dvr_TenantID = ''t1'', dvr_Name = did, dvr_Type = ''integrated'',
      dvr_Status = st, dvr_FirmwareVersion = ''1.0'', dvr_LastHeartbeatAt = None,
      dvr_ParkingLotID = lot, dvr_GateID = map_option (\<lambda>_. ''l1'') lot, dvr_CreatedAt = 5, dvr_UpdatedAt = 5\<rparr>"

definition site_start :: site where
  "site_start =
     \<lparr>st_lots = [site_lot],
      st_lanes = [site_lane ''l1'' ''in'' ''entry'' (Some ''d1''), site_lane ''l2'' ''out'' ''exit'' None],
      st_devices = [site_device ''d1'' ''active'' (Some ''p1''), site_device ''d2'' ''pending'' None],
      st_clock = 9, st_ids = 0\<rparr>"

lemma site_start_facts:
  "lot_table_valid st_lots site_start" "lots_ok st_lots site_start" "lanes_ok st_lanes site_start"
  "device_table_valid st_devices site_start"
  by (simp_all add: site_start_def lot_table_valid_def table_intact_def unclashing_def site_lot_def
      lot_row_valid_def lot_valid_def lot_toDomain_def site_lane_def lane_clash_def device_table_valid_def
      site_device_def device_clash_def device_row_valid_def device_valid_def device_statuses_def
      toDomainDevice_def)

end
