(* ===== verification/Lot_Runs.thy ===== *)
theory Lot_Runs
  imports Lot_Stats Site
begin

text \<open>
  Runs of the parking-lot API on the example site: the properties of lots at concrete inputs.
\<close>

definition site_ctx :: "string \<Rightarrow> go_ctx" where
  "site_ctx t = WithTenantID context_Background t"

lemma site_ctx_id [simp]: "TenantID (site_ctx t) = t"
  by (simp add: site_ctx_def ctx_simps)

abbreviation site_lot_svc :: "site lot_service" where
  "site_lot_svc \<equiv> lot_server site_env site_lots site_lanes"

definition shrink_example :: pb_UpdateParkingLotRequest where
  "shrink_example =
     \<lparr>pul_Id = ''p1'', pul_Name = None, pul_Address = None, pul_TotalSpaces = Some 50,
      pul_LotType = None, pul_Status = Some PARKING_LOT_STATUS_INACTIVE\<rparr>"

lemma lot_rpcs_keep_table_witness:
  "lot_table_valid st_lots
     (snd (ParkingLotGRPCServer_UpdateParkingLot site_lot_svc (site_ctx ''t1'') shrink_example site_start))"
proof (rule lot_rpcs_keep_table [OF site_lots_db site_lanes_db site_env_worlds(1) site_start_facts(1)])
  show "(\<lambda>s s'. \<exists>ctx. lot_rpc site_env site_lots site_lanes ctx s s')\<^sup>*\<^sup>* site_start
      (snd (ParkingLotGRPCServer_UpdateParkingLot site_lot_svc (site_ctx ''t1'') shrink_example site_start))"
    by (rule r_into_rtranclp, rule exI, rule lot_rpc.update) (simp add: shrink_example_def int32_def)
qed

lemma lot_tenant_isolation_witness:
  "filter (\<lambda>r. lr_TenantID r = ''t1'')
     (st_lots (snd (ParkingLotGRPCServer_DeleteParkingLot site_lot_svc (site_ctx ''t2'') ''p1'' site_start))) =
   [site_lot]"
proof -
  have "(\<lambda>s s'. \<exists>ctx. TenantID ctx \<noteq> ''t1'' \<and> lot_rpc site_env site_lots site_lanes ctx s s')\<^sup>*\<^sup>* site_start
      (snd (ParkingLotGRPCServer_DeleteParkingLot site_lot_svc (site_ctx ''t2'') ''p1'' site_start))"
    by (rule r_into_rtranclp, rule exI [of _ "site_ctx ''t2''"]) (simp add: lot_rpc.delete)
  from lot_tenant_isolation [OF site_lots_db site_lanes_db site_env_worlds(1) site_start_facts(1) this]
  show ?thesis by (simp add: site_start_def site_lot_def)
qed

lemma site_lot_at:
  "lot_at st_lots site_start (''t1'', ''p1'') = Some (lot_toDomain site_lot)"
  by (simp add: entity_at_def row_at_def site_start_def site_lot_def lot_key_def)

lemma update_parking_lot_witness:
  "\<exists>l' s'. ParkingLotGRPCServer_UpdateParkingLot site_lot_svc (site_ctx ''t1'') shrink_example site_start =
     (Inr (toProtoParkingLot l'), s') \<and> l_TotalSpaces l' = 50 \<and> l_AvailableSpaces l' = 10 \<and>
     l_Status l' = ''inactive'' \<and>
     lot_at st_lots s' (''t1'', ''p1'') = Some (l'\<lparr>l_UpdatedAt := 9\<rparr>)"
proof -
  have rows: "st_lots site_start = [site_lot]" "st_clock site_start = 9" by (simp_all add: site_start_def)
  have guards: "\<not> lot_name_taken st_lots site_start (TenantID (site_ctx ''t1'')) shrink_example"
    "TenantID (site_ctx ''t1'') \<noteq> []" "pul_Id shrink_example \<noteq> []"
    by (simp_all add: rows shrink_example_def lot_name_taken_def)
  have i: "\<forall>v \<in> set_option (pul_TotalSpaces shrink_example). int32 v" by (simp add: shrink_example_def int32_def)
  have at: "lot_at st_lots site_start (TenantID (site_ctx ''t1''), pul_Id shrink_example) = Some (lot_toDomain site_lot)"
    by (simp add: site_lot_at shrink_example_def)
  obtain l' where l': "updated_lot shrink_example (lot_toDomain site_lot) = Inr l'"
    "l_TotalSpaces l' = 50" "l_AvailableSpaces l' = 10" "l_Status l' = ''inactive''"
    by (simp add: updated_lot_def shrink_example_def lot_toDomain_def site_lot_def occupied_def assign_if_def Let_def)
  have "l'\<lparr>l_UpdatedAt := st_clock site_start\<rparr> \<noteq> lot_toDomain site_lot"
    using l'(2) by (auto simp: lot_toDomain_def site_lot_def dest!: arg_cong [where f = l_TotalSpaces])
  with update_parking_lot_branches [OF site_lots_db site_start_facts(1) i, of site_env site_lanes "site_ctx ''t1''"]
  obtain s' where s': "ParkingLotGRPCServer_UpdateParkingLot site_lot_svc (site_ctx ''t1'') shrink_example site_start =
      (Inr (toProtoParkingLot l'), s')"
    "lot_at st_lots s' = (lot_at st_lots site_start)
       ((TenantID (site_ctx ''t1''), pul_Id shrink_example) \<mapsto> l'\<lparr>l_UpdatedAt := st_clock site_start\<rparr>)"
    unfolding at Let_def if_not_P [OF guards(2)] if_not_P [OF guards(3)] option.case l'(1) sum.case if_not_P [OF guards(1)]
    by auto
  show ?thesis
    by (intro exI [of _ l'] exI [of _ s']) (simp add: s' l' rows, simp add: shrink_example_def)
qed

lemma lot_stats_witness:
  "ParkingLotGRPCServer_GetParkingLotStats site_lot_svc (site_ctx ''t1'') site_start =
     (Inr \<lparr>psr_TotalSpaces = 100, psr_AvailableSpaces = 60, psr_OccupiedVehicles = 40, psr_TotalGates = 2\<rparr>,
      site_start)"
proof -
  have rows: "st_lots site_start = [site_lot]"
    "st_lanes site_start = [site_lane ''l1'' ''in'' ''entry'' (Some ''d1''), site_lane ''l2'' ''out'' ''exit'' None]"
    by (simp_all add: site_start_def)
  have lots: "tenant_lots ''t1'' [site_lot] = [site_lot]" by (simp add: tenant_lots_def site_lot_def)
  have "TenantID (site_ctx ''t1'') \<noteq> []" "length (tenant_lots (TenantID (site_ctx ''t1'')) (st_lots site_start)) \<le> 1000"
    "int (length (st_lanes site_start)) < 2 ^ 63"
    by (simp_all add: rows lots)
  from lot_stats [OF site_lots_db site_lanes_db site_start_facts(1) this, of site_env] show ?thesis
    by (simp only: rows lots Let_def site_ctx_id)
      (simp add: gate_rows_def gate_type_def site_lane_def site_lot_def)
qed

end
