(* ===== verification/Lane_Runs.thy ===== *)
theory Lane_Runs
  imports Lane_Update Lot_Runs
begin

text \<open>Runs of the lane API on a site: the properties of lanes at concrete inputs.\<close>

abbreviation site_device_svc :: "site device_service" where
  "site_device_svc \<equiv> device_server site_env site_devices site_tx"

abbreviation site_lane_svc :: "site lane_service" where
  "site_lane_svc \<equiv> lane_server site_env rev site_lanes site_device_svc"

lemma site_parking:
  "parking_site sql_like site_lanes st_lanes set_lanes st_clock ''Duplicate entry''
     site_devices st_devices set_devices st_clock ''Duplicate entry'' site_tx site_env rev"
  unfolding parking_site_def parking_site_axioms_def
  by (simp add: site_lanes_db site_devices_tx site_env_worlds)

interpretation site_parking: parking_site sql_like site_lanes st_lanes set_lanes st_clock "''Duplicate entry''"
  site_devices st_devices set_devices st_clock "''Duplicate entry''" site_tx site_env rev
  by (rule site_parking)

interpretation site_steps: lane_steps site_env rev "laneRepo_of site_lanes" site_device_svc t p
  "lane_inv st_lanes (t, p) others" "own_lane others t p" for t p others
  by (rule site_parking.lane_steps_lanes)

lemma update_lanes_isolation_witness:
  "filter (\<lambda>r. lane_scope r \<noteq> (''t2'', ''p1''))
     (st_lanes (snd (LaneGRPCServer_UpdateLanes site_lane_svc (site_ctx ''t2'')
        \<lparr>pun_ParkingLotId = ''p1'', pun_Lanes = []\<rparr> site_start))) =
   [site_lane ''l1'' ''in'' ''entry'' (Some ''d1''), site_lane ''l2'' ''out'' ''exit'' None]"
  using update_lanes_isolation [OF site_parking site_start_facts(3,4) refl,
      of "site_ctx ''t2''" "\<lparr>pun_ParkingLotId = ''p1'', pun_Lanes = []\<rparr>"]
  by (simp add: site_start_def site_lane_def lane_scope_def)

section \<open>One update\<close>

text \<open>The lane \<open>l1\<close> goes, \<open>l2\<close> gets a new name (and keeps its type), and there is a new lane.\<close>

definition lane_request :: pb_UpdateLanesRequest where
  "lane_request =
     \<lparr>pun_ParkingLotId = ''p1'',
      pun_Lanes =
        [\<lparr>pli_LaneId = ''l2'', pli_Name = ''gate'', pli_LaneType = LANE_TYPE_ENTRY, pli_DeviceId = []\<rparr>,
         \<lparr>pli_LaneId = [], pli_Name = ''new'', pli_LaneType = LANE_TYPE_ENTRY, pli_DeviceId = []\<rparr>]\<rparr>"

definition site_plain :: site where
  "site_plain = site_start\<lparr>st_lanes :=
     [site_lane ''l1'' ''in'' ''entry'' None, site_lane ''l2'' ''out'' ''exit'' None]\<rparr>"

lemma site_lane_ops:
  "lnp_ListByParkingLotID (laneRepo_of site_lanes) t p s =
     (Inr (map toLaneDomain (sort_key lnr_CreatedAt (filter (\<lambda>r. lane_scope r = (t, p)) (st_lanes s)))), s)"
  "\<exists>r \<in> set (st_lanes s). lane_key r = (t, lid) \<Longrightarrow> lnp_Delete (laneRepo_of site_lanes) t lid s =
     (Inr (), s\<lparr>st_lanes := filter (\<lambda>r. lane_key r \<noteq> (t, lid)) (st_lanes s)\<rparr>)"
  "\<not> (\<exists>r \<in> set (st_lanes s). lane_clash (toLaneEntity l) r) \<Longrightarrow> lnp_Create (laneRepo_of site_lanes) l s =
     (Inr (), s\<lparr>st_lanes := st_lanes s @ [lane_stamp (st_clock s) (toLaneEntity l)]\<rparr>)"
proof -
  define q where "q = Order ''created_at ASC''
       (Where ''tenant_id = ? AND parking_lot_id = ?'' [SqlStr t, SqlStr p] Model)"
  have "matches lane_holds q = (\<lambda>r. lane_scope r = (t, p))" "lane_order (q_order q) = lnr_CreatedAt"
    "page_of q xs = xs" for xs :: "lane_row list"
    by (auto simp: q_def matches_def query_simps lane_scope_def page_of_def)
  then show "lnp_ListByParkingLotID (laneRepo_of site_lanes) t p s =
     (Inr (map toLaneDomain (sort_key lnr_CreatedAt (filter (\<lambda>r. lane_scope r = (t, p)) (st_lanes s)))), s)"
    by (simp add: lane_store_defs bind_io_run q_def [symmetric] site_lanes_def gorm_part_def at_part_run
        lane_ref_def ref_gorm_def)
next
  assume "\<exists>r \<in> set (st_lanes s). lane_key r = (t, lid)"
  then show "lnp_Delete (laneRepo_of site_lanes) t lid s =
     (Inr (), s\<lparr>st_lanes := filter (\<lambda>r. lane_key r \<noteq> (t, lid)) (st_lanes s)\<rparr>)"
    by (auto simp: lane_del_eq affected_or_def bind_io_run site_lanes.Delete_matching lane_q_matches filter_empty_conv)
next
  assume "\<not> (\<exists>r \<in> set (st_lanes s). lane_clash (toLaneEntity l) r)"
  from site_lanes.Create_fits [OF this] show "lnp_Create (laneRepo_of site_lanes) l s =
     (Inr (), s\<lparr>st_lanes := st_lanes s @ [lane_stamp (st_clock s) (toLaneEntity l)]\<rparr>)"
    by (simp add: lane_crt_eq create_or_def map_err_io_run)
qed

text \<open>
  The run step by step: \<open>l1\<close> is not listed and goes, \<open>l2\<close> is renamed, and a lane is created.
\<close>

definition kept_lane :: lane_row where
  "kept_lane = site_lane ''l2'' ''out'' ''exit'' None"

definition lane_run1 :: site where
  "lane_run1 = site_plain\<lparr>st_lanes := [kept_lane]\<rparr>"

definition lane_run2 :: site where
  "lane_run2 = lane_run1\<lparr>st_lanes := [kept_lane\<lparr>lnr_Name := ''gate'', lnr_UpdatedAt := 9\<rparr>]\<rparr>"

definition rename_input :: LaneInput where
  "rename_input = \<lparr>lni_ID = Some ''l2'', lni_Name = ''gate'', lni_Type = ''entry'', lni_DeviceID = None\<rparr>"

definition create_input :: LaneInput where
  "create_input = \<lparr>lni_ID = None, lni_Name = ''new'', lni_Type = ''entry'', lni_DeviceID = None\<rparr>"

abbreviation run_lanes :: "lane list" where
  "run_lanes \<equiv> [toLaneDomain (site_lane ''l1'' ''in'' ''entry'' None), toLaneDomain kept_lane]"

lemma run_lane_map:
  "lane_map run_lanes = [(''l1'', run_lanes ! 0), (''l2'', run_lanes ! 1)]"
  by (simp add: lane_map_def toLaneDomain_def site_lane_def kept_lane_def)

lemma lane_run_delete:
  "updateLanes_delete (laneRepo_of site_lanes) site_device_svc ''t1'' [''l2''] (rev (lane_map run_lanes)) site_plain =
     (Inr (), lane_run1)"
proof -
  have "lnp_Delete (laneRepo_of site_lanes) ''t1'' ''l1'' site_plain = (Inr (), lane_run1)"
    by (subst site_lane_ops) (simp_all add: site_plain_def site_lane_def lane_key_def kept_lane_def lane_run1_def)
  then show ?thesis unfolding run_lane_map
    by (simp add: updateLanes_delete_def bind_io_run unbind_if_def map_err_io_run toLaneDomain_def site_lane_def)
qed

lemma lane_run_change:
  "updateLanes_change site_env (laneRepo_of site_lanes) site_device_svc ''t1'' ''p1'' ''l2'' rename_input
     (toLaneDomain kept_lane) lane_run1 =
     (Inr ((toLaneDomain kept_lane)\<lparr>ln_Name := ''gate''\<rparr>), lane_run2)"
proof -
  let ?q = "Select lane_columns (lane_q ''t1'' ''l2'')"
  have "matches lane_holds ?q = (\<lambda>r. lane_key r = (''t1'', ''l2''))" "q_select ?q = lane_columns"
    by (auto simp: matches_def query_simps lane_key_def)
  then have "lnp_Update (laneRepo_of site_lanes) (toLaneDomain (kept_lane\<lparr>lnr_Name := ''gate''\<rparr>)) lane_run1 =
      (Inr (), lane_run2)"
    by (simp add: lane_upd_eq lane_key_def affected_or_def bind_io_run site_lanes_def gorm_part_def at_part_run
        lane_ref_def ref_gorm_def ref_update_def Let_def lane_run1_def lane_run2_def kept_lane_def site_lane_def
        site_plain_def site_start_def unclashing_def lane_assign_def lane_columns_def)
  then show ?thesis
    by (simp add: updateLanes_change_def rename_input_def bind_io_run map_err_io_run toLaneDomain_def
        kept_lane_def site_lane_def Let_def)
qed

lemma lane_run_create:
  "\<exists>s'. updateLanes_create site_env (laneRepo_of site_lanes) site_device_svc ''t1'' ''p1'' create_input lane_run2 =
     (Inr (), s')"
proof -
  let ?s3 = "lane_run2\<lparr>st_ids := 1\<rparr>"
  let ?new = "\<lparr>ln_ID = ''u'', ln_TenantID = ''t1'', ln_ParkingLotID = ''p1'', ln_Name = ''new'',
     ln_Type = ''entry'', ln_DeviceID = None, ln_CreatedAt = 9, ln_UpdatedAt = 9\<rparr>"
  have rows2: "st_lanes lane_run2 = [kept_lane\<lparr>lnr_Name := ''gate'', lnr_UpdatedAt := 9\<rparr>]" by (simp add: lane_run2_def)
  obtain s4 where create: "lnp_Create (laneRepo_of site_lanes) ?new ?s3 = (Inr (), s4)"
    using site_lane_ops(3) [of ?s3 ?new]
    by (simp add: rows2 lane_clash_def toLaneEntity_def kept_lane_def site_lane_def)
  have exists: "lnp_ExistsByName (laneRepo_of site_lanes) ''p1'' ''new'' lane_run2 = (Inr False, lane_run2)"
    by (simp add: lane_db.ExistsByName_run [OF site_lanes_db] lane_run2_def kept_lane_def site_lane_def)
  have "uuid_New site_env lane_run2 = (''u'', ?s3)"
      "NewLane site_env ''u'' ''t1'' ''p1'' ''new'' ''entry'' ?s3 = (Inr ?new, ?s3)"
    by (simp_all add: site_env_def lane_run2_def lane_run1_def site_plain_def site_start_def NewLane_def bind_io_run
        ask_io_run UnixMilli_def)
  with exists create show ?thesis
    by (simp add: updateLanes_create_def create_input_def bind_io_run ask_io_run map_err_io_run given_def)
qed

lemma lane_request_run:
  "\<exists>resp s'. LaneGRPCServer_UpdateLanes site_lane_svc (site_ctx ''t1'') lane_request site_plain = (Inr resp, s')"
proof -
  have list: "lnp_ListByParkingLotID (laneRepo_of site_lanes) ''t1'' ''p1'' site_plain = (Inr run_lanes, site_plain)"
    by (simp add: site_lane_ops site_plain_def site_lane_def lane_scope_def kept_lane_def)
  have inputs: "map lane_input (pun_Lanes lane_request) = [rename_input, create_input]"
      "pun_ParkingLotId lane_request = ''p1''" "request_ids [rename_input, create_input] = [''l2'']"
    by (simp_all add: lane_request_def lane_input_def rename_input_def create_input_def request_ids_def given_def)
  obtain s4 where create: "updateLanes_create site_env (laneRepo_of site_lanes) site_device_svc ''t1'' ''p1''
      create_input lane_run2 = (Inr (), s4)" using lane_run_create by blast
  have "updateLanes_apply site_env (laneRepo_of site_lanes) site_device_svc ''t1'' ''p1'' (lane_map run_lanes)
      [rename_input, create_input] lane_run1 = (Inr (), s4)"
    using lane_run_change create unfolding run_lane_map
    by (simp add: rename_input_def [THEN arg_cong, of lni_ID] create_input_def [THEN arg_cong, of lni_ID]
        given_def bind_io_run del: device_server_fields)
  moreover obtain ys where "lnp_ListByParkingLotID (laneRepo_of site_lanes) ''t1'' ''p1'' s4 = (Inr ys, s4)"
    using site_lane_ops(1) by blast
  ultimately show ?thesis
    by (simp add: LaneGRPCServer_UpdateLanes_def in_tenant_run reject_if_def inputs list lane_run_delete
        site_parking.lane_svc_fields laneService_UpdateLanes_def grpc_reply_run bind_io_run
        del: device_server_fields updateLanes_apply.simps)
qed

lemma update_lanes_refines_witness:
  "\<exists>s'. mset (map (lane_view [''l2'']) (lot_lanes (''t1'', ''p1'') (st_lanes s'))) =
     {#(Some ''l2'', ''gate'', ''exit''), (None, ''new'', ''entry'')#} \<and>
     s' = snd (LaneGRPCServer_UpdateLanes site_lane_svc (site_ctx ''t1'') lane_request site_plain)"
proof -
  obtain resp s' where run: "LaneGRPCServer_UpdateLanes site_lane_svc (site_ctx ''t1'') lane_request site_plain =
      (Inr resp, s')" using lane_request_run by blast
  have ok: "lanes_ok st_lanes site_plain"
    by (simp add: site_plain_def table_intact_def unclashing_def site_lane_def lane_clash_def)
  have ids: "request_ids (map lane_input (pun_Lanes lane_request)) = [''l2'']"
    by (simp add: request_ids_def given_def lane_request_def lane_input_def)
  have types: "lane_types (lot_lanes (''t1'', ''p1'') (st_lanes site_plain)) ''l2'' = Some ''exit''"
    by (simp add: lane_types_def lot_lanes_def site_plain_def site_lane_def lane_scope_def)
  have "distinct (request_ids (map lane_input (pun_Lanes lane_request)))" by (simp add: ids)
  from update_lanes_refines [OF site_parking ok refl this refl run] show ?thesis
    unfolding ids
    by (intro exI [of _ s'] conjI, unfold run)
      (simp_all add: types requested_lane_def given_def lane_request_def lane_input_def)
qed

end
