(* ===== verification/Lane_Config.thy ===== *)
theory Lane_Config
  imports Lane_Runs
begin

text \<open>
  What \<open>GetLaneConfig\<close> shows: the lanes of the lot with their devices, and the devices that can
  still be bound to one of them.
\<close>

definition tenant_devices :: "string \<Rightarrow> device_row list \<Rightarrow> device_row list" where
  "tenant_devices t xs = filter (\<lambda>r. dvr_TenantID r = t) xs"

text \<open>What a lane shows of the device it refers to: nothing when the tenant has no such device.\<close>

definition device_shown :: "(string \<times> string \<Rightarrow> device option) \<Rightarrow> string \<Rightarrow> lane_row \<Rightarrow> LaneDeviceInfo option" where
  "device_shown look t r =
     (case lnr_DeviceID r of None \<Rightarrow> None | Some did \<Rightarrow>
        map_option (\<lambda>d. \<lparr>ldi_ID = dv_ID d, ldi_Name = dv_Name d, ldi_Status = dv_Status d,
                         ldi_LastHeartbeat = dv_LastHeartbeat d\<rparr>) (look (t, did)))"

text \<open>The devices to choose from: those of the tenant that are not disabled and on no lane of the lot.\<close>

definition free_devices :: "string \<Rightarrow> lane_row list \<Rightarrow> device_row list \<Rightarrow> string set" where
  "free_devices t lanes xs =
     dvr_ID ` set (filter (\<lambda>r. dvr_Status r \<noteq> ''disabled'' \<and> Some (dvr_ID r) \<notin> lnr_DeviceID ` set lanes)
       (tenant_devices t xs))"

lemma set_map_filter: "set (List.map_filter f xs) = {y. Some y \<in> f ` set xs}"
  by (induction xs) (auto simp: List.map_filter_simps split: option.splits)

lemma map_of_unique:
  "\<forall>x \<in> set xs. f x = f d \<longrightarrow> x = d \<Longrightarrow> d \<in> set xs \<Longrightarrow> map_of (map (\<lambda>x. (f x, x)) xs) (f d) = Some d"
  by (induction xs) auto

context device_db
begin

lemma device_ids_unique:
  "devices_ok rows s \<Longrightarrow> r \<in> set (rows s) \<Longrightarrow> r' \<in> set (rows s) \<Longrightarrow> dvr_ID r = dvr_ID r' \<Longrightarrow> r = r'"
  using unclashing_both [of device_clash "rows s" r r'] by (simp add: table_intact_def device_clash_def)

lemma device_at_member:
  assumes "devices_ok rows s"
  shows "device_at rows s (t, did) = Some d \<longleftrightarrow>
           (\<exists>r \<in> set (tenant_devices t (rows s)). dvr_ID r = did \<and> d = toDomainDevice r)"
proof
  assume "device_at rows s (t, did) = Some d"
  then show "\<exists>r \<in> set (tenant_devices t (rows s)). dvr_ID r = did \<and> d = toDomainDevice r"
    using devices.find_row_Some [of s "(t, did)"]
    by (auto simp: entity_at_def device_key_def tenant_devices_def)
next
  assume "\<exists>r \<in> set (tenant_devices t (rows s)). dvr_ID r = did \<and> d = toDomainDevice r"
  then obtain r where r: "r \<in> set (rows s)" "device_key r = (t, did)" "d = toDomainDevice r"
    by (auto simp: tenant_devices_def device_key_def)
  then obtain r' where r': "row_at rows device_key s (t, did) = Some r'"
    using devices.find_row_None [of s "(t, did)"] by (cases "row_at rows device_key s (t, did)") auto
  then have "r' = r"
    using devices.find_row_Some [OF r'] r device_ids_unique [OF assms, of r' r] by (auto simp: device_key_def)
  then show "device_at rows s (t, did) = Some d" using r' r(3) by (simp add: entity_at_def)
qed

lemma device_list_all:
  assumes "length (tenant_devices t (rows s)) \<le> 100" and "t \<noteq> []"
  obtains xs where "mset xs = mset (tenant_devices t (rows s))"
    and "\<exists>resp. dlr_Devices resp = map toDomainDevice xs \<and>
       dvs_List (device_server env db tx)
         \<lparr>ldr_TenantID = t, ldr_Status = [], ldr_ParkingLotID = [], ldr_Keyword = [], ldr_Page = 1,
          ldr_PageSize = 200\<rparr> s = (Inr resp, s)"
proof -
  let ?q = "Where ''tenant_id = ?'' [SqlStr t] Model"
  have "filter (matches (device_holds like) ?q) (rows s) = tenant_devices t (rows s)"
    unfolding tenant_devices_def by (rule filter_cong) (simp_all add: matches_def query_simps)
  then obtain xs where xs: "mset xs = mset (tenant_devices t (rows s))"
      "count_and_page db ?q 1 100 s = (Inr (xs, int (length (tenant_devices t (rows s)))), s)"
    using first_page_all [of ?q s 100] assms by auto
  have "device_query \<lparr>df_TenantID = t, df_Status = [], df_ParkingLotID = [], df_Keyword = []\<rparr> = ?q"
    using assms(2) by (simp add: device_query_def Where_if_def Let_def)
  with xs(2) have "dvs_List (device_server env db tx)
         \<lparr>ldr_TenantID = t, ldr_Status = [], ldr_ParkingLotID = [], ldr_Keyword = [], ldr_Page = 1,
          ldr_PageSize = 200\<rparr> s =
      (Inr \<lparr>dlr_Devices = map toDomainDevice xs, dlr_Total = int (length (tenant_devices t (rows s))),
        dlr_Page = 1, dlr_PageSize = 100,
        dlr_TotalPages = total_pages (int (length (tenant_devices t (rows s)))) 100\<rparr>, s)"
    by (simp add: deviceService_List_def device_store_defs bind_io_run normal_page_def normal_pageSize_def)
  then show ?thesis using that [OF xs(1)] by auto
qed

end

lemma shown_lane:
  assumes "\<forall>d \<in> set ds. \<forall>d' \<in> set ds. dv_ID d = dv_ID d' \<longrightarrow> d = d'"
    and "\<And>did d. look (t, did) = Some d \<longleftrightarrow> d \<in> set ds \<and> dv_ID d = did"
  shows "lane_with_device ds (toLaneDomain r) = \<lparr>lwd_Lane = toLaneDomain r, lwd_Device = device_shown look t r\<rparr>"
proof -
  have "map_of (rev (map (\<lambda>d. (dv_ID d, d)) ds)) did = look (t, did)" for did
  proof (cases "look (t, did)")
    case (Some d)
    then have d: "d \<in> set ds" "dv_ID d = did" using assms(2) by simp_all
    have "map_of (map (\<lambda>x. (dv_ID x, x)) (rev ds)) (dv_ID d) = Some d"
      by (rule map_of_unique) (use assms(1) d(1) in auto)
    then show ?thesis using Some d(2) by (simp add: rev_map)
  next
    case None
    have "dv_ID d \<noteq> did" if "d \<in> set ds" for d using assms(2) [of did d] None that by simp
    then have "did \<notin> dv_ID ` set ds" by auto
    then have "map_of (rev (map (\<lambda>d. (dv_ID d, d)) ds)) did = None" by (simp add: map_of_eq_None_iff image_image)
    then show ?thesis using None by simp
  qed
  then show ?thesis
    by (simp add: lane_with_device_def device_shown_def toLaneDomain_def Let_def split: option.split)
qed

text \<open>The answer, when the two lists that it is made of succeed.\<close>

lemma get_lane_config_run:
  assumes "parking_site like db rows set_rows now dup ddb drows dset dnow ddup tx env order"
    and "TenantID ctx = t" and "t \<noteq> []" and "p \<noteq> []"
    and "lnp_ListByParkingLotID (laneRepo_of db) t p s = (Inr ls, s)"
    and "dvs_List (device_server env ddb tx)
         \<lparr>ldr_TenantID = t, ldr_Status = [], ldr_ParkingLotID = [], ldr_Keyword = [], ldr_Page = 1,
          ldr_PageSize = 200\<rparr> s = (Inr dresp, s)"
  shows "LaneGRPCServer_GetLaneConfig (lane_server env order db (device_server env ddb tx)) ctx p s =
    (Inr \<lparr>pgl_Lanes = map (\<lambda>l. toProtoLane (lwd_Lane l) (lwd_Device l)) (map (lane_with_device (dlr_Devices dresp)) ls),
       pgl_AvailableDevices = map (\<lambda>d. \<lparr>pdo_DeviceId = avd_ID d, pdo_Name = avd_Name d, pdo_Status = avd_Status d\<rparr>)
         (available_devices ls (dlr_Devices dresp))\<rparr>, s)"
proof -
  have "laneService_GetLaneConfig (laneRepo_of db) (device_server env ddb tx) t p s =
      (Inr \<lparr>lcf_Lanes = map (lane_with_device (dlr_Devices dresp)) ls,
        lcf_AvailableDevices = available_devices ls (dlr_Devices dresp)\<rparr>, s)"
    unfolding laneService_GetLaneConfig_def bind_io_run assms(5)
    by (simp add: try_io_run assms(6) Let_def del: device_server_fields)
  then show ?thesis using assms(2-4)
    by (simp add: LaneGRPCServer_GetLaneConfig_def in_tenant_run reject_if_def grpc_reply_run
        parking_site.lane_svc_fields [OF assms(1)] del: device_server_fields)
qed

text \<open>
  C40: For a tenant with at most 100 devices, \<open>GetLaneConfig\<close> answers with the lanes of the lot,
  oldest first, each with what the tenant's device table says of its device, and offers exactly
  the tenant's devices that are not disabled and that no lane of this lot refers to; it changes
  nothing. (The code asks for 200 devices, the list gives it 100 at most.) So a device that is
  bound to another lot of the tenant, or that a lane of another lot refers to, is offered too,
  although the comments of \<open>lane_service.go\<close> call the available devices unbound: the code looks at
  the lanes of the one lot and never at the device's own binding.
\<close>

theorem lane_config_shown:
  assumes "parking_site like db rows set_rows now dup ddb drows dset dnow ddup tx env order"
    and "devices_ok drows s" and "TenantID ctx = t" and "t \<noteq> []" and "p \<noteq> []"
    and "length (tenant_devices t (drows s)) \<le> 100"
  shows "\<exists>ls resp. LaneGRPCServer_GetLaneConfig (lane_server env order db (device_server env ddb tx)) ctx p s = (Inr resp, s) \<and>
     mset ls = mset (lot_lanes (t, p) (rows s)) \<and> sorted (map lnr_CreatedAt ls) \<and>
     pgl_Lanes resp = map (\<lambda>r. toProtoLane (toLaneDomain r) (device_shown (device_at drows s) t r)) ls \<and>
     set (map pdo_DeviceId (pgl_AvailableDevices resp)) = free_devices t (lot_lanes (t, p) (rows s)) (drows s)"
proof -
  have lane: "lane_db db rows set_rows now dup" and dev: "device_tx like ddb drows dset dnow ddup tx"
    using assms(1) by (simp_all add: parking_site_def)
  then have dev: "device_db like ddb drows dset dnow ddup" by (simp add: device_tx_def)
  obtain ls where ls: "mset ls = mset (lot_lanes (t, p) (rows s))" "sorted (map lnr_CreatedAt ls)"
      "lnp_ListByParkingLotID (laneRepo_of db) t p s = (Inr (map toLaneDomain ls), s)"
    using lane_db.ListByParkingLot_run [OF lane, of t p s] unfolding lot_lanes_def by blast
  obtain xs dresp where xs: "mset xs = mset (tenant_devices t (drows s))"
      "dlr_Devices dresp = map toDomainDevice xs"
      "dvs_List (device_server env ddb tx)
         \<lparr>ldr_TenantID = t, ldr_Status = [], ldr_ParkingLotID = [], ldr_Keyword = [], ldr_Page = 1,
          ldr_PageSize = 200\<rparr> s = (Inr dresp, s)"
    by (rule device_db.device_list_all [OF dev assms(6,4)]) auto
  have set_xs: "set xs = set (tenant_devices t (drows s))" by (rule mset_eq_setD [OF xs(1)])
  have set_ls: "set ls = set (lot_lanes (t, p) (rows s))" by (rule mset_eq_setD [OF ls(1)])
  let ?ds = "map toDomainDevice xs"
  have id: "dv_ID (toDomainDevice r) = dvr_ID r" "dv_Status (toDomainDevice r) = dvr_Status r" for r
    by (simp_all add: toDomainDevice_def)
  have "\<forall>d \<in> set ?ds. \<forall>d' \<in> set ?ds. dv_ID d = dv_ID d' \<longrightarrow> d = d'"
    using device_db.device_ids_unique [OF dev assms(2)] by (auto simp: set_xs id tenant_devices_def)
  moreover have "device_at drows s (t, did) = Some d \<longleftrightarrow> d \<in> set ?ds \<and> dv_ID d = did" for did d
    unfolding device_db.device_at_member [OF dev assms(2)] by (auto simp: set_xs id)
  ultimately have shown: "lane_with_device ?ds (toLaneDomain r) =
      \<lparr>lwd_Lane = toLaneDomain r, lwd_Device = device_shown (device_at drows s) t r\<rparr>" for r
    by (rule shown_lane)
  note run = get_lane_config_run [OF assms(1,3-5) ls(3) xs(3), unfolded xs(2)]
  have bound: "set (List.map_filter ln_DeviceID (map toLaneDomain ls)) = {did. Some did \<in> lnr_DeviceID ` set ls}"
    unfolding set_map_filter by (simp add: image_image toLaneDomain_def)
  have img: "{x \<in> toDomainDevice ` A. P x} = toDomainDevice ` {r \<in> A. P (toDomainDevice r)}" for A P by auto
  have "avd_ID ` set (available_devices (map toLaneDomain ls) ?ds) = free_devices t (lot_lanes (t, p) (rows s)) (drows s)"
    unfolding available_devices_def Let_def free_devices_def
    by (simp add: bound set_ls set_xs img image_image id conj_commute)
  then show ?thesis
    unfolding run using ls(1,2) by (intro exI [of _ ls]) (simp add: shown image_image comp_def)
qed

lemma lane_config_witness:
  "\<exists>ls resp. LaneGRPCServer_GetLaneConfig site_lane_svc (site_ctx ''t1'') ''p1'' site_start = (Inr resp, site_start) \<and>
     mset ls = mset (st_lanes site_start) \<and>
     set (map pdo_DeviceId (pgl_AvailableDevices resp)) = {''d2''}"
proof -
  have rows: "st_devices site_start = [site_device ''d1'' ''active'' (Some ''p1''), site_device ''d2'' ''pending'' None]"
    "st_lanes site_start = [site_lane ''l1'' ''in'' ''entry'' (Some ''d1''), site_lane ''l2'' ''out'' ''exit'' None]"
    by (simp_all add: site_start_def)
  have lanes: "lot_lanes (''t1'', ''p1'') (st_lanes site_start) = st_lanes site_start"
    by (simp add: rows lot_lanes_def site_lane_def lane_scope_def)
  have ok: "devices_ok st_devices site_start" using site_start_facts(4) by (simp add: device_table_valid_def)
  have "free_devices ''t1'' (st_lanes site_start) (st_devices site_start) = {''d2''}"
    unfolding rows by (simp add: free_devices_def tenant_devices_def site_device_def site_lane_def)
  moreover have "length (tenant_devices ''t1'' (st_devices site_start)) \<le> 100"
    by (simp add: rows tenant_devices_def)
  ultimately show ?thesis
    using lane_config_shown [OF site_parking ok site_ctx_id, of "''t1''" "''p1''"] unfolding lanes by auto
qed

end
