(* ===== verification/Logging.thy ===== *)
theory Logging
  imports Grpc_Util
begin

text \<open>
  Structured logging (\<open>pkg/slogutil\<close>): the logger made from the configuration, the handler that
  adds the trace and span of the request to every record, and the logger a request carries in
  its context. \<open>log/slog\<close> writes a record when its level reaches the handler's; what it writes
  is kept here as the record and the attributes the handler was given, one line per record.
\<close>

section \<open>Text\<close>

text \<open>
  The white space of \<open>strings.TrimSpace\<close>, as UTF-8: the six ASCII characters and the Unicode
  spaces. \<open>strings.ToLower\<close> is written for comparison with ASCII words: the two runes outside
  ASCII with an ASCII lower case (U+0130 and the Kelvin sign) become it, the other runes stay
  outside ASCII whatever their case.
\<close>

definition white_space :: "string list" where
  "white_space = map (\<lambda>b. utf8 [b]) [9, 10, 11, 12, 13, 32] @ [utf8 [0xC2, 0x85], utf8 [0xC2, 0xA0]] @
     [utf8 [0xE1, 0x9A, 0x80]] @ map (\<lambda>b. utf8 [0xE2, 0x80, b]) ([0x80..<0x8B] @ [0xA8, 0xA9, 0xAF]) @
     [utf8 [0xE2, 0x81, 0x9F], utf8 [0xE3, 0x80, 0x80]]"

definition cut_prefix :: "string list \<Rightarrow> string \<Rightarrow> string option" where
  "cut_prefix ps s =
     map_option (\<lambda>p. drop (length p) s) (List.find (\<lambda>p. p \<noteq> [] \<and> take (length p) s = p) ps)"

lemma cut_prefix_shorter: "cut_prefix ps s = Some s' \<Longrightarrow> length s' < length s"
  by (cases s) (auto simp: cut_prefix_def find_Some_iff)

function trim_left :: "string list \<Rightarrow> string \<Rightarrow> string" where
  "trim_left ps s = (case cut_prefix ps s of None \<Rightarrow> s | Some s' \<Rightarrow> trim_left ps s')"
  by pat_completeness auto
termination
  by (relation "measure (\<lambda>(ps, s). length s)") (auto dest: cut_prefix_shorter)

declare trim_left.simps [simp del]

definition strings_TrimSpace :: "string \<Rightarrow> string" where
  "strings_TrimSpace s = rev (trim_left (map rev white_space) (rev (trim_left white_space s)))"

definition lower_ascii :: "char \<Rightarrow> char" where
  "lower_ascii c = (if 65 \<le> (of_char c :: nat) \<and> (of_char c :: nat) \<le> 90 then char_of (of_char c + (32::nat)) else c)"

fun strings_ToLower :: "string \<Rightarrow> string" where
  "strings_ToLower [] = []"
| "strings_ToLower (c # cs) =
     (if take 2 (c # cs) = utf8 [0xC4, 0xB0] then CHR ''i'' # strings_ToLower (drop 1 cs)
      else if take 3 (c # cs) = utf8 [0xE2, 0x84, 0xAA] then CHR ''k'' # strings_ToLower (drop 2 cs)
      else lower_ascii c # strings_ToLower cs)"

section \<open>Levels and records\<close>

datatype slog_level = LevelDebug | LevelInfo | LevelWarn | LevelError

fun level_value :: "slog_level \<Rightarrow> int" where
  "level_value LevelDebug = - 4"
| "level_value LevelInfo = 0"
| "level_value LevelWarn = 4"
| "level_value LevelError = 8"

instantiation slog_level :: linorder
begin

definition less_eq_slog_level :: "slog_level \<Rightarrow> slog_level \<Rightarrow> bool" where
  "less_eq_slog_level a b = (level_value a \<le> level_value b)"

definition less_slog_level :: "slog_level \<Rightarrow> slog_level \<Rightarrow> bool" where
  "less_slog_level a b = (level_value a < level_value b)"

instance
proof
  fix a b :: slog_level
  show "a \<le> b \<Longrightarrow> b \<le> a \<Longrightarrow> a = b" by (cases a; cases b) (simp_all add: less_eq_slog_level_def)
qed (auto simp: less_eq_slog_level_def less_slog_level_def)

end

datatype attr_value = AString string | ADuration int | AAny string

type_synonym attr = "string \<times> attr_value"

record slog_record =
  sr_Level :: slog_level
  sr_Message :: string
  sr_Attrs :: "attr list"

text \<open>A valid span context; an invalid one is \<open>None\<close> where the code asks \<open>IsValid\<close>.\<close>

record span_context =
  TraceID :: string
  SpanID :: string

text \<open>
  The handlers of \<open>log/slog\<close>: text or JSON, the least level written, and the attributes and
  groups opened so far.
\<close>

datatype handler_scope = ScopeAttrs "attr list" | ScopeGroup string

record slog_handler =
  sh_JSON :: bool
  sh_Level :: slog_level
  sh_scopes :: "handler_scope list"

type_synonym log_line = "handler_scope list \<times> slog_record"

definition slog_Enabled :: "slog_handler \<Rightarrow> slog_level \<Rightarrow> bool" where
  "slog_Enabled h level = (sh_Level h \<le> level)"

definition slog_Handle :: "slog_handler \<Rightarrow> slog_record \<Rightarrow> log_line list" where
  "slog_Handle h r = [(sh_scopes h, r)]"

definition slog_WithAttrs :: "slog_handler \<Rightarrow> attr list \<Rightarrow> slog_handler" where
  "slog_WithAttrs h as = h\<lparr>sh_scopes := sh_scopes h @ [ScopeAttrs as]\<rparr>"

definition slog_WithGroup :: "slog_handler \<Rightarrow> string \<Rightarrow> slog_handler" where
  "slog_WithGroup h name = h\<lparr>sh_scopes := sh_scopes h @ [ScopeGroup name]\<rparr>"

section \<open>The trace handler\<close>

datatype TraceContextHandler = TraceContextHandler (tch_next: slog_handler)

definition NewTraceContextHandler :: "slog_handler \<Rightarrow> TraceContextHandler" where
  "NewTraceContextHandler nxt = TraceContextHandler nxt"

definition TraceContextHandler_Enabled :: "TraceContextHandler \<Rightarrow> slog_level \<Rightarrow> bool" where
  "TraceContextHandler_Enabled h level = slog_Enabled (tch_next h) level"

definition TraceContextHandler_Handle ::
  "TraceContextHandler \<Rightarrow> span_context option \<Rightarrow> slog_record \<Rightarrow> log_line list" where
  "TraceContextHandler_Handle h sc r =
     slog_Handle (tch_next h)
       (case sc of
          None \<Rightarrow> r
        | Some sp \<Rightarrow> r\<lparr>sr_Attrs := sr_Attrs r @
            [(''trace_id'', AString (TraceID sp)), (''span_id'', AString (SpanID sp))]\<rparr>)"

definition TraceContextHandler_WithAttrs :: "TraceContextHandler \<Rightarrow> attr list \<Rightarrow> TraceContextHandler" where
  "TraceContextHandler_WithAttrs h as = TraceContextHandler (slog_WithAttrs (tch_next h) as)"

definition TraceContextHandler_WithGroup :: "TraceContextHandler \<Rightarrow> string \<Rightarrow> TraceContextHandler" where
  "TraceContextHandler_WithGroup h name = TraceContextHandler (slog_WithGroup (tch_next h) name)"

section \<open>Loggers\<close>

text \<open>
  A \<open>*slog.Logger\<close>: its handler, and whether the pointer is the one \<open>slog.Default()\<close> returns,
  which the code tests by identity. \<open>With\<close> makes a new logger.
\<close>

record slogger =
  lg_IsDefault :: bool
  lg_Handler :: TraceContextHandler

definition logger_With :: "slogger \<Rightarrow> attr list \<Rightarrow> slogger" where
  "logger_With l as =
     \<lparr>lg_IsDefault = False, lg_Handler = TraceContextHandler_WithAttrs (lg_Handler l) as\<rparr>"

definition LogAttrs ::
  "slogger \<Rightarrow> span_context option \<Rightarrow> slog_level \<Rightarrow> string \<Rightarrow> attr list \<Rightarrow> log_line list" where
  "LogAttrs l sc level msg as =
     (if TraceContextHandler_Enabled (lg_Handler l) level
      then TraceContextHandler_Handle (lg_Handler l) sc
             \<lparr>sr_Level = level, sr_Message = msg, sr_Attrs = as\<rparr>
      else [])"

text \<open>
  \<open>parseLevel\<close> and \<open>NewLogger\<close>. \<open>quote\<close> is the \<open>%q\<close> of \<open>fmt\<close>, which needs the table of
  printable runes.
\<close>

record Options =
  opt_Level :: string
  opt_Format :: string

definition parseLevel :: "(string \<Rightarrow> string) \<Rightarrow> string \<Rightarrow> go_error + slog_level" where
  "parseLevel quote v =
     (let w = strings_ToLower (strings_TrimSpace v)
      in if w \<in> {[], ''info''} then Inr LevelInfo
         else if w = ''debug'' then Inr LevelDebug
         else if w \<in> {''warn'', ''warning''} then Inr LevelWarn
         else if w = ''error'' then Inr LevelError
         else Inl (Opaque (''unsupported log level '' @ quote v)))"

definition NewLogger :: "(string \<Rightarrow> string) \<Rightarrow> Options \<Rightarrow> go_error + slogger" where
  "NewLogger quote opts =
     (case parseLevel quote (opt_Level opts) of
        Inl e \<Rightarrow> Inl e
      | Inr level \<Rightarrow>
          (let w = strings_ToLower (strings_TrimSpace (opt_Format opts));
               make = (\<lambda>json. Inr \<lparr>lg_IsDefault = False, lg_Handler = NewTraceContextHandler
                        \<lparr>sh_JSON = json, sh_Level = level, sh_scopes = []\<rparr>\<rparr>)
           in if w \<in> {[], ''text''} then make False
              else if w = ''json'' then make True
              else Inl (Opaque (''unsupported log format '' @ quote (opt_Format opts)))))"

text \<open>
  \<open>IntoContext\<close> and \<open>FromContext\<close>, on the value the context holds under the package's key.
\<close>

definition IntoContext :: "slogger option \<Rightarrow> slogger option \<Rightarrow> slogger option" where
  "IntoContext held logger = (case logger of None \<Rightarrow> held | Some l \<Rightarrow> Some l)"

definition FromContext :: "slogger \<Rightarrow> slogger option \<Rightarrow> slogger" where
  "FromContext dflt held = (case held of None \<Rightarrow> dflt | Some l \<Rightarrow> l)"

lemma logger_With_level [simp]:
  "sh_Level (tch_next (lg_Handler (logger_With l as))) = sh_Level (tch_next (lg_Handler l))"
  "\<not> lg_IsDefault (logger_With l as)"
  by (simp_all add: logger_With_def TraceContextHandler_WithAttrs_def slog_WithAttrs_def)

text \<open>
  A record is written exactly when its level reaches the logger's; it is one line, with the
  attributes of the logger around it and the trace of the request at its end.
\<close>

lemma LogAttrs_written:
  "LogAttrs l sc level msg as \<noteq> [] \<longleftrightarrow> sh_Level (tch_next (lg_Handler l)) \<le> level"
  by (simp add: LogAttrs_def TraceContextHandler_Enabled_def slog_Enabled_def
      TraceContextHandler_Handle_def slog_Handle_def)

lemma NewLogger_levels:
  fixes sc :: "span_context option"
  assumes "NewLogger quote opts = Inr l"
  shows "(LogAttrs l sc LevelError msg as \<noteq> []) \<and>
         (LogAttrs l sc LevelInfo msg as \<noteq> [] \<longleftrightarrow>
            strings_ToLower (strings_TrimSpace (opt_Level opts)) \<in> {[], ''info'', ''debug''})"
  using assms unfolding LogAttrs_written
  by (auto simp: NewLogger_def parseLevel_def Let_def NewTraceContextHandler_def less_eq_slog_level_def
      split: sum.splits if_splits)

end
