(* ===== verification/Interceptors.thy ===== *)
theory Interceptors
  imports Logging
begin

text \<open>
  The gRPC interceptors (\<open>internal/middleware\<close>): logging, the caller's identity from the request's
  metadata, and the recovery of panics; and the chain of the three that \<open>cmd/monolith/main.go\<close>
  puts before every handler.

  A handler either returns or panics with a value; \<open>Panicked v\<close> holds the text that \<open>%v\<close> gives
  of it. The world of a call is the state the handlers work on, the lines written to the log,
  the events recorded on the request's span, and the number of clock readings of the
  interceptors; \<open>clock n\<close> is what the \<open>n\<close>-th reading says.
\<close>

section \<open>Calls\<close>

type_synonym md = "string \<rightharpoonup> string list"

record rpc_ctx =
  rc_identity :: go_ctx
  rc_metadata :: "md option"
  rc_logger :: "slogger option"
  rc_span :: "span_context option"

datatype span_event = RecordError string | SetStatusError string | AddEvent string

record 's rpc_world =
  rw_state :: 's
  rw_log :: "log_line list"
  rw_span :: "span_event list"
  rw_readings :: nat

datatype 'a outcome = Returned "go_error + 'a" | Panicked string

type_synonym ('a, 's) unary_handler = "rpc_ctx \<Rightarrow> 's rpc_world \<Rightarrow> 'a outcome \<times> 's rpc_world"

text \<open>What the interceptors use of the process: the default logger, the clock and the stack.\<close>

record proc_env =
  pe_Default :: slogger
  pe_clock :: "nat \<Rightarrow> int"
  pe_Stack :: string

definition log_to :: "log_line list \<Rightarrow> 's rpc_world \<Rightarrow> 's rpc_world" where
  "log_to ls w = w\<lparr>rw_log := rw_log w @ ls\<rparr>"

definition md_Get :: "md \<Rightarrow> string \<Rightarrow> string list" where
  "md_Get m k = (case m k of None \<Rightarrow> [] | Some vs \<Rightarrow> vs)"

text \<open>\<open>time.Since\<close> saturates at the largest and smallest \<open>Duration\<close>.\<close>

definition time_Sub :: "int \<Rightarrow> int \<Rightarrow> int" where
  "time_Sub t u = max (- (2 ^ 63)) (min (2 ^ 63 - 1) (t - u))"

section \<open>The interceptors\<close>

definition UnaryLoggingInterceptor ::
  "proc_env \<Rightarrow> slogger option \<Rightarrow> string \<Rightarrow> ('a, 's) unary_handler \<Rightarrow> ('a, 's) unary_handler" where
  "UnaryLoggingInterceptor pe baseLogger full_method handler ctx w =
     (let loggerBase = (case baseLogger of None \<Rightarrow> pe_Default pe | Some l \<Rightarrow> l);
          logger = logger_With loggerBase [(''grpc_method'', AString full_method)];
          ctx = ctx\<lparr>rc_logger := IntoContext (rc_logger ctx) (Some logger)\<rparr>;
          startedAt = pe_clock pe (rw_readings w);
          w = w\<lparr>rw_readings := Suc (rw_readings w)\<rparr>;
          w = log_to (LogAttrs logger (rc_span ctx) LevelInfo ''grpc request started'' []) w
      in case handler ctx w of
           (Panicked v, w) \<Rightarrow> (Panicked v, w)
         | (Returned r, w) \<Rightarrow>
             (let code = (case r of Inl err \<Rightarrow> code_string (status_Code err) | Inr _ \<Rightarrow> code_string OK);
                  attrs = [(''grpc_code'', AString code),
                           (''duration'', ADuration (time_Sub (pe_clock pe (rw_readings w)) startedAt))];
                  w = w\<lparr>rw_readings := Suc (rw_readings w)\<rparr>
              in case r of
                   Inl err \<Rightarrow>
                     (Returned r, log_to (LogAttrs logger (rc_span ctx) LevelError ''grpc request finished''
                        (attrs @ [(''error'', AString (error_text err))])) w)
                 | Inr resp \<Rightarrow>
                     (Returned r, log_to (LogAttrs logger (rc_span ctx) LevelInfo ''grpc request finished'' attrs) w)))"

definition authWhitelist :: "string set" where
  "authWhitelist =
     {''/parkhub.identity.v1.AuthService/Login'', ''/parkhub.identity.v1.AuthService/SmsLogin'',
      ''/parkhub.identity.v1.AuthService/RefreshToken'', ''/parkhub.identity.v1.AuthService/Logout'',
      ''/parkhub.identity.v1.AuthService/GetJWKS'', ''/parkhub.sms.v1.SmsService/SendCode'',
      ''/parkhub.sms.v1.SmsService/VerifyCode'', ''/grpc.health.v1.Health/Check'',
      ''/grpc.health.v1.Health/Watch''}"

definition UnaryAuthContextInterceptor ::
  "string set \<Rightarrow> string \<Rightarrow> ('a, 's) unary_handler \<Rightarrow> ('a, 's) unary_handler" where
  "UnaryAuthContextInterceptor whitelist full_method handler ctx w =
     (if full_method \<in> whitelist then handler ctx w
      else case rc_metadata ctx of
        None \<Rightarrow> (Returned (Inl (StatusErr Unauthenticated ''missing metadata'')), w)
      | Some md \<Rightarrow>
          (let userIDs = md_Get md ''x-user-id''
           in if userIDs = [] \<or> hd userIDs = []
              then (Returned (Inl (StatusErr Unauthenticated ''missing x-user-id'')), w)
              else
                let c = WithUserID (rc_identity ctx) (hd userIDs);
                    tenantIDs = md_Get md ''x-tenant-id'';
                    c = (if tenantIDs \<noteq> [] then WithTenantID c (hd tenantIDs) else c);
                    roles = md_Get md ''x-user-role'';
                    c = (if roles \<noteq> [] then WithRole c (hd roles) else c)
                in handler (ctx\<lparr>rc_identity := c\<rparr>) w))"

definition UnaryRecoveryInterceptor ::
  "proc_env \<Rightarrow> slogger option \<Rightarrow> string \<Rightarrow> ('a, 's) unary_handler \<Rightarrow> ('a, 's) unary_handler" where
  "UnaryRecoveryInterceptor pe baseLogger full_method handler ctx w =
     (let loggerBase = (case baseLogger of None \<Rightarrow> pe_Default pe | Some l \<Rightarrow> l)
      in case handler ctx w of
           (Returned r, w) \<Rightarrow> (Returned r, w)
         | (Panicked v, w) \<Rightarrow>
             (let text = ''panic recovered: '' @ v;
                  w = w\<lparr>rw_span := rw_span w @
                        [RecordError text, SetStatusError text, AddEvent ''panic recovered'']\<rparr>;
                  logger = FromContext (pe_Default pe) (rc_logger ctx);
                  logger = (if lg_IsDefault logger then loggerBase else logger);
                  logger = logger_With logger [(''grpc_method'', AString full_method)]
              in (Returned (Inl (StatusErr Internal ''internal server error'')),
                  log_to (LogAttrs logger (rc_span ctx) LevelError ''grpc panic recovered''
                    [(''panic'', AAny v), (''grpc_code'', AString (code_string Internal)),
                     (''stack_trace'', AString (pe_Stack pe))]) w)))"

text \<open>
  \<open>grpc.ChainUnaryInterceptor\<close>: the first interceptor is the outermost. The monolith and the
  identity service chain logging, identity and recovery; the SMS service leaves identity out.
\<close>

fun chain_unary ::
  "(string \<Rightarrow> ('a, 's) unary_handler \<Rightarrow> ('a, 's) unary_handler) list \<Rightarrow>
     string \<Rightarrow> ('a, 's) unary_handler \<Rightarrow> ('a, 's) unary_handler" where
  "chain_unary [] full_method handler = handler"
| "chain_unary (i # is) full_method handler = i full_method (chain_unary is full_method handler)"

definition monolith_chain ::
  "proc_env \<Rightarrow> slogger \<Rightarrow> string \<Rightarrow> ('a, 's) unary_handler \<Rightarrow> ('a, 's) unary_handler" where
  "monolith_chain pe logger =
     chain_unary [UnaryLoggingInterceptor pe (Some logger), UnaryAuthContextInterceptor authWhitelist,
                  UnaryRecoveryInterceptor pe (Some logger)]"

definition identity_authWhitelist :: "string set" where
  "identity_authWhitelist =
     {''/parkhub.identity.v1.AuthService/Login'', ''/parkhub.identity.v1.AuthService/SmsLogin'',
      ''/parkhub.identity.v1.AuthService/RefreshToken'', ''/parkhub.identity.v1.AuthService/Logout'',
      ''/parkhub.identity.v1.AuthService/GetJWKS'', ''/grpc.health.v1.Health/Check'',
      ''/grpc.health.v1.Health/Watch''}"

definition identity_service_chain ::
  "proc_env \<Rightarrow> slogger \<Rightarrow> string \<Rightarrow> ('a, 's) unary_handler \<Rightarrow> ('a, 's) unary_handler" where
  "identity_service_chain pe logger =
     chain_unary [UnaryLoggingInterceptor pe (Some logger),
                  UnaryAuthContextInterceptor identity_authWhitelist,
                  UnaryRecoveryInterceptor pe (Some logger)]"

definition sms_service_chain ::
  "proc_env \<Rightarrow> slogger \<Rightarrow> string \<Rightarrow> ('a, 's) unary_handler \<Rightarrow> ('a, 's) unary_handler" where
  "sms_service_chain pe logger =
     chain_unary [UnaryLoggingInterceptor pe (Some logger), UnaryRecoveryInterceptor pe (Some logger)]"

text \<open>A handler of the domains: it reads the identity, works on the state and never panics.\<close>

definition rpc_handler :: "(go_ctx \<Rightarrow> ('a, 's) io) \<Rightarrow> ('a, 's) unary_handler" where
  "rpc_handler f ctx w =
     (case f (rc_identity ctx) (rw_state w) of (r, s) \<Rightarrow> (Returned r, w\<lparr>rw_state := s\<rparr>))"

text \<open>
  A call as it comes in: the metadata \<open>mo\<close> are the client's, the identity in the context is empty.
\<close>

definition incoming :: "md option \<Rightarrow> span_context option \<Rightarrow> rpc_ctx" where
  "incoming mo sc =
     \<lparr>rc_identity = context_Background, rc_metadata = mo, rc_logger = None, rc_span = sc\<rparr>"

section \<open>What the chain does\<close>

text \<open>
  The metadata names a caller when the first \<open>x-user-id\<close> is a text that is not empty.
\<close>

definition first_header :: "md option \<Rightarrow> string \<Rightarrow> string option" where
  "first_header mo k = Option.bind mo (\<lambda>m. Option.bind (m k) (\<lambda>vs. case vs of [] \<Rightarrow> None | v # _ \<Rightarrow> Some v))"

definition names_caller :: "md option \<Rightarrow> bool" where
  "names_caller mo = (case first_header mo ''x-user-id'' of None \<Rightarrow> False | Some u \<Rightarrow> u \<noteq> [])"

definition claimed :: "md option \<Rightarrow> go_ctx \<Rightarrow> go_ctx" where
  "claimed mo c =
     \<lparr>ctx_user_id = first_header mo ''x-user-id'',
      ctx_tenant_id = (case first_header mo ''x-tenant-id'' of None \<Rightarrow> ctx_tenant_id c | Some t \<Rightarrow> Some t),
      ctx_user_role = (case first_header mo ''x-user-role'' of None \<Rightarrow> ctx_user_role c | Some r \<Rightarrow> Some r)\<rparr>"

lemma first_header_Get:
  "first_header (Some m) k = (if md_Get m k = [] then None else Some (hd (md_Get m k)))"
  by (auto simp: first_header_def md_Get_def split: option.split list.split)

lemma first_header_None [simp]: "first_header None k = None"
  by (simp add: first_header_def)

lemma auth_run:
  "UnaryAuthContextInterceptor wl full_method handler ctx w =
     (if full_method \<in> wl then handler ctx w
      else if names_caller (rc_metadata ctx)
      then handler (ctx\<lparr>rc_identity := claimed (rc_metadata ctx) (rc_identity ctx)\<rparr>) w
      else (Returned (Inl (StatusErr Unauthenticated
             (if rc_metadata ctx = None then ''missing metadata'' else ''missing x-user-id''))), w))"
proof (cases "rc_metadata ctx")
  case (Some m)
  then show ?thesis
    by (cases "rc_identity ctx") (simp add: UnaryAuthContextInterceptor_def Some names_caller_def first_header_Get Let_def claimed_def
        WithUserID_def WithTenantID_def WithRole_def)
qed (simp add: UnaryAuthContextInterceptor_def names_caller_def)

text \<open>
  What a call writes to the log. A logger shows lines at level info or not; errors are always
  shown. Every line of the logging interceptor carries the method of the call.
\<close>

definition shows_info :: "slogger \<Rightarrow> bool" where
  "shows_info logger \<longleftrightarrow> sh_Level (tch_next (lg_Handler logger)) \<le> LevelInfo"

definition call_line :: "slogger \<Rightarrow> string \<Rightarrow> slog_level \<Rightarrow> string \<Rightarrow> log_line \<Rightarrow> bool" where
  "call_line logger full_method level msg l \<longleftrightarrow>
     fst l = sh_scopes (tch_next (lg_Handler logger)) @ [ScopeAttrs [(''grpc_method'', AString full_method)]] \<and>
     sr_Level (snd l) = level \<and> sr_Message (snd l) = msg"

definition started_log :: "slogger \<Rightarrow> string \<Rightarrow> log_line list \<Rightarrow> bool" where
  "started_log logger full_method ls \<longleftrightarrow>
     (if shows_info logger
      then \<exists>l. ls = [l] \<and> call_line logger full_method LevelInfo ''grpc request started'' l
      else ls = [])"

definition finished_log :: "slogger \<Rightarrow> string \<Rightarrow> go_error + 'a \<Rightarrow> log_line list \<Rightarrow> bool" where
  "finished_log logger full_method r ls \<longleftrightarrow>
     (case r of
        Inl e \<Rightarrow> \<exists>l d. ls = [l] \<and> call_line logger full_method LevelError ''grpc request finished'' l \<and>
          map_of (sr_Attrs (snd l)) ''grpc_code'' = Some (AString (code_string (status_Code e))) \<and>
          map_of (sr_Attrs (snd l)) ''duration'' = Some (ADuration d) \<and>
          map_of (sr_Attrs (snd l)) ''error'' = Some (AString (error_text e))
      | Inr _ \<Rightarrow> if shows_info logger
          then \<exists>l d. ls = [l] \<and> call_line logger full_method LevelInfo ''grpc request finished'' l \<and>
            map_of (sr_Attrs (snd l)) ''grpc_code'' = Some (AString ''OK'') \<and>
            map_of (sr_Attrs (snd l)) ''duration'' = Some (ADuration d) \<and>
            map_of (sr_Attrs (snd l)) ''error'' = None
          else ls = [])"

definition panic_log :: "'a outcome \<Rightarrow> log_line list \<Rightarrow> bool" where
  "panic_log out ls \<longleftrightarrow>
     (case out of
        Returned _ \<Rightarrow> ls = []
      | Panicked v \<Rightarrow> \<exists>l. ls = [l] \<and> sr_Level (snd l) = LevelError \<and>
          sr_Message (snd l) = ''grpc panic recovered'' \<and>
          map_of (sr_Attrs (snd l)) ''panic'' = Some (AAny v))"

lemma level_error_top [simp]: "l \<le> LevelError"
  by (cases l) (simp_all add: less_eq_slog_level_def)

lemma LogAttrs_error:
  "\<exists>l. LogAttrs logger sc LevelError msg as = [l] \<and> fst l = sh_scopes (tch_next (lg_Handler logger)) \<and>
       sr_Level (snd l) = LevelError \<and> sr_Message (snd l) = msg \<and> (\<exists>more. sr_Attrs (snd l) = as @ more)"
  by (simp add: LogAttrs_def TraceContextHandler_Enabled_def slog_Enabled_def TraceContextHandler_Handle_def
      slog_Handle_def split: option.split)

lemma LogAttrs_info:
  "if shows_info logger
   then \<exists>l. LogAttrs logger sc LevelInfo msg as = [l] \<and> fst l = sh_scopes (tch_next (lg_Handler logger)) \<and>
          sr_Level (snd l) = LevelInfo \<and> sr_Message (snd l) = msg \<and>
          sr_Attrs (snd l) = as @ (case sc of None \<Rightarrow> [] | Some sp \<Rightarrow>
            [(''trace_id'', AString (TraceID sp)), (''span_id'', AString (SpanID sp))])
   else LogAttrs logger sc LevelInfo msg as = []"
  by (simp add: shows_info_def LogAttrs_def TraceContextHandler_Enabled_def slog_Enabled_def
      TraceContextHandler_Handle_def slog_Handle_def split: option.split)

lemma logger_With_shows [simp]: "shows_info (logger_With logger as) = shows_info logger"
  by (simp add: shows_info_def logger_With_def TraceContextHandler_WithAttrs_def slog_WithAttrs_def)

lemma logger_With_scopes [simp]:
  "sh_scopes (tch_next (lg_Handler (logger_With logger as))) =
     sh_scopes (tch_next (lg_Handler logger)) @ [ScopeAttrs as]"
  by (simp add: logger_With_def TraceContextHandler_WithAttrs_def slog_WithAttrs_def)

lemma started_written:
  "started_log logger full_method
     (LogAttrs (logger_With logger [(''grpc_method'', AString full_method)]) sc LevelInfo ''grpc request started'' [])"
  using LogAttrs_info [of "logger_With logger [(''grpc_method'', AString full_method)]" sc
      "''grpc request started''" "[]"]
  by (auto simp: started_log_def call_line_def)

lemma failed_written:
  "finished_log logger full_method (Inl e)
     (LogAttrs (logger_With logger [(''grpc_method'', AString full_method)]) sc LevelError ''grpc request finished''
        [(''grpc_code'', AString (code_string (status_Code e))), (''duration'', ADuration d),
         (''error'', AString (error_text e))])"
  using LogAttrs_error [of "logger_With logger [(''grpc_method'', AString full_method)]" sc
      "''grpc request finished''" "[(''grpc_code'', AString (code_string (status_Code e))),
        (''duration'', ADuration d), (''error'', AString (error_text e))]"]
  by (auto simp: finished_log_def call_line_def)

lemma answered_written:
  "finished_log logger full_method (Inr x)
     (LogAttrs (logger_With logger [(''grpc_method'', AString full_method)]) sc LevelInfo ''grpc request finished''
        [(''grpc_code'', AString (code_string OK)), (''duration'', ADuration d)])"
  using LogAttrs_info [of "logger_With logger [(''grpc_method'', AString full_method)]" sc
      "''grpc request finished''" "[(''grpc_code'', AString (code_string OK)), (''duration'', ADuration d)]"]
  by (auto simp: finished_log_def call_line_def split: option.split)

lemma recovery_returns:
  obtains r w' ls where "UnaryRecoveryInterceptor pe base full_method handler ctx w = (Returned r, w')"
    "rw_state w' = rw_state (snd (handler ctx w))"
    "r = (case fst (handler ctx w) of Returned r \<Rightarrow> r
          | Panicked v \<Rightarrow> Inl (StatusErr Internal ''internal server error''))"
    "rw_log w' = rw_log (snd (handler ctx w)) @ ls" "panic_log (fst (handler ctx w)) ls"
proof (cases "handler ctx w")
  case (Pair out w1)
  show thesis
  proof (cases out)
    case (Returned r)
    then show thesis
      using Pair by (intro that [of r w1 "[]"]) (simp_all add: UnaryRecoveryInterceptor_def panic_log_def)
  next
    case (Panicked v)
    define l where "l = (let lg = FromContext (pe_Default pe) (rc_logger ctx);
        lg = (if lg_IsDefault lg then (case base of None \<Rightarrow> pe_Default pe | Some l \<Rightarrow> l) else lg)
      in LogAttrs (logger_With lg [(''grpc_method'', AString full_method)]) (rc_span ctx) LevelError
        ''grpc panic recovered'' [(''panic'', AAny v), (''grpc_code'', AString (code_string Internal)),
          (''stack_trace'', AString (pe_Stack pe))])"
    have "panic_log out l"
      unfolding l_def Panicked Let_def panic_log_def
      using LogAttrs_error by (fastforce simp del: logger_With_scopes)
    with Pair Panicked show thesis
      by (intro that [of "Inl (StatusErr Internal ''internal server error'')"
            "snd (UnaryRecoveryInterceptor pe base full_method handler ctx w)" l])
        (simp_all add: UnaryRecoveryInterceptor_def Let_def log_to_def l_def)
  qed
qed

text \<open>What an inner handler that returns makes of a call below the logging interceptor.\<close>

lemma logging_returns:
  assumes "\<And>w. \<exists>r w'. handler (ctx\<lparr>rc_logger := Some l\<rparr>) w = (Returned r, w')"
    and "l = logger_With logger [(''grpc_method'', AString full_method)]"
  obtains w0 r w1 w' start finish where "rw_state w0 = rw_state w" "rw_span w0 = rw_span w"
    "handler (ctx\<lparr>rc_logger := Some l\<rparr>) w0 = (Returned r, w1)"
    "UnaryLoggingInterceptor pe (Some logger) full_method handler ctx w = (Returned r, w')"
    "rw_state w' = rw_state w1" "rw_span w' = rw_span w1"
    "rw_log w0 = rw_log w @ start" "started_log logger full_method start"
    "rw_log w' = rw_log w1 @ finish" "finished_log logger full_method r finish"
proof -
  define start where "start = LogAttrs l (rc_span ctx) LevelInfo ''grpc request started'' []"
  define w0 where "w0 = log_to start (w\<lparr>rw_readings := Suc (rw_readings w)\<rparr>)"
  obtain r w1 where h: "handler (ctx\<lparr>rc_logger := Some l\<rparr>) w0 = (Returned r, w1)" using assms(1) by blast
  define d where "d = time_Sub (pe_clock pe (rw_readings w1)) (pe_clock pe (rw_readings w))"
  define finish where "finish = (case r of
      Inl e \<Rightarrow> LogAttrs l (rc_span ctx) LevelError ''grpc request finished''
        [(''grpc_code'', AString (code_string (status_Code e))), (''duration'', ADuration d),
         (''error'', AString (error_text e))]
    | Inr x \<Rightarrow> LogAttrs l (rc_span ctx) LevelInfo ''grpc request finished''
        [(''grpc_code'', AString (code_string OK)), (''duration'', ADuration d)])"
  define w' where "w' = snd (UnaryLoggingInterceptor pe (Some logger) full_method handler ctx w)"
  have run: "UnaryLoggingInterceptor pe (Some logger) full_method handler ctx w = (Returned r, w')"
    "rw_state w' = rw_state w1" "rw_span w' = rw_span w1" "rw_log w' = rw_log w1 @ finish"
    unfolding w'_def
    using h by (auto simp: UnaryLoggingInterceptor_def Let_def IntoContext_def log_to_def w0_def start_def
        finish_def d_def assms(2) [symmetric] split: sum.split)
  have "started_log logger full_method start" unfolding start_def assms(2) by (rule started_written)
  moreover have "finished_log logger full_method r finish"
    unfolding finish_def assms(2) by (cases r) (simp_all only: sum.case failed_written answered_written)
  ultimately show thesis
    by (intro that [OF _ _ h run(1-3) _ _ run(4)]) (simp_all add: w0_def log_to_def)
qed

lemma chain_returns:
  "\<exists>r w'. UnaryAuthContextInterceptor wl full_method
      (UnaryRecoveryInterceptor pe (Some logger) full_method handler) c w = (Returned r, w')"
  by (cases "full_method \<in> wl"; cases "names_caller (rc_metadata c)")
    (simp_all add: auth_run, (metis recovery_returns)+)

text \<open>
  The chains of the monolith and of the identity service differ in the open methods only.
\<close>

definition guarded_chain ::
  "string set \<Rightarrow> proc_env \<Rightarrow> slogger \<Rightarrow> string \<Rightarrow> ('a, 's) unary_handler \<Rightarrow> ('a, 's) unary_handler" where
  "guarded_chain wl pe logger =
     chain_unary [UnaryLoggingInterceptor pe (Some logger), UnaryAuthContextInterceptor wl,
                  UnaryRecoveryInterceptor pe (Some logger)]"

lemma monolith_guarded: "guarded_chain authWhitelist = monolith_chain"
  and identity_guarded: "guarded_chain identity_authWhitelist = identity_service_chain"
  by (simp_all add: guarded_chain_def monolith_chain_def identity_service_chain_def fun_eq_iff)

lemma guarded_run:
  obtains w0 r w1 w' start finish where "rw_state w0 = rw_state w" "rw_span w0 = rw_span w"
    "guarded_chain wl pe logger full_method handler ctx w = (Returned r, w')"
    "UnaryAuthContextInterceptor wl full_method (UnaryRecoveryInterceptor pe (Some logger) full_method handler)
       (ctx\<lparr>rc_logger := Some (logger_With logger [(''grpc_method'', AString full_method)])\<rparr>) w0 = (Returned r, w1)"
    "rw_state w' = rw_state w1" "rw_span w' = rw_span w1"
    "rw_log w0 = rw_log w @ start" "started_log logger full_method start"
    "rw_log w' = rw_log w1 @ finish" "finished_log logger full_method r finish"
proof -
  define l where "l = logger_With logger [(''grpc_method'', AString full_method)]"
  define inner where "inner = UnaryAuthContextInterceptor wl full_method
      (UnaryRecoveryInterceptor pe (Some logger) full_method handler)"
  have "\<exists>r w'. inner (ctx\<lparr>rc_logger := Some l\<rparr>) w = (Returned r, w')" for w
    unfolding inner_def by (rule chain_returns)
  from logging_returns [where handler = inner and ctx = ctx and l = l and w = w and pe = pe, OF this l_def]
  obtain w0 r w1 w' start finish where "rw_state w0 = rw_state w" "rw_span w0 = rw_span w"
    and "inner (ctx\<lparr>rc_logger := Some l\<rparr>) w0 = (Returned r, w1)"
    and "UnaryLoggingInterceptor pe (Some logger) full_method inner ctx w = (Returned r, w')"
    and "rw_state w' = rw_state w1" "rw_span w' = rw_span w1"
      "rw_log w0 = rw_log w @ start" "started_log logger full_method start"
      "rw_log w' = rw_log w1 @ finish" "finished_log logger full_method r finish" by blast
  then show thesis by (intro that) (simp_all add: guarded_chain_def inner_def l_def)
qed

lemma guarded_refused:
  assumes "full_method \<notin> wl" and "\<not> names_caller (rc_metadata ctx)"
  obtains m w' start finish
  where "guarded_chain wl pe logger full_method handler ctx w = (Returned (Inl (StatusErr Unauthenticated m)), w')"
    "rw_state w' = rw_state w" "rw_span w' = rw_span w"
    "rw_log w' = rw_log w @ start @ finish" "started_log logger full_method start"
    "finished_log logger full_method (Inl (StatusErr Unauthenticated m) :: go_error + 'a) finish"
proof (rule guarded_run [of w wl pe logger full_method handler ctx])
  fix w0 r w1 w' start finish
  assume run: "rw_state w0 = rw_state w" "rw_span w0 = rw_span w"
    "guarded_chain wl pe logger full_method handler ctx w = (Returned r, w')"
    "UnaryAuthContextInterceptor wl full_method (UnaryRecoveryInterceptor pe (Some logger) full_method handler)
       (ctx\<lparr>rc_logger := Some (logger_With logger [(''grpc_method'', AString full_method)])\<rparr>) w0 = (Returned r, w1)"
    "rw_state w' = rw_state w1" "rw_span w' = rw_span w1"
    "rw_log w0 = rw_log w @ start" "started_log logger full_method start"
    "rw_log w' = rw_log w1 @ finish" "finished_log logger full_method r finish"
  from run(4) assms obtain m where m: "r = Inl (StatusErr Unauthenticated m)" "w1 = w0" by (auto simp: auth_run)
  have "finished_log logger full_method (Inl (StatusErr Unauthenticated m) :: go_error + 'a) finish"
    using run(10) m(1) by (simp add: finished_log_def)
  with run m show thesis by (intro that [of m w' start finish]) simp_all
qed

lemma guarded_admitted:
  assumes "full_method \<in> wl \<or> names_caller (rc_metadata ctx)"
  obtains c w0 r w' start crash finish
  where "guarded_chain wl pe logger full_method handler ctx w = (Returned r, w')"
    "rw_state w0 = rw_state w" "rc_metadata c = rc_metadata ctx"
    "rc_identity c = (if full_method \<in> wl then rc_identity ctx else claimed (rc_metadata ctx) (rc_identity ctx))"
    "rw_state w' = rw_state (snd (handler c w0))"
    "r = (case fst (handler c w0) of Returned r \<Rightarrow> r | Panicked v \<Rightarrow> Inl (StatusErr Internal ''internal server error''))"
    "rw_log w0 = rw_log w @ start" "started_log logger full_method start"
    "rw_log w' = rw_log (snd (handler c w0)) @ crash @ finish"
    "panic_log (fst (handler c w0)) crash" "finished_log logger full_method r finish"
proof (rule guarded_run [of w wl pe logger full_method handler ctx])
  let ?c = "ctx\<lparr>rc_logger := Some (logger_With logger [(''grpc_method'', AString full_method)])\<rparr>"
  fix w0 r w1 w' start finish
  assume run: "rw_state w0 = rw_state w" "rw_span w0 = rw_span w"
    "guarded_chain wl pe logger full_method handler ctx w = (Returned r, w')"
    "UnaryAuthContextInterceptor wl full_method (UnaryRecoveryInterceptor pe (Some logger) full_method handler)
       ?c w0 = (Returned r, w1)"
    "rw_state w' = rw_state w1" "rw_span w' = rw_span w1"
    "rw_log w0 = rw_log w @ start" "started_log logger full_method start"
    "rw_log w' = rw_log w1 @ finish" "finished_log logger full_method r finish"
  define c where "c = (if full_method \<in> wl then ?c
      else ?c\<lparr>rc_identity := claimed (rc_metadata ctx) (rc_identity ctx)\<rparr>)"
  have "UnaryRecoveryInterceptor pe (Some logger) full_method handler c w0 = (Returned r, w1)"
    using run(4) assms by (auto simp: auth_run c_def split: if_splits)
  moreover obtain r' w2 crash
  where "UnaryRecoveryInterceptor pe (Some logger) full_method handler c w0 = (Returned r', w2)"
    "rw_state w2 = rw_state (snd (handler c w0))"
    "r' = (case fst (handler c w0) of Returned r \<Rightarrow> r
        | Panicked v \<Rightarrow> Inl (StatusErr Internal ''internal server error''))"
    "rw_log w2 = rw_log (snd (handler c w0)) @ crash" "panic_log (fst (handler c w0)) crash"
    by (rule recovery_returns)
  ultimately show thesis using run by (intro that [of r w' w0 c start crash finish]) (simp_all add: c_def)
qed

lemmas chain_refused = guarded_refused [where wl = authWhitelist, unfolded monolith_guarded]

lemmas chain_admitted = guarded_admitted [where wl = authWhitelist, unfolded monolith_guarded]

text \<open>
  C6: The chain of interceptors lets nothing through and nothing out. A call whose method is not
  open to everybody and whose metadata names no caller is refused as \<open>Unauthenticated\<close> before
  the handler runs. Otherwise the handler runs once, on the state as it was, and sees the caller
  that the metadata names (the first value of each header) or, for an open method, the identity
  as it came; what it returns is the answer and what it does to the state stays, and a panic
  becomes \<open>Internal\<close> and leaves a line with the panicked value. Every call, refused, failed,
  panicked or answered, leaves one line when it starts and one line with its method, its code and
  its duration when it ends: at level error with the text of the error, or at level info with
  the code \<open>OK\<close>. A logger configured above level info shows the error lines only.
\<close>

theorem interceptor_chain:
  "case monolith_chain pe logger full_method handler ctx w of
     (out, w') \<Rightarrow>
       \<exists>r start finish. out = Returned r \<and>
         started_log logger full_method start \<and> finished_log logger full_method r finish \<and>
         (if full_method \<in> authWhitelist \<or> names_caller (rc_metadata ctx)
          then \<exists>c w0 crash. rw_state w0 = rw_state w \<and> rw_log w0 = rw_log w @ start \<and>
                 rc_metadata c = rc_metadata ctx \<and>
                 rc_identity c = (if full_method \<in> authWhitelist then rc_identity ctx
                                  else claimed (rc_metadata ctx) (rc_identity ctx)) \<and>
                 rw_state w' = rw_state (snd (handler c w0)) \<and>
                 r = (case fst (handler c w0) of Returned r \<Rightarrow> r
                      | Panicked v \<Rightarrow> Inl (StatusErr Internal ''internal server error'')) \<and>
                 panic_log (fst (handler c w0)) crash \<and>
                 rw_log w' = rw_log (snd (handler c w0)) @ crash @ finish
          else rw_state w' = rw_state w \<and> rw_span w' = rw_span w \<and>
               rw_log w' = rw_log w @ start @ finish \<and>
               (\<exists>m. r = Inl (StatusErr Unauthenticated m)))"
proof (cases "full_method \<in> authWhitelist \<or> names_caller (rc_metadata ctx)")
  case True
  obtain c w0 r w' start crash finish
    where run: "monolith_chain pe logger full_method handler ctx w = (Returned r, w')"
      "rw_state w0 = rw_state w" "rc_metadata c = rc_metadata ctx"
      "rc_identity c = (if full_method \<in> authWhitelist then rc_identity ctx else claimed (rc_metadata ctx) (rc_identity ctx))"
      "rw_state w' = rw_state (snd (handler c w0))"
      "r = (case fst (handler c w0) of Returned r \<Rightarrow> r | Panicked v \<Rightarrow> Inl (StatusErr Internal ''internal server error''))"
      "rw_log w0 = rw_log w @ start" "started_log logger full_method start"
      "rw_log w' = rw_log (snd (handler c w0)) @ crash @ finish"
      "panic_log (fst (handler c w0)) crash" "finished_log logger full_method r finish"
    by (rule chain_admitted [OF True])
  show ?thesis
    unfolding run(1) case_prod_conv if_P [OF True]
    by (rule exI [of _ r], rule exI [of _ start], rule exI [of _ finish], intro conjI refl run(8,11),
        rule exI [of _ c], rule exI [of _ w0], rule exI [of _ crash]) (intro conjI run)
next
  case False
  then have f: "full_method \<notin> authWhitelist" "\<not> names_caller (rc_metadata ctx)" by simp_all
  obtain m w' start finish where run: "monolith_chain pe logger full_method handler ctx w =
      (Returned (Inl (StatusErr Unauthenticated m)), w')" "rw_state w' = rw_state w" "rw_span w' = rw_span w"
    "rw_log w' = rw_log w @ start @ finish" "started_log logger full_method start"
    "finished_log logger full_method (Inl (StatusErr Unauthenticated m) :: go_error + 'a) finish"
    by (rule chain_refused [OF f])
  show ?thesis
    unfolding run(1) case_prod_conv if_not_P [OF False]
    by (rule exI [of _ "Inl (StatusErr Unauthenticated m)"], rule exI [of _ start], rule exI [of _ finish])
      (intro conjI refl run(2-6) exI [of _ m])
qed

section \<open>An example process\<close>

definition example_logger :: slogger where
  "example_logger =
     \<lparr>lg_IsDefault = True, lg_Handler = NewTraceContextHandler
        \<lparr>sh_JSON = True, sh_Level = LevelInfo, sh_scopes = []\<rparr>\<rparr>"

definition example_proc :: proc_env where
  "example_proc = \<lparr>pe_Default = example_logger, pe_clock = int, pe_Stack = ''main''\<rparr>"

definition example_world :: "'s \<Rightarrow> 's rpc_world" where
  "example_world s = \<lparr>rw_state = s, rw_log = [], rw_span = [], rw_readings = 0\<rparr>"

end
