(* ===== verification/Site_Calls.thy ===== *)
theory Site_Calls
  imports Lane_Runs Interceptors
begin

text \<open>
  The parking and device API as a whole: the lots, the lanes and the devices of a site in one
  database world, every RPC of the three services on it, and the calls as the monolith serves
  them, behind its interceptors.
\<close>

section \<open>What a table has no part in\<close>

context lot_db
begin

lemma lot_repo_frame:
  assumes "\<And>xs s. f (set_rows xs s) = f s"
  shows "f (snd (lp_GetByID (lotRepo_of db) t lid s)) = f s"
    and "f (snd (lp_Update (lotRepo_of db) l s)) = f s"
    and "f (snd (lp_Create (lotRepo_of db) l s)) = f s"
    and "f (snd (lp_Delete (lotRepo_of db) t lid s)) = f s"
  using table_frame [where f = f, OF assms] fun_cong [OF fun_cong [OF lot_get_eq], of db "(t, lid)" s]
  by (simp_all add: lot_upd_eq lot_crt_eq lot_del_eq)

lemma lot_steps_frame:
  assumes "\<And>xs s. f (set_rows xs s) = f s" and "\<And>s. f (snd (uuid_New env s)) = f s"
    and "lane_db ldb lrows lset lnow ldup"
  shows "lot_steps env db ldb t (\<lambda>s. f s = c) (\<lambda>_. True)"
proof (unfold_locales, goal_cases)
  case (5 g p n)
  show ?case by (rule io_inv_same) (rule lot_list_same)
next
  case 6
  show ?case by (rule io_inv_same) (rule sums_same)
next
  case (7 t' ls)
  show ?case by (rule io_inv_same) (rule lane_db.populate_same [OF assms(3)])
next
  case 8
  show ?case by (rule io_inv_same) (rule gates_same [OF assms(3)])
qed (rule TrueI | rule io_inv_frame [where f = f], simp add: lot_repo_frame [where f = f, OF assms(1)]
    ask_io_run assms(2), simp)+

end

context device_tx
begin

lemma device_steps_frame:
  assumes "\<And>xs s. f (set_rows xs s) = f s" and "\<And>s. f (snd (time_Now env s)) = f s"
  shows "device_steps env db tx t (\<lambda>s. f s = c) (\<lambda>_. True)"
proof (unfold_locales, goal_cases)
  case (1 h did)
  then show ?case
    using device_repo_frame(1) [where f = f, OF assms(1)]
      device_db.device_repo_frame(1) [OF tx_handle, where f = f, OF assms(1)]
    by (intro io_inv_frame [where f = f]) auto
next
  case (2 h d)
  then show ?case
    using device_repo_frame(2) [where f = f, OF assms(1)]
      device_db.device_repo_frame(2) [OF tx_handle, where f = f, OF assms(1)]
    by (intro io_inv_frame [where f = f]) auto
next
  case (3 h did)
  then show ?case
    using table_frame(6) [where f = f, OF assms(1)]
      gorm_table.table_frame(6) [OF device_db.axioms(1) [OF tx_handle], where f = f, OF assms(1)]
    by (intro io_inv_frame [where f = f]) (auto simp: device_store_defs)
next
  case (4 d)
  show ?case
    using table_frame(1) [where f = f, OF assms(1)]
    by (intro io_inv_frame [where f = f]) (simp_all add: device_crt_eq)
next
  case (5 g p n)
  show ?case by (rule io_inv_same) (rule find_all_same)
next
  case (6 tid)
  show ?case by (rule io_inv_same) (rule counts_same)
next
  case 7
  show ?case by (rule io_inv_frame [where f = f]) (simp_all add: ask_io_run assms(2))
next
  case (10 d change)
  have "f (snd (device_touch env d s)) = f s" for d s by (simp add: touch_run assms(2))
  with 10 show ?case
    by (intro io_inv_frame [where f = f])
      (auto simp: device_changes_def Device_Disable_def Device_Enable_def Device_Bind_def
        Device_Unbind_def Device_UpdateName_def)
next
  case (11 fn)
  show ?case by (rule transaction_inv [where I = "\<lambda>s. f s = c"], simp add: assms(1), rule 11)
qed (rule TrueI)+

end

section \<open>The three tables\<close>

text \<open>
  One call of the parking and device API, as the three services are composed in
  \<open>cmd/monolith/main.go\<close>: the lane service calls the same device service that the device API
  serves.
\<close>

inductive site_rpc ::
  "'s go_env \<Rightarrow> ((string \<times> lane) list \<Rightarrow> (string \<times> lane) list) \<Rightarrow> 's lot_gorm \<Rightarrow> 's lane_gorm \<Rightarrow>
     's device_gorm \<Rightarrow> 's gorm_tx \<Rightarrow> go_ctx \<Rightarrow> 's \<Rightarrow> 's \<Rightarrow> bool"
  for env order ldb db ddb tx ctx where
  lots: "lot_rpc env ldb db ctx s s' \<Longrightarrow> site_rpc env order ldb db ddb tx ctx s s'"
| devices: "device_rpc env ddb tx ctx s s' \<Longrightarrow> site_rpc env order ldb db ddb tx ctx s s'"
| lane_config: "site_rpc env order ldb db ddb tx ctx s
     (snd (LaneGRPCServer_GetLaneConfig (lane_server env order db (device_server env ddb tx)) ctx p s))"
| lanes: "site_rpc env order ldb db ddb tx ctx s
     (snd (LaneGRPCServer_UpdateLanes (lane_server env order db (device_server env ddb tx)) ctx req s))"

definition site_valid ::
  "('s \<Rightarrow> lot_row list) \<Rightarrow> ('s \<Rightarrow> lane_row list) \<Rightarrow> ('s \<Rightarrow> device_row list) \<Rightarrow> 's \<Rightarrow> bool" where
  "site_valid lrows rows drows s \<longleftrightarrow>
     lot_table_valid lrows s \<and> lanes_ok rows s \<and> device_table_valid drows s"

text \<open>What a tenant has on the site.\<close>

definition site_part ::
  "('s \<Rightarrow> lot_row list) \<Rightarrow> ('s \<Rightarrow> lane_row list) \<Rightarrow> ('s \<Rightarrow> device_row list) \<Rightarrow> string \<Rightarrow> 's \<Rightarrow>
     lot_row list \<times> lane_row list \<times> device_row list" where
  "site_part lrows rows drows t s =
     (filter (\<lambda>r. lr_TenantID r = t) (lrows s), filter (\<lambda>r. lnr_TenantID r = t) (rows s),
      filter (\<lambda>r. dvr_TenantID r = t) (drows s))"

locale whole_site =
  parking_site like db rows set_rows now dup ddb drows dset dnow ddup tx env order +
  lot: lot_db like ldb lrows lset lnow ldup
  for like and db :: "'s lane_gorm" and rows and set_rows and now and dup
    and ddb :: "'s device_gorm" and drows and dset and dnow and ddup and tx
    and env :: "'s go_env" and order
    and ldb :: "'s lot_gorm" and lrows and lset and lnow and ldup +
  assumes lot_world: "go_world env lrows"
    and lots_apart: "rows (lset xs s) = rows s" "drows (lset xs s) = drows s"
    and lots_stay: "lrows (set_rows ys s) = lrows s" "lrows (dset zs s) = lrows s"
begin

lemma lane_table: "lane_db db rows set_rows now dup"
  by unfold_locales

lemma lane_config_same: "snd (LaneGRPCServer_GetLaneConfig lane_svc ctx p s) = s"
proof -
  have "snd (dvs_List dsvc req s) = s" for req s
    using dev.find_all_same by (auto simp: deviceService_List_def Let_def bind_io_run split: prod.split sum.split)
      (metis snd_conv)+
  then have list: "\<exists>r. dvs_List dsvc req s = (r, s)" for req s by (metis prod.collapse)
  have "snd (laneService_GetLaneConfig repo dsvc t p s) = s" for t
  proof -
    obtain r where "dvs_List dsvc \<lparr>ldr_TenantID = t, ldr_Status = [], ldr_ParkingLotID = [], ldr_Keyword = [],
        ldr_Page = 1, ldr_PageSize = 200\<rparr> s = (r, s)" using list by blast
    then show ?thesis
      using lane.ListByParkingLot_run [of t p s]
      by (auto simp: laneService_GetLaneConfig_def bind_io_run try_io_run Let_def simp del: device_server_fields)
  qed
  then show ?thesis
    by (simp add: LaneGRPCServer_GetLaneConfig_def in_tenant_def reject_if_def parking_extractTenantID_def
        Let_def lane_svc_fields)
qed

lemma lane_steps_lots: "lane_steps env order repo dsvc t p (\<lambda>s. lrows s = c) (\<lambda>_. True)"
proof (unfold_locales, goal_cases)
  case (1 m)
  show ?case by (rule order_same)
next
  case 2
  show ?case
    by (rule io_inv_weaken [OF io_inv_frame [where f = lrows]])
      (simp_all add: lane.lane_repo_frame [where f = lrows, OF lots_stay(1)])
next
  case (8 b)
  show ?case
    using dev.device_bind_frame(1) [where f = lrows, OF lots_stay(2) go_world.clock_rows [OF lot_world]]
    by (intro io_inv_frame [where f = lrows]) auto
next
  case (9 u)
  show ?case
    using dev.device_bind_frame(2) [where f = lrows, OF lots_stay(2) go_world.clock_rows [OF lot_world]]
    by (intro io_inv_frame [where f = lrows]) auto
qed (rule TrueI | rule io_inv_frame [where f = lrows], simp add: lane.ExistsByName_run ask_io_run
    lane.lane_repo_frame [where f = lrows, OF lots_stay(1)] go_world.clock_rows [OF lot_world]
    go_world.uuid_rows [OF lot_world], simp)+

text \<open>Each service leaves the tables of the others alone, except that lanes bind devices.\<close>

lemma lot_rpc_apart:
  assumes "lot_rpc env ldb db ctx s s'"
  shows "rows s' = rows s" and "drows s' = drows s"
  by (rule lot_steps.lot_rpc_keeps [OF lot.lot_steps_frame assms refl refl],
      rule lots_apart, rule go_world.uuid_rows [OF lane_world] go_world.uuid_rows [OF device_world], rule lane_table)+

lemma device_rpc_apart:
  assumes "device_rpc env ddb tx ctx s s'"
  shows "rows s' = rows s" and "lrows s' = lrows s"
  by (rule device_steps.device_rpc_keeps [OF dev.device_steps_frame assms refl refl],
      rule devices_apart lots_stay, rule go_world.clock_rows [OF lane_world] go_world.clock_rows [OF lot_world])+

lemma UpdateLanes_apart: "lrows (snd (LaneGRPCServer_UpdateLanes lane_svc ctx req s)) = lrows s"
  by (rule UpdateLanes_rpc_inv [OF lane_steps_lots refl])

lemma tables_of_scopes:
  assumes "lot_inv lrows c (filter (\<lambda>r. lr_TenantID r \<noteq> c) (lrows s)) s'"
    and "lane_inv rows (c, p) (filter (\<lambda>r. lane_scope r \<noteq> (c, p)) (rows s)) s'"
    and "device_inv drows c (filter (\<lambda>r. dvr_TenantID r \<noteq> c) (drows s)) s'"
  shows "site_valid lrows rows drows s'"
    and "c \<noteq> t \<Longrightarrow> site_part lrows rows drows t s' = site_part lrows rows drows t s"
proof -
  show "site_valid lrows rows drows s'"
    using assms by (simp add: site_valid_def scope_inv_def lot_table_valid_def device_table_valid_def)
  assume "c \<noteq> t"
  moreover have "filter (\<lambda>r. lnr_TenantID r = t) (rows s') = filter (\<lambda>r. lnr_TenantID r = t) (rows s)"
    by (rule filter_inner [where Q = "\<lambda>r. lane_scope r \<noteq> (c, p)"])
      (use assms(2) \<open>c \<noteq> t\<close> in \<open>auto simp: scope_inv_def lane_scope_def\<close>)
  ultimately show "site_part lrows rows drows t s' = site_part lrows rows drows t s"
    using scope_inv_others [OF assms(1)] scope_inv_others [OF assms(3)] by (simp add: site_part_def)
qed

lemma site_rpc_scopes:
  assumes rpc: "site_rpc env order ldb db ddb tx ctx s s'" and valid: "site_valid lrows rows drows s"
  obtains p where "lot_inv lrows (TenantID ctx) (filter (\<lambda>r. lr_TenantID r \<noteq> TenantID ctx) (lrows s)) s'"
    "lane_inv rows (TenantID ctx, p) (filter (\<lambda>r. lane_scope r \<noteq> (TenantID ctx, p)) (rows s)) s'"
    "device_inv drows (TenantID ctx) (filter (\<lambda>r. dvr_TenantID r \<noteq> TenantID ctx) (drows s)) s'"
proof -
  let ?t = "TenantID ctx"
  have start: "lot_inv lrows ?t (filter (\<lambda>r. lr_TenantID r \<noteq> ?t) (lrows s)) s"
    "lane_inv rows (?t, p) (filter (\<lambda>r. lane_scope r \<noteq> (?t, p)) (rows s)) s"
    "device_inv drows ?t (filter (\<lambda>r. dvr_TenantID r \<noteq> ?t) (drows s)) s" for p
    using valid by (simp_all add: site_valid_def scope_inv_def lot_table_valid_def device_table_valid_def)
  note same = scope_inv_rows [where rows = lrows and clash = lot_clash and scope = lr_TenantID and valid = lot_row_valid
        and s' = s' and s = s]
    scope_inv_rows [where rows = rows and clash = lane_clash and scope = lane_scope and valid = "\<lambda>_. True"
        and s' = s' and s = s]
    scope_inv_rows [where rows = drows and clash = device_clash and scope = dvr_TenantID and valid = device_row_valid
        and s' = s' and s = s]
  show thesis
    using rpc
  proof cases
    case lots
    show thesis
      by (rule that [of "[]"], rule lot.lot_rpc_inv [OF lots lot_world lane_table start(1)])
        (use start lot_rpc_apart [OF lots] in \<open>simp_all add: same\<close>)
  next
    case devices
    show thesis
      by (rule that [of "[]"], use start device_rpc_apart [OF devices] in \<open>simp add: same\<close>,
          use start device_rpc_apart [OF devices] in \<open>simp add: same\<close>)
        (rule dev.device_rpc_inv [OF devices device_world start(3)])
  next
    case (lane_config p)
    then have "s' = s" by (simp add: lane_config_same)
    then show thesis using start by (intro that [of p]) simp_all
  next
    case (lanes req)
    show thesis
    proof (rule that [of "pun_ParkingLotId req"])
      show "lot_inv lrows ?t (filter (\<lambda>r. lr_TenantID r \<noteq> ?t) (lrows s)) s'"
      proof -
        have "lrows s' = lrows s" unfolding lanes by (rule UpdateLanes_apart)
        then show ?thesis using start(1) by (simp add: same)
      qed
      show "lane_inv rows (?t, pun_ParkingLotId req)
          (filter (\<lambda>r. lane_scope r \<noteq> (?t, pun_ParkingLotId req)) (rows s)) s'"
        unfolding lanes by (rule UpdateLanes_rpc_inv [OF lane_steps_lanes start(2)])
      show "device_inv drows ?t (filter (\<lambda>r. dvr_TenantID r \<noteq> ?t) (drows s)) s'"
        unfolding lanes by (rule UpdateLanes_rpc_inv [OF lane_steps_devices start(3)]) simp
    qed
  qed
qed

lemma site_rpc_isolation:
  assumes "site_rpc env order ldb db ddb tx ctx s s'" and "site_valid lrows rows drows s"
  shows "site_valid lrows rows drows s'"
    and "TenantID ctx \<noteq> t \<Longrightarrow> site_part lrows rows drows t s' = site_part lrows rows drows t s"
  by (rule site_rpc_scopes [OF assms], rule tables_of_scopes, assumption+)+

end

section \<open>The calls that are served\<close>

text \<open>
  A call that arrives at the monolith: the handler behind the interceptors is one RPC of the API,
  whose answer goes back to the client.
\<close>

definition site_method :: "string \<Rightarrow> bool" where
  "site_method m \<longleftrightarrow> take 20 m = ''/parkhub.parking.v1.'' \<or> take 16 m = ''/parkhub.iot.v1.''"

inductive site_call ::
  "'s go_env \<Rightarrow> ((string \<times> lane) list \<Rightarrow> (string \<times> lane) list) \<Rightarrow> 's lot_gorm \<Rightarrow> 's lane_gorm \<Rightarrow>
     's device_gorm \<Rightarrow> 's gorm_tx \<Rightarrow> md option \<Rightarrow> 's rpc_world \<Rightarrow> 's rpc_world \<Rightarrow> bool"
  for env order ldb db ddb tx mo where
  call: "(\<And>c s. site_rpc env order ldb db ddb tx c s (snd (f c s))) \<Longrightarrow> site_method full_method \<Longrightarrow>
     site_call env order ldb db ddb tx mo w
       (snd (monolith_chain pe logger full_method (rpc_handler (f :: go_ctx \<Rightarrow> (unit, 's) io)) (incoming mo sc) w))"

lemma site_method_closed: "site_method m \<Longrightarrow> m \<notin> authWhitelist"
  by (auto simp: site_method_def authWhitelist_def)

lemma TenantID_claimed:
  "TenantID (claimed mo context_Background) = (case first_header mo ''x-tenant-id'' of None \<Rightarrow> [] | Some t \<Rightarrow> t)"
  by (simp add: TenantID_def claimed_def context_Background_def split: option.split)

text \<open>
  A served call is an RPC in the name of the tenant that the metadata claims, or nothing at all.
\<close>

lemma site_call_rpc:
  assumes "site_call env order ldb db ddb tx mo w w'"
  shows "rw_state w' = rw_state w \<or>
    names_caller mo \<and> site_rpc env order ldb db ddb tx (claimed mo context_Background) (rw_state w) (rw_state w')"
  using assms
proof cases
  case (call f full_method pe logger sc)
  let ?ctx = "incoming mo sc"
  note closed = site_method_closed [OF call(3)]
  show ?thesis
  proof (cases "names_caller mo")
    case True
    then have "full_method \<in> authWhitelist \<or> names_caller (rc_metadata ?ctx)" by (simp add: incoming_def)
    then obtain c w0 r w1 where run: "monolith_chain pe logger full_method (rpc_handler f) ?ctx w = (Returned r, w1)"
      "rw_state w0 = rw_state w"
      "rc_identity c = (if full_method \<in> authWhitelist then rc_identity ?ctx
         else claimed (rc_metadata ?ctx) (rc_identity ?ctx))"
      "rw_state w1 = rw_state (snd (rpc_handler f c w0))"
      by (rule chain_admitted)
    have "rc_identity c = claimed mo context_Background" using run(3) closed by (simp add: incoming_def)
    then have "rw_state w' = snd (f (claimed mo context_Background) (rw_state w))"
      using run call(1) by (simp add: rpc_handler_def split: prod.split)
    then show ?thesis using True call(2) by simp
  next
    case False
    then have "\<not> names_caller (rc_metadata ?ctx)" by (simp add: incoming_def)
    from chain_refused [OF closed this] have "rw_state w' = rw_state w"
      unfolding call(1) by (metis snd_conv)
    then show ?thesis ..
  qed
qed

text \<open>
  C1: On a whole site, behind the interceptors of the monolith: whatever requests arrive whose
  metadata does not claim the tenant \<open>t\<close>, with or without a caller, in whatever order, for
  whatever RPC of the parking and device API and however each ends, the lots, lanes and devices
  of \<open>t\<close> stay as they are, and all three tables keep their invariants.
\<close>

theorem site_tenant_isolation:
  assumes "whole_site like db rows set_rows now dup ddb drows dset dnow ddup tx env order ldb lrows lset lnow ldup"
    and "t \<noteq> []" and "site_valid lrows rows drows (rw_state w)"
    and "(\<lambda>w w'. \<exists>mo. first_header mo ''x-tenant-id'' \<noteq> Some t \<and> site_call env order ldb db ddb tx mo w w')\<^sup>*\<^sup>* w w'"
  shows "site_part lrows rows drows t (rw_state w') = site_part lrows rows drows t (rw_state w) \<and>
         site_valid lrows rows drows (rw_state w')"
  using assms(4)
proof (induction rule: rtranclp_induct)
  case base
  show ?case using assms(3) by simp
next
  case (step w1 w2)
  then obtain mo where mo: "first_header mo ''x-tenant-id'' \<noteq> Some t" and
    call: "site_call env order ldb db ddb tx mo w1 w2" by blast
  from mo assms(2) have other: "TenantID (claimed mo context_Background) \<noteq> t"
    by (auto simp: TenantID_claimed split: option.splits)
  from site_call_rpc [OF call] show ?case
  proof
    assume "rw_state w2 = rw_state w1"
    then show ?case using step.IH by simp
  next
    assume "names_caller mo \<and> site_rpc env order ldb db ddb tx (claimed mo context_Background) (rw_state w1) (rw_state w2)"
    then show ?case
      using whole_site.site_rpc_isolation [OF assms(1), of "claimed mo context_Background" "rw_state w1" "rw_state w2"]
        other step.IH by simp
  qed
qed

section \<open>A call on the example site\<close>

lemma site_whole:
  "whole_site sql_like site_lanes st_lanes set_lanes st_clock ''Duplicate entry''
     site_devices st_devices set_devices st_clock ''Duplicate entry'' site_tx site_env rev
     site_lots st_lots set_lots st_clock ''Duplicate entry''"
  unfolding whole_site_def whole_site_axioms_def
  by (simp add: site_parking site_lots_db site_env_worlds)

interpretation whole: whole_site sql_like site_lanes st_lanes set_lanes st_clock "''Duplicate entry''"
  site_devices st_devices set_devices st_clock "''Duplicate entry''" site_tx site_env rev
  site_lots st_lots set_lots st_clock "''Duplicate entry''"
  by (rule site_whole)

interpretation site_lot_steps: lot_steps site_env site_lots site_lanes t "lot_inv st_lots t []" "own_lot t" for t
  by (rule lot_db.lot_steps_inv [OF site_lots_db site_env_worlds(1) _ site_lanes_db]) simp

interpretation site_device_steps: device_steps site_env site_devices site_tx t "device_inv st_devices t []" "own_device t" for t
  by (rule device_tx.device_steps_inv [OF site_devices_tx site_env_worlds(3)]) simp

definition delete_call :: "string \<Rightarrow> site rpc_world \<Rightarrow> unit outcome \<times> site rpc_world" where
  "delete_call t =
     monolith_chain example_proc example_logger ''/parkhub.parking.v1.ParkingLotService/DeleteParkingLot''
       (rpc_handler (\<lambda>ctx. ParkingLotGRPCServer_DeleteParkingLot site_lot_svc ctx ''p1''))
       (incoming (Some [''x-user-id'' \<mapsto> [''u9''], ''x-tenant-id'' \<mapsto> [t]]) None)"

lemma delete_call_step:
  "site_call site_env rev site_lots site_lanes site_devices site_tx
     (Some [''x-user-id'' \<mapsto> [''u9''], ''x-tenant-id'' \<mapsto> [t]]) w (snd (delete_call t w))"
  unfolding delete_call_def
  by (rule site_call.call) (simp_all add: site_rpc.lots lot_rpc.delete site_method_def)

lemma site_tenant_isolation_witness:
  "site_part st_lots st_lanes st_devices ''t1'' (rw_state (snd (delete_call ''t2'' (example_world site_start)))) =
     (st_lots site_start, st_lanes site_start, st_devices site_start)"
proof -
  have valid: "site_valid st_lots st_lanes st_devices (rw_state (example_world site_start))"
    using site_start_facts by (simp add: site_valid_def example_world_def)
  have "(\<lambda>w w'. \<exists>mo. first_header mo ''x-tenant-id'' \<noteq> Some ''t1'' \<and>
      site_call site_env rev site_lots site_lanes site_devices site_tx mo w w')\<^sup>*\<^sup>* (example_world site_start)
        (snd (delete_call ''t2'' (example_world site_start)))"
    by (rule r_into_rtranclp, rule exI, rule conjI [OF _ delete_call_step]) (simp add: first_header_def)
  from site_tenant_isolation [OF site_whole _ valid this]
  show ?thesis
    by (simp add: site_part_def example_world_def site_start_def site_lot_def site_lane_def site_device_def)
qed

end
