(* ===== verification/Tenant_Store.thy ===== *)
theory Tenant_Store
  imports Entity_Store Grpc_Util
begin

text \<open>
  Tenants: the domain entity and its state machine (\<open>domain/tenant.go\<close>), the GORM DAO
  (\<open>repository/dao/tenant.go\<close>) and the repository over it (\<open>repository/tenant_repo.go\<close>). The
  locale \<open>tenant_db\<close> gives the DAO's conditions and the table's indexes their meaning; in it
  the repository implements the contract \<open>entity_store_del\<close>.
\<close>

section \<open>Domain\<close>

definition TenantStatusActive :: string where [simp]: "TenantStatusActive = ''active''"
definition TenantStatusFrozen :: string where [simp]: "TenantStatusFrozen = ''frozen''"

definition PlanTypeFree :: string where [simp]: "PlanTypeFree = ''free''"
definition PlanTypeBasic :: string where [simp]: "PlanTypeBasic = ''basic''"
definition PlanTypePro :: string where [simp]: "PlanTypePro = ''pro''"
definition PlanTypeEnterprise :: string where [simp]: "PlanTypeEnterprise = ''enterprise''"

record tenant =
  t_ID :: string
  t_Name :: string
  t_ContactName :: string
  t_ContactPhone :: string
  t_ContactEmail :: string
  t_Status :: string
  t_Address :: string
  t_PlanType :: string
  t_CreatedAt :: int
  t_UpdatedAt :: int
  t_Description :: string
  t_CreditCode :: string
  t_Remark :: string
  t_ParkingLotCount :: int

definition NewTenant ::
  "string \<Rightarrow> string \<Rightarrow> string \<Rightarrow> string \<Rightarrow> string \<Rightarrow> string \<Rightarrow> tenant" where
  "NewTenant name contactName contactPhone contactEmail address planType =
     \<lparr>t_ID = [], t_Name = name, t_ContactName = contactName, t_ContactPhone = contactPhone,
      t_ContactEmail = contactEmail, t_Status = TenantStatusActive, t_Address = address,
      t_PlanType = planType, t_CreatedAt = 0, t_UpdatedAt = 0, t_Description = [],
      t_CreditCode = [], t_Remark = [], t_ParkingLotCount = 0\<rparr>"

definition Tenant_IsActive :: "tenant \<Rightarrow> bool" where
  "Tenant_IsActive t = (t_Status t = TenantStatusActive)"

definition Tenant_Freeze :: "tenant \<Rightarrow> go_error + tenant" where
  "Tenant_Freeze t =
     (if t_Status t \<noteq> TenantStatusActive then Inl (ident ErrTenantInvalidStatus)
      else Inr (t\<lparr>t_Status := TenantStatusFrozen\<rparr>))"

definition Tenant_Unfreeze :: "tenant \<Rightarrow> go_error + tenant" where
  "Tenant_Unfreeze t =
     (if t_Status t \<noteq> TenantStatusFrozen then Inl (ident ErrTenantInvalidStatus)
      else Inr (t\<lparr>t_Status := TenantStatusActive\<rparr>))"

text \<open>The state machine: the only steps are active to frozen and back.\<close>

inductive tenant_step :: "tenant \<Rightarrow> tenant \<Rightarrow> bool" where
  freeze: "Tenant_Freeze t = Inr t' \<Longrightarrow> tenant_step t t'"
| unfreeze: "Tenant_Unfreeze t = Inr t' \<Longrightarrow> tenant_step t t'"

inductive_simps tenant_step_simps: "tenant_step t t'"

definition tenant_valid :: "tenant \<Rightarrow> bool" where
  "tenant_valid t = (t_Status t = TenantStatusActive \<or> t_Status t = TenantStatusFrozen)"

lemma tenant_step_valid: "tenant_step t t' \<Longrightarrow> tenant_valid t \<and> tenant_valid t'"
  by (auto simp: tenant_step_simps Tenant_Freeze_def Tenant_Unfreeze_def tenant_valid_def
      split: if_splits)

section \<open>DAO\<close>

record tenant_row =
  tr_ID :: string
  tr_Name :: string
  tr_ContactName :: string
  tr_ContactPhone :: string
  tr_ContactEmail :: string
  tr_Status :: string
  tr_Address :: string
  tr_PlanType :: string
  tr_Description :: string
  tr_CreditCode :: string
  tr_Remark :: string
  tr_CreatedAt :: int
  tr_UpdatedAt :: int

record tenant_filter =
  tf_Status :: string
  tf_Keyword :: string

record 's tenant_dao =
  td_Insert :: "tenant_row \<Rightarrow> (unit, 's) io"
  td_FindByID :: "string \<Rightarrow> (tenant_row, 's) io"
  td_FindByName :: "string \<Rightarrow> (tenant_row, 's) io"
  td_FindAll :: "tenant_filter \<Rightarrow> int \<Rightarrow> int \<Rightarrow> (tenant_row list \<times> int, 's) io"
  td_Update :: "tenant_row \<Rightarrow> (unit, 's) io"
  td_Delete :: "string \<Rightarrow> (unit, 's) io"
  td_CountByStatus :: "(int \<times> int, 's) io"

type_synonym 's tenant_gorm = "('s, tenant_row) gorm"

definition GORMTenantDAO_Insert :: "'s tenant_gorm \<Rightarrow> tenant_row \<Rightarrow> (unit, 's) io" where
  "GORMTenantDAO_Insert db tenant =
     create_or db [''duplicate'', ''UNIQUE''] (ident ErrTenantAlreadyExists) tenant"

definition GORMTenantDAO_FindByID :: "'s tenant_gorm \<Rightarrow> string \<Rightarrow> (tenant_row, 's) io" where
  "GORMTenantDAO_FindByID db tenantID =
     first_or db (Where ''id = ?'' [SqlStr tenantID] Model) (ident ErrTenantNotFound)"

definition GORMTenantDAO_FindByName :: "'s tenant_gorm \<Rightarrow> string \<Rightarrow> (tenant_row, 's) io" where
  "GORMTenantDAO_FindByName db name =
     first_or db (Where ''name = ?'' [SqlStr name] Model) (ident ErrTenantNotFound)"

definition tenant_query :: "tenant_filter \<Rightarrow> gquery" where
  "tenant_query f =
     (let like = like_pattern (tf_Keyword f) in
      Where_if (tf_Keyword f \<noteq> [])
        ''name LIKE ? OR contact_name LIKE ? OR contact_email LIKE ?'' [like, like, like]
      (Where_if (tf_Status f \<noteq> []) ''status = ?'' [SqlStr (tf_Status f)] Model))"

definition GORMTenantDAO_FindAll ::
  "'s tenant_gorm \<Rightarrow> tenant_filter \<Rightarrow> int \<Rightarrow> int \<Rightarrow> (tenant_row list \<times> int, 's) io" where
  "GORMTenantDAO_FindAll db f page pageSize =
     count_and_page db (tenant_query f) page pageSize"

definition GORMTenantDAO_Update :: "'s tenant_gorm \<Rightarrow> tenant_row \<Rightarrow> (unit, 's) io" where
  "GORMTenantDAO_Update db tenant =
     affected_or (g_Updates db (Where ''id = ?'' [SqlStr (tr_ID tenant)] Model) tenant)
       (ident ErrTenantNotFound)"

definition GORMTenantDAO_Delete :: "'s tenant_gorm \<Rightarrow> string \<Rightarrow> (unit, 's) io" where
  "GORMTenantDAO_Delete db tenantID =
     affected_or (g_Delete db (Where ''id = ?'' [SqlStr tenantID] Model)) (ident ErrTenantNotFound)"

fun tally :: "string \<Rightarrow> string \<Rightarrow> int \<times> int \<Rightarrow> (string list \<times> int) list \<Rightarrow> int \<times> int" where
  "tally a b acc [] = acc"
| "tally a b (x, y) ((k, n) # rest) =
     tally a b (if k = [a] then (n, y) else if k = [b] then (x, n) else (x, y)) rest"

definition GORMTenantDAO_CountByStatus :: "'s tenant_gorm \<Rightarrow> (int \<times> int, 's) io" where
  "GORMTenantDAO_CountByStatus db =
     bind_io (g_ScanCounts db (Group ''status'' (Select [''status'', ''count(*) as count''] Model)))
       (\<lambda>results. return_io (tally ''active'' ''frozen'' (0, 0) results))"

definition NewTenantDAO :: "'s tenant_gorm \<Rightarrow> 's tenant_dao" where
  "NewTenantDAO db =
     \<lparr>td_Insert = GORMTenantDAO_Insert db, td_FindByID = GORMTenantDAO_FindByID db,
      td_FindByName = GORMTenantDAO_FindByName db, td_FindAll = GORMTenantDAO_FindAll db,
      td_Update = GORMTenantDAO_Update db, td_Delete = GORMTenantDAO_Delete db,
      td_CountByStatus = GORMTenantDAO_CountByStatus db\<rparr>"

section \<open>Repository\<close>

record 's tenant_repo =
  trp_Create :: "tenant \<Rightarrow> (unit, 's) io"
  trp_GetByID :: "string \<Rightarrow> (tenant, 's) io"
  trp_GetByName :: "string \<Rightarrow> (tenant, 's) io"
  trp_List :: "tenant_filter \<Rightarrow> int \<Rightarrow> int \<Rightarrow> (tenant list \<times> int, 's) io"
  trp_Update :: "tenant \<Rightarrow> (unit, 's) io"
  trp_Delete :: "string \<Rightarrow> (unit, 's) io"
  trp_CountByStatus :: "(int \<times> int, 's) io"

definition tenant_toDomain :: "tenant_row \<Rightarrow> tenant" where
  "tenant_toDomain d =
     \<lparr>t_ID = tr_ID d, t_Name = tr_Name d, t_ContactName = tr_ContactName d,
      t_ContactPhone = tr_ContactPhone d, t_ContactEmail = tr_ContactEmail d,
      t_Status = tr_Status d, t_Address = tr_Address d, t_PlanType = tr_PlanType d,
      t_CreatedAt = tr_CreatedAt d, t_UpdatedAt = tr_UpdatedAt d,
      t_Description = tr_Description d, t_CreditCode = tr_CreditCode d, t_Remark = tr_Remark d,
      t_ParkingLotCount = 0\<rparr>"

definition tenant_toEntity :: "tenant \<Rightarrow> tenant_row" where
  "tenant_toEntity t =
     \<lparr>tr_ID = t_ID t, tr_Name = t_Name t, tr_ContactName = t_ContactName t,
      tr_ContactPhone = t_ContactPhone t, tr_ContactEmail = t_ContactEmail t,
      tr_Status = t_Status t, tr_Address = t_Address t, tr_PlanType = t_PlanType t,
      tr_Description = t_Description t, tr_CreditCode = t_CreditCode t, tr_Remark = t_Remark t,
      tr_CreatedAt = t_CreatedAt t, tr_UpdatedAt = t_UpdatedAt t\<rparr>"

definition tenantRepo_Create :: "'s tenant_dao \<Rightarrow> tenant \<Rightarrow> (unit, 's) io" where
  "tenantRepo_Create d tenant = td_Insert d (tenant_toEntity tenant)"

definition tenantRepo_GetByID :: "'s tenant_dao \<Rightarrow> string \<Rightarrow> (tenant, 's) io" where
  "tenantRepo_GetByID d tenantID = bind_io (td_FindByID d tenantID) (\<lambda>r. return_io (tenant_toDomain r))"

definition tenantRepo_GetByName :: "'s tenant_dao \<Rightarrow> string \<Rightarrow> (tenant, 's) io" where
  "tenantRepo_GetByName d name = bind_io (td_FindByName d name) (\<lambda>r. return_io (tenant_toDomain r))"

definition tenantRepo_List ::
  "'s tenant_dao \<Rightarrow> tenant_filter \<Rightarrow> int \<Rightarrow> int \<Rightarrow> (tenant list \<times> int, 's) io" where
  "tenantRepo_List d f page pageSize =
     bind_io (td_FindAll d \<lparr>tf_Status = tf_Status f, tf_Keyword = tf_Keyword f\<rparr>
                page pageSize)
       (\<lambda>(records, n). return_io (map tenant_toDomain records, n))"

definition tenantRepo_Update :: "'s tenant_dao \<Rightarrow> tenant \<Rightarrow> (unit, 's) io" where
  "tenantRepo_Update d tenant = td_Update d (tenant_toEntity tenant)"

definition tenantRepo_Delete :: "'s tenant_dao \<Rightarrow> string \<Rightarrow> (unit, 's) io" where
  "tenantRepo_Delete d tenantID = td_Delete d tenantID"

definition tenantRepo_CountByStatus :: "'s tenant_dao \<Rightarrow> (int \<times> int, 's) io" where
  "tenantRepo_CountByStatus d = td_CountByStatus d"

definition NewTenantRepo :: "'s tenant_dao \<Rightarrow> 's tenant_repo" where
  "NewTenantRepo d =
     \<lparr>trp_Create = tenantRepo_Create d, trp_GetByID = tenantRepo_GetByID d,
      trp_GetByName = tenantRepo_GetByName d, trp_List = tenantRepo_List d,
      trp_Update = tenantRepo_Update d, trp_Delete = tenantRepo_Delete d,
      trp_CountByStatus = tenantRepo_CountByStatus d\<rparr>"

lemmas tenant_store_defs =
  NewTenantRepo_def tenantRepo_Create_def tenantRepo_GetByID_def tenantRepo_GetByName_def
  tenantRepo_List_def tenantRepo_Update_def tenantRepo_Delete_def tenantRepo_CountByStatus_def
  NewTenantDAO_def GORMTenantDAO_Insert_def GORMTenantDAO_FindByID_def
  GORMTenantDAO_FindByName_def GORMTenantDAO_FindAll_def GORMTenantDAO_Update_def
  GORMTenantDAO_Delete_def GORMTenantDAO_CountByStatus_def

text \<open>A tenant keeps its stored fields on the way to the table and back.\<close>

lemma tenant_toDomain_toEntity:
  "tenant_toDomain (tenant_toEntity t) = t\<lparr>t_ParkingLotCount := 0\<rparr>"
  by (simp add: tenant_toDomain_def tenant_toEntity_def)

lemma tenant_toEntity_toDomain [simp]: "tenant_toEntity (tenant_toDomain r) = r"
  by (simp add: tenant_toDomain_def tenant_toEntity_def)

section \<open>The table\<close>

text \<open>
  The meaning of the DAO's conditions, the primary key and the unique index on \<open>name\<close>, the
  automatic timestamps in milliseconds, and GORM's \<open>Updates\<close> with a struct, which writes the
  non-zero fields and sets \<open>updated_at\<close>. \<open>now\<close> is the clock in milliseconds.
\<close>

fun tenant_holds :: "(string \<Rightarrow> string \<Rightarrow> bool) \<Rightarrow> sql_cond \<Rightarrow> tenant_row \<Rightarrow> bool" where
  "tenant_holds like (c, [SqlStr v]) r =
     (if c = ''id = ?'' then tr_ID r = v
      else if c = ''name = ?'' then tr_Name r = v
      else if c = ''status = ?'' then tr_Status r = v else False)"
| "tenant_holds like (c, [SqlStr p, SqlStr q, SqlStr u]) r =
     (c = ''name LIKE ? OR contact_name LIKE ? OR contact_email LIKE ?'' \<and>
      (like p (tr_Name r) \<or> like q (tr_ContactName r) \<or> like u (tr_ContactEmail r)))"
| "tenant_holds like _ r = False"

definition tenant_clash :: "tenant_row \<Rightarrow> tenant_row \<Rightarrow> bool" where
  "tenant_clash r' r = (tr_ID r' = tr_ID r \<or> tr_Name r' = tr_Name r)"

definition tenant_stamp :: "int \<Rightarrow> tenant_row \<Rightarrow> tenant_row" where
  "tenant_stamp now r =
     r\<lparr>tr_CreatedAt := (if tr_CreatedAt r = 0 then now else tr_CreatedAt r),
       tr_UpdatedAt := (if tr_UpdatedAt r = 0 then now else tr_UpdatedAt r)\<rparr>"

definition tenant_assign ::
  "int \<Rightarrow> string list \<Rightarrow> tenant_row \<Rightarrow> tenant_row \<Rightarrow> tenant_row" where
  "tenant_assign now cols new old =
     \<lparr>tr_ID = set_text (tr_ID new) (tr_ID old),
      tr_Name = set_text (tr_Name new) (tr_Name old),
      tr_ContactName = set_text (tr_ContactName new) (tr_ContactName old),
      tr_ContactPhone = set_text (tr_ContactPhone new) (tr_ContactPhone old),
      tr_ContactEmail = set_text (tr_ContactEmail new) (tr_ContactEmail old),
      tr_Status = set_text (tr_Status new) (tr_Status old),
      tr_Address = set_text (tr_Address new) (tr_Address old),
      tr_PlanType = set_text (tr_PlanType new) (tr_PlanType old),
      tr_Description = set_text (tr_Description new) (tr_Description old),
      tr_CreditCode = set_text (tr_CreditCode new) (tr_CreditCode old),
      tr_Remark = set_text (tr_Remark new) (tr_Remark old),
      tr_CreatedAt = (if tr_CreatedAt new = 0 then tr_CreatedAt old else tr_CreatedAt new),
      tr_UpdatedAt = now\<rparr>"

fun tenant_group :: "string \<Rightarrow> tenant_row \<Rightarrow> string list" where
  "tenant_group c r = (if c = ''status'' then [tr_Status r] else [])"

fun tenant_order :: "string \<Rightarrow> tenant_row \<Rightarrow> int" where
  "tenant_order c r = (if c = ''created_at DESC'' then - tr_CreatedAt r else 0)"

text \<open>What saving \<open>new\<close> over the stored tenant \<open>old\<close> leaves in the table.\<close>

definition tenant_overlay :: "int \<Rightarrow> tenant \<Rightarrow> tenant \<Rightarrow> tenant" where
  "tenant_overlay now new old =
     tenant_toDomain (tenant_assign now [] (tenant_toEntity new) (tenant_toEntity old))"

locale tenant_db =
  gorm_table db rows set_rows "tenant_holds like" tenant_clash now tenant_stamp tenant_assign
    "\<lambda>t cols r. r" tenant_group tenant_order dup
  for like :: "string \<Rightarrow> string \<Rightarrow> bool" and db :: "'s tenant_gorm" and rows and set_rows and now and dup

sublocale tenant_db < tenants: gorm_entity db rows set_rows "tenant_holds like" tenant_clash now
  tenant_stamp tenant_assign "\<lambda>t cols r. r" tenant_group tenant_order dup
  "\<lambda>id. Where ''id = ?'' [SqlStr id] Model" tr_ID tenant_toDomain tenant_toEntity "[]"
  tenant_overlay "ident ErrTenantNotFound" "[''duplicate'', ''UNIQUE'']"
  "ident ErrTenantAlreadyExists"
  by unfold_locales
    (auto simp: matches_def query_simps tenant_clash_def tenant_stamp_def tenant_assign_def
      set_text_def tenant_overlay_def)

abbreviation "tenant_at rows \<equiv> entity_at rows tr_ID tenant_toDomain"
abbreviation "tenants_ok rows \<equiv> table_intact tenant_clash rows"

definition tenant_ref :: "string \<Rightarrow> (tenant_row list \<times> int) tenant_gorm" where
  "tenant_ref dup = ref_gorm (tenant_holds sql_like) tenant_clash tenant_stamp tenant_assign
     (\<lambda>t cols r. r) tenant_group tenant_order (\<lambda>cols r. []) dup"

lemma tenant_ref_db: "tenant_db sql_like (tenant_ref dup) fst ref_set snd dup"
  unfolding tenant_ref_def tenant_db_def by (rule ref_gorm_table)

interpretation tenant_ref: tenant_db sql_like "tenant_ref dup" fst ref_set snd dup for dup
  by (rule tenant_ref_db)

end
