(* ===== verification/Tenant_Service.thy ===== *)
theory Tenant_Service
  imports Tenant_Store
begin

text \<open>
  The tenant service (\<open>service/tenant_service.go\<close>) and its gRPC server
  (\<open>grpc/tenant_server.go\<close>, \<open>grpc/helpers.go\<close>). Inside \<open>tenant_db\<close> the handlers are run on
  the repository over the GORM table; the state machine theorems rest on \<open>modify\<close>.
\<close>

section \<open>Service\<close>

record CreateTenantRequest =
  ctr_Name :: string
  ctr_ContactName :: string
  ctr_ContactPhone :: string
  ctr_ContactEmail :: string
  ctr_Address :: string
  ctr_PlanType :: string
  ctr_Description :: string
  ctr_CreditCode :: string
  ctr_Remark :: string

record UpdateTenantRequest =
  utr_ID :: string
  utr_Name :: "string option"
  utr_ContactName :: "string option"
  utr_ContactPhone :: "string option"
  utr_ContactEmail :: "string option"
  utr_Address :: "string option"
  utr_PlanType :: "string option"
  utr_Description :: "string option"
  utr_CreditCode :: "string option"
  utr_Remark :: "string option"

record ListTenantsRequest =
  ltr_Status :: string
  ltr_Keyword :: string
  ltr_Page :: int
  ltr_PageSize :: int

record TenantListResponse =
  tlr_Tenants :: "tenant list"
  tlr_Total :: int
  tlr_Page :: int
  tlr_PageSize :: int
  tlr_TotalPages :: int

record TenantSummaryResponse =
  tsr_Total :: int
  tsr_Active :: int
  tsr_Frozen :: int
  tsr_TotalParkingLots :: int
  tsr_AvgParkingLotsPerTenant :: rat

record 's tenant_service =
  ts_CreateTenant :: "CreateTenantRequest \<Rightarrow> (tenant, 's) io"
  ts_GetTenant :: "string \<Rightarrow> (tenant, 's) io"
  ts_ListTenants :: "ListTenantsRequest \<Rightarrow> (TenantListResponse, 's) io"
  ts_UpdateTenant :: "UpdateTenantRequest \<Rightarrow> (tenant, 's) io"
  ts_FreezeTenant :: "string \<Rightarrow> (tenant, 's) io"
  ts_UnfreezeTenant :: "string \<Rightarrow> (tenant, 's) io"
  ts_DeleteTenant :: "string \<Rightarrow> (unit, 's) io"
  ts_GetTenantSummary :: "(TenantSummaryResponse, 's) io"

definition tenantService_CreateTenant ::
  "'s go_env \<Rightarrow> 's tenant_repo \<Rightarrow> CreateTenantRequest \<Rightarrow> (tenant, 's) io" where
  "tenantService_CreateTenant env repo req =
     try_io (trp_GetByName repo (ctr_Name req)) (\<lambda>existing.
       case existing of
         Inr _ \<Rightarrow> fail_io (ident ErrTenantAlreadyExists)
       | Inl _ \<Rightarrow>
           bind_io (ask_io (uuid_New env)) (\<lambda>uid.
           let tenant = (NewTenant (ctr_Name req) (ctr_ContactName req) (ctr_ContactPhone req)
                           (ctr_ContactEmail req) (ctr_Address req) (ctr_PlanType req))
                          \<lparr>t_ID := uid, t_Description := ctr_Description req,
                           t_CreditCode := ctr_CreditCode req, t_Remark := ctr_Remark req\<rparr>
           in bind_io (trp_Create repo tenant) (\<lambda>_. return_io tenant)))"

definition tenantService_GetTenant :: "'s tenant_repo \<Rightarrow> string \<Rightarrow> (tenant, 's) io" where
  "tenantService_GetTenant repo tid = trp_GetByID repo tid"

definition tenantService_ListTenants ::
  "'s tenant_repo \<Rightarrow> ListTenantsRequest \<Rightarrow> (TenantListResponse, 's) io" where
  "tenantService_ListTenants repo req =
     (let page = normal_page (ltr_Page req);
          pageSize = normal_pageSize (ltr_PageSize req);
          tfilter = \<lparr>tf_Status = ltr_Status req, tf_Keyword = ltr_Keyword req\<rparr>
      in bind_io (trp_List repo tfilter page pageSize) (\<lambda>(tenants, n).
         return_io \<lparr>tlr_Tenants = tenants, tlr_Total = n, tlr_Page = page,
                    tlr_PageSize = pageSize, tlr_TotalPages = total_pages n pageSize\<rparr>))"

definition tenant_changes :: "UpdateTenantRequest \<Rightarrow> tenant \<Rightarrow> tenant" where
  "tenant_changes req t =
     t\<lparr>t_Name := assign_if (utr_Name req) (t_Name t),
       t_ContactName := assign_if (utr_ContactName req) (t_ContactName t),
       t_ContactPhone := assign_if (utr_ContactPhone req) (t_ContactPhone t),
       t_ContactEmail := assign_if (utr_ContactEmail req) (t_ContactEmail t),
       t_Address := assign_if (utr_Address req) (t_Address t),
       t_PlanType := assign_if (utr_PlanType req) (t_PlanType t),
       t_Description := assign_if (utr_Description req) (t_Description t),
       t_CreditCode := assign_if (utr_CreditCode req) (t_CreditCode t),
       t_Remark := assign_if (utr_Remark req) (t_Remark t)\<rparr>"

definition tenantService_UpdateTenant ::
  "'s tenant_repo \<Rightarrow> UpdateTenantRequest \<Rightarrow> (tenant, 's) io" where
  "tenantService_UpdateTenant repo req =
     bind_io (trp_GetByID repo (utr_ID req)) (\<lambda>tenant.
     let tenant = tenant_changes req tenant
     in bind_io (trp_Update repo tenant) (\<lambda>_. return_io tenant))"

definition tenantService_FreezeTenant :: "'s tenant_repo \<Rightarrow> string \<Rightarrow> (tenant, 's) io" where
  "tenantService_FreezeTenant repo tid =
     bind_io (trp_GetByID repo tid) (\<lambda>tenant.
     bind_io (lift_io (Tenant_Freeze tenant)) (\<lambda>tenant.
     bind_io (trp_Update repo tenant) (\<lambda>_. return_io tenant)))"

definition tenantService_UnfreezeTenant :: "'s tenant_repo \<Rightarrow> string \<Rightarrow> (tenant, 's) io" where
  "tenantService_UnfreezeTenant repo tid =
     bind_io (trp_GetByID repo tid) (\<lambda>tenant.
     bind_io (lift_io (Tenant_Unfreeze tenant)) (\<lambda>tenant.
     bind_io (trp_Update repo tenant) (\<lambda>_. return_io tenant)))"

definition tenantService_DeleteTenant :: "'s tenant_repo \<Rightarrow> string \<Rightarrow> (unit, 's) io" where
  "tenantService_DeleteTenant repo tid = trp_Delete repo tid"

text \<open>The parking-lot counter is an interface that may be nil.\<close>

definition tenantService_GetTenantSummary ::
  "'s tenant_repo \<Rightarrow> (int, 's) io option \<Rightarrow> (TenantSummaryResponse, 's) io" where
  "tenantService_GetTenantSummary repo counter =
     bind_io (trp_CountByStatus repo) (\<lambda>(active, frozen).
     let n = i64 (active + frozen)
     in bind_io (case counter of None \<Rightarrow> return_io 0 | Some CountParkingLots \<Rightarrow> CountParkingLots)
        (\<lambda>totalParkingLots.
        return_io \<lparr>tsr_Total = n, tsr_Active = active, tsr_Frozen = frozen,
                   tsr_TotalParkingLots = totalParkingLots,
                   tsr_AvgParkingLotsPerTenant =
                     (if 0 < n then f64_div (f64_of_int totalParkingLots) (f64_of_int n)
                      else 0)\<rparr>))"

definition NewTenantService ::
  "'s go_env \<Rightarrow> 's tenant_repo \<Rightarrow> (int, 's) io option \<Rightarrow> 's tenant_service" where
  "NewTenantService env repo counter =
     \<lparr>ts_CreateTenant = tenantService_CreateTenant env repo,
      ts_GetTenant = tenantService_GetTenant repo,
      ts_ListTenants = tenantService_ListTenants repo,
      ts_UpdateTenant = tenantService_UpdateTenant repo,
      ts_FreezeTenant = tenantService_FreezeTenant repo,
      ts_UnfreezeTenant = tenantService_UnfreezeTenant repo,
      ts_DeleteTenant = tenantService_DeleteTenant repo,
      ts_GetTenantSummary = tenantService_GetTenantSummary repo counter\<rparr>"

section \<open>gRPC server\<close>

datatype pb_TenantStatus =
    TENANT_STATUS_UNSPECIFIED | TENANT_STATUS_ACTIVE | TENANT_STATUS_FROZEN
  | TENANT_STATUS_unrecognized int

datatype pb_PlanType =
    PLAN_TYPE_UNSPECIFIED | PLAN_TYPE_FREE | PLAN_TYPE_BASIC | PLAN_TYPE_PRO
  | PLAN_TYPE_ENTERPRISE | PLAN_TYPE_unrecognized int

record pb_Tenant =
  pt_TenantId :: string
  pt_Name :: string
  pt_ContactName :: string
  pt_ContactPhone :: string
  pt_ContactEmail :: string
  pt_Status :: pb_TenantStatus
  pt_Address :: string
  pt_PlanType :: pb_PlanType
  pt_CreatedAt :: "Timestamp option"
  pt_UpdatedAt :: "Timestamp option"
  pt_Description :: string
  pt_CreditCode :: string
  pt_Remark :: string
  pt_ParkingLotCount :: int

record pb_CreateTenantRequest =
  pct_Name :: string
  pct_ContactName :: string
  pct_ContactPhone :: string
  pct_ContactEmail :: string
  pct_Address :: string
  pct_PlanType :: pb_PlanType
  pct_Description :: "string option"
  pct_CreditCode :: "string option"
  pct_Remark :: "string option"

record pb_UpdateTenantRequest =
  put_TenantId :: string
  put_Name :: "string option"
  put_ContactName :: "string option"
  put_ContactPhone :: "string option"
  put_ContactEmail :: "string option"
  put_Address :: "string option"
  put_PlanType :: "pb_PlanType option"
  put_Description :: "string option"
  put_CreditCode :: "string option"
  put_Remark :: "string option"

record pb_ListTenantsRequest =
  plt_Status :: pb_TenantStatus
  plt_Keyword :: string
  plt_Pagination :: "PaginationRequest option"

record pb_ListTenantsResponse =
  plt_Tenants :: "pb_Tenant list"
  plt_PaginationResponse :: PaginationResponse

definition tenant_errorMappings :: "ErrorMapping list" where
  "tenant_errorMappings =
     [\<lparr>em_Target = IdentityErr ErrTenantNotFound, em_Code = NotFound\<rparr>,
      \<lparr>em_Target = IdentityErr ErrTenantAlreadyExists, em_Code = AlreadyExists\<rparr>,
      \<lparr>em_Target = IdentityErr ErrTenantInvalidStatus, em_Code = InvalidArgument\<rparr>]"

definition tenant_toGRPCError :: "go_error \<Rightarrow> go_error" where
  "tenant_toGRPCError err = ToGRPCError err tenant_errorMappings"

definition domainStatusToProto :: "string \<Rightarrow> pb_TenantStatus" where
  "domainStatusToProto s =
     (if s = TenantStatusActive then TENANT_STATUS_ACTIVE
      else if s = TenantStatusFrozen then TENANT_STATUS_FROZEN
      else TENANT_STATUS_UNSPECIFIED)"

fun domainStatusFromProto :: "pb_TenantStatus \<Rightarrow> string" where
  "domainStatusFromProto TENANT_STATUS_ACTIVE = TenantStatusActive"
| "domainStatusFromProto TENANT_STATUS_FROZEN = TenantStatusFrozen"
| "domainStatusFromProto _ = TenantStatusActive"

definition domainPlanToProto :: "string \<Rightarrow> pb_PlanType" where
  "domainPlanToProto p =
     (if p = PlanTypeFree then PLAN_TYPE_FREE
      else if p = PlanTypeBasic then PLAN_TYPE_BASIC
      else if p = PlanTypePro then PLAN_TYPE_PRO
      else if p = PlanTypeEnterprise then PLAN_TYPE_ENTERPRISE
      else PLAN_TYPE_UNSPECIFIED)"

fun domainPlanFromProto :: "pb_PlanType \<Rightarrow> string" where
  "domainPlanFromProto PLAN_TYPE_FREE = PlanTypeFree"
| "domainPlanFromProto PLAN_TYPE_BASIC = PlanTypeBasic"
| "domainPlanFromProto PLAN_TYPE_PRO = PlanTypePro"
| "domainPlanFromProto PLAN_TYPE_ENTERPRISE = PlanTypeEnterprise"
| "domainPlanFromProto _ = PlanTypeFree"

definition toProtoTenant :: "tenant \<Rightarrow> pb_Tenant" where
  "toProtoTenant t =
     \<lparr>pt_TenantId = t_ID t, pt_Name = t_Name t, pt_ContactName = t_ContactName t,
      pt_ContactPhone = t_ContactPhone t, pt_ContactEmail = t_ContactEmail t,
      pt_Status = domainStatusToProto (t_Status t), pt_Address = t_Address t,
      pt_PlanType = domainPlanToProto (t_PlanType t), pt_CreatedAt = toTimestamp (t_CreatedAt t),
      pt_UpdatedAt = toTimestamp (t_UpdatedAt t), pt_Description = t_Description t,
      pt_CreditCode = t_CreditCode t, pt_Remark = t_Remark t,
      pt_ParkingLotCount = t_ParkingLotCount t\<rparr>"

definition TenantGRPCServer_CreateTenant ::
  "'s tenant_service \<Rightarrow> pb_CreateTenantRequest \<Rightarrow> (pb_Tenant, 's) io" where
  "TenantGRPCServer_CreateTenant svc req =
     grpc_reply tenant_toGRPCError (ts_CreateTenant svc
       \<lparr>ctr_Name = pct_Name req, ctr_ContactName = pct_ContactName req,
        ctr_ContactPhone = pct_ContactPhone req, ctr_ContactEmail = pct_ContactEmail req,
        ctr_Address = pct_Address req, ctr_PlanType = domainPlanFromProto (pct_PlanType req),
        ctr_Description = assign_if (pct_Description req) [],
        ctr_CreditCode = assign_if (pct_CreditCode req) [],
        ctr_Remark = assign_if (pct_Remark req) []\<rparr>) toProtoTenant"

definition TenantGRPCServer_GetTenant ::
  "'s tenant_service \<Rightarrow> string \<Rightarrow> (pb_Tenant, 's) io" where
  "TenantGRPCServer_GetTenant svc tid = grpc_reply tenant_toGRPCError (ts_GetTenant svc tid) toProtoTenant"

definition TenantGRPCServer_ListTenants ::
  "'s tenant_service \<Rightarrow> pb_ListTenantsRequest \<Rightarrow> (pb_ListTenantsResponse, 's) io" where
  "TenantGRPCServer_ListTenants svc req =
     (case pagination_or_default (plt_Pagination req) of (page, pageSize) \<Rightarrow>
      grpc_reply tenant_toGRPCError (ts_ListTenants svc
        \<lparr>ltr_Status = domainStatusFromProto (plt_Status req), ltr_Keyword = plt_Keyword req,
         ltr_Page = page, ltr_PageSize = pageSize\<rparr>)
        (\<lambda>resp. \<lparr>plt_Tenants = map toProtoTenant (tlr_Tenants resp),
                 plt_PaginationResponse =
                   \<lparr>pr_Page = page, pr_PageSize = pageSize, pr_Total = tlr_Total resp,
                    pr_TotalPages = i32 (tlr_TotalPages resp)\<rparr>\<rparr>))"

definition TenantGRPCServer_UpdateTenant ::
  "'s tenant_service \<Rightarrow> pb_UpdateTenantRequest \<Rightarrow> (pb_Tenant, 's) io" where
  "TenantGRPCServer_UpdateTenant svc req =
     grpc_reply tenant_toGRPCError (ts_UpdateTenant svc
       \<lparr>utr_ID = put_TenantId req, utr_Name = put_Name req,
        utr_ContactName = put_ContactName req, utr_ContactPhone = put_ContactPhone req,
        utr_ContactEmail = put_ContactEmail req, utr_Address = put_Address req,
        utr_PlanType = map_option domainPlanFromProto (put_PlanType req),
        utr_Description = put_Description req, utr_CreditCode = put_CreditCode req,
        utr_Remark = put_Remark req\<rparr>) toProtoTenant"

definition TenantGRPCServer_FreezeTenant ::
  "'s tenant_service \<Rightarrow> string \<Rightarrow> (pb_Tenant, 's) io" where
  "TenantGRPCServer_FreezeTenant svc tid = grpc_reply tenant_toGRPCError (ts_FreezeTenant svc tid) toProtoTenant"

definition TenantGRPCServer_UnfreezeTenant ::
  "'s tenant_service \<Rightarrow> string \<Rightarrow> (pb_Tenant, 's) io" where
  "TenantGRPCServer_UnfreezeTenant svc tid =
     grpc_reply tenant_toGRPCError (ts_UnfreezeTenant svc tid) toProtoTenant"

definition TenantGRPCServer_DeleteTenant ::
  "'s tenant_service \<Rightarrow> string \<Rightarrow> (unit, 's) io" where
  "TenantGRPCServer_DeleteTenant svc tid = grpc_reply tenant_toGRPCError (ts_DeleteTenant svc tid) (\<lambda>_. ())"

definition TenantGRPCServer_GetTenantSummary ::
  "'s tenant_service \<Rightarrow> (TenantSummaryResponse, 's) io" where
  "TenantGRPCServer_GetTenantSummary svc =
     grpc_reply tenant_toGRPCError (ts_GetTenantSummary svc)
       (\<lambda>summary. \<lparr>tsr_Total = tsr_Total summary, tsr_Active = tsr_Active summary,
                   tsr_Frozen = tsr_Frozen summary,
                   tsr_TotalParkingLots = tsr_TotalParkingLots summary,
                   tsr_AvgParkingLotsPerTenant = tsr_AvgParkingLotsPerTenant summary\<rparr>)"

end
