(* ===== verification/Tenant_Correct.thy ===== *)
theory Tenant_Correct
  imports Tenant_Service
begin

text \<open>
  The correctness of the tenant service on the GORM table: the status state machine, the
  round trip of creation, uniqueness of names, listing and the summary.
\<close>

section \<open>The repository as a store\<close>

abbreviation tenantRepo_of :: "'s tenant_gorm \<Rightarrow> 's tenant_repo" where
  "tenantRepo_of db \<equiv> NewTenantRepo (NewTenantDAO db)"

lemma tenant_by_id: "Select [] (Where c args Model) = Where c args Model"
  by (simp add: query_simps)

lemma tenantRepo_GetByID_eq:
  "trp_GetByID (tenantRepo_of db) =
     (\<lambda>k. bind_io (first_or db (Where ''id = ?'' [SqlStr k] Model) (ident ErrTenantNotFound))
            (\<lambda>r. return_io (tenant_toDomain r)))"
  by (rule ext) (simp add: tenant_store_defs)

lemma tenantRepo_Update_eq:
  "trp_Update (tenantRepo_of db) =
     (\<lambda>e. affected_or (g_Updates db
            (Select [] (Where ''id = ?'' [SqlStr (tr_ID (tenant_toEntity e))] Model))
            (tenant_toEntity e)) (ident ErrTenantNotFound))"
  by (rule ext) (simp add: tenant_store_defs tenant_by_id)

lemma tenantRepo_Create_eq:
  "trp_Create (tenantRepo_of db) =
     (\<lambda>e. create_or db [''duplicate'', ''UNIQUE''] (ident ErrTenantAlreadyExists)
            (tenant_toEntity e))"
  by (rule ext) (simp add: tenant_store_defs)

lemma tenantRepo_Delete_eq:
  "trp_Delete (tenantRepo_of db) =
     (\<lambda>k. affected_or (g_Delete db (Where ''id = ?'' [SqlStr k] Model)) (ident ErrTenantNotFound))"
  by (rule ext) (simp add: tenant_store_defs)

lemmas tenantRepo_eqs =
  tenantRepo_GetByID_eq tenantRepo_Update_eq tenantRepo_Create_eq tenantRepo_Delete_eq

lemma tenant_changes_keeps [simp]:
  "t_Status (tenant_changes req t) = t_Status t" "t_ID (tenant_changes req t) = t_ID t"
  "t_ParkingLotCount (tenant_changes req t) = t_ParkingLotCount t"
  by (simp_all add: tenant_changes_def)

lemma tenant_same_status [simp]:
  "t_Status t = st \<Longrightarrow> t\<lparr>t_Status := st\<rparr> = t"
  "t_Status t = st \<Longrightarrow> t\<lparr>t_Status := st, t_UpdatedAt := n\<rparr> = t\<lparr>t_UpdatedAt := n\<rparr>"
  "t_Status t = st \<Longrightarrow> t\<lparr>t_UpdatedAt := n, t_Status := st\<rparr> = t\<lparr>t_UpdatedAt := n\<rparr>"
  by (cases t; simp)+

lemma tenant_overlay_UpdatedAt: "t_UpdatedAt (tenant_overlay now new old) = now"
  by (simp add: tenant_overlay_def tenant_toDomain_def tenant_assign_def)

lemma tenant_filter_eta: "\<lparr>tf_Status = tf_Status f, tf_Keyword = tf_Keyword f\<rparr> = f"
  by simp

lemma tenant_status_overlay:
  assumes "t_ParkingLotCount t = 0" and "st \<noteq> []"
  shows "tenant_overlay now (t\<lparr>t_Status := st\<rparr>) t = t\<lparr>t_Status := st, t_UpdatedAt := now\<rparr>"
  using assms
  by (simp add: tenant_overlay_def tenant_assign_def tenant_toEntity_def tenant_toDomain_def
      set_text_def)

lemma tenant_at_toDomain: "tenant_at rows s tid = Some t \<Longrightarrow> t_ParkingLotCount t = 0"
  by (auto simp: entity_at_def tenant_toDomain_def)

context tenant_db
begin

lemma get_tenant:
  "tenants_ok rows s \<Longrightarrow>
     trp_GetByID (tenantRepo_of db) tid s =
       (case tenant_at rows s tid of None \<Rightarrow> Inl (ident ErrTenantNotFound) | Some t \<Rightarrow> Inr t, s)"
  using tenants.store.get_found tenants.store.get_missing
  by (auto simp: tenantRepo_eqs split: option.split)

text \<open>A change of the status alone, saved.\<close>

lemma status_change:
  assumes ok: "tenants_ok rows s" and t: "tenant_at rows s tid = Some t"
    and f: "f t = Inr (t\<lparr>t_Status := st\<rparr>)" and st: "st \<noteq> []" "st \<noteq> t_Status t"
  shows "\<exists>s'. modify (trp_GetByID (tenantRepo_of db)) (trp_Update (tenantRepo_of db)) tid
                (\<lambda>t. lift_io (f t)) s = (Inr (t\<lparr>t_Status := st\<rparr>), s') \<and> tenants_ok rows s' \<and>
           tenant_at rows s' =
             (tenant_at rows s)(tid \<mapsto> t\<lparr>t_Status := st, t_UpdatedAt := now s\<rparr>)"
proof -
  let ?e = "t\<lparr>t_Status := st\<rparr>"
  obtain r where r: "row_at rows tr_ID s tid = Some r" "t = tenant_toDomain r"
    using t by (auto simp: entity_at_def)
  have key: "tr_ID (tenant_toEntity ?e) = tid"
    using tenants.find_row_Some [OF r(1)] r(2)
    by (simp add: tenant_toEntity_def tenant_toDomain_def)
  have o: "tenant_overlay (now s) ?e t = t\<lparr>t_Status := st, t_UpdatedAt := now s\<rparr>"
    using tenant_status_overlay tenant_at_toDomain [OF t] st(1) .
  have fits: "row_fits tenant_clash rows tr_ID (tenant_assign (now s) []) s (tenant_toEntity ?e)"
    using ok r key by (intro tenants.fits_same_index)
      (auto simp: tenant_clash_def tenant_assign_def tenant_toEntity_def tenant_toDomain_def
        set_text_def)
  have ne: "tenant_overlay (now s) ?e t \<noteq> t"
    unfolding o using st(2) by (metis tenant.select_convs(6) tenant.surjective tenant.update_convs(6) tenant.update_convs(10))
  have "lift_io (f t) s = (Inr ?e, s)" using f by simp
  from tenants.store.modify_done [where change = "\<lambda>t. lift_io (f t)", OF ok t this ok refl key fits ne]
  show ?thesis unfolding tenantRepo_eqs o .
qed

lemma FreezeTenant_run:
  assumes "tenants_ok rows s" and "tenant_at rows s tid = Some t" and "t_Status t = ''active''"
  shows "\<exists>s'. tenantService_FreezeTenant (tenantRepo_of db) tid s =
                (Inr (t\<lparr>t_Status := ''frozen''\<rparr>), s') \<and> tenants_ok rows s' \<and>
           tenant_at rows s' =
             (tenant_at rows s)(tid \<mapsto> t\<lparr>t_Status := ''frozen'', t_UpdatedAt := now s\<rparr>)"
  using status_change [OF assms(1,2), of Tenant_Freeze "''frozen''"] assms(3)
  by (simp add: tenantService_FreezeTenant_def modify_def Tenant_Freeze_def)

lemma UnfreezeTenant_run:
  assumes "tenants_ok rows s" and "tenant_at rows s tid = Some t" and "t_Status t = ''frozen''"
  shows "\<exists>s'. tenantService_UnfreezeTenant (tenantRepo_of db) tid s =
                (Inr (t\<lparr>t_Status := ''active''\<rparr>), s') \<and> tenants_ok rows s' \<and>
           tenant_at rows s' =
             (tenant_at rows s)(tid \<mapsto> t\<lparr>t_Status := ''active'', t_UpdatedAt := now s\<rparr>)"
  using status_change [OF assms(1,2), of Tenant_Unfreeze "''active''"] assms(3)
  by (simp add: tenantService_UnfreezeTenant_def modify_def Tenant_Unfreeze_def)

lemma FreezeTenant_refused:
  assumes "tenants_ok rows s"
    and "\<not> (\<exists>t. tenant_at rows s tid = Some t \<and> t_Status t = ''active'')"
  shows "tenantService_FreezeTenant (tenantRepo_of db) tid s =
           (Inl (ident (if tenant_at rows s tid = None then ErrTenantNotFound
                        else ErrTenantInvalidStatus)), s)"
  using assms get_tenant [of s tid]
  by (auto simp: tenantService_FreezeTenant_def bind_io_run Tenant_Freeze_def split: option.splits)

lemma UnfreezeTenant_refused:
  assumes "tenants_ok rows s"
    and "\<not> (\<exists>t. tenant_at rows s tid = Some t \<and> t_Status t = ''frozen'')"
  shows "tenantService_UnfreezeTenant (tenantRepo_of db) tid s =
           (Inl (ident (if tenant_at rows s tid = None then ErrTenantNotFound
                        else ErrTenantInvalidStatus)), s)"
  using assms get_tenant [of s tid]
  by (auto simp: tenantService_UnfreezeTenant_def bind_io_run Tenant_Unfreeze_def split: option.splits)

lemma name_matches: "matches (tenant_holds like) (Where ''name = ?'' [SqlStr name] Model) r \<longleftrightarrow> tr_Name r = name"
  by (simp add: matches_def query_simps)

lemma get_by_name:
  assumes "r \<in> set (rows s)" and "tr_Name r = name"
  shows "\<exists>t. trp_GetByName (tenantRepo_of db) name s = (Inr t, s)"
proof -
  obtain r' where "g_First db (Where ''name = ?'' [SqlStr name] Model) s = (Inr r', s)"
    using First_some [of s "Where ''name = ?'' [SqlStr name] Model"] assms
    by (auto simp: name_matches)
  then show ?thesis by (simp add: tenant_store_defs bind_io_run first_or_def map_err_io_run)
qed

lemma get_by_name_none:
  "\<forall>r \<in> set (rows s). tr_Name r \<noteq> name \<Longrightarrow>
     trp_GetByName (tenantRepo_of db) name s = (Inl (ident ErrTenantNotFound), s)"
  using First_none [of s "Where ''name = ?'' [SqlStr name] Model"]
  by (auto simp: name_matches tenant_store_defs bind_io_run first_or_def map_err_io_run)

lemma CreateTenant_taken:
  "r \<in> set (rows s) \<Longrightarrow> tr_Name r = ctr_Name req \<Longrightarrow>
     tenantService_CreateTenant env (tenantRepo_of db) req s =
       (Inl (ident ErrTenantAlreadyExists), s)"
  using get_by_name [of r s "ctr_Name req"]
  by (auto simp: tenantService_CreateTenant_def try_io_run)

lemma CreateTenant_stores:
  assumes ok: "tenants_ok rows s" and name: "\<forall>r \<in> set (rows s). tr_Name r \<noteq> ctr_Name req"
    and u: "uuid_New env s = (uid, s1)" "rows s1 = rows s"
    and fresh: "\<forall>r \<in> set (rows s). tr_ID r \<noteq> uid"
  shows "\<exists>t s'. tenantService_CreateTenant env (tenantRepo_of db) req s = (Inr t, s') \<and>
           t = \<lparr>t_ID = uid, t_Name = ctr_Name req, t_ContactName = ctr_ContactName req,
                t_ContactPhone = ctr_ContactPhone req, t_ContactEmail = ctr_ContactEmail req,
                t_Status = ''active'', t_Address = ctr_Address req,
                t_PlanType = ctr_PlanType req, t_CreatedAt = 0, t_UpdatedAt = 0,
                t_Description = ctr_Description req, t_CreditCode = ctr_CreditCode req,
                t_Remark = ctr_Remark req, t_ParkingLotCount = 0\<rparr> \<and>
           tenants_ok rows s' \<and>
           tenant_at rows s' =
             (tenant_at rows s)(uid \<mapsto> t\<lparr>t_CreatedAt := now s1, t_UpdatedAt := now s1\<rparr>)"
proof -
  define t where "t = (NewTenant (ctr_Name req) (ctr_ContactName req) (ctr_ContactPhone req)
      (ctr_ContactEmail req) (ctr_Address req) (ctr_PlanType req))
        \<lparr>t_ID := uid, t_Description := ctr_Description req,
         t_CreditCode := ctr_CreditCode req, t_Remark := ctr_Remark req\<rparr>"
  have ok1: "tenants_ok rows s1" using ok u by (simp add: table_intact_def)
  have fr: "row_fresh tenant_clash rows s1 (tenant_toEntity t)"
    using name fresh u
    by (auto simp: row_fresh_def tenant_clash_def t_def NewTenant_def tenant_toEntity_def)
  obtain s' where s': "trp_Create (tenantRepo_of db) t s1 = (Inr (), s')" "tenants_ok rows s'"
      "tenant_at rows s' = (tenant_at rows s1)(tr_ID (tenant_toEntity t) \<mapsto>
          tenant_toDomain (tenant_stamp (now s1) (tenant_toEntity t)))"
    using tenants.store.crt_fresh [OF ok1 fr] unfolding tenantRepo_eqs by blast
  have "tenant_at rows s1 = tenant_at rows s"
    by (rule ext) (simp add: entity_at_def row_at_def u)
  moreover have "tenantService_CreateTenant env (tenantRepo_of db) req s = (Inr t, s')"
    using get_by_name_none [OF name] s'(1) u(1)
    by (simp add: tenantService_CreateTenant_def try_io_run bind_io_run ask_io_run t_def Let_def)
  ultimately show ?thesis using s'
    by (simp add: t_def NewTenant_def tenant_toEntity_def tenant_toDomain_def tenant_stamp_def)
qed

lemma DeleteTenant_run:
  assumes "tenants_ok rows s"
  shows "\<exists>s'. tenantService_DeleteTenant (tenantRepo_of db) tid s =
                (if tenant_at rows s tid = None then Inl (ident ErrTenantNotFound) else Inr (), s') \<and>
           tenants_ok rows s' \<and> tenant_at rows s' = (tenant_at rows s)(tid := None)"
proof (cases "tenant_at rows s tid")
  case None
  then show ?thesis using assms tenants.store.del_missing
    by (fastforce simp: tenantService_DeleteTenant_def tenantRepo_eqs)
next
  case (Some t)
  then show ?thesis using assms tenants.store.del_found [of s tid]
    by (simp add: tenantService_DeleteTenant_def tenantRepo_eqs)
qed

text \<open>The tenants a list request asks for.\<close>

lemma query_matches:
  "matches (tenant_holds like) (tenant_query f) r \<longleftrightarrow>
     (tf_Status f = [] \<or> tr_Status r = tf_Status f) \<and>
     (tf_Keyword f = [] \<or>
      (\<exists>x \<in> {tr_Name r, tr_ContactName r, tr_ContactEmail r}.
         like (''%'' @ tf_Keyword f @ ''%'') x))"
  by (auto simp: matches_def tenant_query_def query_simps like_pattern_def Let_def)

lemma FindAll_run:
  "\<exists>xs. mset xs = mset (filter (matches (tenant_holds like) (tenant_query f)) (rows s)) \<and>
     sorted (map (\<lambda>r. - tr_CreatedAt r) xs) \<and>
     trp_List (tenantRepo_of db) f page pageSize s =
       (Inr (map tenant_toDomain
               (take (nat pageSize) (drop (nat (i64 (i64 (page - 1) * pageSize))) xs)),
             int (length xs)), s)"
proof -
  let ?q = "Order ''created_at DESC''
              (Page (i64 (i64 (page - 1) * pageSize)) pageSize (tenant_query f))"
  have m: "matches (tenant_holds like) ?q = matches (tenant_holds like) (tenant_query f)"
    by (rule ext) (simp add: matches_def query_simps)
  obtain xs where xs: "mset xs = mset (filter (matches (tenant_holds like) (tenant_query f)) (rows s))"
      "sorted (map (tenant_order (q_order ?q)) xs)" "g_Find db ?q s = (Inr (page_of ?q xs), s)"
    using Find_page [of ?q s] unfolding m by blast
  have "length (filter (matches (tenant_holds like) (tenant_query f)) (rows s)) = length xs"
    by (metis xs(1) size_mset)
  moreover have "tenant_order (q_order ?q) = (\<lambda>r. - tr_CreatedAt r)"
    by (rule ext) (simp add: query_simps)
  ultimately show ?thesis using xs
    by (intro exI [of _ xs]) (simp add: tenant_store_defs bind_io_run count_and_page_def
        Count_matching page_of_def query_simps tenant_filter_eta Let_def)
qed

lemma CountByStatus_run:
  "trp_CountByStatus (tenantRepo_of db) s =
     (Inr (int (length (filter (\<lambda>r. tr_Status r = ''active'') (rows s))),
           int (length (filter (\<lambda>r. tr_Status r = ''frozen'') (rows s)))), s)"
proof -
  define q where "q = Group ''status'' (Select [''status'', ''count(*) as count''] Model)"
  define cnt where "cnt k = int (length (filter (\<lambda>r. matches (tenant_holds like) q r \<and>
              tenant_group (q_group q) r = k) (rows s)))" for k
  obtain ks where ks: "distinct ks"
      "set ks = tenant_group (q_group q) ` set (filter (matches (tenant_holds like) q) (rows s))"
      "g_ScanCounts db q s = (Inr (map (\<lambda>k. (k, cnt k)) ks), s)"
    using ScanCounts_groups [of q s] unfolding cnt_def by blast
  have m: "matches (tenant_holds like) q r" for r by (simp add: q_def matches_def query_simps)
  have g: "tenant_group (q_group q) r = [tr_Status r]" for r by (simp add: q_def query_simps)
  have c: "cnt [k] = int (length (filter (\<lambda>r. tr_Status r = k) (rows s)))" for k
    unfolding cnt_def by (simp only: m g) simp
  have ins: "[tr_Status r] \<in> set ks" if "r \<in> set (rows s)" for r
    unfolding ks(2) g [symmetric] using that m by (intro imageI) simp
  have z: "cnt [k] = 0" if "[k] \<notin> set ks" for k
    using that ins by (auto simp: c filter_empty_conv)
  have "tally a b (x, y) (map (\<lambda>k. (k, cnt k)) ks) =
      (if [a] \<in> set ks then cnt [a] else x, if [b] \<in> set ks then cnt [b] else y)"
    if "a \<noteq> b" for a b x y
    using ks(1) that by (induction ks arbitrary: x y) auto
  then have "tally ''active'' ''frozen'' (0, 0) (map (\<lambda>k. (k, cnt k)) ks) =
      (cnt [''active''], cnt [''frozen''])"
    using z by simp
  then show ?thesis
    by (simp add: tenant_store_defs bind_io_run ks(3) c flip: q_def)
qed

text \<open>
  \<open>UpdateTenant\<close>: the answer shows the requested values; the table gets those that are not
  empty. A name taken by another tenant is refused by the database.
\<close>

lemma UpdateTenant_run:
  assumes ok: "tenants_ok rows s" and t: "tenant_at rows s (utr_ID req) = Some t"
    and free: "\<forall>r \<in> set (rows s). tr_ID r \<noteq> utr_ID req \<longrightarrow>
                 tr_Name r \<noteq> t_Name (tenant_overlay (now s) (tenant_changes req t) t)"
  shows "\<exists>n s'. g_Updates db (Where ''id = ?'' [SqlStr (utr_ID req)] Model) (tenant_toEntity (tenant_changes req t)) s =
             (Inr n, s') \<and> 0 \<le> n \<and> n \<le> 1 \<and>
           (tenant_overlay (now s) (tenant_changes req t) t \<noteq> t \<longrightarrow> n = 1) \<and>
           tenantService_UpdateTenant (tenantRepo_of db) req s =
             (if n = 0 then Inl (ident ErrTenantNotFound) else Inr (tenant_changes req t), s') \<and>
           tenants_ok rows s' \<and>
           tenant_at rows s' = (tenant_at rows s)
             (utr_ID req \<mapsto> tenant_overlay (now s) (tenant_changes req t) t)"
proof -
  let ?e = "tenant_changes req t"
  let ?a = "tenant_assign (now s) [] (tenant_toEntity ?e)"
  obtain r where r: "row_at rows tr_ID s (utr_ID req) = Some r" "t = tenant_toDomain r"
    using t by (auto simp: entity_at_def)
  have rin: "r \<in> set (rows s)" "tr_ID r = utr_ID req" using tenants.find_row_Some [OF r(1)] by auto
  have key: "tr_ID (tenant_toEntity ?e) = utr_ID req"
    using rin r(2) by (simp add: tenant_toEntity_def tenant_toDomain_def)
  have changed: "tr_ID (?a r) = utr_ID req" "tr_Name (?a r) = t_Name (tenant_overlay (now s) ?e t)"
    using key rin by (simp_all add: tenant_assign_def tenant_overlay_def r(2) set_text_def)
      (simp_all add: tenant_toDomain_def)
  have fits: "row_fits tenant_clash rows tr_ID (tenant_assign (now s) []) s (tenant_toEntity ?e)"
    by (rule tenants.fits_no_clash [OF ok, of _ r])
      (use r(1) free in \<open>simp_all add: key changed tenant_clash_def eq_commute\<close>)
  have "lift_io (Inr (tenant_changes req t)) s = (Inr ?e, s)" by simp
  from tenants.modify_counted [where change = "\<lambda>t. lift_io (Inr (tenant_changes req t))",
      OF ok t this refl key fits]
  obtain n s' where n: "g_Updates db (Select [] (Where ''id = ?'' [SqlStr (utr_ID req)] Model)) (tenant_toEntity ?e) s =
        (Inr n, s')" "0 \<le> n" "n \<le> 1" "tenant_overlay (now s) ?e t \<noteq> t \<longrightarrow> n = 1"
      "modify (trp_GetByID (tenantRepo_of db)) (trp_Update (tenantRepo_of db)) (utr_ID req)
         (\<lambda>t. lift_io (Inr (tenant_changes req t))) s =
         (if n = 0 then Inl (ident ErrTenantNotFound) else Inr ?e, s')"
      "tenants_ok rows s'" "tenant_at rows s' = (tenant_at rows s)(utr_ID req \<mapsto> tenant_overlay (now s) ?e t)"
    unfolding tenantRepo_eqs [symmetric] by blast
  moreover have "tenantService_UpdateTenant (tenantRepo_of db) req =
      modify (trp_GetByID (tenantRepo_of db)) (trp_Update (tenantRepo_of db)) (utr_ID req)
        (\<lambda>t. lift_io (Inr (tenant_changes req t)))"
    by (simp add: tenantService_UpdateTenant_def modify_def Let_def)
  ultimately show ?thesis by (intro exI [of _ n] exI [of _ s']) (simp add: tenant_by_id)
qed

lemma UpdateTenant_missing:
  "tenants_ok rows s \<Longrightarrow> tenant_at rows s (utr_ID req) = None \<Longrightarrow>
     tenantService_UpdateTenant (tenantRepo_of db) req s = (Inl (ident ErrTenantNotFound), s)"
  by (simp add: tenantService_UpdateTenant_def bind_io_run get_tenant)

lemma UpdateTenant_clash:
  assumes ok: "tenants_ok rows s" and t: "tenant_at rows s (utr_ID req) = Some t"
    and taken: "r' \<in> set (rows s)" "tr_ID r' \<noteq> utr_ID req"
      "tr_Name r' = t_Name (tenant_overlay (now s) (tenant_changes req t) t)"
  shows "tenantService_UpdateTenant (tenantRepo_of db) req s = (Inl (Opaque dup), s)"
proof -
  let ?e = "tenant_changes req t"
  let ?q = "Where ''id = ?'' [SqlStr (utr_ID req)] Model"
  let ?a = "tenant_assign (now s) [] (tenant_toEntity ?e)"
  let ?f = "\<lambda>x. if matches (tenant_holds like) ?q x
              then tenant_assign (now s) (q_select ?q) (tenant_toEntity ?e) x else x"
  obtain r where r: "row_at rows tr_ID s (utr_ID req) = Some r" "t = tenant_toDomain r"
    using t by (auto simp: entity_at_def)
  have rin: "r \<in> set (rows s)" "tr_ID r = utr_ID req" using tenants.find_row_Some [OF r(1)] by auto
  have key: "tr_ID (tenant_toEntity ?e) = utr_ID req"
    using rin r(2) by (simp add: tenant_toEntity_def tenant_toDomain_def)
  have m: "matches (tenant_holds like) ?q x \<longleftrightarrow> tr_ID x = utr_ID req" for x
    by (simp add: matches_def query_simps)
  have name: "tr_Name (?a r) = tr_Name r'"
    by (simp add: taken(3) tenant_overlay_def r(2)) (simp add: tenant_toDomain_def)
  have "q_select ?q = []" by (simp add: query_simps)
  then have c: "tenant_clash (?f r) (?f r')" "tenant_clash (?f r') (?f r)"
    using name taken(2) rin(2) by (simp_all add: m tenant_clash_def)
  have "\<not> sorted_wrt (\<lambda>x y. \<not> tenant_clash (?f y) (?f x)) (rows s)"
  proof
    assume s: "sorted_wrt (\<lambda>x y. \<not> tenant_clash (?f y) (?f x)) (rows s)"
    obtain i where i: "i < length (rows s)" "rows s ! i = r" using rin(1) by (meson in_set_conv_nth)
    obtain j where j: "j < length (rows s)" "rows s ! j = r'" using taken(1) by (meson in_set_conv_nth)
    have "i \<noteq> j" using i j rin(2) taken(2) by auto
    then consider "i < j" | "j < i" by linarith
    then show False using sorted_wrt_nth_less [OF s] i j c by cases metis+
  qed
  then have "\<not> unclashing tenant_clash (map ?f (rows s))"
    by (simp add: unclashing_def sorted_wrt_map)
  then have "g_Updates db ?q (tenant_toEntity ?e) s = (Inl (Opaque dup), s)"
    by (rule Updates_clash)
  then show ?thesis using get_tenant [OF ok, of "utr_ID req"] t key
    by (simp add: tenantService_UpdateTenant_def bind_io_run Let_def tenantRepo_Update_eq
        tenant_by_id affected_or_def)
qed

end

end
