(* ===== verification/Tenant_Props.thy ===== *)
theory Tenant_Props
  imports Tenant_Correct
begin

text \<open>
  The properties of the tenant RPCs: the handlers of \<open>grpc/tenant_server.go\<close> over the service,
  the repository and the GORM table, composed as \<open>grpc/register.go\<close> composes them.
\<close>

definition tenant_server ::
  "'s go_env \<Rightarrow> 's tenant_gorm \<Rightarrow> (int, 's) io option \<Rightarrow> 's tenant_service" where
  "tenant_server env db counter = NewTenantService env (NewTenantRepo (NewTenantDAO db)) counter"

lemmas tenant_server_defs =
  tenant_server_def NewTenantService_def TenantGRPCServer_CreateTenant_def TenantGRPCServer_GetTenant_def
  TenantGRPCServer_ListTenants_def TenantGRPCServer_UpdateTenant_def
  TenantGRPCServer_FreezeTenant_def TenantGRPCServer_UnfreezeTenant_def
  TenantGRPCServer_DeleteTenant_def TenantGRPCServer_GetTenantSummary_def

lemma tenant_codes [simp]:
  "tenant_toGRPCError (ident ErrTenantNotFound) = StatusErr NotFound ''tenant not found''"
  "tenant_toGRPCError (ident ErrTenantAlreadyExists) =
     StatusErr AlreadyExists ''tenant already exists''"
  "tenant_toGRPCError (ident ErrTenantInvalidStatus) =
     StatusErr InvalidArgument ''invalid tenant status transition''"
  by (simp_all add: tenant_toGRPCError_def tenant_errorMappings_def)

lemma Tenant_Freeze_valid: "Tenant_Freeze t = Inr t' \<Longrightarrow> t_Status t' \<in> {''active'', ''frozen''}"
  by (auto simp: Tenant_Freeze_def split: if_splits)

lemma Tenant_Unfreeze_valid: "Tenant_Unfreeze t = Inr t' \<Longrightarrow> t_Status t' \<in> {''active'', ''frozen''}"
  by (auto simp: Tenant_Unfreeze_def split: if_splits)

section \<open>Invariant of the table\<close>

text \<open>One RPC, whatever its request, as a step of the world.\<close>

inductive tenant_rpc ::
  "'s go_env \<Rightarrow> 's tenant_gorm \<Rightarrow> (int, 's) io option \<Rightarrow> 's \<Rightarrow> 's \<Rightarrow> bool"
  for env db counter where
  create: "tenant_rpc env db counter s
     (snd (TenantGRPCServer_CreateTenant (tenant_server env db counter) req s))"
| get: "tenant_rpc env db counter s
     (snd (TenantGRPCServer_GetTenant (tenant_server env db counter) tid s))"
| list: "tenant_rpc env db counter s
     (snd (TenantGRPCServer_ListTenants (tenant_server env db counter) lreq s))"
| update: "tenant_rpc env db counter s
     (snd (TenantGRPCServer_UpdateTenant (tenant_server env db counter) ureq s))"
| freeze: "tenant_rpc env db counter s
     (snd (TenantGRPCServer_FreezeTenant (tenant_server env db counter) tid s))"
| unfreeze: "tenant_rpc env db counter s
     (snd (TenantGRPCServer_UnfreezeTenant (tenant_server env db counter) tid s))"
| delete: "tenant_rpc env db counter s
     (snd (TenantGRPCServer_DeleteTenant (tenant_server env db counter) tid s))"
| summary: "tenant_rpc env db counter s
     (snd (TenantGRPCServer_GetTenantSummary (tenant_server env db counter) s))"

definition tenant_row_valid :: "tenant_row \<Rightarrow> bool" where
  "tenant_row_valid r = (tr_Status r \<in> {''active'', ''frozen''})"

definition tenant_table_valid :: "('s \<Rightarrow> tenant_row list) \<Rightarrow> 's \<Rightarrow> bool" where
  "tenant_table_valid rows s \<longleftrightarrow> tenants_ok rows s \<and> (\<forall>r \<in> set (rows s). tenant_row_valid r)"

context tenant_db
begin

lemma first_valid:
  assumes "tenant_table_valid rows s" and "g_First db q s = (Inr r, s')"
  shows "s' = s \<and> tenant_row_valid r"
  using assms by (cases rule: tenants.First_run [where s = s and q = q]) (auto simp: tenant_table_valid_def)

lemma first_same: "snd (g_First db q s) = s"
  by (cases rule: tenants.First_run [where s = s and q = q]) auto

lemma get_valid:
  "tenant_table_valid rows s \<Longrightarrow> trp_GetByID (tenantRepo_of db) tid s = (Inr t, s') \<Longrightarrow>
     s' = s \<and> t_Status t \<in> {''active'', ''frozen''}"
  using first_valid [of s "Where ''id = ?'' [SqlStr tid] Model"]
  by (auto simp: tenantRepo_eqs bind_io_run first_or_def map_err_io_run tenant_row_valid_def
      tenant_toDomain_def split: prod.splits sum.splits)

lemma get_same [simp]:
  "snd (trp_GetByID (tenantRepo_of db) tid s) = s" "snd (trp_GetByName (tenantRepo_of db) nm s) = s"
  by (simp_all add: tenant_store_defs first_same)

lemma update_valid:
  assumes "tenant_table_valid rows s" and "t_Status t \<in> {''active'', ''frozen''}"
  shows "tenant_table_valid rows (snd (trp_Update (tenantRepo_of db) t s))"
  using assms tenants.Updates_keeps [of s tenant_row_valid _ "tenant_toEntity t"]
  by (simp add: tenantRepo_eqs tenant_table_valid_def tenant_row_valid_def tenant_assign_def
      tenant_toEntity_def set_text_def)

lemma create_valid:
  assumes "tenant_table_valid rows s" and "t_Status t \<in> {''active'', ''frozen''}"
  shows "tenant_table_valid rows (snd (trp_Create (tenantRepo_of db) t s))"
  using assms tenants.Create_keeps [of s tenant_row_valid "tenant_toEntity t"]
  by (simp add: tenantRepo_eqs tenant_table_valid_def tenant_row_valid_def tenant_stamp_def
      tenant_toEntity_def)

text \<open>What each call of the service does to a valid table, and what it gives back.\<close>

abbreviation "tvalid \<equiv> tenant_table_valid rows"

abbreviation "savable t \<equiv> t_Status t \<in> {''active'', ''frozen''}"

lemma tenant_steps:
  "io_inv tvalid (trp_GetByID (tenantRepo_of db) tid) savable"
  "io_inv tvalid (trp_GetByName (tenantRepo_of db) nm) (\<lambda>_. True)"
  "savable t \<Longrightarrow> io_inv tvalid (trp_Update (tenantRepo_of db) t) (\<lambda>_. True)"
  "savable t \<Longrightarrow> io_inv tvalid (trp_Create (tenantRepo_of db) t) (\<lambda>_. True)"
  "io_inv tvalid (trp_Delete (tenantRepo_of db) tid) (\<lambda>_. True)"
  "io_inv tvalid (trp_List (tenantRepo_of db) tf p n) (\<lambda>_. True)"
  "io_inv tvalid (trp_CountByStatus (tenantRepo_of db)) (\<lambda>_. True)"
proof -
  show "io_inv tvalid (trp_GetByID (tenantRepo_of db) tid) savable"
    using get_valid unfolding io_inv_def by (metis get_same(1) prod.collapse)
  have "snd (trp_List (tenantRepo_of db) tf p n s) = s" for s using FindAll_run [of tf s p n] by auto
  then show "io_inv tvalid (trp_List (tenantRepo_of db) tf p n) (\<lambda>_. True)" by (simp add: io_inv_def)
  show "io_inv tvalid (trp_Delete (tenantRepo_of db) tid) (\<lambda>_. True)"
    using tenants.Delete_keeps [of _ tenant_row_valid] by (auto simp: io_inv_def tenantRepo_eqs tenant_table_valid_def)
qed (simp_all add: io_inv_def update_valid create_valid CountByStatus_run)

lemma tenant_keeps:
  assumes "\<And>t t'. savable t \<Longrightarrow> f t = Inr t' \<Longrightarrow> savable t'"
  shows "io_inv tvalid (bind_io (trp_GetByID (tenantRepo_of db) tid) (\<lambda>t. bind_io (lift_io (f t)) (\<lambda>t'.
     bind_io (trp_Update (tenantRepo_of db) t') (\<lambda>_. return_io t')))) (\<lambda>_. True)"
  by (rule io_inv_bind [OF tenant_steps(1)], rule io_inv_bind [where P = savable])
    (use assms in \<open>auto intro: io_inv_bind [OF tenant_steps(3)]\<close>)

lemma tenant_services_valid:
  assumes uuid: "\<forall>s. rows (snd (uuid_New env s)) = rows s"
    and count: "\<forall>c s. counter = Some c \<longrightarrow> rows (snd (c s)) = rows s"
  shows "io_inv tvalid (tenantService_CreateTenant env (tenantRepo_of db) creq) (\<lambda>_. True)"
    and "io_inv tvalid (tenantService_UpdateTenant (tenantRepo_of db) ureq) (\<lambda>_. True)"
    and "io_inv tvalid (tenantService_FreezeTenant (tenantRepo_of db) tid) (\<lambda>_. True)"
    and "io_inv tvalid (tenantService_UnfreezeTenant (tenantRepo_of db) tid) (\<lambda>_. True)"
    and "io_inv tvalid (tenantService_GetTenantSummary (tenantRepo_of db) counter) (\<lambda>_. True)"
    and "io_inv tvalid (tenantService_ListTenants (tenantRepo_of db) lreq) (\<lambda>_. True)"
proof -
  have same: "io_inv tvalid m (\<lambda>_. True)" if "\<And>s. rows (snd (m s)) = rows s" for m :: "('x, 's) io"
    using that by (simp add: io_inv_def tenant_table_valid_def table_intact_def)
  have "io_inv tvalid (ask_io (uuid_New env)) (\<lambda>_. True)" by (rule same) (simp add: ask_io_run uuid)
  then show "io_inv tvalid (tenantService_CreateTenant env (tenantRepo_of db) creq) (\<lambda>_. True)"
    unfolding tenantService_CreateTenant_def Let_def
    by (auto simp: NewTenant_def intro!: io_inv_try [OF tenant_steps(2)] io_inv_bind [where P = "\<lambda>_. True"]
        tenant_steps(4) split: sum.split)
  show "io_inv tvalid (tenantService_UpdateTenant (tenantRepo_of db) ureq) (\<lambda>_. True)"
  proof -
    have "savable t'" if "savable t" "Inr (tenant_changes ureq t) = (Inr t' :: go_error + tenant)" for t t'
      using that by auto
    from tenant_keeps [where f = "\<lambda>t. Inr (tenant_changes ureq t)", OF this]
    show ?thesis by (simp add: tenantService_UpdateTenant_def Let_def)
  qed
  show "io_inv tvalid (tenantService_FreezeTenant (tenantRepo_of db) tid) (\<lambda>_. True)"
    "io_inv tvalid (tenantService_UnfreezeTenant (tenantRepo_of db) tid) (\<lambda>_. True)"
    unfolding tenantService_FreezeTenant_def tenantService_UnfreezeTenant_def
    by (rule tenant_keeps, erule Tenant_Freeze_valid Tenant_Unfreeze_valid)+
  have "io_inv tvalid (case counter of None \<Rightarrow> return_io 0 | Some c \<Rightarrow> c) (\<lambda>_. True)"
    using count by (auto intro: same split: option.split)
  then show "io_inv tvalid (tenantService_GetTenantSummary (tenantRepo_of db) counter) (\<lambda>_. True)"
    unfolding tenantService_GetTenantSummary_def Let_def
    by (auto intro!: io_inv_bind [OF tenant_steps(7)] io_inv_bind [where P = "\<lambda>_. True"] split: prod.split)
  show "io_inv tvalid (tenantService_ListTenants (tenantRepo_of db) lreq) (\<lambda>_. True)"
    unfolding tenantService_ListTenants_def Let_def
    by (rule io_inv_bind [OF tenant_steps(6)]) (simp split: prod.split)
qed

lemma rpc_valid:
  assumes "tenant_rpc env db counter s s'" and "tenant_table_valid rows s"
    and "\<And>s. rows (snd (uuid_New env s)) = rows s"
    and "\<And>c s. counter = Some c \<Longrightarrow> rows (snd (c s)) = rows s"
  shows "tenant_table_valid rows s'"
proof -
  have "\<forall>s. rows (snd (uuid_New env s)) = rows s" "\<forall>c s. counter = Some c \<longrightarrow> rows (snd (c s)) = rows s"
    using assms(3,4) by auto
  note services = tenant_services_valid [OF this, THEN io_invD, OF assms(2)]
  from assms(1) show ?thesis
    by cases (simp_all add: tenant_server_defs tenantService_GetTenant_def tenantService_DeleteTenant_def assms(2)
      services tenant_steps(5) [THEN io_invD, OF assms(2)] split: prod.split)
qed

end

section \<open>Properties\<close>

definition tenant_example :: tenant_row where
  "tenant_example =
     \<lparr>tr_ID = ''t1'', tr_Name = ''Acme'', tr_ContactName = ''Li'', tr_ContactPhone = ''13800138000'',
      tr_ContactEmail = ''li@acme.cn'', tr_Status = ''active'', tr_Address = ''1 Road'',
      tr_PlanType = ''free'', tr_Description = [], tr_CreditCode = [], tr_Remark = [],
      tr_CreatedAt = 5, tr_UpdatedAt = 5\<rparr>"

lemmas tenant_example_simps =
  tenant_example_def entity_at_def row_at_def table_intact_def unclashing_def tenant_clash_def
  tenant_toDomain_def

text \<open>
  No sequence of tenant RPCs, with whatever requests and in whatever order, breaks the
  table: names and identifiers stay unique and every stored status stays active or frozen,
  provided the UUID generator and the parking-lot counter do not write to the tenants table.
\<close>
theorem tenant_rpcs_keep_table:
  assumes "tenant_db like db rows set_rows now dup"
    and "\<And>s. rows (snd (uuid_New env s)) = rows s"
    and "\<And>c s. counter = Some c \<Longrightarrow> rows (snd (c s)) = rows s"
    and "(tenant_rpc env db counter)\<^sup>*\<^sup>* s s'"
    and "tenant_table_valid rows s"
  shows "tenant_table_valid rows s'"
  using assms(4,5)
  by (induction rule: rtranclp_induct)
    (auto intro: tenant_db.rpc_valid [OF assms(1)] assms(2,3))

lemma tenant_rpcs_keep_table_witness:
  "tenant_table_valid fst (snd (TenantGRPCServer_FreezeTenant
     (tenant_server ref_env (tenant_ref ''dup'') None) ''t1'' ([tenant_example], 9)))"
  by (rule tenant_rpcs_keep_table [OF tenant_ref_db [of "''dup''"], where env = ref_env
        and counter = None and s = "([tenant_example], 9)"])
    (auto simp: ref_env_def tenant_table_valid_def tenant_row_valid_def tenant_example_simps
      intro: tenant_rpc.freeze)

text \<open>
  C20: FreezeTenant answers NotFound for an unknown tenant and InvalidArgument for one that is
  not active, both without effect; an active tenant becomes frozen, the answer shows it, and
  the stored tenant differs only in its status and its update time, all others not at all.
\<close>
theorem freeze_tenant_machine:
  assumes "tenant_db like db rows set_rows now dup" and "tenants_ok rows s"
  shows "let run = TenantGRPCServer_FreezeTenant (tenant_server env db counter) tid s in
         case tenant_at rows s tid of
           None \<Rightarrow> run = (Inl (StatusErr NotFound ''tenant not found''), s)
         | Some t \<Rightarrow>
             if t_Status t = ''active''
             then \<exists>s'. run = (Inr (toProtoTenant (t\<lparr>t_Status := ''frozen''\<rparr>)), s') \<and>
                       tenants_ok rows s' \<and>
                       tenant_at rows s' = (tenant_at rows s)
                         (tid \<mapsto> t\<lparr>t_Status := ''frozen'', t_UpdatedAt := now s\<rparr>)
             else run = (Inl (StatusErr InvalidArgument ''invalid tenant status transition''), s)"
proof (cases "\<exists>t. tenant_at rows s tid = Some t \<and> t_Status t = ''active''")
  case True
  then obtain t where t: "tenant_at rows s tid = Some t" "t_Status t = ''active''" by blast
  from tenant_db.FreezeTenant_run [OF assms this] show ?thesis
    by (auto simp: t tenant_server_defs grpc_reply_run)
next
  case False
  from tenant_db.FreezeTenant_refused [OF assms False] False show ?thesis
    by (auto simp: tenant_server_defs grpc_reply_run Let_def split: option.split)
qed

lemma freeze_tenant_machine_witness:
  "\<exists>s'. TenantGRPCServer_FreezeTenant (tenant_server ref_env (tenant_ref ''dup'') None) ''t1''
          ([tenant_example], 9) =
        (Inr (toProtoTenant ((tenant_toDomain tenant_example)\<lparr>t_Status := ''frozen''\<rparr>)), s')"
  using freeze_tenant_machine [OF tenant_ref_db [of "''dup''"], of "([tenant_example], 9)"
      ref_env None "''t1''"]
  by (auto simp: tenant_example_simps Let_def)

text \<open>
  UnfreezeTenant undoes FreezeTenant: on an active tenant the two calls both succeed, and
  afterwards the tenant is stored as before, active, with only its update time advanced.
\<close>
theorem freeze_unfreeze_roundtrip:
  assumes "tenant_db like db rows set_rows now dup" and "tenants_ok rows s"
    and "tenant_at rows s tid = Some t" and "t_Status t = ''active''"
  shows "\<exists>s1 s2. TenantGRPCServer_FreezeTenant (tenant_server env db counter) tid s =
             (Inr (toProtoTenant (t\<lparr>t_Status := ''frozen''\<rparr>)), s1) \<and>
           TenantGRPCServer_UnfreezeTenant (tenant_server env db counter) tid s1 =
             (Inr (toProtoTenant (t\<lparr>t_UpdatedAt := now s\<rparr>)), s2) \<and>
           tenants_ok rows s2 \<and>
           tenant_at rows s2 = (tenant_at rows s)(tid \<mapsto> t\<lparr>t_UpdatedAt := now s1\<rparr>)"
proof -
  obtain s1 where 1: "tenantService_FreezeTenant (tenantRepo_of db) tid s =
        (Inr (t\<lparr>t_Status := ''frozen''\<rparr>), s1)" "tenants_ok rows s1"
      "tenant_at rows s1 =
        (tenant_at rows s)(tid \<mapsto> t\<lparr>t_Status := ''frozen'', t_UpdatedAt := now s\<rparr>)"
    using tenant_db.FreezeTenant_run [OF assms] by blast
  then have "tenant_at rows s1 tid = Some (t\<lparr>t_Status := ''frozen'', t_UpdatedAt := now s\<rparr>)"
    by simp
  from tenant_db.UnfreezeTenant_run [OF assms(1) 1(2) this] assms(4) 1
  show ?thesis by (auto simp: tenant_server_defs grpc_reply_run)
qed

lemma freeze_unfreeze_roundtrip_witness:
  "\<exists>s1 s2. TenantGRPCServer_UnfreezeTenant
        (tenant_server ref_env (tenant_ref ''dup'') None) ''t1'' s1 =
      (Inr (toProtoTenant (tenant_toDomain (tenant_example\<lparr>tr_UpdatedAt := 9\<rparr>))), s2)"
  using freeze_unfreeze_roundtrip [OF tenant_ref_db [of "''dup''"],
      of "([tenant_example], 9)" "''t1''" "tenant_toDomain tenant_example" ref_env None]
  by (auto simp: tenant_example_simps)

text \<open>
  C21: CreateTenant refuses a taken name with AlreadyExists and no effect. Otherwise the tenant
  is stored active under the fresh identifier with the requested values (an absent optional
  text is empty), and GetTenant then answers exactly these; the answer of CreateTenant itself
  lacks the two timestamps that the database fills in.
\<close>
theorem create_then_get_tenant:
  assumes "tenant_db like db rows set_rows now dup" and "tenants_ok rows s"
    and "uuid_New env s = (uid, s1)" and "rows s1 = rows s"
    and "\<forall>r \<in> set (rows s). tr_ID r \<noteq> uid"
  shows "let run = TenantGRPCServer_CreateTenant (tenant_server env db counter) req s;
             t = \<lparr>t_ID = uid, t_Name = pct_Name req, t_ContactName = pct_ContactName req,
                  t_ContactPhone = pct_ContactPhone req, t_ContactEmail = pct_ContactEmail req,
                  t_Status = ''active'', t_Address = pct_Address req,
                  t_PlanType = domainPlanFromProto (pct_PlanType req),
                  t_CreatedAt = 0, t_UpdatedAt = 0,
                  t_Description = assign_if (pct_Description req) [],
                  t_CreditCode = assign_if (pct_CreditCode req) [],
                  t_Remark = assign_if (pct_Remark req) [], t_ParkingLotCount = 0\<rparr>
         in if \<exists>r \<in> set (rows s). tr_Name r = pct_Name req
            then run = (Inl (StatusErr AlreadyExists ''tenant already exists''), s)
            else \<exists>s'. run = (Inr (toProtoTenant t), s') \<and> tenants_ok rows s' \<and>
                   TenantGRPCServer_GetTenant (tenant_server env db counter) uid s' =
                     (Inr (toProtoTenant (t\<lparr>t_CreatedAt := now s1, t_UpdatedAt := now s1\<rparr>)), s') \<and>
                   (\<forall>k. k \<noteq> uid \<longrightarrow> tenant_at rows s' k = tenant_at rows s k)"
proof -
  define creq where "creq = \<lparr>ctr_Name = pct_Name req, ctr_ContactName = pct_ContactName req,
        ctr_ContactPhone = pct_ContactPhone req, ctr_ContactEmail = pct_ContactEmail req,
        ctr_Address = pct_Address req, ctr_PlanType = domainPlanFromProto (pct_PlanType req),
        ctr_Description = assign_if (pct_Description req) [],
        ctr_CreditCode = assign_if (pct_CreditCode req) [],
        ctr_Remark = assign_if (pct_Remark req) []\<rparr>"
  have run: "TenantGRPCServer_CreateTenant (tenant_server env db counter) req s =
      grpc_reply tenant_toGRPCError (tenantService_CreateTenant env (tenantRepo_of db) creq)
        toProtoTenant s"
    by (simp add: tenant_server_defs creq_def)
  show ?thesis
  proof (cases "\<exists>r \<in> set (rows s). tr_Name r = pct_Name req")
    case True
    then have "tenantService_CreateTenant env (tenantRepo_of db) creq s =
        (Inl (ident ErrTenantAlreadyExists), s)"
      using tenant_db.CreateTenant_taken [OF assms(1)] by (auto simp: creq_def)
    with True show ?thesis by (simp add: run grpc_reply_run Let_def)
  next
    case False
    then have "\<forall>r \<in> set (rows s). tr_Name r \<noteq> ctr_Name creq" by (simp add: creq_def)
    from tenant_db.CreateTenant_stores [OF assms(1,2) this assms(3-5)]
    obtain t s' where c: "tenantService_CreateTenant env (tenantRepo_of db) creq s = (Inr t, s')"
      and t: "t = \<lparr>t_ID = uid, t_Name = ctr_Name creq, t_ContactName = ctr_ContactName creq,
                t_ContactPhone = ctr_ContactPhone creq, t_ContactEmail = ctr_ContactEmail creq,
                t_Status = ''active'', t_Address = ctr_Address creq,
                t_PlanType = ctr_PlanType creq, t_CreatedAt = 0, t_UpdatedAt = 0,
                t_Description = ctr_Description creq, t_CreditCode = ctr_CreditCode creq,
                t_Remark = ctr_Remark creq, t_ParkingLotCount = 0\<rparr>"
      and s': "tenants_ok rows s'" "tenant_at rows s' =
             (tenant_at rows s)(uid \<mapsto> t\<lparr>t_CreatedAt := now s1, t_UpdatedAt := now s1\<rparr>)"
      by blast
    have "TenantGRPCServer_GetTenant (tenant_server env db counter) uid s' =
        (Inr (toProtoTenant (t\<lparr>t_CreatedAt := now s1, t_UpdatedAt := now s1\<rparr>)), s')"
      using tenant_db.get_tenant [OF assms(1) s'(1), of uid] s'(2)
      by (simp add: tenant_server_defs tenantService_GetTenant_def grpc_reply_run)
    with False c s' show ?thesis
      unfolding run by (simp add: grpc_reply_run Let_def t) (simp add: creq_def)
  qed
qed

lemma create_then_get_tenant_witness:
  "\<exists>s'. TenantGRPCServer_CreateTenant (tenant_server ref_env (tenant_ref ''dup'') None)
         \<lparr>pct_Name = ''Beta'', pct_ContactName = ''Wu'', pct_ContactPhone = ''1'',
          pct_ContactEmail = ''w@b.cn'', pct_Address = ''2 Road'', pct_PlanType = PLAN_TYPE_PRO,
          pct_Description = None, pct_CreditCode = Some ''cc'', pct_Remark = None\<rparr>
         ([tenant_example], 9) =
       (Inr (toProtoTenant \<lparr>t_ID = ''u1'', t_Name = ''Beta'', t_ContactName = ''Wu'',
          t_ContactPhone = ''1'', t_ContactEmail = ''w@b.cn'', t_Status = ''active'',
          t_Address = ''2 Road'', t_PlanType = ''pro'', t_CreatedAt = 0, t_UpdatedAt = 0,
          t_Description = [], t_CreditCode = ''cc'', t_Remark = [], t_ParkingLotCount = 0\<rparr>), s')"
  using create_then_get_tenant [OF tenant_ref_db [of "''dup''"], of "([tenant_example], 9)"
      ref_env "''u1''" "([tenant_example], 9)" None
      "\<lparr>pct_Name = ''Beta'', pct_ContactName = ''Wu'', pct_ContactPhone = ''1'',
        pct_ContactEmail = ''w@b.cn'', pct_Address = ''2 Road'', pct_PlanType = PLAN_TYPE_PRO,
        pct_Description = None, pct_CreditCode = Some ''cc'', pct_Remark = None\<rparr>"]
  by (auto simp: tenant_example_simps ref_env_def assign_if_def Let_def)

text \<open>
  What UpdateTenant asks of the service, and a tenant with the fields of the request put over the
  old ones: all of them in the answer, the non-empty ones in the table.
\<close>

definition tenant_update_of :: "pb_UpdateTenantRequest \<Rightarrow> UpdateTenantRequest" where
  "tenant_update_of req = \<lparr>utr_ID = put_TenantId req, utr_Name = put_Name req,
     utr_ContactName = put_ContactName req, utr_ContactPhone = put_ContactPhone req,
     utr_ContactEmail = put_ContactEmail req, utr_Address = put_Address req,
     utr_PlanType = map_option domainPlanFromProto (put_PlanType req),
     utr_Description = put_Description req, utr_CreditCode = put_CreditCode req,
     utr_Remark = put_Remark req\<rparr>"

definition with_fields :: "(string option \<Rightarrow> string \<Rightarrow> string) \<Rightarrow> pb_UpdateTenantRequest \<Rightarrow> tenant \<Rightarrow> tenant" where
  "with_fields kept req t = t\<lparr>t_Name := kept (put_Name req) (t_Name t),
     t_ContactName := kept (put_ContactName req) (t_ContactName t),
     t_ContactPhone := kept (put_ContactPhone req) (t_ContactPhone t),
     t_ContactEmail := kept (put_ContactEmail req) (t_ContactEmail t),
     t_Address := kept (put_Address req) (t_Address t),
     t_PlanType := kept (map_option domainPlanFromProto (put_PlanType req)) (t_PlanType t),
     t_Description := kept (put_Description req) (t_Description t),
     t_CreditCode := kept (put_CreditCode req) (t_CreditCode t),
     t_Remark := kept (put_Remark req) (t_Remark t)\<rparr>"

definition nonempty_or :: "string option \<Rightarrow> string \<Rightarrow> string" where
  "nonempty_or p old = (if p = None \<or> p = Some [] then old else the p)"

lemma UpdateTenant_rpc:
  "TenantGRPCServer_UpdateTenant (tenant_server env db counter) req s =
     grpc_reply tenant_toGRPCError (tenantService_UpdateTenant (tenantRepo_of db) (tenant_update_of req)) toProtoTenant s"
  by (simp add: tenant_server_defs tenant_update_of_def)

lemma tenant_update_changes: "tenant_changes (tenant_update_of req) t = with_fields assign_if req t"
  by (simp add: tenant_changes_def tenant_update_of_def with_fields_def)

lemma set_text_assign: "set_text (assign_if p old) old = nonempty_or p old"
  by (simp add: set_text_def assign_if_def nonempty_or_def split: option.split)

lemma tenant_update_saved:
  assumes "t_ParkingLotCount t = 0"
  shows "tenant_overlay u (with_fields assign_if req t) t = (with_fields nonempty_or req t)\<lparr>t_UpdatedAt := u\<rparr>"
  using assms by (cases t) (simp add: tenant_overlay_def tenant_assign_def tenant_toDomain_def tenant_toEntity_def
      with_fields_def set_text_def flip: set_text_assign)

lemma update_tenant_run:
  assumes "tenant_db like db rows set_rows now dup" and "tenants_ok rows s"
  shows "case tenant_at rows s (put_TenantId req) of
       None \<Rightarrow> TenantGRPCServer_UpdateTenant (tenant_server env db counter) req s =
         (Inl (StatusErr NotFound ''tenant not found''), s)
     | Some t \<Rightarrow>
         if \<exists>r \<in> set (rows s). tr_ID r \<noteq> put_TenantId req \<and> tr_Name r = nonempty_or (put_Name req) (t_Name t)
         then TenantGRPCServer_UpdateTenant (tenant_server env db counter) req s = (Inl (StatusErr Internal dup), s)
         else \<exists>n s'. g_Updates db (Where ''id = ?'' [SqlStr (put_TenantId req)] Model)
                  (tenant_toEntity (with_fields assign_if req t)) s = (Inr n, s') \<and> 0 \<le> n \<and> n \<le> 1 \<and>
              ((with_fields nonempty_or req t)\<lparr>t_UpdatedAt := now s\<rparr> \<noteq> t \<longrightarrow> n = 1) \<and>
              TenantGRPCServer_UpdateTenant (tenant_server env db counter) req s =
                (if n = 0 then Inl (StatusErr NotFound ''tenant not found'')
                 else Inr (toProtoTenant (with_fields assign_if req t)), s') \<and> tenants_ok rows s' \<and>
              tenant_at rows s' = (tenant_at rows s)
                (put_TenantId req \<mapsto> (with_fields nonempty_or req t)\<lparr>t_UpdatedAt := now s\<rparr>)"
proof (cases "tenant_at rows s (put_TenantId req)")
  case None
  then show ?thesis using tenant_db.UpdateTenant_missing [OF assms(1,2), of "tenant_update_of req"]
    by (simp add: UpdateTenant_rpc grpc_reply_run tenant_update_of_def)
next
  case (Some t)
  let ?req = "tenant_update_of req"
  have t: "tenant_at rows s (utr_ID ?req) = Some t" and k: "utr_ID ?req = put_TenantId req"
    using Some by (simp_all add: tenant_update_of_def)
  note saved = tenant_update_saved [OF tenant_at_toDomain [OF Some]]
  have nm: "t_Name (tenant_overlay (now s) (tenant_changes ?req t) t) = nonempty_or (put_Name req) (t_Name t)"
    by (simp add: tenant_update_changes saved) (simp add: with_fields_def)
  show ?thesis
  proof (cases "\<exists>r \<in> set (rows s). tr_ID r \<noteq> put_TenantId req \<and> tr_Name r = nonempty_or (put_Name req) (t_Name t)")
    case True
    then have "tenantService_UpdateTenant (tenantRepo_of db) ?req s = (Inl (Opaque dup), s)"
      using tenant_db.UpdateTenant_clash [OF assms(1,2) t] by (auto simp: k nm)
    with Some True show ?thesis
      by (simp add: UpdateTenant_rpc grpc_reply_run Let_def tenant_toGRPCError_def tenant_errorMappings_def)
  next
    case False
    then have "\<forall>r \<in> set (rows s). tr_ID r \<noteq> utr_ID ?req \<longrightarrow>
        tr_Name r \<noteq> t_Name (tenant_overlay (now s) (tenant_changes ?req t) t)" by (auto simp: k nm)
    from tenant_db.UpdateTenant_run [OF assms(1,2) t this] Some False show ?thesis
      unfolding k tenant_update_changes saved
      by (elim exE conjE) (simp add: UpdateTenant_rpc grpc_reply_run)
  qed
qed

text \<open>
  C22: UpdateTenant answers NotFound for an unknown tenant. For a known one, a new name that
  another tenant has is refused without effect (as Internal, since the DAO does not recognise
  the duplicate here). Otherwise the table gets every requested value that is not empty and the
  time of the update, and the answer shows every requested value, provided the database counts an
  affected row. It does whenever the row is changed; when the row is already what is saved, time
  included, MySQL counts none, and then the answer is NotFound although the tenant exists.
\<close>
theorem update_tenant_effect:
  assumes "tenant_db like db rows set_rows now dup" and "tenants_ok rows s"
  shows "let run = TenantGRPCServer_UpdateTenant (tenant_server env db counter) req s;
             with = (\<lambda>kept t. t\<lparr>t_Name := kept (put_Name req) (t_Name t),
               t_ContactName := kept (put_ContactName req) (t_ContactName t),
               t_ContactPhone := kept (put_ContactPhone req) (t_ContactPhone t),
               t_ContactEmail := kept (put_ContactEmail req) (t_ContactEmail t),
               t_Address := kept (put_Address req) (t_Address t),
               t_PlanType := kept (map_option domainPlanFromProto (put_PlanType req)) (t_PlanType t),
               t_Description := kept (put_Description req) (t_Description t),
               t_CreditCode := kept (put_CreditCode req) (t_CreditCode t),
               t_Remark := kept (put_Remark req) (t_Remark t)\<rparr>);
             nonempty = (\<lambda>p old. if p = None \<or> p = Some [] then old else the p)
         in case tenant_at rows s (put_TenantId req) of
              None \<Rightarrow> run = (Inl (StatusErr NotFound ''tenant not found''), s)
            | Some t \<Rightarrow>
                if \<exists>r \<in> set (rows s). tr_ID r \<noteq> put_TenantId req \<and>
                                    tr_Name r = nonempty (put_Name req) (t_Name t)
                then run = (Inl (StatusErr Internal dup), s)
                else \<exists>n s'. g_Updates db (Where ''id = ?'' [SqlStr (put_TenantId req)] Model)
                         (tenant_toEntity (with assign_if t)) s = (Inr n, s') \<and> 0 \<le> n \<and> n \<le> 1 \<and>
                       ((with nonempty t)\<lparr>t_UpdatedAt := now s\<rparr> \<noteq> t \<longrightarrow> n = 1) \<and>
                       run = (if n = 0 then Inl (StatusErr NotFound ''tenant not found'')
                              else Inr (toProtoTenant (with assign_if t)), s') \<and>
                       tenants_ok rows s' \<and>
                       tenant_at rows s' = (tenant_at rows s)
                         (put_TenantId req \<mapsto> (with nonempty t)\<lparr>t_UpdatedAt := now s\<rparr>)"
  using update_tenant_run [OF assms, where env = env and counter = counter and req = req] unfolding with_fields_def nonempty_or_def Let_def .

definition tenant_update_example :: pb_UpdateTenantRequest where
  "tenant_update_example =
     \<lparr>put_TenantId = ''t1'', put_Name = Some ''Acme2'', put_ContactName = None,
      put_ContactPhone = None, put_ContactEmail = None, put_Address = Some [],
      put_PlanType = None, put_Description = None, put_CreditCode = None, put_Remark = Some ''vip''\<rparr>"

lemma tenant_update_example_fields:
  "put_TenantId tenant_update_example = ''t1''" "put_Name tenant_update_example = Some ''Acme2''"
  "put_Address tenant_update_example = Some []"
  by (simp_all add: tenant_update_example_def)

lemma tenant_example_fields:
  "tr_ID tenant_example = ''t1''" "tr_Name tenant_example = ''Acme''"
  "tr_Address tenant_example = ''1 Road''" "tr_UpdatedAt tenant_example = 5"
  by (simp_all add: tenant_example_def)

lemma tenant_example_at:
  "tenant_at fst ([tenant_example], t) ''t1'' = Some (tenant_toDomain tenant_example)"
  "tenants_ok fst ([tenant_example], t)"
  by (simp_all add: tenant_example_simps)

lemma update_tenant_effect_witness:
  "\<exists>t s'. TenantGRPCServer_UpdateTenant (tenant_server ref_env (tenant_ref ''dup'') None)
      tenant_update_example ([tenant_example], 9) = (Inr t, s') \<and>
     map_option t_Name (tenant_at fst s' ''t1'') = Some ''Acme2'' \<and>
     map_option t_Address (tenant_at fst s' ''t1'') = Some ''1 Road''"
proof -
  have new: "X\<lparr>t_UpdatedAt := 9\<rparr> \<noteq> tenant_toDomain tenant_example" for X
    by (rule notI, drule arg_cong [where f = t_UpdatedAt]) (simp add: tenant_toDomain_def tenant_example_fields)
  have "\<exists>n t s'. TenantGRPCServer_UpdateTenant (tenant_server ref_env (tenant_ref ''dup'') None)
      tenant_update_example ([tenant_example], 9) = (Inr t, s') \<and> n = (1::int) \<and>
      map_option t_Name (tenant_at fst s' ''t1'') = Some ''Acme2'' \<and>
      map_option t_Address (tenant_at fst s' ''t1'') = Some (t_Address (tenant_toDomain tenant_example))"
    using update_tenant_effect [OF tenant_ref_db [of "''dup''"] tenant_example_at(2) [of 9],
        where req = tenant_update_example and env = ref_env and counter = None]
    by (simp add: Let_def tenant_update_example_fields tenant_example_at tenant_example_fields new)
      (elim exE conjE, simp)
  then show ?thesis by (auto simp: tenant_toDomain_def tenant_example_fields)
qed

text \<open>
  C23: ListTenants answers, without effect, the requested page of the matching tenants, newest
  first. A tenant matches when its status is the requested one (unspecified means active, so
  frozen tenants show only on request) and the keyword, if any, between percent signs is \<open>LIKE\<close>
  its name, contact name or contact e-mail, whatever the collation makes of \<open>LIKE\<close>. Pages hold at most 100 entries; the number of pages is exact for
  that capped size, while the answer repeats the page size the caller asked for.
\<close>
theorem list_tenants_page:
  assumes "tenant_db like db rows set_rows now dup"
    and "fst (pagination_or_default (plt_Pagination req)) < 2 ^ 31"
    and "length (rows s) < 2 ^ 31"
  shows "\<exists>xs. let (page, pageSize) = pagination_or_default (plt_Pagination req);
                 size = min 100 pageSize
             in mset xs = mset (filter (\<lambda>r.
                  tr_Status r = domainStatusFromProto (plt_Status req) \<and>
                  (plt_Keyword req \<noteq> [] \<longrightarrow>
                    (\<exists>x \<in> {tr_Name r, tr_ContactName r, tr_ContactEmail r}.
                       like (''%'' @ plt_Keyword req @ ''%'') x))) (rows s)) \<and>
                sorted_wrt (\<lambda>r r'. tr_CreatedAt r' \<le> tr_CreatedAt r) xs \<and>
                TenantGRPCServer_ListTenants (tenant_server env db counter) req s =
                  (Inr \<lparr>plt_Tenants = map (toProtoTenant \<circ> tenant_toDomain)
                          (take (nat size) (drop (nat ((page - 1) * size)) xs)),
                        plt_PaginationResponse =
                          \<lparr>pr_Page = page, pr_PageSize = pageSize, pr_Total = int (length xs),
                           pr_TotalPages = (int (length xs) + size - 1) div size\<rparr>\<rparr>, s)"
proof -
  obtain page pageSize where pg: "pagination_or_default (plt_Pagination req) = (page, pageSize)"
    by (cases "pagination_or_default (plt_Pagination req)")
  have pos: "0 < page" "0 < pageSize"
    using pg by (auto simp: pagination_or_default_def split: option.splits if_splits)
  define f where "f = \<lparr>tf_Status = domainStatusFromProto (plt_Status req), tf_Keyword = plt_Keyword req\<rparr>"
  let ?p = "normal_page page" let ?s = "normal_pageSize pageSize"
  have n: "?p = page" "?s = min 100 pageSize"
    using pos by (simp_all add: normal_page_def normal_pageSize_def Let_def)
  have st: "domainStatusFromProto (plt_Status req) \<noteq> []"
    by (cases "plt_Status req") simp_all
  have m: "matches (tenant_holds like) (tenant_query f) = (\<lambda>r.
      tr_Status r = domainStatusFromProto (plt_Status req) \<and>
      (plt_Keyword req \<noteq> [] \<longrightarrow> (\<exists>x \<in> {tr_Name r, tr_ContactName r, tr_ContactEmail r}.
         like (''%'' @ plt_Keyword req @ ''%'') x)))"
    using st by (intro ext) (auto simp: tenant_db.query_matches [OF assms(1)] f_def)
  obtain xs where xs: "mset xs = mset (filter (matches (tenant_holds like) (tenant_query f)) (rows s))"
      "sorted (map (\<lambda>r. - tr_CreatedAt r) xs)"
      "trp_List (tenantRepo_of db) f ?p ?s s = (Inr (map tenant_toDomain
         (take (nat ?s) (drop (nat (i64 (i64 (?p - 1) * ?s))) xs)), int (length xs)), s)"
    using tenant_db.FindAll_run [OF assms(1)] by blast
  have off: "i64 (i64 (?p - 1) * ?s) = (page - 1) * ?s"
    using page_offset_exact(1) [of page pageSize] assms(2) by (simp add: pg n(1))
  have "length xs = length (filter (matches (tenant_holds like) (tenant_query f)) (rows s))"
    by (metis xs(1) size_mset)
  then have len: "length xs < 2 ^ 31"
    using assms(3) length_filter_le le_less_trans by metis
  have tp: "total_pages (int (length xs)) ?s = (int (length xs) + ?s - 1) div ?s"
    using len by (intro total_pages_exact) simp_all
  have i: "i32 ((int (length xs) + ?s - 1) div ?s) = (int (length xs) + ?s - 1) div ?s"
    using page_count_bounds [of "int (length xs)" ?s] len by (intro i32_id) auto
  have srt: "sorted_wrt (\<lambda>r r'. tr_CreatedAt r' \<le> tr_CreatedAt r) xs"
    using xs(2) by (simp add: sorted_map)
  show ?thesis
    using xs(1,3) srt
    by (intro exI [of _ xs]) (simp add: pg m tenant_server_defs grpc_reply_run
        tenantService_ListTenants_def bind_io_run off [unfolded n] tp [unfolded n] i [unfolded n] Let_def n flip: f_def)
qed

lemma list_tenants_page_witness:
  "\<exists>resp. TenantGRPCServer_ListTenants (tenant_server ref_env (tenant_ref ''dup'') None)
     \<lparr>plt_Status = TENANT_STATUS_UNSPECIFIED, plt_Keyword = [],
      plt_Pagination = Some \<lparr>pq_Page = 1, pq_PageSize = 500\<rparr>\<rparr> ([tenant_example], 9) =
     (Inr resp, ([tenant_example], 9)) \<and> pr_PageSize (plt_PaginationResponse resp) = 500"
  using list_tenants_page [OF tenant_ref_db [of "''dup''"], of
     "\<lparr>plt_Status = TENANT_STATUS_UNSPECIFIED, plt_Keyword = [],
      plt_Pagination = Some \<lparr>pq_Page = 1, pq_PageSize = 500\<rparr>\<rparr>" "([tenant_example], 9)"
     ref_env None]
  by (auto simp: pagination_or_default_def)

end
