(* ===== verification/Identity_Service.thy ===== *)
theory Identity_Service
  imports Tenant_Props User_Props Interceptors Part_World Auth
begin

text \<open>
  The identity microservice (\<open>services/identity\<close>) as a whole: its tenant service, which has no
  parking-lot counter, the three services as \<open>internal/grpc/register.go\<close> composes them over one
  database, and every RPC as \<open>main.go\<close> serves it, behind the interceptors. What the two copies of
  the identity domain have in common is modelled once, in the theories of the domain.
\<close>

section \<open>The tenant service without a counter\<close>

definition remote_tenantService_GetTenantSummary :: "'s tenant_repo \<Rightarrow> (TenantSummaryResponse, 's) io" where
  "remote_tenantService_GetTenantSummary repo =
     bind_io (trp_CountByStatus repo) (\<lambda>(active, frozen).
     let n = i64 (active + frozen)
     in return_io \<lparr>tsr_Total = n, tsr_Active = active, tsr_Frozen = frozen,
                   tsr_TotalParkingLots = 0, tsr_AvgParkingLotsPerTenant = 0\<rparr>)"

definition remote_NewTenantService :: "'s go_env \<Rightarrow> 's tenant_repo \<Rightarrow> 's tenant_service" where
  "remote_NewTenantService env repo =
     \<lparr>ts_CreateTenant = tenantService_CreateTenant env repo,
      ts_GetTenant = tenantService_GetTenant repo,
      ts_ListTenants = tenantService_ListTenants repo,
      ts_UpdateTenant = tenantService_UpdateTenant repo,
      ts_FreezeTenant = tenantService_FreezeTenant repo,
      ts_UnfreezeTenant = tenantService_UnfreezeTenant repo,
      ts_DeleteTenant = tenantService_DeleteTenant repo,
      ts_GetTenantSummary = remote_tenantService_GetTenantSummary repo\<rparr>"

definition remote_TenantGRPCServer_GetTenantSummary ::
  "'s tenant_service \<Rightarrow> (TenantSummaryResponse, 's) io" where
  "remote_TenantGRPCServer_GetTenantSummary svc =
     grpc_reply tenant_toGRPCError (ts_GetTenantSummary svc)
       (\<lambda>summary. \<lparr>tsr_Total = tsr_Total summary, tsr_Active = tsr_Active summary,
                   tsr_Frozen = tsr_Frozen summary, tsr_TotalParkingLots = 0,
                   tsr_AvgParkingLotsPerTenant = 0\<rparr>)"

text \<open>It is the tenant service of the monolith with a nil counter.\<close>

lemma f64_zero: "f64_div (f64_of_int 0) x = 0"
  by (simp add: f64_of_int_exact f64_div_def f64_round_def)

lemma remote_summary: "remote_tenantService_GetTenantSummary repo = tenantService_GetTenantSummary repo None"
  by (rule ext) (simp add: remote_tenantService_GetTenantSummary_def tenantService_GetTenantSummary_def
      bind_io_run f64_zero Let_def split: prod.split sum.split)

lemma remote_tenant_service: "remote_NewTenantService env repo = NewTenantService env repo None"
  by (simp add: remote_NewTenantService_def NewTenantService_def remote_summary)

lemma remote_summary_reply:
  "remote_TenantGRPCServer_GetTenantSummary (remote_NewTenantService env repo) =
     TenantGRPCServer_GetTenantSummary (remote_NewTenantService env repo)"
  by (rule ext) (simp add: remote_TenantGRPCServer_GetTenantSummary_def TenantGRPCServer_GetTenantSummary_def
      remote_NewTenantService_def remote_tenantService_GetTenantSummary_def grpc_reply_run bind_io_run Let_def
      split: prod.split sum.split)

section \<open>The services and their RPCs\<close>

record ('j, 's) identity_services =
  ids_Tenants :: "'s tenant_service"
  ids_Users :: "'s user_service"
  ids_Auth :: "('j, 's) authService"
  ids_Signer :: "'s TokenSigner"

text \<open>What \<open>RegisterServices\<close> builds from the database, Redis, the signer and the SMS client.\<close>

definition identity_services ::
  "'s go_env \<Rightarrow> 's tenant_gorm \<Rightarrow> 's user_gorm \<Rightarrow> ('j, 's) redis \<Rightarrow> 's TokenSigner \<Rightarrow> AuthConfig \<Rightarrow>
   (pb_VerifyCodeRequest \<Rightarrow> (unit, 's) io) \<Rightarrow> ('j, 's) identity_services" where
  "identity_services env tdb udb rd signer authCfg smsClient =
     (let tenantRepo = NewTenantRepo (NewTenantDAO tdb);
          userRepo = NewUserRepo (NewUserDAO udb)
      in \<lparr>ids_Tenants = remote_NewTenantService env tenantRepo,
          ids_Users = NewUserService env userRepo,
          ids_Auth = NewAuthService userRepo (NewRedisRefreshTokenRepo rd) signer authCfg
            (SmsVerifierClient_VerifyCode smsClient),
          ids_Signer = signer\<rparr>)"

lemma identity_services_fields [simp]:
  "ids_Tenants (identity_services env tdb udb rd sg cfg client) = tenant_server env tdb None"
  "ids_Users (identity_services env tdb udb rd sg cfg client) = user_server env udb"
  "as_userRepo (ids_Auth (identity_services env tdb udb rd sg cfg client)) = NewUserRepo (NewUserDAO udb)"
  "as_refreshRepo (ids_Auth (identity_services env tdb udb rd sg cfg client)) = NewRedisRefreshTokenRepo rd"
  "as_signer (ids_Auth (identity_services env tdb udb rd sg cfg client)) = sg"
  "as_smsVerifier (ids_Auth (identity_services env tdb udb rd sg cfg client)) = SmsVerifierClient_VerifyCode client"
  by (simp_all add: identity_services_def NewAuthService_def Let_def remote_tenant_service tenant_server_def
      user_server_def)

text \<open>A request to one of the three services, and the full name of its method.\<close>

datatype identity_request =
    CreateTenant pb_CreateTenantRequest | GetTenant string | ListTenants pb_ListTenantsRequest
  | UpdateTenant pb_UpdateTenantRequest | FreezeTenant string | UnfreezeTenant string
  | DeleteTenant string | GetTenantSummary
  | CreateUser pb_CreateUserRequest | GetUser string | GetCurrentUser | ListUsers pb_ListUsersRequest
  | UpdateUser pb_UpdateUserRequest | FreezeUser string | UnfreezeUser string
  | ResetPassword ResetPasswordRequest | UpdateProfile pb_UpdateProfileRequest
  | ChangePassword pb_ChangePasswordRequest | ImportUsers "pb_CreateUserRequest list"
  | Login pb_LoginRequest | SmsLogin pb_SmsLoginRequest | RefreshToken string | Logout string | GetJWKS

fun tenant_method :: "identity_request \<Rightarrow> string option" where
  "tenant_method (CreateTenant _) = Some ''CreateTenant''"
| "tenant_method (GetTenant _) = Some ''GetTenant''"
| "tenant_method (ListTenants _) = Some ''ListTenants''"
| "tenant_method (UpdateTenant _) = Some ''UpdateTenant''"
| "tenant_method (FreezeTenant _) = Some ''FreezeTenant''"
| "tenant_method (UnfreezeTenant _) = Some ''UnfreezeTenant''"
| "tenant_method (DeleteTenant _) = Some ''DeleteTenant''"
| "tenant_method GetTenantSummary = Some ''GetTenantSummary''"
| "tenant_method _ = None"

fun user_method :: "identity_request \<Rightarrow> string option" where
  "user_method (CreateUser _) = Some ''CreateUser''"
| "user_method (GetUser _) = Some ''GetUser''"
| "user_method GetCurrentUser = Some ''GetCurrentUser''"
| "user_method (ListUsers _) = Some ''ListUsers''"
| "user_method (UpdateUser _) = Some ''UpdateUser''"
| "user_method (FreezeUser _) = Some ''FreezeUser''"
| "user_method (UnfreezeUser _) = Some ''UnfreezeUser''"
| "user_method (ResetPassword _) = Some ''ResetPassword''"
| "user_method (UpdateProfile _) = Some ''UpdateProfile''"
| "user_method (ChangePassword _) = Some ''ChangePassword''"
| "user_method (ImportUsers _) = Some ''ImportUsers''"
| "user_method _ = None"

fun auth_method :: "identity_request \<Rightarrow> string option" where
  "auth_method (Login _) = Some ''Login''"
| "auth_method (SmsLogin _) = Some ''SmsLogin''"
| "auth_method (RefreshToken _) = Some ''RefreshToken''"
| "auth_method (Logout _) = Some ''Logout''"
| "auth_method GetJWKS = Some ''GetJWKS''"
| "auth_method _ = None"

definition method_of :: "identity_request \<Rightarrow> string" where
  "method_of q =
     (case (tenant_method q, user_method q, auth_method q) of
        (Some m, _, _) \<Rightarrow> ''/parkhub.identity.v1.TenantService/'' @ m
      | (_, Some m, _) \<Rightarrow> ''/parkhub.identity.v1.UserService/'' @ m
      | (_, _, Some m) \<Rightarrow> ''/parkhub.identity.v1.AuthService/'' @ m
      | _ \<Rightarrow> [])"

datatype identity_reply =
    TenantReply pb_Tenant | TenantsReply pb_ListTenantsResponse | SummaryReply TenantSummaryResponse
  | UserReply pb_User | UsersReply pb_ListUsersResponse | ImportReply pb_ImportUsersResponse
  | LoginReply pb_LoginResponse | RefreshReply pb_RefreshTokenResponse | JWKSReply "json option"
  | EmptyReply

definition replying :: "('a \<Rightarrow> identity_reply) \<Rightarrow> ('a, 's) io \<Rightarrow> (identity_reply, 's) io" where
  "replying c m = bind_io m (\<lambda>x. return_io (c x))"

fun identity_handle ::
  "'s go_env \<Rightarrow> (int \<Rightarrow> int) \<Rightarrow> ('j, 's) identity_services \<Rightarrow> identity_request \<Rightarrow> go_ctx \<Rightarrow>
   (identity_reply, 's) io" where
  "identity_handle env date sv (CreateTenant req) ctx =
     replying TenantReply (TenantGRPCServer_CreateTenant (ids_Tenants sv) req)"
| "identity_handle env date sv (GetTenant tid) ctx =
     replying TenantReply (TenantGRPCServer_GetTenant (ids_Tenants sv) tid)"
| "identity_handle env date sv (ListTenants req) ctx =
     replying TenantsReply (TenantGRPCServer_ListTenants (ids_Tenants sv) req)"
| "identity_handle env date sv (UpdateTenant req) ctx =
     replying TenantReply (TenantGRPCServer_UpdateTenant (ids_Tenants sv) req)"
| "identity_handle env date sv (FreezeTenant tid) ctx =
     replying TenantReply (TenantGRPCServer_FreezeTenant (ids_Tenants sv) tid)"
| "identity_handle env date sv (UnfreezeTenant tid) ctx =
     replying TenantReply (TenantGRPCServer_UnfreezeTenant (ids_Tenants sv) tid)"
| "identity_handle env date sv (DeleteTenant tid) ctx =
     replying (\<lambda>_. EmptyReply) (TenantGRPCServer_DeleteTenant (ids_Tenants sv) tid)"
| "identity_handle env date sv GetTenantSummary ctx =
     replying SummaryReply (remote_TenantGRPCServer_GetTenantSummary (ids_Tenants sv))"
| "identity_handle env date sv (CreateUser req) ctx =
     replying UserReply (UserGRPCServer_CreateUser (ids_Users sv) req)"
| "identity_handle env date sv (GetUser uid) ctx =
     replying UserReply (UserGRPCServer_GetUser (ids_Users sv) uid)"
| "identity_handle env date sv GetCurrentUser ctx =
     replying UserReply (UserGRPCServer_GetCurrentUser (ids_Users sv) ctx)"
| "identity_handle env date sv (ListUsers req) ctx =
     replying UsersReply (UserGRPCServer_ListUsers (ids_Users sv) req)"
| "identity_handle env date sv (UpdateUser req) ctx =
     replying UserReply (UserGRPCServer_UpdateUser (ids_Users sv) req)"
| "identity_handle env date sv (FreezeUser uid) ctx =
     replying (\<lambda>_. EmptyReply) (UserGRPCServer_FreezeUser (ids_Users sv) uid)"
| "identity_handle env date sv (UnfreezeUser uid) ctx =
     replying (\<lambda>_. EmptyReply) (UserGRPCServer_UnfreezeUser (ids_Users sv) uid)"
| "identity_handle env date sv (ResetPassword req) ctx =
     replying (\<lambda>_. EmptyReply) (UserGRPCServer_ResetPassword (ids_Users sv) req)"
| "identity_handle env date sv (UpdateProfile req) ctx =
     replying UserReply (UserGRPCServer_UpdateProfile (ids_Users sv) req)"
| "identity_handle env date sv (ChangePassword req) ctx =
     replying (\<lambda>_. EmptyReply) (UserGRPCServer_ChangePassword (ids_Users sv) req)"
| "identity_handle env date sv (ImportUsers us) ctx =
     replying ImportReply (UserGRPCServer_ImportUsers (ids_Users sv) us)"
| "identity_handle env date sv (Login req) ctx =
     replying LoginReply (AuthGRPCServer_Login env date (ids_Auth sv) req)"
| "identity_handle env date sv (SmsLogin req) ctx =
     replying LoginReply (remote_AuthGRPCServer_SmsLogin env date (ids_Auth sv) req)"
| "identity_handle env date sv (RefreshToken tok) ctx =
     replying RefreshReply (AuthGRPCServer_RefreshToken env date (ids_Auth sv) tok)"
| "identity_handle env date sv (Logout tok) ctx =
     replying (\<lambda>_. EmptyReply) (AuthGRPCServer_Logout (ids_Auth sv) tok)"
| "identity_handle env date sv GetJWKS ctx =
     replying JWKSReply (AuthGRPCServer_GetJWKS (Some (ids_Signer sv)))"

text \<open>One call as the server runs it, and calls one after the other.\<close>

definition identity_call ::
  "proc_env \<Rightarrow> slogger \<Rightarrow> 's go_env \<Rightarrow> (int \<Rightarrow> int) \<Rightarrow> ('j, 's) identity_services \<Rightarrow>
   md option \<Rightarrow> identity_request \<Rightarrow> 's rpc_world \<Rightarrow> identity_reply outcome \<times> 's rpc_world" where
  "identity_call pe logger env date sv mo q w =
     identity_service_chain pe logger (method_of q) (rpc_handler (identity_handle env date sv q)) (incoming mo None) w"

definition identity_serve ::
  "proc_env \<Rightarrow> slogger \<Rightarrow> 's go_env \<Rightarrow> (int \<Rightarrow> int) \<Rightarrow> ('j, 's) identity_services \<Rightarrow>
   (md option \<times> identity_request) list \<Rightarrow> 's rpc_world \<Rightarrow> 's rpc_world" where
  "identity_serve pe logger env date sv calls w =
     fold (\<lambda>(mo, q) w. snd (identity_call pe logger env date sv mo q w)) calls w"

section \<open>Who gets through\<close>

lemma method_open: "method_of q \<in> identity_authWhitelist \<longleftrightarrow> auth_method q \<noteq> None"
  by (cases q) (simp_all add: method_of_def identity_authWhitelist_def)

lemma replying_state [simp]: "snd (replying c m s) = snd (m s)"
  by (simp add: replying_def bind_io_run split: prod.split sum.split)

lemma replying_run: "replying c m s = (map_sum (\<lambda>e. e) c (fst (m s)), snd (m s))"
  by (simp add: replying_def bind_io_run split: prod.split sum.split)

text \<open>
  A call whose method is open, or whose metadata names a caller, is its handler, whatever tenant
  and role the metadata name; any other call is refused and does nothing.
\<close>

lemma identity_call_admitted:
  assumes "auth_method q \<noteq> None \<or> names_caller mo"
  obtains ctx w' where "identity_call pe logger env date sv mo q w =
      (Returned (fst (identity_handle env date sv q ctx (rw_state w))), w')"
    "rw_state w' = snd (identity_handle env date sv q ctx (rw_state w))"
proof -
  have "method_of q \<in> identity_authWhitelist \<or> names_caller (rc_metadata (incoming mo None))"
    using assms by (simp add: method_open incoming_def)
  from guarded_admitted [where wl = identity_authWhitelist and pe = pe and logger = logger and w = w
      and handler = "rpc_handler (identity_handle env date sv q)", unfolded identity_guarded, OF this]
  obtain c w0 r w' where run:
    "identity_service_chain pe logger (method_of q) (rpc_handler (identity_handle env date sv q)) (incoming mo None) w
       = (Returned r, w')"
    "rw_state w0 = rw_state w" "rw_state w' = rw_state (snd (rpc_handler (identity_handle env date sv q) c w0))"
    "r = (case fst (rpc_handler (identity_handle env date sv q) c w0) of Returned r \<Rightarrow> r
      | Panicked v \<Rightarrow> Inl (StatusErr Internal ''internal server error''))" by metis
  show thesis
    by (rule that [of "rc_identity c" w']) (use run in \<open>simp_all add: identity_call_def rpc_handler_def split: prod.splits\<close>)
qed

lemma identity_call_refused:
  assumes "auth_method q = None" and "\<not> names_caller mo"
  obtains m w' where "identity_call pe logger env date sv mo q w = (Returned (Inl (StatusErr Unauthenticated m)), w')"
    "rw_state w' = rw_state w"
proof -
  have "method_of q \<notin> identity_authWhitelist" "\<not> names_caller (rc_metadata (incoming mo None))"
    using assms by (simp_all add: method_open incoming_def)
  from guarded_refused [where wl = identity_authWhitelist and pe = pe and logger = logger and w = w
      and handler = "rpc_handler (identity_handle env date sv q)", unfolded identity_guarded, OF this]
  obtain m w' where "identity_service_chain pe logger (method_of q)
      (rpc_handler (identity_handle env date sv q)) (incoming mo None) w =
        (Returned (Inl (StatusErr Unauthenticated m)), w')" "rw_state w' = rw_state w" by metis
  then show thesis by (intro that) (simp add: identity_call_def, assumption)
qed

end
