(* ===== verification/Identity_Calls.thy ===== *)
theory Identity_Calls
  imports Identity_Service
begin

text \<open>
  Sequences of calls to the identity microservice: what the three services do to the tables of
  tenants and users, and what a client can do with and without a caller in its metadata.
\<close>

section \<open>What a table has no part in\<close>

text \<open>Actions that leave a part \<open>f\<close> of the world alone, in sequence.\<close>

lemma still_bind: "io_inv I m (\<lambda>_. True) \<Longrightarrow> (\<And>x. io_inv I (k x) (\<lambda>_. True)) \<Longrightarrow> io_inv I (bind_io m k) (\<lambda>_. True)"
  by (rule io_inv_bind)

lemma still_try: "io_inv I m (\<lambda>_. True) \<Longrightarrow> (\<And>r. io_inv I (k r) (\<lambda>_. True)) \<Longrightarrow> io_inv I (try_io m k) (\<lambda>_. True)"
  by (rule io_inv_try)

lemma still_reply: "io_inv I m (\<lambda>_. True) \<Longrightarrow> io_inv I (grpc_reply h m c) (\<lambda>_. True)"
  by (rule io_inv_reply)

lemma still_steps: "(\<And>s. f (snd (m s)) = f s) \<Longrightarrow> io_inv (\<lambda>s. f s = c) m (\<lambda>_. True)"
  by (simp add: io_inv_def)

lemma still_value [simp]: "io_inv I (Pair r) (\<lambda>_. True)"
  by (simp add: io_inv_def)

lemmas still = still_bind still_try still_reply io_inv_map_err io_inv_if

context tenant_db
begin

lemma tenant_repo_still:
  assumes "\<And>xs s. f (set_rows xs s) = f s"
  shows "io_inv (\<lambda>s. f s = c) (trp_GetByID (tenantRepo_of db) tid) (\<lambda>_. True)"
    and "io_inv (\<lambda>s. f s = c) (trp_GetByName (tenantRepo_of db) nm) (\<lambda>_. True)"
    and "io_inv (\<lambda>s. f s = c) (trp_Create (tenantRepo_of db) t) (\<lambda>_. True)"
    and "io_inv (\<lambda>s. f s = c) (trp_Update (tenantRepo_of db) t) (\<lambda>_. True)"
    and "io_inv (\<lambda>s. f s = c) (trp_Delete (tenantRepo_of db) tid) (\<lambda>_. True)"
    and "io_inv (\<lambda>s. f s = c) (trp_List (tenantRepo_of db) tf p n) (\<lambda>_. True)"
    and "io_inv (\<lambda>s. f s = c) (trp_CountByStatus (tenantRepo_of db)) (\<lambda>_. True)"
proof -
  have list: "snd (trp_List (tenantRepo_of db) tf p n s) = s" for s using FindAll_run [of tf s p n] by auto
  show "io_inv (\<lambda>s. f s = c) (trp_List (tenantRepo_of db) tf p n) (\<lambda>_. True)"
    by (rule still_steps) (simp add: list)
qed (rule still_steps, simp add: CountByStatus_run |
    rule still_steps, simp add: tenant_store_defs table_frame [where f = f, OF assms])+

lemma tenant_rpc_still:
  assumes "\<And>xs s. f (set_rows xs s) = f s" and "\<And>s. f (snd (uuid_New env s)) = f s"
    and rpc: "tenant_rpc env db None s s'"
  shows "f s' = f s"
proof -
  have uuid: "io_inv (\<lambda>s. f s = c) (ask_io (uuid_New env)) (\<lambda>_. True)" for c
    by (rule still_steps) (simp add: ask_io_run assms(2))
  note ops = tenant_repo_still [where f = f, OF assms(1)] uuid
  note defs = tenant_server_defs tenantService_CreateTenant_def tenantService_GetTenant_def
    tenantService_ListTenants_def tenantService_UpdateTenant_def tenantService_FreezeTenant_def
    tenantService_UnfreezeTenant_def tenantService_DeleteTenant_def tenantService_GetTenantSummary_def
  have "io_inv (\<lambda>u. f u = f s) (TenantGRPCServer_CreateTenant (tenant_server env db None) req) (\<lambda>_. True)"
    "io_inv (\<lambda>u. f u = f s) (TenantGRPCServer_GetTenant (tenant_server env db None) tid) (\<lambda>_. True)"
    "io_inv (\<lambda>u. f u = f s) (TenantGRPCServer_ListTenants (tenant_server env db None) lreq) (\<lambda>_. True)"
    "io_inv (\<lambda>u. f u = f s) (TenantGRPCServer_UpdateTenant (tenant_server env db None) ureq) (\<lambda>_. True)"
    "io_inv (\<lambda>u. f u = f s) (TenantGRPCServer_FreezeTenant (tenant_server env db None) tid) (\<lambda>_. True)"
    "io_inv (\<lambda>u. f u = f s) (TenantGRPCServer_UnfreezeTenant (tenant_server env db None) tid) (\<lambda>_. True)"
    "io_inv (\<lambda>u. f u = f s) (TenantGRPCServer_DeleteTenant (tenant_server env db None) tid) (\<lambda>_. True)"
    "io_inv (\<lambda>u. f u = f s) (TenantGRPCServer_GetTenantSummary (tenant_server env db None)) (\<lambda>_. True)"
    for req tid lreq ureq
    by (auto simp: defs Let_def intro!: still ops split: sum.split prod.split)
  note unchanged = this [THEN io_invD, OF refl]
  from rpc show ?thesis by cases (simp_all add: unchanged)
qed

end

context user_db
begin

lemma user_repo_still:
  assumes "\<And>xs s. f (set_rows xs s) = f s"
  shows "io_inv (\<lambda>s. f s = c) (urp_GetByID (userRepo_of db) uid) (\<lambda>_. True)"
    and "io_inv (\<lambda>s. f s = c) (urp_GetByUsername (userRepo_of db) nm) (\<lambda>_. True)"
    and "io_inv (\<lambda>s. f s = c) (urp_GetByPhone (userRepo_of db) ph) (\<lambda>_. True)"
    and "io_inv (\<lambda>s. f s = c) (urp_Create (userRepo_of db) u) (\<lambda>_. True)"
    and "io_inv (\<lambda>s. f s = c) (urp_Update (userRepo_of db) u) (\<lambda>_. True)"
    and "io_inv (\<lambda>s. f s = c) (urp_List (userRepo_of db) uf p n) (\<lambda>_. True)"
proof -
  have "io_inv (\<lambda>s. f s = c) (count_and_page db q p n) (\<lambda>_. True)" for q
    by (rule still_steps) (simp add: page_same)
  then show "io_inv (\<lambda>s. f s = c) (urp_List (userRepo_of db) uf p n) (\<lambda>_. True)"
    by (auto simp: user_store_defs intro!: still split: prod.split)
qed (rule still_steps, simp add: user_store_defs table_frame [where f = f, OF assms])+

lemma import_still:
  "(\<And>req. io_inv I (create req) (\<lambda>_. True)) \<Longrightarrow> io_inv I (importUsers_loop create i items result) (\<lambda>_. True)"
  by (induction items arbitrary: i result) (auto intro!: still_try)

lemma user_rpc_still:
  assumes "\<And>xs s. f (set_rows xs s) = f s" and "\<And>s. f (snd (uuid_New env s)) = f s"
    and "\<And>pw s. f (snd (bcrypt_Generate env pw s)) = f s"
    and rpc: "user_rpc env db s s'"
  shows "f s' = f s"
proof -
  have uuid: "io_inv (\<lambda>s. f s = c) (ask_io (uuid_New env)) (\<lambda>_. True)" for c
    by (rule still_steps) (simp add: ask_io_run assms(2))
  have hash: "io_inv (\<lambda>s. f s = c) (bcrypt_Generate env pw) (\<lambda>_. True)" for c pw
    by (rule still_steps) (rule assms(3))
  note ops = user_repo_still [where f = f, OF assms(1)] uuid hash
  note defs = user_server_defs userService_GetByID_def userService_List_def userService_Update_def
    userService_Freeze_def userService_Unfreeze_def userService_ResetPassword_def
    userService_UpdateProfile_def userService_ChangePassword_def userService_ImportUsers_def
  have create: "io_inv (\<lambda>u. f u = f s) (userService_Create env (userRepo_of db) req) (\<lambda>_. True)" for req
    by (auto simp: userService_Create_def Let_def intro!: still ops split: sum.split)
  have "io_inv (\<lambda>u. f u = f s) (UserGRPCServer_CreateUser (user_server env db) req) (\<lambda>_. True)"
    "io_inv (\<lambda>u. f u = f s) (UserGRPCServer_GetUser (user_server env db) uid) (\<lambda>_. True)"
    "io_inv (\<lambda>u. f u = f s) (UserGRPCServer_GetCurrentUser (user_server env db) ctx) (\<lambda>_. True)"
    "io_inv (\<lambda>u. f u = f s) (UserGRPCServer_ListUsers (user_server env db) lreq) (\<lambda>_. True)"
    "io_inv (\<lambda>u. f u = f s) (UserGRPCServer_UpdateUser (user_server env db) ureq) (\<lambda>_. True)"
    "io_inv (\<lambda>u. f u = f s) (UserGRPCServer_FreezeUser (user_server env db) uid) (\<lambda>_. True)"
    "io_inv (\<lambda>u. f u = f s) (UserGRPCServer_UnfreezeUser (user_server env db) uid) (\<lambda>_. True)"
    "io_inv (\<lambda>u. f u = f s) (UserGRPCServer_ResetPassword (user_server env db) rreq) (\<lambda>_. True)"
    "io_inv (\<lambda>u. f u = f s) (UserGRPCServer_UpdateProfile (user_server env db) preq) (\<lambda>_. True)"
    "io_inv (\<lambda>u. f u = f s) (UserGRPCServer_ChangePassword (user_server env db) creq) (\<lambda>_. True)"
    "io_inv (\<lambda>u. f u = f s) (UserGRPCServer_ImportUsers (user_server env db) items) (\<lambda>_. True)"
    for req uid ctx lreq ureq rreq preq creq items
    by (auto simp: defs Let_def intro!: still ops create import_still split: sum.split prod.split)
  note unchanged = this [THEN io_invD, OF refl]
  from rpc show ?thesis by cases (simp_all add: unchanged)
qed

end

section \<open>Logins\<close>

text \<open>
  A login may write the time of the login and, as every write does, the time of the update.
  \<open>login_inv c d\<close>: the tenants are \<open>c\<close>, the users are \<open>d\<close> but for these times, and both tables
  are valid.
\<close>

definition login_free :: "user_row \<Rightarrow> user_row" where
  "login_free r = r\<lparr>ur_LastLoginAt := None, ur_UpdatedAt := 0\<rparr>"

definition login_inv ::
  "('s \<Rightarrow> tenant_row list) \<Rightarrow> ('s \<Rightarrow> user_row list) \<Rightarrow> tenant_row list \<Rightarrow> user_row list \<Rightarrow> 's \<Rightarrow> bool" where
  "login_inv trows urows c d s \<longleftrightarrow> tenant_table_valid trows s \<and> trows s = c \<and>
     user_table_valid urows s \<and> map login_free (urows s) = d"

text \<open>A user as some row of \<open>d\<close> has it, but for the times.\<close>

definition loaded_of :: "user_row list \<Rightarrow> user \<Rightarrow> bool" where
  "loaded_of d u \<longleftrightarrow> (\<exists>r. login_free r \<in> set d \<and> u = toDomainUser r)"

lemma loaded_row: "r \<in> set rs \<Longrightarrow> loaded_of (map login_free rs) (toDomainUser r)"
  by (auto simp: loaded_of_def)

lemma tenant_table_valid_rows:
  "rows s' = rows s \<Longrightarrow> tenant_table_valid rows s' = tenant_table_valid rows s"
  by (simp add: tenant_table_valid_def table_intact_def)

lemma login_free_fields:
  "ur_ID (login_free r) = ur_ID r" "ur_Status (login_free r) = ur_Status r" "ur_Role (login_free r) = ur_Role r"
  by (simp_all add: login_free_def)

lemma login_free_valid: "user_row_valid (login_free r) = user_row_valid r"
  by (simp add: user_row_valid_def login_free_def)

lemma login_saved:
  assumes "login_free r' = login_free r"
  shows "login_free (user_assign now cols (toUserEntity ((toDomainUser r)\<lparr>u_LastLoginAt := Some t\<rparr>)) r') = login_free r'"
  using assms
  by (cases r; cases r') (auto simp: login_free_def user_assign_def toUserEntity_def toDomainUser_def
      set_text_def set_ptr_def set_int_def split: option.split)

context user_db
begin

lemma update_rows:
  "rows (snd (urp_Update (userRepo_of db) u s)) = rows s \<or>
   rows (snd (urp_Update (userRepo_of db) u s)) =
     map (\<lambda>r. if ur_ID r = u_ID u then user_assign (now s) [] (toUserEntity u) r else r) (rows s)"
proof -
  let ?q = "Where ''id = ?'' [SqlStr (u_ID u)] Model"
  have q: "matches (user_holds like) ?q r \<longleftrightarrow> ur_ID r = u_ID u" "q_select ?q = []" for r
    by (simp_all add: matches_def query_simps)
  have e: "ur_ID (toUserEntity u) = u_ID u" by (simp add: toUserEntity_def)
  show ?thesis
    using Updates_fits [of ?q s "toUserEntity u"] Updates_clash [of ?q s "toUserEntity u"]
    by (cases "unclashing user_clash (map (\<lambda>r. if matches (user_holds like) ?q r
          then user_assign (now s) (q_select ?q) (toUserEntity u) r else r) (rows s))")
      (auto simp: user_store_defs q e rows_set_rows)
qed

lemma login_save_rows:
  assumes "users_ok rows s" and "login_free r \<in> set (map login_free (rows s))"
  shows "map login_free (rows (snd (urp_Update (userRepo_of db) ((toDomainUser r)\<lparr>u_LastLoginAt := Some t\<rparr>) s)))
       = map login_free (rows s)"
proof -
  obtain r0 where r0: "r0 \<in> set (rows s)" "login_free r0 = login_free r" using assms(2) by auto
  then have "ur_ID r0 = ur_ID r" by (metis login_free_fields(1))
  moreover have "r' = r0" if "r' \<in> set (rows s)" "ur_ID r' = ur_ID r0" for r'
    using users.unclashing_unique [of "rows s" r' r0] assms(1) that r0(1) by (simp add: table_intact_def)
  ultimately have "login_free r' = login_free r" if "r' \<in> set (rows s)" "ur_ID r' = ur_ID r" for r'
    using that r0(2) by metis
  moreover have "u_ID ((toDomainUser r)\<lparr>u_LastLoginAt := Some t\<rparr>) = ur_ID r" by (simp add: toDomainUser_def)
  ultimately show ?thesis
    using update_rows [of "(toDomainUser r)\<lparr>u_LastLoginAt := Some t\<rparr>" s] by (auto simp: login_saved)
qed

end

text \<open>
  The world of the microservice: the two tables, Redis, the signer and the client of the SMS
  service, each of which leaves the tables of the others alone.
\<close>

locale identity_world =
  t: tenant_db like tdb trows tset tnow tdup + u: user_db like udb urows uset unow udup + redis_db rd kv set_kv
  for like and tdb :: "'s tenant_gorm" and trows and tset and tnow and tdup
    and udb :: "'s user_gorm" and urows and uset and unow and udup
    and rd :: "('j, 's) redis" and kv and set_kv +
  fixes env :: "'s go_env" and sg :: "'s TokenSigner" and client :: "pb_VerifyCodeRequest \<Rightarrow> (unit, 's) io"
  assumes tenant_world: "go_world env trows" and user_world: "go_world env urows"
    and apart: "trows (uset us s) = trows s" "urows (tset ts s) = urows s"
    and redis_apart: "trows (set_kv m s) = trows s" "urows (set_kv m s) = urows s"
    and sign_apart: "trows (snd (ts_Sign sg c s)) = trows s" "urows (snd (ts_Sign sg c s)) = urows s"
    and verify_apart: "trows (snd (ts_Verify sg tok s)) = trows s" "urows (snd (ts_Verify sg tok s)) = urows s"
    and client_apart: "trows (snd (client req s)) = trows s" "urows (snd (client req s)) = urows s"
begin

abbreviation "services cfg \<equiv> identity_services env tdb udb rd sg cfg client"

abbreviation "repo \<equiv> userRepo_of udb"

abbreviation "users_at c d \<equiv> login_inv trows urows c d"

lemma quiet_inv:
  assumes "\<And>s. trows (snd (m s)) = trows s" and "\<And>s. urows (snd (m s)) = urows s"
  shows "io_inv (users_at c d) m (\<lambda>_. True)"
proof -
  have "tenant_table_valid trows (snd (m s)) = tenant_table_valid trows s" for s
    by (rule tenant_table_valid_rows) (rule assms(1))
  moreover have "user_table_valid urows (snd (m s)) = user_table_valid urows s" for s
    by (rule user_table_valid_rows) (rule assms(2))
  ultimately show ?thesis by (simp add: io_inv_def login_inv_def assms)
qed

lemma find_loaded:
  "io_inv (users_at c d) (urp_GetByID repo x) (loaded_of d)"
  "io_inv (users_at c d) (urp_GetByUsername repo x) (loaded_of d)"
  "io_inv (users_at c d) (urp_GetByPhone repo x) (loaded_of d)"
proof -
  have "io_inv (users_at c d) (bind_io (first_or udb q nf) (\<lambda>r. return_io (toDomainUser r))) (loaded_of d)" for q nf
    unfolding io_inv_def
  proof (intro allI impI)
    fix s
    assume I: "users_at c d s"
    show "users_at c d (snd (bind_io (first_or udb q nf) (\<lambda>r. return_io (toDomainUser r)) s)) \<and>
        (\<forall>x. fst (bind_io (first_or udb q nf) (\<lambda>r. return_io (toDomainUser r)) s) = Inr x \<longrightarrow> loaded_of d x)"
      using I by (cases rule: u.users.First_run [where s = s and q = q])
        (auto simp: bind_io_run first_or_def map_err_io_run login_inv_def loaded_row)
  qed
  then show "io_inv (users_at c d) (urp_GetByID repo x) (loaded_of d)"
    "io_inv (users_at c d) (urp_GetByUsername repo x) (loaded_of d)"
    "io_inv (users_at c d) (urp_GetByPhone repo x) (loaded_of d)"
    by (simp_all add: user_store_defs)
qed

lemma save_login:
  assumes "loaded_of d u"
  shows "io_inv (users_at c d) (urp_Update repo (u\<lparr>u_LastLoginAt := Some now\<rparr>)) (\<lambda>_. True)"
proof -
  obtain r where r: "login_free r \<in> set d" "u = toDomainUser r" using assms by (auto simp: loaded_of_def)
  let ?u = "(toDomainUser r)\<lparr>u_LastLoginAt := Some now\<rparr>"
  have "users_at c d (snd (urp_Update repo ?u s))" if I: "users_at c d s" for s
  proof -
    have r': "login_free r \<in> set (map login_free (urows s))" using r(1) I by (simp add: login_inv_def)
    then obtain r0 where "r0 \<in> set (urows s)" "login_free r0 = login_free r" by auto
    then have "user_row_valid r"
      using I login_free_valid [of r0] login_free_valid [of r] by (simp add: login_inv_def user_table_valid_def)
    then have sav: "user_savable ?u" by (auto simp: user_savable_def user_row_valid_def toDomainUser_def)
    have "trows (snd (urp_Update repo ?u s)) = trows s"
      using u.user_repo_still(5) [where f = trows, OF apart(1), THEN io_invD, OF refl] .
    moreover have "user_table_valid urows (snd (urp_Update repo ?u s))"
      using u.update_user_valid [OF _ sav] I by (simp add: login_inv_def)
    moreover have "map login_free (urows (snd (urp_Update repo ?u s))) = map login_free (urows s)"
      using u.login_save_rows [OF _ r'] I by (simp add: login_inv_def user_table_valid_def)
    ultimately show ?thesis
      using I tenant_table_valid_rows [of trows "snd (urp_Update repo ?u s)" s] by (simp add: login_inv_def)
  qed
  then show ?thesis by (simp add: io_inv_def r(2))
qed


lemmas quiet_steps =
  quiet_inv [where m = "ts_Sign sg c" for c, OF sign_apart]
  quiet_inv [where m = "ts_Verify sg tok" for tok, OF verify_apart]
  quiet_inv [where m = "client req" for req, OF client_apart]

lemma quiet_clock: "io_inv (users_at c d) (ask_io (time_Now env)) (\<lambda>_. True)"
  and quiet_uuid: "io_inv (users_at c d) (ask_io (uuid_New env)) (\<lambda>_. True)"
  by (rule quiet_inv; simp add: ask_io_run go_world.clock_rows [OF tenant_world] go_world.clock_rows [OF user_world]
      go_world.uuid_rows [OF tenant_world] go_world.uuid_rows [OF user_world])+

lemma quiet_redis:
  "io_inv (users_at c d) (RedisRefreshTokenRepo_Save rd j v ttl) (\<lambda>_. True)"
  "io_inv (users_at c d) (RedisRefreshTokenRepo_Consume rd j) (\<lambda>_. True)"
  "io_inv (users_at c d) (RedisRefreshTokenRepo_Revoke rd j) (\<lambda>_. True)"
  by (rule quiet_inv; simp add: RedisRefreshTokenRepo_Save_def RedisRefreshTokenRepo_Consume_def
      RedisRefreshTokenRepo_Revoke_def consumeScript_def try_io_run bind_io_run commands redis_apart
      split: option.split)+

lemma pair_inv: "io_inv (users_at c d) (authService_generateTokenPair env date (ids_Auth (services cfg)) u) (\<lambda>_. True)"
  unfolding authService_generateTokenPair_def Let_def
  by (auto simp: NewRedisRefreshTokenRepo_def intro!: still quiet_steps quiet_clock quiet_uuid quiet_redis)

lemma login_user_inv:
  "loaded_of d u \<Longrightarrow> io_inv (users_at c d) (login_user env date (ids_Auth (services cfg)) u) (\<lambda>_. True)"
  unfolding login_user_def Let_def
  by (auto intro!: still pair_inv quiet_clock io_inv_ignore [where P = "\<lambda>_. True"] save_login)

lemma auth_service_inv:
  "io_inv (users_at c d) (authService_Login env date (ids_Auth (services cfg)) lreq) (\<lambda>_. True)"
  "io_inv (users_at c d) (remote_authService_SmsLogin env date (ids_Auth (services cfg)) sreq) (\<lambda>_. True)"
  "io_inv (users_at c d) (authService_RefreshToken env date (ids_Auth (services cfg)) rreq) (\<lambda>_. True)"
  "io_inv (users_at c d) (authService_Logout (ids_Auth (services cfg)) oreq) (\<lambda>_. True)"
proof -
  have find: "io_inv (users_at c d) (urp_GetByID repo x) (\<lambda>_. True)" for x
    by (rule io_inv_weaken [OF find_loaded(1)]) simp
  show "io_inv (users_at c d) (authService_Login env date (ids_Auth (services cfg)) lreq) (\<lambda>_. True)"
    unfolding authService_Login_def identity_services_fields
    by (rule io_inv_bind [OF io_inv_map_err [OF find_loaded(2)]]) (auto intro!: login_user_inv)
  show "io_inv (users_at c d) (remote_authService_SmsLogin env date (ids_Auth (services cfg)) sreq) (\<lambda>_. True)"
    unfolding remote_authService_SmsLogin_def identity_services_fields SmsVerifierClient_VerifyCode_def
    by (rule still_bind, rule io_inv_map_err, rule quiet_steps)
      (rule io_inv_bind [OF io_inv_map_err [OF find_loaded(3)]], erule login_user_inv)
  show "io_inv (users_at c d) (authService_RefreshToken env date (ids_Auth (services cfg)) rreq) (\<lambda>_. True)"
    unfolding authService_RefreshToken_def
    by (auto simp: NewRedisRefreshTokenRepo_def intro!: still quiet_steps quiet_redis find pair_inv split: prod.split)
  show "io_inv (users_at c d) (authService_Logout (ids_Auth (services cfg)) oreq) (\<lambda>_. True)"
    unfolding authService_Logout_def
    by (auto simp: NewRedisRefreshTokenRepo_def intro!: still quiet_steps quiet_redis)
qed

lemma replying_inv: "io_inv I m (\<lambda>_. True) \<Longrightarrow> io_inv I (replying k m) (\<lambda>_. True)"
  by (simp add: io_inv_def)

lemma open_call_inv:
  assumes "auth_method q \<noteq> None"
  shows "io_inv (users_at c d) (identity_handle env date (services cfg) q ctx) (\<lambda>_. True)"
  using assms auth_service_inv
  by (cases q) (auto simp: AuthGRPCServer_Login_def remote_AuthGRPCServer_SmsLogin_def AuthGRPCServer_RefreshToken_def
      AuthGRPCServer_Logout_def AuthGRPCServer_GetJWKS_def intro!: replying_inv still_reply)

text \<open>Every other call is an RPC of the tenant or of the user service.\<close>

lemma admin_call_rpc:
  assumes "auth_method q = None"
  shows "tenant_rpc env tdb None s (snd (identity_handle env date (services cfg) q ctx s)) \<or>
    user_rpc env udb s (snd (identity_handle env date (services cfg) q ctx s))"
proof -
  have "remote_TenantGRPCServer_GetTenantSummary (tenant_server env tdb None) =
      TenantGRPCServer_GetTenantSummary (tenant_server env tdb None)"
    using remote_summary_reply [of env "NewTenantRepo (NewTenantDAO tdb)"]
    by (simp add: remote_tenant_service tenant_server_def)
  with assms show ?thesis by (cases q) (auto intro: tenant_rpc.intros user_rpc.intros)
qed

lemma admin_call_valid:
  assumes "auth_method q = None" and "tenant_table_valid trows s \<and> user_table_valid urows s"
  shows "tenant_table_valid trows (snd (identity_handle env date (services cfg) q ctx s)) \<and>
    user_table_valid urows (snd (identity_handle env date (services cfg) q ctx s))"
  using admin_call_rpc [OF assms(1)]
proof
  let ?s = "snd (identity_handle env date (services cfg) q ctx s)"
  assume rpc: "tenant_rpc env tdb None s ?s"
  have "urows ?s = urows s"
    by (rule t.tenant_rpc_still [OF _ _ rpc]) (rule apart, rule go_world.uuid_rows [OF user_world])
  then show ?thesis
    using t.rpc_valid [OF rpc] assms(2) go_world.uuid_rows [OF tenant_world] user_table_valid_rows [of urows ?s s]
    by simp
next
  let ?s = "snd (identity_handle env date (services cfg) q ctx s)"
  assume rpc: "user_rpc env udb s ?s"
  have "trows ?s = trows s"
    by (rule u.user_rpc_still [OF _ _ _ rpc])
      (rule apart, rule go_world.uuid_rows [OF tenant_world], rule go_world.hash_rows [OF tenant_world])
  then show ?thesis
    using u.user_rpc_valid [OF rpc _ user_world] assms(2) tenant_table_valid_rows [of trows ?s s] by simp
qed


lemma call_valid:
  assumes "tenant_table_valid trows (rw_state w) \<and> user_table_valid urows (rw_state w)"
  shows "tenant_table_valid trows (rw_state (snd (identity_call pe logger env date (services cfg) mo q w))) \<and>
    user_table_valid urows (rw_state (snd (identity_call pe logger env date (services cfg) mo q w)))"
proof (cases "auth_method q \<noteq> None \<or> names_caller mo")
  case True
  then obtain ctx w' where run: "identity_call pe logger env date (services cfg) mo q w =
      (Returned (fst (identity_handle env date (services cfg) q ctx (rw_state w))), w')"
    "rw_state w' = snd (identity_handle env date (services cfg) q ctx (rw_state w))"
    by (rule identity_call_admitted)
  show ?thesis
  proof (cases "auth_method q = None")
    case True
    then show ?thesis using run admin_call_valid [OF True assms] by simp
  next
    case False
    have "users_at (trows (rw_state w)) (map login_free (urows (rw_state w))) (rw_state w)"
      using assms by (simp add: login_inv_def)
    from io_invD [OF open_call_inv [OF False] this] show ?thesis using run by (simp add: login_inv_def)
  qed
next
  case False
  then show ?thesis
    using assms by (metis identity_call_refused snd_conv)
qed

lemma nameless_call:
  assumes "\<not> names_caller mo" and "users_at c d (rw_state w)"
  shows "users_at c d (rw_state (snd (identity_call pe logger env date (services cfg) mo q w)))"
proof (cases "auth_method q = None")
  case True
  then show ?thesis using assms by (metis identity_call_refused snd_conv)
next
  case False
  then obtain ctx w' where "identity_call pe logger env date (services cfg) mo q w =
      (Returned (fst (identity_handle env date (services cfg) q ctx (rw_state w))), w')"
    "rw_state w' = snd (identity_handle env date (services cfg) q ctx (rw_state w))"
    using identity_call_admitted by metis
  then show ?thesis using io_invD [OF open_call_inv [OF False] assms(2)] by simp
qed

lemma serve_valid:
  "tenant_table_valid trows (rw_state w) \<and> user_table_valid urows (rw_state w) \<Longrightarrow>
   tenant_table_valid trows (rw_state (identity_serve pe logger env date (services cfg) calls w)) \<and>
   user_table_valid urows (rw_state (identity_serve pe logger env date (services cfg) calls w))"
proof (induction calls arbitrary: w)
  case (Cons a calls)
  show ?case using Cons.IH [OF call_valid [OF Cons.prems]] by (cases a) (simp add: identity_serve_def)
qed (simp add: identity_serve_def)

lemma serve_nameless:
  "\<forall>(mo, q) \<in> set calls. \<not> names_caller mo \<Longrightarrow> users_at c d (rw_state w) \<Longrightarrow>
   users_at c d (rw_state (identity_serve pe logger env date (services cfg) calls w))"
proof (induction calls arbitrary: w)
  case (Cons a calls)
  then show ?case by (cases a) (auto simp: identity_serve_def intro!: nameless_call)
qed (simp add: identity_serve_def)

end

end
