(* ===== verification/Identity_Props.thy ===== *)
theory Identity_Props
  imports Identity_Calls Worlds Auth_Props
begin

text \<open>
  The properties of the identity microservice as a whole, behind its interceptors: what calls
  without a caller cannot do, and what any caller can do.
\<close>

section \<open>A world to run in\<close>

text \<open>Tenants beside the world of users, Redis, signatures and uuids.\<close>

type_synonym identity_ref = "(tenant_row list \<times> int) \<times> auth_ref"

definition at_auth :: "('a, auth_ref) io \<Rightarrow> ('a, identity_ref) io" where
  "at_auth = at_part snd (\<lambda>s w. (fst w, s))"

lemma at_auth_run: "at_auth m w = (fst (m (snd w)), fst w, snd (m (snd w)))"
  by (simp add: at_auth_def at_part_run)

definition iref_env :: "identity_ref go_env" where
  "iref_env =
     \<lparr>time_Now = (\<lambda>(ts, s). (ref_clock s, (ts, s))),
      uuid_New = (\<lambda>(ts, us, m, l, n). (dec_digits n, (ts, us, m, l, Suc n))),
      bcrypt_Generate = (\<lambda>pw s. (Inr (''h:'' @ pw), s)), bcrypt_Compare = (\<lambda>h pw. h = ''h:'' @ pw),
      rand_Int = (\<lambda>n s. (Inr (7 mod n), s))\<rparr>"

definition iref_tenants :: "identity_ref tenant_gorm" where
  "iref_tenants = gorm_fst (tenant_ref ''dup'')"

definition iref_users :: "identity_ref user_gorm" where
  "iref_users = gorm_part snd (\<lambda>s w. (fst w, s)) (gorm_fst (user_ref ''dup''))"

abbreviation "iref_trows \<equiv> fst \<circ> fst"

abbreviation "iref_urows \<equiv> fst \<circ> fst \<circ> snd"

abbreviation iref_set_users :: "user_row list \<Rightarrow> identity_ref \<Rightarrow> identity_ref" where
  "iref_set_users \<equiv> set_part snd (\<lambda>s w. (fst w, s)) (set_fst ref_set)"

abbreviation iref_set_kv :: "(string \<Rightarrow> sms_code redis_val option) \<Rightarrow> identity_ref \<Rightarrow> identity_ref" where
  "iref_set_kv \<equiv> \<lambda>m w. (fst w, ref_set_kv m (snd w))"

abbreviation iref_redis :: "(sms_code, identity_ref) redis" where
  "iref_redis \<equiv> ref_redis (ref_kv \<circ> snd) iref_set_kv"

abbreviation iref_signer :: "identity_ref TokenSigner" where
  "iref_signer \<equiv> rs256_signer
     (ref_jwt (ref_log \<circ> snd) (\<lambda>l w. (fst w, ref_set_log l (snd w))) (ref_clock \<circ> snd)) auth_ref_key"

definition iref_sms :: "pb_VerifyCodeRequest \<Rightarrow> (unit, identity_ref) io" where
  "iref_sms req = at_auth (auth_ref_verify (pvc_Phone req) (pvc_Code req))"

lemma iref_tables:
  "tenant_db sql_like iref_tenants iref_trows (set_fst ref_set) (snd \<circ> fst) ''dup''"
  "user_db sql_like iref_users iref_urows iref_set_users (snd \<circ> fst \<circ> snd) ''dup''"
proof -
  show "tenant_db sql_like iref_tenants iref_trows (set_fst ref_set) (snd \<circ> fst) ''dup''"
    using tenant_ref_db [of "''dup''"] unfolding tenant_db_def iref_tenants_def by (rule gorm_fst_table)
  have "user_db sql_like (gorm_fst (user_ref ''dup'')) (fst \<circ> fst) (set_fst ref_set) (snd \<circ> fst) ''dup''"
    by (rule user_db_fst [OF user_ref_db])
  then show "user_db sql_like iref_users iref_urows iref_set_users (snd \<circ> fst \<circ> snd) ''dup''"
    unfolding user_db_def iref_users_def by (rule gorm_part_table [rotated 2]) simp_all
qed

lemma iref_verify_rows: "fst (snd (auth_ref_verify ph code s)) = fst s"
  by (simp add: sms_verifier_run [OF auth_ref_sms_world] ref_set_kv_def split: option.split)

lemma iref_world:
  "identity_world sql_like iref_tenants iref_trows (set_fst ref_set) (snd \<circ> fst) ''dup''
     iref_users iref_urows iref_set_users (snd \<circ> fst \<circ> snd) ''dup''
     iref_redis (ref_kv \<circ> snd) iref_set_kv iref_env iref_signer iref_sms"
proof -
  have "redis_db iref_redis (ref_kv \<circ> snd) iref_set_kv"
    by (rule ref_redis_db) (simp_all add: ref_kv_def ref_set_kv_def)
  moreover have "go_world iref_env iref_trows" "go_world iref_env iref_urows"
    by (unfold_locales; auto simp: iref_env_def split: prod.split)+
  ultimately show ?thesis
    unfolding identity_world_def identity_world_axioms_def
    by (intro conjI iref_tables)
      (auto simp: set_fst_def set_part_def ref_set_kv_def ref_set_log_def iref_sms_def at_auth_run
        iref_verify_rows rs256_signer_def RS256Signer_Sign_def RS256Signer_Verify_def ref_jwt_def bind_io_run
        split: option.split sum.split prod.split)
qed

interpretation iref: identity_world sql_like iref_tenants iref_trows "set_fst ref_set" "snd \<circ> fst" "''dup''"
  iref_users iref_urows iref_set_users "snd \<circ> fst \<circ> snd" "''dup''"
  iref_redis "ref_kv \<circ> snd" iref_set_kv iref_env iref_signer iref_sms
  by (rule iref_world)

section \<open>Calls\<close>

text \<open>
  C4: The identity microservice as a whole, under any sequence of calls. However the calls are
  mixed, whatever their metadata and however each ends, the tables of tenants and users stay
  valid: identifiers, tenant names, usernames within a tenant and phone numbers stay unique, and
  every status and role is one of the known ones. And clients that name no caller cannot
  administer anything: as long as no call carries a caller, all tenants stay as they are, and of
  the users nothing changes but the times of their logins.
\<close>

theorem identity_calls_guarded:
  assumes "identity_world like tdb trows tset tnow tdup udb urows uset unow udup rd kv set_kv env sg client"
    and "tenant_table_valid trows (rw_state w)" and "user_table_valid urows (rw_state w)"
  shows "let w' = identity_serve pe logger env date (identity_services env tdb udb rd sg cfg client) calls w in
    tenant_table_valid trows (rw_state w') \<and> user_table_valid urows (rw_state w') \<and>
    ((\<forall>(mo, q) \<in> set calls. \<not> names_caller mo) \<longrightarrow>
       trows (rw_state w') = trows (rw_state w) \<and>
       map login_free (urows (rw_state w')) = map login_free (urows (rw_state w)))"
proof -
  let ?at = "login_inv trows urows (trows (rw_state w)) (map login_free (urows (rw_state w)))"
  have "?at (rw_state w)" using assms(2,3) by (simp add: login_inv_def)
  from identity_world.serve_nameless [OF assms(1) _ this] identity_world.serve_valid [OF assms(1)] assms(2,3)
  show ?thesis by (auto simp: Let_def login_inv_def)
qed


section \<open>What a caller is not asked\<close>

context user_db
begin

lemma user_of_row:
  assumes "users_ok rows s" and "r \<in> set (rows s)"
  shows "user_at rows s (ur_ID r) = Some (toDomainUser r)"
proof -
  obtain r' where "row_at rows ur_ID s (ur_ID r) = Some r'"
    using assms(2) users.find_row_None [of s "ur_ID r"] by (cases "row_at rows ur_ID s (ur_ID r)") auto
  moreover from users.find_row_Some [OF this] have "r' = r"
    using users.unclashing_unique [of "rows s" r' r] assms by (simp add: table_intact_def)
  ultimately show ?thesis by (simp add: entity_at_def)
qed

lemma username_found:
  assumes ok: "users_ok rows s" and u: "user_at rows s uid = Some u"
    and only: "\<And>i v. user_at rows s i = Some v \<Longrightarrow> u_Username v = u_Username u \<Longrightarrow> i = uid"
  shows "urp_GetByUsername (userRepo_of db) (u_Username u) s = (Inr u, s)"
proof -
  let ?q = "Where ''username = ?'' [SqlStr (u_Username u)] Model"
  obtain r where "row_at rows ur_ID s uid = Some r" "u = toDomainUser r" using u by (auto simp: entity_at_def)
  then have "r \<in> set (rows s)" "ur_Username r = u_Username u"
    using users.find_row_Some [of s uid r] by (simp_all add: toDomainUser_def)
  then obtain r' where r': "g_First db ?q s = (Inr r', s)" "r' \<in> set (rows s)" "ur_Username r' = u_Username u"
    using First_some [of s ?q] by (auto simp: username_matches)
  have at: "user_at rows s (ur_ID r') = Some (toDomainUser r')" by (rule user_of_row [OF ok r'(2)])
  moreover have "ur_ID r' = uid" by (rule only [OF at]) (simp add: toDomainUser_def r'(3))
  ultimately have "toDomainUser r' = u" using u by simp
  with r'(1) show ?thesis by (simp add: user_store_defs bind_io_run first_or_def map_err_io_run)
qed

lemma ResetPassword_run:
  assumes "users_ok rows s" and "user_at rows s uid = Some u" and "8 \<le> length pw"
    and "bcrypt_Generate env pw s = (Inr h, s1)" and "h \<noteq> []" and "rows s1 = rows s"
    and "u_UpdatedAt u \<noteq> time_UnixMilli (now s1)"
  shows "\<exists>s'. UserGRPCServer_ResetPassword (user_server env db) \<lparr>rpr_UserID = uid, rpr_NewPassword = pw\<rparr> s = (Inr (), s') \<and>
    users_ok rows s' \<and> user_at rows s' = (user_at rows s)
      (uid \<mapsto> u\<lparr>u_PasswordHash := h, u_UpdatedAt := time_UnixMilli (now s1)\<rparr>)"
proof -
  let ?c = "\<lambda>u. bind_io (bcrypt_Generate env pw) (\<lambda>h. return_io (u\<lparr>u_PasswordHash := h\<rparr>))"
  have "userService_ResetPassword env (userRepo_of db) \<lparr>rpr_UserID = uid, rpr_NewPassword = pw\<rparr> =
      modify_unit (urp_GetByID (userRepo_of db)) (urp_Update (userRepo_of db)) uid ?c"
    using assms(3) by (simp add: userService_ResetPassword_def modify_unit_def bind_io_assoc)
  moreover obtain s' where "modify_unit (urp_GetByID (userRepo_of db)) (urp_Update (userRepo_of db)) uid ?c s = (Inr (), s')"
    "users_ok rows s'" "user_at rows s' = (user_at rows s)
      (uid \<mapsto> u\<lparr>u_PasswordHash := h, u_UpdatedAt := time_UnixMilli (now s1)\<rparr>)"
    using password_saved [where change = ?c, OF assms(1,2,4,5,6,7) refl] by blast
  ultimately show ?thesis by (simp add: user_server_defs grpc_reply_run)
qed

end

text \<open>
  C9: ResetPassword asks for no role. A call that names any caller at all, of whatever tenant
  and role, sets the password of any user to a text of its choice, with no knowledge of the old
  one: it is answered without an error, the stored hash is one of the new password, and nothing
  else of the users changes. From then on Login with the new password gets past the check of the
  password as that user. (The requirements restrict the call to administrators, and
  administrators of a tenant to their own users.)
\<close>

theorem reset_password_needs_no_role:
  assumes "identity_world like tdb trows tset tnow tdup udb urows uset unow udup rd kv set_kv env sg client"
    and "names_caller mo" and "users_ok urows (rw_state w)" and "user_at urows (rw_state w) uid = Some u"
    and "\<forall>i v. user_at urows (rw_state w) i = Some v \<and> u_Username v = u_Username u \<longrightarrow> i = uid"
    and "8 \<le> length pw" and "bcrypt_Generate env pw (rw_state w) = (Inr h, s1)"
    and "u_UpdatedAt u \<noteq> time_UnixMilli (unow s1)"
  shows "\<exists>w'. identity_call pe logger env date (identity_services env tdb udb rd sg cfg client) mo
       (ResetPassword \<lparr>rpr_UserID = uid, rpr_NewPassword = pw\<rparr>) w = (Returned (Inr EmptyReply), w') \<and>
     user_at urows (rw_state w') = (user_at urows (rw_state w))
       (uid \<mapsto> u\<lparr>u_PasswordHash := h, u_UpdatedAt := time_UnixMilli (unow s1)\<rparr>) \<and>
     authService_Login env date (ids_Auth (identity_services env tdb udb rd sg cfg client))
       \<lparr>lor_Username = u_Username u, lor_Password = pw\<rparr> (rw_state w') =
     login_user env date (ids_Auth (identity_services env tdb udb rd sg cfg client))
       (u\<lparr>u_PasswordHash := h, u_UpdatedAt := time_UnixMilli (unow s1)\<rparr>) (rw_state w')"
proof -
  let ?sv = "identity_services env tdb udb rd sg cfg client"
  let ?q = "ResetPassword \<lparr>rpr_UserID = uid, rpr_NewPassword = pw\<rparr>"
  let ?u = "u\<lparr>u_PasswordHash := h, u_UpdatedAt := time_UnixMilli (unow s1)\<rparr>"
  have db: "user_db like udb urows uset unow udup" and world: "go_world env urows"
    using assms(1) by (simp_all add: identity_world_def identity_world_axioms_def)
  have h: "bcrypt_Compare env h pw" "h \<noteq> []" "urows s1 = urows (rw_state w)"
    using go_world.hash_compare [OF world assms(7)] go_world.hash_rows [OF world, of pw "rw_state w"] assms(7)
    by simp_all
  obtain s' where reset: "UserGRPCServer_ResetPassword (user_server env udb) \<lparr>rpr_UserID = uid, rpr_NewPassword = pw\<rparr>
      (rw_state w) = (Inr (), s')" "users_ok urows s'" "user_at urows s' = (user_at urows (rw_state w))(uid \<mapsto> ?u)"
    using user_db.ResetPassword_run [OF db assms(3,4,6,7) h(2,3) assms(8)] by blast
  obtain ctx w' where call: "identity_call pe logger env date ?sv mo ?q w =
      (Returned (fst (identity_handle env date ?sv ?q ctx (rw_state w))), w')"
    "rw_state w' = snd (identity_handle env date ?sv ?q ctx (rw_state w))"
    using identity_call_admitted [of ?q mo] assms(2) by metis
  have s': "rw_state w' = s'" using call(2) reset(1) by simp
  have "urp_GetByUsername (userRepo_of udb) (u_Username ?u) s' = (Inr ?u, s')"
  proof (rule user_db.username_found [OF db reset(2)])
    show "user_at urows s' uid = Some ?u" by (simp add: reset(3))
    show "i = uid" if "user_at urows s' i = Some v" "u_Username v = u_Username ?u" for i v
      using that assms(5) by (simp add: reset(3) split: if_splits)
  qed
  then have "authService_Login env date (ids_Auth ?sv) \<lparr>lor_Username = u_Username u, lor_Password = pw\<rparr> s' =
      login_user env date (ids_Auth ?sv) ?u s'"
    using h(1) by (simp add: authService_Login_def bind_io_run map_err_io_run)
  then show ?thesis
    using call(1) reset s' by (intro exI [of _ w']) (simp add: replying_run)
qed

section \<open>Calls on the example world\<close>

definition iref_start :: identity_ref where
  "iref_start = (([tenant_example], 9), auth_start)"

abbreviation "iref_services \<equiv> identity_services iref_env iref_tenants iref_users iref_redis iref_signer auth_ref_cfg iref_sms"

lemma iref_start_valid: "tenant_table_valid iref_trows iref_start" "user_table_valid iref_urows iref_start"
  by (simp_all add: iref_start_def auth_start_def tenant_table_valid_def user_table_valid_def table_intact_def
      unclashing_def tenant_row_valid_def tenant_example_def user_row_valid_def user_roles_def user_example_fields)

text \<open>Without a caller: a tenant is not deleted, and a user is not frozen.\<close>

lemma iref_start_rows: "iref_trows iref_start = [tenant_example]" "iref_urows iref_start = [user_example]"
  by (simp_all add: iref_start_def auth_start_def)

lemma identity_calls_guarded_witness:
  "\<exists>w'. w' = rw_state (identity_serve example_proc example_logger iref_env auth_ref_date iref_services
       [(None, DeleteTenant ''t1''), (Some [''x-user-role'' \<mapsto> [''platform_admin'']], FreezeUser ''a1'')]
       (example_world iref_start)) \<and>
     iref_trows w' = [tenant_example] \<and> map ur_Status (iref_urows w') = [''active'']"
proof -
  let ?mo = "Some [''x-user-role'' \<mapsto> [''platform_admin'']]"
  let ?calls = "[(None, DeleteTenant ''t1''), (?mo, FreezeUser ''a1'')]"
  define w' where "w' = rw_state (identity_serve example_proc example_logger iref_env auth_ref_date iref_services
      ?calls (example_world iref_start))"
  have "\<not> names_caller None" "\<not> names_caller ?mo" by (simp_all add: names_caller_def first_header_def)
  then have nameless: "\<forall>(mo, q) \<in> set ?calls. \<not> names_caller mo" by simp
  have start: "rw_state (example_world iref_start) = iref_start" by (simp add: example_world_def)
  note guarded = identity_calls_guarded [OF iref_world, where w = "example_world iref_start" and pe = example_proc
      and logger = example_logger and date = auth_ref_date and cfg = auth_ref_cfg and calls = ?calls,
      unfolded start Let_def, OF iref_start_valid, folded w'_def]
  then have same: "iref_trows w' = iref_trows iref_start"
    "map login_free (iref_urows w') = map login_free (iref_urows iref_start)"
    using nameless by blast+
  have "map ur_Status (map login_free (iref_urows w')) = [''active'']"
    unfolding same iref_start_rows by (simp add: login_free_def user_example_fields)
  then have "map ur_Status (iref_urows w') = [''active'']" by (simp add: login_free_fields comp_def)
  then show ?thesis
    using same(1) unfolding iref_start_rows by (intro exI [of _ w'] conjI w'_def)
qed

text \<open>An operator of another tenant sets the password of the user \<open>li\<close>.\<close>

lemma reset_password_needs_no_role_witness:
  "\<exists>w'. identity_call example_proc example_logger iref_env auth_ref_date iref_services
       (Some [''x-user-id'' \<mapsto> [''u9''], ''x-tenant-id'' \<mapsto> [''t9''], ''x-user-role'' \<mapsto> [''operator'']])
       (ResetPassword \<lparr>rpr_UserID = ''a1'', rpr_NewPassword = ''newsecret''\<rparr>) (example_world iref_start)
     = (Returned (Inr EmptyReply), w') \<and>
     map_option u_PasswordHash (user_at iref_urows (rw_state w') ''a1'') = Some ''h:newsecret''"
proof -
  let ?mo = "Some [''x-user-id'' \<mapsto> [''u9''], ''x-tenant-id'' \<mapsto> [''t9''], ''x-user-role'' \<mapsto> [''operator'']]"
  have mo: "names_caller ?mo" by (simp add: names_caller_def first_header_def)
  have at: "user_at iref_urows iref_start i = (if i = ''a1'' then Some (toDomainUser user_example) else None)" for i
    by (simp add: entity_at_def row_at_def iref_start_def auth_start_def user_example_fields)
  let ?u = "toDomainUser user_example"
  have start: "rw_state (example_world iref_start) = iref_start" by (simp add: example_world_def)
  have ok: "users_ok iref_urows iref_start" using iref_start_valid(2) by (simp add: user_table_valid_def)
  have u: "user_at iref_urows iref_start ''a1'' = Some ?u" by (simp add: at)
  have only: "\<forall>i v. user_at iref_urows iref_start i = Some v \<and> u_Username v = u_Username ?u \<longrightarrow> i = ''a1''"
    by (simp add: at)
  have pw: "8 \<le> length ''newsecret''"
    "bcrypt_Generate iref_env ''newsecret'' iref_start = (Inr ''h:newsecret'', iref_start)"
    by (simp_all add: iref_env_def)
  have clock: "u_UpdatedAt ?u \<noteq> time_UnixMilli ((snd \<circ> fst \<circ> snd) iref_start)"
    by (simp add: iref_start_def auth_start_def toDomainUser_def user_example_fields time_UnixMilli_def)
  let ?call = "identity_call example_proc example_logger iref_env auth_ref_date iref_services ?mo
       (ResetPassword \<lparr>rpr_UserID = ''a1'', rpr_NewPassword = ''newsecret''\<rparr>) (example_world iref_start)"
  let ?new = "?u\<lparr>u_PasswordHash := ''h:newsecret'', u_UpdatedAt := time_UnixMilli ((snd \<circ> fst \<circ> snd) iref_start)\<rparr>"
  note reset = reset_password_needs_no_role [OF iref_world mo, where w = "example_world iref_start", unfolded start,
        OF ok u only pw clock, where pe = example_proc and logger = example_logger and date = auth_ref_date
        and cfg = auth_ref_cfg]
  from reset obtain w' where w': "?call = (Returned (Inr EmptyReply), w')"
    "user_at iref_urows (rw_state w') = (user_at iref_urows iref_start)(''a1'' \<mapsto> ?new)"
    by (elim exE conjE) (rule that, assumption+)
  have "map_option u_PasswordHash (user_at iref_urows (rw_state w') ''a1'') = Some ''h:newsecret''"
    unfolding w'(2) by simp
  with w'(1) show ?thesis by (intro exI [of _ w'] conjI)
qed

end
