(* ===== verification/Service_Config.thy ===== *)
theory Service_Config
  imports Config
begin

text \<open>
  The configurations of the two services that are built on their own
  (\<open>services/identity/internal/config\<close> and \<open>services/sms/internal/config\<close>): other defaults, one
  database, and for the identity service the address of the SMS service. The parts and the way an
  environment variable overrides one are those of the monolith's configuration.
\<close>

record 'c service_env =
  sv_ReadFile :: "string \<Rightarrow> file_read"
  sv_Getenv :: "string \<Rightarrow> string"
  sv_yaml :: "string \<Rightarrow> 'c \<Rightarrow> go_error + 'c"
  sv_ParseFloat :: "string \<Rightarrow> rat option"

definition service_telemetry :: "string \<Rightarrow> TelemetryConfig" where
  "service_telemetry name =
     \<lparr>ServiceName = name, Environment = ''development'',
      tc_Log = \<lparr>lc_Level = ''info'', lc_Format = ''json''\<rparr>,
      tc_Trace = \<lparr>Endpoint = ''localhost:4317'', Insecure = True, SamplingRatio = 1\<rparr>,
      tc_Metrics = \<lparr>mc_Path = ''/metrics''\<rparr>\<rparr>"

section \<open>The identity service\<close>

record SmsClientConfig =
  sc_Addr :: string

record identity_Config =
  ic_Server :: ServerConfig
  ic_Database :: DatabaseConfig
  ic_Redis :: RedisConfig
  ic_Auth :: AuthConfig
  ic_SmsClient :: SmsClientConfig
  ic_Telemetry :: TelemetryConfig

definition identity_DefaultPath :: string where
  "identity_DefaultPath = ''config.yaml''"

definition identity_Default :: identity_Config where
  "identity_Default =
     \<lparr>ic_Server = \<lparr>GRPCPort = 50052, MetricsPort = 9092, HTTPHealthPort = 8081\<rparr>,
      ic_Database =
        \<lparr>db_URL = [], db_Host = ''localhost'', db_Port = 3306, db_User = ''parkhub'',
         db_Password = ''parkhub'', db_DBName = ''parkhub_identity''\<rparr>,
      ic_Redis = \<lparr>rc_Addr = ''localhost:6379'', rc_Password = [], rc_DB = 0\<rparr>,
      ic_Auth = \<lparr>Issuer = ''parkhub'', AccessTTL = ''4h'', RefreshTTL = ''168h'',
                 PrivateKeyPath = ''configs/keys/private.pem'',
                 PublicKeyPath = ''configs/keys/public.pem'', KeyID = ''parkhub-rs256-01''\<rparr>,
      ic_SmsClient = \<lparr>sc_Addr = ''localhost:50053''\<rparr>,
      ic_Telemetry = service_telemetry ''parkhub-identity''\<rparr>"

definition identity_applyEnvOverrides ::
  "(string \<Rightarrow> rat option) \<Rightarrow> (string \<Rightarrow> string) \<Rightarrow> identity_Config \<Rightarrow> identity_Config" where
  "identity_applyEnvOverrides parseFloat getenv cfg =
     cfg\<lparr>ic_Server := override_server getenv (ic_Server cfg),
         ic_Database := override_db getenv [] ''DB_'' (ic_Database cfg),
         ic_Redis := override_redis getenv (ic_Redis cfg),
         ic_SmsClient := override getenv ''SMS_CLIENT_ADDR'' (\<lambda>v c. c\<lparr>sc_Addr := v\<rparr>) (ic_SmsClient cfg),
         ic_Auth := override_auth getenv (ic_Auth cfg),
         ic_Telemetry := override_telemetry parseFloat getenv (ic_Telemetry cfg)\<rparr>"

definition identity_Load :: "identity_Config service_env \<Rightarrow> string \<Rightarrow> go_error + identity_Config" where
  "identity_Load sys path0 =
     (let path = (if path0 = [] then identity_DefaultPath else path0);
          finish = identity_applyEnvOverrides (sv_ParseFloat sys) (sv_Getenv sys)
      in case sv_ReadFile sys path of
           ReadErr e \<Rightarrow> Inl (Wrap ''read config file: '' e)
         | NotExist \<Rightarrow> Inr (finish identity_Default)
         | ReadOk data \<Rightarrow>
             (case sv_yaml sys data identity_Default of
                Inl e \<Rightarrow> Inl (Wrap ''unmarshal config file: '' e)
              | Inr cfg \<Rightarrow> Inr (finish cfg)))"

section \<open>The SMS service\<close>

record sms_Config =
  smc_Server :: ServerConfig
  smc_Database :: DatabaseConfig
  smc_Redis :: RedisConfig
  smc_Telemetry :: TelemetryConfig

definition sms_DefaultPath :: string where
  "sms_DefaultPath = ''config.yaml''"

definition sms_Default :: sms_Config where
  "sms_Default =
     \<lparr>smc_Server = \<lparr>GRPCPort = 50053, MetricsPort = 9093, HTTPHealthPort = 8082\<rparr>,
      smc_Database =
        \<lparr>db_URL = [], db_Host = ''localhost'', db_Port = 3306, db_User = ''parkhub'',
         db_Password = ''parkhub'', db_DBName = ''parkhub_identity''\<rparr>,
      smc_Redis = \<lparr>rc_Addr = ''localhost:6379'', rc_Password = [], rc_DB = 0\<rparr>,
      smc_Telemetry = service_telemetry ''parkhub-sms''\<rparr>"

definition sms_applyEnvOverrides ::
  "(string \<Rightarrow> rat option) \<Rightarrow> (string \<Rightarrow> string) \<Rightarrow> sms_Config \<Rightarrow> sms_Config" where
  "sms_applyEnvOverrides parseFloat getenv cfg =
     cfg\<lparr>smc_Server := override_server getenv (smc_Server cfg),
         smc_Database := override_db getenv [] ''DB_'' (smc_Database cfg),
         smc_Redis := override_redis getenv (smc_Redis cfg),
         smc_Telemetry := override_telemetry parseFloat getenv (smc_Telemetry cfg)\<rparr>"

definition sms_Load :: "sms_Config service_env \<Rightarrow> string \<Rightarrow> go_error + sms_Config" where
  "sms_Load sys path0 =
     (let path = (if path0 = [] then sms_DefaultPath else path0);
          finish = sms_applyEnvOverrides (sv_ParseFloat sys) (sv_Getenv sys)
      in case sv_ReadFile sys path of
           ReadErr e \<Rightarrow> Inl (Wrap ''read config file: '' e)
         | NotExist \<Rightarrow> Inr (finish sms_Default)
         | ReadOk data \<Rightarrow>
             (case sv_yaml sys data sms_Default of
                Inl e \<Rightarrow> Inl (Wrap ''unmarshal config file: '' e)
              | Inr cfg \<Rightarrow> Inr (finish cfg)))"

section \<open>Running them together\<close>

text \<open>
  Without a file and without environment variables the three programs can run on one machine:
  their nine ports differ, and the identity service calls the port the SMS service listens on.
\<close>

definition server_ports :: "ServerConfig \<Rightarrow> int list" where
  "server_ports c = [GRPCPort c, MetricsPort c, HTTPHealthPort c]"

lemma default_ports_distinct:
  "distinct (server_ports (cfg_Server Default) @ server_ports (ic_Server identity_Default) @
             server_ports (smc_Server sms_Default)) \<and>
   sc_Addr (ic_SmsClient identity_Default) = ''localhost:'' @ ''50053'' \<and> GRPCPort (smc_Server sms_Default) = 50053"
  by (simp add: server_ports_def Default_def identity_Default_def sms_Default_def)

text \<open>What is not set in the environment stays as the file, or the default, has it.\<close>

lemma override_unset: "getenv n = [] \<Longrightarrow> override getenv n f c = c"
  by (simp add: override_def)

lemma unset_environment:
  assumes "\<And>n. getenv n = []"
  shows "identity_applyEnvOverrides pf getenv ic = ic" and "sms_applyEnvOverrides pf getenv smc = smc"
    and "applyEnvOverrides pf getenv cfg = cfg"
  by (simp_all add: identity_applyEnvOverrides_def sms_applyEnvOverrides_def applyEnvOverrides_def
      override_server_def override_db_def override_redis_def override_auth_def override_telemetry_def
      override_unset [where getenv = getenv, OF assms])

end
