(* ===== verification/Health.thy ===== *)
theory Health
  imports Grpc_Util
begin

text \<open>
  The health service (\<open>internal/health/health.go\<close>): the status of every service, the streams
  that watch one, and the channel of capacity one between the server and each stream.

  Every method holds the server's mutex from its first access to its last, so each is one step.
  A stream takes a status from its channel and sends it to its client outside the mutex: these
  are two steps, and other calls may come between them. The order in which Go visits the keys
  of a map is an argument of \<open>SetNotServing\<close>.
\<close>

datatype ServingStatus = STATUS_UNKNOWN | SERVING | NOT_SERVING | SERVICE_UNKNOWN

text \<open>
  Channels are numbered in the order they are made; \<open>hs_chan h ch\<close> is what is in the buffer of
  channel \<open>ch\<close>. A service without watchers reads as the empty slice.
\<close>

record health_server =
  hs_status :: "string \<rightharpoonup> ServingStatus"
  hs_watchers :: "string \<Rightarrow> nat list"
  hs_chan :: "nat \<Rightarrow> ServingStatus list"
  hs_made :: nat

definition NewHealthServer :: health_server where
  "NewHealthServer =
     \<lparr>hs_status = [[] \<mapsto> SERVING], hs_watchers = (\<lambda>_. []), hs_chan = (\<lambda>_. []), hs_made = 0\<rparr>"

definition health_Check :: "health_server \<Rightarrow> string \<Rightarrow> go_error + ServingStatus" where
  "health_Check h service =
     (case hs_status h service of
        None \<Rightarrow> Inl (StatusErr NotFound ''unknown service'')
      | Some st \<Rightarrow> Inr st)"

definition addWatcher :: "string \<Rightarrow> health_server \<Rightarrow> nat \<times> health_server" where
  "addWatcher service h =
     (let ch = hs_made h;
          st = (case hs_status h service of Some st \<Rightarrow> st | None \<Rightarrow> SERVICE_UNKNOWN)
      in (ch, h\<lparr>hs_made := Suc ch,
                hs_watchers := (hs_watchers h)(service := hs_watchers h service @ [ch]),
                hs_chan := (hs_chan h)(ch := [st])\<rparr>))"

text \<open>The loop of \<open>removeWatcher\<close> takes the first occurrence of the channel out and stops.\<close>

fun without_watcher :: "nat \<Rightarrow> nat list \<Rightarrow> nat list" where
  "without_watcher ch [] = []"
| "without_watcher ch (w # ws) = (if w = ch then ws else w # without_watcher ch ws)"

definition removeWatcher :: "string \<Rightarrow> nat \<Rightarrow> health_server \<Rightarrow> health_server" where
  "removeWatcher service ch h =
     h\<lparr>hs_watchers := (hs_watchers h)(service := without_watcher ch (hs_watchers h service))\<rparr>"

text \<open>\<open>select { case ch <- st: default: }\<close>: a status for a full channel is dropped.\<close>

definition try_send :: "ServingStatus \<Rightarrow> nat \<Rightarrow> health_server \<Rightarrow> health_server" where
  "try_send st ch h = (if hs_chan h ch = [] then h\<lparr>hs_chan := (hs_chan h)(ch := [st])\<rparr> else h)"

definition notifyWatchers :: "string \<Rightarrow> ServingStatus \<Rightarrow> health_server \<Rightarrow> health_server" where
  "notifyWatchers service st h =
     (let h = fold (try_send st) (hs_watchers h service) h
      in if service \<noteq> [] then fold (try_send st) (hs_watchers h []) h else h)"

definition SetServing :: "string \<Rightarrow> ServingStatus \<Rightarrow> health_server \<Rightarrow> health_server" where
  "SetServing service st h =
     notifyWatchers service st (h\<lparr>hs_status := (hs_status h)(service \<mapsto> st)\<rparr>)"

fun SetNotServing :: "string list \<Rightarrow> health_server \<Rightarrow> health_server" where
  "SetNotServing [] h = h"
| "SetNotServing (k # ks) h =
     SetNotServing ks
       (notifyWatchers k NOT_SERVING (h\<lparr>hs_status := (hs_status h)(k \<mapsto> NOT_SERVING)\<rparr>))"

text \<open>
  A \<open>Watch\<close> call in progress: the service it watches, the status it is sending, and what it has
  sent to its client.
\<close>

record watch =
  wt_service :: string
  wt_sending :: "ServingStatus option"
  wt_sent :: "ServingStatus list"

record health_run =
  hr_server :: health_server
  hr_streams :: "nat \<rightharpoonup> watch"

definition health_start :: health_run where
  "health_start = \<lparr>hr_server = NewHealthServer, hr_streams = Map.empty\<rparr>"

text \<open>
  The steps of a run. \<open>watch\<close> is the start of a \<open>Watch\<close> call, \<open>receive\<close> and \<open>send\<close> one turn
  of its loop, \<open>cancel\<close> its return when the context of the stream is done and \<open>broken\<close> its
  return when \<open>Send\<close> fails; the deferred \<open>removeWatcher\<close> runs on both. The label says which
  part of the program moves.
\<close>

datatype health_label = ByClient | ByStream | BySetServing | BySetNotServing

inductive health_step :: "health_label \<Rightarrow> health_run \<Rightarrow> health_run \<Rightarrow> bool" where
  watch: "addWatcher service (hr_server r) = (ch, h) \<Longrightarrow>
     health_step ByClient r \<lparr>hr_server = h, hr_streams = (hr_streams r)(ch \<mapsto>
       \<lparr>wt_service = service, wt_sending = None, wt_sent = []\<rparr>)\<rparr>"
| receive: "hr_streams r ch = Some w \<Longrightarrow> wt_sending w = None \<Longrightarrow> hs_chan (hr_server r) ch = st # sts \<Longrightarrow>
     health_step ByStream r \<lparr>hr_server = (hr_server r)\<lparr>hs_chan := (hs_chan (hr_server r))(ch := sts)\<rparr>,
       hr_streams = (hr_streams r)(ch \<mapsto> w\<lparr>wt_sending := Some st\<rparr>)\<rparr>"
| send: "hr_streams r ch = Some w \<Longrightarrow> wt_sending w = Some st \<Longrightarrow>
     health_step ByStream r
       (r\<lparr>hr_streams := (hr_streams r)(ch \<mapsto> w\<lparr>wt_sending := None, wt_sent := wt_sent w @ [st]\<rparr>)\<rparr>)"
| broken: "hr_streams r ch = Some w \<Longrightarrow> wt_sending w = Some st \<Longrightarrow>
     health_step ByStream r \<lparr>hr_server = removeWatcher (wt_service w) ch (hr_server r),
       hr_streams = (hr_streams r)(ch := None)\<rparr>"
| cancel: "hr_streams r ch = Some w \<Longrightarrow> wt_sending w = None \<Longrightarrow>
     health_step ByClient r \<lparr>hr_server = removeWatcher (wt_service w) ch (hr_server r),
       hr_streams = (hr_streams r)(ch := None)\<rparr>"
| serving: "health_step BySetServing r (r\<lparr>hr_server := SetServing service st (hr_server r)\<rparr>)"
| not_serving: "distinct ks \<Longrightarrow> set ks = dom (hs_status (hr_server r)) \<Longrightarrow>
     health_step BySetNotServing r (r\<lparr>hr_server := SetNotServing ks (hr_server r)\<rparr>)"

section \<open>What a notification does\<close>

lemma fold_try_send:
  "fold (try_send st) ws h =
     h\<lparr>hs_chan := (\<lambda>ch. if ch \<in> set ws \<and> hs_chan h ch = [] then [st] else hs_chan h ch)\<rparr>"
proof (induction ws arbitrary: h)
  case (Cons w ws)
  have "fold (try_send st) (w # ws) h = fold (try_send st) ws (try_send st w h)" by simp
  also have "\<dots> = h\<lparr>hs_chan := (\<lambda>ch. if ch \<in> set (w # ws) \<and> hs_chan h ch = [] then [st] else hs_chan h ch)\<rparr>"
    unfolding Cons.IH by (cases h) (auto simp: try_send_def fun_eq_iff)
  finally show ?case .
qed simp

lemma notifyWatchers_eq:
  "notifyWatchers service st h =
     h\<lparr>hs_chan := (\<lambda>ch. if ch \<in> set (hs_watchers h service) \<union> set (hs_watchers h []) \<and> hs_chan h ch = []
                     then [st] else hs_chan h ch)\<rparr>"
  by (cases h) (auto simp: notifyWatchers_def fold_try_send Let_def fun_eq_iff)

text \<open>In whatever order the map is visited, the outcome of \<open>SetNotServing\<close> is the same.\<close>

lemma SetNotServing_eq:
  "SetNotServing ks h =
     h\<lparr>hs_status := (\<lambda>k. if k \<in> set ks then Some NOT_SERVING else hs_status h k),
       hs_chan := (\<lambda>ch. if (\<exists>k \<in> set ks. ch \<in> set (hs_watchers h k) \<union> set (hs_watchers h [])) \<and> hs_chan h ch = []
                     then [NOT_SERVING] else hs_chan h ch)\<rparr>"
proof (induction ks arbitrary: h)
  case (Cons k ks)
  show ?case
    by (simp only: SetNotServing.simps Cons.IH notifyWatchers_eq) (cases h, auto simp: fun_eq_iff)
qed simp

lemma without_watcher_distinct: "distinct ws \<Longrightarrow> without_watcher ch ws = filter (\<lambda>w. w \<noteq> ch) ws"
  by (induction ws) (auto intro!: filter_True [symmetric])

section \<open>Streams and watchers\<close>

text \<open>What a stream has said, is saying, and has still to say.\<close>

definition wt_history :: "health_run \<Rightarrow> nat \<Rightarrow> watch \<Rightarrow> ServingStatus list" where
  "wt_history r ch w =
     wt_sent w @ (case wt_sending w of None \<Rightarrow> [] | Some st \<Rightarrow> [st]) @ hs_chan (hr_server r) ch"

text \<open>
  In every run the registered watchers of a service are exactly the streams that watch it, and no
  channel holds more than one status.
\<close>

definition health_ok :: "health_run \<Rightarrow> bool" where
  "health_ok r \<longleftrightarrow>
     (\<forall>s. distinct (hs_watchers (hr_server r) s)) \<and>
     (\<forall>s ch. ch \<in> set (hs_watchers (hr_server r) s) \<longleftrightarrow> (\<exists>w. hr_streams r ch = Some w \<and> wt_service w = s)) \<and>
     (\<forall>ch w. hr_streams r ch = Some w \<longrightarrow>
        ch < hs_made (hr_server r) \<and> length (hs_chan (hr_server r) ch) \<le> 1 \<and> wt_history r ch w \<noteq> []) \<and>
     hs_status (hr_server r) [] \<noteq> None"

lemma health_ok_start: "health_ok health_start"
  by (simp add: health_ok_def health_start_def NewHealthServer_def)

text \<open>A notification keeps the invariant: it only fills channels that are empty.\<close>

lemma health_ok_notified:
  assumes "health_ok r"
    and "hr_server r' = (hr_server r)\<lparr>hs_status := m, hs_chan := c\<rparr>" and "hr_streams r' = hr_streams r"
    and "\<And>ch. c ch = hs_chan (hr_server r) ch \<or> (hs_chan (hr_server r) ch = [] \<and> (\<exists>st. c ch = [st]))"
    and "m [] \<noteq> None"
  shows "health_ok r'"
proof -
  have l: "length (c ch) \<le> 1" if "length (hs_chan (hr_server r) ch) \<le> 1" for ch
    using that assms(4) [of ch] by auto
  have h: "wt_history r' ch w \<noteq> []" if "wt_history r ch w \<noteq> []" for ch w
    using that assms(2) assms(4) [of ch] by (auto simp: wt_history_def)
  show ?thesis using assms(1,2,3,5) l h unfolding health_ok_def by simp
qed

lemma health_ok_statuses:
  assumes "health_ok r"
  shows "health_ok (r\<lparr>hr_server := SetServing service st (hr_server r)\<rparr>)"
    and "health_ok (r\<lparr>hr_server := SetNotServing ks (hr_server r)\<rparr>)"
proof -
  have known: "hs_status (hr_server r) [] \<noteq> None" using assms by (simp add: health_ok_def)
  show "health_ok (r\<lparr>hr_server := SetServing service st (hr_server r)\<rparr>)"
    by (rule health_ok_notified [OF assms, where m = "(hs_status (hr_server r))(service \<mapsto> st)"])
      (use known in \<open>auto simp: SetServing_def notifyWatchers_eq split: if_splits\<close>)
  show "health_ok (r\<lparr>hr_server := SetNotServing ks (hr_server r)\<rparr>)"
    by (rule health_ok_notified [OF assms, where m = "\<lambda>k. if k \<in> set ks then Some NOT_SERVING else hs_status (hr_server r) k"])
      (use known in \<open>auto simp: SetNotServing_eq split: if_splits\<close>)
qed

lemma removed_watchers:
  assumes "health_ok r" and "hr_streams r ch = Some w"
  shows "health_ok \<lparr>hr_server = removeWatcher (wt_service w) ch (hr_server r), hr_streams = (hr_streams r)(ch := None)\<rparr>"
  using assms
  by (auto simp: health_ok_def removeWatcher_def without_watcher_distinct wt_history_def)

lemma fresh_channel: "health_ok r \<Longrightarrow> hr_streams r (hs_made (hr_server r)) = None"
  unfolding health_ok_def by (metis less_irrefl not_None_eq)

lemma health_ok_step: "health_step l r r' \<Longrightarrow> health_ok r \<Longrightarrow> health_ok r'"
proof (induction rule: health_step.cases)
  case (watch service r ch h)
  with fresh_channel [of r] show ?case
    by (auto simp: health_ok_def addWatcher_def wt_history_def Let_def less_Suc_eq split: if_splits)
next
  case (receive r ch w st sts)
  then have "\<forall>ch w. hr_streams r ch = Some w \<longrightarrow> length (hs_chan (hr_server r) ch) \<le> 1"
    by (simp add: health_ok_def)
  with receive have "sts = []" by fastforce
  with receive show ?case by (auto simp: health_ok_def wt_history_def)
next
  case (send r ch w st)
  then show ?case by (auto simp: health_ok_def wt_history_def)
next
  case (broken r ch w st)
  then show ?case by (simp add: removed_watchers)
next
  case (cancel r ch w)
  then show ?case by (simp add: removed_watchers)
next
  case (serving r service st)
  then show ?case by (simp add: health_ok_statuses)
next
  case (not_serving ks r)
  then show ?case by (simp add: health_ok_statuses)
qed

lemma health_ok_run: "(\<lambda>r r'. \<exists>l. health_step l r r')\<^sup>*\<^sup>* health_start r \<Longrightarrow> health_ok r"
  by (induction rule: rtranclp_induct) (auto simp: health_ok_start intro: health_ok_step)

section \<open>Shutting down\<close>

text \<open>
  After \<open>SetNotServing\<close> the services known are those of \<open>D\<close>, and none of them serves; the last
  status on its way to the client of \<open>ch\<close>, if that stream still runs, is \<open>NOT_SERVING\<close>.
\<close>

definition all_down :: "string set \<Rightarrow> health_run \<Rightarrow> bool" where
  "all_down D r \<longleftrightarrow> hs_status (hr_server r) = (\<lambda>k. if k \<in> D then Some NOT_SERVING else None)"

definition down_for :: "nat \<Rightarrow> health_run \<Rightarrow> bool" where
  "down_for ch r \<longleftrightarrow> ch < hs_made (hr_server r) \<and>
     (\<forall>w. hr_streams r ch = Some w \<longrightarrow> wt_history r ch w \<noteq> [] \<and> last (wt_history r ch w) = NOT_SERVING)"

lemma all_down_step: "health_step l r r' \<Longrightarrow> l \<noteq> BySetServing \<Longrightarrow> all_down D r \<Longrightarrow> all_down D r'"
proof (induction rule: health_step.cases)
  case (not_serving ks r)
  then have "set ks = D" by (auto simp: all_down_def split: if_splits)
  with not_serving show ?case by (auto simp: all_down_def SetNotServing_eq fun_eq_iff)
qed (auto simp: all_down_def addWatcher_def removeWatcher_def Let_def)

lemma down_for_step: "health_step l r r' \<Longrightarrow> l \<noteq> BySetServing \<Longrightarrow> down_for ch r \<Longrightarrow> down_for ch r'"
proof (induction rule: health_step.cases)
  case (watch service r ch' h)
  then show ?case by (auto simp: down_for_def addWatcher_def wt_history_def Let_def)
next
  case (not_serving ks r)
  then show ?case by (auto simp: down_for_def wt_history_def SetNotServing_eq)
qed (auto simp: down_for_def wt_history_def removeWatcher_def)

lemma quiet_run:
  assumes "(\<lambda>r r'. \<exists>l. l \<noteq> BySetServing \<and> health_step l r r')\<^sup>*\<^sup>* r r'"
  shows "all_down D r \<Longrightarrow> all_down D r'" and "down_for ch r \<Longrightarrow> down_for ch r'"
  using assms by (induction rule: rtranclp_induct) (auto intro: all_down_step down_for_step)

lemma SetNotServing_down:
  assumes ok: "health_ok r" and ks: "set ks = dom (hs_status (hr_server r))"
  defines "r' \<equiv> r\<lparr>hr_server := SetNotServing ks (hr_server r)\<rparr>"
  shows "all_down (dom (hs_status (hr_server r))) r'"
    and "hr_streams r ch = Some w \<Longrightarrow> hs_chan (hr_server r) ch = [] \<Longrightarrow>
      wt_service w \<in> dom (hs_status (hr_server r)) \<Longrightarrow> down_for ch r'"
proof -
  show "all_down (dom (hs_status (hr_server r))) r'"
    by (auto simp: r'_def all_down_def SetNotServing_eq ks fun_eq_iff)
  assume w: "hr_streams r ch = Some w" "hs_chan (hr_server r) ch = []"
    "wt_service w \<in> dom (hs_status (hr_server r))"
  then have "ch \<in> set (hs_watchers (hr_server r) (wt_service w))" "ch < hs_made (hr_server r)"
    using ok by (auto simp: health_ok_def)
  with w(3) ks have "hs_chan (SetNotServing ks (hr_server r)) ch = [NOT_SERVING]"
    using w(2) by (auto simp: SetNotServing_eq)
  with w(1) \<open>ch < hs_made (hr_server r)\<close> show "down_for ch r'"
    by (simp add: r'_def down_for_def wt_history_def) (simp add: SetNotServing_eq)
qed

text \<open>
  C17: From any state that clients, streams and status changes can bring about, \<open>SetNotServing\<close>, in
  whatever order Go visits the map, makes every known service answer \<open>NOT_SERVING\<close>, and this
  stays so until \<open>SetServing\<close> is called again, whatever clients and streams do; unknown services
  stay unknown. And every stream on a known service, or on the overall status, whose channel was
  empty ends on \<open>NOT_SERVING\<close> unless it ends before.
\<close>

theorem shutdown_not_serving:
  assumes "(\<lambda>r r'. \<exists>l. health_step l r r')\<^sup>*\<^sup>* health_start r"
    and "set ks = dom (hs_status (hr_server r))"
    and "(\<lambda>r r'. \<exists>l. l \<noteq> BySetServing \<and> health_step l r r')\<^sup>*\<^sup>*
           (r\<lparr>hr_server := SetNotServing ks (hr_server r)\<rparr>) r'"
  shows "(\<forall>s. health_Check (hr_server r') s =
            (case health_Check (hr_server r) s of Inl e \<Rightarrow> Inl e | Inr _ \<Rightarrow> Inr NOT_SERVING)) \<and>
         (\<forall>ch w w'. hr_streams r ch = Some w \<longrightarrow> hs_chan (hr_server r) ch = [] \<longrightarrow>
            health_Check (hr_server r) (wt_service w) \<noteq> Inl (StatusErr NotFound ''unknown service'') \<longrightarrow>
            hr_streams r' ch = Some w' \<longrightarrow> last (wt_history r' ch w') = NOT_SERVING)"
proof -
  have ok: "health_ok r" by (rule health_ok_run [OF assms(1)])
  note down = SetNotServing_down [OF ok assms(2)]
  have known: "health_Check (hr_server r) s \<noteq> Inl (StatusErr NotFound ''unknown service'') \<longleftrightarrow>
      s \<in> dom (hs_status (hr_server r))" for s
    by (auto simp: health_Check_def split: option.split)
  have "all_down (dom (hs_status (hr_server r))) r'" by (rule quiet_run(1) [OF assms(3) down(1)])
  then have "health_Check (hr_server r') s =
      (case health_Check (hr_server r) s of Inl e \<Rightarrow> Inl e | Inr _ \<Rightarrow> Inr NOT_SERVING)" for s
    by (auto simp: all_down_def health_Check_def split: option.split)
  moreover have "last (wt_history r' ch w') = NOT_SERVING"
    if "hr_streams r ch = Some w" "hs_chan (hr_server r) ch = []"
      "health_Check (hr_server r) (wt_service w) \<noteq> Inl (StatusErr NotFound ''unknown service'')"
      "hr_streams r' ch = Some w'" for ch w w'
    using quiet_run(2) [OF assms(3) down(2)] that by (auto simp: known down_for_def)
  ultimately show ?thesis by blast
qed

section \<open>Two runs\<close>

abbreviation health_runs :: "health_run \<Rightarrow> health_run \<Rightarrow> bool" where
  "health_runs \<equiv> (\<lambda>r r'. \<exists>l. health_step l r r')\<^sup>*\<^sup>*"

definition turned :: "nat \<Rightarrow> watch \<Rightarrow> ServingStatus \<Rightarrow> health_run \<Rightarrow> health_run" where
  "turned ch w st r =
     \<lparr>hr_server = (hr_server r)\<lparr>hs_chan := (hs_chan (hr_server r))(ch := [])\<rparr>,
      hr_streams = (hr_streams r)(ch \<mapsto> w\<lparr>wt_sending := None, wt_sent := wt_sent w @ [st]\<rparr>)\<rparr>"

text \<open>One turn of the loop of \<open>Watch\<close>: a status is received and sent.\<close>

lemma watch_turn:
  assumes "hr_streams r ch = Some w" and "wt_sending w = None" and "hs_chan (hr_server r) ch = [st]"
  shows "health_runs r (turned ch w st r)"
proof -
  define r1 where "r1 = \<lparr>hr_server = (hr_server r)\<lparr>hs_chan := (hs_chan (hr_server r))(ch := [])\<rparr>,
      hr_streams = (hr_streams r)(ch \<mapsto> w\<lparr>wt_sending := Some st\<rparr>)\<rparr>"
  have "health_step ByStream r r1" unfolding r1_def by (rule health_step.receive [OF assms])
  moreover have "health_step ByStream r1 (turned ch w st r)"
    using health_step.send [of r1 ch "w\<lparr>wt_sending := Some st\<rparr>" st]
    by (simp add: r1_def turned_def)
  ultimately show ?thesis by (blast intro: converse_rtranclp_into_rtranclp)
qed

definition one_watch :: watch where
  "one_watch = \<lparr>wt_service = [], wt_sending = None, wt_sent = []\<rparr>"

definition watched :: health_run where
  "watched = \<lparr>hr_server = snd (addWatcher [] NewHealthServer), hr_streams = [0 \<mapsto> one_watch]\<rparr>"

lemma watched_facts:
  "hs_chan (hr_server watched) 0 = [SERVING]" "hr_streams watched 0 = Some one_watch"
  "hs_status (hr_server watched) = [[] \<mapsto> SERVING]" "wt_sending one_watch = None" "wt_sent one_watch = []"
  "wt_service one_watch = []"
  by (simp_all add: watched_def addWatcher_def NewHealthServer_def Let_def one_watch_def)

lemma watched_run: "health_runs health_start watched"
proof -
  have "health_step ByClient health_start watched"
    using health_step.watch [of "[]" health_start 0 "snd (addWatcher [] NewHealthServer)"]
    by (simp add: health_start_def watched_def one_watch_def addWatcher_def NewHealthServer_def Let_def)
  then show ?thesis by blast
qed

text \<open>
  A client that has not yet been sent the first status when the server shuts down is sent that
  status and nothing more: it keeps believing in \<open>SERVING\<close>.
\<close>

lemma stale_watcher:
  "\<exists>r w. health_runs health_start r \<and> hr_streams r 0 = Some w \<and> wt_sent w = [SERVING] \<and>
     wt_history r 0 w = [SERVING] \<and> health_Check (hr_server r) [] = Inr NOT_SERVING"
proof -
  define r where "r = watched\<lparr>hr_server := SetNotServing [[]] (hr_server watched)\<rparr>"
  have "health_step BySetNotServing watched r"
    unfolding r_def by (rule health_step.not_serving) (simp_all add: watched_facts)
  moreover have r: "hs_chan (hr_server r) 0 = [SERVING]" "hr_streams r 0 = Some one_watch"
    "hs_status (hr_server r) [] = Some NOT_SERVING"
    by (simp_all only: r_def SetNotServing_eq) (simp_all add: watched_facts)
  ultimately have "health_runs watched r" by blast
  from rtranclp_trans [OF rtranclp_trans [OF watched_run this] watch_turn [OF r(2) watched_facts(4) r(1)]]
  have "health_runs health_start (turned 0 one_watch SERVING r)" .
  moreover have "hr_streams (turned 0 one_watch SERVING r) 0 = Some (one_watch\<lparr>wt_sent := [SERVING]\<rparr>)"
    "wt_history (turned 0 one_watch SERVING r) 0 (one_watch\<lparr>wt_sent := [SERVING]\<rparr>) = [SERVING]"
    "health_Check (hr_server (turned 0 one_watch SERVING r)) [] = Inr NOT_SERVING"
    using r by (simp_all add: turned_def one_watch_def wt_history_def health_Check_def)
  ultimately show ?thesis
    by (intro exI [of _ "turned 0 one_watch SERVING r"] exI [of _ "one_watch\<lparr>wt_sent := [SERVING]\<rparr>"] conjI)
      (assumption | simp)+
qed

text \<open>A client that has been sent the first status hears of the shutdown.\<close>

lemma shutdown_not_serving_witness:
  "\<exists>r w. hr_streams r 0 = Some w \<and> last (wt_history r 0 w) = NOT_SERVING \<and>
     health_Check (hr_server r) [] = Inr NOT_SERVING \<and>
     health_Check (hr_server r) ''x'' = Inl (StatusErr NotFound ''unknown service'')"
proof -
  define r where "r = turned 0 one_watch SERVING watched"
  define w where "w = one_watch\<lparr>wt_sent := [SERVING]\<rparr>"
  have run: "health_runs health_start r"
    unfolding r_def using watched_run watch_turn [OF watched_facts(2,4,1)] by (rule rtranclp_trans)
  have r: "hr_streams r 0 = Some w" "hs_chan (hr_server r) 0 = []" "hs_status (hr_server r) = [[] \<mapsto> SERVING]"
    "wt_service w = []"
    by (simp_all add: r_def turned_def w_def watched_facts)
  let ?r = "r\<lparr>hr_server := SetNotServing [[]] (hr_server r)\<rparr>"
  have "set [[]] = dom (hs_status (hr_server r))" by (simp add: r)
  from shutdown_not_serving [OF run this rtranclp.rtrancl_refl]
  have "health_Check (hr_server ?r) s =
      (case health_Check (hr_server r) s of Inl e \<Rightarrow> Inl e | Inr _ \<Rightarrow> Inr NOT_SERVING)"
    "last (wt_history ?r 0 w) = NOT_SERVING" for s
    using r by (auto simp: health_Check_def)
  then show ?thesis
    using r by (intro exI [of _ ?r] exI [of _ w]) (simp add: health_Check_def)
qed

end
