(* ===== verification/Boot.thy ===== *)
theory Boot
  imports Service_Config Health Interceptors
begin

text \<open>
  How the programs start and stop: the registry of gRPC services (\<open>internal/registry\<close>), the
  functions that fill it (\<open>grpc/register.go\<close> of each domain), the set-up of telemetry
  (\<open>pkg/telemetry\<close>), and \<open>run\<close> of \<open>cmd/monolith/main.go\<close> and of the two services.

  The outside world of a start is a log of the steps taken; which steps fail, with which error,
  is an argument (\<open>outside\<close>), as are the server that stops first, whether the gRPC server stops
  in time, and whether the key files load.
\<close>

section \<open>The registry\<close>

text \<open>A registered function acts on the gRPC server \<open>'g\<close>; a panic is \<open>Inl\<close> its text.\<close>

record 'g ServiceRegistration =
  sr_Name :: string
  sr_Register :: "'g \<Rightarrow> 'g"

type_synonym 'g registry = "'g ServiceRegistration list"

definition NewRegistry :: "'g registry" where
  "NewRegistry = []"

fun has_service :: "string \<Rightarrow> 'g registry \<Rightarrow> bool" where
  "has_service name [] = False"
| "has_service name (svc # svcs) = (sr_Name svc = name \<or> has_service name svcs)"

definition MustRegister :: "string \<Rightarrow> ('g \<Rightarrow> 'g) \<Rightarrow> 'g registry \<Rightarrow> string + 'g registry" where
  "MustRegister name fn r =
     (if has_service name r then Inl (''duplicate service registration: '' @ name)
      else Inr (r @ [\<lparr>sr_Name = name, sr_Register = fn\<rparr>]))"

fun RegisterAll :: "'g registry \<Rightarrow> 'g \<Rightarrow> 'g" where
  "RegisterAll [] s = s"
| "RegisterAll (svc # svcs) s = RegisterAll svcs (sr_Register svc s)"

lemma has_service_iff: "has_service name r \<longleftrightarrow> name \<in> sr_Name ` set r"
  by (induction r) auto

text \<open>No two services of a registry have the same name, and all are served in order.\<close>

lemma MustRegister_distinct:
  "MustRegister name fn r = Inr r' \<Longrightarrow> distinct (map sr_Name r) \<Longrightarrow> distinct (map sr_Name r')"
  by (auto simp: MustRegister_def has_service_iff split: if_splits)

lemma RegisterAll_append: "RegisterAll (r1 @ r2) s = RegisterAll r2 (RegisterAll r1 s)"
  by (induction r1 arbitrary: s) simp_all

section \<open>The services of each domain\<close>

datatype grpc_service =
    TenantService | UserService | AuthService | SmsService
  | ParkingLotService | LaneService | DeviceService

type_synonym grpc_server = "grpc_service list"

text \<open>\<open>Register...ServiceServer(s, New...GRPCServer(svc))\<close>.\<close>

definition serve :: "grpc_service \<Rightarrow> grpc_server \<Rightarrow> grpc_server" where
  "serve svc s = s @ [svc]"

definition and_then :: "'e + 'a \<Rightarrow> ('a \<Rightarrow> 'e + 'b) \<Rightarrow> 'e + 'b" where
  "and_then r f = (case r of Inl e \<Rightarrow> Inl e | Inr x \<Rightarrow> f x)"

definition sms_RegisterServices :: "grpc_server registry \<Rightarrow> string + grpc_server registry" where
  "sms_RegisterServices reg = MustRegister ''sms.v1.SmsService'' (serve SmsService) reg"

definition parking_RegisterServices :: "bool \<Rightarrow> grpc_server registry \<Rightarrow> string + grpc_server registry" where
  "parking_RegisterServices has_deviceSvc reg =
     and_then (MustRegister ''parking.v1.ParkingLotService'' (serve ParkingLotService) reg) (\<lambda>reg.
     if has_deviceSvc then MustRegister ''parking.v1.LaneService'' (serve LaneService) reg
     else Inr reg)"

definition iot_RegisterServices :: "grpc_server registry \<Rightarrow> string + grpc_server registry" where
  "iot_RegisterServices reg = MustRegister ''iot.v1.DeviceService'' (serve DeviceService) reg"

definition iot_RegisterServicesWithDeviceSvc :: "grpc_server registry \<Rightarrow> string + grpc_server registry" where
  "iot_RegisterServicesWithDeviceSvc reg = MustRegister ''iot.v1.DeviceService'' (serve DeviceService) reg"

definition identity_RegisterServices ::
  "(AuthConfig \<Rightarrow> go_error + unit) \<Rightarrow> AuthConfig \<Rightarrow> grpc_server registry \<Rightarrow> string + grpc_server registry" where
  "identity_RegisterServices load_signer authCfg reg =
     and_then (MustRegister ''identity.v1.TenantService'' (serve TenantService) reg) (\<lambda>reg.
     and_then (MustRegister ''identity.v1.UserService'' (serve UserService) reg) (\<lambda>reg.
     case load_signer authCfg of
       Inl err \<Rightarrow> Inl (''failed to load RSA signer: '' @ error_text err)
     | Inr _ \<Rightarrow> MustRegister ''identity.v1.AuthService'' (serve AuthService) reg))"

text \<open>What the monolith registers: the identity services are not among them.\<close>

definition monolith_services :: "string + grpc_server registry" where
  "monolith_services =
     and_then (sms_RegisterServices NewRegistry) (\<lambda>reg.
     and_then (parking_RegisterServices True reg) iot_RegisterServicesWithDeviceSvc)"

lemma monolith_services_run:
  "map_sum id (\<lambda>reg. RegisterAll reg []) monolith_services =
     Inr [SmsService, ParkingLotService, LaneService, DeviceService]"
  by (simp add: monolith_services_def and_then_def sms_RegisterServices_def parking_RegisterServices_def
      iot_RegisterServicesWithDeviceSvc_def MustRegister_def NewRegistry_def serve_def)

section \<open>Steps of a start\<close>

datatype server_kind = MetricsServer | HealthServer | GRPCServer

datatype boot_event =
    SetDefaultLogger slogger
  | OtelResource string string | OtelExporter string bool | OtelSampler rat | OtelPrometheus
  | OtelRuntime | OtelGlobals | MetricsInit
  | OpenDB string | AutoMigrate "string list" | NewRedis RedisConfig | DialSms string
  | ListenTCP string | NewGRPC grpc_server
  | Serve server_kind string
  | StopSignals | NotReady | HealthNotServing | GracefulStop | ForceStop | ShutdownHTTP server_kind
  | ShutdownMeter | ShutdownTracer

type_synonym boot_log = "boot_event list"

text \<open>
  \<open>ou_end\<close> is what the \<open>select\<close> of \<open>run\<close> gets: an error of one of the servers, or the signal.
\<close>

record outside =
  ou_fail :: "boot_event \<Rightarrow> go_error option"
  ou_end :: "(server_kind \<times> go_error) option"
  ou_graceful :: bool
  ou_signer :: "AuthConfig \<Rightarrow> go_error + unit"
  ou_quote :: "string \<Rightarrow> string"

definition note_event :: "boot_event \<Rightarrow> (unit, boot_log) io" where
  "note_event ev = (\<lambda>log. (Inr (), log @ [ev]))"

definition try_event :: "outside \<Rightarrow> string \<Rightarrow> boot_event \<Rightarrow> (unit, boot_log) io" where
  "try_event out prefix ev =
     (\<lambda>log. (case ou_fail out ev of None \<Rightarrow> Inr () | Some e \<Rightarrow> Inl (Wrap prefix e), log @ [ev]))"

text \<open>\<open>defer cleanup\<close>: it runs however the rest ends, and the result stays.\<close>

definition deferring :: "(unit, 's) io \<Rightarrow> ('a, 's) io \<Rightarrow> ('a, 's) io" where
  "deferring cleanup m = try_io m (\<lambda>r. bind_io cleanup (\<lambda>_. lift_io r))"

definition wrap_result :: "string \<Rightarrow> go_error + 'a \<Rightarrow> ('a, 's) io" where
  "wrap_result prefix r = map_err_io (Wrap prefix) (lift_io r)"

text \<open>A panic ends the start like an error does, after the deferred calls.\<close>

definition or_panic :: "string + 'a \<Rightarrow> ('a, 's) io" where
  "or_panic r = (case r of Inl text \<Rightarrow> fail_io (Wrap ''panic: '' (Opaque text)) | Inr x \<Rightarrow> return_io x)"

section \<open>Telemetry\<close>

definition normalizeSamplingRatio :: "rat \<Rightarrow> rat" where
  "normalizeSamplingRatio ratio = (if ratio \<le> 0 then 0 else if 1 \<le> ratio then 1 else ratio)"

definition newTraceExporter :: "outside \<Rightarrow> TelemetryConfig \<Rightarrow> (unit, boot_log) io" where
  "newTraceExporter out cfg =
     try_event out ''create otlp trace exporter: '' (OtelExporter (Endpoint (tc_Trace cfg)) (Insecure (tc_Trace cfg)))"

definition telemetry_Init :: "outside \<Rightarrow> TelemetryConfig \<Rightarrow> (unit, boot_log) io" where
  "telemetry_Init out cfg =
     bind_io (try_event out ''build otel resource: '' (OtelResource (ServiceName cfg) (Environment cfg))) (\<lambda>_.
     bind_io (newTraceExporter out cfg) (\<lambda>_.
     bind_io (note_event (OtelSampler (normalizeSamplingRatio (SamplingRatio (tc_Trace cfg))))) (\<lambda>_.
     bind_io (try_event out ''create prometheus exporter: '' OtelPrometheus) (\<lambda>_.
     bind_io (try_event out ''start runtime metrics: '' OtelRuntime) (\<lambda>_.
     note_event OtelGlobals)))))"

text \<open>
  \<open>Shutdown\<close> shuts both providers down whatever the first returns; \<open>run\<close> only logs its error.
\<close>

definition telemetry_Shutdown :: "(unit, boot_log) io" where
  "telemetry_Shutdown = bind_io (note_event ShutdownMeter) (\<lambda>_. note_event ShutdownTracer)"

lemma sampling_ratio_range: "0 \<le> normalizeSamplingRatio r \<and> normalizeSamplingRatio r \<le> 1"
  by (simp add: normalizeSamplingRatio_def)

section \<open>Serving and stopping\<close>

definition port_addr :: "int \<Rightarrow> string" where
  "port_addr p = '':'' @ fmt_d p"

text \<open>\<open>/healthz\<close> answers 200 until the program begins to stop, and 503 then.\<close>

definition healthz :: "bool \<Rightarrow> int" where
  "healthz ready = (if \<not> ready then 503 else 200)"

definition gracefulStopGRPC :: "outside \<Rightarrow> (unit, boot_log) io" where
  "gracefulStopGRPC out =
     bind_io (note_event GracefulStop) (\<lambda>_.
     if ou_graceful out then return_io () else note_event ForceStop)"

definition shutdownHTTP :: "server_kind list \<Rightarrow> (unit, boot_log) io" where
  "shutdownHTTP servers = for_io (\<lambda>s. note_event (ShutdownHTTP s)) servers"

definition stop_serving :: "outside \<Rightarrow> (unit, boot_log) io" where
  "stop_serving out =
     bind_io (note_event NotReady) (\<lambda>_.
     bind_io (note_event HealthNotServing) (\<lambda>_.
     bind_io (gracefulStopGRPC out) (\<lambda>_.
     shutdownHTTP [MetricsServer, HealthServer])))"

fun serve_error :: "server_kind \<times> go_error \<Rightarrow> go_error" where
  "serve_error (MetricsServer, e) = Wrap ''serve metrics: '' e"
| "serve_error (HealthServer, e) = Wrap ''serve health: '' e"
| "serve_error (GRPCServer, e) = Wrap ''serve gRPC: '' e"

text \<open>
  From \<open>net.Listen\<close> to the end of \<open>run\<close>: the three servers run in goroutines of their own; they
  are written to the log in the order of the code.
\<close>

definition serve_all :: "outside \<Rightarrow> ServerConfig \<Rightarrow> grpc_server registry \<Rightarrow> (unit, boot_log) io" where
  "serve_all out srv reg =
     bind_io (try_event out ''listen gRPC: '' (ListenTCP (port_addr (GRPCPort srv)))) (\<lambda>_.
     bind_io (note_event (NewGRPC (RegisterAll reg []))) (\<lambda>_.
     bind_io (note_event (Serve MetricsServer (port_addr (MetricsPort srv)))) (\<lambda>_.
     bind_io (note_event (Serve HealthServer (port_addr (HTTPHealthPort srv)))) (\<lambda>_.
     bind_io (note_event (Serve GRPCServer (port_addr (GRPCPort srv)))) (\<lambda>_.
     case ou_end out of
       Some e \<Rightarrow> bind_io (note_event StopSignals) (\<lambda>_. bind_io (stop_serving out) (\<lambda>_. fail_io (serve_error e)))
     | None \<Rightarrow> stop_serving out)))))"

text \<open>The beginning that the three programs share, from the loaded configuration on.\<close>

definition with_telemetry :: "outside \<Rightarrow> TelemetryConfig \<Rightarrow> (unit, boot_log) io \<Rightarrow> (unit, boot_log) io" where
  "with_telemetry out cfg rest =
     bind_io (wrap_result ''create logger: ''
         (NewLogger (ou_quote out) \<lparr>opt_Level = lc_Level (tc_Log cfg), opt_Format = lc_Format (tc_Log cfg)\<rparr>)) (\<lambda>logger.
     bind_io (note_event (SetDefaultLogger ((logger_With logger
         [(''service'', AString (ServiceName cfg)), (''environment'', AString (Environment cfg))])
         \<lparr>lg_IsDefault := True\<rparr>))) (\<lambda>_.
     bind_io (map_err_io (Wrap ''init telemetry: '') (telemetry_Init out cfg)) (\<lambda>_.
     deferring telemetry_Shutdown
       (bind_io (note_event MetricsInit) (\<lambda>_. rest)))))"

section \<open>The monolith\<close>

definition monolith_databases :: "outside \<Rightarrow> Config \<Rightarrow> (unit, boot_log) io" where
  "monolith_databases out cfg =
     bind_io (try_event out ''connect database: '' (OpenDB (DSN (cfg_Database cfg)))) (\<lambda>_.
     bind_io (try_event out ''auto migrate: '' (AutoMigrate [''tenants'', ''users'', ''sms_records''])) (\<lambda>_.
     bind_io (try_event out ''connect parking database: '' (OpenDB (DSN (cfg_ParkingDatabase cfg)))) (\<lambda>_.
     bind_io (try_event out ''auto migrate parking: '' (AutoMigrate [''parking_lots'', ''lanes''])) (\<lambda>_.
     bind_io (note_event (NewRedis (cfg_Redis cfg))) (\<lambda>_.
     bind_io (try_event out ''connect iot database: '' (OpenDB (DSN (cfg_IoTDatabase cfg)))) (\<lambda>_.
     try_event out ''auto migrate iot: '' (AutoMigrate [''devices''])))))))"

definition monolith_run :: "outside \<Rightarrow> sys_env \<Rightarrow> (unit, boot_log) io" where
  "monolith_run out sys =
     deferring (note_event StopSignals)
       (bind_io (wrap_result ''load config: '' (Load sys [])) (\<lambda>cfg.
        with_telemetry out (cfg_Telemetry cfg)
          (bind_io (monolith_databases out cfg) (\<lambda>_.
           bind_io (or_panic monolith_services) (\<lambda>reg.
           serve_all out (cfg_Server cfg) reg)))))"

text \<open>\<open>main\<close>: the message on standard error and the exit code.\<close>

definition monolith_main :: "outside \<Rightarrow> sys_env \<Rightarrow> string \<times> int" where
  "monolith_main out sys =
     (case fst (monolith_run out sys []) of
        Inl err \<Rightarrow> (''parkhub failed to start: '' @ error_text err @ [CHR 0x0A], 1)
      | Inr _ \<Rightarrow> ([], 0))"

section \<open>The two services\<close>

definition identity_run :: "outside \<Rightarrow> identity_Config service_env \<Rightarrow> (unit, boot_log) io" where
  "identity_run out sys =
     deferring (note_event StopSignals)
       (bind_io (wrap_result ''load config: '' (identity_Load sys [])) (\<lambda>cfg.
        with_telemetry out (ic_Telemetry cfg)
          (bind_io (try_event out ''connect database: '' (OpenDB (DSN (ic_Database cfg)))) (\<lambda>_.
           bind_io (try_event out ''auto migrate: '' (AutoMigrate [''tenants'', ''users''])) (\<lambda>_.
           bind_io (note_event (NewRedis (ic_Redis cfg))) (\<lambda>_.
           bind_io (try_event out ''connect SMS service: '' (DialSms (sc_Addr (ic_SmsClient cfg)))) (\<lambda>_.
           bind_io (or_panic (identity_RegisterServices (ou_signer out) (ic_Auth cfg) NewRegistry)) (\<lambda>reg.
           serve_all out (ic_Server cfg) reg))))))))"

definition sms_run :: "outside \<Rightarrow> sms_Config service_env \<Rightarrow> (unit, boot_log) io" where
  "sms_run out sys =
     deferring (note_event StopSignals)
       (bind_io (wrap_result ''load config: '' (sms_Load sys [])) (\<lambda>cfg.
        with_telemetry out (smc_Telemetry cfg)
          (bind_io (try_event out ''connect database: '' (OpenDB (DSN (smc_Database cfg)))) (\<lambda>_.
           bind_io (try_event out ''auto migrate: '' (AutoMigrate [''sms_records''])) (\<lambda>_.
           bind_io (note_event (NewRedis (smc_Redis cfg))) (\<lambda>_.
           bind_io (or_panic (sms_RegisterServices NewRegistry)) (\<lambda>reg.
           serve_all out (smc_Server cfg) reg)))))))"

section \<open>What a start needs\<close>

lemma note_event_run [simp]: "note_event ev lg = (Inr (), lg @ [ev])"
  by (simp add: note_event_def)

lemma deferring_run: "deferring cleanup m s =
    (case m s of (r, s1) \<Rightarrow> case cleanup s1 of (Inl e, s2) \<Rightarrow> (Inl e, s2) | (Inr _, s2) \<Rightarrow> (r, s2))"
  by (simp add: deferring_def try_io_run bind_io_run split: prod.split sum.split)

text \<open>
  \<open>starts out evs m\<close>: the start \<open>m\<close> adds to the log, opens no server, and succeeds exactly when
  none of the steps \<open>evs\<close> fails; then it has taken all of them.
\<close>

definition no_server :: "boot_log \<Rightarrow> bool" where
  "no_server lg \<longleftrightarrow> (\<forall>k a. Serve k a \<notin> set lg)"

definition only_setup :: "boot_log \<Rightarrow> bool" where
  "only_setup lg \<longleftrightarrow> no_server lg \<and> MetricsInit \<notin> set lg"

definition starts :: "outside \<Rightarrow> boot_event list \<Rightarrow> (unit, boot_log) io \<Rightarrow> bool" where
  "starts out evs m \<longleftrightarrow> (\<forall>lg. \<exists>r new. m lg = (r, lg @ new) \<and> only_setup new \<and>
     (if \<forall>ev \<in> set evs. ou_fail out ev = None then r = Inr () \<and> set evs \<subseteq> set new else (\<exists>e. r = Inl e)))"

lemma starts_try: "(\<And>k a. ev \<noteq> Serve k a) \<Longrightarrow> ev \<noteq> MetricsInit \<Longrightarrow> starts out [ev] (try_event out prefix ev)"
  by (auto simp: starts_def try_event_def only_setup_def no_server_def split: option.splits)

lemma starts_note: "(\<And>k a. ev \<noteq> Serve k a) \<Longrightarrow> ev \<noteq> MetricsInit \<Longrightarrow> starts out [] (note_event ev)"
  by (auto simp: starts_def only_setup_def no_server_def)

lemma starts_map_err: "starts out evs m \<Longrightarrow> starts out evs (map_err_io h m)"
  unfolding starts_def
proof (intro allI)
  fix lg
  assume "\<forall>lg. \<exists>r new. m lg = (r, lg @ new) \<and> only_setup new \<and>
     (if \<forall>ev \<in> set evs. ou_fail out ev = None then r = Inr () \<and> set evs \<subseteq> set new else (\<exists>e. r = Inl e))"
  then obtain r new where m: "m lg = (r, lg @ new)" "only_setup new"
     "if \<forall>ev \<in> set evs. ou_fail out ev = None then r = Inr () \<and> set evs \<subseteq> set new else (\<exists>e. r = Inl e)"
    by blast
  then show "\<exists>r new. map_err_io h m lg = (r, lg @ new) \<and> only_setup new \<and>
     (if \<forall>ev \<in> set evs. ou_fail out ev = None then r = Inr () \<and> set evs \<subseteq> set new else (\<exists>e. r = Inl e))"
    by (cases r) (auto simp: map_err_io_run split: if_splits)
qed

lemma starts_bind:
  assumes "starts out evs m" and "starts out evs' m'"
  shows "starts out (evs @ evs') (bind_io m (\<lambda>_. m'))"
  unfolding starts_def
proof (intro allI)
  fix lg
  let ?ok = "\<lambda>evs. \<forall>ev \<in> set evs. ou_fail out ev = None"
  obtain r new where m: "m lg = (r, lg @ new)" "only_setup new"
    "if ?ok evs then r = Inr () \<and> set evs \<subseteq> set new else (\<exists>e. r = Inl e)"
    using assms(1) unfolding starts_def by meson
  obtain r' new' where m': "m' (lg @ new) = (r', (lg @ new) @ new')" "only_setup new'"
    "if ?ok evs' then r' = Inr () \<and> set evs' \<subseteq> set new' else (\<exists>e. r' = Inl e)"
    using assms(2) unfolding starts_def by meson
  show "\<exists>r new. bind_io m (\<lambda>_. m') lg = (r, lg @ new) \<and> only_setup new \<and>
     (if ?ok (evs @ evs') then r = Inr () \<and> set (evs @ evs') \<subseteq> set new else (\<exists>e. r = Inl e))"
  proof (cases "?ok evs")
    case True
    then have "bind_io m (\<lambda>_. m') lg = (r', lg @ new @ new')" using m m' by (simp add: bind_io_run)
    moreover have "only_setup (new @ new')" using m(2) m'(2) by (auto simp: only_setup_def no_server_def)
    ultimately show ?thesis using True m(3) m'(3)
      by (intro exI [of _ r'] exI [of _ "new @ new'"], cases "?ok evs'") auto
  next
    case False
    then obtain e where "r = Inl e" using m(3) by (auto split: if_splits)
    then have "bind_io m (\<lambda>_. m') lg = (Inl e, lg @ new)" using m(1) by (simp add: bind_io_run)
    then show ?thesis using False m(2) by (intro exI [of _ "Inl e"] exI [of _ new]) auto
  qed
qed

text \<open>The steps on which a start of the monolith depends.\<close>

definition telemetry_needs :: "TelemetryConfig \<Rightarrow> boot_event list" where
  "telemetry_needs cfg =
     [OtelResource (ServiceName cfg) (Environment cfg),
      OtelExporter (Endpoint (tc_Trace cfg)) (Insecure (tc_Trace cfg)), OtelPrometheus, OtelRuntime]"

definition database_needs :: "Config \<Rightarrow> boot_event list" where
  "database_needs cfg =
     [OpenDB (DSN (cfg_Database cfg)), AutoMigrate [''tenants'', ''users'', ''sms_records''],
      OpenDB (DSN (cfg_ParkingDatabase cfg)), AutoMigrate [''parking_lots'', ''lanes''],
      OpenDB (DSN (cfg_IoTDatabase cfg)), AutoMigrate [''devices'']]"

definition needed :: "Config \<Rightarrow> boot_event list" where
  "needed cfg = telemetry_needs (cfg_Telemetry cfg) @ database_needs cfg @
     [ListenTCP (port_addr (GRPCPort (cfg_Server cfg)))]"

lemma telemetry_starts: "starts out (telemetry_needs cfg) (telemetry_Init out cfg)"
  using starts_bind [OF starts_try starts_bind [OF starts_try starts_bind [OF starts_note starts_bind [OF starts_try
    starts_bind [OF starts_try starts_note]]]]]
  by (simp add: telemetry_Init_def newTraceExporter_def telemetry_needs_def)

lemma databases_start: "starts out (database_needs cfg) (monolith_databases out cfg)"
  using starts_bind [OF starts_try starts_bind [OF starts_try starts_bind [OF starts_try starts_bind [OF starts_try
    starts_bind [OF starts_note starts_bind [OF starts_try starts_try]]]]]]
  by (simp add: monolith_databases_def database_needs_def)

lemma startsE:
  assumes "starts out evs m"
  obtains r new where "m lg = (r, lg @ new)" "only_setup new"
    "if \<forall>ev \<in> set evs. ou_fail out ev = None then r = Inr () \<and> set evs \<subseteq> set new else (\<exists>e. r = Inl e)"
  using assms unfolding starts_def by meson

definition stopping :: "outside \<Rightarrow> boot_log" where
  "stopping out = (if ou_end out = None then [] else [StopSignals]) @ [NotReady, HealthNotServing, GracefulStop] @
     (if ou_graceful out then [] else [ForceStop]) @ [ShutdownHTTP MetricsServer, ShutdownHTTP HealthServer]"

definition end_result :: "outside \<Rightarrow> go_error + unit" where
  "end_result out = (case ou_end out of None \<Rightarrow> Inr () | Some e \<Rightarrow> Inl (serve_error e))"

lemma serve_all_run:
  assumes "ou_fail out (ListenTCP (port_addr (GRPCPort srv))) = None"
  shows "serve_all out srv reg lg = (end_result out, lg @ [ListenTCP (port_addr (GRPCPort srv)), NewGRPC (RegisterAll reg []),
    Serve MetricsServer (port_addr (MetricsPort srv)), Serve HealthServer (port_addr (HTTPHealthPort srv)),
    Serve GRPCServer (port_addr (GRPCPort srv))] @ stopping out)"
  using assms
  by (cases "ou_end out") (simp_all add: serve_all_def try_event_def bind_io_run stop_serving_def gracefulStopGRPC_def
      shutdownHTTP_def stopping_def end_result_def)

lemma serve_all_refused:
  assumes "ou_fail out (ListenTCP (port_addr (GRPCPort srv))) = Some e"
  shows "serve_all out srv reg lg = (Inl (Wrap ''listen gRPC: '' e), lg @ [ListenTCP (port_addr (GRPCPort srv))])"
  using assms by (simp add: serve_all_def try_event_def bind_io_run)

lemma monolith_services_Inr:
  obtains reg where "monolith_services = Inr reg" "RegisterAll reg [] = [SmsService, ParkingLotService, LaneService, DeviceService]"
proof -
  have "\<exists>reg. monolith_services = Inr reg \<and> RegisterAll reg [] = [SmsService, ParkingLotService, LaneService, DeviceService]"
    by (simp add: monolith_services_def and_then_def sms_RegisterServices_def parking_RegisterServices_def
        iot_RegisterServicesWithDeviceSvc_def MustRegister_def NewRegistry_def serve_def)
  then show thesis using that by blast
qed

text \<open>The start from its configuration on, with the two deferred calls written out.\<close>

lemma monolith_run_deferred:
  assumes "Load sys [] = Inr cfg"
    and "NewLogger (ou_quote out) \<lparr>opt_Level = lc_Level (tc_Log (cfg_Telemetry cfg)),
           opt_Format = lc_Format (tc_Log (cfg_Telemetry cfg))\<rparr> = Inr logger"
    and "monolith_services = Inr reg"
  obtains setlog where "monolith_run out sys [] =
     (case map_err_io (Wrap ''init telemetry: '') (telemetry_Init out (cfg_Telemetry cfg)) [SetDefaultLogger setlog] of
        (Inl e, lg) \<Rightarrow> (Inl e, lg @ [StopSignals])
      | (Inr _, lg) \<Rightarrow>
          (case bind_io (monolith_databases out cfg) (\<lambda>_. serve_all out (cfg_Server cfg) reg) (lg @ [MetricsInit]) of
             (r, lg') \<Rightarrow> (r, lg' @ [ShutdownMeter, ShutdownTracer, StopSignals])))"
proof -
  let ?setlog = "(logger_With logger [(''service'', AString (ServiceName (cfg_Telemetry cfg))),
      (''environment'', AString (Environment (cfg_Telemetry cfg)))])\<lparr>lg_IsDefault := True\<rparr>"
  show thesis
    by (rule that [of ?setlog])
      (simp add: monolith_run_def with_telemetry_def wrap_result_def assms map_err_io_run [of _ "lift_io _"] bind_io_run
        deferring_run or_panic_def telemetry_Shutdown_def split: prod.split sum.split)
qed

text \<open>The promise of \<open>run\<close>: what it returns and the log it leaves, from a loaded configuration on.\<close>

definition served :: "outside \<Rightarrow> Config \<Rightarrow> boot_log" where
  "served out cfg =
     [NewGRPC [SmsService, ParkingLotService, LaneService, DeviceService],
      Serve MetricsServer (port_addr (MetricsPort (cfg_Server cfg))),
      Serve HealthServer (port_addr (HTTPHealthPort (cfg_Server cfg))),
      Serve GRPCServer (port_addr (GRPCPort (cfg_Server cfg)))] @ stopping out"

definition start_outcome :: "outside \<Rightarrow> Config \<Rightarrow> boot_event list \<Rightarrow> (go_error + unit) \<times> boot_log \<Rightarrow> bool" where
  "start_outcome out cfg need res \<longleftrightarrow>
     (case res of (r, evs) \<Rightarrow>
        if \<forall>ev \<in> set need. ou_fail out ev = None
        then r = end_result out \<and> (\<exists>before. no_server before \<and> set need \<subseteq> set before \<and>
               evs = before @ served out cfg @ [ShutdownMeter, ShutdownTracer, StopSignals])
        else (\<exists>e. r = Inl e) \<and> no_server evs \<and> last evs = StopSignals \<and>
          (MetricsInit \<in> set evs \<longrightarrow> (\<exists>before. evs = before @ [ShutdownMeter, ShutdownTracer, StopSignals])))"

lemma outcome_served:
  assumes "no_server before" and "set need \<subseteq> set before" and "\<forall>ev \<in> set need. ou_fail out ev = None"
  shows "start_outcome out cfg need
    (end_result out, before @ served out cfg @ [ShutdownMeter, ShutdownTracer, StopSignals])"
  unfolding start_outcome_def using assms(1,2) by (simp add: if_P [OF assms(3)])

lemma databases_then_serve:
  assumes "RegisterAll reg [] = [SmsService, ParkingLotService, LaneService, DeviceService]"
    and "no_server lg" and "set evs \<subseteq> set lg" and "\<forall>ev \<in> set evs. ou_fail out ev = None"
  shows "start_outcome out cfg (evs @ database_needs cfg @ [ListenTCP (port_addr (GRPCPort (cfg_Server cfg)))])
    (case bind_io (monolith_databases out cfg) (\<lambda>_. serve_all out (cfg_Server cfg) reg) lg of
       (r, lg') \<Rightarrow> (r, lg' @ [ShutdownMeter, ShutdownTracer, StopSignals]))"
proof -
  let ?ok = "\<lambda>evs. \<forall>ev \<in> set evs. ou_fail out ev = None"
  let ?p = "ListenTCP (port_addr (GRPCPort (cfg_Server cfg)))"
  note only = only_setup_def no_server_def
  obtain r2 new2 where dbs: "monolith_databases out cfg lg = (r2, lg @ new2)" "only_setup new2"
    "if ?ok (database_needs cfg) then r2 = Inr () \<and> set (database_needs cfg) \<subseteq> set new2 else (\<exists>e. r2 = Inl e)"
    by (rule startsE [OF databases_start])
  show ?thesis
  proof (cases "?ok (database_needs cfg)")
    case False
    then obtain e where "r2 = Inl e" using dbs(3) by (auto split: if_splits)
    then show ?thesis using False dbs(1,2) assms(2) by (auto simp: bind_io_run start_outcome_def only)
  next
    case True
    then have r2: "r2 = Inr ()" "set (database_needs cfg) \<subseteq> set new2" using dbs(3) by simp_all
    show ?thesis
    proof (cases "ou_fail out ?p")
      case (Some e)
      then show ?thesis using dbs(1,2) r2(1) assms(2)
        by (auto simp: bind_io_run serve_all_refused [OF Some] start_outcome_def only)
    next
      case None
      have new: "no_server (lg @ new2 @ [?p])" "set (evs @ database_needs cfg @ [?p]) \<subseteq> set (lg @ new2 @ [?p])"
        using dbs(2) r2(2) assms(2,3) by (auto simp: only)
      have all: "?ok (evs @ database_needs cfg @ [?p])" using assms(4) True None by auto
      show ?thesis using outcome_served [OF new all]
        by (simp add: dbs(1) bind_io_run r2(1) serve_all_run [OF None] assms(1) served_def)
    qed
  qed
qed

lemma monolith_outcome:
  assumes "Load sys [] = Inr cfg"
    and "NewLogger (ou_quote out) \<lparr>opt_Level = lc_Level (tc_Log (cfg_Telemetry cfg)),
           opt_Format = lc_Format (tc_Log (cfg_Telemetry cfg))\<rparr> = Inr logger"
  shows "start_outcome out cfg (needed cfg) (monolith_run out sys [])"
proof -
  obtain reg where reg: "monolith_services = Inr reg"
    "RegisterAll reg [] = [SmsService, ParkingLotService, LaneService, DeviceService]"
    by (rule monolith_services_Inr)
  obtain setlog where run: "monolith_run out sys [] =
     (case map_err_io (Wrap ''init telemetry: '') (telemetry_Init out (cfg_Telemetry cfg)) [SetDefaultLogger setlog] of
        (Inl e, lg) \<Rightarrow> (Inl e, lg @ [StopSignals])
      | (Inr _, lg) \<Rightarrow>
          (case bind_io (monolith_databases out cfg) (\<lambda>_. serve_all out (cfg_Server cfg) reg) (lg @ [MetricsInit]) of
             (r, lg') \<Rightarrow> (r, lg' @ [ShutdownMeter, ShutdownTracer, StopSignals])))"
    by (rule monolith_run_deferred [OF assms reg(1)])
  let ?ok = "\<lambda>evs. \<forall>ev \<in> set evs. ou_fail out ev = None"
  note only = only_setup_def no_server_def
  obtain r1 new1 where tel: "map_err_io (Wrap ''init telemetry: '') (telemetry_Init out (cfg_Telemetry cfg))
       [SetDefaultLogger setlog] = (r1, [SetDefaultLogger setlog] @ new1)" "only_setup new1"
    "if ?ok (telemetry_needs (cfg_Telemetry cfg)) then r1 = Inr () \<and> set (telemetry_needs (cfg_Telemetry cfg)) \<subseteq> set new1
     else (\<exists>e. r1 = Inl e)"
    by (rule startsE [OF starts_map_err [OF telemetry_starts]])
  show ?thesis
  proof (cases "?ok (telemetry_needs (cfg_Telemetry cfg))")
    case False
    then obtain e where "r1 = Inl e" using tel(3) by (auto split: if_splits)
    moreover have "\<not> ?ok (needed cfg)" using False by (auto simp: needed_def)
    ultimately show ?thesis using tel(2) unfolding run tel(1) start_outcome_def by (auto simp: only)
  next
    case True
    define lg where "lg = [SetDefaultLogger setlog] @ new1 @ [MetricsInit]"
    have lg: "no_server lg" "set (telemetry_needs (cfg_Telemetry cfg)) \<subseteq> set lg"
      using tel(2,3) True by (auto simp: lg_def only)
    have run: "monolith_run out sys [] =
        (case bind_io (monolith_databases out cfg) (\<lambda>_. serve_all out (cfg_Server cfg) reg) lg of
             (r, lg') \<Rightarrow> (r, lg' @ [ShutdownMeter, ShutdownTracer, StopSignals]))"
      using tel(1,3) True unfolding run by (simp add: lg_def)
    show ?thesis unfolding run needed_def by (rule databases_then_serve [OF reg(2) lg True])
  qed
qed

text \<open>
  C18: The monolith serves only after everything it needs is there, and always cleans up. When the
  configuration loads, the three servers start exactly when no step of the list fails: telemetry,
  the three databases with their migrations, and the port. They then serve the SMS, parking-lot,
  lane and device services, and the end is orderly whether a signal or a failing server brings it:
  first not ready and \<open>NOT_SERVING\<close>, then the servers stop, then telemetry. When a step fails, the
  program ends with an error, no server has been started, and telemetry is shut down if it was up.
\<close>

theorem monolith_start:
  assumes "Load sys [] = Inr cfg"
    and "NewLogger (ou_quote out) \<lparr>opt_Level = lc_Level (tc_Log (cfg_Telemetry cfg)),
           opt_Format = lc_Format (tc_Log (cfg_Telemetry cfg))\<rparr> = Inr logger"
  shows "case monolith_run out sys [] of (r, evs) \<Rightarrow>
     if \<forall>ev \<in> set (needed cfg). ou_fail out ev = None
     then r = (case ou_end out of None \<Rightarrow> Inr () | Some e \<Rightarrow> Inl (serve_error e)) \<and>
       (\<exists>before. no_server before \<and> set (needed cfg) \<subseteq> set before \<and>
          evs = before @ [NewGRPC [SmsService, ParkingLotService, LaneService, DeviceService],
            Serve MetricsServer (port_addr (MetricsPort (cfg_Server cfg))),
            Serve HealthServer (port_addr (HTTPHealthPort (cfg_Server cfg))),
            Serve GRPCServer (port_addr (GRPCPort (cfg_Server cfg)))] @
            (if ou_end out = None then [] else [StopSignals]) @ [NotReady, HealthNotServing, GracefulStop] @
            (if ou_graceful out then [] else [ForceStop]) @ [ShutdownHTTP MetricsServer, ShutdownHTTP HealthServer] @
            [ShutdownMeter, ShutdownTracer, StopSignals])
     else (\<exists>e. r = Inl e) \<and> no_server evs \<and> last evs = StopSignals \<and>
       (MetricsInit \<in> set evs \<longrightarrow> (\<exists>before. evs = before @ [ShutdownMeter, ShutdownTracer, StopSignals]))"
  using monolith_outcome [OF assms]
  by (simp only: start_outcome_def served_def stopping_def end_result_def append_assoc)

section \<open>One start\<close>

definition boot_sys :: sys_env where
  "boot_sys = \<lparr>sys_ReadFile = (\<lambda>_. NotExist), sys_Getenv = (\<lambda>_. []), sys_yaml = (\<lambda>_ c. Inr c), sys_ParseFloat = (\<lambda>_. None)\<rparr>"

definition boot_out :: outside where
  "boot_out = \<lparr>ou_fail = (\<lambda>_. None), ou_end = None, ou_graceful = True, ou_signer = (\<lambda>_. Inr ()), ou_quote = id\<rparr>"

lemma monolith_start_witness:
  "\<exists>before. no_server before \<and> AutoMigrate [''parking_lots'', ''lanes''] \<in> set before \<and>
     monolith_run boot_out boot_sys [] = (Inr (), before @
       [NewGRPC [SmsService, ParkingLotService, LaneService, DeviceService],
        Serve MetricsServer (port_addr 9090), Serve HealthServer (port_addr 8080), Serve GRPCServer (port_addr 50051),
        NotReady, HealthNotServing, GracefulStop, ShutdownHTTP MetricsServer, ShutdownHTTP HealthServer,
        ShutdownMeter, ShutdownTracer, StopSignals])"
proof -
  have load: "Load boot_sys [] = Inr Default"
    by (simp add: Load_def boot_sys_def Let_def unset_environment(3))
  have "\<not> isl (NewLogger id \<lparr>opt_Level = ''info'', opt_Format = ''json''\<rparr>)"
    by code_simp
  then have "\<exists>logger. NewLogger id \<lparr>opt_Level = ''info'', opt_Format = ''json''\<rparr> = Inr logger"
    by (cases "NewLogger id \<lparr>opt_Level = ''info'', opt_Format = ''json''\<rparr>") simp_all
  then obtain logger where "NewLogger (ou_quote boot_out) \<lparr>opt_Level = lc_Level (tc_Log (cfg_Telemetry Default)),
      opt_Format = lc_Format (tc_Log (cfg_Telemetry Default))\<rparr> = Inr logger"
    by (auto simp: boot_out_def Default_def)
  from monolith_start [OF load this]
  show ?thesis
    by (cases "monolith_run boot_out boot_sys []")
      (auto simp: boot_out_def needed_def database_needs_def Default_def)
qed

end
