(* ===== verification/Metrics.thy ===== *)
theory Metrics
  imports Interceptors
begin

text \<open>
  The registry of metric instruments (\<open>pkg/metrics\<close>): the process keeps one registry, which
  \<open>Init\<close> replaces and \<open>Global\<close> reads, each under the mutex and so in one step; an instrument is
  asked of the meter the registry was made with.

  OpenTelemetry is a parameter: a provider gives a meter for a name, and a meter makes the
  instruments. \<open>'f\<close> are the bucket boundaries, \<open>'c\<close> the callbacks, \<open>'i\<close> the instruments.
\<close>

section \<open>OpenTelemetry\<close>

datatype ('f, 'c) instrument_option =
    WithDescription string
  | WithUnit string
  | WithExplicitBucketBoundaries "'f list"
  | WithFloat64Callback 'c

type_synonym ('f, 'c, 'i, 's) instrument_maker = "string \<Rightarrow> ('f, 'c) instrument_option list \<Rightarrow> ('i, 's) io"

record ('f, 'c, 'i, 's) otel_meter =
  Int64Counter :: "('f, 'c, 'i, 's) instrument_maker"
  Float64Counter :: "('f, 'c, 'i, 's) instrument_maker"
  Float64Histogram :: "('f, 'c, 'i, 's) instrument_maker"
  Int64Gauge :: "('f, 'c, 'i, 's) instrument_maker"
  Float64ObservableGauge :: "('f, 'c, 'i, 's) instrument_maker"

type_synonym ('f, 'c, 'i, 's) meter_provider = "string \<Rightarrow> ('f, 'c, 'i, 's) otel_meter"

section \<open>The registry\<close>

record ('f, 'c, 'i, 's) metrics_Registry =
  mr_meter :: "('f, 'c, 'i, 's) otel_meter"

text \<open>The package variable \<open>global\<close> is \<open>nil\<close> until \<open>Init\<close> has run.\<close>

type_synonym ('f, 'c, 'i, 's) global_registry = "('f, 'c, 'i, 's) metrics_Registry option"

definition metrics_Init ::
  "('f, 'c, 'i, 's) meter_provider \<Rightarrow> ('f, 'c, 'i, 's) global_registry \<Rightarrow> ('f, 'c, 'i, 's) global_registry" where
  "metrics_Init mp glob = Some \<lparr>mr_meter = mp ''parkhub''\<rparr>"

definition Global :: "('f, 'c, 'i, 's) global_registry \<Rightarrow> ('f, 'c, 'i, 's) global_registry" where
  "Global glob = glob"

text \<open>A method on a \<open>nil\<close> registry panics when it reads \<open>r.meter\<close>.\<close>

definition on_meter ::
  "('f, 'c, 'i, 's) global_registry \<Rightarrow> (('f, 'c, 'i, 's) otel_meter \<Rightarrow> ('a, 's) io) \<Rightarrow> 's \<Rightarrow> 'a outcome \<times> 's" where
  "on_meter r f s = (case r of
     None \<Rightarrow> (Panicked ''runtime error: invalid memory address or nil pointer dereference'', s)
   | Some reg \<Rightarrow> (case f (mr_meter reg) s of (res, s') \<Rightarrow> (Returned res, s')))"

definition metrics_Counter where
  "metrics_Counter r name description unt =
     on_meter r (\<lambda>m. Int64Counter m name [WithDescription description, WithUnit unt])"

definition metrics_FloatCounter where
  "metrics_FloatCounter r name description unt =
     on_meter r (\<lambda>m. Float64Counter m name [WithDescription description, WithUnit unt])"

definition metrics_Histogram where
  "metrics_Histogram r name description unt boundaries =
     on_meter r (\<lambda>m.
       let opts = [WithDescription description, WithUnit unt];
           opts = (if 0 < length boundaries then opts @ [WithExplicitBucketBoundaries boundaries] else opts)
       in Float64Histogram m name opts)"

definition metrics_Gauge where
  "metrics_Gauge r name description unt =
     on_meter r (\<lambda>m. Int64Gauge m name [WithDescription description, WithUnit unt])"

definition metrics_FloatGauge where
  "metrics_FloatGauge r name description unt f =
     on_meter r (\<lambda>m.
       bind_io (Float64ObservableGauge m name [WithDescription description, WithUnit unt, WithFloat64Callback f])
         (\<lambda>_. return_io ()))"

section \<open>What the programs rely on\<close>

text \<open>The last \<open>Init\<close> decides which provider the instruments come from.\<close>

lemma last_Init_wins: "fold metrics_Init mps glob = (if mps = [] then glob else metrics_Init (last mps) None)"
  by (induction mps arbitrary: glob) (simp_all add: metrics_Init_def)

lemmas instrument_defs = metrics_Counter_def metrics_FloatCounter_def metrics_Histogram_def
  metrics_Gauge_def metrics_FloatGauge_def

text \<open>A registry taken before \<open>Init\<close> is of no use: every method panics and changes nothing.\<close>

lemma instruments_before_Init:
  "\<exists>v. metrics_Counter (Global None) name d u s = (Panicked v, s)"
  "\<exists>v. metrics_FloatCounter (Global None) name d u s = (Panicked v, s)"
  "\<exists>v. metrics_Histogram (Global None) name d u bs s = (Panicked v, s)"
  "\<exists>v. metrics_Gauge (Global None) name d u s = (Panicked v, s)"
  "\<exists>v. metrics_FloatGauge (Global None) name d u f s = (Panicked v, s)"
  by (simp_all add: instrument_defs on_meter_def Global_def)

text \<open>
  After it a method never panics, and asks the meter of the last provider; an error of the
  meter is the method's error.
\<close>

lemma instruments_after_Init:
  assumes "mps \<noteq> []"
  shows "on_meter (Global (fold metrics_Init mps glob)) f s =
    map_prod Returned id (f (last mps ''parkhub'') s)"
  using assms
  by (simp add: last_Init_wins Global_def on_meter_def metrics_Init_def map_prod_def split: prod.split)

text \<open>A float gauge keeps nothing of the instrument but whether there is one.\<close>

lemma float_gauge_drops_instrument:
  assumes "Float64ObservableGauge (mr_meter reg) name
      [WithDescription d, WithUnit u, WithFloat64Callback f] s = (res, s')"
  shows "metrics_FloatGauge (Some reg) name d u f s = (Returned (map_sum id (\<lambda>_. ()) res), s')"
  using assms by (cases res) (simp_all add: metrics_FloatGauge_def on_meter_def bind_io_run)

end
