(* ===== verification/Spec2Isabelle.thy ===== *)
theory Spec2Isabelle
  imports Sms_Props Auth_Races Device_Races Lane_Config Site_Calls Identity_Props Boot Metrics
begin

text \<open>
  Verification of the ParkHub API, the Go back end of a parking-management system.

  The program. Four domains under \<open>src/internal/domains\<close> (\<open>identity\<close>, \<open>sms\<close>, \<open>parking\<close>, \<open>iot\<close>) are
  built alike: a gRPC server (\<open>grpc/\<close>) checks a request and translates it, a service (\<open>service/\<close>)
  runs the operation on domain entities (\<open>domain/\<close>), a repository (\<open>repository/\<close>) translates
  entities to rows, and a DAO (\<open>repository/dao/\<close>) or a cache (\<open>repository/cache/\<close>) calls GORM or
  Redis. Domain errors are sentinels (\<open>errs/\<close>) that the server maps to status codes
  (\<open>pkg/grpcutil\<close>). \<open>cmd/monolith\<close> runs \<open>sms\<close>, \<open>parking\<close> and \<open>iot\<close> behind one chain of interceptors
  (\<open>internal/middleware\<close>); the lane service of \<open>parking\<close> calls the device service of \<open>iot\<close> in
  process. \<open>services/identity\<close> and \<open>services/sms\<close> are the two domains as programs of their own; the
  identity service calls the SMS service over gRPC.

  How it is modelled. An operation that returns an error or touches the outside is an action
  \<open>('a, 's) io\<close>: world in, error or value and world out (\<open>Go_Prelude\<close>). The world \<open>'s\<close> is
  arbitrary: the database handle, the Redis client, the clock, \<open>uuid\<close>, \<open>bcrypt\<close> and the JWT library
  are arguments (records of actions on \<open>'s\<close>), and what the code relies on is a locale: \<open>gorm_table\<close>,
  \<open>redis_db\<close>, \<open>go_world\<close>, \<open>jwt_rs256\<close>, \<open>device_tx\<close> (transactions), \<open>lot_db\<close> (sums), \<open>sms_store\<close> (the messages sent). Each locale is
  interpreted on a reference implementation, on which the witnesses run. What \<open>LIKE\<close> matches is a
  parameter \<open>like\<close> of the tables, of which nothing is assumed, since it is up to the collation. Which
  rows an update counts as changed is left to the database within the bounds of \<open>gorm_table\<close>, and
  the properties of single updates state both outcomes (\<open>Entity_Store.modify_counted\<close>). A Go interface is a
  record of actions and a constructor such as \<open>NewTenantService\<close> fills it in, so the layers are
  composed in the model as the \<open>grpc/register.go\<close> files compose them (\<open>tenant_server\<close>,
  \<open>lot_server\<close>, \<open>lane_server\<close>, \<open>device_server\<close>, \<open>auth_service\<close>).

  Theories and the code they model.
  \<^item> \<open>Go_Prelude\<close>, \<open>Go_Text\<close>, \<open>Go_Float\<close>: errors and \<open>errors.Is\<close>, the sentinels of the four \<open>errs\<close>
    packages, the action combinators, machine integers, the parts of \<open>strconv\<close>, \<open>time\<close>, \<open>math\<close> and
    \<open>strings\<close> the code calls. \<open>Grpc_Util\<close>: \<open>pkg/grpcutil\<close>, \<open>pkg/identityctx\<close>, pagination.
  \<^item> \<open>Gorm\<close>, \<open>Redis\<close>: the two storage interfaces, their laws and reference implementations.
    \<open>Entity_Store\<close>: what services rely on in a repository (\<open>entity_store\<close>, \<open>entity_store_del\<close>), and
    that a DAO on a GORM table provides it (\<open>gorm_entity\<close>). \<open>Scoped_Store\<close>: rows owned by a tenant or
    a lot (\<open>scoped_entity\<close>), from which isolation and table invariants follow. \<open>Part_World\<close>,
    \<open>Worlds\<close>: a table in one part of a larger world.
  \<^item> \<open>Tenant_Store\<close>, \<open>Tenant_Service\<close>, \<open>Tenant_Correct\<close>, \<open>Tenant_Props\<close>; \<open>User_Store\<close>,
    \<open>User_Service\<close>, \<open>User_Correct\<close>, \<open>User_Props\<close>: tenants and users of \<open>internal/domains/identity\<close>.
  \<^item> \<open>Sms\<close>, \<open>Sms_Props\<close>: \<open>internal/domains/sms\<close>, with its Lua script and the mock gateway.
  \<^item> \<open>Jwt\<close>, \<open>Auth\<close>, \<open>Auth_Correct\<close>, \<open>Auth_Props\<close>: tokens, the RS256 signer, refresh tokens and the
    authentication service, and SMS login as \<open>services/identity\<close> does it over the SMS service.
  \<^item> \<open>Device_Store\<close>, \<open>Device_Service\<close>, \<open>Device_Correct\<close>, \<open>Device_Rpcs\<close>, \<open>Device_Props\<close>:
    \<open>internal/domains/iot\<close>, with its transactions.
  \<^item> \<open>Device_Races\<close>: device calls whose load and write are steps of their own and interleave.
    \<open>Interleave\<close>: operations as sequences of atomic actions, pools of them and their schedules;
    \<open>Auth_Races\<close>: the operations of the authentication service in such a pool.
  \<^item> \<open>Lot_Store\<close>, \<open>Lot_Service\<close>, \<open>Lot_Props\<close>, \<open>Lot_Stats\<close>, \<open>Lot_Runs\<close>; \<open>Lane_Store\<close>,
    \<open>Lane_Service\<close>, \<open>Lane_Correct\<close>, \<open>Lane_Props\<close>, \<open>Lane_Update\<close>, \<open>Lane_Config\<close>, \<open>Lane_Runs\<close>: lots and
    lanes of \<open>internal/domains/parking\<close>. \<open>Site\<close> is a world with the tables of lots, lanes and devices.
  \<^item> \<open>Logging\<close>: \<open>pkg/slogutil\<close>. \<open>Interceptors\<close>: \<open>internal/middleware\<close> and the chains of the three
    programs. \<open>Health\<close>: \<open>internal/health\<close>. \<open>Site_Calls\<close>: requests that come in through the
    interceptors to the services of a site.
  \<^item> \<open>Identity_Service\<close>, \<open>Identity_Calls\<close>, \<open>Identity_Props\<close>: \<open>services/identity\<close> as a whole, its
    three services on one database (\<open>identity_services\<close>), every RPC by its full method name
    (\<open>identity_handle\<close>, \<open>method_of\<close>) and calls behind its interceptors (\<open>identity_call\<close>).
  \<^item> \<open>Config\<close>, \<open>Service_Config\<close>: the configurations of the three programs. \<open>Boot\<close>:
    \<open>internal/registry\<close>, the \<open>RegisterServices\<close> functions, \<open>pkg/telemetry\<close>, and \<open>main\<close> and \<open>run\<close> of
    the programs as a log of steps that may fail. \<open>Metrics\<close>: \<open>pkg/metrics\<close>.

  What is shown. For each domain: an invariant of its table under every sequence of RPCs, each
  RPC on every branch, and the round trips; these rest on the load-change-save lemma of
  \<open>Entity_Store\<close> and on the ownership lemmas of \<open>Scoped_Store\<close>. Across components:
  \<^item> \<open>Site_Calls.site_tenant_isolation\<close>: requests that do not claim a tenant leave its lots, lanes
    and devices as they are, through interceptors, servers, services, repositories and DAOs. The
    invariant is carried by \<open>lot_steps\<close>, \<open>lane_steps\<close> and \<open>device_steps\<close>, one interface per service
    that says what an invariant needs of its operations; the table invariants use the same.
  \<^item> \<open>Lane_Update.update_lanes_refines\<close>: a successful \<open>UpdateLanes\<close>, a sequence of single deletions,
    insertions and changes with bindings of devices in between, is the replacement of the lanes of
    the lot by those requested, in the abstract.
  \<^item> \<open>Auth_Props\<close>: no token without credentials, refresh tokens and SMS codes that work once, over
    the user table, Redis and the signer.
  \<^item> \<open>Identity_Props\<close>: whatever is called, the tables of the identity service stay valid, and without
    a caller nothing changes but the times of logins; but any caller, of any role, sets any
    password, since no service looks at the role.
  \<^item> Calls that overlap: in every interleaving a refresh token is exchanged at most once
    (\<open>Auth_Races\<close>); device calls keep their table and the tenants apart, but a call can
    undo what another has answered (\<open>Device_Races\<close>).
  \<^item> \<open>Interceptors.interceptor_chain\<close>, \<open>Health.shutdown_not_serving\<close> and \<open>Boot.monolith_start\<close>:
    what is around the services.

  Bounds and termination. No definition uses fuel: every loop of the modelled code is over a list
  or a number and is structural recursion, or has a measure (\<open>duration_groups\<close>, \<open>big_Bytes\<close>,
  \<open>trim_left\<close>). The one loop without end, \<open>Watch\<close> of the health service, is a step relation
  (\<open>health_step\<close>). Conversions to \<open>int32\<close>, page arithmetic and durations wrap as in Go; counters
  of rows and of an import stay below \<open>2^63\<close> and are \<open>int\<close>. A \<open>float64\<close> is the rational it denotes.
  The order in which Go visits a map is an argument (\<open>UpdateLanes\<close>, \<open>SetNotServing\<close>).

  Idealised.
  \<^item> \<open>=\<close> and unique keys compare texts byte for byte, as a binary collation does. The collation in
    \<open>docker-compose.yml\<close>, \<open>utf8mb4_unicode_ci\<close>, ignores case and accents there too, so names that
    differ in case only are one name for the deployed database and two for the model.
  \<^item> The database and Redis answer: an operation fails when a key is taken or a row is missing, and
    not because a server is down. Column widths are not enforced.
  \<^item> A token text that the signer did not issue does not parse (\<open>jwt_rs256\<close>), so other spellings of
    the base64 of an issued token are left out.

  Not modelled.
  \<^item> Concurrency of all handlers: an RPC is one step but for the device calls on one device, the
    operations of the authentication service and the health service, which interleave. Statements,
    transactions and scripts are atomic on their servers. The data race on \<open>ready\<close> in \<open>main.go\<close>.
  \<^item> \<open>context.Context\<close> deadlines and cancellation, except the end of a \<open>Watch\<close>. The lines the services log.
  \<^item> The transport, protobuf encoding, generated code, mocks, migrations, HTTP servers and their muxes
    (an empty metrics path makes \<open>http.ServeMux\<close> panic during the start).
  \<^item> The files of \<open>services/identity\<close> and \<open>services/sms\<close> that repeat a file of
    \<open>internal/domains\<close>, \<open>internal/health\<close>, \<open>internal/registry\<close> or \<open>internal/middleware\<close> have no
    definitions of their own; what differs is modelled (configuration, open methods, chain, start,
    SMS login, the tenant service without a parking counter).
\<close>

end
